(* ===== verification/Prelude.thy ===== *)
theory Prelude
  imports Main "HOL-Library.Word" "HOL-Library.List_Lexorder" "HOL-Library.Char_ord"
    "HOL-Library.Product_Lexorder"
begin

text \<open>
  Shared vocabulary of the development: identifiers, instants and byte strings, results
  with exceptions as values, tables as lists of rows with a primary key, Python
  dictionaries as association lists, and the string functions of the standard library
  the program uses. Strings are lists of characters; the program's normalisation functions are
  modelled on the ASCII letters.
\<close>

section \<open>Collections of facts\<close>

named_theorems registry_defs \<open>the literal task and step names\<close>
named_theorems txn_defs \<open>definitions of transactions\<close>
named_theorems frame \<open>what an operation leaves unchanged\<close>

section \<open>Basic types\<close>

type_synonym uuid = "128 word"
type_synonym instant = int
type_synonym bytes = "8 word list"
type_synonym ('e, 'a) result = "'e + 'a"

section \<open>Results\<close>

primrec rbind :: "('e, 'a) result \<Rightarrow> ('a \<Rightarrow> ('e, 'b) result) \<Rightarrow> ('e, 'b) result" where
  "rbind (Inl e) f = Inl e"
| "rbind (Inr x) f = f x"

definition guard_that :: "bool \<Rightarrow> 'e \<Rightarrow> ('e, unit) result" where
  "guard_that b e = (if b then Inr () else Inl e)"

definition require :: "'a option \<Rightarrow> 'e \<Rightarrow> ('e, 'a) result" where
  "require x e = (case x of None \<Rightarrow> Inl e | Some y \<Rightarrow> Inr y)"

lemma rbind_Inr_iff: "rbind m f = Inr y \<longleftrightarrow> (\<exists>x. m = Inr x \<and> f x = Inr y)"
  by (cases m) auto

lemma rbind_Inl_iff: "rbind m f = Inl e \<longleftrightarrow> m = Inl e \<or> (\<exists>x. m = Inr x \<and> f x = Inl e)"
  by (cases m) auto

lemma guard_that_iff:
  "guard_that b e = Inr u \<longleftrightarrow> b"
  "guard_that b e = Inl e' \<longleftrightarrow> \<not> b \<and> e' = e"
  by (auto simp: guard_that_def)

lemma require_iff:
  "require x e = Inr y \<longleftrightarrow> x = Some y"
  "require x e = Inl e' \<longleftrightarrow> x = None \<and> e' = e"
  by (auto simp: require_def split: option.splits)

lemmas result_iffs = rbind_Inr_iff rbind_Inl_iff guard_that_iff require_iff

lemma guard_that_simps [simp]:
  "guard_that True e = Inr ()"
  "guard_that False e = Inl e"
  by (simp_all add: guard_that_def)

lemma require_simps [simp]:
  "require None e = Inl e"
  "require (Some y) e = Inr y"
  by (simp_all add: require_def)

section \<open>Tables\<close>

text \<open>
  A table is the list of its rows; \<open>key\<close> reads the primary key of a row. The four
  operations are the statements the program issues: select one row by key, insert, update
  the row with a key, delete the rows that satisfy a condition.
\<close>

definition select_row :: "('r \<Rightarrow> 'k) \<Rightarrow> 'k \<Rightarrow> 'r list \<Rightarrow> 'r option" where
  "select_row key k rows = find (\<lambda>r. key r = k) rows"

definition insert_row :: "'r \<Rightarrow> 'r list \<Rightarrow> 'r list" where
  "insert_row r rows = rows @ [r]"

definition update_row :: "('r \<Rightarrow> 'k) \<Rightarrow> 'k \<Rightarrow> ('r \<Rightarrow> 'r) \<Rightarrow> 'r list \<Rightarrow> 'r list" where
  "update_row key k f rows = map (\<lambda>r. if key r = k then f r else r) rows"

definition update_where :: "('r \<Rightarrow> bool) \<Rightarrow> ('r \<Rightarrow> 'r) \<Rightarrow> 'r list \<Rightarrow> 'r list" where
  "update_where p f rows = map (\<lambda>r. if p r then f r else r) rows"

definition delete_where :: "('r \<Rightarrow> bool) \<Rightarrow> 'r list \<Rightarrow> 'r list" where
  "delete_where p rows = filter (\<lambda>r. \<not> p r) rows"

definition exists_row :: "('r \<Rightarrow> bool) \<Rightarrow> 'r list \<Rightarrow> bool" where
  "exists_row p rows = list_ex p rows"

definition keys_of :: "('r \<Rightarrow> 'k) \<Rightarrow> 'r list \<Rightarrow> 'k set" where
  "keys_of key rows = key ` set rows"

definition unique_by :: "('r \<Rightarrow> 'k) \<Rightarrow> 'r list \<Rightarrow> bool" where
  "unique_by key rows = distinct (map key rows)"

lemma keys_ofI: "r \<in> set rows \<Longrightarrow> key r \<in> keys_of key rows"
  by (simp add: keys_of_def)

lemma exists_row_iff: "exists_row p rows \<longleftrightarrow> (\<exists>r\<in>set rows. p r)"
  by (simp add: exists_row_def list_ex_iff)

lemma select_row_Nil [simp]: "select_row key k [] = None"
  by (simp add: select_row_def)

lemma select_row_Cons:
  "select_row key k (r # rows) = (if key r = k then Some r else select_row key k rows)"
  by (simp add: select_row_def)

lemma select_row_Some: "select_row key k rows = Some r \<Longrightarrow> r \<in> set rows \<and> key r = k"
  by (auto simp: select_row_def find_Some_iff)

lemma select_row_mem: "select_row key k rows = Some r \<Longrightarrow> r \<in> set rows"
  by (drule select_row_Some) simp

lemma select_row_key: "select_row key k rows = Some r \<Longrightarrow> key r = k"
  by (drule select_row_Some) simp

lemma select_row_None: "select_row key k rows = None \<longleftrightarrow> k \<notin> keys_of key rows"
  by (auto simp: select_row_def find_None_iff keys_of_def)

lemma select_row_unique:
  "unique_by key rows \<Longrightarrow> r \<in> set rows \<Longrightarrow> select_row key (key r) rows = Some r"
  by (induction rows) (auto simp: select_row_Cons unique_by_def)

lemma select_insert_row:
  "select_row key k (insert_row r rows) =
     (case select_row key k rows of Some x \<Rightarrow> Some x | None \<Rightarrow> if key r = k then Some r else None)"
  by (induction rows) (auto simp: select_row_Cons insert_row_def)

lemma select_update_row:
  assumes "\<And>r. key (f r) = key r"
  shows "select_row key k' (update_row key k f rows) =
     (if k' = k then map_option f (select_row key k rows) else select_row key k' rows)"
  by (induction rows) (auto simp: select_row_Cons update_row_def assms)

lemma select_update_where:
  assumes "\<And>r. key (f r) = key r"
  shows "select_row key k (update_where p f rows) =
     map_option (\<lambda>r. if p r then f r else r) (select_row key k rows)"
  by (induction rows) (auto simp: select_row_Cons update_where_def assms)

lemma select_delete_where:
  "unique_by key rows \<Longrightarrow> select_row key k (delete_where p rows) =
     (case select_row key k rows of None \<Rightarrow> None | Some r \<Rightarrow> if p r then None else Some r)"
proof (induction rows)
  case Nil
  then show ?case by (simp add: delete_where_def)
next
  case (Cons r rows)
  then have "select_row key (key r) rows = None"
    by (auto simp: select_row_None keys_of_def unique_by_def)
  with Cons show ?case
    by (auto simp: select_row_Cons delete_where_def unique_by_def split: option.splits)
qed

lemma select_delete_key:
  "select_row key k' (delete_where (\<lambda>r. key r = k) rows) = (if k' = k then None else select_row key k' rows)"
  by (induction rows) (auto simp: select_row_Cons delete_where_def)

lemma set_insert_row [simp]: "set (insert_row r rows) = insert r (set rows)"
  by (simp add: insert_row_def)

lemma set_delete_where [simp]: "set (delete_where p rows) = {r \<in> set rows. \<not> p r}"
  by (simp add: delete_where_def)

lemma set_update_row: "set (update_row key k f rows) = (\<lambda>r. if key r = k then f r else r) ` set rows"
  by (simp add: update_row_def)

lemma set_update_where: "set (update_where p f rows) = (\<lambda>r. if p r then f r else r) ` set rows"
  by (simp add: update_where_def)

lemma keys_insert_row [simp]: "keys_of key (insert_row r rows) = insert (key r) (keys_of key rows)"
  by (simp add: keys_of_def)

lemma map_update_row:
  "(\<And>r. g (f r) = g r) \<Longrightarrow> map g (update_row key k f rows) = map g rows"
  by (simp add: update_row_def)

lemma keys_update_row [simp]:
  "(\<And>r. key (f r) = key r) \<Longrightarrow> keys_of key (update_row key' k f rows) = keys_of key rows"
  by (simp add: keys_of_def map_update_row flip: set_map)

lemma map_update_where:
  "(\<And>r. g (f r) = g r) \<Longrightarrow> map g (update_where p f rows) = map g rows"
  by (simp add: update_where_def)

lemma unique_update_row [simp]:
  "(\<And>r. g (f r) = g r) \<Longrightarrow> unique_by g (update_row key k f rows) = unique_by g rows"
  by (simp add: unique_by_def map_update_row)

lemma unique_update_where [simp]:
  "(\<And>r. g (f r) = g r) \<Longrightarrow> unique_by g (update_where p f rows) = unique_by g rows"
  by (simp add: unique_by_def map_update_where)

lemma unique_insert_row [simp]:
  "unique_by key (insert_row r rows) \<longleftrightarrow> key r \<notin> keys_of key rows \<and> unique_by key rows"
  by (auto simp: unique_by_def insert_row_def keys_of_def)

lemma unique_delete_where [simp]: "unique_by key rows \<Longrightarrow> unique_by key (delete_where p rows)"
  by (simp add: unique_by_def delete_where_def distinct_map_filter)

lemma keys_delete_where_subset: "keys_of key (delete_where p rows) \<subseteq> keys_of key rows"
  by (auto simp: keys_of_def)

text \<open>Writing back one loaded row, as the unit of work does when a transaction commits.\<close>

definition replace_row :: "('r \<Rightarrow> 'k) \<Rightarrow> 'r \<Rightarrow> 'r list \<Rightarrow> 'r list" where
  "replace_row key x rows = update_row key (key x) (\<lambda>_. x) rows"

lemma select_replace_row:
  "select_row key k (replace_row key x rows) =
     (if k = key x then map_option (\<lambda>_. x) (select_row key k rows) else select_row key k rows)"
  by (induction rows) (auto simp: select_row_Cons replace_row_def update_row_def)

lemma select_replace_row_same [simp]:
  "select_row key k rows = Some r \<Longrightarrow> key x = k \<Longrightarrow> select_row key k (replace_row key x rows) = Some x"
  by (simp add: select_replace_row)

lemma select_replace_row_other [simp]:
  "k \<noteq> key x \<Longrightarrow> select_row key k (replace_row key x rows) = select_row key k rows"
  by (simp add: select_replace_row)

lemma map_key_replace_row [simp]: "map key (replace_row key x rows) = map key rows"
  by (simp add: replace_row_def update_row_def)

lemma unique_replace_row [simp]: "unique_by key (replace_row key x rows) = unique_by key rows"
  by (simp add: unique_by_def)

lemma keys_replace_row [simp]: "keys_of key (replace_row key x rows) = keys_of key rows"
  by (simp add: keys_of_def flip: set_map)

lemma replace_row_id:
  assumes "unique_by key rows" and "select_row key k rows = Some x"
  shows "replace_row key x rows = rows"
proof -
  have "r = x" if "r \<in> set rows" "key r = key x" for r
    using assms that select_row_key[OF assms(2)] select_row_unique[OF assms(1) that(1)] by simp
  then have "(if key r = key x then x else r) = r" if "r \<in> set rows" for r
    using that by metis
  then have "map (\<lambda>r. if key r = key x then x else r) rows = rows" by (rule map_idI)
  then show ?thesis by (simp add: replace_row_def update_row_def)
qed

lemma replace_row_twice [simp]:
  "key x = key y \<Longrightarrow> replace_row key x (replace_row key y rows) = replace_row key x rows"
  by (auto simp: replace_row_def update_row_def)

lemma set_replace_row_subset: "set (replace_row key x rows) \<subseteq> insert x (set rows)"
  by (auto simp: replace_row_def update_row_def)

lemma in_replace_row:
  "r \<in> set (replace_row key x rows) \<Longrightarrow> r = x \<or> (r \<in> set rows \<and> key r \<noteq> key x)"
  by (auto simp: replace_row_def update_row_def split: if_splits)

text \<open>One page of a listing: \<^verbatim>\<open>offset((page - 1) * page_size).limit(page_size)\<close>.\<close>

definition page_slice :: "int \<Rightarrow> int \<Rightarrow> 'r list \<Rightarrow> 'r list" where
  "page_slice page page_size rows = take (nat page_size) (drop (nat ((page - 1) * page_size)) rows)"

lemma page_slice_subset: "set (page_slice page sz rows) \<subseteq> set rows"
  by (auto simp: page_slice_def dest: in_set_takeD in_set_dropD)

lemma length_page_slice: "0 \<le> sz \<Longrightarrow> int (length (page_slice page sz rows)) \<le> sz"
  by (simp add: page_slice_def)

text \<open>Consecutive pages of a listing, concatenated, are the listing's prefix.\<close>

lemma concat_pages:
  assumes "0 \<le> sz"
  shows "concat (map (\<lambda>p. page_slice (int p) sz rows) [1..<Suc n]) = take (n * nat sz) rows"
proof (induction n)
  case (Suc n)
  have "page_slice (int (Suc n)) sz rows = take (nat sz) (drop (n * nat sz) rows)"
    using assms by (simp add: page_slice_def nat_mult_distrib)
  moreover have "Suc n * nat sz = n * nat sz + nat sz" by simp
  ultimately show ?case using Suc by (simp add: take_add del: mult_Suc of_nat_Suc)
qed simp

section \<open>Text\<close>

text \<open>
  The strings of the model stand for ASCII strings: case mapping and white space are those of
  Python and of the database on ASCII characters.
\<close>

definition lower_char :: "char \<Rightarrow> char" where
  "lower_char c = (let n = (of_char c :: nat) in if 65 \<le> n \<and> n \<le> 90 then char_of (n + 32) else c)"

definition upper_char :: "char \<Rightarrow> char" where
  "upper_char c = (let n = (of_char c :: nat) in if 97 \<le> n \<and> n \<le> 122 then char_of (n - 32) else c)"

definition lower :: "string \<Rightarrow> string" where
  "lower s = map lower_char s"

definition upper :: "string \<Rightarrow> string" where
  "upper s = map upper_char s"

definition is_space :: "char \<Rightarrow> bool" where
  "is_space c = (let n = (of_char c :: nat) in (9 \<le> n \<and> n \<le> 13) \<or> (28 \<le> n \<and> n \<le> 32))"

definition strip_with :: "(char \<Rightarrow> bool) \<Rightarrow> string \<Rightarrow> string" where
  "strip_with p s = rev (dropWhile p (rev (dropWhile p s)))"

definition strip :: "string \<Rightarrow> string" where
  "strip s = strip_with is_space s"

definition sql_trim :: "string \<Rightarrow> string" where
  "sql_trim s = strip_with (\<lambda>c. c = CHR '' '') s"

definition not_blank :: "string \<Rightarrow> bool" where
  "not_blank s = (0 < length (sql_trim s))"

lemma of_char_lower_char:
  "(of_char (lower_char c) :: nat) =
     (if 65 \<le> (of_char c :: nat) \<and> (of_char c :: nat) \<le> 90 then of_char c + 32 else of_char c)"
  by (simp add: lower_char_def Let_def)

lemma lower_char_idem [simp]: "lower_char (lower_char c) = lower_char c"
  using of_char_lower_char[of c] by (auto simp: lower_char_def Let_def)

lemma lower_idem [simp]: "lower (lower s) = lower s"
  by (simp add: lower_def comp_def)

lemma of_char_upper_char:
  "(of_char (upper_char c) :: nat) =
     (if 97 \<le> (of_char c :: nat) \<and> (of_char c :: nat) \<le> 122 then of_char c - 32 else of_char c)"
  by (auto simp: upper_char_def Let_def)

lemma upper_char_idem [simp]: "upper_char (upper_char c) = upper_char c"
  using of_char_upper_char[of c] by (auto simp: upper_char_def Let_def)

lemma upper_idem [simp]: "upper (upper s) = upper s"
  by (simp add: upper_def comp_def)

lemma length_lower [simp]: "length (lower s) = length s"
  by (simp add: lower_def)

lemma length_upper [simp]: "length (upper s) = length s"
  by (simp add: upper_def)

lemma dropWhile_id: "(s \<noteq> [] \<Longrightarrow> \<not> p (hd s)) \<Longrightarrow> dropWhile p s = s"
  by (cases s) auto

lemma hd_dropWhile_neg: "dropWhile p s \<noteq> [] \<Longrightarrow> \<not> p (hd (dropWhile p s))"
  by (rule hd_dropWhile) (auto simp: dropWhile_eq_Nil_conv)

lemma last_dropWhile: "dropWhile p s \<noteq> [] \<Longrightarrow> last (dropWhile p s) = last s"
  by (induction s) auto

lemma strip_with_ends:
  assumes "strip_with p s \<noteq> []"
  shows "\<not> p (hd (strip_with p s))" and "\<not> p (last (strip_with p s))"
proof -
  let ?a = "dropWhile p s" and ?b = "dropWhile p (rev (dropWhile p s))"
  have b: "?b \<noteq> []" using assms by (simp add: strip_with_def)
  then have "last ?b = last (rev ?a)"
    by (rule last_dropWhile)
  have a: "?a \<noteq> []"
    using b by (cases "?a = []") simp_all
  with \<open>last ?b = last (rev ?a)\<close> have "hd (rev ?b) = hd ?a"
    using b by (simp add: hd_rev last_rev)
  then show "\<not> p (hd (strip_with p s))"
    using a by (simp add: strip_with_def hd_dropWhile_neg)
  show "\<not> p (last (strip_with p s))"
    using b by (simp add: strip_with_def last_rev hd_dropWhile_neg)
qed

lemma strip_with_id:
  assumes "s \<noteq> [] \<Longrightarrow> \<not> p (hd s)" and "s \<noteq> [] \<Longrightarrow> \<not> p (last s)"
  shows "strip_with p s = s"
  using assms by (cases "s = []") (simp_all add: strip_with_def dropWhile_id hd_rev)

lemma strip_with_idem [simp]: "strip_with p (strip_with p s) = strip_with p s"
  by (rule strip_with_id) (auto dest: strip_with_ends)

lemma strip_idem [simp]: "strip (strip s) = strip s"
  by (simp add: strip_def)

lemma set_strip_with: "set (strip_with p s) \<subseteq> set s"
  by (auto simp: strip_with_def dest!: set_dropWhileD)

lemma length_strip_with: "length (strip_with p s) \<le> length s"
  unfolding strip_with_def
  by (metis length_dropWhile_le length_rev le_trans)

section \<open>Dictionaries\<close>

text \<open>
  A \<^verbatim>\<open>dict[str, str]\<close> is an association list with distinct keys, in insertion order.
  Assignment to an existing key keeps its position, as Python does; equality of two
  dictionaries ignores the order.
\<close>

type_synonym ('k, 'v) dict = "('k \<times> 'v) list"

fun dict_set :: "'k \<Rightarrow> 'v \<Rightarrow> ('k, 'v) dict \<Rightarrow> ('k, 'v) dict" where
  "dict_set k v [] = [(k, v)]"
| "dict_set k v ((k', v') # d) = (if k' = k then (k, v) # d else (k', v') # dict_set k v d)"

definition dict_has :: "('k, 'v) dict \<Rightarrow> 'k \<Rightarrow> bool" where
  "dict_has d k = (k \<in> set (map fst d))"

definition dict_eq :: "('k, 'v) dict \<Rightarrow> ('k, 'v) dict \<Rightarrow> bool" where
  "dict_eq d e = (list_all (\<lambda>k. map_of d k = map_of e k) (map fst d @ map fst e))"

lemma map_of_dict_set [simp]: "map_of (dict_set k v d) = (map_of d)(k \<mapsto> v)"
  by (induction d) (auto simp: fun_eq_iff)

lemma keys_dict_set: "set (map fst (dict_set k v d)) = insert k (set (map fst d))"
proof (induction d)
  case (Cons p d)
  then show ?case by (cases p) auto
qed simp

lemma distinct_dict_set: "distinct (map fst d) \<Longrightarrow> distinct (map fst (dict_set k v d))"
proof (induction d)
  case (Cons p d)
  obtain k' v' where "p = (k', v')" by (cases p)
  with Cons show ?case using keys_dict_set[of k v d] by auto
qed simp

lemma dict_has_iff: "dict_has d k \<longleftrightarrow> map_of d k \<noteq> None"
  by (auto simp: dict_has_def map_of_eq_None_iff)

lemma dict_eq_iff: "dict_eq d e \<longleftrightarrow> map_of d = map_of e"
proof
  assume *: "dict_eq d e"
  show "map_of d = map_of e"
  proof
    fix k
    show "map_of d k = map_of e k"
    proof (cases "k \<in> set (map fst d @ map fst e)")
      case True
      with * show ?thesis by (simp add: dict_eq_def list_all_iff)
    next
      case False
      then have "map_of d k = None" and "map_of e k = None"
        by (auto simp: map_of_eq_None_iff)
      then show ?thesis by simp
    qed
  qed
qed (simp add: dict_eq_def list_all_iff)

section \<open>Canonical text of an identifier\<close>

text \<open>
  \<^verbatim>\<open>UUID.hex\<close> writes the 128-bit value as 32 lower-case hexadecimal digits, most
  significant first.
\<close>

definition hex_digit :: "nat \<Rightarrow> char" where
  "hex_digit n = char_of (if n < 10 then 48 + n else 87 + n)"

fun hex_digits :: "nat \<Rightarrow> nat \<Rightarrow> string" where
  "hex_digits 0 n = []"
| "hex_digits (Suc k) n = hex_digits k (n div 16) @ [hex_digit (n mod 16)]"

definition uuid_hex :: "uuid \<Rightarrow> string" where
  "uuid_hex u = hex_digits 32 (unat u)"

lemma hex_digit_inj: "m < 16 \<Longrightarrow> n < 16 \<Longrightarrow> hex_digit m = hex_digit n \<Longrightarrow> m = n"
proof -
  assume m: "m < 16" and n: "n < 16" and eq: "hex_digit m = hex_digit n"
  have "(of_char (hex_digit k) :: nat) = (if k < 10 then 48 + k else 87 + k)" if "k < 16" for k
    using that by (simp add: hex_digit_def)
  with m n eq have "(if m < 10 then 48 + m else 87 + m) = (if n < 10 then 48 + n else 87 + n)"
    by metis
  with m n show "m = n" by (simp split: if_splits)
qed

lemma length_hex_digits [simp]: "length (hex_digits k n) = k"
  by (induction k arbitrary: n) auto

lemma hex_digits_inj:
  "m < 16 ^ k \<Longrightarrow> n < 16 ^ k \<Longrightarrow> hex_digits k m = hex_digits k n \<Longrightarrow> m = n"
proof (induction k arbitrary: m n)
  case 0
  then show ?case by simp
next
  case (Suc k)
  then have "m div 16 < 16 ^ k" and "n div 16 < 16 ^ k"
    by (simp_all add: less_mult_imp_div_less mult.commute)
  with Suc have "m div 16 = n div 16" by simp
  moreover have "m mod 16 = n mod 16"
    using Suc.prems(3) by (intro hex_digit_inj) auto
  ultimately show ?case by (metis div_mult_mod_eq)
qed

lemma uuid_hex_inj: "uuid_hex u = uuid_hex v \<Longrightarrow> u = v"
proof -
  assume "uuid_hex u = uuid_hex v"
  moreover have "unat u < 16 ^ 32" and "unat v < 16 ^ 32"
    using unsigned_less[of u, where ?'a = nat] unsigned_less[of v, where ?'a = nat] by simp_all
  ultimately have "unat u = unat v"
    unfolding uuid_hex_def using hex_digits_inj by blast
  then show "u = v" by (rule word_unat_eq_iff [THEN iffD2])
qed

lemma length_uuid_hex [simp]: "length (uuid_hex u) = 32"
  by (simp add: uuid_hex_def)

section \<open>Decimal numbers\<close>

text \<open>\<^verbatim>\<open>str(n)\<close> of an integer.\<close>

fun nat_text :: "nat \<Rightarrow> string" where
  "nat_text n = (if n < 10 then [hex_digit n] else nat_text (n div 10) @ [hex_digit (n mod 10)])"

declare nat_text.simps [simp del]

definition int_text :: "int \<Rightarrow> string" where
  "int_text n = (if n < 0 then CHR ''-'' # nat_text (nat (- n)) else nat_text (nat n))"

lemma nat_text_not_Nil [simp]: "nat_text n \<noteq> []"
  by (subst nat_text.simps) simp

lemma nat_text_inj: "nat_text m = nat_text n \<Longrightarrow> m = n"
proof (induction m arbitrary: n rule: nat_text.induct)
  case (1 m)
  show ?case
  proof (cases "m < 10 \<or> n < 10")
    case True
    have "length (nat_text k) = 1 \<longleftrightarrow> k < 10" for k by (subst nat_text.simps) simp
    then have "m < 10" "n < 10" using True "1.prems" by metis+
    then have "hex_digit m = hex_digit n" using "1.prems" by (simp add: nat_text.simps)
    then show ?thesis using \<open>m < 10\<close> \<open>n < 10\<close> by (intro hex_digit_inj) simp_all
  next
    case False
    then have "nat_text (m div 10) = nat_text (n div 10)" "hex_digit (m mod 10) = hex_digit (n mod 10)"
      using "1.prems" by (simp_all add: nat_text.simps[of m] nat_text.simps[of n])
    then have "m div 10 = n div 10" "m mod 10 = n mod 10"
      using "1.IH"[of "n div 10"] False hex_digit_inj[of "m mod 10" "n mod 10"] by simp_all
    then show ?thesis by (metis div_mult_mod_eq)
  qed
qed

lemma int_text_inj: "0 \<le> m \<Longrightarrow> 0 \<le> n \<Longrightarrow> int_text m = int_text n \<Longrightarrow> m = n"
  using nat_text_inj[of "nat m" "nat n"] by (simp add: int_text_def)

end
