(* ===== verification/Models.thy ===== *)
theory Models
  imports Prelude
begin

text \<open>
  The persistence model (\<^verbatim>\<open>src/coder_manager/models\<close>): one record per mapped class, the
  status enumerations, and the database as the record of its tables. The
  \<^verbatim>\<open>StrEnum\<close> status classes of jobs, instances, members, templates, assignments,
  deployments and workspaces have the same four members and are one datatype here, with
  one type synonym per class. The audit columns \<^verbatim>\<open>created_at\<close> and \<^verbatim>\<open>updated_at\<close> are
  kept for jobs only, where the retry scan reads the creation instant.
  The table constraints that a commit enforces are executable predicates on whole tables.
\<close>

section \<open>Enumerations\<close>

datatype exec_status = PENDING | RUNNING | SUCCESS | ERROR

type_synonym job_status = exec_status
type_synonym instance_status = exec_status
type_synonym member_status = exec_status
type_synonym template_sync_status = exec_status
type_synonym template_assignment_status = exec_status
type_synonym template_deployment_status = exec_status
type_synonym workspace_status = exec_status

datatype instance_state = STARTED | STOPPED

datatype member_role = USER | ADMIN

datatype template_parameter_type = USER_PARAMETER | SYSTEM_PARAMETER

definition status_value :: "exec_status \<Rightarrow> string" where
  "status_value s = (case s of PENDING \<Rightarrow> ''pending'' | RUNNING \<Rightarrow> ''running''
     | SUCCESS \<Rightarrow> ''success'' | ERROR \<Rightarrow> ''error'')"

definition role_value :: "member_role \<Rightarrow> string" where
  "role_value r = (case r of USER \<Rightarrow> ''user'' | ADMIN \<Rightarrow> ''admin'')"

lemma status_value_inj [simp]: "status_value s = status_value t \<longleftrightarrow> s = t"
  by (cases s; cases t) (simp_all add: status_value_def)

section \<open>Rows\<close>

record job_execution =
  j_id :: uuid
  j_name :: string
  j_task_name :: string
  j_resource_type :: "string option"
  j_resource_id :: "uuid option"
  j_step :: string
  j_status :: job_status
  j_attempt :: int
  j_claimed_at :: "instant option"
  j_created_at :: instant
  j_updated_at :: instant

record inst =
  i_id :: uuid
  i_application :: string
  i_slug :: string
  i_action :: string
  i_status :: instance_status
  i_state :: instance_state
  i_password_enc :: "bytes option"
  i_password_candidate_enc :: "bytes option"
  i_argocd_application_name :: "string option"
  i_job_id :: "uuid option"
  i_step :: "string option"

record database =
  d_id :: uuid
  d_name :: string
  d_instance_max :: int
  d_host :: string
  d_port :: int
  d_database_name :: string
  d_username :: string
  d_password_enc :: bytes

record database_allocation =
  al_id :: uuid
  al_database_id :: uuid
  al_instance_id :: uuid
  al_schema_name :: string

record instance_kubernetes =
  k_instance_id :: uuid
  k_kubeconfig_enc :: bytes

record member =
  m_id :: uuid
  m_instance_id :: uuid
  m_username :: string
  m_role :: member_role
  m_action :: string
  m_status :: member_status

record template =
  t_id :: uuid
  t_display_name :: string
  t_name :: string
  t_git_url :: string
  t_source_path :: string
  t_branch :: string
  t_modules :: "string list"
  t_system_parameter_revision :: int
  t_action :: string
  t_sync_status :: template_sync_status
  t_job_id :: "uuid option"
  t_step :: "string option"

record template_image =
  im_id :: uuid
  im_template_id :: uuid
  im_registry_name :: string
  im_name :: string
  im_version :: string

record template_parameter =
  p_id :: uuid
  p_template_id :: uuid
  p_type :: template_parameter_type
  p_name :: string
  p_display_name :: string
  p_description :: string
  p_required :: "bool option"
  p_mutable :: "bool option"
  p_default_value :: "string option"

record template_parameter_system_value =
  sv_parameter_id :: uuid
  sv_value_enc :: bytes

record template_assignment =
  ta_id :: uuid
  ta_template_id :: uuid
  ta_instance_id :: uuid
  ta_action :: string
  ta_status :: template_assignment_status
  ta_job_id :: "uuid option"
  ta_step :: "string option"

record template_deployment =
  td_id :: uuid
  td_assignment_id :: uuid
  td_coder_organization_id :: "uuid option"
  td_coder_template_id :: "uuid option"
  td_coder_template_version_id :: "uuid option"
  td_target_commit :: "string option"
  td_applied_commit :: "string option"
  td_target_system_parameter_revision :: "int option"
  td_applied_system_parameter_revision :: "int option"
  td_status :: template_deployment_status

record workspace =
  w_id :: uuid
  w_name :: string
  w_instance_id :: uuid
  w_template_id :: uuid
  w_member_id :: uuid
  w_image_id :: uuid
  w_modules :: "string list"
  w_parameters :: "(string, string) dict"
  w_parameters_revision :: int
  w_applied_parameters_revision :: "int option"
  w_coder_workspace_id :: "uuid option"
  w_coder_workspace_build_id :: "uuid option"
  w_action :: string
  w_status :: workspace_status
  w_job_id :: "uuid option"
  w_step :: "string option"

section \<open>The database\<close>

record db =
  job_executions :: "job_execution list"
  instances :: "inst list"
  databases :: "database list"
  database_allocations :: "database_allocation list"
  instance_kubernetes_rows :: "instance_kubernetes list"
  members :: "member list"
  templates :: "template list"
  template_images :: "template_image list"
  template_parameters :: "template_parameter list"
  template_parameter_system_values :: "template_parameter_system_value list"
  template_assignments :: "template_assignment list"
  template_deployments :: "template_deployment list"
  workspaces :: "workspace list"

definition empty_db :: db where
  "empty_db = \<lparr>job_executions = [], instances = [], databases = [], database_allocations = [],
     instance_kubernetes_rows = [], members = [], templates = [], template_images = [],
     template_parameters = [], template_parameter_system_values = [], template_assignments = [],
     template_deployments = [], workspaces = []\<rparr>"

abbreviation job_of :: "db \<Rightarrow> uuid \<Rightarrow> job_execution option" where
  "job_of d k \<equiv> select_row j_id k (job_executions d)"

abbreviation instance_of :: "db \<Rightarrow> uuid \<Rightarrow> inst option" where
  "instance_of d k \<equiv> select_row i_id k (instances d)"

abbreviation database_of :: "db \<Rightarrow> uuid \<Rightarrow> database option" where
  "database_of d k \<equiv> select_row d_id k (databases d)"

abbreviation member_of :: "db \<Rightarrow> uuid \<Rightarrow> member option" where
  "member_of d k \<equiv> select_row m_id k (members d)"

abbreviation template_of :: "db \<Rightarrow> uuid \<Rightarrow> template option" where
  "template_of d k \<equiv> select_row t_id k (templates d)"

abbreviation image_of :: "db \<Rightarrow> uuid \<Rightarrow> template_image option" where
  "image_of d k \<equiv> select_row im_id k (template_images d)"

abbreviation assignment_of :: "db \<Rightarrow> uuid \<Rightarrow> template_assignment option" where
  "assignment_of d k \<equiv> select_row ta_id k (template_assignments d)"

abbreviation workspace_of :: "db \<Rightarrow> uuid \<Rightarrow> workspace option" where
  "workspace_of d k \<equiv> select_row w_id k (workspaces d)"

section \<open>Table constraints\<close>

text \<open>
  What a commit checks: the check constraints of every row and the unique constraints of
  the table. A violation is the \<^verbatim>\<open>IntegrityError\<close> the repositories translate.
\<close>

definition job_check :: "job_execution \<Rightarrow> bool" where
  "job_check j = (not_blank (j_name j) \<and> not_blank (j_task_name j) \<and> not_blank (j_step j)
     \<and> 0 \<le> j_attempt j)"

definition instance_check :: "inst \<Rightarrow> bool" where
  "instance_check i = (not_blank (i_action i) \<and> not_blank (i_application i)
     \<and> i_application i = upper (sql_trim (i_application i)))"

definition instances_ok :: "inst list \<Rightarrow> bool" where
  "instances_ok rows = (list_all instance_check rows \<and> unique_by i_id rows
     \<and> unique_by i_application rows \<and> unique_by i_slug rows
     \<and> distinct (List.map_filter i_argocd_application_name rows))"

definition database_check :: "database \<Rightarrow> bool" where
  "database_check d = (not_blank (d_name d) \<and> 0 < d_instance_max d \<and> not_blank (d_host d)
     \<and> 1 \<le> d_port d \<and> d_port d \<le> 65535 \<and> not_blank (d_database_name d)
     \<and> not_blank (d_username d))"

definition databases_ok :: "database list \<Rightarrow> bool" where
  "databases_ok rows = (list_all database_check rows \<and> unique_by d_id rows
     \<and> unique_by (\<lambda>d. lower (d_name d)) rows)"

definition allocation_check :: "database_allocation \<Rightarrow> bool" where
  "allocation_check a = not_blank (al_schema_name a)"

definition allocations_ok :: "database_allocation list \<Rightarrow> bool" where
  "allocations_ok rows = (list_all allocation_check rows \<and> unique_by al_id rows
     \<and> unique_by al_instance_id rows \<and> unique_by (\<lambda>a. (al_database_id a, al_schema_name a)) rows)"

definition member_check :: "member \<Rightarrow> bool" where
  "member_check m = (not_blank (m_username m) \<and> m_username m = lower (sql_trim (m_username m))
     \<and> not_blank (m_action m))"

definition members_ok :: "member list \<Rightarrow> bool" where
  "members_ok rows = (list_all member_check rows \<and> unique_by m_id rows
     \<and> unique_by (\<lambda>m. (m_instance_id m, m_username m)) rows)"

definition template_check :: "template \<Rightarrow> bool" where
  "template_check t = (not_blank (t_display_name t) \<and> not_blank (t_name t)
     \<and> t_name t = lower (sql_trim (t_name t)) \<and> not_blank (t_git_url t)
     \<and> not_blank (t_source_path t) \<and> not_blank (t_branch t) \<and> not_blank (t_action t)
     \<and> 0 \<le> t_system_parameter_revision t)"

definition templates_ok :: "template list \<Rightarrow> bool" where
  "templates_ok rows = (list_all template_check rows \<and> unique_by t_id rows
     \<and> unique_by (\<lambda>t. lower (t_name t)) rows)"

definition image_check :: "template_image \<Rightarrow> bool" where
  "image_check i = (not_blank (im_registry_name i)
     \<and> im_registry_name i = lower (sql_trim (im_registry_name i)) \<and> not_blank (im_name i)
     \<and> im_name i = lower (sql_trim (im_name i)) \<and> not_blank (im_version i))"

definition images_ok :: "template_image list \<Rightarrow> bool" where
  "images_ok rows = (list_all image_check rows \<and> unique_by im_id rows
     \<and> unique_by (\<lambda>i. (im_template_id i, im_registry_name i, im_name i, im_version i)) rows)"

definition parameter_check :: "template_parameter \<Rightarrow> bool" where
  "parameter_check p = (not_blank (p_name p) \<and> p_name p = lower (sql_trim (p_name p))
     \<and> not_blank (p_display_name p)
     \<and> (case p_type p of
          USER_PARAMETER \<Rightarrow> p_required p \<noteq> None \<and> p_mutable p \<noteq> None
        | SYSTEM_PARAMETER \<Rightarrow> p_required p = None \<and> p_mutable p = None \<and> p_default_value p = None))"

definition parameters_ok :: "template_parameter list \<Rightarrow> bool" where
  "parameters_ok rows = (list_all parameter_check rows \<and> unique_by p_id rows
     \<and> unique_by (\<lambda>p. (p_template_id p, p_name p)) rows)"

definition assignment_check :: "template_assignment \<Rightarrow> bool" where
  "assignment_check a = (ta_action a \<in> {''creating'', ''created'', ''deleting''})"

definition assignments_ok :: "template_assignment list \<Rightarrow> bool" where
  "assignments_ok rows = (list_all assignment_check rows \<and> unique_by ta_id rows
     \<and> unique_by (\<lambda>a. (ta_template_id a, ta_instance_id a)) rows)"

definition workspace_check :: "workspace \<Rightarrow> bool" where
  "workspace_check w = (not_blank (w_name w) \<and> length (w_name w) \<le> 32 \<and> not_blank (w_action w)
     \<and> 0 \<le> w_parameters_revision w
     \<and> (case w_applied_parameters_revision w of None \<Rightarrow> True | Some r \<Rightarrow> 0 \<le> r))"

definition workspaces_ok :: "workspace list \<Rightarrow> bool" where
  "workspaces_ok rows = (list_all workspace_check rows \<and> unique_by w_id rows
     \<and> unique_by (\<lambda>w. (w_instance_id w, lower (w_name w))) rows)"

definition revision_ok :: "int option \<Rightarrow> bool" where
  "revision_ok r = (case r of None \<Rightarrow> True | Some n \<Rightarrow> 0 \<le> n)"

definition sha_ok :: "string option \<Rightarrow> bool" where
  "sha_ok c = (case c of None \<Rightarrow> True | Some s \<Rightarrow> length s = 40)"

definition deployment_check :: "template_deployment \<Rightarrow> bool" where
  "deployment_check t = (sha_ok (td_target_commit t) \<and> sha_ok (td_applied_commit t)
     \<and> revision_ok (td_target_system_parameter_revision t)
     \<and> revision_ok (td_applied_system_parameter_revision t))"

definition deployments_ok :: "template_deployment list \<Rightarrow> bool" where
  "deployments_ok rows = (list_all deployment_check rows \<and> unique_by td_id rows
     \<and> unique_by td_assignment_id rows)"

section \<open>Primary keys\<close>

text \<open>Every table the engine locks has at most one row per primary key.\<close>

definition keys_ok :: "db \<Rightarrow> bool" where
  "keys_ok d = (unique_by j_id (job_executions d) \<and> unique_by i_id (instances d)
     \<and> unique_by t_id (templates d) \<and> unique_by ta_id (template_assignments d)
     \<and> unique_by w_id (workspaces d))"

end
