(* ===== verification/Registry.thy ===== *)
theory Registry
  imports Models
begin

text \<open>
  The allowlist of durable steps (\<^verbatim>\<open>tasks/common/registry.py\<close>): step names, task names,
  the set of registered tasks and the dispatch of one step to the broker. Celery is
  outside the repository: which tasks its registry has loaded and whether a publication
  succeeds are the two fields of the parameter \<open>celery\<close>; accepted messages are
  appended to the broker queue.
\<close>

section \<open>Names\<close>

definition INSTANCE_CREATE_STEP_01 :: string where [registry_defs]:
  "INSTANCE_CREATE_STEP_01 = ''step_01_create_schema''"
definition INSTANCE_CREATE_STEP_02 :: string where [registry_defs]:
  "INSTANCE_CREATE_STEP_02 = ''step_02_create_instance''"
definition INSTANCE_CREATE_STEP_03 :: string where [registry_defs]:
  "INSTANCE_CREATE_STEP_03 = ''step_03_bootstrap_admin''"
definition INSTANCE_UPDATE_STEP_01 :: string where [registry_defs]:
  "INSTANCE_UPDATE_STEP_01 = ''step_01_update_instance''"
definition INSTANCE_UPDATE_STEP_02 :: string where [registry_defs]:
  "INSTANCE_UPDATE_STEP_02 = ''step_02_cleanup_users''"
definition INSTANCE_START_STEP_01 :: string where [registry_defs]:
  "INSTANCE_START_STEP_01 = ''step_01_start_instance''"
definition INSTANCE_STOP_STEP_01 :: string where [registry_defs]:
  "INSTANCE_STOP_STEP_01 = ''step_01_stop_workspaces''"
definition INSTANCE_STOP_STEP_02 :: string where [registry_defs]:
  "INSTANCE_STOP_STEP_02 = ''step_02_stop_instance''"
definition INSTANCE_DELETE_STEP_01 :: string where [registry_defs]:
  "INSTANCE_DELETE_STEP_01 = ''step_01_remove_workspaces''"
definition INSTANCE_DELETE_STEP_02 :: string where [registry_defs]:
  "INSTANCE_DELETE_STEP_02 = ''step_02_remove_instance''"
definition INSTANCE_DELETE_STEP_03 :: string where [registry_defs]:
  "INSTANCE_DELETE_STEP_03 = ''step_03_remove_schema''"
definition INSTANCE_DELETE_STEP_04 :: string where [registry_defs]:
  "INSTANCE_DELETE_STEP_04 = ''step_04_remove_local_configuration''"
definition WORKSPACE_CREATE_STEP_01 :: string where [registry_defs]:
  "WORKSPACE_CREATE_STEP_01 = ''step_01_create_workspace''"
definition WORKSPACE_UPDATE_STEP_01 :: string where [registry_defs]:
  "WORKSPACE_UPDATE_STEP_01 = ''step_01_update_workspace''"
definition WORKSPACE_DELETE_STEP_01 :: string where [registry_defs]:
  "WORKSPACE_DELETE_STEP_01 = ''step_01_delete_workspace''"
definition DATABASE_SYNC_STEP_01 :: string where [registry_defs]:
  "DATABASE_SYNC_STEP_01 = ''step_01_sync_database''"
definition TEMPLATE_SYNC_STEP_01 :: string where [registry_defs]:
  "TEMPLATE_SYNC_STEP_01 = ''step_01_sync_template''"
definition TEMPLATE_ASSIGNMENT_CREATE_STEP_01 :: string where [registry_defs]:
  "TEMPLATE_ASSIGNMENT_CREATE_STEP_01 = ''step_01_create_template''"
definition TEMPLATE_ASSIGNMENT_DELETE_STEP_01 :: string where [registry_defs]:
  "TEMPLATE_ASSIGNMENT_DELETE_STEP_01 = ''step_01_delete_template''"

definition INSTANCE_CREATE_STEP_01_TASK :: string where [registry_defs]:
  "INSTANCE_CREATE_STEP_01_TASK = ''coder_manager.instance.create.step_01_create_schema''"
definition INSTANCE_CREATE_STEP_02_TASK :: string where [registry_defs]:
  "INSTANCE_CREATE_STEP_02_TASK = ''coder_manager.instance.create.step_02_create_instance''"
definition INSTANCE_CREATE_STEP_03_TASK :: string where [registry_defs]:
  "INSTANCE_CREATE_STEP_03_TASK = ''coder_manager.instance.create.step_03_bootstrap_admin''"
definition INSTANCE_UPDATE_STEP_01_TASK :: string where [registry_defs]:
  "INSTANCE_UPDATE_STEP_01_TASK = ''coder_manager.instance.update.step_01_update_instance''"
definition INSTANCE_UPDATE_STEP_02_TASK :: string where [registry_defs]:
  "INSTANCE_UPDATE_STEP_02_TASK = ''coder_manager.instance.update.step_02_cleanup_users''"
definition INSTANCE_START_STEP_01_TASK :: string where [registry_defs]:
  "INSTANCE_START_STEP_01_TASK = ''coder_manager.instance.start.step_01_start_instance''"
definition INSTANCE_STOP_STEP_01_TASK :: string where [registry_defs]:
  "INSTANCE_STOP_STEP_01_TASK = ''coder_manager.instance.stop.step_01_stop_workspaces''"
definition INSTANCE_STOP_STEP_02_TASK :: string where [registry_defs]:
  "INSTANCE_STOP_STEP_02_TASK = ''coder_manager.instance.stop.step_02_stop_instance''"
definition INSTANCE_DELETE_STEP_01_TASK :: string where [registry_defs]:
  "INSTANCE_DELETE_STEP_01_TASK = ''coder_manager.instance.delete.step_01_remove_workspaces''"
definition INSTANCE_DELETE_STEP_02_TASK :: string where [registry_defs]:
  "INSTANCE_DELETE_STEP_02_TASK = ''coder_manager.instance.delete.step_02_remove_instance''"
definition INSTANCE_DELETE_STEP_03_TASK :: string where [registry_defs]:
  "INSTANCE_DELETE_STEP_03_TASK = ''coder_manager.instance.delete.step_03_remove_schema''"
definition INSTANCE_DELETE_STEP_04_TASK :: string where [registry_defs]:
  "INSTANCE_DELETE_STEP_04_TASK = ''coder_manager.instance.delete.step_04_remove_local_configuration''"
definition WORKSPACE_CREATE_STEP_01_TASK :: string where [registry_defs]:
  "WORKSPACE_CREATE_STEP_01_TASK = ''coder_manager.workspace.create.step_01_create_workspace''"
definition WORKSPACE_UPDATE_STEP_01_TASK :: string where [registry_defs]:
  "WORKSPACE_UPDATE_STEP_01_TASK = ''coder_manager.workspace.update.step_01_update_workspace''"
definition WORKSPACE_DELETE_STEP_01_TASK :: string where [registry_defs]:
  "WORKSPACE_DELETE_STEP_01_TASK = ''coder_manager.workspace.delete.step_01_delete_workspace''"
definition DATABASE_SYNC_STEP_01_TASK :: string where [registry_defs]:
  "DATABASE_SYNC_STEP_01_TASK = ''coder_manager.database.sync.step_01_sync_database''"
definition TEMPLATE_SYNC_STEP_01_TASK :: string where [registry_defs]:
  "TEMPLATE_SYNC_STEP_01_TASK = ''coder_manager.template.sync.step_01_sync_template''"
definition TEMPLATE_ASSIGNMENT_CREATE_STEP_01_TASK :: string where [registry_defs]:
  "TEMPLATE_ASSIGNMENT_CREATE_STEP_01_TASK = ''coder_manager.template.create.step_01_create_template''"
definition TEMPLATE_ASSIGNMENT_DELETE_STEP_01_TASK :: string where [registry_defs]:
  "TEMPLATE_ASSIGNMENT_DELETE_STEP_01_TASK = ''coder_manager.template.delete.step_01_delete_template''"

definition REGISTERED_STEP_NAMES :: "string list" where
  "REGISTERED_STEP_NAMES =
     [INSTANCE_CREATE_STEP_01_TASK, INSTANCE_CREATE_STEP_02_TASK, INSTANCE_CREATE_STEP_03_TASK,
      INSTANCE_UPDATE_STEP_01_TASK, INSTANCE_UPDATE_STEP_02_TASK, INSTANCE_START_STEP_01_TASK,
      INSTANCE_STOP_STEP_01_TASK, INSTANCE_STOP_STEP_02_TASK, INSTANCE_DELETE_STEP_01_TASK,
      INSTANCE_DELETE_STEP_02_TASK, INSTANCE_DELETE_STEP_03_TASK, INSTANCE_DELETE_STEP_04_TASK,
      WORKSPACE_CREATE_STEP_01_TASK, WORKSPACE_UPDATE_STEP_01_TASK, WORKSPACE_DELETE_STEP_01_TASK,
      DATABASE_SYNC_STEP_01_TASK, TEMPLATE_SYNC_STEP_01_TASK,
      TEMPLATE_ASSIGNMENT_CREATE_STEP_01_TASK, TEMPLATE_ASSIGNMENT_DELETE_STEP_01_TASK]"

section \<open>Dispatch\<close>

record celery =
  task_loaded :: "string \<Rightarrow> bool"
  delay_succeeds :: "string \<Rightarrow> uuid \<Rightarrow> bool"

type_synonym broker_queue = "(string \<times> uuid) list"

definition dispatch_registered_step ::
  "celery \<Rightarrow> string \<Rightarrow> uuid \<Rightarrow> broker_queue \<Rightarrow> broker_queue \<times> bool" where
  "dispatch_registered_step cel task_name job_id q =
     (if task_name \<notin> set REGISTERED_STEP_NAMES then (q, False)
      else if \<not> task_loaded cel task_name then (q, False)
      else if \<not> delay_succeeds cel task_name job_id then (q, False)
      else (q @ [(task_name, job_id)], True))"

lemma dispatch_queue:
  "set (fst (dispatch_registered_step cel t k q)) \<subseteq> insert (t, k) (set q)"
  by (auto simp: dispatch_registered_step_def)

lemma dispatch_registered:
  "snd (dispatch_registered_step cel t k q) \<Longrightarrow> t \<in> set REGISTERED_STEP_NAMES"
  by (auto simp: dispatch_registered_step_def split: if_splits)

lemma dispatch_only_registered:
  "\<forall>(t, k) \<in> set q. t \<in> set REGISTERED_STEP_NAMES \<Longrightarrow>
   \<forall>(t, k) \<in> set (fst (dispatch_registered_step cel t' k' q)). t \<in> set REGISTERED_STEP_NAMES"
  by (auto simp: dispatch_registered_step_def)

lemma registered_tasks [simp]:
  "INSTANCE_CREATE_STEP_01_TASK \<in> set REGISTERED_STEP_NAMES"
  "INSTANCE_CREATE_STEP_02_TASK \<in> set REGISTERED_STEP_NAMES"
  "INSTANCE_CREATE_STEP_03_TASK \<in> set REGISTERED_STEP_NAMES"
  "INSTANCE_UPDATE_STEP_01_TASK \<in> set REGISTERED_STEP_NAMES"
  "INSTANCE_UPDATE_STEP_02_TASK \<in> set REGISTERED_STEP_NAMES"
  "INSTANCE_START_STEP_01_TASK \<in> set REGISTERED_STEP_NAMES"
  "INSTANCE_STOP_STEP_01_TASK \<in> set REGISTERED_STEP_NAMES"
  "INSTANCE_STOP_STEP_02_TASK \<in> set REGISTERED_STEP_NAMES"
  "INSTANCE_DELETE_STEP_01_TASK \<in> set REGISTERED_STEP_NAMES"
  "INSTANCE_DELETE_STEP_02_TASK \<in> set REGISTERED_STEP_NAMES"
  "INSTANCE_DELETE_STEP_03_TASK \<in> set REGISTERED_STEP_NAMES"
  "INSTANCE_DELETE_STEP_04_TASK \<in> set REGISTERED_STEP_NAMES"
  "WORKSPACE_CREATE_STEP_01_TASK \<in> set REGISTERED_STEP_NAMES"
  "WORKSPACE_UPDATE_STEP_01_TASK \<in> set REGISTERED_STEP_NAMES"
  "WORKSPACE_DELETE_STEP_01_TASK \<in> set REGISTERED_STEP_NAMES"
  "DATABASE_SYNC_STEP_01_TASK \<in> set REGISTERED_STEP_NAMES"
  "TEMPLATE_SYNC_STEP_01_TASK \<in> set REGISTERED_STEP_NAMES"
  "TEMPLATE_ASSIGNMENT_CREATE_STEP_01_TASK \<in> set REGISTERED_STEP_NAMES"
  "TEMPLATE_ASSIGNMENT_DELETE_STEP_01_TASK \<in> set REGISTERED_STEP_NAMES"
  by (simp_all add: REGISTERED_STEP_NAMES_def)

end
