(* ===== verification/Execution.thy ===== *)
theory Execution
  imports Registry
begin

text \<open>
  The durable execution engine (\<^verbatim>\<open>tasks/common/execution.py\<close>,
  \<^verbatim>\<open>tasks/retry_job_executions.py\<close>, \<^verbatim>\<open>repositories/job_executions.py\<close>).
  A transaction that takes its rows \<^verbatim>\<open>with_for_update\<close> and commits is one function on
  the database; the result of a Python exception is the left summand, and a rolled back
  transaction leaves the database it was given. A worker holds an \<open>execution_claim\<close>
  between its transactions, so every transaction re-reads the job under lock and compares
  it with the claim (\<open>owned_execution\<close>).
\<close>

section \<open>World, errors, resources\<close>

record world =
  store :: db
  broker :: broker_queue

datatype task_error =
    RuntimeError string
  | TypeError string
  | IntegrityError
  | RemoteError string
  | TemplateTargetSyncError string
  | TemplateTargetClaimLostError
  | WorkspaceRemoteError string

datatype resource =
    RInstance inst
  | RTemplate template
  | RAssignment template_assignment
  | RWorkspace workspace

fun resource_job_id :: "resource \<Rightarrow> uuid option" where
  "resource_job_id (RInstance i) = i_job_id i"
| "resource_job_id (RTemplate t) = t_job_id t"
| "resource_job_id (RAssignment a) = ta_job_id a"
| "resource_job_id (RWorkspace x) = w_job_id x"

fun resource_action :: "resource \<Rightarrow> string" where
  "resource_action (RInstance i) = i_action i"
| "resource_action (RTemplate t) = t_action t"
| "resource_action (RAssignment a) = ta_action a"
| "resource_action (RWorkspace x) = w_action x"

fun resource_step :: "resource \<Rightarrow> string option" where
  "resource_step (RInstance i) = i_step i"
| "resource_step (RTemplate t) = t_step t"
| "resource_step (RAssignment a) = ta_step a"
| "resource_step (RWorkspace x) = w_step x"

fun resource_status :: "resource \<Rightarrow> exec_status" where
  "resource_status (RInstance i) = i_status i"
| "resource_status (RTemplate t) = t_sync_status t"
| "resource_status (RAssignment a) = ta_status a"
| "resource_status (RWorkspace x) = w_status x"

fun resource_key :: "resource \<Rightarrow> uuid" where
  "resource_key (RInstance i) = i_id i"
| "resource_key (RTemplate t) = t_id t"
| "resource_key (RAssignment a) = ta_id a"
| "resource_key (RWorkspace x) = w_id x"

fun resource_kind :: "resource \<Rightarrow> string" where
  "resource_kind (RInstance _) = ''instance''"
| "resource_kind (RTemplate _) = ''template''"
| "resource_kind (RAssignment _) = ''template_assignment''"
| "resource_kind (RWorkspace _) = ''workspace''"

text \<open>The \<^verbatim>\<open>isinstance\<close> chains that write the status or the step of the attached row.\<close>

fun set_resource_status :: "exec_status \<Rightarrow> resource \<Rightarrow> resource" where
  "set_resource_status s (RInstance i) = RInstance (i\<lparr>i_status := s\<rparr>)"
| "set_resource_status s (RTemplate t) = RTemplate (t\<lparr>t_sync_status := s\<rparr>)"
| "set_resource_status s (RAssignment a) = RAssignment (a\<lparr>ta_status := s\<rparr>)"
| "set_resource_status s (RWorkspace x) = RWorkspace (x\<lparr>w_status := s\<rparr>)"

fun set_resource_step :: "string option \<Rightarrow> resource \<Rightarrow> resource" where
  "set_resource_step s (RInstance i) = RInstance (i\<lparr>i_step := s\<rparr>)"
| "set_resource_step s (RTemplate t) = RTemplate (t\<lparr>t_step := s\<rparr>)"
| "set_resource_step s (RAssignment a) = RAssignment (a\<lparr>ta_step := s\<rparr>)"
| "set_resource_step s (RWorkspace x) = RWorkspace (x\<lparr>w_step := s\<rparr>)"

fun save_resource :: "resource \<Rightarrow> db \<Rightarrow> db" where
  "save_resource (RInstance i) d = d\<lparr>instances := replace_row i_id i (instances d)\<rparr>"
| "save_resource (RTemplate t) d = d\<lparr>templates := replace_row t_id t (templates d)\<rparr>"
| "save_resource (RAssignment a) d =
     d\<lparr>template_assignments := replace_row ta_id a (template_assignments d)\<rparr>"
| "save_resource (RWorkspace x) d = d\<lparr>workspaces := replace_row w_id x (workspaces d)\<rparr>"

fun insert_resource :: "resource \<Rightarrow> db \<Rightarrow> db" where
  "insert_resource (RInstance i) d = d\<lparr>instances := insert_row i (instances d)\<rparr>"
| "insert_resource (RTemplate t) d = d\<lparr>templates := insert_row t (templates d)\<rparr>"
| "insert_resource (RAssignment a) d =
     d\<lparr>template_assignments := insert_row a (template_assignments d)\<rparr>"
| "insert_resource (RWorkspace x) d = d\<lparr>workspaces := insert_row x (workspaces d)\<rparr>"

definition save_resource_opt :: "resource option \<Rightarrow> db \<Rightarrow> db" where
  "save_resource_opt r d = (case r of None \<Rightarrow> d | Some x \<Rightarrow> save_resource x d)"

definition save_job :: "job_execution \<Rightarrow> db \<Rightarrow> db" where
  "save_job j d = d\<lparr>job_executions := replace_row j_id j (job_executions d)\<rparr>"

text \<open>
  Deleting a row follows the foreign keys of the schema: \<^verbatim>\<open>ON DELETE CASCADE\<close> removes
  dependents, \<^verbatim>\<open>ON DELETE RESTRICT\<close> refuses with an integrity error.
\<close>

definition delete_workspaces_where :: "(workspace \<Rightarrow> bool) \<Rightarrow> db \<Rightarrow> db" where
  "delete_workspaces_where p d = d\<lparr>workspaces := delete_where p (workspaces d)\<rparr>"

definition delete_assignments_where :: "(template_assignment \<Rightarrow> bool) \<Rightarrow> db \<Rightarrow> db" where
  "delete_assignments_where p d =
     (let gone = map ta_id (filter p (template_assignments d)) in
      d\<lparr>template_assignments := delete_where p (template_assignments d),
        template_deployments := delete_where (\<lambda>t. td_assignment_id t \<in> set gone) (template_deployments d)\<rparr>)"

definition delete_members_where :: "(member \<Rightarrow> bool) \<Rightarrow> db \<Rightarrow> db" where
  "delete_members_where p d =
     (let gone = map m_id (filter p (members d)) in
      (delete_workspaces_where (\<lambda>x. w_member_id x \<in> set gone) d)
        \<lparr>members := delete_where p (members d)\<rparr>)"

definition delete_instance_row :: "uuid \<Rightarrow> db \<Rightarrow> (task_error, db) result" where
  "delete_instance_row k d =
     (if exists_row (\<lambda>a. al_instance_id a = k) (database_allocations d) then Inl IntegrityError
      else Inr (let d1 = delete_workspaces_where (\<lambda>x. w_instance_id x = k) d;
                    d2 = delete_members_where (\<lambda>m. m_instance_id m = k) d1;
                    d3 = delete_assignments_where (\<lambda>a. ta_instance_id a = k) d2
                in d3\<lparr>instance_kubernetes_rows :=
                        delete_where (\<lambda>p. k_instance_id p = k) (instance_kubernetes_rows d3),
                      instances := delete_where (\<lambda>i. i_id i = k) (instances d3)\<rparr>))"

definition delete_template_row :: "uuid \<Rightarrow> db \<Rightarrow> (task_error, db) result" where
  "delete_template_row k d =
     (if exists_row (\<lambda>a. ta_template_id a = k) (template_assignments d)
         \<or> exists_row (\<lambda>x. w_template_id x = k) (workspaces d) then Inl IntegrityError
      else let gone = map p_id (filter (\<lambda>p. p_template_id p = k) (template_parameters d)) in
        Inr (d\<lparr>template_images := delete_where (\<lambda>m. im_template_id m = k) (template_images d),
               template_parameters := delete_where (\<lambda>p. p_template_id p = k) (template_parameters d),
               template_parameter_system_values :=
                 delete_where (\<lambda>v. sv_parameter_id v \<in> set gone) (template_parameter_system_values d),
               templates := delete_where (\<lambda>t. t_id t = k) (templates d)\<rparr>))"

fun delete_resource_row :: "resource \<Rightarrow> db \<Rightarrow> (task_error, db) result" where
  "delete_resource_row (RInstance i) d = delete_instance_row (i_id i) d"
| "delete_resource_row (RTemplate t) d = delete_template_row (t_id t) d"
| "delete_resource_row (RAssignment a) d = Inr (delete_assignments_where (\<lambda>b. ta_id b = ta_id a) d)"
| "delete_resource_row (RWorkspace x) d = Inr (delete_workspaces_where (\<lambda>y. w_id y = w_id x) d)"

section \<open>Jobs\<close>

definition add_job_execution ::
  "uuid \<Rightarrow> string \<Rightarrow> string \<Rightarrow> string option \<Rightarrow> uuid option \<Rightarrow> string \<Rightarrow> instant \<Rightarrow> job_execution" where
  "add_job_execution job_id name task_name resource_type resource_id step now =
     \<lparr>j_id = job_id, j_name = name, j_task_name = task_name, j_resource_type = resource_type,
      j_resource_id = resource_id, j_step = step, j_status = PENDING, j_attempt = 0,
      j_claimed_at = None, j_created_at = now, j_updated_at = now\<rparr>"

definition stage_job :: "job_execution \<Rightarrow> db \<Rightarrow> db" where
  "stage_job j d = d\<lparr>job_executions := insert_row j (job_executions d)\<rparr>"

definition create_system_job ::
  "uuid \<Rightarrow> string \<Rightarrow> string \<Rightarrow> string \<Rightarrow> instant \<Rightarrow> db \<Rightarrow> db \<times> job_execution" where
  "create_system_job job_id name task_name step now d =
     (let job = add_job_execution job_id name task_name None None step now in (stage_job job d, job))"

definition RESOURCE_ACTIONS :: "(string \<times> string) list" where
  "RESOURCE_ACTIONS =
     [(''instance.create'', ''creating''), (''instance.update'', ''updating''),
      (''instance.start'', ''starting''), (''instance.stop'', ''stopping''),
      (''instance.delete'', ''deleting''), (''template.sync'', ''syncing''),
      (''template_assignment.create'', ''creating''), (''template_assignment.delete'', ''deleting''),
      (''workspace.create'', ''creating''), (''workspace.update'', ''updating''),
      (''workspace.delete'', ''deleting'')]"

record execution_claim =
  c_job_id :: uuid
  c_task_name :: string
  c_step :: string
  c_attempt :: int
  c_resource_type :: "string option"
  c_resource_id :: "uuid option"

definition lookup_resource :: "string \<Rightarrow> uuid \<Rightarrow> db \<Rightarrow> resource option" where
  "lookup_resource kind k d =
     (if kind = ''instance'' then map_option RInstance (instance_of d k)
      else if kind = ''template'' then map_option RTemplate (template_of d k)
      else if kind = ''template_assignment'' then map_option RAssignment (assignment_of d k)
      else if kind = ''workspace'' then map_option RWorkspace (workspace_of d k)
      else None)"

definition resource_for_job :: "db \<Rightarrow> job_execution \<Rightarrow> resource option" where
  "resource_for_job d job =
     (case j_resource_type job of
        None \<Rightarrow> None
      | Some kind \<Rightarrow> (case j_resource_id job of None \<Rightarrow> None | Some k \<Rightarrow> lookup_resource kind k d))"

definition resource_matches :: "job_execution \<Rightarrow> resource option \<Rightarrow> bool" where
  "resource_matches job resource =
     (case j_resource_type job of
        None \<Rightarrow> True
      | Some _ \<Rightarrow>
          (case resource of
             None \<Rightarrow> False
           | Some r \<Rightarrow>
               (case map_of RESOURCE_ACTIONS (j_name job) of
                  None \<Rightarrow> False
                | Some expected_action \<Rightarrow>
                    resource_job_id r = Some (j_id job) \<and> resource_action r = expected_action
                    \<and> resource_step r = Some (j_step job))))"

definition claim_execution ::
  "uuid \<Rightarrow> string \<Rightarrow> instant \<Rightarrow> db \<Rightarrow> db \<times> execution_claim option" where
  "claim_execution job_id task_name now d =
     (case job_of d job_id of
        None \<Rightarrow> (d, None)
      | Some job \<Rightarrow>
          if j_task_name job \<noteq> task_name \<or> j_status job \<notin> {PENDING, ERROR} then (d, None)
          else let resource = resource_for_job d job in
            if \<not> resource_matches job resource then (d, None)
            else let job' = job\<lparr>j_status := RUNNING, j_attempt := j_attempt job + 1,
                                j_claimed_at := Some now, j_updated_at := now\<rparr>;
                     resource' = map_option (set_resource_status RUNNING) resource;
                     claim = \<lparr>c_job_id = j_id job', c_task_name = j_task_name job',
                              c_step = j_step job', c_attempt = j_attempt job',
                              c_resource_type = j_resource_type job',
                              c_resource_id = j_resource_id job'\<rparr>
                 in (save_resource_opt resource' (save_job job' d), Some claim))"

definition owned_execution ::
  "db \<Rightarrow> execution_claim \<Rightarrow> (job_execution \<times> resource option) option" where
  "owned_execution d claim =
     (case job_of d (c_job_id claim) of
        None \<Rightarrow> None
      | Some job \<Rightarrow>
          if j_task_name job \<noteq> c_task_name claim \<or> j_step job \<noteq> c_step claim
             \<or> j_attempt job \<noteq> c_attempt claim \<or> j_status job \<noteq> RUNNING then None
          else let resource = resource_for_job d job in
            if resource_matches job resource then Some (job, resource) else None)"

text \<open>
  A \<^verbatim>\<open>mutate\<close> callback works on the session and on the locked resource; it may raise.
\<close>

type_synonym mutator = "db \<Rightarrow> resource option \<Rightarrow> (task_error, db \<times> resource option) result"

definition no_mutate :: mutator where
  "no_mutate d r = Inr (d, r)"

definition advance_execution ::
  "celery \<Rightarrow> execution_claim \<Rightarrow> string \<Rightarrow> string \<Rightarrow> mutator \<Rightarrow> instant \<Rightarrow> world
    \<Rightarrow> (task_error, world \<times> bool) result" where
  "advance_execution cel claim next_task_name next_step mutate now w =
     (case owned_execution (store w) claim of
        None \<Rightarrow> Inr (w, False)
      | Some (job, resource) \<Rightarrow>
          rbind (mutate (store w) resource) (\<lambda>(d, resource').
            let job' = job\<lparr>j_task_name := next_task_name, j_step := next_step, j_status := PENDING,
                           j_claimed_at := None, j_updated_at := now\<rparr>;
                resource'' = map_option (set_resource_status PENDING \<circ> set_resource_step (Some next_step)) resource';
                d' = save_resource_opt resource'' (save_job job' d);
                q = fst (dispatch_registered_step cel next_task_name (c_job_id claim) (broker w))
            in Inr (w\<lparr>store := d', broker := q\<rparr>, True)))"

definition complete_execution ::
  "execution_claim \<Rightarrow> mutator \<Rightarrow> bool \<Rightarrow> instant \<Rightarrow> db \<Rightarrow> (task_error, db \<times> bool) result" where
  "complete_execution claim mutate delete_resource now d =
     (case owned_execution d claim of
        None \<Rightarrow> Inr (d, False)
      | Some (job, resource) \<Rightarrow>
          rbind (mutate d resource) (\<lambda>(d1, resource').
            let d2 = save_job (job\<lparr>j_status := SUCCESS, j_claimed_at := None, j_updated_at := now\<rparr>) d1
            in case resource' of
                 None \<Rightarrow> Inr (d2, True)
               | Some r \<Rightarrow>
                   if delete_resource then rbind (delete_resource_row r d2) (\<lambda>d3. Inr (d3, True))
                   else Inr (save_resource (set_resource_step None (set_resource_status SUCCESS r)) d2, True)))"

definition defer_execution ::
  "execution_claim \<Rightarrow> mutator \<Rightarrow> instant \<Rightarrow> db \<Rightarrow> (task_error, db \<times> bool) result" where
  "defer_execution claim mutate now d =
     (case owned_execution d claim of
        None \<Rightarrow> Inr (d, False)
      | Some (job, resource) \<Rightarrow>
          rbind (mutate d resource) (\<lambda>(d1, resource').
            let d2 = save_job (job\<lparr>j_status := PENDING, j_claimed_at := None, j_updated_at := now\<rparr>) d1
            in Inr (save_resource_opt (map_option (set_resource_status PENDING) resource') d2, True)))"

definition fail_execution :: "execution_claim \<Rightarrow> (db \<Rightarrow> db) \<Rightarrow> instant \<Rightarrow> db \<Rightarrow> db" where
  "fail_execution claim mutate now d =
     (case owned_execution d claim of
        None \<Rightarrow> d
      | Some (job, resource) \<Rightarrow>
          let d1 = mutate d;
              d2 = save_job (job\<lparr>j_status := ERROR, j_claimed_at := None, j_updated_at := now\<rparr>) d1
          in save_resource_opt (map_option (set_resource_status ERROR) resource) d2)"

definition heartbeat_execution :: "execution_claim \<Rightarrow> instant \<Rightarrow> db \<Rightarrow> db \<times> bool" where
  "heartbeat_execution claim now d =
     (case owned_execution d claim of
        None \<Rightarrow> (d, False)
      | Some (job, _) \<Rightarrow> (save_job (job\<lparr>j_claimed_at := Some now, j_updated_at := now\<rparr>) d, True))"

definition required_resource_id :: "execution_claim \<Rightarrow> (task_error, uuid) result" where
  "required_resource_id claim = require (c_resource_id claim) (RuntimeError ''Job resource is missing'')"

definition prepare_execution_retry ::
  "uuid \<Rightarrow> instant \<Rightarrow> instant \<Rightarrow> db \<Rightarrow> db \<times> string option" where
  "prepare_execution_retry job_id stale_before now d =
     (case job_of d job_id of
        None \<Rightarrow> (d, None)
      | Some job \<Rightarrow>
          if j_status job = SUCCESS then (d, None)
          else let resource = resource_for_job d job in
            if \<not> resource_matches job resource then (d, None)
            else if j_status job = RUNNING then
              (case j_claimed_at job of
                 None \<Rightarrow> (d, None)
               | Some claimed_at \<Rightarrow>
                   if stale_before < claimed_at then (d, None)
                   else let job' = job\<lparr>j_status := PENDING, j_claimed_at := None, j_updated_at := now\<rparr>
                        in (save_resource_opt (map_option (set_resource_status PENDING) resource)
                              (save_job job' d), Some (j_task_name job)))
            else (d, Some (j_task_name job)))"

section \<open>Task bodies and the retry scan\<close>

text \<open>
  A task body is a sequence of transactions and remote calls: it maps the world to the
  world after everything it committed, with the exception that ended it or its result.
\<close>

type_synonym 'a task = "world \<Rightarrow> world \<times> (task_error, 'a) result"

definition run_claimed_step ::
  "uuid \<Rightarrow> string \<Rightarrow> instant \<Rightarrow> instant \<Rightarrow> (execution_claim \<Rightarrow> string task) \<Rightarrow> string task" where
  "run_claimed_step job_id task_name now fail_now operation w =
     (case claim_execution job_id task_name now (store w) of
        (_, None) \<Rightarrow> (w, Inr ''noop'')
      | (d, Some claim) \<Rightarrow>
          (case operation claim (w\<lparr>store := d\<rparr>) of
             (w', Inr r) \<Rightarrow> (w', Inr r)
           | (w', Inl e) \<Rightarrow>
               (w'\<lparr>store := fail_execution claim (\<lambda>d. d) fail_now (store w')\<rparr>, Inl e)))"

definition retry_candidates :: "instant \<Rightarrow> db \<Rightarrow> uuid list" where
  "retry_candidates stale_before d =
     map j_id (sort_key (\<lambda>j. (j_created_at j, j_id j))
       (filter (\<lambda>j. j_status j \<in> {PENDING, ERROR}
            \<or> (j_status j = RUNNING
                \<and> (case j_claimed_at j of None \<Rightarrow> False | Some c \<Rightarrow> c \<le> stale_before)))
          (job_executions d)))"

fun retry_each ::
  "celery \<Rightarrow> instant \<Rightarrow> instant \<Rightarrow> uuid list \<Rightarrow> world \<times> nat \<times> nat \<Rightarrow> world \<times> nat \<times> nat" where
  "retry_each cel stale_before now [] acc = acc"
| "retry_each cel stale_before now (k # ks) (w, scheduled, skipped) =
     (let (d, task_name) = prepare_execution_retry k stale_before now (store w) in
      case task_name of
        None \<Rightarrow> retry_each cel stale_before now ks (w\<lparr>store := d\<rparr>, scheduled, Suc skipped)
      | Some t \<Rightarrow>
          let (q, accepted) = dispatch_registered_step cel t k (broker w);
              w' = w\<lparr>store := d, broker := q\<rparr>
          in retry_each cel stale_before now ks
               (if accepted then (w', Suc scheduled, skipped) else (w', scheduled, Suc skipped)))"

definition retry_job_executions ::
  "celery \<Rightarrow> int \<Rightarrow> instant \<Rightarrow> world \<Rightarrow> world \<times> nat \<times> nat" where
  "retry_job_executions cel job_stale_after now w =
     (let stale_before = now - job_stale_after in
      retry_each cel stale_before now (retry_candidates stale_before (store w)) (w, 0, 0))"

section \<open>The lifecycle interface of a row\<close>

text \<open>
  The engine reads and writes four attributes of whatever row a job is attached to:
  owning job, action, step and status. The laws say that the two writers touch nothing else.
\<close>

locale lifecycle_row =
  fixes key :: "'r \<Rightarrow> uuid"
    and job_id :: "'r \<Rightarrow> uuid option"
    and action :: "'r \<Rightarrow> string"
    and step :: "'r \<Rightarrow> string option"
    and status :: "'r \<Rightarrow> exec_status"
    and set_status :: "exec_status \<Rightarrow> 'r \<Rightarrow> 'r"
    and set_step :: "string option \<Rightarrow> 'r \<Rightarrow> 'r"
  assumes set_status_laws:
      "key (set_status s r) = key r" "job_id (set_status s r) = job_id r"
      "action (set_status s r) = action r" "step (set_status s r) = step r"
      "status (set_status s r) = s"
    and set_step_laws:
      "key (set_step x r) = key r" "job_id (set_step x r) = job_id r"
      "action (set_step x r) = action r" "step (set_step x r) = x"
      "status (set_step x r) = status r"
begin

lemma transition_fields:
  "key (set_status s (set_step x r)) = key r"
  "job_id (set_status s (set_step x r)) = job_id r"
  "action (set_status s (set_step x r)) = action r"
  "step (set_status s (set_step x r)) = x"
  "status (set_status s (set_step x r)) = s"
  by (simp_all add: set_status_laws set_step_laws)

lemmas lifecycle_laws = set_status_laws set_step_laws transition_fields

end

interpretation instance_row: lifecycle_row i_id i_job_id i_action i_step i_status
  "\<lambda>s i. i\<lparr>i_status := s\<rparr>" "\<lambda>x i. i\<lparr>i_step := x\<rparr>"
  by unfold_locales simp_all

interpretation template_row: lifecycle_row t_id t_job_id t_action t_step t_sync_status
  "\<lambda>s t. t\<lparr>t_sync_status := s\<rparr>" "\<lambda>x t. t\<lparr>t_step := x\<rparr>"
  by unfold_locales simp_all

interpretation assignment_row: lifecycle_row ta_id ta_job_id ta_action ta_step ta_status
  "\<lambda>s a. a\<lparr>ta_status := s\<rparr>" "\<lambda>x a. a\<lparr>ta_step := x\<rparr>"
  by unfold_locales simp_all

interpretation workspace_row: lifecycle_row w_id w_job_id w_action w_step w_status
  "\<lambda>s x. x\<lparr>w_status := s\<rparr>" "\<lambda>st x. x\<lparr>w_step := st\<rparr>"
  by unfold_locales simp_all

lemma resource_writer_laws:
  "resource_key (set_resource_status s r) = resource_key r"
  "resource_job_id (set_resource_status s r) = resource_job_id r"
  "resource_action (set_resource_status s r) = resource_action r"
  "resource_step (set_resource_status s r) = resource_step r"
  "resource_status (set_resource_status s r) = s"
  "resource_key (set_resource_step x r) = resource_key r"
  "resource_job_id (set_resource_step x r) = resource_job_id r"
  "resource_action (set_resource_step x r) = resource_action r"
  "resource_step (set_resource_step x r) = x"
  "resource_status (set_resource_step x r) = resource_status r"
  by (cases r; simp add: instance_row.lifecycle_laws template_row.lifecycle_laws
      assignment_row.lifecycle_laws workspace_row.lifecycle_laws)+

interpretation resource_row: lifecycle_row resource_key resource_job_id resource_action
  resource_step resource_status set_resource_status set_resource_step
  by unfold_locales (rule resource_writer_laws)+

lemma resource_kind_set [simp]:
  "resource_kind (set_resource_status s r) = resource_kind r"
  "resource_kind (set_resource_step x r) = resource_kind r"
  by (cases r; simp)+

lemmas lifecycle_simps [simp] = resource_row.lifecycle_laws

section \<open>Frames of the writers\<close>

lemma job_executions_save_resource [simp]: "job_executions (save_resource r d) = job_executions d"
  by (cases r) simp_all

lemma job_executions_save_resource_opt [simp]:
  "job_executions (save_resource_opt r d) = job_executions d"
  by (cases r) (simp_all add: save_resource_opt_def)

lemma save_resource_opt_simps [simp]:
  "save_resource_opt None d = d"
  "save_resource_opt (Some r) d = save_resource r d"
  by (simp_all add: save_resource_opt_def)

lemma save_job_frame [simp]:
  "instances (save_job j d) = instances d" "templates (save_job j d) = templates d"
  "template_assignments (save_job j d) = template_assignments d"
  "workspaces (save_job j d) = workspaces d" "members (save_job j d) = members d"
  "databases (save_job j d) = databases d"
  "database_allocations (save_job j d) = database_allocations d"
  "template_deployments (save_job j d) = template_deployments d"
  by (simp_all add: save_job_def)

lemma job_of_save_job:
  "job_of (save_job j d) k = (if k = j_id j then map_option (\<lambda>_. j) (job_of d k) else job_of d k)"
  by (simp add: save_job_def select_replace_row)

lemma lookup_save_job [simp]: "lookup_resource kind k (save_job j d) = lookup_resource kind k d"
  by (simp add: lookup_resource_def)

lemma lookup_resource_Some:
  "lookup_resource kind k d = Some r \<Longrightarrow> kind = resource_kind r \<and> k = resource_key r"
  by (auto simp: lookup_resource_def split: if_splits dest: select_row_key)

lemma lookup_save_same:
  assumes "lookup_resource kind k d = Some r"
    and "resource_key r' = resource_key r" and "resource_kind r' = resource_kind r"
  shows "lookup_resource kind k (save_resource r' d) = Some r'"
proof -
  have "kind = resource_kind r" and "k = resource_key r"
    using lookup_resource_Some[OF assms(1)] by simp_all
  with assms show ?thesis
    by (cases r; cases r') (auto simp: lookup_resource_def)
qed

lemma lookup_save_other:
  assumes "\<not> (kind = resource_kind r \<and> k = resource_key r)"
  shows "lookup_resource kind k (save_resource r d) = lookup_resource kind k d"
  using assms by (cases r) (auto simp: lookup_resource_def)

lemma resource_for_job_save_job [simp]: "resource_for_job (save_job j d) job = resource_for_job d job"
  by (simp add: resource_for_job_def cong: option.case_cong)

lemma resource_for_job_Some:
  "resource_for_job d job = Some r \<Longrightarrow>
     j_resource_type job = Some (resource_kind r) \<and> j_resource_id job = Some (resource_key r)"
  by (auto simp: resource_for_job_def split: option.splits dest: lookup_resource_Some)

lemma resource_for_job_save_same:
  assumes "resource_for_job d job = Some r"
    and "resource_key r' = resource_key r" and "resource_kind r' = resource_kind r"
  shows "resource_for_job (save_resource r' d) job = Some r'"
  using assms by (auto simp: resource_for_job_def lookup_save_same split: option.splits)

lemma resource_for_job_save_other:
  assumes "\<not> (j_resource_type job = Some (resource_kind r) \<and> j_resource_id job = Some (resource_key r))"
  shows "resource_for_job (save_resource r d) job = resource_for_job d job"
  using assms by (auto simp: resource_for_job_def lookup_save_other split: option.splits)

lemma keys_ok_save_job [simp]: "keys_ok (save_job j d) = keys_ok d"
  by (simp add: keys_ok_def save_job_def)

lemma keys_ok_save_resource [simp]: "keys_ok (save_resource r d) = keys_ok d"
  by (cases r) (simp_all add: keys_ok_def)

lemma owned_execution_iff:
  "owned_execution d c = Some (job, res) \<longleftrightarrow>
     job_of d (c_job_id c) = Some job \<and> j_task_name job = c_task_name c \<and> j_step job = c_step c
     \<and> j_attempt job = c_attempt c \<and> j_status job = RUNNING
     \<and> res = resource_for_job d job \<and> resource_matches job res"
  by (auto simp: owned_execution_def Let_def split: option.splits if_splits)

lemma resource_matches_Some:
  "resource_matches job res \<Longrightarrow> j_resource_type job \<noteq> None \<Longrightarrow>
     \<exists>r. res = Some r \<and> resource_job_id r = Some (j_id job) \<and> resource_step r = Some (j_step job)"
  by (auto simp: resource_matches_def split: option.splits)

lemma resource_for_job_untyped: "j_resource_type job = None \<Longrightarrow> resource_for_job d job = None"
  by (simp add: resource_for_job_def)

lemma matching_resource:
  assumes "resource_matches job (resource_for_job d job)"
  obtains (untyped) "j_resource_type job = None" "resource_for_job d job = None"
  | (owned) r where "resource_for_job d job = Some r" "resource_job_id r = Some (j_id job)"
      "resource_step r = Some (j_step job)"
  using assms resource_matches_Some resource_for_job_untyped by (metis not_None_eq)

end
