(* ===== verification/Engine.thy ===== *)
theory Engine
  imports Execution
begin

text \<open>
  Correctness of the durable execution engine: the order in which a job may evolve, the
  invariant that ties a job to the row it is attached to, and one preservation lemma per
  transaction. The general facts are \<open>engine_inv_transition\<close> (one job and its row are
  rewritten), \<open>engine_inv_request\<close> (a request attaches a new job to an existing row),
  \<open>engine_inv_create\<close> (a request inserts a row together with its job) and
  \<open>engine_inv_shrink\<close> (rows disappear).
\<close>

section \<open>The order of jobs\<close>

definition job_le :: "job_execution \<Rightarrow> job_execution \<Rightarrow> bool" where
  "job_le j j' =
     (j_id j' = j_id j \<and> j_name j' = j_name j \<and> j_resource_type j' = j_resource_type j
      \<and> j_resource_id j' = j_resource_id j \<and> j_attempt j \<le> j_attempt j'
      \<and> (j_attempt j' = j_attempt j \<and> j_status j' = RUNNING \<longrightarrow>
           j_status j = RUNNING \<and> j_task_name j' = j_task_name j \<and> j_step j' = j_step j)
      \<and> (j_status j = SUCCESS \<longrightarrow> j_status j' = SUCCESS \<and> j_attempt j' = j_attempt j))"

definition jobs_le :: "db \<Rightarrow> db \<Rightarrow> bool" where
  "jobs_le d d' = (\<forall>k j j'. job_of d k = Some j \<longrightarrow> job_of d' k = Some j' \<longrightarrow> job_le j j')"

lemma job_le_refl [simp]: "job_le j j"
  by (simp add: job_le_def)

lemma job_le_trans:
  assumes ab: "job_le a b" and bc: "job_le b c"
  shows "job_le a c"
proof -
  have le: "j_attempt a \<le> j_attempt b" "j_attempt b \<le> j_attempt c"
    using ab bc unfolding job_le_def by blast+
  have "j_status a = RUNNING \<and> j_task_name c = j_task_name a \<and> j_step c = j_step a"
    if "j_attempt c = j_attempt a" "j_status c = RUNNING"
  proof -
    have "j_attempt b = j_attempt a" "j_attempt c = j_attempt b"
      using le that(1) by linarith+
    then show ?thesis
      using ab bc that(2) unfolding job_le_def by metis
  qed
  moreover have "j_status c = SUCCESS \<and> j_attempt c = j_attempt a" if "j_status a = SUCCESS"
    using ab bc that unfolding job_le_def by metis
  ultimately show ?thesis
    using ab bc le unfolding job_le_def by (metis order_trans)
qed

lemma jobs_le_same_jobs: "job_executions d' = job_executions d \<Longrightarrow> jobs_le d d'"
  by (simp add: jobs_le_def)

lemma jobs_le_refl [simp]: "jobs_le d d"
  by (simp add: jobs_le_same_jobs)

lemma jobs_le_save_job:
  assumes job: "job_of d k = Some j" and le: "job_le j j'" and d1: "job_executions d1 = job_executions d"
  shows "jobs_le d (save_resource_opt r (save_job j' d1))"
proof -
  have "j_id j = k" using job by (rule select_row_key)
  moreover have "j_id j' = j_id j" using le by (simp add: job_le_def)
  ultimately show ?thesis
    using job le d1 by (auto simp: jobs_le_def save_job_def select_replace_row split: if_splits)
qed

section \<open>The engine invariant\<close>

definition job_ok :: "job_execution \<Rightarrow> bool" where
  "job_ok j = (0 \<le> j_attempt j \<and> (j_status j = RUNNING \<longleftrightarrow> j_claimed_at j \<noteq> None))"

definition lifecycle_ok :: "db \<Rightarrow> job_execution \<Rightarrow> bool" where
  "lifecycle_ok d j = (case resource_for_job d j of None \<Rightarrow> True
     | Some r \<Rightarrow> resource_matches j (Some r) \<longrightarrow> resource_status r = j_status j)"

definition engine_inv :: "db \<Rightarrow> bool" where
  "engine_inv d = (keys_ok d \<and> list_all (\<lambda>j. job_ok j \<and> lifecycle_ok d j) (job_executions d))"

lemma engine_inv_job:
  assumes "engine_inv d" and "job_of d k = Some j"
  shows "job_ok j" and "lifecycle_ok d j" and "j_id j = k"
  using assms select_row_Some[OF assms(2)] by (auto simp: engine_inv_def list_all_iff)

lemma engine_invI:
  "keys_ok d \<Longrightarrow> (\<And>j. j \<in> set (job_executions d) \<Longrightarrow> job_ok j \<and> lifecycle_ok d j) \<Longrightarrow> engine_inv d"
  by (simp add: engine_inv_def list_all_iff)

lemma engine_invE:
  "engine_inv d \<Longrightarrow> keys_ok d"
  "engine_inv d \<Longrightarrow> j \<in> set (job_executions d) \<Longrightarrow> job_ok j"
  "engine_inv d \<Longrightarrow> j \<in> set (job_executions d) \<Longrightarrow> lifecycle_ok d j"
  by (simp_all add: engine_inv_def list_all_iff)

text \<open>A row that belongs to another job is never the concern of this one.\<close>

lemma resource_matches_foreign:
  "resource_job_id r \<noteq> Some (j_id j) \<Longrightarrow> j_resource_type j \<noteq> None \<Longrightarrow> \<not> resource_matches j (Some r)"
  by (auto simp: resource_matches_def split: option.splits)

lemma lifecycle_ok_foreign:
  assumes "resource_for_job d j = Some r" and "resource_job_id r \<noteq> Some (j_id j)"
  shows "lifecycle_ok d j"
  using assms resource_for_job_Some[OF assms(1)]
  by (simp add: lifecycle_ok_def resource_matches_foreign)

lemma lifecycle_ok_cong:
  "resource_for_job d' j = resource_for_job d j \<Longrightarrow> lifecycle_ok d' j = lifecycle_ok d j"
  by (simp add: lifecycle_ok_def)

text \<open>
  Saving a row that names the job \<open>k\<close> keeps every other job's view in order.
\<close>

lemma lifecycle_ok_save_other:
  assumes "lifecycle_ok d j" and "resource_job_id r' = Some k" and "j_id j \<noteq> k"
    and "lookup_resource (resource_kind r') (resource_key r') d \<noteq> None"
  shows "lifecycle_ok (save_resource r' d) j"
proof (cases "j_resource_type j = Some (resource_kind r') \<and> j_resource_id j = Some (resource_key r')")
  case True
  with assms(4) obtain r where r: "resource_for_job d j = Some r"
    by (auto simp: resource_for_job_def)
  with True have "resource_key r' = resource_key r" "resource_kind r' = resource_kind r"
    using resource_for_job_Some[OF r] by auto
  then have "resource_for_job (save_resource r' d) j = Some r'"
    using r by (intro resource_for_job_save_same)
  then show ?thesis
    using assms(2,3) by (intro lifecycle_ok_foreign) auto
next
  case False
  then show ?thesis
    using assms(1) lifecycle_ok_cong[OF resource_for_job_save_other] by simp
qed

lemma in_save_job:
  "j \<in> set (job_executions (save_job job d)) \<Longrightarrow>
     j = job \<or> (j \<in> set (job_executions d) \<and> j_id j \<noteq> j_id job)"
  by (auto simp: save_job_def dest: in_replace_row)

definition row_follows :: "job_execution \<Rightarrow> resource option \<Rightarrow> resource option \<Rightarrow> bool" where
  "row_follows job r r' = (case (r, r') of
       (None, None) \<Rightarrow> True
     | (Some a, Some b) \<Rightarrow> resource_key b = resource_key a \<and> resource_kind b = resource_kind a
         \<and> resource_job_id b = Some (j_id job)
         \<and> (resource_matches job (Some b) \<longrightarrow> resource_status b = j_status job)
     | _ \<Rightarrow> False)"

lemma engine_inv_transition:
  assumes inv: "engine_inv d" and job: "job_of d (j_id job') = Some job"
    and same: "j_resource_type job' = j_resource_type job" "j_resource_id job' = j_resource_id job"
    and ok: "job_ok job'"
    and follows: "row_follows job' (resource_for_job d job) res'"
  shows "engine_inv (save_resource_opt res' (save_job job' d))"
proof (rule engine_invI)
  show "keys_ok (save_resource_opt res' (save_job job' d))"
    using engine_invE(1)[OF inv] by (cases res') simp_all
next
  fix j assume "j \<in> set (job_executions (save_resource_opt res' (save_job job' d)))"
  then consider (self) "j = job'" | (other) "j \<in> set (job_executions d)" "j_id j \<noteq> j_id job'"
    by (auto dest: in_save_job)
  then show "job_ok j \<and> lifecycle_ok (save_resource_opt res' (save_job job' d)) j"
  proof cases
    case self
    have view: "resource_for_job d job' = resource_for_job d job"
      using same by (simp add: resource_for_job_def cong: option.case_cong)
    show ?thesis
    proof (cases res')
      case None
      with follows have "resource_for_job d job = None"
        by (auto simp: row_follows_def split: option.splits)
      with None self ok view show ?thesis by (simp add: lifecycle_ok_def)
    next
      case (Some b)
      with follows obtain a where a: "resource_for_job d job = Some a"
        and ab: "resource_key b = resource_key a" "resource_kind b = resource_kind a"
          "resource_matches job' (Some b) \<longrightarrow> resource_status b = j_status job'"
        by (auto simp: row_follows_def split: option.splits)
      have "resource_for_job (save_resource b (save_job job' d)) job' = Some b"
        using a ab(1,2) view by (intro resource_for_job_save_same) simp_all
      with Some self ok ab(3) show ?thesis by (simp add: lifecycle_ok_def)
    qed
  next
    case other
    then have "job_ok j" and life: "lifecycle_ok (save_job job' d) j"
      using engine_invE[OF inv] by (simp_all add: lifecycle_ok_def)
    moreover have "lifecycle_ok (save_resource_opt res' (save_job job' d)) j"
    proof (cases res')
      case None
      with life show ?thesis by simp
    next
      case (Some b)
      with follows obtain a where a: "resource_for_job d job = Some a"
        and ab: "resource_key b = resource_key a" "resource_kind b = resource_kind a"
          "resource_job_id b = Some (j_id job')"
        by (auto simp: row_follows_def split: option.splits)
      have "lookup_resource (resource_kind b) (resource_key b) (save_job job' d) \<noteq> None"
        using a ab resource_for_job_Some[OF a] by (simp add: resource_for_job_def)
      with Some life ab(3) other(2) show ?thesis
        by (simp add: lifecycle_ok_save_other)
    qed
    ultimately show ?thesis by simp
  qed
qed

lemma engine_inv_shrink:
  assumes inv: "engine_inv d" and jobs: "job_executions d' = job_executions d" and keys: "keys_ok d'"
    and gone: "\<And>kind k. lookup_resource kind k d' = None
      \<or> lookup_resource kind k d' = lookup_resource kind k d"
  shows "engine_inv d'"
proof (rule engine_invI[OF keys])
  fix j assume "j \<in> set (job_executions d')"
  then have "job_ok j" and life: "lifecycle_ok d j"
    using engine_invE[OF inv] jobs by simp_all
  have "resource_for_job d' j = None \<or> resource_for_job d' j = resource_for_job d j"
    using gone by (auto simp: resource_for_job_def split: option.splits)
  with life have "lifecycle_ok d' j" by (auto simp: lifecycle_ok_def)
  with \<open>job_ok j\<close> show "job_ok j \<and> lifecycle_ok d' j" ..
qed

text \<open>Rows and columns outside the lifecycle tables do not matter to the engine.\<close>

definition same_lifecycle :: "db \<Rightarrow> db \<Rightarrow> bool" where
  "same_lifecycle d d' = (job_executions d' = job_executions d \<and> instances d' = instances d
     \<and> templates d' = templates d \<and> template_assignments d' = template_assignments d
     \<and> workspaces d' = workspaces d)"

lemma same_lifecycle_refl [simp]: "same_lifecycle d d"
  by (simp add: same_lifecycle_def)

lemma lookup_same_lifecycle:
  "same_lifecycle d d' \<Longrightarrow> lookup_resource kind k d' = lookup_resource kind k d"
  by (simp add: same_lifecycle_def lookup_resource_def)

lemma resource_for_job_same_lifecycle:
  "same_lifecycle d d' \<Longrightarrow> resource_for_job d' j = resource_for_job d j"
  by (simp add: resource_for_job_def lookup_same_lifecycle cong: option.case_cong)

lemma engine_inv_same_lifecycle: "same_lifecycle d d' \<Longrightarrow> engine_inv d \<Longrightarrow> engine_inv d'"
  by (rule engine_inv_shrink[where d = d])
    (simp_all add: lookup_same_lifecycle, simp_all add: same_lifecycle_def engine_inv_def keys_ok_def)

section \<open>Transactions preserve the invariant\<close>

definition mutator_ok :: "mutator \<Rightarrow> bool" where
  "mutator_ok m = (\<forall>d r d' r'. m d r = Inr (d', r') \<longrightarrow> same_lifecycle d d'
     \<and> (case (r, r') of (None, None) \<Rightarrow> True
        | (Some a, Some b) \<Rightarrow> resource_key b = resource_key a \<and> resource_kind b = resource_kind a
            \<and> resource_job_id b = resource_job_id a
        | _ \<Rightarrow> False))"

lemma no_mutate_ok [simp]: "mutator_ok no_mutate"
  by (simp add: mutator_ok_def no_mutate_def split: option.splits)

lemma mutator_okD:
  assumes "mutator_ok m" and "m d r = Inr (d', r')"
  shows "same_lifecycle d d'" and "r = None \<Longrightarrow> r' = None"
    and "r' = Some b \<Longrightarrow> \<exists>a. r = Some a \<and> resource_key b = resource_key a
      \<and> resource_kind b = resource_kind a \<and> resource_job_id b = resource_job_id a"
    and "r' = None \<Longrightarrow> r = None"
proof -
  have *: "same_lifecycle d d' \<and> (case (r, r') of (None, None) \<Rightarrow> True
        | (Some a, Some b) \<Rightarrow> resource_key b = resource_key a \<and> resource_kind b = resource_kind a
            \<and> resource_job_id b = resource_job_id a
        | _ \<Rightarrow> False)"
    using assms unfolding mutator_ok_def by blast
  then show "same_lifecycle d d'" ..
  from * show "r = None \<Longrightarrow> r' = None" and "r' = None \<Longrightarrow> r = None"
    by (cases r; cases r'; simp)+
  from * show "r' = Some b \<Longrightarrow> \<exists>a. r = Some a \<and> resource_key b = resource_key a
      \<and> resource_kind b = resource_kind a \<and> resource_job_id b = resource_job_id a"
    by (cases r; cases r'; simp)
qed

lemma owned_job_id: "owned_execution d c = Some (job, res) \<Longrightarrow> j_id job = c_job_id c"
  by (auto simp: owned_execution_iff dest: select_row_key)

lemma owned_cases:
  assumes "owned_execution d c = Some jr"
  obtains job where "owned_execution d c = Some (job, resource_for_job d job)"
    "job_of d (c_job_id c) = Some job" "resource_matches job (resource_for_job d job)"
    "j_status job = RUNNING" "j_attempt job = c_attempt c" "j_task_name job = c_task_name c"
    "j_step job = c_step c"
  using assms by (cases jr) (auto simp: owned_execution_iff)

lemma owned_transition:
  assumes inv: "engine_inv d" and job: "job_of d k = Some job"
    and matches: "resource_matches job (resource_for_job d job)"
    and m: "mutator_ok m" "m d (resource_for_job d job) = Inr (d1, res1)"
    and same: "j_id job' = j_id job" "j_resource_type job' = j_resource_type job"
      "j_resource_id job' = j_resource_id job"
    and ok: "job_ok job'"
    and f: "\<And>b. resource_key (f b) = resource_key b" "\<And>b. resource_kind (f b) = resource_kind b"
      "\<And>b. resource_job_id (f b) = resource_job_id b"
      "\<And>b. j_resource_type job \<noteq> None \<Longrightarrow> resource_matches job' (Some (f b)) \<Longrightarrow>
         resource_status (f b) = j_status job'"
  shows "engine_inv (save_resource_opt (map_option f res1) (save_job job' d1))"
proof (rule engine_inv_transition)
  have life: "same_lifecycle d d1" by (rule mutator_okD(1)[OF m])
  then show "engine_inv d1" using inv by (rule engine_inv_same_lifecycle)
  have "j_id job = k" using job by (rule select_row_key)
  then show "job_of d1 (j_id job') = Some job"
    using job life same(1) by (simp add: same_lifecycle_def)
  show "row_follows job' (resource_for_job d1 job) (map_option f res1)"
  proof (cases res1)
    case None
    with mutator_okD(4)[OF m] life show ?thesis
      by (simp add: row_follows_def resource_for_job_same_lifecycle)
  next
    case (Some b)
    from mutator_okD(3)[OF m Some] obtain a where a: "resource_for_job d job = Some a"
      and ab: "resource_key b = resource_key a" "resource_kind b = resource_kind a"
        "resource_job_id b = resource_job_id a" by blast
    have "j_resource_type job \<noteq> None" using resource_for_job_Some[OF a] by simp
    moreover from this have "resource_job_id a = Some (j_id job)"
      using resource_matches_Some[OF matches] a by simp
    ultimately show ?thesis
      using Some a ab f same(1) life
      by (simp add: row_follows_def resource_for_job_same_lifecycle)
  qed
qed (use same ok in simp_all)

subsection \<open>Claim\<close>

lemma claim_execution_Some:
  assumes "claim_execution k t now d = (d', Some c)"
  obtains job where "job_of d k = Some job" "j_task_name job = t" "j_status job \<in> {PENDING, ERROR}"
    "resource_matches job (resource_for_job d job)"
    "c = \<lparr>c_job_id = j_id job, c_task_name = t, c_step = j_step job, c_attempt = j_attempt job + 1,
          c_resource_type = j_resource_type job, c_resource_id = j_resource_id job\<rparr>"
    "d' = save_resource_opt (map_option (set_resource_status RUNNING) (resource_for_job d job))
        (save_job (job\<lparr>j_status := RUNNING, j_attempt := j_attempt job + 1,
                       j_claimed_at := Some now, j_updated_at := now\<rparr>) d)"
  using assms by (auto simp: claim_execution_def Let_def split: option.splits if_splits)

lemma claim_execution_None: "claim_execution k t now d = (d', None) \<Longrightarrow> d' = d"
  by (auto simp: claim_execution_def Let_def split: option.splits if_splits)

lemma engine_inv_claim:
  assumes inv: "engine_inv d" and "claim_execution k t now d = (d', c)"
  shows "engine_inv d'"
proof (cases c)
  case None
  with assms show ?thesis by (auto dest: claim_execution_None)
next
  case (Some cl)
  with assms(2) have "claim_execution k t now d = (d', Some cl)" by simp
  then show ?thesis
  proof (rule claim_execution_Some)
    fix job assume job: "job_of d k = Some job" "resource_matches job (resource_for_job d job)"
      and d': "d' = save_resource_opt (map_option (set_resource_status RUNNING) (resource_for_job d job))
        (save_job (job\<lparr>j_status := RUNNING, j_attempt := j_attempt job + 1,
                       j_claimed_at := Some now, j_updated_at := now\<rparr>) d)"
    show "engine_inv d'"
      unfolding d' using engine_inv_job(1)[OF inv job(1)]
      by (intro owned_transition[OF inv job no_mutate_ok])
        (simp_all add: no_mutate_def job_ok_def)
  qed
qed

lemma jobs_le_claim: "claim_execution k t now d = (d', c) \<Longrightarrow> jobs_le d d'"
  by (auto simp: claim_execution_def Let_def job_le_def split: option.splits if_splits
      intro!: jobs_le_save_job)

subsection \<open>Advance, complete, defer, fail, heartbeat\<close>

lemma engine_inv_advance:
  assumes inv: "engine_inv (store w)" and m: "mutator_ok m"
    and adv: "advance_execution cel c next_task next_step m now w = Inr (w', b)"
  shows "engine_inv (store w')"
proof (cases "owned_execution (store w) c")
  case None
  with adv inv show ?thesis by (simp add: advance_execution_def)
next
  case (Some jr)
  then obtain job where own: "owned_execution (store w) c = Some (job, resource_for_job (store w) job)"
    and job: "job_of (store w) (c_job_id c) = Some job" "resource_matches job (resource_for_job (store w) job)"
    by (rule owned_cases)
  from adv own obtain d1 res1 where mut: "m (store w) (resource_for_job (store w) job) = Inr (d1, res1)"
    and w': "store w' = save_resource_opt
      (map_option (set_resource_status PENDING \<circ> set_resource_step (Some next_step)) res1)
      (save_job (job\<lparr>j_task_name := next_task, j_step := next_step, j_status := PENDING,
                     j_claimed_at := None, j_updated_at := now\<rparr>) d1)"
    by (auto simp: advance_execution_def rbind_Inr_iff Let_def)
  show ?thesis
    unfolding w' using engine_inv_job(1)[OF inv job(1)]
    by (intro owned_transition[OF inv job m mut]) (simp_all add: job_ok_def)
qed

lemma engine_inv_defer:
  assumes inv: "engine_inv d" and m: "mutator_ok m"
    and "defer_execution c m now d = Inr (d', b)"
  shows "engine_inv d'"
proof (cases "owned_execution d c")
  case None
  with assms show ?thesis by (simp add: defer_execution_def)
next
  case (Some jr)
  then obtain job where own: "owned_execution d c = Some (job, resource_for_job d job)"
    and job: "job_of d (c_job_id c) = Some job" "resource_matches job (resource_for_job d job)"
    by (rule owned_cases)
  from assms(3) own obtain d1 res1 where mut: "m d (resource_for_job d job) = Inr (d1, res1)"
    and d': "d' = save_resource_opt (map_option (set_resource_status PENDING) res1)
      (save_job (job\<lparr>j_status := PENDING, j_claimed_at := None, j_updated_at := now\<rparr>) d1)"
    by (auto simp: defer_execution_def rbind_Inr_iff Let_def)
  show ?thesis
    unfolding d' using engine_inv_job(1)[OF inv job(1)]
    by (intro owned_transition[OF inv job m mut]) (simp_all add: job_ok_def)
qed

lemma engine_inv_fail:
  assumes inv: "engine_inv d" and life: "\<And>d. same_lifecycle d (m d)"
  shows "engine_inv (fail_execution c m now d)"
proof (cases "owned_execution d c")
  case None
  with assms show ?thesis by (simp add: fail_execution_def)
next
  case (Some jr)
  then obtain job where own: "owned_execution d c = Some (job, resource_for_job d job)"
    and job: "job_of d (c_job_id c) = Some job" "resource_matches job (resource_for_job d job)"
    by (rule owned_cases)
  have "mutator_ok (\<lambda>d r. Inr (m d, r))"
    using life by (auto simp: mutator_ok_def split: option.splits)
  then have "engine_inv (save_resource_opt (map_option (set_resource_status ERROR) (resource_for_job d job))
      (save_job (job\<lparr>j_status := ERROR, j_claimed_at := None, j_updated_at := now\<rparr>) (m d)))"
    using engine_inv_job(1)[OF inv job(1)]
    by (intro owned_transition[OF inv job]) (simp_all add: job_ok_def)
  with own show ?thesis by (simp add: fail_execution_def Let_def)
qed

lemma engine_inv_heartbeat:
  assumes inv: "engine_inv d" and "heartbeat_execution c now d = (d', b)"
  shows "engine_inv d'"
proof (cases "owned_execution d c")
  case None
  with assms show ?thesis by (simp add: heartbeat_execution_def)
next
  case (Some jr)
  then obtain job where own: "owned_execution d c = Some (job, resource_for_job d job)"
    and job: "job_of d (c_job_id c) = Some job" "resource_matches job (resource_for_job d job)"
    and run: "j_status job = RUNNING"
    by (rule owned_cases)
  let ?job = "job\<lparr>j_claimed_at := Some now, j_updated_at := now\<rparr>"
  have d': "d' = save_job ?job d"
    using assms(2) own by (simp add: heartbeat_execution_def)
  have j: "job_ok job" "lifecycle_ok d job"
    using engine_inv_job[OF inv job(1)] by simp_all
  show ?thesis
  proof (rule engine_invI)
    show "keys_ok d'" using inv d' by (simp add: engine_inv_def)
  next
    fix j' assume "j' \<in> set (job_executions d')"
    then consider "j' = ?job" | "j' \<in> set (job_executions d)" unfolding d' by (auto dest: in_save_job)
    then show "job_ok j' \<and> lifecycle_ok d' j'"
    proof cases
      case 1
      have "resource_for_job d' j' = resource_for_job d job"
        unfolding d' 1 by (simp add: resource_for_job_def cong: option.case_cong)
      moreover have "resource_matches j' r = resource_matches job r" for r
        unfolding 1 by (simp add: resource_matches_def cong: option.case_cong)
      ultimately show ?thesis
        using 1 j run by (auto simp: job_ok_def lifecycle_ok_def split: option.splits)
    next
      case 2
      with engine_invE[OF inv] show ?thesis by (simp add: d' lifecycle_ok_def)
    qed
  qed
qed

lemma delete_where_replace_row:
  "key x = k \<Longrightarrow> delete_where (\<lambda>y. key y = k) (replace_row key x rows) = delete_where (\<lambda>y. key y = k) rows"
  by (induction rows) (auto simp: delete_where_def replace_row_def update_row_def)

lemma map_key_filter_replace:
  "map key (filter (\<lambda>y. key y = key x) (replace_row key x rows)) = map key (filter (\<lambda>y. key y = key x) rows)"
  by (induction rows) (auto simp: replace_row_def update_row_def)

lemma delete_resource_row_save:
  assumes "resource_key r' = resource_key r" and "resource_kind r' = resource_kind r"
  shows "delete_resource_row r (save_resource r' d) = delete_resource_row r d"
proof (cases r)
  case (RInstance i)
  with assms obtain i' where r': "r' = RInstance i'" "i_id i' = i_id i" by (cases r') auto
  show ?thesis
    unfolding RInstance r'
    by (simp add: delete_instance_row_def delete_workspaces_where_def delete_members_where_def
        delete_assignments_where_def delete_where_replace_row Let_def r'(2))
next
  case (RTemplate t)
  with assms obtain t' where r': "r' = RTemplate t'" "t_id t' = t_id t" by (cases r') auto
  show ?thesis
    unfolding RTemplate r'
    by (simp add: delete_template_row_def delete_where_replace_row Let_def r'(2))
next
  case (RAssignment a)
  with assms obtain a' where r': "r' = RAssignment a'" "ta_id a' = ta_id a" by (cases r') auto
  show ?thesis
    unfolding RAssignment r'
    using map_key_filter_replace[of ta_id a' "template_assignments d"]
    by (simp add: delete_assignments_where_def delete_where_replace_row Let_def r'(2))
next
  case (RWorkspace x)
  with assms obtain x' where r': "r' = RWorkspace x'" "w_id x' = w_id x" by (cases r') auto
  show ?thesis
    unfolding RWorkspace r'
    by (simp add: delete_workspaces_where_def delete_where_replace_row r'(2))
qed

text \<open>
  \<open>shrunk d d'\<close>: the jobs are the same and every lifecycle table lost rows at most.
\<close>

definition sub_table :: "('r \<Rightarrow> uuid) \<Rightarrow> 'r list \<Rightarrow> 'r list \<Rightarrow> bool" where
  "sub_table key rows rows' = (\<exists>p. rows' = delete_where p rows)"

definition shrunk :: "db \<Rightarrow> db \<Rightarrow> bool" where
  "shrunk d d' = (job_executions d' = job_executions d
     \<and> sub_table i_id (instances d) (instances d') \<and> sub_table t_id (templates d) (templates d')
     \<and> sub_table ta_id (template_assignments d) (template_assignments d')
     \<and> sub_table w_id (workspaces d) (workspaces d'))"

lemma sub_table_refl [simp]: "sub_table key rows rows"
  unfolding sub_table_def by (rule exI[of _ "\<lambda>_. False"]) (simp add: delete_where_def)

lemma sub_table_delete [simp]: "sub_table key rows (delete_where p rows)"
  by (auto simp: sub_table_def)

lemma sub_table_delete2 [simp]: "sub_table key rows (delete_where p (delete_where q rows))"
  unfolding sub_table_def
  by (rule exI[of _ "\<lambda>r. p r \<or> q r"]) (auto simp: delete_where_def intro: filter_cong)

lemma sub_table_select:
  "sub_table key rows rows' \<Longrightarrow> unique_by key rows \<Longrightarrow>
     unique_by key rows' \<and> (select_row key k rows' = None \<or> select_row key k rows' = select_row key k rows)"
  by (auto simp: sub_table_def select_delete_where split: option.splits)

lemma sub_table_map_select:
  assumes "sub_table key rows rows'" and "unique_by key rows"
  shows "map_option f (select_row key k rows') = None
    \<or> map_option f (select_row key k rows') = map_option f (select_row key k rows)"
  using sub_table_select[OF assms, of k] by auto

lemma engine_inv_shrunk:
  assumes inv: "engine_inv d" and "shrunk d d'"
  shows "engine_inv d'"
proof (rule engine_inv_shrink[OF inv])
  show "job_executions d' = job_executions d" using assms(2) by (simp add: shrunk_def)
  have keys: "keys_ok d" using inv by (rule engine_invE)
  show "keys_ok d'"
    using assms(2) keys unfolding shrunk_def keys_ok_def by (metis sub_table_select)
  fix kind k
  have subs: "sub_table i_id (instances d) (instances d')" "sub_table t_id (templates d) (templates d')"
    "sub_table ta_id (template_assignments d) (template_assignments d')"
    "sub_table w_id (workspaces d) (workspaces d')"
    using assms(2) by (simp_all add: shrunk_def)
  have uniq: "unique_by i_id (instances d)" "unique_by t_id (templates d)"
    "unique_by ta_id (template_assignments d)" "unique_by w_id (workspaces d)"
    using keys by (simp_all add: keys_ok_def)
  show "lookup_resource kind k d' = None \<or> lookup_resource kind k d' = lookup_resource kind k d"
    unfolding lookup_resource_def
    using sub_table_map_select[OF subs(1) uniq(1), of RInstance k]
      sub_table_map_select[OF subs(2) uniq(2), of RTemplate k]
      sub_table_map_select[OF subs(3) uniq(3), of RAssignment k]
      sub_table_map_select[OF subs(4) uniq(4), of RWorkspace k]
    by presburger
qed

lemma shrunk_delete_resource_row: "delete_resource_row r d = Inr d' \<Longrightarrow> shrunk d d'"
  by (cases r)
    (auto simp: shrunk_def delete_instance_row_def delete_template_row_def delete_workspaces_where_def
      delete_assignments_where_def delete_members_where_def Let_def split: if_splits)

lemma engine_inv_complete:
  assumes inv: "engine_inv d" and m: "mutator_ok m"
    and "complete_execution c m del now d = Inr (d', b)"
  shows "engine_inv d'"
proof (cases "owned_execution d c")
  case None
  with assms show ?thesis by (simp add: complete_execution_def)
next
  case (Some jr)
  then obtain job where own: "owned_execution d c = Some (job, resource_for_job d job)"
    and job: "job_of d (c_job_id c) = Some job" "resource_matches job (resource_for_job d job)"
    by (rule owned_cases)
  let ?job = "job\<lparr>j_status := SUCCESS, j_claimed_at := None, j_updated_at := now\<rparr>"
  let ?f = "\<lambda>r. set_resource_step None (set_resource_status SUCCESS r)"
  from assms(3) own obtain d1 res1 where mut: "m d (resource_for_job d job) = Inr (d1, res1)"
    by (auto simp: complete_execution_def rbind_Inr_iff)
  have base: "engine_inv (save_resource_opt (map_option ?f res1) (save_job ?job d1))"
    using engine_inv_job(1)[OF inv job(1)]
    by (intro owned_transition[OF inv job m mut]) (simp_all add: job_ok_def)
  show ?thesis
  proof (cases res1)
    case None
    with base own mut assms(3) show ?thesis by (simp add: complete_execution_def Let_def)
  next
    case (Some r)
    show ?thesis
    proof (cases del)
      case True
      with Some own mut assms(3) have "delete_resource_row r (save_job ?job d1) = Inr d'"
        by (auto simp: complete_execution_def Let_def rbind_Inr_iff)
      then have "delete_resource_row r (save_resource (?f r) (save_job ?job d1)) = Inr d'"
        by (simp add: delete_resource_row_save)
      with base Some show ?thesis
        by (auto intro: engine_inv_shrunk shrunk_delete_resource_row)
    next
      case False
      with Some base own mut assms(3) show ?thesis by (simp add: complete_execution_def Let_def)
    qed
  qed
qed

subsection \<open>Retry preparation\<close>

lemma prepare_execution_retry_running:
  assumes "job_of d k = Some job" and "j_status job = RUNNING"
    and "resource_matches job (resource_for_job d job)" and "j_claimed_at job = Some claimed_at"
  shows "prepare_execution_retry k stale now d =
     (if stale < claimed_at then (d, None)
      else (save_resource_opt (map_option (set_resource_status PENDING) (resource_for_job d job))
              (save_job (job\<lparr>j_status := PENDING, j_claimed_at := None, j_updated_at := now\<rparr>) d),
            Some (j_task_name job)))"
  using assms by (simp add: prepare_execution_retry_def Let_def)

lemma prepare_execution_retry_idle:
  assumes "\<And>job claimed_at. job_of d k = Some job \<Longrightarrow> j_status job = RUNNING \<Longrightarrow>
      resource_matches job (resource_for_job d job) \<Longrightarrow> j_claimed_at job \<noteq> Some claimed_at"
  shows "fst (prepare_execution_retry k stale now d) = d"
  using assms by (simp add: prepare_execution_retry_def Let_def split: option.split)

lemma prepare_execution_retry_cases:
  assumes "prepare_execution_retry k stale now d = (d', t)"
  obtains (same) "d' = d"
  | (reclaimed) job claimed_at where "job_of d k = Some job" "j_status job = RUNNING"
      "resource_matches job (resource_for_job d job)" "j_claimed_at job = Some claimed_at"
      "claimed_at \<le> stale" "t = Some (j_task_name job)"
      "d' = save_resource_opt (map_option (set_resource_status PENDING) (resource_for_job d job))
         (save_job (job\<lparr>j_status := PENDING, j_claimed_at := None, j_updated_at := now\<rparr>) d)"
proof (cases "\<exists>job claimed_at. job_of d k = Some job \<and> j_status job = RUNNING
    \<and> resource_matches job (resource_for_job d job) \<and> j_claimed_at job = Some claimed_at")
  case True
  then obtain job claimed_at where job: "job_of d k = Some job" "j_status job = RUNNING"
    "resource_matches job (resource_for_job d job)" "j_claimed_at job = Some claimed_at" by blast
  show thesis
  proof (cases "stale < claimed_at")
    case True
    with assms have "d' = d" by (simp add: prepare_execution_retry_running[OF job])
    then show thesis by (rule same)
  next
    case False
    with assms show thesis
      by (intro reclaimed[OF job]) (simp_all add: prepare_execution_retry_running[OF job])
  qed
next
  case False
  then have "fst (prepare_execution_retry k stale now d) = d"
    by (intro prepare_execution_retry_idle) blast
  with assms have "d' = d" by simp
  then show thesis by (rule same)
qed

lemma engine_inv_prepare:
  assumes inv: "engine_inv d" and "prepare_execution_retry k stale now d = (d', t)"
  shows "engine_inv d'"
  using assms(2)
proof (cases rule: prepare_execution_retry_cases)
  case same
  with inv show ?thesis by simp
next
  case (reclaimed job claimed_at)
  then show ?thesis
    using engine_inv_job(1)[OF inv reclaimed(1)]
    by (auto intro!: owned_transition[OF inv reclaimed(1,3) no_mutate_ok]
        simp: no_mutate_def job_ok_def)
qed

section \<open>Transactions respect the order of jobs\<close>

lemma jobs_le_advance:
  assumes "mutator_ok m" and "advance_execution cel c t st m now w = Inr (w', b)"
  shows "jobs_le (store w) (store w')"
proof (cases "owned_execution (store w) c")
  case None
  with assms show ?thesis by (simp add: advance_execution_def)
next
  case (Some jr)
  then obtain job where own: "owned_execution (store w) c = Some (job, resource_for_job (store w) job)"
    and job: "job_of (store w) (c_job_id c) = Some job" and run: "j_status job = RUNNING"
    by (rule owned_cases)
  from own assms(2) obtain d1 r where mut: "m (store w) (resource_for_job (store w) job) = Inr (d1, r)"
    by (auto simp: advance_execution_def rbind_Inr_iff)
  then have "job_executions d1 = job_executions (store w)"
    using mutator_okD(1)[OF assms(1)] by (simp add: same_lifecycle_def)
  with job run own assms(2) mut show ?thesis
    by (auto simp: advance_execution_def Let_def job_le_def intro!: jobs_le_save_job)
qed

lemma jobs_le_fail:
  assumes "\<And>d. same_lifecycle d (m d)"
  shows "jobs_le d (fail_execution c m now d)"
  using assms
  by (auto simp: fail_execution_def Let_def owned_execution_iff job_le_def same_lifecycle_def
      split: option.split intro!: jobs_le_save_job)

lemma jobs_le_defer:
  assumes "mutator_ok m" and "defer_execution c m now d = Inr (d', b)"
  shows "jobs_le d d'"
proof (cases "owned_execution d c")
  case None
  with assms show ?thesis by (simp add: defer_execution_def)
next
  case (Some jr)
  then obtain job where own: "owned_execution d c = Some (job, resource_for_job d job)"
    and job: "job_of d (c_job_id c) = Some job" and run: "j_status job = RUNNING"
    by (rule owned_cases)
  from own assms(2) obtain d1 r where mut: "m d (resource_for_job d job) = Inr (d1, r)"
    by (auto simp: defer_execution_def rbind_Inr_iff)
  then have "job_executions d1 = job_executions d"
    using mutator_okD(1)[OF assms(1)] by (simp add: same_lifecycle_def)
  with job run own assms(2) mut show ?thesis
    by (auto simp: defer_execution_def Let_def job_le_def intro!: jobs_le_save_job)
qed

lemma jobs_le_complete:
  assumes "mutator_ok m" and "complete_execution c m del now d = Inr (d', b)"
  shows "jobs_le d d'"
proof (cases "owned_execution d c")
  case None
  with assms show ?thesis by (simp add: complete_execution_def)
next
  case (Some jr)
  then obtain job where own: "owned_execution d c = Some (job, resource_for_job d job)"
    and job: "job_of d (c_job_id c) = Some job" and run: "j_status job = RUNNING"
    by (rule owned_cases)
  let ?job = "job\<lparr>j_status := SUCCESS, j_claimed_at := None, j_updated_at := now\<rparr>"
  from own assms(2) obtain d1 r where mut: "m d (resource_for_job d job) = Inr (d1, r)"
    by (auto simp: complete_execution_def rbind_Inr_iff)
  then have "job_executions d1 = job_executions d"
    using mutator_okD(1)[OF assms(1)] by (simp add: same_lifecycle_def)
  then have le: "jobs_le d (save_resource_opt None (save_job ?job d1))"
    using job run by (intro jobs_le_save_job) (auto simp: job_le_def)
  have "job_executions d' = job_executions (save_job ?job d1)"
    using own assms(2) mut
    by (auto simp: complete_execution_def Let_def rbind_Inr_iff split: option.splits if_splits
        dest: shrunk_delete_resource_row simp: shrunk_def)
  with le show ?thesis by (simp add: jobs_le_def)
qed

lemma jobs_le_heartbeat: "heartbeat_execution c now d = (d', b) \<Longrightarrow> jobs_le d d'"
  using jobs_le_save_job[where r = None]
  by (fastforce simp: heartbeat_execution_def owned_execution_iff job_le_def split: option.splits)

lemma jobs_le_prepare:
  assumes "prepare_execution_retry k stale now d = (d', t)"
  shows "jobs_le d d'"
  using assms
proof (cases rule: prepare_execution_retry_cases)
  case (reclaimed job claimed_at)
  then show ?thesis by (auto simp: job_le_def intro!: jobs_le_save_job)
qed simp

section \<open>Requests attach jobs\<close>

lemma job_executions_stage_job [simp]:
  "job_executions (stage_job j d) = insert_row j (job_executions d)"
  by (simp add: stage_job_def)

lemma stage_job_frame [simp]:
  "instances (stage_job j d) = instances d" "templates (stage_job j d) = templates d"
  "template_assignments (stage_job j d) = template_assignments d"
  "workspaces (stage_job j d) = workspaces d" "members (stage_job j d) = members d"
  "databases (stage_job j d) = databases d"
  "database_allocations (stage_job j d) = database_allocations d"
  "instance_kubernetes_rows (stage_job j d) = instance_kubernetes_rows d"
  by (simp_all add: stage_job_def)

lemma lookup_stage_job [simp]: "lookup_resource kind k (stage_job j d) = lookup_resource kind k d"
  by (simp add: lookup_resource_def)

lemma resource_for_job_stage_job [simp]: "resource_for_job (stage_job j d) = resource_for_job d"
  by (simp add: fun_eq_iff resource_for_job_def cong: option.case_cong)

definition new_job :: "job_execution \<Rightarrow> bool" where
  "new_job j = (j_status j = PENDING \<and> j_attempt j = 0 \<and> j_claimed_at j = None)"

lemma new_job_add [simp]: "new_job (add_job_execution k n t rt ri st now)"
  by (simp add: new_job_def add_job_execution_def)

lemma add_job_execution_fields [simp]:
  "j_id (add_job_execution k n t rt ri st now) = k"
  "j_name (add_job_execution k n t rt ri st now) = n"
  "j_task_name (add_job_execution k n t rt ri st now) = t"
  "j_resource_type (add_job_execution k n t rt ri st now) = rt"
  "j_resource_id (add_job_execution k n t rt ri st now) = ri"
  "j_step (add_job_execution k n t rt ri st now) = st"
  "j_status (add_job_execution k n t rt ri st now) = PENDING"
  by (simp_all add: add_job_execution_def)

lemma engine_inv_request:
  assumes inv: "engine_inv d" and fresh: "job_of d (j_id job) = None" and new: "new_job job"
    and row: "lookup_resource (resource_kind r') (resource_key r') d \<noteq> None"
    and link: "resource_job_id r' = Some (j_id job)" "resource_status r' = PENDING"
    and ref: "j_resource_type job = Some (resource_kind r')" "j_resource_id job = Some (resource_key r')"
  shows "engine_inv (save_resource r' (stage_job job d))"
proof (rule engine_invI)
  have absent: "j_id job \<notin> keys_of j_id (job_executions d)"
    using fresh by (simp add: select_row_None)
  then have "keys_ok (stage_job job d)"
    using engine_invE(1)[OF inv] by (simp add: keys_ok_def)
  then show "keys_ok (save_resource r' (stage_job job d))" by simp
  fix j assume "j \<in> set (job_executions (save_resource r' (stage_job job d)))"
  then consider (new) "j = job" | (old) "j \<in> set (job_executions d)" by auto
  then show "job_ok j \<and> lifecycle_ok (save_resource r' (stage_job job d)) j"
  proof cases
    case new
    have "resource_for_job (save_resource r' (stage_job job d)) job = Some r'"
      using ref row by (auto simp: resource_for_job_def dest: lookup_resource_Some intro!: lookup_save_same)
    then show ?thesis
      using new assms(3) link(2) by (simp add: lifecycle_ok_def job_ok_def new_job_def)
  next
    case old
    then have "j_id j \<noteq> j_id job" using absent by (metis keys_ofI)
    moreover have "job_ok j" "lifecycle_ok (stage_job job d) j"
      using engine_invE[OF inv] old by (simp_all add: lifecycle_ok_def)
    ultimately show ?thesis
      using link(1) row by (simp add: lifecycle_ok_save_other)
  qed
qed

lemma jobs_le_stage:
  assumes "job_of d (j_id job) = None" and "job_executions d' = insert_row job (job_executions d)"
  shows "jobs_le d d'"
  using assms by (auto simp: jobs_le_def select_insert_row split: option.splits if_splits)

lemma lookup_insert_resource:
  "lookup_resource (resource_kind r) (resource_key r) d = None \<Longrightarrow>
   lookup_resource kind k (insert_resource r d) =
     (if kind = resource_kind r \<and> k = resource_key r then Some r else lookup_resource kind k d)"
  by (cases r) (auto simp: lookup_resource_def select_insert_row split: option.splits)

lemma job_executions_insert_resource [simp]: "job_executions (insert_resource r d) = job_executions d"
  by (cases r) simp_all

lemma keys_ok_insert_resource:
  "lookup_resource (resource_kind r) (resource_key r) d = None \<Longrightarrow> keys_ok d \<Longrightarrow>
   keys_ok (insert_resource r d)"
  by (cases r) (simp_all add: keys_ok_def lookup_resource_def select_row_None)

lemma engine_inv_create:
  assumes inv: "engine_inv d" and fresh: "job_of d (j_id job) = None" and new: "new_job job"
    and row: "lookup_resource (resource_kind r) (resource_key r) d = None"
    and link: "resource_job_id r = Some (j_id job)" "resource_status r = PENDING"
    and ref: "j_resource_type job = Some (resource_kind r)" "j_resource_id job = Some (resource_key r)"
  shows "engine_inv (insert_resource r (stage_job job d))"
proof (rule engine_invI)
  let ?d = "insert_resource r (stage_job job d)"
  have absent: "j_id job \<notin> keys_of j_id (job_executions d)"
    using fresh by (simp add: select_row_None)
  then have "keys_ok (stage_job job d)"
    using engine_invE(1)[OF inv] by (simp add: keys_ok_def)
  then show "keys_ok ?d" using row by (simp add: keys_ok_insert_resource)
  have look: "lookup_resource kind k ?d =
      (if kind = resource_kind r \<and> k = resource_key r then Some r else lookup_resource kind k d)" for kind k
    using row by (simp add: lookup_insert_resource)
  fix j assume "j \<in> set (job_executions ?d)"
  then consider (new) "j = job" | (old) "j \<in> set (job_executions d)" by auto
  then show "job_ok j \<and> lifecycle_ok ?d j"
  proof cases
    case new
    have "resource_for_job ?d job = Some r"
      using ref look by (simp add: resource_for_job_def)
    then show ?thesis
      using new assms(3) link(2) by (simp add: lifecycle_ok_def job_ok_def new_job_def)
  next
    case old
    then have neq: "j_id j \<noteq> j_id job" using absent by (metis keys_ofI)
    have j: "job_ok j" "lifecycle_ok d j" using engine_invE[OF inv] old by simp_all
    show ?thesis
    proof (cases "j_resource_type j = Some (resource_kind r) \<and> j_resource_id j = Some (resource_key r)")
      case True
      then have "resource_for_job ?d j = Some r" using look by (simp add: resource_for_job_def)
      then show ?thesis using j(1) link(1) neq by (auto intro: lifecycle_ok_foreign)
    next
      case False
      then have "resource_for_job ?d j = resource_for_job d j"
        using look by (auto simp: resource_for_job_def split: option.splits)
      then show ?thesis using j by (simp add: lifecycle_ok_def)
    qed
  qed
qed

end
