(* ===== verification/Recovery.thy ===== *)
theory Recovery
  imports Engine
begin

text \<open>
  Recovery and fencing of the execution engine: what a stale worker can still do, what a
  failed step leaves behind, and that the periodic scan makes every interrupted job
  claimable again.
\<close>

section \<open>Stale claims\<close>

lemma stale_claim_noop:
  assumes "owned_execution (store w) c = None"
  shows "advance_execution cel c t st m now w = Inr (w, False)"
    and "complete_execution c m del now (store w) = Inr (store w, False)"
    and "defer_execution c m now (store w) = Inr (store w, False)"
    and "fail_execution c g now (store w) = store w"
    and "heartbeat_execution c now (store w) = (store w, False)"
  using assms
  by (simp_all add: advance_execution_def complete_execution_def defer_execution_def
      fail_execution_def heartbeat_execution_def)

text \<open>Rewriting the status of a job and of its row keeps the two attached.\<close>

lemma matches_after_status:
  assumes "resource_matches job (resource_for_job d job)"
    and "j_id job' = j_id job" "j_name job' = j_name job" "j_step job' = j_step job"
      "j_resource_type job' = j_resource_type job" "j_resource_id job' = j_resource_id job"
  shows "resource_matches job' (resource_for_job
     (save_resource_opt (map_option (set_resource_status s) (resource_for_job d job)) (save_job job' d)) job')"
  using assms(1)
proof (cases rule: matching_resource)
  case untyped
  then show ?thesis using assms(5) by (simp add: resource_matches_def)
next
  case (owned r)
  have "resource_for_job d job' = Some r"
    using owned(1) assms(5,6) by (simp add: resource_for_job_def cong: option.case_cong)
  then have "resource_for_job (save_resource (set_resource_status s r) (save_job job' d)) job'
      = Some (set_resource_status s r)"
    by (intro resource_for_job_save_same) simp_all
  then show ?thesis
    using assms owned by (auto simp: resource_matches_def split: option.splits)
qed

text \<open>A successful claim owns its job, with the attempt number it was given.\<close>

lemma claim_owns:
  assumes "claim_execution k t now d = (d', Some c)"
  shows "owned_execution d' c \<noteq> None" and "c_job_id c = k"
proof -
  obtain job where job: "job_of d k = Some job" "j_task_name job = t"
      "resource_matches job (resource_for_job d job)"
    and c: "c = \<lparr>c_job_id = j_id job, c_task_name = t, c_step = j_step job, c_attempt = j_attempt job + 1,
          c_resource_type = j_resource_type job, c_resource_id = j_resource_id job\<rparr>"
    and d': "d' = save_resource_opt (map_option (set_resource_status RUNNING) (resource_for_job d job))
        (save_job (job\<lparr>j_status := RUNNING, j_attempt := j_attempt job + 1,
                       j_claimed_at := Some now, j_updated_at := now\<rparr>) d)"
    using assms by (rule claim_execution_Some)
  let ?job = "job\<lparr>j_status := RUNNING, j_attempt := j_attempt job + 1, j_claimed_at := Some now, j_updated_at := now\<rparr>"
  have id: "j_id job = k" using job(1) by (rule select_row_key)
  then show "c_job_id c = k" by (simp add: c)
  have "job_of d' k = Some ?job"
    using job(1) id by (simp add: d' job_of_save_job)
  moreover have "resource_matches ?job (resource_for_job d' ?job)"
    unfolding d' by (rule matches_after_status[OF job(3)]) simp_all
  ultimately show "owned_execution d' c \<noteq> None"
    using id job(2) by (simp add: owned_execution_def c)
qed

text \<open>Two claims that own the same job at the same time are the same attempt.\<close>

lemma owners_agree:
  assumes "owned_execution d c \<noteq> None" and "owned_execution d c' \<noteq> None"
    and "c_job_id c = c_job_id c'"
  shows "c_attempt c = c_attempt c' \<and> c_step c = c_step c' \<and> c_task_name c = c_task_name c'"
  using assms by (auto simp: owned_execution_iff)

text \<open>
  A claim that was issued for a job and has lost it stays lost along the order of jobs.
\<close>

definition claim_issued :: "db \<Rightarrow> execution_claim \<Rightarrow> bool" where
  "claim_issued d c = (case job_of d (c_job_id c) of None \<Rightarrow> True | Some j \<Rightarrow> c_attempt c \<le> j_attempt j)"

definition job_current :: "db \<Rightarrow> execution_claim \<Rightarrow> bool" where
  "job_current d c = (case job_of d (c_job_id c) of None \<Rightarrow> False
     | Some j \<Rightarrow> j_task_name j = c_task_name c \<and> j_step j = c_step c \<and> j_attempt j = c_attempt c
         \<and> j_status j = RUNNING)"

lemma owned_current: "owned_execution d c \<noteq> None \<Longrightarrow> job_current d c"
  by (auto simp: owned_execution_iff job_current_def)

lemma lost_stays_lost:
  assumes "jobs_le d d'" and "job_of d (c_job_id c) \<noteq> None" and "claim_issued d c" and "\<not> job_current d c"
  shows "\<not> job_current d' c"
proof
  assume cur: "job_current d' c"
  from assms(2) obtain j where j: "job_of d (c_job_id c) = Some j" by blast
  from cur obtain j' where j': "job_of d' (c_job_id c) = Some j'" "j_attempt j' = c_attempt c"
    "j_status j' = RUNNING" "j_task_name j' = c_task_name c" "j_step j' = c_step c"
    by (auto simp: job_current_def split: option.splits)
  have le: "job_le j j'" using assms(1) j j'(1) by (simp add: jobs_le_def)
  have "c_attempt c \<le> j_attempt j" using assms(3) j by (simp add: claim_issued_def)
  moreover have "j_attempt j \<le> j_attempt j'" using le unfolding job_le_def by blast
  ultimately have "j_attempt j' = j_attempt j" using j'(2) by simp
  with le j'(3) have "j_status j = RUNNING" "j_task_name j' = j_task_name j" "j_step j' = j_step j"
    unfolding job_le_def by blast+
  with j j' \<open>j_attempt j' = j_attempt j\<close> assms(4) show False
    by (simp add: job_current_def)
qed

section \<open>Failed steps\<close>

lemma fail_execution_owned:
  assumes "owned_execution d c = Some (job, res)"
  shows "\<exists>job'. job_of (fail_execution c (\<lambda>d. d) now d) (c_job_id c) = Some job' \<and> j_status job' = ERROR
      \<and> j_claimed_at job' = None \<and> j_step job' = j_step job \<and> j_task_name job' = j_task_name job
      \<and> j_attempt job' = j_attempt job"
proof -
  have "job_of d (c_job_id c) = Some job" "j_id job = c_job_id c"
    using assms owned_job_id[OF assms] by (simp_all add: owned_execution_iff)
  with assms show ?thesis
    by (simp add: fail_execution_def Let_def job_of_save_job)
qed

section \<open>The retry scan\<close>

definition retryable :: "db \<Rightarrow> instant \<Rightarrow> uuid \<Rightarrow> string \<Rightarrow> bool" where
  "retryable d stale k t = (case job_of d k of None \<Rightarrow> False
     | Some job \<Rightarrow> j_status job \<noteq> SUCCESS \<and> j_task_name job = t \<and> resource_matches job (resource_for_job d job)
         \<and> (j_status job = RUNNING \<longrightarrow>
              (case j_claimed_at job of None \<Rightarrow> False | Some claimed_at \<Rightarrow> claimed_at \<le> stale)))"

definition claimable :: "db \<Rightarrow> uuid \<Rightarrow> string \<Rightarrow> bool" where
  "claimable d k t = (case job_of d k of None \<Rightarrow> False
     | Some job \<Rightarrow> j_status job \<in> {PENDING, ERROR} \<and> j_task_name job = t
         \<and> resource_matches job (resource_for_job d job))"

lemma claimable_claims: "claimable d k t \<Longrightarrow> \<exists>d' c. claim_execution k t now d = (d', Some c)"
  by (auto simp: claimable_def claim_execution_def Let_def split: option.splits)

lemma claimable_retryable: "claimable d k t \<Longrightarrow> retryable d stale k t"
  by (auto simp: claimable_def retryable_def split: option.splits)

text \<open>Reclaiming one job does not change how another job sees itself and its row.\<close>

lemma reclaim_other_view:
  assumes job: "job_of d k = Some job" "resource_matches job (resource_for_job d job)"
    and job2: "job_of d k2 = Some job2" "resource_matches job2 (resource_for_job d job2)"
    and "k \<noteq> k2" and id: "j_id job' = k2"
  shows "resource_for_job (save_resource_opt (map_option (set_resource_status s) (resource_for_job d job2))
           (save_job job' d)) job = resource_for_job d job"
  using job2(2)
proof (cases rule: matching_resource)
  case untyped
  then show ?thesis by simp
next
  case (owned r2)
  show ?thesis
  proof (cases "j_resource_type job = Some (resource_kind r2) \<and> j_resource_id job = Some (resource_key r2)")
    case True
    then have "resource_for_job d job = Some r2"
      using owned(1) resource_for_job_Some[OF owned(1)] by (simp add: resource_for_job_def)
    with job(2) True have "resource_job_id r2 = Some (j_id job)"
      using resource_matches_Some by fastforce
    then have "j_id job = j_id job2" using owned(2) by simp
    then show ?thesis
      using job(1) job2(1) assms(5) by (auto dest!: select_row_key)
  next
    case False
    then show ?thesis using owned(1) by (simp add: resource_for_job_save_other)
  qed
qed

lemma prepare_other:
  assumes "prepare_execution_retry k2 stale now d = (d', t2)" and "k2 \<noteq> k"
    and "job_of d k = Some job" and "resource_matches job (resource_for_job d job)"
  shows "job_of d' k = Some job \<and> resource_for_job d' job = resource_for_job d job"
  using assms(1)
proof (cases rule: prepare_execution_retry_cases)
  case same
  then show ?thesis using assms by simp
next
  case (reclaimed job2 claimed_at)
  have id: "j_id job2 = k2" using reclaimed(1) by (rule select_row_key)
  show ?thesis
    using assms id reclaim_other_view[OF assms(3,4) reclaimed(1,3)]
    by (simp add: reclaimed(7) job_of_save_job)
qed

lemma retryable_prepare_other:
  "prepare_execution_retry k2 stale' now d = (d', t2) \<Longrightarrow> k2 \<noteq> k \<Longrightarrow> retryable d stale k t \<Longrightarrow>
   retryable d' stale k t"
  using prepare_other by (fastforce simp: retryable_def split: option.splits)

lemma claimable_prepare_other:
  "prepare_execution_retry k2 stale' now d = (d', t2) \<Longrightarrow> k2 \<noteq> k \<Longrightarrow> claimable d k t \<Longrightarrow> claimable d' k t"
  using prepare_other by (fastforce simp: claimable_def split: option.splits)

lemma prepare_self:
  assumes retry: "retryable d stale k t" and prep: "prepare_execution_retry k stale now d = (d', t')"
  shows "t' = Some t \<and> claimable d' k t"
proof -
  from retry obtain job where job: "job_of d k = Some job" "j_task_name job = t" "j_status job \<noteq> SUCCESS"
    "resource_matches job (resource_for_job d job)"
    by (auto simp: retryable_def split: option.splits)
  have id: "j_id job = k" using job(1) by (rule select_row_key)
  show ?thesis
  proof (cases "j_status job = RUNNING")
    case True
    with retry job(1) obtain claimed_at where at: "j_claimed_at job = Some claimed_at" "claimed_at \<le> stale"
      by (auto simp: retryable_def split: option.splits)
    let ?job = "job\<lparr>j_status := PENDING, j_claimed_at := None, j_updated_at := now\<rparr>"
    have d': "t' = Some t" "d' = save_resource_opt
        (map_option (set_resource_status PENDING) (resource_for_job d job)) (save_job ?job d)"
      using prep at(2) job(2) by (simp_all add: prepare_execution_retry_running[OF job(1) True job(4) at(1)])
    have "resource_matches ?job (resource_for_job d' ?job)"
      unfolding d'(2) by (rule matches_after_status[OF job(4)]) simp_all
    moreover have "job_of d' k = Some ?job"
      using job(1) id by (simp add: d'(2) job_of_save_job)
    ultimately show ?thesis using d'(1) job(2) by (simp add: claimable_def)
  next
    case False
    with job prep have "d' = d" "t' = Some t"
      by (auto simp: prepare_execution_retry_def Let_def)
    moreover have "j_status job \<in> {PENDING, ERROR}" using job(3) False by (cases "j_status job") auto
    ultimately show ?thesis using job by (simp add: claimable_def)
  qed
qed

lemma claimable_prepare:
  "prepare_execution_retry k2 stale now d = (d', t2) \<Longrightarrow> claimable d k t \<Longrightarrow> claimable d' k t"
  using claimable_prepare_other prepare_self claimable_retryable by (cases "k2 = k") blast+

lemma retry_each_keeps_claimable:
  "claimable (store w) k t \<Longrightarrow> claimable (store (fst (retry_each cel stale now ks (w, a, b)))) k t"
proof (induction ks arbitrary: w a b)
  case (Cons k2 ks)
  obtain d t2 where prep: "prepare_execution_retry k2 stale now (store w) = (d, t2)"
    by (cases "prepare_execution_retry k2 stale now (store w)")
  with Cons.prems have "claimable d k t" by (rule claimable_prepare[rotated])
  with prep show ?case by (auto simp: Let_def split: option.splits prod.splits intro!: Cons.IH)
qed simp

lemma retry_each_broker_mono:
  "set (broker w) \<subseteq> set (broker (fst (retry_each cel stale now ks (w, a, b))))"
proof (induction ks arbitrary: w a b)
  case (Cons k2 ks)
  obtain d t2 where prep: "prepare_execution_retry k2 stale now (store w) = (d, t2)"
    by (cases "prepare_execution_retry k2 stale now (store w)")
  show ?case
  proof (cases t2)
    case None
    with prep Cons.IH[of "w\<lparr>store := d\<rparr>"] show ?thesis by simp
  next
    case (Some t)
    obtain q acc where disp: "dispatch_registered_step cel t k2 (broker w) = (q, acc)"
      by (cases "dispatch_registered_step cel t k2 (broker w)")
    then have "set (broker w) \<subseteq> set q"
      by (auto simp: dispatch_registered_step_def split: if_splits)
    with Some prep disp Cons.IH[of "w\<lparr>store := d, broker := q\<rparr>"] show ?thesis
      by (auto simp: Let_def)
  qed
qed simp

lemma retry_each_recovers:
  assumes "retryable (store w) stale k t" and "k \<in> set ks"
    and up: "t \<in> set REGISTERED_STEP_NAMES" "task_loaded cel t" "delay_succeeds cel t k"
  shows "(t, k) \<in> set (broker (fst (retry_each cel stale now ks (w, a, b))))
    \<and> claimable (store (fst (retry_each cel stale now ks (w, a, b)))) k t"
  using assms(1,2)
proof (induction ks arbitrary: w a b)
  case (Cons k2 ks)
  obtain d t2 where prep: "prepare_execution_retry k2 stale now (store w) = (d, t2)"
    by (cases "prepare_execution_retry k2 stale now (store w)")
  show ?case
  proof (cases "k2 = k")
    case True
    with prep Cons.prems(1) have t2: "t2 = Some t" and cl: "claimable d k t"
      using prepare_self by blast+
    let ?w = "w\<lparr>store := d, broker := broker w @ [(t, k)]\<rparr>"
    have step: "retry_each cel stale now (k2 # ks) (w, a, b) = retry_each cel stale now ks (?w, Suc a, b)"
      using True t2 prep up by (simp add: dispatch_registered_step_def)
    have "claimable (store ?w) k t" using cl by simp
    from retry_each_keeps_claimable[OF this] retry_each_broker_mono[of ?w cel stale now ks]
    show ?thesis unfolding step by auto
  next
    case False
    with prep Cons.prems have "retryable d stale k t" and "k \<in> set ks"
      using retryable_prepare_other by auto
    with Cons.IH prep show ?thesis by (auto simp: Let_def split: option.splits prod.splits)
  qed
qed simp

lemma retryable_candidate: "retryable d stale k t \<Longrightarrow> k \<in> set (retry_candidates stale d)"
proof -
  assume retry: "retryable d stale k t"
  then obtain job where job: "job_of d k = Some job" "j_status job \<noteq> SUCCESS"
    "j_status job = RUNNING \<longrightarrow> (case j_claimed_at job of None \<Rightarrow> False | Some c \<Rightarrow> c \<le> stale)"
    by (auto simp: retryable_def split: option.splits)
  then have "job \<in> set (job_executions d)" "j_id job = k" by (auto dest: select_row_Some)
  moreover have "j_status job \<in> {PENDING, ERROR} \<or> j_status job = RUNNING"
    using job(2) by (cases "j_status job") auto
  ultimately show ?thesis using job(3) by (force simp: retry_candidates_def)
qed

end
