(* ===== verification/System.thy ===== *)
theory System
  imports Recovery
begin

text \<open>
  The system as a state machine over the durable store. One step is the effect of one
  committed transaction: a worker claims, advances, completes, defers, fails or beats; the
  scan reclaims a job; a request stages a job for a row; a row without a job is added; rows outside the lifecycle are
  written; rows go. Any interleaving of API requests, workers (stale ones too) and periodic
  tasks is a path of this relation, since every claim value may be used at every step.
\<close>

section \<open>Transactions\<close>

text \<open>A superseded job of a template is dropped by the request that supersedes it.\<close>

definition drop_job :: "uuid option \<Rightarrow> db \<Rightarrow> db" where
  "drop_job k d = (case k of None \<Rightarrow> d
     | Some jk \<Rightarrow> d\<lparr>job_executions := delete_where (\<lambda>j. j_id j = jk) (job_executions d)\<rparr>)"

inductive sys_txn :: "db \<Rightarrow> db \<Rightarrow> bool" where
  claim: "claim_execution k t now d = (d', c) \<Longrightarrow> sys_txn d d'"
| advance: "mutator_ok m \<Longrightarrow> advance_execution cel c t st m now w = Inr (w', b) \<Longrightarrow>
    sys_txn (store w) (store w')"
| complete: "mutator_ok m \<Longrightarrow> complete_execution c m del now d = Inr (d', b) \<Longrightarrow> sys_txn d d'"
| deferral: "mutator_ok m \<Longrightarrow> defer_execution c m now d = Inr (d', b) \<Longrightarrow> sys_txn d d'"
| fail: "(\<And>d. same_lifecycle d (m d)) \<Longrightarrow> sys_txn d (fail_execution c m now d)"
| heartbeat: "heartbeat_execution c now d = (d', b) \<Longrightarrow> sys_txn d d'"
| reclaim: "prepare_execution_retry k stale now d = (d', t') \<Longrightarrow> sys_txn d d'"
| bookkeep: "same_lifecycle d d' \<Longrightarrow> sys_txn d d'"
| remove: "shrunk d d' \<Longrightarrow> sys_txn d d'"
| touch: "lookup_resource (resource_kind r) (resource_key r) d = Some r \<Longrightarrow>
    resource_kind r' = resource_kind r \<Longrightarrow> resource_key r' = resource_key r \<Longrightarrow>
    resource_job_id r' = resource_job_id r \<Longrightarrow> resource_action r' = resource_action r \<Longrightarrow>
    resource_step r' = resource_step r \<Longrightarrow> resource_status r' = resource_status r \<Longrightarrow>
    sys_txn d (save_resource r' d)"
| discard: "lookup_resource (resource_kind r) (resource_key r) d = Some r \<Longrightarrow>
    resource_kind r' = resource_kind r \<Longrightarrow> resource_key r' = resource_key r \<Longrightarrow>
    resource_job_id r' = None \<Longrightarrow> sys_txn d (save_resource r' (drop_job k d))"
| system_job: "job_of d (j_id job) = None \<Longrightarrow> new_job job \<Longrightarrow> j_resource_type job = None \<Longrightarrow>
    sys_txn d (stage_job job d)"
| request: "job_of d (j_id job) = None \<Longrightarrow> new_job job \<Longrightarrow>
    lookup_resource (resource_kind r) (resource_key r) d \<noteq> None \<Longrightarrow>
    resource_job_id r = Some (j_id job) \<Longrightarrow> resource_status r = PENDING \<Longrightarrow>
    j_resource_type job = Some (resource_kind r) \<Longrightarrow> j_resource_id job = Some (resource_key r) \<Longrightarrow>
    sys_txn d (save_resource r (stage_job job d))"
| create: "job_of d (j_id job) = None \<Longrightarrow> new_job job \<Longrightarrow>
    lookup_resource (resource_kind r) (resource_key r) d = None \<Longrightarrow>
    resource_job_id r = Some (j_id job) \<Longrightarrow> resource_status r = PENDING \<Longrightarrow>
    j_resource_type job = Some (resource_kind r) \<Longrightarrow> j_resource_id job = Some (resource_key r) \<Longrightarrow>
    sys_txn d (insert_resource r (stage_job job d))"
| insert: "lookup_resource (resource_kind r) (resource_key r) d = None \<Longrightarrow> resource_job_id r = None \<Longrightarrow>
    sys_txn d (insert_resource r d)"

abbreviation sys_run :: "db \<Rightarrow> db \<Rightarrow> bool" where
  "sys_run \<equiv> sys_txn\<^sup>*\<^sup>*"

section \<open>The invariant along the system\<close>

lemma engine_inv_touch:
  assumes inv: "engine_inv d"
    and old: "lookup_resource (resource_kind r) (resource_key r) d = Some r"
    and same: "resource_kind r' = resource_kind r" "resource_key r' = resource_key r"
      "resource_job_id r' = resource_job_id r" "resource_action r' = resource_action r"
      "resource_step r' = resource_step r" "resource_status r' = resource_status r"
  shows "engine_inv (save_resource r' d)"
proof (rule engine_invI)
  show "keys_ok (save_resource r' d)" using engine_invE(1)[OF inv] by simp
next
  fix j assume "j \<in> set (job_executions (save_resource r' d))"
  then have j: "job_ok j" "lifecycle_ok d j" using engine_invE[OF inv] by simp_all
  show "job_ok j \<and> lifecycle_ok (save_resource r' d) j"
  proof (cases "j_resource_type j = Some (resource_kind r) \<and> j_resource_id j = Some (resource_key r)")
    case True
    with old have r: "resource_for_job d j = Some r" by (simp add: resource_for_job_def)
    with same have "resource_for_job (save_resource r' d) j = Some r'"
      by (intro resource_for_job_save_same)
    moreover have "resource_matches j (Some r') = resource_matches j (Some r)"
      using same by (simp add: resource_matches_def split: option.split)
    ultimately show ?thesis using j r same by (simp add: lifecycle_ok_def)
  next
    case False
    then have "resource_for_job (save_resource r' d) j = resource_for_job d j"
      using same by (intro resource_for_job_save_other) simp
    with j show ?thesis by (simp add: lifecycle_ok_def)
  qed
qed

lemma engine_inv_system_job:
  assumes inv: "engine_inv d" and "job_of d (j_id job) = None" "new_job job" "j_resource_type job = None"
  shows "engine_inv (stage_job job d)"
proof (rule engine_invI)
  show "keys_ok (stage_job job d)"
    using assms engine_invE(1)[OF inv] by (simp add: keys_ok_def select_row_None)
next
  fix j assume "j \<in> set (job_executions (stage_job job d))"
  then consider "j = job" | "j \<in> set (job_executions d)" by (auto simp: insert_row_def)
  then show "job_ok j \<and> lifecycle_ok (stage_job job d) j"
  proof cases
    case 1
    with assms show ?thesis
      by (simp add: job_ok_def new_job_def lifecycle_ok_def resource_for_job_untyped)
  next
    case 2
    with engine_invE[OF inv] show ?thesis by (simp add: lifecycle_ok_def)
  qed
qed

lemma drop_job_frame [simp]:
  "instances (drop_job k d) = instances d" "templates (drop_job k d) = templates d"
  "template_assignments (drop_job k d) = template_assignments d" "workspaces (drop_job k d) = workspaces d"
  "members (drop_job k d) = members d" "template_images (drop_job k d) = template_images d"
  "template_parameters (drop_job k d) = template_parameters d"
  "template_parameter_system_values (drop_job k d) = template_parameter_system_values d"
  "template_deployments (drop_job k d) = template_deployments d"
  by (simp_all add: drop_job_def split: option.split)

lemma lookup_drop_job [simp]: "lookup_resource kind key (drop_job k d) = lookup_resource kind key d"
  by (simp add: lookup_resource_def)

lemma in_drop_job: "j \<in> set (job_executions (drop_job k d)) \<Longrightarrow> j \<in> set (job_executions d)"
  by (auto simp: drop_job_def split: option.splits)

lemma keys_ok_drop_job: "keys_ok d \<Longrightarrow> keys_ok (drop_job k d)"
  by (simp add: keys_ok_def) (simp add: drop_job_def split: option.split)

lemma job_of_drop_job: "job_of (drop_job k d) jk = (if k = Some jk then None else job_of d jk)"
  by (auto simp: drop_job_def select_delete_key split: option.split)

lemma engine_inv_discard:
  assumes inv: "engine_inv d"
    and old: "lookup_resource (resource_kind r) (resource_key r) d = Some r"
    and same: "resource_kind r' = resource_kind r" "resource_key r' = resource_key r"
      "resource_job_id r' = None"
  shows "engine_inv (save_resource r' (drop_job k d))"
proof (rule engine_invI)
  show "keys_ok (save_resource r' (drop_job k d))"
    using engine_invE(1)[OF inv] by (simp add: keys_ok_drop_job)
next
  fix j assume "j \<in> set (job_executions (save_resource r' (drop_job k d)))"
  then have "j \<in> set (job_executions d)" by (simp add: in_drop_job)
  then have j: "job_ok j" "lifecycle_ok d j" using engine_invE[OF inv] by simp_all
  have view: "resource_for_job (drop_job k d) j = resource_for_job d j"
    by (simp add: resource_for_job_def cong: option.case_cong)
  show "job_ok j \<and> lifecycle_ok (save_resource r' (drop_job k d)) j"
  proof (cases "j_resource_type j = Some (resource_kind r) \<and> j_resource_id j = Some (resource_key r)")
    case True
    with old have "resource_for_job (drop_job k d) j = Some r"
      by (simp add: view) (simp add: resource_for_job_def)
    with same have "resource_for_job (save_resource r' (drop_job k d)) j = Some r'"
      by (intro resource_for_job_save_same)
    with j same show ?thesis by (simp add: lifecycle_ok_foreign)
  next
    case False
    then have "resource_for_job (save_resource r' (drop_job k d)) j = resource_for_job d j"
      using same by (subst resource_for_job_save_other) (simp_all add: view)
    with j show ?thesis by (simp add: lifecycle_ok_def)
  qed
qed

lemma engine_inv_insert:
  assumes inv: "engine_inv d" and row: "lookup_resource (resource_kind r) (resource_key r) d = None"
    and "resource_job_id r = None"
  shows "engine_inv (insert_resource r d)"
proof (rule engine_invI)
  show "keys_ok (insert_resource r d)" using engine_invE(1)[OF inv] row by (simp add: keys_ok_insert_resource)
next
  fix j assume "j \<in> set (job_executions (insert_resource r d))"
  then have j: "job_ok j" "lifecycle_ok d j" using engine_invE[OF inv] by simp_all
  show "job_ok j \<and> lifecycle_ok (insert_resource r d) j"
  proof (cases "j_resource_type j = Some (resource_kind r) \<and> j_resource_id j = Some (resource_key r)")
    case True
    then have "resource_for_job (insert_resource r d) j = Some r"
      using row by (simp add: resource_for_job_def lookup_insert_resource)
    then show ?thesis using j(1) assms(3) by (simp add: lifecycle_ok_foreign)
  next
    case False
    then have "resource_for_job (insert_resource r d) j = resource_for_job d j"
      using row by (auto simp: resource_for_job_def lookup_insert_resource split: option.splits)
    then show ?thesis using j by (simp add: lifecycle_ok_def)
  qed
qed

lemma engine_inv_sys_txn: "sys_txn d d' \<Longrightarrow> engine_inv d \<Longrightarrow> engine_inv d'"
proof (induction rule: sys_txn.induct)
  case (fail m d c now)
  then show ?case by (intro engine_inv_fail) simp_all
qed (auto intro: engine_inv_claim engine_inv_advance engine_inv_complete engine_inv_defer
    engine_inv_heartbeat engine_inv_prepare engine_inv_same_lifecycle engine_inv_shrunk engine_inv_touch
    engine_inv_discard engine_inv_system_job engine_inv_request engine_inv_create
    engine_inv_insert simp del: save_resource.simps insert_resource.simps)

section \<open>Jobs only move forward\<close>

text \<open>
  No transaction moves a job backwards. A job may be dropped; that its key is not issued to
  another job afterwards is what \<open>sys_step_for\<close> adds for one key.
\<close>

lemma jobs_le_drop_job: "jobs_le d (save_resource r (drop_job k d))"
  by (auto simp: jobs_le_def job_of_drop_job split: if_splits)

lemma job_ids_same_lifecycle: "same_lifecycle d d' \<Longrightarrow> job_executions d' = job_executions d"
  by (simp add: same_lifecycle_def)

lemma jobs_le_sys_txn: "sys_txn d d' \<Longrightarrow> jobs_le d d'"
proof (induction rule: sys_txn.induct)
  case (fail m d c now)
  then show ?case by (intro jobs_le_fail)
next
  case (bookkeep d d')
  then show ?case by (intro jobs_le_same_jobs) (rule job_ids_same_lifecycle)
next
  case (remove d d')
  then show ?case by (intro jobs_le_same_jobs) (simp add: shrunk_def)
next
  case (touch r d r')
  show ?case by (intro jobs_le_same_jobs) simp
next
  case (system_job d job)
  then show ?case by (intro jobs_le_stage) simp_all
next
  case (request d job r)
  then show ?case by (intro jobs_le_stage[where job = job]) simp_all
next
  case (create d job r)
  then show ?case by (intro jobs_le_stage[where job = job]) simp_all
next
  case (insert r d)
  show ?case by (intro jobs_le_same_jobs) simp
qed (auto intro: jobs_le_claim jobs_le_advance jobs_le_complete jobs_le_defer jobs_le_heartbeat
    jobs_le_prepare jobs_le_drop_job simp del: save_resource.simps)

definition sys_step_for :: "uuid \<Rightarrow> db \<Rightarrow> db \<Rightarrow> bool" where
  "sys_step_for k d d' = (sys_txn d d' \<and> (job_of d k = None \<longrightarrow> job_of d' k = None))"

abbreviation sys_run_for :: "uuid \<Rightarrow> db \<Rightarrow> db \<Rightarrow> bool" where
  "sys_run_for k \<equiv> (sys_step_for k)\<^sup>*\<^sup>*"

text \<open>Where a job may be later: gone for good, or further along the order of jobs.\<close>

definition job_after :: "uuid \<Rightarrow> job_execution \<Rightarrow> db \<Rightarrow> bool" where
  "job_after k j d = (case job_of d k of None \<Rightarrow> True | Some j' \<Rightarrow> job_le j j')"

lemma job_after_step: "sys_step_for k d d' \<Longrightarrow> job_after k j d \<Longrightarrow> job_after k j d'"
  using jobs_le_sys_txn[of d d']
  by (auto simp: sys_step_for_def job_after_def jobs_le_def split: option.splits intro: job_le_trans)

section \<open>Interfaces of a step relation\<close>

locale invariant_system =
  fixes step :: "'s \<Rightarrow> 's \<Rightarrow> bool" and inv :: "'s \<Rightarrow> bool"
  assumes preserved: "step s s' \<Longrightarrow> inv s \<Longrightarrow> inv s'"
begin

lemma run_preserved: "step\<^sup>*\<^sup>* s s' \<Longrightarrow> inv s \<Longrightarrow> inv s'"
  by (induction rule: rtranclp_induct) (auto intro: preserved)

end

text \<open>
  A fencing token that is spent grants nothing, and stays spent. \<open>holds\<close> is what lets a
  worker write; \<open>spent\<close> is the persistent fact that a later attempt or a finished job left
  the token behind.
\<close>

locale fencing =
  fixes step :: "'s \<Rightarrow> 's \<Rightarrow> bool" and holds :: "'s \<Rightarrow> 'c \<Rightarrow> bool" and spent :: "'s \<Rightarrow> 'c \<Rightarrow> bool"
  assumes spent_step: "step s s' \<Longrightarrow> spent s c \<Longrightarrow> spent s' c"
    and spent_excludes: "spent s c \<Longrightarrow> \<not> holds s c"
begin

lemma spent_run: "step\<^sup>*\<^sup>* s s' \<Longrightarrow> spent s c \<Longrightarrow> spent s' c"
  by (induction rule: rtranclp_induct) (auto intro: spent_step)

lemma never_again: "spent s c \<Longrightarrow> step\<^sup>*\<^sup>* s s' \<Longrightarrow> \<not> holds s' c"
  using spent_run spent_excludes by blast

end

definition spent_claim :: "db \<Rightarrow> execution_claim \<Rightarrow> bool" where
  "spent_claim d c = (claim_issued d c \<and> \<not> job_current d c)"

interpretation engine: invariant_system sys_txn engine_inv
  by unfold_locales (rule engine_inv_sys_txn)

interpretation after: invariant_system "sys_step_for k" "job_after k j" for k j
  by unfold_locales (rule job_after_step)

lemma spent_claim_step:
  assumes step: "sys_step_for k d d'" and k: "c_job_id c = k" and spent: "spent_claim d c"
  shows "spent_claim d' c"
proof (cases "job_of d k")
  case None
  with step have "job_of d' k = None" by (simp add: sys_step_for_def)
  with k show ?thesis by (simp add: spent_claim_def claim_issued_def job_current_def)
next
  case (Some j)
  have le: "jobs_le d d'" using step jobs_le_sys_txn by (simp add: sys_step_for_def)
  have "\<not> job_current d' c" using lost_stays_lost[OF le] spent Some k by (simp add: spent_claim_def)
  moreover have "claim_issued d' c"
  proof (cases "job_of d' k")
    case None
    with k show ?thesis by (simp add: claim_issued_def)
  next
    case (Some j')
    with le \<open>job_of d k = Some j\<close> have "job_le j j'" by (simp add: jobs_le_def)
    then have "j_attempt j \<le> j_attempt j'" unfolding job_le_def by blast
    with spent Some \<open>job_of d k = Some j\<close> k show ?thesis by (simp add: spent_claim_def claim_issued_def)
  qed
  ultimately show ?thesis by (simp add: spent_claim_def)
qed

text \<open>The tokens are the claims of one job.\<close>

interpretation claims: fencing "sys_step_for k" "\<lambda>d c. owned_execution d c \<noteq> None"
    "\<lambda>d c. c_job_id c = k \<and> spent_claim d c" for k
proof unfold_locales
  fix d d' c
  assume "sys_step_for k d d'" and "c_job_id c = k \<and> spent_claim d c"
  then show "c_job_id c = k \<and> spent_claim d' c" using spent_claim_step by blast
next
  fix d c
  assume "c_job_id c = k \<and> spent_claim d c"
  then show "\<not> owned_execution d c \<noteq> None" using owned_current unfolding spent_claim_def by blast
qed

text \<open>Every later claim of a job spends the earlier ones.\<close>

lemma reclaim_spends:
  assumes c1: "claim_execution k t1 now1 d = (d1, Some c1)" and run: "sys_run_for k d1 d2"
    and c2: "claim_execution k t2 now2 d2 = (d3, Some c2)"
  shows "c_job_id c1 = k \<and> spent_claim d3 c1" and "c_attempt c1 < c_attempt c2"
proof -
  obtain j1 where j1: "job_of d1 (c_job_id c1) = Some j1" "j_attempt j1 = c_attempt c1"
    using claim_owns(1)[OF c1] by (auto simp: owned_execution_iff)
  have k: "c_job_id c1 = k" "c_job_id c2 = k" using claim_owns(2)[OF c1] claim_owns(2)[OF c2] by simp_all
  obtain job where job: "job_of d2 k = Some job" "c_attempt c2 = j_attempt job + 1"
    by (rule claim_execution_Some[OF c2]) auto
  have "job_after k j1 d1" using j1 k by (simp add: job_after_def)
  with run have "job_after k j1 d2" by (rule after.run_preserved)
  with job(1) have "job_le j1 job" by (simp add: job_after_def)
  then have le: "j_attempt j1 \<le> j_attempt job" unfolding job_le_def by blast
  with job j1(2) show less: "c_attempt c1 < c_attempt c2" by simp
  obtain j3 where j3: "job_of d3 k = Some j3" "j_attempt j3 = c_attempt c2"
    using claim_owns(1)[OF c2] k by (auto simp: owned_execution_iff)
  with less k show "c_job_id c1 = k \<and> spent_claim d3 c1"
    by (simp add: spent_claim_def claim_issued_def job_current_def)
qed

lemma sys_run_after: "sys_run d d1 \<Longrightarrow> sys_txn d1 d' \<Longrightarrow> sys_run d d'"
  by (rule rtranclp.rtrancl_into_rtrancl)

lemma run_bookkeep: "same_lifecycle d d' \<Longrightarrow> sys_run d d'"
  by (blast intro: sys_txn.bookkeep)

lemma engine_inv_empty [simp]: "engine_inv empty_db"
  by (simp add: engine_inv_def keys_ok_def empty_db_def unique_by_def)

section \<open>Staging a job for a row\<close>

text \<open>
  What every lifecycle request commits: a fresh job and the row, already rewritten to name
  it. The row is an existing one (\<open>attach_job\<close>) or a new one (\<open>insert_with_job\<close>).
\<close>

definition attach_job :: "resource \<Rightarrow> string \<Rightarrow> string \<Rightarrow> string \<Rightarrow> uuid \<Rightarrow> instant \<Rightarrow> db \<Rightarrow> db" where
  "attach_job r name task_name step job_id now d =
     save_resource r (stage_job (add_job_execution job_id name task_name (Some (resource_kind r))
       (Some (resource_key r)) step now) d)"

definition insert_with_job :: "resource \<Rightarrow> string \<Rightarrow> string \<Rightarrow> string \<Rightarrow> uuid \<Rightarrow> instant \<Rightarrow> db \<Rightarrow> db" where
  "insert_with_job r name task_name step job_id now d =
     insert_resource r (stage_job (add_job_execution job_id name task_name (Some (resource_kind r))
       (Some (resource_key r)) step now) d)"

text \<open>\<open>requests r name jk step\<close>: the row \<open>r\<close> asks for job \<open>jk\<close> under the action that \<open>name\<close> stands for.\<close>

definition requests_job :: "resource \<Rightarrow> string \<Rightarrow> uuid \<Rightarrow> string \<Rightarrow> bool" where
  "requests_job r name jk step = (resource_job_id r = Some jk \<and> resource_status r = PENDING
     \<and> resource_step r = Some step \<and> map_of RESOURCE_ACTIONS name = Some (resource_action r))"

lemma txn_attach_job:
  assumes "lookup_resource (resource_kind r) (resource_key r) d \<noteq> None" and "job_of d jk = None"
    and "requests_job r name jk step"
  shows "sys_txn d (attach_job r name task step jk now d)"
  using assms unfolding attach_job_def requests_job_def by (intro sys_txn.request) simp_all

lemma txn_insert_with_job:
  assumes "lookup_resource (resource_kind r) (resource_key r) d = None" and "job_of d jk = None"
    and "requests_job r name jk step"
  shows "sys_txn d (insert_with_job r name task step jk now d)"
  using assms unfolding insert_with_job_def requests_job_def by (intro sys_txn.create) simp_all

lemma lookup_after_save:
  "lookup_resource (resource_kind r) (resource_key r) d \<noteq> None \<Longrightarrow>
   lookup_resource (resource_kind r) (resource_key r) (save_resource r d) = Some r"
  by (cases r) (auto simp: lookup_resource_def select_replace_row)

lemma claimable_staged:
  assumes "job_of d jk = Some (add_job_execution jk name task (Some (resource_kind r)) (Some (resource_key r)) step now)"
    and "lookup_resource (resource_kind r) (resource_key r) d = Some r" and "requests_job r name jk step"
  shows "claimable d jk task"
proof -
  let ?job = "add_job_execution jk name task (Some (resource_kind r)) (Some (resource_key r)) step now"
  have "resource_for_job d ?job = Some r" using assms(2) by (simp add: resource_for_job_def)
  moreover have "j_status ?job = PENDING" using new_job_add by (simp add: new_job_def)
  ultimately show ?thesis
    using assms(1,3) by (simp add: claimable_def resource_matches_def requests_job_def)
qed

lemma claimable_attach_job:
  assumes "lookup_resource (resource_kind r) (resource_key r) d \<noteq> None" and "job_of d jk = None"
    and "requests_job r name jk step"
  shows "claimable (attach_job r name task step jk now d) jk task"
  using assms unfolding attach_job_def
  by (intro claimable_staged[where r = r]) (simp_all add: select_insert_row lookup_after_save)

lemma claimable_insert_with_job:
  assumes "lookup_resource (resource_kind r) (resource_key r) d = None" and "job_of d jk = None"
    and "requests_job r name jk step"
  shows "claimable (insert_with_job r name task step jk now d) jk task"
  using assms unfolding insert_with_job_def
  by (intro claimable_staged[where r = r]) (simp_all add: select_insert_row lookup_insert_resource)

end
