(* ===== verification/Databases.thy ===== *)
theory Databases
  imports System
begin

text \<open>
  The managed PostgreSQL pool (\<^verbatim>\<open>repositories/managed_databases.py\<close>). Capacity is derived
  from the allocation rows; the pool invariant says that no database holds more
  allocations than its capacity and that every allocation names a stored database.
  The password cipher is passed in, as the code passes a \<^verbatim>\<open>PasswordCipher\<close>.
\<close>

section \<open>Operations\<close>

datatype database_error =
    DatabaseAlreadyExistsError
  | DatabaseNotFoundError
  | DatabaseInUseError
  | DatabaseCapacityConflictError

record database_payload =
  dp_name :: string
  dp_instance_max :: int
  dp_host :: string
  dp_port :: int
  dp_database_name :: string
  dp_username :: string
  dp_password :: "string option"

type_synonym password_cipher = "string \<Rightarrow> uuid \<Rightarrow> bytes"

type_synonym database_usage = "database \<times> int"

definition allocation_count :: "db \<Rightarrow> uuid \<Rightarrow> int" where
  "allocation_count d k = int (length (filter (\<lambda>a. al_database_id a = k) (database_allocations d)))"

definition usage_rows :: "db \<Rightarrow> database_usage list" where
  "usage_rows d = map (\<lambda>x. (x, allocation_count d (d_id x))) (databases d)"

definition database_order :: "database \<Rightarrow> string \<times> string \<times> uuid" where
  "database_order x = (lower (d_name x), d_name x, d_id x)"

fun is_prefix_of :: "string \<Rightarrow> string \<Rightarrow> bool" where
  "is_prefix_of [] _ = True"
| "is_prefix_of (_ # _) [] = False"
| "is_prefix_of (x # xs) (y # ys) = (x = y \<and> is_prefix_of xs ys)"

fun icontains_at :: "string \<Rightarrow> string \<Rightarrow> bool" where
  "icontains_at pat [] = (pat = [])"
| "icontains_at pat (c # s) = (is_prefix_of pat (c # s) \<or> icontains_at pat s)"

definition icontains :: "string \<Rightarrow> string \<Rightarrow> bool" where
  "icontains s pat = icontains_at (lower pat) (lower s)"

definition list_database_page ::
  "int \<Rightarrow> int \<Rightarrow> string option \<Rightarrow> db \<Rightarrow> database_usage list \<times> int" where
  "list_database_page page page_size name d =
     (let rows = (case name of None \<Rightarrow> usage_rows d
                  | Some n \<Rightarrow> filter (\<lambda>u. icontains (d_name (fst u)) n) (usage_rows d))
      in (page_slice page page_size (sort_key (\<lambda>u. database_order (fst u)) rows), int (length rows)))"

definition list_usage :: "db \<Rightarrow> database_usage list" where
  "list_usage d = sort_key (\<lambda>u. database_order (fst u)) (usage_rows d)"

definition get_usage :: "uuid \<Rightarrow> db \<Rightarrow> database_usage option" where
  "get_usage k d = map_option (\<lambda>x. (x, allocation_count d k)) (database_of d k)"

definition create_database ::
  "uuid \<Rightarrow> database_payload \<Rightarrow> string \<Rightarrow> password_cipher \<Rightarrow> db \<Rightarrow> (database_error, db \<times> database_usage) result" where
  "create_database database_id payload password encrypt d =
     (let x = \<lparr>d_id = database_id, d_name = dp_name payload, d_instance_max = dp_instance_max payload,
               d_host = dp_host payload, d_port = dp_port payload,
               d_database_name = dp_database_name payload, d_username = dp_username payload,
               d_password_enc = encrypt password database_id\<rparr>;
          d' = d\<lparr>databases := insert_row x (databases d)\<rparr>
      in if databases_ok (databases d') then Inr (d', (x, 0)) else Inl DatabaseAlreadyExistsError)"

definition update_database ::
  "uuid \<Rightarrow> database_payload \<Rightarrow> password_cipher \<Rightarrow> db \<Rightarrow> (database_error, db \<times> database_usage) result" where
  "update_database database_id payload encrypt d =
     rbind (require (database_of d database_id) DatabaseNotFoundError) (\<lambda>x.
       let allocated_instances = allocation_count d database_id in
       rbind (guard_that (\<not> dp_instance_max payload < allocated_instances) DatabaseCapacityConflictError) (\<lambda>_.
         let x' = x\<lparr>d_name := dp_name payload, d_instance_max := dp_instance_max payload,
                   d_host := dp_host payload, d_port := dp_port payload,
                   d_database_name := dp_database_name payload, d_username := dp_username payload,
                   d_password_enc := (case dp_password payload of None \<Rightarrow> d_password_enc x
                                      | Some p \<Rightarrow> encrypt p (d_id x))\<rparr>;
             d' = d\<lparr>databases := replace_row d_id x' (databases d)\<rparr>
         in if databases_ok (databases d') then Inr (d', (x', allocated_instances))
            else Inl DatabaseAlreadyExistsError))"

definition delete_database :: "uuid \<Rightarrow> db \<Rightarrow> (database_error, db) result" where
  "delete_database database_id d =
     rbind (require (database_of d database_id) DatabaseNotFoundError) (\<lambda>_.
       rbind (guard_that (\<not> exists_row (\<lambda>a. al_database_id a = database_id) (database_allocations d))
                DatabaseInUseError) (\<lambda>_.
         Inr (d\<lparr>databases := delete_where (\<lambda>x. d_id x = database_id) (databases d)\<rparr>)))"

section \<open>The pool invariant\<close>

definition within_capacity :: "db \<Rightarrow> database \<Rightarrow> bool" where
  "within_capacity d x = (allocation_count d (d_id x) \<le> d_instance_max x)"

definition pool_inv :: "db \<Rightarrow> bool" where
  "pool_inv d = (databases_ok (databases d) \<and> list_all (within_capacity d) (databases d)
     \<and> list_all (\<lambda>a. exists_row (\<lambda>x. d_id x = al_database_id a) (databases d)) (database_allocations d))"

text \<open>Only the two pool tables matter to the invariant.\<close>

lemma pool_inv_cong:
  "databases d' = databases d \<Longrightarrow> database_allocations d' = database_allocations d \<Longrightarrow>
   pool_inv d' = pool_inv d"
  by (simp add: pool_inv_def within_capacity_def[abs_def] allocation_count_def)

lemma allocation_count_cong:
  "database_allocations d' = database_allocations d \<Longrightarrow> allocation_count d' k = allocation_count d k"
  by (simp add: allocation_count_def)

lemma allocation_count_nonneg [simp]: "0 \<le> allocation_count d k"
  by (simp add: allocation_count_def)

lemma allocation_count_zero:
  "allocation_count d k = 0 \<longleftrightarrow> \<not> exists_row (\<lambda>a. al_database_id a = k) (database_allocations d)"
  by (auto simp: allocation_count_def exists_row_iff filter_empty_conv)

lemma pool_invD:
  assumes "pool_inv d"
  shows "databases_ok (databases d)"
    and "x \<in> set (databases d) \<Longrightarrow> allocation_count d (d_id x) \<le> d_instance_max x"
    and "a \<in> set (database_allocations d) \<Longrightarrow> \<exists>x\<in>set (databases d). d_id x = al_database_id a"
  using assms by (auto simp: pool_inv_def list_all_iff within_capacity_def exists_row_iff)

lemma pool_invI:
  assumes "databases_ok (databases d)"
    and "\<And>x. x \<in> set (databases d) \<Longrightarrow> allocation_count d (d_id x) \<le> d_instance_max x"
    and "\<And>a. a \<in> set (database_allocations d) \<Longrightarrow> \<exists>x\<in>set (databases d). d_id x = al_database_id a"
  shows "pool_inv d"
  using assms by (auto simp: pool_inv_def list_all_iff within_capacity_def exists_row_iff)

lemma databases_ok_positive: "databases_ok rows \<Longrightarrow> x \<in> set rows \<Longrightarrow> 0 < d_instance_max x"
  by (simp add: databases_ok_def list_all_iff database_check_def)

lemma pool_inv_create_database:
  assumes inv: "pool_inv d" and "create_database k payload pw enc d = Inr (d', u)"
  shows "pool_inv d'"
proof (rule pool_invI)
  have d': "databases_ok (databases d')" "database_allocations d' = database_allocations d"
    "\<exists>x. databases d' = insert_row x (databases d) \<and> d_id x = k"
    using assms(2) by (auto simp: create_database_def Let_def split: if_splits)
  then have "k \<notin> keys_of d_id (databases d)" by (auto simp: databases_ok_def)
  then have fresh: "\<not> exists_row (\<lambda>a. al_database_id a = k) (database_allocations d)"
    using pool_invD(3)[OF inv] by (force simp: exists_row_iff keys_of_def)
  show "databases_ok (databases d')" by (rule d')
  show "allocation_count d' (d_id x) \<le> d_instance_max x" if "x \<in> set (databases d')" for x
  proof (cases "x \<in> set (databases d)")
    case True
    then show ?thesis using pool_invD(2)[OF inv] d'(2) by (simp add: allocation_count_def)
  next
    case False
    with that d'(3) have "d_id x = k" by auto
    then have "allocation_count d' (d_id x) = 0"
      using fresh d'(2) by (simp add: allocation_count_zero)
    with databases_ok_positive[OF d'(1) that] show ?thesis by simp
  qed
  show "\<exists>x\<in>set (databases d'). d_id x = al_database_id a" if "a \<in> set (database_allocations d')" for a
    using pool_invD(3)[OF inv] that d'(2,3) by auto
qed

lemma pool_inv_update_database:
  assumes inv: "pool_inv d" and upd: "update_database k payload enc d = Inr (d', u)"
  shows "pool_inv d'"
proof (rule pool_invI)
  let ?x' = "fst u"
  from upd obtain x where x: "database_of d k = Some x"
    and cap: "\<not> dp_instance_max payload < allocation_count d k"
    and x': "d_id ?x' = d_id x" "d_instance_max ?x' = dp_instance_max payload"
    and d': "databases d' = replace_row d_id ?x' (databases d)"
      "database_allocations d' = database_allocations d" "databases_ok (databases d')"
    by (auto simp: update_database_def result_iffs Let_def split: if_splits)
  have id: "d_id x = k" using x by (rule select_row_key)
  show "databases_ok (databases d')" by (rule d')
  show "allocation_count d' (d_id y) \<le> d_instance_max y" if "y \<in> set (databases d')" for y
    using that cap x' id pool_invD(2)[OF inv] d'
    by (auto simp: allocation_count_def dest!: in_replace_row)
  show "\<exists>y\<in>set (databases d'). d_id y = al_database_id a" if "a \<in> set (database_allocations d')" for a
  proof -
    have "d_id ` set (databases d') = d_id ` set (databases d)"
      using keys_replace_row[of d_id ?x' "databases d"] by (simp add: d'(1) keys_of_def)
    with pool_invD(3)[OF inv] that d'(2) show ?thesis by (metis imageE imageI)
  qed
qed

lemma pool_inv_delete_database:
  assumes inv: "pool_inv d" and "delete_database k d = Inr d'"
  shows "pool_inv d'"
proof (rule pool_invI)
  from assms(2) have free: "\<not> exists_row (\<lambda>a. al_database_id a = k) (database_allocations d)"
    and d': "databases d' = delete_where (\<lambda>x. d_id x = k) (databases d)"
      "database_allocations d' = database_allocations d"
    by (auto simp: delete_database_def result_iffs)
  show "databases_ok (databases d')"
    using pool_invD(1)[OF inv] by (simp add: d' databases_ok_def list_all_iff)
  show "allocation_count d' (d_id x) \<le> d_instance_max x" if "x \<in> set (databases d')" for x
    using that pool_invD(2)[OF inv] d' by (simp add: allocation_count_def)
  show "\<exists>x\<in>set (databases d'). d_id x = al_database_id a" if "a \<in> set (database_allocations d')" for a
  proof -
    from that d'(2) pool_invD(3)[OF inv] obtain x where "x \<in> set (databases d)" "d_id x = al_database_id a"
      by auto
    moreover have "al_database_id a \<noteq> k" using free that d'(2) by (simp add: exists_row_iff)
    ultimately show ?thesis using d'(1) by auto
  qed
qed

end
