(* ===== verification/Instances.thy ===== *)
theory Instances
  imports Databases Complex_Main
begin

text \<open>
  The instance repository (\<^verbatim>\<open>repositories/instances.py\<close>) and the Kubernetes provider
  repository (\<^verbatim>\<open>repositories/instance_kubernetes.py\<close>). Values drawn by \<^verbatim>\<open>uuid4\<close> and
  \<^verbatim>\<open>secrets.choice\<close> are arguments. The slug loop takes the successive draws as a
  list; \<open>None\<close> means that the draws ran out before a free slug came up.
  The utilisation ratio is the exact quotient.
\<close>

section \<open>Errors and helpers\<close>

datatype instance_error =
    InstanceAlreadyExistsError
  | InstanceNotFoundError
  | InstanceActionConflictError
  | InstanceDatabaseUnavailableError
  | InvalidInstanceActionError

definition MAX_ACTION_LENGTH :: nat where
  "MAX_ACTION_LENGTH = 255"

definition INSTANCE_SLUG_LENGTH :: nat where
  "INSTANCE_SLUG_LENGTH = 12"

definition INSTANCE_SLUG_ALPHABET :: string where
  "INSTANCE_SLUG_ALPHABET = ''abcdefghijklmnopqrstuvwxyz0123456789''"

text \<open>\<open>choices i\<close> is the index that \<^verbatim>\<open>secrets.choice\<close> picks for position \<open>i\<close>.\<close>

definition generate_instance_slug :: "(nat \<Rightarrow> nat) \<Rightarrow> string" where
  "generate_instance_slug choices =
     map (\<lambda>i. INSTANCE_SLUG_ALPHABET ! (choices i mod length INSTANCE_SLUG_ALPHABET)) [0..<INSTANCE_SLUG_LENGTH]"

fun first_free_slug :: "string list \<Rightarrow> inst list \<Rightarrow> string option" where
  "first_free_slug [] rows = None"
| "first_free_slug (s # ss) rows =
     (if exists_row (\<lambda>i. i_slug i = s) rows then first_free_slug ss rows else Some s)"

definition creation_is_incomplete :: "inst \<Rightarrow> bool" where
  "creation_is_incomplete i = (i_action i = ''creating'' \<and> i_status i \<noteq> SUCCESS)"

definition unsettled :: "exec_status \<Rightarrow> bool" where
  "unsettled s = (s = PENDING \<or> s = RUNNING \<or> s = ERROR)"

definition has_active_template_assignment :: "db \<Rightarrow> uuid \<Rightarrow> bool" where
  "has_active_template_assignment d instance_id =
     exists_row (\<lambda>a. ta_instance_id a = instance_id
         \<and> exists_row (\<lambda>t. t_id t = ta_template_id a
              \<and> (unsettled (ta_status a) \<or> unsettled (t_sync_status t))) (templates d))
       (template_assignments d)"

section \<open>Reading\<close>

definition list_instances ::
  "int \<Rightarrow> int \<Rightarrow> string option \<Rightarrow> uuid option \<Rightarrow> db \<Rightarrow> inst list \<times> int" where
  "list_instances page page_size application database_id d =
     (let by_app = (case application of None \<Rightarrow> instances d
                    | Some a \<Rightarrow> filter (\<lambda>i. i_application i = a) (instances d));
          rows = (case database_id of None \<Rightarrow> by_app
                  | Some k \<Rightarrow> filter (\<lambda>i. exists_row (\<lambda>a. al_instance_id a = i_id i \<and> al_database_id a = k)
                                  (database_allocations d)) by_app)
      in (page_slice page page_size (sort_key (\<lambda>i. (i_application i, i_id i)) rows), int (length rows)))"

definition get_instance :: "uuid \<Rightarrow> db \<Rightarrow> inst option" where
  "get_instance k d = instance_of d k"

section \<open>Creation\<close>

definition available_databases :: "db \<Rightarrow> database list" where
  "available_databases d = filter (\<lambda>x. allocation_count d (d_id x) < d_instance_max x)
     (sort_key database_order (databases d))"

definition utilization_key :: "db \<Rightarrow> database \<Rightarrow> rat \<times> string \<times> uuid" where
  "utilization_key d x =
     (rat_of_int (allocation_count d (d_id x)) / rat_of_int (d_instance_max x), lower (d_name x), d_id x)"

definition select_database :: "db \<Rightarrow> database option" where
  "select_database d =
     (if databases d = [] then None
      else if available_databases d = [] then None
      else Some (arg_min_list (utilization_key d) (available_databases d)))"

definition schema_name_for :: "uuid \<Rightarrow> string" where
  "schema_name_for instance_id = ''coder_'' @ uuid_hex instance_id"

definition new_instance_row :: "uuid \<Rightarrow> string \<Rightarrow> string \<Rightarrow> uuid \<Rightarrow> inst" where
  "new_instance_row instance_id application slug job_id =
     \<lparr>i_id = instance_id, i_application = application, i_slug = slug, i_action = ''creating'',
      i_status = PENDING, i_state = STOPPED, i_password_enc = None, i_password_candidate_enc = None,
      i_argocd_application_name = None, i_job_id = Some job_id, i_step = Some INSTANCE_CREATE_STEP_01\<rparr>"

definition create_instance ::
  "string \<Rightarrow> uuid \<Rightarrow> uuid \<Rightarrow> uuid \<Rightarrow> string list \<Rightarrow> instant \<Rightarrow> db
    \<Rightarrow> (instance_error, db \<times> inst) result option" where
  "create_instance application instance_id job_id allocation_id slugs now d =
     (case select_database d of
        None \<Rightarrow> Some (Inl InstanceDatabaseUnavailableError)
      | Some database \<Rightarrow>
          map_option (\<lambda>slug.
            let row = new_instance_row instance_id application slug job_id;
                job = add_job_execution job_id ''instance.create'' INSTANCE_CREATE_STEP_01_TASK
                        (Some ''instance'') (Some instance_id) INSTANCE_CREATE_STEP_01 now;
                allocation = \<lparr>al_id = allocation_id, al_database_id = d_id database,
                              al_instance_id = instance_id, al_schema_name = schema_name_for instance_id\<rparr>;
                d1 = insert_resource (RInstance row) (stage_job job d);
                d2 = d1\<lparr>database_allocations := insert_row allocation (database_allocations d1)\<rparr>
            in if instances_ok (instances d2) \<and> allocations_ok (database_allocations d2)
                  \<and> unique_by j_id (job_executions d2)
               then Inr (d2, row) else Inl InstanceAlreadyExistsError)
          (first_free_slug slugs (instances d)))"

section \<open>Lifecycle requests\<close>

text \<open>Every request stages a job and points the locked instance at it in one transaction.\<close>

definition attach_instance_job ::
  "inst \<Rightarrow> string \<Rightarrow> string \<Rightarrow> string \<Rightarrow> string \<Rightarrow> uuid \<Rightarrow> instant \<Rightarrow> db \<Rightarrow> db \<times> inst" where
  "attach_instance_job i action job_name task_name step job_id now d =
     (let job = add_job_execution job_id job_name task_name (Some ''instance'') (Some (i_id i)) step now;
          i' = i\<lparr>i_action := action, i_status := PENDING, i_job_id := Some job_id, i_step := Some step\<rparr>
      in (save_resource (RInstance i') (stage_job job d), i'))"

definition failed_creation :: "inst \<Rightarrow> bool" where
  "failed_creation i = (i_action i = ''creating'' \<and> i_status i = ERROR)"

definition successfully_reconciled :: "inst \<Rightarrow> bool" where
  "successfully_reconciled i =
     (i_action i \<in> {''creating'', ''updating'', ''starting'', ''stopping''} \<and> i_status i = SUCCESS)"

definition deletion_entry :: "inst \<Rightarrow> string \<times> string" where
  "deletion_entry i =
     (let skip_workspace_cleanup = (failed_creation i \<and> i_password_enc i = None)
      in if skip_workspace_cleanup then (INSTANCE_DELETE_STEP_02_TASK, INSTANCE_DELETE_STEP_02)
         else (INSTANCE_DELETE_STEP_01_TASK, INSTANCE_DELETE_STEP_01))"

definition request_instance_deletion ::
  "uuid \<Rightarrow> uuid \<Rightarrow> instant \<Rightarrow> db \<Rightarrow> (instance_error, db \<times> inst) result" where
  "request_instance_deletion instance_id job_id now d =
     rbind (require (instance_of d instance_id) InstanceNotFoundError) (\<lambda>i.
       rbind (guard_that (\<not> has_active_template_assignment d (i_id i)) InstanceActionConflictError) (\<lambda>_.
         rbind (guard_that (successfully_reconciled i \<or> failed_creation i) InstanceActionConflictError) (\<lambda>_.
           let (task_name, step) = deletion_entry i
           in Inr (attach_instance_job i ''deleting'' ''instance.delete'' task_name step job_id now d))))"

definition transition_blocked :: "db \<Rightarrow> inst \<Rightarrow> bool" where
  "transition_blocked d i =
     (creation_is_incomplete i \<or> i_action i = ''deleting'' \<or> i_status i \<in> {PENDING, RUNNING}
      \<or> has_active_template_assignment d (i_id i))"

definition retry_failed_members :: "uuid \<Rightarrow> db \<Rightarrow> db" where
  "retry_failed_members instance_id d =
     d\<lparr>members := update_where (\<lambda>m. m_instance_id m = instance_id \<and> m_status m = ERROR)
                    (\<lambda>m. m\<lparr>m_status := PENDING\<rparr>) (members d)\<rparr>"

definition request_instance_sync ::
  "uuid \<Rightarrow> uuid \<Rightarrow> instant \<Rightarrow> db \<Rightarrow> (instance_error, db \<times> inst) result" where
  "request_instance_sync instance_id job_id now d =
     rbind (require (instance_of d instance_id) InstanceNotFoundError) (\<lambda>i.
       rbind (guard_that (\<not> transition_blocked d i) InstanceActionConflictError) (\<lambda>_.
         Inr (attach_instance_job i ''updating'' ''instance.update'' INSTANCE_UPDATE_STEP_01_TASK
                INSTANCE_UPDATE_STEP_01 job_id now (retry_failed_members instance_id d))))"

definition request_power_action ::
  "uuid \<Rightarrow> string \<Rightarrow> string \<Rightarrow> string \<Rightarrow> string \<Rightarrow> uuid \<Rightarrow> instant \<Rightarrow> db
    \<Rightarrow> (instance_error, db \<times> inst) result" where
  "request_power_action instance_id action job_name task_name step job_id now d =
     rbind (require (instance_of d instance_id) InstanceNotFoundError) (\<lambda>i.
       rbind (guard_that (\<not> transition_blocked d i) InstanceActionConflictError) (\<lambda>_.
         Inr (attach_instance_job i action job_name task_name step job_id now d)))"

definition request_instance_start ::
  "uuid \<Rightarrow> uuid \<Rightarrow> instant \<Rightarrow> db \<Rightarrow> (instance_error, db \<times> inst) result" where
  "request_instance_start instance_id =
     request_power_action instance_id ''starting'' ''instance.start'' INSTANCE_START_STEP_01_TASK INSTANCE_START_STEP_01"

definition request_instance_stop ::
  "uuid \<Rightarrow> uuid \<Rightarrow> instant \<Rightarrow> db \<Rightarrow> (instance_error, db \<times> inst) result" where
  "request_instance_stop instance_id =
     request_power_action instance_id ''stopping'' ''instance.stop'' INSTANCE_STOP_STEP_01_TASK INSTANCE_STOP_STEP_01"

definition update_instance_action ::
  "uuid \<Rightarrow> string \<Rightarrow> string \<Rightarrow> instance_status \<Rightarrow> db \<Rightarrow> (instance_error, db \<times> inst) result" where
  "update_instance_action instance_id expected_action action status d =
     (let normalized_action = strip action in
      rbind (guard_that (\<not> (normalized_action = [] \<or> MAX_ACTION_LENGTH < length normalized_action))
               InvalidInstanceActionError) (\<lambda>_.
        rbind (require (instance_of d instance_id) InstanceNotFoundError) (\<lambda>i.
          rbind (guard_that (i_action i = expected_action) InstanceActionConflictError) (\<lambda>_.
            let i' = i\<lparr>i_action := normalized_action, i_status := status\<rparr>
            in Inr (save_resource (RInstance i') d, i')))))"

section \<open>Kubernetes provider\<close>

datatype provider_error =
    ProviderInstance instance_error
  | InstanceKubernetesNotFoundError
  | InstanceKubernetesAlreadyConfiguredError

abbreviation provider_of :: "db \<Rightarrow> uuid \<Rightarrow> instance_kubernetes option" where
  "provider_of d k \<equiv> select_row k_instance_id k (instance_kubernetes_rows d)"

definition get_provider :: "uuid \<Rightarrow> db \<Rightarrow> (provider_error, instance_kubernetes) result" where
  "get_provider instance_id d =
     (case provider_of d instance_id of
        Some p \<Rightarrow> Inr p
      | None \<Rightarrow> if instance_of d instance_id = None then Inl (ProviderInstance InstanceNotFoundError)
                else Inl InstanceKubernetesNotFoundError)"

definition lock_idle_instance :: "uuid \<Rightarrow> db \<Rightarrow> (provider_error, inst) result" where
  "lock_idle_instance instance_id d =
     rbind (require (instance_of d instance_id) (ProviderInstance InstanceNotFoundError)) (\<lambda>i.
       rbind (guard_that (i_status i = SUCCESS) (ProviderInstance InstanceActionConflictError)) (\<lambda>_. Inr i))"

definition create_provider_and_request_update ::
  "uuid \<Rightarrow> bytes \<Rightarrow> (bytes \<Rightarrow> uuid \<Rightarrow> bytes) \<Rightarrow> uuid \<Rightarrow> instant \<Rightarrow> db
    \<Rightarrow> (provider_error, db \<times> instance_kubernetes) result" where
  "create_provider_and_request_update instance_id kubeconfig encrypt job_id now d =
     rbind (lock_idle_instance instance_id d) (\<lambda>i.
       rbind (guard_that (provider_of d instance_id = None) InstanceKubernetesAlreadyConfiguredError) (\<lambda>_.
         let provider = \<lparr>k_instance_id = instance_id, k_kubeconfig_enc = encrypt kubeconfig instance_id\<rparr>;
             d1 = d\<lparr>instance_kubernetes_rows := insert_row provider (instance_kubernetes_rows d)\<rparr>
         in Inr (fst (attach_instance_job i ''updating'' ''instance.update'' INSTANCE_UPDATE_STEP_01_TASK
                   INSTANCE_UPDATE_STEP_01 job_id now d1), provider)))"

section \<open>Slugs\<close>

lemma length_generate_instance_slug [simp]:
  "length (generate_instance_slug choices) = INSTANCE_SLUG_LENGTH"
  by (simp add: generate_instance_slug_def)

lemma generate_instance_slug_alphabet:
  "set (generate_instance_slug choices) \<subseteq> set INSTANCE_SLUG_ALPHABET"
proof -
  have "0 < length INSTANCE_SLUG_ALPHABET" by (simp add: INSTANCE_SLUG_ALPHABET_def)
  then show ?thesis
    by (auto simp: generate_instance_slug_def intro!: nth_mem)
qed

lemma first_free_slug_Some:
  "first_free_slug ss rows = Some s \<Longrightarrow> s \<in> set ss \<and> s \<notin> i_slug ` set rows"
  by (induction ss) (auto simp: exists_row_iff split: if_splits)

lemma first_free_slug_None: "first_free_slug ss rows = None \<longleftrightarrow> set ss \<subseteq> i_slug ` set rows"
  by (induction ss) (auto simp: exists_row_iff)

lemma first_free_slug_enough:
  assumes "distinct ss" and "length rows < length ss"
  shows "\<exists>s. first_free_slug ss rows = Some s"
proof (rule ccontr)
  assume "\<nexists>s. first_free_slug ss rows = Some s"
  then have "set ss \<subseteq> set (map i_slug rows)"
    by (simp add: first_free_slug_None flip: not_None_eq)
  then have "card (set ss) \<le> card (set (map i_slug rows))" by (rule card_mono[rotated]) simp
  also have "\<dots> \<le> length rows" using card_length[of "map i_slug rows"] by simp
  finally show False using assms distinct_card[OF assms(1)] by simp
qed

section \<open>Placement\<close>

lemma arg_min_list_least: "x \<in> set xs \<Longrightarrow> f (arg_min_list f xs) \<le> f x"
  by (cases "xs = []") (simp_all add: f_arg_min_list_f)

lemma set_available_databases:
  "x \<in> set (available_databases d) \<longleftrightarrow>
     x \<in> set (databases d) \<and> allocation_count d (d_id x) < d_instance_max x"
  by (auto simp: available_databases_def)

lemma select_database_Some:
  assumes "select_database d = Some x"
  shows "x \<in> set (databases d)" and "allocation_count d (d_id x) < d_instance_max x"
    and "y \<in> set (databases d) \<Longrightarrow> allocation_count d (d_id y) < d_instance_max y \<Longrightarrow>
           utilization_key d x \<le> utilization_key d y"
proof -
  have ne: "available_databases d \<noteq> []" and x: "x = arg_min_list (utilization_key d) (available_databases d)"
    using assms by (auto simp: select_database_def split: if_splits)
  have mem: "x \<in> set (available_databases d)" using arg_min_list_in[OF ne] x by simp
  then show "x \<in> set (databases d)" and "allocation_count d (d_id x) < d_instance_max x"
    by (simp_all add: set_available_databases)
  show "utilization_key d x \<le> utilization_key d y"
    if "y \<in> set (databases d)" "allocation_count d (d_id y) < d_instance_max y"
    using that unfolding x by (intro arg_min_list_least) (simp add: set_available_databases)
qed

lemma select_database_None:
  "select_database d = None \<longleftrightarrow> (\<forall>x\<in>set (databases d). d_instance_max x \<le> allocation_count d (d_id x))"
proof -
  have "select_database d = None \<longleftrightarrow> available_databases d = []"
    by (auto simp: select_database_def available_databases_def)
  also have "\<dots> \<longleftrightarrow> (\<forall>x. x \<notin> set (available_databases d))"
    by (cases "available_databases d") auto
  also have "\<dots> \<longleftrightarrow> (\<forall>x\<in>set (databases d). d_instance_max x \<le> allocation_count d (d_id x))"
    by (auto simp: set_available_databases)
  finally show ?thesis .
qed

lemma schema_name_inj: "schema_name_for a = schema_name_for b \<Longrightarrow> a = b"
  by (simp add: schema_name_for_def uuid_hex_inj)

lemma length_schema_name [simp]: "length (schema_name_for k) = 38"
  by (simp add: schema_name_for_def)

section \<open>Creation\<close>

lemma create_instance_Inr:
  assumes "create_instance app ik jk ak slugs now d = Some (Inr (d', row))"
  obtains database slug where "select_database d = Some database"
    "first_free_slug slugs (instances d) = Some slug"
    "row = new_instance_row ik app slug jk"
    "d' = (insert_resource (RInstance row) (stage_job (add_job_execution jk ''instance.create''
            INSTANCE_CREATE_STEP_01_TASK (Some ''instance'') (Some ik) INSTANCE_CREATE_STEP_01 now) d))
         \<lparr>database_allocations := insert_row \<lparr>al_id = ak, al_database_id = d_id database,
            al_instance_id = ik, al_schema_name = schema_name_for ik\<rparr> (database_allocations d)\<rparr>"
    "instances_ok (instances d')" "allocations_ok (database_allocations d')"
    "unique_by j_id (job_executions d')"
  using assms
  by (auto simp: create_instance_def Let_def split: option.splits if_splits)

lemma allocation_count_insert:
  "allocation_count (d\<lparr>database_allocations := insert_row a rows\<rparr>) k =
     allocation_count (d\<lparr>database_allocations := rows\<rparr>) k + (if al_database_id a = k then 1 else 0)"
  by (simp add: allocation_count_def insert_row_def)

lemma pool_inv_create_instance:
  assumes inv: "pool_inv d" and "create_instance app ik jk ak slugs now d = Some (Inr (d', row))"
  shows "pool_inv d'"
  using assms(2)
proof (rule create_instance_Inr)
  fix database slug
  assume sel: "select_database d = Some database"
    and d': "d' = (insert_resource (RInstance row) (stage_job (add_job_execution jk ''instance.create''
            INSTANCE_CREATE_STEP_01_TASK (Some ''instance'') (Some ik) INSTANCE_CREATE_STEP_01 now) d))
         \<lparr>database_allocations := insert_row \<lparr>al_id = ak, al_database_id = d_id database,
            al_instance_id = ik, al_schema_name = schema_name_for ik\<rparr> (database_allocations d)\<rparr>"
  have rows: "databases d' = databases d" by (simp add: d')
  have ids: "unique_by d_id (databases d)"
    using pool_invD(1)[OF inv] by (simp add: databases_ok_def)
  have count: "allocation_count d' k = allocation_count d k + (if d_id database = k then 1 else 0)" for k
    by (simp add: d' allocation_count_def insert_row_def)
  show "pool_inv d'"
  proof (rule pool_invI)
    show "databases_ok (databases d')" using pool_invD(1)[OF inv] rows by simp
    show "allocation_count d' (d_id x) \<le> d_instance_max x" if "x \<in> set (databases d')" for x
    proof (cases "d_id x = d_id database")
      case True
      then have "x = database"
        using ids that rows select_database_Some(1)[OF sel]
        by (metis option.inject select_row_unique)
      then show ?thesis using select_database_Some(2)[OF sel] count by simp
    next
      case False
      then show ?thesis using pool_invD(2)[OF inv] that rows count by simp
    qed
    show "\<exists>x\<in>set (databases d'). d_id x = al_database_id a"
      if "a \<in> set (database_allocations d')" for a
      using that pool_invD(3)[OF inv] select_database_Some(1)[OF sel] by (auto simp: d')
  qed
qed

lemma run_create_instance:
  assumes "create_instance app ik jk ak slugs now d = Some (Inr (d', row))"
  shows "sys_run d d'"
  using assms
proof (rule create_instance_Inr)
  fix database slug
  let ?job = "add_job_execution jk ''instance.create'' INSTANCE_CREATE_STEP_01_TASK (Some ''instance'')
     (Some ik) INSTANCE_CREATE_STEP_01 now"
  assume row: "row = new_instance_row ik app slug jk"
    and d': "d' = (insert_resource (RInstance row) (stage_job ?job d))
         \<lparr>database_allocations := insert_row \<lparr>al_id = ak, al_database_id = d_id database,
            al_instance_id = ik, al_schema_name = schema_name_for ik\<rparr> (database_allocations d)\<rparr>"
    and ok: "instances_ok (instances d')" "unique_by j_id (job_executions d')"
  have fresh: "job_of d jk = None" and new: "instance_of d ik = None"
    using ok by (auto simp: d' row new_instance_row_def instances_ok_def select_row_None)
  have "sys_txn d (insert_resource (RInstance row) (stage_job ?job d))"
    using fresh new
    by (intro sys_txn.create) (simp_all add: row new_instance_row_def lookup_resource_def)
  moreover have "sys_txn (insert_resource (RInstance row) (stage_job ?job d)) d'"
    by (rule sys_txn.bookkeep) (simp add: d' same_lifecycle_def)
  ultimately show "sys_run d d'" by (blast intro: rtranclp_trans)
qed

section \<open>Requests\<close>

lemma txn_attach_instance_job:
  assumes "instance_of d k = Some i0" and "i_id i = k" and "job_of d jk = None"
  shows "sys_txn d (fst (attach_instance_job i action name task step jk now d))"
  using assms unfolding attach_instance_job_def Let_def fst_conv
  by (intro sys_txn.request) (simp_all add: lookup_resource_def)

lemma pool_inv_attach_instance_job [simp]:
  "pool_inv (fst (attach_instance_job i action name task step jk now d)) = pool_inv d"
  by (rule pool_inv_cong) (simp_all add: attach_instance_job_def Let_def)

text \<open>Every accepted request starts from an instance on which no job is in progress.\<close>

lemma request_power_action_Inr:
  "request_power_action ik action name task step jk now d = Inr (d', i') \<Longrightarrow>
   \<exists>i. instance_of d ik = Some i \<and> \<not> transition_blocked d i
      \<and> (d', i') = attach_instance_job i action name task step jk now d"
  by (auto simp: request_power_action_def result_iffs)

lemma request_instance_sync_Inr:
  "request_instance_sync ik jk now d = Inr (d', i') \<Longrightarrow>
   \<exists>i. instance_of d ik = Some i \<and> \<not> transition_blocked d i
      \<and> (d', i') = attach_instance_job i ''updating'' ''instance.update'' INSTANCE_UPDATE_STEP_01_TASK
           INSTANCE_UPDATE_STEP_01 jk now (retry_failed_members ik d)"
  by (auto simp: request_instance_sync_def result_iffs)

lemma request_instance_deletion_Inr:
  "request_instance_deletion ik jk now d = Inr (d', i') \<Longrightarrow>
   \<exists>i. instance_of d ik = Some i \<and> \<not> has_active_template_assignment d (i_id i)
      \<and> (successfully_reconciled i \<or> failed_creation i)
      \<and> (d', i') = attach_instance_job i ''deleting'' ''instance.delete''
           (fst (deletion_entry i)) (snd (deletion_entry i)) jk now d"
  by (auto simp: request_instance_deletion_def result_iffs split_beta)

lemma not_blocked_idle: "\<not> transition_blocked d i \<Longrightarrow> i_status i = SUCCESS \<or> i_status i = ERROR"
  by (cases "i_status i") (auto simp: transition_blocked_def)

section \<open>Accepted requests are transactions of the system\<close>

lemma run_attach:
  assumes "instance_of d k = Some i" and "job_of d jk = None" and "same_lifecycle d d1"
  shows "sys_run d (fst (attach_instance_job i action name task step jk now d1))"
proof -
  have "instance_of d1 k = Some i" "job_of d1 jk = None" "i_id i = k"
    using assms select_row_key[OF assms(1)] by (simp_all add: same_lifecycle_def)
  then have "sys_txn d1 (fst (attach_instance_job i action name task step jk now d1))"
    by (metis txn_attach_instance_job)
  with run_bookkeep[OF assms(3)] show ?thesis by (rule sys_run_after)
qed

lemma same_lifecycle_retry_failed_members [simp]: "same_lifecycle d (retry_failed_members k d)"
  by (simp add: same_lifecycle_def retry_failed_members_def)

lemma run_request_power_action:
  assumes "request_power_action ik action name task step jk now d = Inr (d', i')" and "job_of d jk = None"
  shows "sys_run d d'"
  using request_power_action_Inr[OF assms(1)] assms(2) run_attach[OF _ assms(2) same_lifecycle_refl]
  by (metis fst_conv)

lemma run_request_instance_sync:
  assumes "request_instance_sync ik jk now d = Inr (d', i')" and "job_of d jk = None"
  shows "sys_run d d'"
  using request_instance_sync_Inr[OF assms(1)]
    run_attach[OF _ assms(2) same_lifecycle_retry_failed_members]
  by (metis fst_conv)

lemma run_request_instance_deletion:
  assumes "request_instance_deletion ik jk now d = Inr (d', i')" and "job_of d jk = None"
  shows "sys_run d d'"
  using request_instance_deletion_Inr[OF assms(1)] run_attach[OF _ assms(2) same_lifecycle_refl]
  by (metis fst_conv)

lemma run_create_provider:
  assumes "create_provider_and_request_update ik kc enc jk now d = Inr (d', p)" and "job_of d jk = None"
  shows "sys_run d d'"
  using assms
  by (auto simp: create_provider_and_request_update_def lock_idle_instance_def result_iffs Let_def
      same_lifecycle_def intro!: run_attach)

section \<open>The pool as a state machine\<close>

text \<open>
  Everything that may happen to the two pool tables: the database operations, the placement
  of a new instance, the release of allocations by a deletion, and transactions that touch
  neither table.
\<close>

inductive pool_step :: "db \<Rightarrow> db \<Rightarrow> bool" where
  create_db: "create_database k payload pw enc d = Inr (d', u) \<Longrightarrow> pool_step d d'"
| update_db: "update_database k payload enc d = Inr (d', u) \<Longrightarrow> pool_step d d'"
| delete_db: "delete_database k d = Inr d' \<Longrightarrow> pool_step d d'"
| place: "create_instance app ik jk ak slugs now d = Some (Inr (d', row)) \<Longrightarrow> pool_step d d'"
| release: "databases d' = databases d \<Longrightarrow>
    database_allocations d' = delete_where p (database_allocations d) \<Longrightarrow> pool_step d d'"

lemma pool_inv_release:
  assumes inv: "pool_inv d" and rows: "databases d' = databases d"
    "database_allocations d' = delete_where p (database_allocations d)"
  shows "pool_inv d'"
proof (rule pool_invI)
  show "databases_ok (databases d')" using pool_invD(1)[OF inv] rows by simp
  have "allocation_count d' k \<le> allocation_count d k" for k
    unfolding allocation_count_def rows delete_where_def of_nat_le_iff filter_filter
    by (rule order_trans[OF _ length_filter_le[of "\<lambda>a. \<not> p a"]]) (simp add: filter_filter conj_commute)
  then show "allocation_count d' (d_id x) \<le> d_instance_max x" if "x \<in> set (databases d')" for x
    using that pool_invD(2)[OF inv] rows(1) by (metis order_trans)
  show "\<exists>x\<in>set (databases d'). d_id x = al_database_id a" if "a \<in> set (database_allocations d')" for a
    using that pool_invD(3)[OF inv] rows by auto
qed

lemma pool_inv_step: "pool_step d d' \<Longrightarrow> pool_inv d \<Longrightarrow> pool_inv d'"
  by (induction rule: pool_step.induct)
     (auto intro: pool_inv_create_database pool_inv_update_database pool_inv_delete_database
       pool_inv_create_instance pool_inv_release)

interpretation pool: invariant_system pool_step pool_inv
  by unfold_locales (rule pool_inv_step)

lemma pool_inv_empty [simp]: "pool_inv empty_db"
  by (simp add: pool_inv_def empty_db_def databases_ok_def unique_by_def)

section \<open>What a request leaves behind\<close>

text \<open>The staged job can be claimed at once, and the instance counts as busy.\<close>

lemma job_of_attach:
  "job_of d jk = None \<Longrightarrow>
   job_of (fst (attach_instance_job i action name task step jk now d)) jk
     = Some (add_job_execution jk name task (Some ''instance'') (Some (i_id i)) step now)"
  by (simp add: attach_instance_job_def Let_def select_insert_row)

lemma instance_of_attach:
  "instance_of d (i_id i) = Some i0 \<Longrightarrow>
   instance_of (fst (attach_instance_job i action name task step jk now d)) (i_id i)
     = Some (i\<lparr>i_action := action, i_status := PENDING, i_job_id := Some jk, i_step := Some step\<rparr>)"
  by (simp add: attach_instance_job_def Let_def)

lemma claimable_attach:
  assumes "instance_of d (i_id i) = Some i0" and "job_of d jk = None"
    and "map_of RESOURCE_ACTIONS name = Some action"
  shows "claimable (fst (attach_instance_job i action name task step jk now d)) jk task"
proof -
  let ?d = "fst (attach_instance_job i action name task step jk now d)"
  let ?job = "add_job_execution jk name task (Some ''instance'') (Some (i_id i)) step now"
  have "resource_for_job ?d ?job
      = Some (RInstance (i\<lparr>i_action := action, i_status := PENDING, i_job_id := Some jk, i_step := Some step\<rparr>))"
    using instance_of_attach[OF assms(1)] by (simp add: resource_for_job_def lookup_resource_def)
  moreover have "j_status ?job = PENDING" using new_job_add by (simp add: new_job_def)
  ultimately show ?thesis
    using job_of_attach[OF assms(2)] assms(3) by (simp add: claimable_def resource_matches_def)
qed

lemma resource_actions_instance [simp]:
  "map_of RESOURCE_ACTIONS ''instance.create'' = Some ''creating''"
  "map_of RESOURCE_ACTIONS ''instance.update'' = Some ''updating''"
  "map_of RESOURCE_ACTIONS ''instance.start'' = Some ''starting''"
  "map_of RESOURCE_ACTIONS ''instance.stop'' = Some ''stopping''"
  "map_of RESOURCE_ACTIONS ''instance.delete'' = Some ''deleting''"
  by (simp_all add: RESOURCE_ACTIONS_def)

lemma claimable_create_instance:
  assumes "create_instance app ik jk ak slugs now d = Some (Inr (d', row))"
  shows "claimable d' jk INSTANCE_CREATE_STEP_01_TASK"
  using assms
proof (rule create_instance_Inr)
  fix database slug
  let ?job = "add_job_execution jk ''instance.create'' INSTANCE_CREATE_STEP_01_TASK (Some ''instance'')
     (Some ik) INSTANCE_CREATE_STEP_01 now"
  assume row: "row = new_instance_row ik app slug jk"
    and d': "d' = (insert_resource (RInstance row) (stage_job ?job d))
         \<lparr>database_allocations := insert_row \<lparr>al_id = ak, al_database_id = d_id database,
            al_instance_id = ik, al_schema_name = schema_name_for ik\<rparr> (database_allocations d)\<rparr>"
    and ok: "instances_ok (instances d')" "unique_by j_id (job_executions d')"
  have "job_of d jk = None" "instance_of d ik = None"
    using ok by (auto simp: d' row new_instance_row_def instances_ok_def select_row_None)
  then have "job_of d' jk = Some ?job" "instance_of d' ik = Some row"
    by (simp_all add: d' select_insert_row row new_instance_row_def)
  then show "claimable d' jk INSTANCE_CREATE_STEP_01_TASK"
    using new_job_add[of jk "''instance.create''"]
    by (simp add: claimable_def resource_matches_def resource_for_job_def lookup_resource_def
        row new_instance_row_def new_job_def)
qed

text \<open>An instance with a staged or running job refuses every other request.\<close>

definition busy :: "db \<Rightarrow> uuid \<Rightarrow> bool" where
  "busy d k = (case instance_of d k of None \<Rightarrow> False | Some i \<Rightarrow> i_status i \<in> {PENDING, RUNNING})"

lemma busy_refuses:
  assumes "busy d k"
  shows "request_instance_deletion k jk now d = Inl InstanceActionConflictError"
    and "request_instance_sync k jk now d = Inl InstanceActionConflictError"
    and "request_power_action k action name task step jk now d = Inl InstanceActionConflictError"
    and "create_provider_and_request_update k kc enc jk now d = Inl (ProviderInstance InstanceActionConflictError)"
proof -
  obtain i where i: "instance_of d k = Some i" "i_status i = PENDING \<or> i_status i = RUNNING"
    using assms by (auto simp: busy_def split: option.splits)
  show "request_instance_deletion k jk now d = Inl InstanceActionConflictError"
    using i by (auto simp: request_instance_deletion_def successfully_reconciled_def failed_creation_def
        guard_that_def)
  show "request_instance_sync k jk now d = Inl InstanceActionConflictError"
    and "request_power_action k action name task step jk now d = Inl InstanceActionConflictError"
    using i by (auto simp: request_instance_sync_def request_power_action_def transition_blocked_def)
  show "create_provider_and_request_update k kc enc jk now d = Inl (ProviderInstance InstanceActionConflictError)"
    using i by (auto simp: create_provider_and_request_update_def lock_idle_instance_def)
qed

lemma busy_attach:
  "instance_of d (i_id i) = Some i0 \<Longrightarrow> busy (fst (attach_instance_job i action name task step jk now d)) (i_id i)"
  by (simp add: busy_def instance_of_attach)

text \<open>The five requests that stage a job for an instance.\<close>

definition instance_requests ::
  "uuid \<Rightarrow> uuid \<Rightarrow> instant \<Rightarrow> (bytes \<Rightarrow> uuid \<Rightarrow> bytes) \<Rightarrow> bytes
    \<Rightarrow> (string \<times> string \<times> (db \<Rightarrow> (provider_error, db) result)) list" where
  "instance_requests k jk now encrypt kubeconfig =
     (let of_instance = (\<lambda>r. case r of Inl e \<Rightarrow> Inl (ProviderInstance e) | Inr (d', _) \<Rightarrow> Inr d') in
      [(''starting'', INSTANCE_START_STEP_01_TASK, \<lambda>d. of_instance (request_instance_start k jk now d)),
       (''stopping'', INSTANCE_STOP_STEP_01_TASK, \<lambda>d. of_instance (request_instance_stop k jk now d)),
       (''updating'', INSTANCE_UPDATE_STEP_01_TASK, \<lambda>d. of_instance (request_instance_sync k jk now d)),
       (''deleting'', INSTANCE_DELETE_STEP_01_TASK, \<lambda>d. of_instance (request_instance_deletion k jk now d)),
       (''updating'', INSTANCE_UPDATE_STEP_01_TASK,
          \<lambda>d. rbind (create_provider_and_request_update k kubeconfig encrypt jk now d) (\<lambda>(d', _). Inr d'))])"

lemma instances_retry_failed_members [simp]: "instances (retry_failed_members k d) = instances d"
  by (simp add: retry_failed_members_def)

lemma busy_after_request:
  assumes "(a, t, req) \<in> set (instance_requests k jk now enc kc)" and "req d = Inr d'"
  shows "busy d' k"
proof -
  have id: "instance_of d k = Some i \<Longrightarrow> i_id i = k" for i by (rule select_row_key)
  have attach: "busy (fst (attach_instance_job i action name task step jk now d1)) k"
    if "instance_of d k = Some i" "instances d1 = instances d" for i action name task step d1
  proof -
    have "instance_of d1 (i_id i) = Some i" using that id[OF that(1)] by simp
    from busy_attach[OF this] id[OF that(1)] show ?thesis by simp
  qed
  have pair: "busy d' k"
    if "instance_of d k = Some i" "(d', j) = attach_instance_job i action name task step jk now d1"
       "instances d1 = instances d" for i j action name task step d1
    using attach[OF that(1,3)] that(2) by (metis fst_conv)
  from assms consider (power) j act name task step where
      "request_power_action k act name task step jk now d = Inr (d', j)"
    | (sync) j where "request_instance_sync k jk now d = Inr (d', j)"
    | (del) j where "request_instance_deletion k jk now d = Inr (d', j)"
    | (prov) p where "create_provider_and_request_update k kc enc jk now d = Inr (d', p)"
    by (auto simp: instance_requests_def Let_def request_instance_start_def request_instance_stop_def
        result_iffs split: sum.splits)
  then show ?thesis
  proof cases
    case power
    from request_power_action_Inr[OF this] show ?thesis using pair by blast
  next
    case sync
    from request_instance_sync_Inr[OF this] show ?thesis
      using pair instances_retry_failed_members by blast
  next
    case del
    from request_instance_deletion_Inr[OF this] show ?thesis using pair by blast
  next
    case prov
    then show ?thesis
      by (auto simp: create_provider_and_request_update_def lock_idle_instance_def result_iffs Let_def
          intro!: attach)
  qed
qed

end
