(* ===== verification/Task_Env.thy ===== *)
theory Task_Env
  imports Instances
begin

text \<open>
  The language of task bodies. A task body is a sequence of transactions and calls to the
  domain services; before every transaction, and while a remote call runs, other processes
  may commit. The environment \<open>env\<close> holds what a body cannot decide: the broker, the clock
  readings, what the other processes committed just before the \<open>n\<close>-th point of the body
  (\<open>e_during\<close>), and the outcome of the calls it makes to the Argo CD, Coder and PostgreSQL
  services and to the ciphers. Each body makes each call at most once, so an outcome is a
  function of the arguments. A call that takes a heartbeat callback beats
  \<open>e_beats n\<close> times and aborts at the first beat that finds the claim lost.
\<close>

section \<open>Values exchanged with the services\<close>

datatype argocd_mutation_status = COMPLETED | DEFERRED

record argocd_reconcile_result =
  rc_status :: argocd_mutation_status
  rc_application_name :: string

record schema_target =
  st_host :: string
  st_port :: int
  st_database_name :: string
  st_username :: string
  st_password :: string
  st_schema_name :: string

record instance_helm_values_data =
  hv_slug :: string
  hv_public_url :: string
  hv_database_username :: string
  hv_database_password :: string
  hv_database_host :: string
  hv_database_name :: string
  hv_managed_database_name :: string
  hv_database_schema :: string
  hv_kubeconfig :: "bytes option"

record env =
  e_celery :: celery
  e_clock :: "nat \<Rightarrow> instant"
  e_during :: "nat \<Rightarrow> world \<Rightarrow> world"
  e_beats :: "nat \<Rightarrow> nat"
  e_uuid4 :: uuid
  e_base_domain :: "(task_error, string) result"
  e_default_admins :: "(task_error, string list) result"
  e_token_urlsafe :: string
  e_decrypt_password :: "bytes \<Rightarrow> uuid \<Rightarrow> (task_error, string) result"
  e_decrypt_instance_password :: "bytes \<Rightarrow> uuid \<Rightarrow> (task_error, string) result"
  e_encrypt_instance_password :: "string \<Rightarrow> uuid \<Rightarrow> bytes"
  e_decrypt_kubeconfig :: "bytes \<Rightarrow> uuid \<Rightarrow> (task_error, bytes) result"
  e_create_schema :: "schema_target \<Rightarrow> (task_error, unit) result"
  e_drop_schema :: "schema_target \<Rightarrow> (task_error, unit) result"
  e_reconcile :: "uuid \<Rightarrow> string \<Rightarrow> string option \<Rightarrow> (string \<times> string) list \<Rightarrow> instance_helm_values_data
     \<Rightarrow> (task_error, argocd_reconcile_result) result"
  e_delete_application :: "uuid \<Rightarrow> string \<Rightarrow> string option \<Rightarrow> (task_error, argocd_mutation_status) result"
  e_application_exists :: "uuid \<Rightarrow> string \<Rightarrow> string option \<Rightarrow> (task_error, bool) result"
  e_bootstrap_admin :: "string \<Rightarrow> string \<Rightarrow> (task_error, unit) result"
  e_cleanup_users :: "string \<Rightarrow> string \<Rightarrow> string list \<Rightarrow> (task_error, unit) result"
  e_delete_workspaces :: "string \<Rightarrow> string \<Rightarrow> (task_error, unit) result"
  e_stop_workspaces :: "string \<Rightarrow> string \<Rightarrow> (task_error, unit) result"

section \<open>Combinators\<close>

definition treturn :: "'a \<Rightarrow> 'a task" where
  "treturn x w = (w, Inr x)"

definition traise :: "task_error \<Rightarrow> 'a task" where
  "traise e w = (w, Inl e)"

definition tbind :: "'a task \<Rightarrow> ('a \<Rightarrow> 'b task) \<Rightarrow> 'b task" where
  "tbind m f w = (case m w of (w', Inl e) \<Rightarrow> (w', Inl e) | (w', Inr x) \<Rightarrow> f x w')"

definition tlift :: "(task_error, 'a) result \<Rightarrow> 'a task" where
  "tlift r w = (w, r)"

text \<open>
  The transaction at point \<open>n\<close> of a body, read-only or not. An exception rolls it back.
\<close>

definition tread :: "env \<Rightarrow> nat \<Rightarrow> (db \<Rightarrow> (task_error, 'a) result) \<Rightarrow> 'a task" where
  "tread env n f w = (let w' = e_during env n w in (w', f (store w')))"

definition ttxn :: "env \<Rightarrow> nat \<Rightarrow> (db \<Rightarrow> (task_error, db \<times> 'a) result) \<Rightarrow> 'a task" where
  "ttxn env n f w =
     (let w' = e_during env n w in
      case f (store w') of Inl e \<Rightarrow> (w', Inl e) | Inr (d, x) \<Rightarrow> (w'\<lparr>store := d\<rparr>, Inr x))"

definition tcatch :: "'a task \<Rightarrow> (task_error \<Rightarrow> 'a task) \<Rightarrow> 'a task" where
  "tcatch m h w = (case m w of (w', Inl e) \<Rightarrow> h e w' | (w', Inr x) \<Rightarrow> (w', Inr x))"

text \<open>The \<open>n\<close>-th remote call: others commit while it runs, then its outcome is known.\<close>

definition tremote :: "env \<Rightarrow> nat \<Rightarrow> (task_error, 'a) result \<Rightarrow> 'a task" where
  "tremote env n outcome w = (e_during env n w, outcome)"

definition heartbeat_owned :: "env \<Rightarrow> task_error \<Rightarrow> nat \<Rightarrow> execution_claim \<Rightarrow> unit task" where
  "heartbeat_owned env lost n claim =
     ttxn env n (\<lambda>d. case heartbeat_execution claim (e_clock env n) d of
        (d', True) \<Rightarrow> Inr (d', ())
      | (_, False) \<Rightarrow> Inl lost)"

fun tbeats :: "env \<Rightarrow> task_error \<Rightarrow> nat \<Rightarrow> execution_claim \<Rightarrow> nat \<Rightarrow> unit task" where
  "tbeats env lost n claim 0 = treturn ()"
| "tbeats env lost n claim (Suc k) =
     tbind (heartbeat_owned env lost (n + 100 * Suc k) claim) (\<lambda>_. tbeats env lost n claim k)"

definition tremote_beating ::
  "env \<Rightarrow> task_error \<Rightarrow> nat \<Rightarrow> execution_claim \<Rightarrow> (task_error, 'a) result \<Rightarrow> 'a task" where
  "tremote_beating env lost n claim outcome =
     tbind (tbeats env lost n claim (e_beats env n)) (\<lambda>_. tremote env n outcome)"

definition tadvance ::
  "env \<Rightarrow> nat \<Rightarrow> execution_claim \<Rightarrow> string \<Rightarrow> string \<Rightarrow> mutator \<Rightarrow> string task" where
  "tadvance env n claim next_task_name next_step mutate w0 =
     (let w = e_during env n w0 in
      case advance_execution (e_celery env) claim next_task_name next_step mutate (e_clock env n) w of
        Inl e \<Rightarrow> (w, Inl e)
      | Inr (w', advanced) \<Rightarrow> (w', Inr (if advanced then ''pending'' else ''noop'')))"

definition tcomplete ::
  "env \<Rightarrow> nat \<Rightarrow> execution_claim \<Rightarrow> mutator \<Rightarrow> bool \<Rightarrow> string task" where
  "tcomplete env n claim mutate delete_resource =
     tbind (ttxn env n (complete_execution claim mutate delete_resource (e_clock env n)))
       (\<lambda>completed. treturn (if completed then ''success'' else ''noop''))"

definition tdefer :: "env \<Rightarrow> nat \<Rightarrow> execution_claim \<Rightarrow> mutator \<Rightarrow> string task" where
  "tdefer env n claim mutate =
     tbind (ttxn env n (defer_execution claim mutate (e_clock env n)))
       (\<lambda>deferred. treturn (if deferred then ''deferred'' else ''noop''))"

definition tfail :: "env \<Rightarrow> nat \<Rightarrow> execution_claim \<Rightarrow> (db \<Rightarrow> db) \<Rightarrow> unit task" where
  "tfail env n claim mutate = ttxn env n (\<lambda>d. Inr (fail_execution claim mutate (e_clock env n) d, ()))"

definition run_step :: "env \<Rightarrow> uuid \<Rightarrow> string \<Rightarrow> (execution_claim \<Rightarrow> string task) \<Rightarrow> string task" where
  "run_step env job_id task_name operation =
     run_claimed_step job_id task_name (e_clock env 0) (e_clock env 99)
       (\<lambda>claim. tcatch (operation claim) (\<lambda>e. tremote env 99 (Inl e)))"

text \<open>A mutator that requires an instance and changes fields outside its lifecycle.\<close>

definition on_instance :: "string \<Rightarrow> (inst \<Rightarrow> (task_error, inst) result) \<Rightarrow> mutator" where
  "on_instance message f d r = (case r of
       Some (RInstance i) \<Rightarrow> rbind (f i) (\<lambda>i'. Inr (d, Some (RInstance i')))
     | _ \<Rightarrow> Inl (TypeError message))"

section \<open>Bodies as runs of the system\<close>

text \<open>
  Rely and guarantee: when everything the other processes commit is a run of the system, the
  body as a whole is a run of the system too.
\<close>

definition safe_env :: "env \<Rightarrow> bool" where
  "safe_env env = (\<forall>n w. sys_run (store w) (store (e_during env n w)))"

definition safe_task :: "'a task \<Rightarrow> bool" where
  "safe_task m = (\<forall>w. sys_run (store w) (store (fst (m w))))"

lemma safe_taskD: "safe_task m \<Longrightarrow> m w = (w', r) \<Longrightarrow> sys_run (store w) (store w')"
  unfolding safe_task_def by (metis fst_conv)

lemma safe_envD: "safe_env env \<Longrightarrow> sys_run (store w) (store (e_during env n w))"
  by (simp add: safe_env_def)

lemma safe_treturn [simp, intro!]: "safe_task (treturn x)"
  by (simp add: safe_task_def treturn_def)

lemma safe_traise [simp, intro!]: "safe_task (traise e)"
  by (simp add: safe_task_def traise_def)

lemma safe_tlift [simp, intro!]: "safe_task (tlift r)"
  by (simp add: safe_task_def tlift_def)

lemma safe_tread [intro]: "safe_env env \<Longrightarrow> safe_task (tread env n f)"
  by (simp add: safe_task_def tread_def safe_env_def Let_def)

lemma safe_tbind [intro]:
  assumes "safe_task m" and "\<And>x. safe_task (f x)"
  shows "safe_task (tbind m f)"
  unfolding safe_task_def
proof
  fix w
  obtain w' r where m: "m w = (w', r)" by (cases "m w")
  have "sys_run (store w) (store w')" using safe_taskD[OF assms(1) m] .
  moreover have "sys_run (store w') (store (fst (f x w')))" for x
    using assms(2) by (simp add: safe_task_def)
  ultimately show "sys_run (store w) (store (fst (tbind m f w)))"
    using m by (cases r) (auto simp: tbind_def intro: rtranclp_trans)
qed

lemma safe_tcatch [intro]:
  assumes "safe_task m" and "\<And>e. safe_task (h e)"
  shows "safe_task (tcatch m h)"
  unfolding safe_task_def
proof
  fix w
  obtain w' r where m: "m w = (w', r)" by (cases "m w")
  have "sys_run (store w) (store w')" using safe_taskD[OF assms(1) m] .
  moreover have "sys_run (store w') (store (fst (h e w')))" for e
    using assms(2) by (simp add: safe_task_def)
  ultimately show "sys_run (store w) (store (fst (tcatch m h w)))"
    using m by (cases r) (auto simp: tcatch_def intro: rtranclp_trans)
qed

lemma safe_ttxn:
  assumes env: "safe_env env" and txn: "\<And>d d' x. f d = Inr (d', x) \<Longrightarrow> sys_run d d'"
  shows "safe_task (ttxn env n f)"
  unfolding safe_task_def
proof
  fix w
  have during: "sys_run (store w) (store (e_during env n w))" by (rule safe_envD[OF env])
  show "sys_run (store w) (store (fst (ttxn env n f w)))"
  proof (cases "f (store (e_during env n w))")
    case (Inl e)
    with during show ?thesis by (simp add: ttxn_def)
  next
    case (Inr p)
    then have "sys_run (store (e_during env n w)) (fst p)" using txn by (cases p) simp
    with during have "sys_run (store w) (fst p)" by (rule rtranclp_trans)
    with Inr show ?thesis by (cases p) (simp add: ttxn_def)
  qed
qed

lemma safe_tremote [intro]: "safe_env env \<Longrightarrow> safe_task (tremote env n r)"
  by (simp add: safe_env_def safe_task_def tremote_def)

lemma safe_heartbeat_owned [intro]: "safe_env env \<Longrightarrow> safe_task (heartbeat_owned env msg n c)"
  unfolding heartbeat_owned_def
  by (rule safe_ttxn) (auto split: prod.splits bool.splits intro: sys_txn.heartbeat)

lemma safe_tbeats: "safe_env env \<Longrightarrow> safe_task (tbeats env msg n c k)"
  by (induction k) auto

lemma safe_tremote_beating [intro]: "safe_env env \<Longrightarrow> safe_task (tremote_beating env msg n c r)"
  unfolding tremote_beating_def by (intro safe_tbind safe_tbeats safe_tremote)

lemma safe_tadvance [intro]:
  assumes "safe_env env" and "mutator_ok m"
  shows "safe_task (tadvance env n c t st m)"
  unfolding safe_task_def
proof
  fix w
  let ?w = "e_during env n w"
  have during: "sys_run (store w) (store ?w)" by (rule safe_envD[OF assms(1)])
  show "sys_run (store w) (store (fst (tadvance env n c t st m w)))"
  proof (cases "advance_execution (e_celery env) c t st m (e_clock env n) ?w")
    case (Inl e)
    with during show ?thesis by (simp add: tadvance_def)
  next
    case (Inr p)
    then have "sys_txn (store ?w) (store (fst p))"
      using assms(2) by (cases p) (auto intro: sys_txn.advance)
    with during have "sys_run (store w) (store (fst p))" by (rule sys_run_after)
    with Inr show ?thesis by (cases p) (simp add: tadvance_def)
  qed
qed

lemma safe_tcomplete [intro]:
  "safe_env env \<Longrightarrow> mutator_ok m \<Longrightarrow> safe_task (tcomplete env n c m del)"
  unfolding tcomplete_def by (intro safe_tbind safe_ttxn) (auto intro: sys_txn.complete)

lemma safe_tdefer [intro]: "safe_env env \<Longrightarrow> mutator_ok m \<Longrightarrow> safe_task (tdefer env n c m)"
  unfolding tdefer_def by (intro safe_tbind safe_ttxn) (auto intro: sys_txn.deferral)

lemma safe_tfail [intro]:
  "safe_env env \<Longrightarrow> (\<And>d. same_lifecycle d (g d)) \<Longrightarrow> safe_task (tfail env n c g)"
  unfolding tfail_def by (rule safe_ttxn) (auto intro: sys_txn.fail)

lemma safe_run_claimed_step:
  assumes "\<And>c. safe_task (op c)"
  shows "safe_task (run_claimed_step k t now fail_now op)"
  unfolding safe_task_def
proof
  fix w :: world
  obtain d c where cl: "claim_execution k t now (store w) = (d, c)"
    by (cases "claim_execution k t now (store w)")
  then have d: "sys_run (store w) d" by (blast intro: sys_txn.claim)
  show "sys_run (store w) (store (fst (run_claimed_step k t now fail_now op w)))"
  proof (cases c)
    case None
    with cl show ?thesis by (simp add: run_claimed_step_def)
  next
    case (Some claim)
    obtain w' r where op: "op claim (w\<lparr>store := d\<rparr>) = (w', r)" by (cases "op claim (w\<lparr>store := d\<rparr>)")
    have "sys_run d (store w')" using safe_taskD[OF assms op] by simp
    with d have run: "sys_run (store w) (store w')" by (rule rtranclp_trans)
    then have "sys_run (store w) (fail_execution claim (\<lambda>d. d) fail_now (store w'))"
      by (rule sys_run_after) (rule sys_txn.fail, simp)
    with run cl Some op show ?thesis by (cases r) (simp_all add: run_claimed_step_def)
  qed
qed

lemma safe_run_step:
  assumes "safe_env env" and "\<And>c. safe_task (op c)"
  shows "safe_task (run_step env k t op)"
  unfolding run_step_def using assms by (intro safe_run_claimed_step safe_tcatch safe_tremote)

lemma mutator_ok_on_instance:
  assumes "\<And>i i'. f i = Inr i' \<Longrightarrow> i_id i' = i_id i \<and> i_job_id i' = i_job_id i"
  shows "mutator_ok (on_instance msg f)"
  using assms
  by (auto simp: mutator_ok_def on_instance_def rbind_Inr_iff split: option.splits resource.splits)

section \<open>Reading off the outcome of a body\<close>

lemma tbind_Inr_iff:
  "tbind m f w = (w', Inr y) \<longleftrightarrow> (\<exists>w1 x. m w = (w1, Inr x) \<and> f x w1 = (w', Inr y))"
  by (auto simp: tbind_def split: prod.split sum.split)

lemma tlift_Inr_iff: "tlift r w = (w', Inr y) \<longleftrightarrow> w' = w \<and> r = Inr y"
  by (auto simp: tlift_def)

lemma tread_Inr_iff: "tread env n f w = (w', Inr y) \<longleftrightarrow> w' = e_during env n w \<and> f (store w') = Inr y"
  by (auto simp: tread_def Let_def)

lemma ttxn_Inr_iff:
  "ttxn env n f w = (w', Inr y) \<longleftrightarrow>
     (\<exists>d. f (store (e_during env n w)) = Inr (d, y) \<and> w' = (e_during env n w)\<lparr>store := d\<rparr>)"
  by (auto simp: ttxn_def Let_def split: sum.split prod.split)

lemma tremote_Inr_iff: "tremote env n r w = (w', Inr y) \<longleftrightarrow> w' = e_during env n w \<and> r = Inr y"
  by (auto simp: tremote_def)

lemma treturn_Inr_iff: "treturn x w = (w', Inr y) \<longleftrightarrow> w' = w \<and> y = x"
  by (auto simp: treturn_def)

lemmas task_iffs = tbind_Inr_iff tlift_Inr_iff tread_Inr_iff ttxn_Inr_iff tremote_Inr_iff treturn_Inr_iff

lemma tdefer_result: "tdefer env n c m w = (w', Inr r) \<Longrightarrow> r = ''deferred'' \<or> r = ''noop''"
  by (auto simp: tdefer_def task_iffs split: if_splits)

lemma run_step_Inr:
  assumes "run_step env k t op w = (w', Inr r)"
  obtains (lost) "r = ''noop''" "w' = w"
  | (ran) claim d where "claim_execution k t (e_clock env 0) (store w) = (d, Some claim)"
      "op claim (w\<lparr>store := d\<rparr>) = (w', Inr r)"
proof -
  obtain d c where cl: "claim_execution k t (e_clock env 0) (store w) = (d, c)"
    by (cases "claim_execution k t (e_clock env 0) (store w)")
  show thesis
  proof (cases c)
    case None
    with cl assms have "r = ''noop''" "w' = w" by (simp_all add: run_step_def run_claimed_step_def)
    then show thesis by (rule lost)
  next
    case (Some claim)
    with cl assms have "op claim (w\<lparr>store := d\<rparr>) = (w', Inr r)"
      by (auto simp: run_step_def run_claimed_step_def tcatch_def tremote_def split: prod.splits sum.splits)
    with cl Some show thesis by (intro ran) simp_all
  qed
qed

text \<open>An advance that reports success has moved the job and its instance to the next step.\<close>

lemma tadvance_pending:
  assumes adv: "tadvance env n c t st m w = (w', Inr ''pending'')" and m: "mutator_ok m"
  obtains job r d1 where "owned_execution (store (e_during env n w)) c = Some (job, r)"
    "m (store (e_during env n w)) r = Inr d1"
    "job_of (store w') (c_job_id c) = Some (job\<lparr>j_task_name := t, j_step := st, j_status := PENDING,
        j_claimed_at := None, j_updated_at := e_clock env n\<rparr>)"
proof -
  let ?w = "e_during env n w"
  obtain b where adv': "advance_execution (e_celery env) c t st m (e_clock env n) ?w = Inr (w', b)" and b
    using adv by (auto simp: tadvance_def Let_def split: sum.splits if_splits)
  then obtain job r where own: "owned_execution (store ?w) c = Some (job, r)"
    by (cases "owned_execution (store ?w) c") (auto simp: advance_execution_def)
  obtain d r' where mut: "m (store ?w) r = Inr (d, r')"
    using adv' own by (auto simp: advance_execution_def rbind_Inr_iff)
  have "job_executions d = job_executions (store ?w)"
    using mutator_okD(1)[OF m mut] by (rule job_ids_same_lifecycle)
  then have "job_of d (c_job_id c) = Some job" "j_id job = c_job_id c"
    using own owned_job_id[OF own] by (simp_all add: owned_execution_iff)
  with adv' own mut have "job_of (store w') (c_job_id c) = Some (job\<lparr>j_task_name := t, j_step := st,
      j_status := PENDING, j_claimed_at := None, j_updated_at := e_clock env n\<rparr>)"
    by (auto simp: advance_execution_def Let_def job_of_save_job)
  with own mut show thesis by (rule that)
qed

end
