(* ===== verification/Instance_Tasks.thy ===== *)
theory Instance_Tasks
  imports Task_Env
begin

text \<open>
  The durable steps of the instance workflows (\<^verbatim>\<open>tasks/instance\<close>): creation in three
  steps, update in two, start, stop in two, deletion in four. Each definition is the whole
  step, from the claim to the transaction that ends it.
\<close>

section \<open>Loading\<close>

definition instance_missing :: task_error where
  "instance_missing = RuntimeError ''Instance is missing''"

definition instance_missing_type :: task_error where
  "instance_missing_type = TypeError ''Instance is missing''"

definition url_for :: "string \<Rightarrow> string \<Rightarrow> string" where
  "url_for base_domain slug = ''https://'' @ slug @ ''.'' @ base_domain"

definition get_claimed_instance :: "task_error \<Rightarrow> execution_claim \<Rightarrow> db \<Rightarrow> (task_error, inst) result" where
  "get_claimed_instance missing claim d =
     require (case c_resource_id claim of None \<Rightarrow> None | Some k \<Rightarrow> instance_of d k) missing"

definition active_member_values :: "uuid \<Rightarrow> db \<Rightarrow> (string \<times> string) list" where
  "active_member_values instance_id d =
     map (\<lambda>m. (m_username m, role_value (m_role m)))
       (sort_key (\<lambda>m. (m_username m, m_id m))
         (filter (\<lambda>m. m_instance_id m = instance_id \<and> m_action m \<noteq> ''deleting'') (members d)))"

definition stored_admin_password ::
  "env \<Rightarrow> uuid \<Rightarrow> string \<Rightarrow> db \<Rightarrow> (task_error, (string \<times> string) option) result" where
  "stored_admin_password env instance_id base_domain d =
     rbind (require (instance_of d instance_id) instance_missing) (\<lambda>i.
       case i_password_enc i of
         None \<Rightarrow> Inr None
       | Some enc \<Rightarrow> rbind (e_decrypt_instance_password env enc (i_id i)) (\<lambda>password.
           Inr (Some (url_for base_domain (i_slug i), password))))"

definition managed_database_target ::
  "env \<Rightarrow> uuid \<Rightarrow> db \<Rightarrow> (task_error, (schema_target \<times> string) option) result" where
  "managed_database_target env instance_id d =
     (case select_row al_instance_id instance_id (database_allocations d) of
        None \<Rightarrow> Inr None
      | Some allocation \<Rightarrow>
          (case database_of d (al_database_id allocation) of
             None \<Rightarrow> Inr None
           | Some database \<Rightarrow>
               rbind (e_decrypt_password env (d_password_enc database) (d_id database)) (\<lambda>password.
                 Inr (Some (\<lparr>st_host = d_host database, st_port = d_port database,
                    st_database_name = d_database_name database, st_username = d_username database,
                    st_password = password, st_schema_name = al_schema_name allocation\<rparr>, d_name database)))))"

definition database_target :: "env \<Rightarrow> uuid \<Rightarrow> db \<Rightarrow> (task_error, schema_target option) result" where
  "database_target env instance_id d =
     rbind (managed_database_target env instance_id d) (\<lambda>loaded. Inr (map_option fst loaded))"

definition allocation_missing :: task_error where
  "allocation_missing = RuntimeError ''Instance database allocation is missing''"

definition instance_helm_values ::
  "env \<Rightarrow> uuid \<Rightarrow> string \<Rightarrow> string \<Rightarrow> db \<Rightarrow> (task_error, instance_helm_values_data) result" where
  "instance_helm_values env instance_id slug public_url d =
     rbind (managed_database_target env instance_id d) (\<lambda>loaded.
       rbind (require loaded allocation_missing) (\<lambda>(target, managed_database_name).
         rbind (case provider_of d instance_id of
                  None \<Rightarrow> Inr None
                | Some provider \<Rightarrow>
                    rbind (e_decrypt_kubeconfig env (k_kubeconfig_enc provider) instance_id) (\<lambda>k. Inr (Some k)))
           (\<lambda>kubeconfig.
             Inr \<lparr>hv_slug = slug, hv_public_url = public_url, hv_database_username = st_username target,
                  hv_database_password = st_password target, hv_database_host = st_host target,
                  hv_database_name = st_database_name target, hv_managed_database_name = managed_database_name,
                  hv_database_schema = st_schema_name target, hv_kubeconfig = kubeconfig\<rparr>)))"

definition password_missing :: task_error where
  "password_missing = RuntimeError ''Instance administrator password is missing''"

text \<open>The mutators that store the outcome of a reconciliation or of a deletion.\<close>

definition store_started :: "string \<Rightarrow> mutator" where
  "store_started application_name =
     on_instance ''Instance is missing''
       (\<lambda>i. Inr (i\<lparr>i_argocd_application_name := Some application_name, i_state := STARTED\<rparr>))"

definition mark_stopped :: mutator where
  "mark_stopped = on_instance ''Instance is missing'' (\<lambda>i. Inr (i\<lparr>i_state := STOPPED\<rparr>))"

section \<open>Creation\<close>

definition step_01_create_schema :: "env \<Rightarrow> uuid \<Rightarrow> string task" where
  "step_01_create_schema env job_id = run_step env job_id INSTANCE_CREATE_STEP_01_TASK (\<lambda>claim.
     tbind (tlift (required_resource_id claim)) (\<lambda>instance_id.
     tbind (tread env 11 (database_target env instance_id)) (\<lambda>loaded.
     tbind (tlift (require loaded allocation_missing)) (\<lambda>target.
     tbind (tremote env 1 (e_create_schema env target)) (\<lambda>_.
     tadvance env 2 claim INSTANCE_CREATE_STEP_02_TASK INSTANCE_CREATE_STEP_02 no_mutate)))))"

definition step_02_create_instance :: "env \<Rightarrow> uuid \<Rightarrow> string task" where
  "step_02_create_instance env job_id = run_step env job_id INSTANCE_CREATE_STEP_02_TASK (\<lambda>claim.
     tbind (tlift (e_base_domain env)) (\<lambda>base_domain.
     tbind (tread env 11 (\<lambda>d. rbind (get_claimed_instance instance_missing_type claim d)
                     (\<lambda>i. Inr (i, active_member_values (i_id i) d)))) (\<lambda>(i, members).
     tbind (tread env 12 (instance_helm_values env (i_id i) (i_slug i) (url_for base_domain (i_slug i)))) (\<lambda>helm.
     tbind (tremote env 1 (e_reconcile env (i_id i) (i_slug i) (i_argocd_application_name i) members helm)) (\<lambda>rc.
     if rc_status rc = DEFERRED then tdefer env 2 claim no_mutate
     else tadvance env 2 claim INSTANCE_CREATE_STEP_03_TASK INSTANCE_CREATE_STEP_03
            (store_started (rc_application_name rc)))))))"

record bootstrap_preparation =
  bp_instance_url :: string
  bp_is_update :: bool
  bp_password :: "string option"

definition prepare_bootstrap ::
  "env \<Rightarrow> execution_claim \<Rightarrow> string \<Rightarrow> db \<Rightarrow> (task_error, db \<times> bootstrap_preparation option) result" where
  "prepare_bootstrap env claim base_domain d =
     (case owned_execution d claim of
        None \<Rightarrow> Inr (d, None)
      | Some (job, Some (RInstance i)) \<Rightarrow>
          let prep = (\<lambda>password. \<lparr>bp_instance_url = url_for base_domain (i_slug i),
                        bp_is_update = (j_name job = ''instance.update''), bp_password = password\<rparr>)
          in (case i_password_enc i of
                Some _ \<Rightarrow> Inr (d, Some (prep None))
              | None \<Rightarrow>
                  (case i_password_candidate_enc i of
                     None \<Rightarrow>
                       let password = e_token_urlsafe env;
                           i' = i\<lparr>i_password_candidate_enc := Some (e_encrypt_instance_password env password (i_id i))\<rparr>
                       in Inr (save_resource (RInstance i') d, Some (prep (Some password)))
                   | Some enc \<Rightarrow>
                       rbind (e_decrypt_instance_password env enc (i_id i)) (\<lambda>password.
                         Inr (d, Some (prep (Some password))))))
      | Some _ \<Rightarrow> Inl instance_missing_type)"

definition promote_password :: mutator where
  "promote_password = on_instance ''Instance is missing'' (\<lambda>i.
     case i_password_enc i of
       None \<Rightarrow>
         (case i_password_candidate_enc i of
            None \<Rightarrow> Inl (RuntimeError ''Instance administrator password candidate is missing'')
          | Some candidate \<Rightarrow> Inr (i\<lparr>i_password_enc := Some candidate, i_password_candidate_enc := None\<rparr>))
     | Some _ \<Rightarrow> Inr (i\<lparr>i_password_candidate_enc := None\<rparr>))"

definition step_03_bootstrap_admin :: "env \<Rightarrow> uuid \<Rightarrow> string task" where
  "step_03_bootstrap_admin env job_id = run_step env job_id INSTANCE_CREATE_STEP_03_TASK (\<lambda>claim.
     tbind (tlift (e_base_domain env)) (\<lambda>base_domain.
     tbind (ttxn env 11 (prepare_bootstrap env claim base_domain)) (\<lambda>preparation.
     case preparation of
       None \<Rightarrow> treturn ''noop''
     | Some p \<Rightarrow>
         tbind (case bp_password p of
                  None \<Rightarrow> treturn ()
                | Some password \<Rightarrow> tremote env 1 (e_bootstrap_admin env (bp_instance_url p) password)) (\<lambda>_.
         if bp_is_update p
         then tadvance env 2 claim INSTANCE_UPDATE_STEP_02_TASK INSTANCE_UPDATE_STEP_02 promote_password
         else tcomplete env 2 claim promote_password False))))"

section \<open>Update\<close>

text \<open>
  An update reconciles one snapshot of the members. It claims every member that is not
  settled, returns them to pending when the reconciliation is deferred, marks them failed
  when it fails, and settles them in the transaction that finishes the second step.
\<close>

definition set_member_status :: "(member \<Rightarrow> bool) \<Rightarrow> exec_status \<Rightarrow> db \<Rightarrow> db" where
  "set_member_status p s d = d\<lparr>members := update_where p (\<lambda>m. m\<lparr>m_status := s\<rparr>) (members d)\<rparr>"

definition stored_members :: "uuid \<Rightarrow> db \<Rightarrow> member list" where
  "stored_members instance_id d =
     sort_key (\<lambda>m. (m_username m, m_id m)) (filter (\<lambda>m. m_instance_id m = instance_id) (members d))"

record member_snapshot =
  ms_member_ids :: "uuid list"
  ms_members :: "(string \<times> string) list"
  ms_slug :: string
  ms_attached_name :: "string option"
  ms_public_url :: string

definition claim_members ::
  "execution_claim \<Rightarrow> string \<Rightarrow> db \<Rightarrow> (task_error, db \<times> member_snapshot) result" where
  "claim_members claim base_domain d =
     rbind (get_claimed_instance instance_missing claim d) (\<lambda>i.
       let stored = stored_members (i_id i) d;
           claimed = (\<lambda>m. m_status m \<in> {PENDING, RUNNING, ERROR})
       in Inr (set_member_status (\<lambda>m. m_instance_id m = i_id i \<and> claimed m) RUNNING d,
               \<lparr>ms_member_ids = map m_id (filter claimed stored),
                ms_members = map (\<lambda>m. (m_username m, role_value (m_role m)))
                  (filter (\<lambda>m. m_action m \<noteq> ''deleting'') stored),
                ms_slug = i_slug i, ms_attached_name = i_argocd_application_name i,
                ms_public_url = url_for base_domain (i_slug i)\<rparr>))"

definition owned_member :: "uuid list \<Rightarrow> member \<Rightarrow> bool" where
  "owned_member member_ids m = (m_id m \<in> set member_ids \<and> m_status m = RUNNING)"

definition fail_members :: "uuid list \<Rightarrow> db \<Rightarrow> db" where
  "fail_members member_ids d =
     (if member_ids = [] then d else set_member_status (owned_member member_ids) ERROR d)"

definition defer_members :: "uuid list \<Rightarrow> db \<Rightarrow> db" where
  "defer_members member_ids d =
     (if member_ids = [] then d else set_member_status (owned_member member_ids) PENDING d)"

definition store_application_name :: "string \<Rightarrow> mutator" where
  "store_application_name application_name =
     on_instance ''Instance update resource is missing''
       (\<lambda>i. Inr (i\<lparr>i_argocd_application_name := Some application_name, i_state := STARTED\<rparr>))"

definition failing_members :: "env \<Rightarrow> execution_claim \<Rightarrow> uuid list \<Rightarrow> 'a task \<Rightarrow> 'a task" where
  "failing_members env claim member_ids body =
     tcatch body (\<lambda>e. tbind (tfail env 98 claim (fail_members member_ids)) (\<lambda>_. traise e))"

definition step_01_update_instance :: "env \<Rightarrow> uuid \<Rightarrow> string task" where
  "step_01_update_instance env job_id = run_step env job_id INSTANCE_UPDATE_STEP_01_TASK (\<lambda>claim.
     tbind (tlift (e_base_domain env)) (\<lambda>base_domain.
     tbind (ttxn env 11 (claim_members claim base_domain)) (\<lambda>snap.
     tbind (failing_members env claim (ms_member_ids snap)
              (tbind (tlift (required_resource_id claim)) (\<lambda>instance_id.
               tbind (tread env 12 (instance_helm_values env instance_id (ms_slug snap) (ms_public_url snap))) (\<lambda>helm.
               tremote env 1 (e_reconcile env instance_id (ms_slug snap) (ms_attached_name snap)
                                (ms_members snap) helm))))) (\<lambda>rc.
     if rc_status rc = DEFERRED
     then tdefer env 2 claim (\<lambda>d r. Inr (defer_members (ms_member_ids snap) d, r))
     else tadvance env 2 claim INSTANCE_UPDATE_STEP_02_TASK INSTANCE_UPDATE_STEP_02
            (store_application_name (rc_application_name rc))))))"

definition claim_cleanup ::
  "execution_claim \<Rightarrow> db \<Rightarrow> (task_error, db \<times> uuid list \<times> string list \<times> string) result" where
  "claim_cleanup claim d =
     rbind (get_claimed_instance instance_missing claim d) (\<lambda>i.
       case i_argocd_application_name i of
         None \<Rightarrow> Inl (RuntimeError ''Instance Argo CD application name is missing'')
       | Some application_name \<Rightarrow>
           if application_name = [] then Inl (RuntimeError ''Instance Argo CD application name is missing'')
           else
             let stored = stored_members (i_id i) d;
                 claimed = (\<lambda>m. m_status m \<in> {RUNNING, ERROR});
                 claimed_ids = map m_id (filter claimed stored)
             in Inr (set_member_status (\<lambda>m. m_instance_id m = i_id i \<and> claimed m) RUNNING d,
                     claimed_ids,
                     map m_username (filter (\<lambda>m. m_action m \<noteq> ''deleting'' \<or> m_id m \<notin> set claimed_ids) stored),
                     application_name))"

text \<open>
  The transaction that ends an update. A member row that goes takes its workspaces with it.
  When some member was requested meanwhile, a fresh job takes the instance over; a clash of
  its key would roll the transaction back.
\<close>

definition settle_members :: "uuid \<Rightarrow> uuid list \<Rightarrow> db \<Rightarrow> db" where
  "settle_members instance_id member_ids d =
     (let mine = (\<lambda>m. owned_member member_ids m \<and> m_instance_id m = instance_id);
          d1 = delete_members_where (\<lambda>m. mine m \<and> m_action m = ''deleting'') d
      in set_member_status mine SUCCESS d1)"

definition finalize_update ::
  "execution_claim \<Rightarrow> uuid list \<Rightarrow> string \<Rightarrow> uuid \<Rightarrow> instant \<Rightarrow> db
    \<Rightarrow> (task_error, db \<times> string \<times> (string \<times> uuid) option) result" where
  "finalize_update claim member_ids application_name next_job_id now d =
     (case owned_execution d claim of
        None \<Rightarrow> Inr (d, ''noop'', None)
      | Some (job, Some (RInstance i)) \<Rightarrow>
          let i1 = i\<lparr>i_argocd_application_name := Some application_name\<rparr>;
              d1 = settle_members (i_id i) member_ids d;
              d2 = save_job (job\<lparr>j_status := SUCCESS, j_claimed_at := None, j_updated_at := now\<rparr>) d1
          in if \<not> exists_row (\<lambda>m. m_instance_id m = i_id i \<and> m_status m = PENDING) (members d1)
             then Inr (save_resource (RInstance (i1\<lparr>i_status := SUCCESS, i_step := None\<rparr>)) d2, ''success'', None)
             else if job_of d2 next_job_id \<noteq> None then Inl IntegrityError
             else Inr (fst (attach_instance_job i1 ''updating'' ''instance.update'' INSTANCE_UPDATE_STEP_01_TASK
                              INSTANCE_UPDATE_STEP_01 next_job_id now d2),
                       ''pending'', Some (INSTANCE_UPDATE_STEP_01_TASK, next_job_id))
      | Some _ \<Rightarrow> Inr (d, ''noop'', None))"

definition dispatch_after :: "env \<Rightarrow> string \<times> (string \<times> uuid) option \<Rightarrow> string task" where
  "dispatch_after env outcome w =
     (case snd outcome of
        None \<Rightarrow> (w, Inr (fst outcome))
      | Some (task_name, job_id) \<Rightarrow>
          (w\<lparr>broker := fst (dispatch_registered_step (e_celery env) task_name job_id (broker w))\<rparr>,
           Inr (fst outcome)))"

definition ADMIN_USERNAME :: string where
  "ADMIN_USERNAME = ''admin''"

definition step_02_cleanup_users :: "env \<Rightarrow> uuid \<Rightarrow> string task" where
  "step_02_cleanup_users env job_id = run_step env job_id INSTANCE_UPDATE_STEP_02_TASK (\<lambda>claim.
     tbind (tlift (e_base_domain env)) (\<lambda>base_domain.
     tbind (ttxn env 11 (claim_cleanup claim)) (\<lambda>(member_ids, expected_usernames, application_name).
     tbind (tlift (required_resource_id claim)) (\<lambda>instance_id.
     tbind (tread env 12 (stored_admin_password env instance_id base_domain)) (\<lambda>credentials.
     tbind (tlift (require credentials password_missing)) (\<lambda>(instance_url, password).
     tbind (failing_members env claim member_ids
              (tbind (tlift (e_default_admins env)) (\<lambda>default_admins.
               tremote_beating env (RuntimeError ''Instance update attempt is no longer current'') 1 claim
                 (e_cleanup_users env instance_url password
                    (expected_usernames @ ADMIN_USERNAME # default_admins))))) (\<lambda>_.
     tbind (ttxn env 13 (finalize_update claim member_ids application_name (e_uuid4 env) (e_clock env 2)))
       (dispatch_after env))))))))"

section \<open>Start and stop\<close>

definition step_01_start_instance :: "env \<Rightarrow> uuid \<Rightarrow> string task" where
  "step_01_start_instance env job_id = run_step env job_id INSTANCE_START_STEP_01_TASK (\<lambda>claim.
     tbind (tlift (e_base_domain env)) (\<lambda>base_domain.
     tbind (tread env 11 (\<lambda>d. rbind (get_claimed_instance instance_missing claim d)
                     (\<lambda>i. Inr (i, active_member_values (i_id i) d)))) (\<lambda>(i, members).
     tbind (tread env 12 (stored_admin_password env (i_id i) base_domain)) (\<lambda>credentials.
     tbind (tlift (require credentials password_missing)) (\<lambda>_.
     tbind (tread env 13 (instance_helm_values env (i_id i) (i_slug i) (url_for base_domain (i_slug i)))) (\<lambda>helm.
     tbind (tremote env 1 (e_reconcile env (i_id i) (i_slug i) (i_argocd_application_name i) members helm)) (\<lambda>rc.
     if rc_status rc = DEFERRED then tdefer env 2 claim no_mutate
     else tadvance env 2 claim INSTANCE_UPDATE_STEP_02_TASK INSTANCE_UPDATE_STEP_02
            (store_started (rc_application_name rc)))))))))"

definition step_01_stop_workspaces :: "env \<Rightarrow> uuid \<Rightarrow> string task" where
  "step_01_stop_workspaces env job_id = run_step env job_id INSTANCE_STOP_STEP_01_TASK (\<lambda>claim.
     tbind (tlift (e_base_domain env)) (\<lambda>base_domain.
     tbind (tread env 11 (get_claimed_instance instance_missing claim)) (\<lambda>i.
     tbind (tlift (required_resource_id claim)) (\<lambda>instance_id.
     tbind (tremote env 1 (e_application_exists env instance_id (i_slug i) (i_argocd_application_name i))) (\<lambda>exists.
     tbind (if exists then
              tbind (tread env 12 (stored_admin_password env instance_id base_domain)) (\<lambda>credentials.
              tbind (tlift (require credentials password_missing)) (\<lambda>(instance_url, password).
              tremote_beating env (RuntimeError ''Instance stop attempt is no longer current'') 2 claim
                (e_stop_workspaces env instance_url password)))
            else treturn ()) (\<lambda>_.
     tadvance env 3 claim INSTANCE_STOP_STEP_02_TASK INSTANCE_STOP_STEP_02 no_mutate))))))"

definition step_02_stop_instance :: "env \<Rightarrow> uuid \<Rightarrow> string task" where
  "step_02_stop_instance env job_id = run_step env job_id INSTANCE_STOP_STEP_02_TASK (\<lambda>claim.
     tbind (tread env 11 (get_claimed_instance instance_missing claim)) (\<lambda>i.
     tbind (tlift (required_resource_id claim)) (\<lambda>instance_id.
     tbind (tremote env 1 (e_delete_application env instance_id (i_slug i) (i_argocd_application_name i))) (\<lambda>deletion.
     if deletion = DEFERRED then tdefer env 2 claim no_mutate
     else tcomplete env 2 claim mark_stopped False))))"

section \<open>Deletion\<close>

definition store_started_application ::
  "execution_claim \<Rightarrow> string option \<Rightarrow> db \<Rightarrow> (task_error, db \<times> bool) result" where
  "store_started_application claim application_name d =
     (case owned_execution d claim of
        None \<Rightarrow> Inr (d, False)
      | Some (_, Some (RInstance i)) \<Rightarrow>
          let i1 = (case application_name of None \<Rightarrow> i
                    | Some name \<Rightarrow> i\<lparr>i_argocd_application_name := Some name\<rparr>)
          in Inr (save_resource (RInstance (i1\<lparr>i_state := STARTED\<rparr>)) d, True)
      | Some _ \<Rightarrow> Inl instance_missing_type)"

definition delete_message :: string where
  "delete_message = ''Instance delete attempt is no longer current''"

definition step_01_remove_workspaces :: "env \<Rightarrow> uuid \<Rightarrow> string task" where
  "step_01_remove_workspaces env job_id = run_step env job_id INSTANCE_DELETE_STEP_01_TASK (\<lambda>claim.
     tbind (tlift (e_base_domain env)) (\<lambda>base_domain.
     tbind (tread env 11 (\<lambda>d. rbind (get_claimed_instance instance_missing claim d)
                     (\<lambda>i. Inr (i, active_member_values (i_id i) d)))) (\<lambda>(i, members).
     tbind (tlift (required_resource_id claim)) (\<lambda>instance_id.
     tbind (tread env 12 (stored_admin_password env instance_id base_domain)) (\<lambda>credentials.
     tbind (tlift (require credentials password_missing)) (\<lambda>(instance_url, password).
     tbind (tremote env 1 (e_application_exists env (i_id i) (i_slug i) (i_argocd_application_name i))) (\<lambda>exists.
     tbind (if exists then treturn (Inr (i_argocd_application_name i))
            else
              tbind (tread env 13 (instance_helm_values env (i_id i) (i_slug i) (url_for base_domain (i_slug i)))) (\<lambda>helm.
              tbind (tremote env 2 (e_reconcile env (i_id i) (i_slug i) (i_argocd_application_name i) members helm)) (\<lambda>rc.
              if rc_status rc = DEFERRED
              then tbind (tdefer env 3 claim no_mutate) (\<lambda>status. treturn (Inl status))
              else treturn (Inr (Some (rc_application_name rc)))))) (\<lambda>restored.
     case restored of
       Inl status \<Rightarrow> treturn status
     | Inr restored_name \<Rightarrow>
         tbind (ttxn env 14 (store_started_application claim restored_name)) (\<lambda>owned.
         if \<not> owned then treturn ''noop''
         else
           tbind (tremote_beating env (RuntimeError delete_message) 4 claim (e_delete_workspaces env instance_url password)) (\<lambda>_.
           tadvance env 5 claim INSTANCE_DELETE_STEP_02_TASK INSTANCE_DELETE_STEP_02 no_mutate))))))))))"

definition step_02_remove_instance :: "env \<Rightarrow> uuid \<Rightarrow> string task" where
  "step_02_remove_instance env job_id = run_step env job_id INSTANCE_DELETE_STEP_02_TASK (\<lambda>claim.
     tbind (tread env 11 (get_claimed_instance instance_missing claim)) (\<lambda>i.
     tbind (tlift (required_resource_id claim)) (\<lambda>instance_id.
     tbind (tremote env 1 (e_delete_application env instance_id (i_slug i) (i_argocd_application_name i))) (\<lambda>deletion.
     if deletion = DEFERRED then tdefer env 2 claim no_mutate
     else tadvance env 2 claim INSTANCE_DELETE_STEP_03_TASK INSTANCE_DELETE_STEP_03 mark_stopped))))"

definition step_03_remove_schema :: "env \<Rightarrow> uuid \<Rightarrow> string task" where
  "step_03_remove_schema env job_id = run_step env job_id INSTANCE_DELETE_STEP_03_TASK (\<lambda>claim.
     tbind (tlift (required_resource_id claim)) (\<lambda>instance_id.
     tbind (tread env 11 (database_target env instance_id)) (\<lambda>target.
     tbind (case target of None \<Rightarrow> treturn () | Some t \<Rightarrow> tremote env 1 (e_drop_schema env t)) (\<lambda>_.
     tadvance env 2 claim INSTANCE_DELETE_STEP_04_TASK INSTANCE_DELETE_STEP_04 no_mutate))))"

definition remove_local_configuration ::
  "execution_claim \<Rightarrow> instant \<Rightarrow> db \<Rightarrow> (task_error, db \<times> string) result" where
  "remove_local_configuration claim now d =
     (case owned_execution d claim of
        None \<Rightarrow> Inr (d, ''noop'')
      | Some (job, Some (RInstance i)) \<Rightarrow>
          let k = i_id i;
              d1 = delete_workspaces_where (\<lambda>x. w_instance_id x = k) d;
              d2 = delete_members_where (\<lambda>m. m_instance_id m = k) d1;
              d3 = d2\<lparr>database_allocations := delete_where (\<lambda>a. al_instance_id a = k) (database_allocations d2),
                      instance_kubernetes_rows :=
                        delete_where (\<lambda>p. k_instance_id p = k) (instance_kubernetes_rows d2)\<rparr>;
              d4 = save_job (job\<lparr>j_status := SUCCESS, j_claimed_at := None, j_updated_at := now\<rparr>) d3
          in rbind (delete_instance_row k d4) (\<lambda>d5. Inr (d5, ''deleted''))
      | Some _ \<Rightarrow> Inr (d, ''noop''))"

definition step_04_remove_local_configuration :: "env \<Rightarrow> uuid \<Rightarrow> string task" where
  "step_04_remove_local_configuration env job_id = run_step env job_id INSTANCE_DELETE_STEP_04_TASK (\<lambda>claim.
     ttxn env 11 (remove_local_configuration claim (e_clock env 1)))"

section \<open>Every step is a run of the system\<close>

lemma same_lifecycle_set_member_status [simp]: "same_lifecycle d (set_member_status p s d)"
  by (simp add: same_lifecycle_def set_member_status_def)

lemma same_lifecycle_fail_members [simp]: "same_lifecycle d (fail_members ids d)"
  by (simp add: fail_members_def)

lemma mutators_ok [simp, intro!]:
  "mutator_ok (store_started name)" "mutator_ok mark_stopped"
  "mutator_ok (store_application_name name)"
  "mutator_ok (\<lambda>d r. Inr (defer_members ids d, r))"
  unfolding store_started_def mark_stopped_def store_application_name_def
  by (auto intro!: mutator_ok_on_instance)
     (auto simp: mutator_ok_def defer_members_def split: option.split)

lemma mutator_ok_promote_password [simp, intro!]: "mutator_ok promote_password"
  unfolding promote_password_def
  by (rule mutator_ok_on_instance) (auto split: option.splits)

text \<open>Saving a row whose lifecycle did not change.\<close>

lemma owned_lookup:
  assumes "owned_execution d c = Some (job, Some r)"
  shows "lookup_resource (resource_kind r) (resource_key r) d = Some r"
proof -
  have "resource_for_job d job = Some r" using assms by (simp add: owned_execution_iff)
  with resource_for_job_Some[OF this] show ?thesis by (simp add: resource_for_job_def)
qed

lemma owned_instance_of:
  "owned_execution d c = Some (job, Some (RInstance i)) \<Longrightarrow> instance_of d (i_id i) = Some i"
  using owned_lookup[of d c job "RInstance i"] by (simp add: lookup_resource_def)

lemma run_save_owned:
  assumes own: "owned_execution d c = Some (job, Some (RInstance i))"
    and same: "i_id i' = i_id i" "i_job_id i' = i_job_id i" "i_action i' = i_action i"
      "i_step i' = i_step i" "i_status i' = i_status i"
  shows "sys_run d (save_resource (RInstance i') d)"
  using same by (intro r_into_rtranclp sys_txn.touch[OF owned_lookup[OF own]]) simp_all

lemma run_prepare_bootstrap:
  "prepare_bootstrap env c base d = Inr (d', x) \<Longrightarrow> sys_run d d'"
  by (auto simp: prepare_bootstrap_def Let_def rbind_Inr_iff simp del: save_resource.simps
      split: option.splits resource.splits prod.splits intro!: run_save_owned)

lemma run_store_started_application:
  "store_started_application c name d = Inr (d', x) \<Longrightarrow> sys_run d d'"
  by (auto simp: store_started_application_def Let_def simp del: save_resource.simps
      split: option.splits resource.splits prod.splits intro!: run_save_owned)

text \<open>Rows other than instances may go in the transaction that ends the job of an instance.\<close>

lemma owned_after_shrunk:
  assumes own: "owned_execution d c = Some (job, Some (RInstance i))"
    and shr: "shrunk d d1" "instances d1 = instances d"
  shows "owned_execution d1 c = Some (job, Some (RInstance i))"
proof -
  have "job_of d1 (c_job_id c) = job_of d (c_job_id c)" using shr(1) by (simp add: shrunk_def)
  moreover have "resource_for_job d1 job = resource_for_job d job"
    using own shr(2) resource_for_job_Some[of d job "RInstance i"]
    by (simp add: owned_execution_iff resource_for_job_def lookup_resource_def)
  ultimately show ?thesis using own unfolding owned_execution_iff by metis
qed

lemma shrunk_settle_members: "shrunk d (settle_members k ids d)"
  by (simp add: shrunk_def settle_members_def Let_def set_member_status_def delete_members_where_def
      delete_workspaces_where_def)

lemma instances_settle_members [simp]: "instances (settle_members k ids d) = instances d"
  by (simp add: settle_members_def Let_def set_member_status_def delete_members_where_def
      delete_workspaces_where_def)

lemma attach_instance_job_over:
  "i_id i = i_id i' \<Longrightarrow>
   fst (attach_instance_job (i\<lparr>i_status := s, i_step := st\<rparr>) a n t stp k now (save_resource (RInstance i') d))
     = fst (attach_instance_job i a n t stp k now d)"
  by (simp add: attach_instance_job_def Let_def stage_job_def)

lemma mutator_ok_rename [simp, intro!]:
  "mutator_ok (on_instance msg (\<lambda>i. Inr (i\<lparr>i_argocd_application_name := x\<rparr>)))"
  by (rule mutator_ok_on_instance) auto

lemma run_finalize_update:
  assumes fin: "finalize_update c ids name k now d = Inr (d', x)"
  shows "sys_run d d'"
proof (cases "\<exists>job i. owned_execution d c = Some (job, Some (RInstance i))")
  case False
  with fin show ?thesis
    by (auto simp: finalize_update_def split: option.splits prod.splits resource.splits)
next
  case True
  then obtain job i where own: "owned_execution d c = Some (job, Some (RInstance i))" by blast
  define i1 where "i1 = i\<lparr>i_argocd_application_name := Some name\<rparr>"
  define d1 where "d1 = settle_members (i_id i) ids d"
  define d2 where "d2 = save_job (job\<lparr>j_status := SUCCESS, j_claimed_at := None, j_updated_at := now\<rparr>) d1"
  define d3 where "d3 = save_resource (RInstance (i1\<lparr>i_status := SUCCESS, i_step := None\<rparr>)) d2"
  have shr: "shrunk d d1" unfolding d1_def by (rule shrunk_settle_members)
  then have "sys_txn d d1" by (rule sys_txn.remove)
  moreover have "sys_txn d1 d3"
  proof (rule sys_txn.complete)
    show "complete_execution c (on_instance [] (\<lambda>i. Inr (i\<lparr>i_argocd_application_name := Some name\<rparr>)))
        False now d1 = Inr (d3, True)"
      using owned_after_shrunk[OF own shr] by (simp add: d1_def complete_execution_def on_instance_def
          d3_def d2_def i1_def Let_def)
  qed simp
  ultimately have run: "sys_run d d3" by (blast intro: rtranclp_trans)
  have i3: "instance_of d3 (i_id i) = Some (i1\<lparr>i_status := SUCCESS, i_step := None\<rparr>)"
    using owned_instance_of[OF own] by (simp add: d3_def d2_def d1_def i1_def)
  have "sys_run d (fst (attach_instance_job i1 a n t st k now d2))" if "job_of d2 k = None" for a n t st
  proof -
    have "sys_txn d3 (fst (attach_instance_job (i1\<lparr>i_status := SUCCESS, i_step := None\<rparr>) a n t st k now d3))"
      using that by (intro txn_attach_instance_job[OF i3]) (simp_all add: d3_def i1_def)
    moreover have "fst (attach_instance_job (i1\<lparr>i_status := SUCCESS, i_step := None\<rparr>) a n t st k now d3)
        = fst (attach_instance_job i1 a n t st k now d2)"
      unfolding d3_def by (rule attach_instance_job_over) simp
    ultimately show ?thesis using run by (simp add: sys_run_after)
  qed
  with fin own run show ?thesis
    by (auto simp: finalize_update_def Let_def d3_def simp flip: d1_def d2_def i1_def
        simp del: save_resource.simps split: if_splits)
qed

lemma run_remove_local_configuration:
  assumes rem: "remove_local_configuration c now d = Inr (d', x)"
  shows "sys_run d d'"
proof (cases "\<exists>job i. owned_execution d c = Some (job, Some (RInstance i))")
  case False
  with rem show ?thesis
    by (auto simp: remove_local_configuration_def split: option.splits prod.splits resource.splits)
next
  case True
  then obtain job i where own: "owned_execution d c = Some (job, Some (RInstance i))" by blast
  let ?job = "job\<lparr>j_status := SUCCESS, j_claimed_at := None, j_updated_at := now\<rparr>"
  let ?k = "i_id i"
  define d2 where "d2 = delete_members_where (\<lambda>m. m_instance_id m = ?k)
    (delete_workspaces_where (\<lambda>x. w_instance_id x = ?k) d)"
  define d3 where "d3 = d2\<lparr>database_allocations := delete_where (\<lambda>a. al_instance_id a = ?k) (database_allocations d2),
     instance_kubernetes_rows := delete_where (\<lambda>p. k_instance_id p = ?k) (instance_kubernetes_rows d2)\<rparr>"
  have d3: "shrunk d d3" "instances d3 = instances d"
    by (simp_all add: d3_def d2_def shrunk_def delete_members_where_def delete_workspaces_where_def Let_def)
  have "delete_instance_row ?k (save_job ?job d3) = Inr d'"
    using rem own by (auto simp: remove_local_configuration_def Let_def rbind_Inr_iff simp flip: d2_def d3_def)
  then have "complete_execution c no_mutate True now d3 = Inr (d', True)"
    using owned_after_shrunk[OF own d3] by (simp add: complete_execution_def no_mutate_def)
  then have "sys_txn d3 d'" by (rule sys_txn.complete[rotated]) simp
  moreover have "sys_txn d d3" using d3(1) by (rule sys_txn.remove)
  ultimately show ?thesis by (blast intro: rtranclp_trans)
qed

lemma run_claim_members: "claim_members c base d = Inr (d', x) \<Longrightarrow> sys_run d d'"
  by (auto simp: claim_members_def rbind_Inr_iff Let_def intro: run_bookkeep)

lemma run_claim_cleanup:
  assumes "claim_cleanup c d = Inr (d', x)"
  shows "sys_run d d'"
proof -
  obtain i where "get_claimed_instance instance_missing c d = Inr i"
    using assms by (auto simp: claim_cleanup_def rbind_Inr_iff)
  with assms have "\<exists>p. d' = set_member_status p RUNNING d"
    by (auto simp: claim_cleanup_def Let_def split: option.splits if_splits)
  then show ?thesis by (auto intro: run_bookkeep)
qed

lemma safe_failing_members [intro]:
  "safe_env env \<Longrightarrow> safe_task b \<Longrightarrow> safe_task (failing_members env c ids b)"
  unfolding failing_members_def by (intro safe_tcatch safe_tbind safe_tfail) auto

lemma safe_dispatch_after [intro!]: "safe_task (dispatch_after env x)"
  by (auto simp: safe_task_def dispatch_after_def split: option.split)

lemmas safe_rules =
  safe_tbind safe_treturn safe_traise safe_tlift safe_tread safe_tremote safe_tremote_beating
  safe_tadvance safe_tcomplete safe_tdefer safe_failing_members safe_dispatch_after no_mutate_ok
  mutators_ok mutator_ok_promote_password

lemma safe_step_txns:
  assumes "safe_env env"
  shows "safe_task (ttxn env n (prepare_bootstrap env c base))"
    and "safe_task (ttxn env n (store_started_application c name))"
    and "safe_task (ttxn env n (finalize_update c ids app k now))"
    and "safe_task (ttxn env n (remove_local_configuration c now))"
    and "safe_task (ttxn env n (claim_members c base))"
    and "safe_task (ttxn env n (claim_cleanup c))"
  by (rule safe_ttxn[OF assms]; fact run_prepare_bootstrap run_store_started_application
      run_finalize_update run_remove_local_configuration run_claim_members run_claim_cleanup)+

lemma safe_create_steps:
  assumes "safe_env env"
  shows "safe_task (step_01_create_schema env k)" and "safe_task (step_02_create_instance env k)"
    and "safe_task (step_03_bootstrap_admin env k)"
  unfolding step_01_create_schema_def step_02_create_instance_def step_03_bootstrap_admin_def
  by (intro safe_run_step; use assms in \<open>auto intro!: safe_rules safe_step_txns split: option.split\<close>)+

lemma safe_update_steps:
  assumes "safe_env env"
  shows "safe_task (step_01_update_instance env k)" and "safe_task (step_02_cleanup_users env k)"
  unfolding step_01_update_instance_def step_02_cleanup_users_def
  by (intro safe_run_step; use assms in \<open>auto intro!: safe_rules safe_step_txns\<close>)+

lemma safe_power_steps:
  assumes "safe_env env"
  shows "safe_task (step_01_start_instance env k)" and "safe_task (step_01_stop_workspaces env k)"
    and "safe_task (step_02_stop_instance env k)"
  unfolding step_01_start_instance_def step_01_stop_workspaces_def step_02_stop_instance_def
  by (intro safe_run_step; use assms in \<open>auto intro!: safe_rules\<close>)+

lemma safe_delete_steps:
  assumes "safe_env env"
  shows "safe_task (step_01_remove_workspaces env k)" and "safe_task (step_02_remove_instance env k)"
    and "safe_task (step_03_remove_schema env k)" and "safe_task (step_04_remove_local_configuration env k)"
  unfolding step_01_remove_workspaces_def step_02_remove_instance_def step_03_remove_schema_def
    step_04_remove_local_configuration_def
  by (intro safe_run_step; use assms in \<open>auto intro!: safe_rules safe_step_txns split: sum.split option.split\<close>)+

section \<open>The task table\<close>

text \<open>Which body Celery runs under which registered name.\<close>

definition instance_task_table :: "(string \<times> (env \<Rightarrow> uuid \<Rightarrow> string task)) list" where
  "instance_task_table =
     [(INSTANCE_CREATE_STEP_01_TASK, step_01_create_schema),
      (INSTANCE_CREATE_STEP_02_TASK, step_02_create_instance),
      (INSTANCE_CREATE_STEP_03_TASK, step_03_bootstrap_admin),
      (INSTANCE_UPDATE_STEP_01_TASK, step_01_update_instance),
      (INSTANCE_UPDATE_STEP_02_TASK, step_02_cleanup_users),
      (INSTANCE_START_STEP_01_TASK, step_01_start_instance),
      (INSTANCE_STOP_STEP_01_TASK, step_01_stop_workspaces),
      (INSTANCE_STOP_STEP_02_TASK, step_02_stop_instance),
      (INSTANCE_DELETE_STEP_01_TASK, step_01_remove_workspaces),
      (INSTANCE_DELETE_STEP_02_TASK, step_02_remove_instance),
      (INSTANCE_DELETE_STEP_03_TASK, step_03_remove_schema),
      (INSTANCE_DELETE_STEP_04_TASK, step_04_remove_local_configuration)]"

lemma safe_instance_tasks:
  assumes "safe_env env" and "(name, body) \<in> set instance_task_table"
  shows "safe_task (body env k)"
  using assms(2) safe_create_steps[OF assms(1)] safe_update_steps[OF assms(1)]
    safe_power_steps[OF assms(1)] safe_delete_steps[OF assms(1)]
  by (auto simp: instance_task_table_def)

end
