(* ===== verification/Instance_Facts.thy ===== *)
theory Instance_Facts
  imports Instance_Tasks
begin

text \<open>
  What the instance steps achieve: the administrator password across retries, the removal
  of every local row of an instance, the settlement of members at the end of an update, the
  accounts that a cleanup spares, and the order of the deletion steps.
\<close>

section \<open>The administrator password\<close>

text \<open>The law of the instance password cipher: decrypting with the same instance inverts encrypting.\<close>

definition password_cipher_law :: "env \<Rightarrow> bool" where
  "password_cipher_law env =
     (\<forall>p k. e_decrypt_instance_password env (e_encrypt_instance_password env p k) k = Inr p)"

lemma prepare_bootstrap_password:
  assumes law: "password_cipher_law env"
    and own: "owned_execution d c = Some (job, Some (RInstance i))"
    and prep: "prepare_bootstrap env c base d = Inr (d1, Some p)" "bp_password p = Some pw"
  shows "\<exists>i1 enc. instance_of d1 (i_id i) = Some i1 \<and> i_password_enc i1 = None
    \<and> i_password_candidate_enc i1 = Some enc \<and> e_decrypt_instance_password env enc (i_id i) = Inr pw"
proof -
  note i = owned_instance_of[OF own]
  have none: "i_password_enc i = None"
    using own prep by (auto simp: prepare_bootstrap_def Let_def split: option.splits)
  show ?thesis
  proof (cases "i_password_candidate_enc i")
    case None
    with own prep none i law show ?thesis
      by (auto simp: prepare_bootstrap_def Let_def password_cipher_law_def)
  next
    case (Some enc)
    with own prep none i show ?thesis
      by (auto simp: prepare_bootstrap_def Let_def rbind_Inr_iff)
  qed
qed

lemma prepare_bootstrap_again:
  assumes own: "owned_execution d c = Some (job, Some (RInstance i))"
    and row: "i_password_enc i = None" "i_password_candidate_enc i = Some enc"
    and dec: "e_decrypt_instance_password env enc (i_id i) = Inr pw"
  shows "prepare_bootstrap env c base d = Inr (d, Some \<lparr>bp_instance_url = url_for base (i_slug i),
      bp_is_update = (j_name job = ''instance.update''), bp_password = Some pw\<rparr>)"
  using assms by (simp add: prepare_bootstrap_def Let_def)

lemma promote_then_stored:
  assumes row: "i_password_enc i = None" "i_password_candidate_enc i = Some enc"
    and dec: "e_decrypt_instance_password env enc (i_id i) = Inr pw"
  shows "\<exists>i'. promote_password d (Some (RInstance i)) = Inr (d, Some (RInstance i'))
    \<and> i_password_candidate_enc i' = None
    \<and> (instance_of d' (i_id i) = Some i' \<longrightarrow>
         stored_admin_password env (i_id i) base d' = Inr (Some (url_for base (i_slug i), pw)))"
  using assms by (simp add: promote_password_def on_instance_def stored_admin_password_def)

section \<open>Local removal\<close>

lemma no_rows_after_delete [simp]: "\<not> exists_row p (delete_where p rows)"
  by (simp add: exists_row_iff)

lemma not_exists_delete: "\<not> exists_row p rows \<Longrightarrow> \<not> exists_row p (delete_where q rows)"
  by (simp add: exists_row_iff)

lemma job_of_delete_instance_row:
  "delete_instance_row k d = Inr d' \<Longrightarrow> job_executions d' = job_executions d"
  by (auto simp: delete_instance_row_def delete_workspaces_where_def delete_members_where_def
      delete_assignments_where_def Let_def split: if_splits)

lemma remove_local_configuration_owned:
  assumes own: "owned_execution d c = Some (job, Some (RInstance i))"
  shows "\<exists>d' job'. remove_local_configuration c now d = Inr (d', ''deleted'')
    \<and> instance_of d' (i_id i) = None
    \<and> \<not> exists_row (\<lambda>x. w_instance_id x = i_id i) (workspaces d')
    \<and> \<not> exists_row (\<lambda>m. m_instance_id m = i_id i) (members d')
    \<and> \<not> exists_row (\<lambda>a. al_instance_id a = i_id i) (database_allocations d')
    \<and> \<not> exists_row (\<lambda>p. k_instance_id p = i_id i) (instance_kubernetes_rows d')
    \<and> \<not> exists_row (\<lambda>a. ta_instance_id a = i_id i) (template_assignments d')
    \<and> job_of d' (c_job_id c) = Some job' \<and> j_status job' = SUCCESS \<and> j_claimed_at job' = None"
proof -
  let ?k = "i_id i"
  let ?job = "job\<lparr>j_status := SUCCESS, j_claimed_at := None, j_updated_at := now\<rparr>"
  define d2 where "d2 = delete_members_where (\<lambda>m. m_instance_id m = ?k)
    (delete_workspaces_where (\<lambda>x. w_instance_id x = ?k) d)"
  define d3 where "d3 = d2\<lparr>database_allocations := delete_where (\<lambda>a. al_instance_id a = ?k) (database_allocations d2),
     instance_kubernetes_rows := delete_where (\<lambda>p. k_instance_id p = ?k) (instance_kubernetes_rows d2)\<rparr>"
  have job: "job_of d3 (c_job_id c) = Some job" "j_id job = c_job_id c"
    using own owned_job_id[OF own]
    by (simp_all add: owned_execution_iff d3_def d2_def delete_members_where_def delete_workspaces_where_def Let_def)
  have rem: "remove_local_configuration c now d
      = rbind (delete_instance_row ?k (save_job ?job d3)) (\<lambda>d5. Inr (d5, ''deleted''))"
    using own by (simp add: remove_local_configuration_def Let_def d3_def d2_def)
  have free: "\<not> exists_row (\<lambda>a. al_instance_id a = ?k) (database_allocations (save_job ?job d3))"
    by (simp add: d3_def)
  obtain d' where d': "delete_instance_row ?k (save_job ?job d3) = Inr d'"
    using free by (simp add: delete_instance_row_def)
  have "job_of d' (c_job_id c) = Some ?job"
    using job by (simp add: job_of_delete_instance_row[OF d'] job_of_save_job)
  moreover have "instance_of d' ?k = None"
    using d' free by (auto simp: delete_instance_row_def Let_def select_row_None keys_of_def)
  moreover have "\<not> exists_row (\<lambda>x. w_instance_id x = ?k) (workspaces d')"
    "\<not> exists_row (\<lambda>m. m_instance_id m = ?k) (members d')"
    "\<not> exists_row (\<lambda>a. al_instance_id a = ?k) (database_allocations d')"
    "\<not> exists_row (\<lambda>p. k_instance_id p = ?k) (instance_kubernetes_rows d')"
    "\<not> exists_row (\<lambda>a. ta_instance_id a = ?k) (template_assignments d')"
    using d' free
    by (auto simp: delete_instance_row_def delete_members_where_def delete_workspaces_where_def
        delete_assignments_where_def Let_def exists_row_iff split: if_splits)
  ultimately show ?thesis using rem d' by simp
qed

section \<open>The end of an update\<close>

definition settles :: "uuid \<Rightarrow> uuid list \<Rightarrow> member \<Rightarrow> bool" where
  "settles k ids m = (owned_member ids m \<and> m_instance_id m = k)"

lemma in_settle_members:
  "m' \<in> set (members (settle_members k ids d)) \<longleftrightarrow>
     (\<exists>m\<in>set (members d). if settles k ids m then m_action m \<noteq> ''deleting'' \<and> m' = m\<lparr>m_status := SUCCESS\<rparr> else m' = m)"
proof -
  have "set (members (settle_members k ids d)) =
      (\<lambda>m. if settles k ids m then m\<lparr>m_status := SUCCESS\<rparr> else m) `
        {m \<in> set (members d). \<not> (settles k ids m \<and> m_action m = ''deleting'')}"
    by (simp add: settle_members_def Let_def set_member_status_def set_update_where
        delete_members_where_def settles_def)
  then show ?thesis by (force split: if_splits)
qed

lemma settlesD: "settles k ids m \<Longrightarrow> m_id m \<in> set ids \<and> m_status m = RUNNING \<and> m_instance_id m = k"
  by (simp add: settles_def owned_member_def)

text \<open>Nobody that the update had claimed is left in progress.\<close>

lemma settled_not_running:
  assumes "m' \<in> set (members (settle_members k ids d))" and "m_instance_id m' = k" and "m_id m' \<in> set ids"
  shows "m_status m' \<noteq> RUNNING"
proof -
  obtain m where m: "m \<in> set (members d)"
    "if settles k ids m then m_action m \<noteq> ''deleting'' \<and> m' = m\<lparr>m_status := SUCCESS\<rparr> else m' = m"
    using assms(1) in_settle_members by blast
  show ?thesis
  proof (cases "settles k ids m")
    case True
    with m(2) have "m' = m\<lparr>m_status := SUCCESS\<rparr>" by simp
    then show ?thesis by simp
  next
    case False
    with m(2) have "m' = m" by simp
    with False assms(2,3) show ?thesis by (simp add: settles_def owned_member_def)
  qed
qed

lemma settled_others:
  "m \<in> set (members d) \<Longrightarrow> \<not> settles k ids m \<Longrightarrow> m \<in> set (members (settle_members k ids d))"
  using in_settle_members by fastforce

lemma settled_gone:
  assumes "unique_by m_id (members d)" and "m \<in> set (members d)" and "settles k ids m"
    and "m_action m = ''deleting''" and "m' \<in> set (members (settle_members k ids d))"
  shows "m_id m' \<noteq> m_id m"
proof
  assume id: "m_id m' = m_id m"
  obtain n where n: "n \<in> set (members d)"
    "if settles k ids n then m_action n \<noteq> ''deleting'' \<and> m' = n\<lparr>m_status := SUCCESS\<rparr> else m' = n"
    using assms(5) in_settle_members by blast
  have "m_id m' = m_id n" using n(2) by (cases "settles k ids n") simp_all
  with id have "m_id n = m_id m" by simp
  with assms(1,2) n(1) have "n = m" using select_row_unique[of m_id] by (metis option.inject)
  with n(2) assms(3,4) show False by simp
qed

lemma finalize_update_owned:
  assumes own: "owned_execution d c = Some (job, Some (RInstance i))"
    and fresh: "job_of d k = None"
  shows "\<exists>d' i' job'. instance_of d' (i_id i) = Some i' \<and> i_argocd_application_name i' = Some name
    \<and> members d' = members (settle_members (i_id i) ids d)
    \<and> job_of d' (c_job_id c) = Some job' \<and> j_status job' = SUCCESS
    \<and> (if exists_row (\<lambda>m. m_instance_id m = i_id i \<and> m_status m = PENDING) (members d')
       then finalize_update c ids name k now d
              = Inr (d', ''pending'', Some (INSTANCE_UPDATE_STEP_01_TASK, k))
            \<and> i_status i' = PENDING \<and> i_job_id i' = Some k \<and> claimable d' k INSTANCE_UPDATE_STEP_01_TASK
       else finalize_update c ids name k now d = Inr (d', ''success'', None)
            \<and> i_status i' = SUCCESS \<and> i_step i' = None)"
proof -
  define i1 where "i1 = i\<lparr>i_argocd_application_name := Some name\<rparr>"
  define d1 where "d1 = settle_members (i_id i) ids d"
  define job1 where "job1 = job\<lparr>j_status := SUCCESS, j_claimed_at := None, j_updated_at := now\<rparr>"
  define d2 where "d2 = save_job job1 d1"
  have jobs1: "job_executions d1 = job_executions d"
    using shrunk_settle_members[of d "i_id i" ids] by (simp add: d1_def shrunk_def)
  have job: "job_of d (c_job_id c) = Some job" "j_id job = c_job_id c"
    using own owned_job_id[OF own] by (simp_all add: owned_execution_iff)
  then have job2: "job_of d2 (c_job_id c) = Some job1"
    by (simp add: d2_def job1_def job_of_save_job jobs1)
  have fresh2: "job_of d2 k = None" using fresh by (auto simp: d2_def job_of_save_job jobs1)
  have ne: "k \<noteq> c_job_id c" using fresh job by auto
  have inst2: "instance_of d2 (i_id i) = Some i"
    using owned_instance_of[OF own] by (simp add: d2_def d1_def)
  have mem2: "members d2 = members d1" by (simp add: d2_def)
  show ?thesis
  proof (cases "exists_row (\<lambda>m. m_instance_id m = i_id i \<and> m_status m = PENDING) (members d1)")
    case False
    let ?d' = "save_resource (RInstance (i1\<lparr>i_status := SUCCESS, i_step := None\<rparr>)) d2"
    have "finalize_update c ids name k now d = Inr (?d', ''success'', None)"
      using own False by (simp add: finalize_update_def Let_def d1_def d2_def i1_def job1_def)
    moreover have "instance_of ?d' (i_id i) = Some (i1\<lparr>i_status := SUCCESS, i_step := None\<rparr>)"
      using inst2 by (simp add: i1_def)
    ultimately show ?thesis
      using job2 False mem2 by (intro exI[of _ ?d']) (simp add: i1_def d1_def job1_def)
  next
    case True
    let ?d' = "fst (attach_instance_job i1 ''updating'' ''instance.update'' INSTANCE_UPDATE_STEP_01_TASK
        INSTANCE_UPDATE_STEP_01 k now d2)"
    have id1: "i_id i1 = i_id i" by (simp add: i1_def)
    have i2: "instance_of d2 (i_id i1) = Some i" using inst2 id1 by simp
    have "finalize_update c ids name k now d
        = Inr (?d', ''pending'', Some (INSTANCE_UPDATE_STEP_01_TASK, k))"
      using own True fresh2 by (simp add: finalize_update_def Let_def flip: d1_def d2_def i1_def job1_def)
    moreover note instance_of_attach[OF i2, of "''updating''" "''instance.update''"
        INSTANCE_UPDATE_STEP_01_TASK INSTANCE_UPDATE_STEP_01 k now]
    moreover have "claimable ?d' k INSTANCE_UPDATE_STEP_01_TASK"
      by (rule claimable_attach[OF i2 fresh2]) simp
    moreover have "members ?d' = members d1" using mem2 by (simp add: attach_instance_job_def Let_def)
    moreover have "job_of ?d' (c_job_id c) = Some job1"
      using job2 ne by (simp add: attach_instance_job_def Let_def select_insert_row)
    ultimately show ?thesis
      using True by (intro exI[of _ ?d']) (simp add: id1 i1_def d1_def job1_def)
  qed
qed

section \<open>The accounts that a cleanup spares\<close>

lemma in_stored_members [simp]:
  "m \<in> set (stored_members k d) \<longleftrightarrow> m \<in> set (members d) \<and> m_instance_id m = k"
  by (auto simp: stored_members_def)

lemma claim_cleanup_spares:
  assumes cc: "claim_cleanup c d = Inr (d', ids, expected, app)" and c: "c_resource_id c = Some k"
    and m: "m \<in> set (members d)" "m_instance_id m = k" and uniq: "unique_by m_id (members d)"
  shows "m_username m \<in> set expected \<or> (m_action m = ''deleting'' \<and> m_status m \<in> {RUNNING, ERROR})"
    and "m_id m \<in> set ids \<longleftrightarrow> m_status m \<in> {RUNNING, ERROR}"
proof -
  let ?claimed = "filter (\<lambda>m. m_status m \<in> {RUNNING, ERROR}) (stored_members k d)"
  obtain i where i: "get_claimed_instance instance_missing c d = Inr i"
    using cc by (auto simp: claim_cleanup_def rbind_Inr_iff)
  then have k: "i_id i = k" using c by (auto simp: get_claimed_instance_def require_iff dest: select_row_key)
  have ids: "ids = map m_id ?claimed"
    and exp: "expected = map m_username (filter (\<lambda>m. m_action m \<noteq> ''deleting'' \<or> m_id m \<notin> set ids) (stored_members k d))"
    using cc i k by (auto simp: claim_cleanup_def Let_def split: option.splits if_splits)
  have same: "n = m" if "n \<in> set (members d)" "m_id n = m_id m" for n
    using select_row_unique[OF uniq] that m(1) by (metis option.inject)
  show "m_id m \<in> set ids \<longleftrightarrow> m_status m \<in> {RUNNING, ERROR}"
  proof
    assume "m_id m \<in> set ids"
    then have "\<exists>n\<in>set ?claimed. m_id n = m_id m" unfolding ids by force
    then obtain n where "n \<in> set ?claimed" "m_id n = m_id m" ..
    with same[of n] show "m_status m \<in> {RUNNING, ERROR}" by auto
  next
    assume "m_status m \<in> {RUNNING, ERROR}"
    with m show "m_id m \<in> set ids" unfolding ids by simp
  qed
  then show "m_username m \<in> set expected \<or> (m_action m = ''deleting'' \<and> m_status m \<in> {RUNNING, ERROR})"
    unfolding exp using m by auto
qed

section \<open>Deletion waits for the Application\<close>

lemma get_claimed_instance_Inr:
  "get_claimed_instance e c d = Inr i \<longleftrightarrow> c_resource_id c = Some (i_id i) \<and> instance_of d (i_id i) = Some i"
  by (auto simp: get_claimed_instance_def require_iff split: option.splits dest: select_row_key)

lemma step_02_remove_instance_pending:
  assumes "step_02_remove_instance env k w = (w', Inr ''pending'')"
  shows "\<exists>(i :: inst) job. e_delete_application env (i_id i) (i_slug i) (i_argocd_application_name i) = Inr COMPLETED
    \<and> job_of (store w') k = Some job \<and> j_task_name job = INSTANCE_DELETE_STEP_03_TASK
    \<and> j_status job = PENDING \<and> j_claimed_at job = None"
  using assms[unfolded step_02_remove_instance_def]
proof (cases rule: run_step_Inr)
  case (ran claim d)
  then obtain i :: inst and w2 deletion where
    del: "e_delete_application env (i_id i) (i_slug i) (i_argocd_application_name i) = Inr deletion"
    and rest: "(if deletion = DEFERRED then tdefer env 2 claim no_mutate
       else tadvance env 2 claim INSTANCE_DELETE_STEP_03_TASK INSTANCE_DELETE_STEP_03 mark_stopped) w2
       = (w', Inr ''pending'')"
    by (auto simp: task_iffs required_resource_id_def get_claimed_instance_Inr require_iff)
  have fin: "deletion \<noteq> DEFERRED"
    using rest by (auto dest!: tdefer_result)
  with rest have "tadvance env 2 claim INSTANCE_DELETE_STEP_03_TASK INSTANCE_DELETE_STEP_03 mark_stopped w2
      = (w', Inr ''pending'')" by simp
  then obtain job where "job_of (store w') (c_job_id claim) = Some job"
      "j_task_name job = INSTANCE_DELETE_STEP_03_TASK" "j_status job = PENDING" "j_claimed_at job = None"
    by (rule tadvance_pending) auto
  moreover have "c_job_id claim = k" by (rule claim_owns(2)[OF ran(1)])
  moreover have "deletion = COMPLETED" using fin by (cases deletion) simp_all
  ultimately show ?thesis using del by auto
qed simp

end
