(* ===== verification/Members.thy ===== *)
theory Members
  imports Instances
begin

text \<open>
  The member repository (\<^verbatim>\<open>repositories/members.py\<close>). A change of membership is a row
  in status pending plus, when no update of the instance is under way, a staged update job
  whose key the route dispatches after the commit (\<open>None\<close> when an update that is still in its
  first step will pick the change up). New keys are arguments.
\<close>

section \<open>Errors and helpers\<close>

datatype member_error =
    MemberAlreadyExistsError
  | MemberInstanceNotFoundError
  | MemberNotFoundError
  | MemberInstanceBusyError
  | MemberActionConflictError
  | MemberHasWorkspacesError
  | MemberProtectedAdministratorError
  | InvalidMemberActionError

record member_create =
  mc_username :: string
  mc_role :: member_role

definition update_in_progress :: "inst \<Rightarrow> bool" where
  "update_in_progress i = (i_action i = ''updating'' \<and> i_step i = Some INSTANCE_UPDATE_STEP_01
     \<and> i_status i \<in> {PENDING, RUNNING})"

definition lock_available_instance :: "uuid \<Rightarrow> db \<Rightarrow> (member_error, inst) result" where
  "lock_available_instance instance_id d =
     rbind (require (instance_of d instance_id) MemberInstanceNotFoundError) (\<lambda>i.
       rbind (guard_that (\<not> has_active_template_assignment d instance_id) MemberInstanceBusyError) (\<lambda>_.
         rbind (guard_that (\<not> (\<not> update_in_progress i \<and> i_status i \<noteq> SUCCESS)) MemberInstanceBusyError) (\<lambda>_.
           Inr i)))"

definition lock_member :: "uuid \<Rightarrow> uuid \<Rightarrow> db \<Rightarrow> (member_error, member) result" where
  "lock_member instance_id member_id d =
     (case member_of d member_id of
        None \<Rightarrow> Inl MemberNotFoundError
      | Some m \<Rightarrow> if m_instance_id m = instance_id then Inr m else Inl MemberNotFoundError)"

definition request_instance_update :: "inst \<Rightarrow> inst \<times> bool" where
  "request_instance_update i =
     (if i_action i = ''updating'' \<and> i_status i \<in> {PENDING, RUNNING} then (i, False)
      else (i\<lparr>i_action := ''updating'', i_status := PENDING\<rparr>, True))"

definition stage_instance_update_job :: "inst \<Rightarrow> uuid \<Rightarrow> instant \<Rightarrow> db \<Rightarrow> db" where
  "stage_instance_update_job i job_id now d =
     (let job = add_job_execution job_id ''instance.update'' INSTANCE_UPDATE_STEP_01_TASK
                  (Some ''instance'') (Some (i_id i)) INSTANCE_UPDATE_STEP_01 now
      in save_resource (RInstance (i\<lparr>i_job_id := Some job_id, i_step := Some INSTANCE_UPDATE_STEP_01\<rparr>))
           (stage_job job d))"

definition enqueue_update :: "inst \<Rightarrow> uuid \<Rightarrow> instant \<Rightarrow> db \<Rightarrow> db \<times> uuid option" where
  "enqueue_update i job_id now d =
     (let (i', enqueue) = request_instance_update i
      in if enqueue then (stage_instance_update_job i' job_id now d, Some job_id)
         else (save_resource (RInstance i') d, None))"

section \<open>Operations\<close>

definition list_members ::
  "uuid \<Rightarrow> int \<Rightarrow> int \<Rightarrow> db \<Rightarrow> (member_error, member list \<times> int) result" where
  "list_members instance_id page page_size d =
     rbind (require (instance_of d instance_id) MemberInstanceNotFoundError) (\<lambda>_.
       let rows = filter (\<lambda>m. m_instance_id m = instance_id) (members d)
       in Inr (page_slice page page_size (sort_key (\<lambda>m. (m_username m, m_id m)) rows), int (length rows)))"

definition get_member :: "uuid \<Rightarrow> uuid \<Rightarrow> db \<Rightarrow> member option" where
  "get_member instance_id member_id d =
     (case member_of d member_id of
        None \<Rightarrow> None
      | Some m \<Rightarrow> if m_instance_id m = instance_id then Some m else None)"

definition create_member ::
  "uuid \<Rightarrow> member_create \<Rightarrow> uuid \<Rightarrow> uuid \<Rightarrow> instant \<Rightarrow> db
    \<Rightarrow> (member_error, db \<times> member \<times> uuid option) result" where
  "create_member instance_id payload member_id job_id now d =
     rbind (lock_available_instance instance_id d) (\<lambda>i.
       let m = \<lparr>m_id = member_id, m_instance_id = instance_id, m_username = mc_username payload,
                m_role = mc_role payload, m_action = ''creating'', m_status = PENDING\<rparr>;
           d1 = d\<lparr>members := insert_row m (members d)\<rparr>;
           (d2, enqueued) = enqueue_update i job_id now d1
       in if members_ok (members d2) \<and> unique_by j_id (job_executions d2) then Inr (d2, m, enqueued)
          else Inl MemberAlreadyExistsError)"

definition save_member :: "member \<Rightarrow> db \<Rightarrow> db" where
  "save_member m d = d\<lparr>members := replace_row m_id m (members d)\<rparr>"

definition update_role ::
  "uuid \<Rightarrow> uuid \<Rightarrow> member_role \<Rightarrow> uuid \<Rightarrow> instant \<Rightarrow> db
    \<Rightarrow> (member_error, db \<times> member \<times> bool \<times> uuid option) result" where
  "update_role instance_id member_id role job_id now d =
     rbind (lock_available_instance instance_id d) (\<lambda>i.
       rbind (lock_member instance_id member_id d) (\<lambda>m.
         rbind (guard_that (m_status m = SUCCESS) MemberActionConflictError) (\<lambda>_.
           if m_role m = role then Inr (d, m, False, None)
           else let m' = m\<lparr>m_role := role, m_action := ''updating'', m_status := PENDING\<rparr>;
                    (d', enqueued) = enqueue_update i job_id now (save_member m' d)
                in Inr (d', m', True, enqueued))))"

definition request_member_deletion ::
  "uuid \<Rightarrow> uuid \<Rightarrow> string list \<Rightarrow> uuid \<Rightarrow> instant \<Rightarrow> db
    \<Rightarrow> (member_error, db \<times> member \<times> uuid option) result" where
  "request_member_deletion instance_id member_id protected_usernames job_id now d =
     rbind (lock_available_instance instance_id d) (\<lambda>i.
       rbind (lock_member instance_id member_id d) (\<lambda>m.
         rbind (guard_that (m_username m \<notin> set protected_usernames) MemberProtectedAdministratorError) (\<lambda>_.
           rbind (guard_that (m_status m = SUCCESS) MemberActionConflictError) (\<lambda>_.
             rbind (guard_that (\<not> exists_row (\<lambda>x. w_member_id x = m_id m) (workspaces d))
                      MemberHasWorkspacesError) (\<lambda>_.
               let m' = m\<lparr>m_action := ''deleting'', m_status := PENDING\<rparr>;
                   (d', enqueued) = enqueue_update i job_id now (save_member m' d)
               in Inr (d', m', enqueued))))))"

definition update_member_action ::
  "uuid \<Rightarrow> string \<Rightarrow> string \<Rightarrow> member_status \<Rightarrow> db \<Rightarrow> (member_error, db \<times> member) result" where
  "update_member_action member_id expected_action action status d =
     (let normalized_action = strip action in
      rbind (guard_that (\<not> (normalized_action = [] \<or> MAX_ACTION_LENGTH < length normalized_action))
               InvalidMemberActionError) (\<lambda>_.
        rbind (require (member_of d member_id) MemberNotFoundError) (\<lambda>m.
          rbind (guard_that (m_action m = expected_action) MemberActionConflictError) (\<lambda>_.
            let m' = m\<lparr>m_action := normalized_action, m_status := status\<rparr>
            in Inr (save_member m' d, m')))))"

section \<open>A change is taken over by an update\<close>

text \<open>
  Either an update that has not read its members yet is in progress, or the staged job can
  be claimed: in both cases the first update step will see the pending member.
\<close>

definition update_pending :: "db \<Rightarrow> uuid \<Rightarrow> uuid option \<Rightarrow> bool" where
  "update_pending d instance_id enqueued =
     (\<exists>i. instance_of d instance_id = Some i \<and> update_in_progress i
        \<and> (case enqueued of None \<Rightarrow> True
           | Some jk \<Rightarrow> i_job_id i = Some jk \<and> claimable d jk INSTANCE_UPDATE_STEP_01_TASK))"

lemma stage_is_attach:
  "stage_instance_update_job (i\<lparr>i_action := ''updating'', i_status := PENDING\<rparr>) jk now d
     = fst (attach_instance_job i ''updating'' ''instance.update'' INSTANCE_UPDATE_STEP_01_TASK
              INSTANCE_UPDATE_STEP_01 jk now d)"
  by (simp add: stage_instance_update_job_def attach_instance_job_def Let_def)

lemma lock_available_Inr:
  "lock_available_instance k d = Inr i \<longleftrightarrow>
     instance_of d k = Some i \<and> \<not> has_active_template_assignment d k
     \<and> (update_in_progress i \<or> i_status i = SUCCESS)"
  by (auto simp: lock_available_instance_def result_iffs)

lemma lock_member_Inr:
  "lock_member ik k d = Inr m \<longleftrightarrow> member_of d k = Some m \<and> m_instance_id m = ik"
  by (auto simp: lock_member_def split: option.splits)

lemma enqueue_update_pending:
  assumes "instance_of d k = Some i" and "update_in_progress i \<or> i_status i = SUCCESS"
    and "job_of d jk = None" and "enqueue_update i jk now d = (d', enqueued)"
  shows "update_pending d' k enqueued" and "members d' = members d" and "sys_run d d'"
proof -
  have id: "i_id i = k" using assms(1) by (rule select_row_key)
  with assms(1) have row: "instance_of d (i_id i) = Some i" by simp
  show "members d' = members d"
    using assms(4) by (auto simp: enqueue_update_def request_instance_update_def
        stage_instance_update_job_def Let_def split: if_splits)
  show "update_pending d' k enqueued"
  proof (cases "i_action i = ''updating'' \<and> i_status i \<in> {PENDING, RUNNING}")
    case True
    with assms have "d' = save_resource (RInstance i) d" "enqueued = None" "update_in_progress i"
      by (auto simp: enqueue_update_def request_instance_update_def)
    with assms(1) id show ?thesis by (simp add: update_pending_def)
  next
    case False
    then have d': "d' = fst (attach_instance_job i ''updating'' ''instance.update'' INSTANCE_UPDATE_STEP_01_TASK
              INSTANCE_UPDATE_STEP_01 jk now d)" "enqueued = Some jk"
      using assms(4) by (auto simp: enqueue_update_def request_instance_update_def stage_is_attach)
    have "claimable d' jk INSTANCE_UPDATE_STEP_01_TASK"
      unfolding d'(1) by (rule claimable_attach[OF row assms(3)]) simp
    moreover note instance_of_attach[OF row, of "''updating''" "''instance.update''"
        INSTANCE_UPDATE_STEP_01_TASK INSTANCE_UPDATE_STEP_01 jk now, folded d'(1)]
    ultimately show ?thesis by (simp add: update_pending_def update_in_progress_def d'(2) id)
  qed
  show "sys_run d d'"
  proof (cases "i_action i = ''updating'' \<and> i_status i \<in> {PENDING, RUNNING}")
    case True
    with assms have "d' = save_resource (RInstance i) d"
      by (auto simp: enqueue_update_def request_instance_update_def)
    moreover have "sys_txn d (save_resource (RInstance i) d)"
      by (rule sys_txn.touch[where r = "RInstance i"]) (simp_all add: lookup_resource_def row)
    ultimately show ?thesis by simp
  next
    case False
    then have "d' = fst (attach_instance_job i ''updating'' ''instance.update'' INSTANCE_UPDATE_STEP_01_TASK
              INSTANCE_UPDATE_STEP_01 jk now d)"
      using assms(4) by (auto simp: enqueue_update_def request_instance_update_def stage_is_attach)
    then show ?thesis using run_attach[OF assms(1,3) same_lifecycle_refl] by simp
  qed
qed

lemma same_lifecycle_save_member [simp]: "same_lifecycle d (save_member m d)"
  by (simp add: same_lifecycle_def save_member_def)

text \<open>Enqueuing after member rows were written.\<close>

lemma enqueue_after_members:
  assumes "lock_available_instance k d = Inr i" and "job_of d jk = None" and "same_lifecycle d d1"
    and "enqueue_update i jk now d1 = (d', enqueued)"
  shows "update_pending d' k enqueued" and "members d' = members d1" and "sys_run d d'"
proof -
  have *: "instance_of d1 k = Some i" "update_in_progress i \<or> i_status i = SUCCESS" "job_of d1 jk = None"
    using assms by (simp_all add: lock_available_Inr same_lifecycle_def)
  show "update_pending d' k enqueued" and "members d' = members d1"
    by (rule enqueue_update_pending[OF * assms(4)])+
  from run_bookkeep[OF assms(3)] enqueue_update_pending(3)[OF * assms(4)]
  show "sys_run d d'" by (rule rtranclp_trans)
qed

lemma create_member_Inr:
  assumes "create_member k payload mk jk now d = Inr (d', m, enqueued)" and "job_of d jk = None"
  shows "update_pending d' k enqueued" and "members d' = members d @ [m]" and "sys_run d d'"
    and "m = \<lparr>m_id = mk, m_instance_id = k, m_username = mc_username payload, m_role = mc_role payload,
           m_action = ''creating'', m_status = PENDING\<rparr>"
    and "members_ok (members d')"
proof -
  let ?m = "\<lparr>m_id = mk, m_instance_id = k, m_username = mc_username payload, m_role = mc_role payload,
           m_action = ''creating'', m_status = PENDING\<rparr>"
  let ?d1 = "d\<lparr>members := insert_row ?m (members d)\<rparr>"
  obtain i where i: "lock_available_instance k d = Inr i"
    using assms(1) by (auto simp: create_member_def rbind_Inr_iff)
  then have enq: "enqueue_update i jk now ?d1 = (d', enqueued)" "m = ?m" "members_ok (members d')"
    using assms(1) by (auto simp: create_member_def Let_def split: prod.splits if_splits)
  have life: "same_lifecycle d ?d1" by (simp add: same_lifecycle_def)
  note e = enqueue_after_members[OF i assms(2) life enq(1)]
  show "update_pending d' k enqueued" "sys_run d d'" "m = ?m" "members_ok (members d')"
    using e enq by simp_all
  show "members d' = members d @ [m]" using e(2) enq(2) by (simp add: insert_row_def)
qed

lemma update_role_Inr:
  assumes "update_role k mk role jk now d = Inr (d', m', True, enqueued)" and "job_of d jk = None"
  shows "update_pending d' k enqueued" and "sys_run d d'"
    and "\<exists>m. member_of d mk = Some m \<and> m_instance_id m = k \<and> m_status m = SUCCESS \<and> m_role m \<noteq> role
       \<and> m' = m\<lparr>m_role := role, m_action := ''updating'', m_status := PENDING\<rparr>
       \<and> members d' = replace_row m_id m' (members d)"
proof -
  obtain i m where i: "lock_available_instance k d = Inr i"
    and m: "member_of d mk = Some m" "m_instance_id m = k" "m_status m = SUCCESS" "m_role m \<noteq> role"
      "m' = m\<lparr>m_role := role, m_action := ''updating'', m_status := PENDING\<rparr>"
    and enq: "enqueue_update i jk now (save_member m' d) = (d', enqueued)"
    using assms(1) by (auto simp: update_role_def result_iffs lock_member_Inr Let_def
        split: prod.splits if_splits)
  note e = enqueue_after_members[OF i assms(2) same_lifecycle_save_member enq]
  show "update_pending d' k enqueued" "sys_run d d'" using e by simp_all
  show "\<exists>m. member_of d mk = Some m \<and> m_instance_id m = k \<and> m_status m = SUCCESS \<and> m_role m \<noteq> role
       \<and> m' = m\<lparr>m_role := role, m_action := ''updating'', m_status := PENDING\<rparr>
       \<and> members d' = replace_row m_id m' (members d)"
    using m e(2) by (auto simp: save_member_def)
qed

lemma request_member_deletion_Inr:
  assumes "request_member_deletion k mk protected jk now d = Inr (d', m', enqueued)" and "job_of d jk = None"
  shows "update_pending d' k enqueued" and "sys_run d d'"
    and "\<exists>m. member_of d mk = Some m \<and> m_instance_id m = k \<and> m_status m = SUCCESS
       \<and> m_username m \<notin> set protected \<and> \<not> exists_row (\<lambda>x. w_member_id x = mk) (workspaces d)
       \<and> m' = m\<lparr>m_action := ''deleting'', m_status := PENDING\<rparr>
       \<and> members d' = replace_row m_id m' (members d)"
proof -
  obtain i m where i: "lock_available_instance k d = Inr i"
    and m: "member_of d mk = Some m" "m_instance_id m = k" "m_status m = SUCCESS"
      "m_username m \<notin> set protected" "\<not> exists_row (\<lambda>x. w_member_id x = m_id m) (workspaces d)"
      "m' = m\<lparr>m_action := ''deleting'', m_status := PENDING\<rparr>"
    and enq: "enqueue_update i jk now (save_member m' d) = (d', enqueued)"
    using assms(1) by (auto simp: request_member_deletion_def result_iffs lock_member_Inr Let_def
        split_beta prod_eq_iff)
  note e = enqueue_after_members[OF i assms(2) same_lifecycle_save_member enq]
  show "update_pending d' k enqueued" "sys_run d d'" using e by simp_all
  have "m_id m = mk" using m(1) by (rule select_row_key)
  with m e(2) show "\<exists>m. member_of d mk = Some m \<and> m_instance_id m = k \<and> m_status m = SUCCESS
       \<and> m_username m \<notin> set protected \<and> \<not> exists_row (\<lambda>x. w_member_id x = mk) (workspaces d)
       \<and> m' = m\<lparr>m_action := ''deleting'', m_status := PENDING\<rparr>
       \<and> members d' = replace_row m_id m' (members d)"
    by (auto simp: save_member_def)
qed

text \<open>Every refusal, in the order the guards are checked.\<close>

lemma member_deletion_errors:
  assumes "lock_available_instance k d = Inr i" and "member_of d mk = Some m" "m_instance_id m = k"
  shows "m_username m \<in> set protected \<Longrightarrow>
      request_member_deletion k mk protected jk now d = Inl MemberProtectedAdministratorError"
    and "m_username m \<notin> set protected \<Longrightarrow> m_status m \<noteq> SUCCESS \<Longrightarrow>
      request_member_deletion k mk protected jk now d = Inl MemberActionConflictError"
    and "m_username m \<notin> set protected \<Longrightarrow> m_status m = SUCCESS \<Longrightarrow>
      exists_row (\<lambda>x. w_member_id x = mk) (workspaces d) \<Longrightarrow>
      request_member_deletion k mk protected jk now d = Inl MemberHasWorkspacesError"
proof -
  have id: "m_id m = mk" using assms(2) by (rule select_row_key)
  have lock: "lock_member k mk d = Inr m" using assms by (simp add: lock_member_Inr)
  show "m_username m \<in> set protected \<Longrightarrow>
      request_member_deletion k mk protected jk now d = Inl MemberProtectedAdministratorError"
    and "m_username m \<notin> set protected \<Longrightarrow> m_status m \<noteq> SUCCESS \<Longrightarrow>
      request_member_deletion k mk protected jk now d = Inl MemberActionConflictError"
    and "m_username m \<notin> set protected \<Longrightarrow> m_status m = SUCCESS \<Longrightarrow>
      exists_row (\<lambda>x. w_member_id x = mk) (workspaces d) \<Longrightarrow>
      request_member_deletion k mk protected jk now d = Inl MemberHasWorkspacesError"
    using assms lock id by (simp_all add: request_member_deletion_def)
qed

end
