(* ===== verification/Workspaces.thy ===== *)
theory Workspaces
  imports Members
begin

text \<open>
  The workspace repository (\<^verbatim>\<open>repositories/workspaces.py\<close>): validation of the references of
  a workspace, the resolution of its parameters against the template, and the three
  lifecycle requests. New keys are arguments; \<^verbatim>\<open>updated_at\<close> is not modelled.
\<close>

section \<open>Errors and payloads\<close>

datatype workspace_error =
    WorkspaceAlreadyExistsError
  | WorkspaceNotFoundError
  | WorkspaceInstanceNotFoundError
  | WorkspaceInstanceBusyError
  | WorkspaceTemplateNotFoundError
  | WorkspaceMemberNotFoundError
  | WorkspaceMemberUnavailableError
  | WorkspaceImageNotFoundError
  | WorkspaceImageUnavailableError
  | WorkspaceConfigurationError
  | WorkspaceParameterImmutableError
  | WorkspaceTemplateNotDeployedError
  | WorkspaceBusyError
  | WorkspaceActionConflictError
  | InvalidWorkspaceActionError

record workspace_update =
  wu_name :: string
  wu_image_id :: uuid
  wu_modules :: "string list"
  wu_parameters :: "(string, string) dict"

record workspace_create = workspace_update +
  wc_instance_id :: uuid
  wc_template_id :: uuid
  wc_member_id :: uuid

record workspace_list_query =
  wq_page :: int
  wq_page_size :: int
  wq_instance_id :: "uuid option"
  wq_template_id :: "uuid option"
  wq_member_id :: "uuid option"
  wq_image_id :: "uuid option"
  wq_status :: "workspace_status option"
  wq_name :: "string option"

section \<open>Reading\<close>

definition wanted :: "'a option \<Rightarrow> 'a \<Rightarrow> bool" where
  "wanted filter_value x = (case filter_value of None \<Rightarrow> True | Some v \<Rightarrow> x = v)"

definition workspace_order :: "workspace \<Rightarrow> uuid \<times> string \<times> string \<times> uuid" where
  "workspace_order x = (w_instance_id x, lower (w_name x), w_name x, w_id x)"

definition list_workspace_page :: "workspace_list_query \<Rightarrow> db \<Rightarrow> workspace list \<times> int" where
  "list_workspace_page q d =
     (let rows = filter (\<lambda>x. wanted (wq_instance_id q) (w_instance_id x)
            \<and> wanted (wq_template_id q) (w_template_id x) \<and> wanted (wq_member_id q) (w_member_id x)
            \<and> wanted (wq_image_id q) (w_image_id x) \<and> wanted (wq_status q) (w_status x)
            \<and> (case wq_name q of None \<Rightarrow> True | Some n \<Rightarrow> icontains n (w_name x))) (workspaces d)
      in (page_slice (wq_page q) (wq_page_size q) (sort_key workspace_order rows), int (length rows)))"

definition get_workspace :: "uuid \<Rightarrow> db \<Rightarrow> workspace option" where
  "get_workspace k d = workspace_of d k"

section \<open>Validation\<close>

definition workspace_instance :: "uuid \<Rightarrow> db \<Rightarrow> (workspace_error, inst) result" where
  "workspace_instance instance_id d =
     rbind (require (instance_of d instance_id) WorkspaceInstanceNotFoundError) (\<lambda>i.
       rbind (guard_that (i_status i = SUCCESS) WorkspaceInstanceBusyError) (\<lambda>_. Inr i))"

definition lock_template :: "uuid \<Rightarrow> db \<Rightarrow> (workspace_error, template) result" where
  "lock_template template_id d = require (template_of d template_id) WorkspaceTemplateNotFoundError"

definition validate_owner :: "uuid \<Rightarrow> uuid \<Rightarrow> db \<Rightarrow> (workspace_error, unit) result" where
  "validate_owner member_id instance_id d =
     rbind (require (member_of d member_id) WorkspaceMemberNotFoundError) (\<lambda>m.
       guard_that (\<not> (m_instance_id m \<noteq> instance_id \<or> m_status m \<noteq> SUCCESS)) WorkspaceMemberUnavailableError)"

definition validate_image :: "uuid \<Rightarrow> uuid \<Rightarrow> db \<Rightarrow> (workspace_error, unit) result" where
  "validate_image image_id template_id d =
     rbind (require (image_of d image_id) WorkspaceImageNotFoundError) (\<lambda>image.
       guard_that (im_template_id image = template_id) WorkspaceImageUnavailableError)"

definition lock_workspace :: "uuid \<Rightarrow> db \<Rightarrow> (workspace_error, workspace) result" where
  "lock_workspace workspace_id d = require (workspace_of d workspace_id) WorkspaceNotFoundError"

definition ensure_workspace_available :: "workspace \<Rightarrow> (workspace_error, unit) result" where
  "ensure_workspace_available x = guard_that (w_status x \<notin> {PENDING, RUNNING}) WorkspaceBusyError"

definition validate_modules :: "template \<Rightarrow> string list \<Rightarrow> (workspace_error, unit) result" where
  "validate_modules t modules = guard_that (set modules \<subseteq> set (t_modules t)) WorkspaceConfigurationError"

definition require_remote_template :: "uuid \<Rightarrow> uuid \<Rightarrow> db \<Rightarrow> (workspace_error, unit) result" where
  "require_remote_template template_id instance_id d =
     guard_that (exists_row (\<lambda>dep. td_coder_template_id dep \<noteq> None
        \<and> exists_row (\<lambda>a. ta_id a = td_assignment_id dep \<and> ta_template_id a = template_id
             \<and> ta_instance_id a = instance_id \<and> ta_action a = ''created'' \<and> ta_status a = SUCCESS
             \<and> exists_row (\<lambda>t. t_id t = ta_template_id a \<and> t_sync_status t = SUCCESS) (templates d))
           (template_assignments d))
       (template_deployments d)) WorkspaceTemplateNotDeployedError"

section \<open>Parameter resolution\<close>

definition user_parameters :: "uuid \<Rightarrow> db \<Rightarrow> (string, template_parameter) dict" where
  "user_parameters template_id d =
     foldl (\<lambda>by_name p. dict_set (p_name p) p by_name) []
       (sort_key p_name (filter (\<lambda>p. p_template_id p = template_id \<and> p_type p = USER_PARAMETER)
          (template_parameters d)))"

definition previous_values :: "(string, string) dict option \<Rightarrow> (string, string) dict" where
  "previous_values previous = (case previous of None \<Rightarrow> [] | Some v \<Rightarrow> v)"

definition immutable_before ::
  "(string, string) dict option \<Rightarrow> string \<Rightarrow> template_parameter \<Rightarrow> bool" where
  "immutable_before previous name p = (previous \<noteq> None \<and> p_mutable p = Some False
     \<and> dict_has (previous_values previous) name)"

definition parameter_value ::
  "(string, string) dict \<Rightarrow> (string, string) dict option \<Rightarrow> string \<Rightarrow> template_parameter
    \<Rightarrow> (workspace_error, string option) result" where
  "parameter_value supplied previous name p =
     (case map_of supplied name of
        Some value \<Rightarrow> Inr (Some value)
      | None \<Rightarrow>
          if immutable_before previous name p then Inr (map_of (previous_values previous) name)
          else case p_default_value p of
                 Some value \<Rightarrow> Inr (Some value)
               | None \<Rightarrow> if p_required p = Some True then Inl WorkspaceConfigurationError else Inr None)"

fun resolve_each ::
  "(string, string) dict \<Rightarrow> (string, string) dict option \<Rightarrow> (string \<times> template_parameter) list
    \<Rightarrow> (string, string) dict \<Rightarrow> (workspace_error, (string, string) dict) result" where
  "resolve_each supplied previous [] resolved = Inr resolved"
| "resolve_each supplied previous ((name, p) # rest) resolved =
     rbind (parameter_value supplied previous name p) (\<lambda>chosen.
       case chosen of
         None \<Rightarrow> resolve_each supplied previous rest resolved
       | Some value \<Rightarrow>
           if immutable_before previous name p \<and> map_of (previous_values previous) name \<noteq> Some value
           then Inl WorkspaceParameterImmutableError
           else resolve_each supplied previous rest (dict_set name value resolved))"

definition resolve_parameters ::
  "uuid \<Rightarrow> (string, string) dict \<Rightarrow> (string, string) dict option \<Rightarrow> db
    \<Rightarrow> (workspace_error, (string, string) dict) result" where
  "resolve_parameters template_id supplied previous d =
     (let by_name = user_parameters template_id d;
          old = previous_values previous
      in rbind (guard_that (list_all (\<lambda>(name, value). \<not> (\<not> dict_has by_name name
                    \<and> (\<not> dict_has old name \<or> map_of old name \<noteq> Some value))) supplied)
                  WorkspaceConfigurationError) (\<lambda>_.
           resolve_each supplied previous by_name (filter (\<lambda>(name, _). \<not> dict_has by_name name) old)))"

section \<open>Lifecycle requests\<close>

definition create_workspace ::
  "workspace_create \<Rightarrow> uuid \<Rightarrow> uuid \<Rightarrow> instant \<Rightarrow> db \<Rightarrow> (workspace_error, db \<times> workspace) result" where
  "create_workspace payload workspace_id job_id now d =
     rbind (workspace_instance (wc_instance_id payload) d) (\<lambda>i.
     rbind (lock_template (wc_template_id payload) d) (\<lambda>t.
     rbind (require_remote_template (t_id t) (i_id i) d) (\<lambda>_.
     rbind (validate_owner (wc_member_id payload) (i_id i) d) (\<lambda>_.
     rbind (validate_image (wu_image_id payload) (t_id t) d) (\<lambda>_.
     rbind (validate_modules t (wu_modules payload)) (\<lambda>_.
     rbind (resolve_parameters (t_id t) (wu_parameters payload) None d) (\<lambda>parameters.
       let x = \<lparr>w_id = workspace_id, w_name = wu_name payload, w_instance_id = i_id i, w_template_id = t_id t,
                w_member_id = wc_member_id payload, w_image_id = wu_image_id payload,
                w_modules = wu_modules payload, w_parameters = parameters, w_parameters_revision = 0,
                w_applied_parameters_revision = None, w_coder_workspace_id = None,
                w_coder_workspace_build_id = None, w_action = ''creating'', w_status = PENDING,
                w_job_id = Some job_id, w_step = Some WORKSPACE_CREATE_STEP_01\<rparr>;
           d' = insert_with_job (RWorkspace x) ''workspace.create'' WORKSPACE_CREATE_STEP_01_TASK
                  WORKSPACE_CREATE_STEP_01 job_id now d
       in if workspaces_ok (workspaces d') \<and> unique_by j_id (job_executions d') then Inr (d', x)
          else Inl WorkspaceAlreadyExistsError)))))))"

definition request_fields :: "string \<Rightarrow> uuid \<Rightarrow> string \<Rightarrow> workspace \<Rightarrow> workspace" where
  "request_fields action job_id step x =
     x\<lparr>w_action := action, w_status := PENDING, w_job_id := Some job_id, w_step := Some step\<rparr>"

definition workspace_changed :: "workspace_update \<Rightarrow> (string, string) dict \<Rightarrow> workspace \<Rightarrow> bool" where
  "workspace_changed payload parameters x = (w_name x \<noteq> wu_name payload \<or> w_image_id x \<noteq> wu_image_id payload
     \<or> w_modules x \<noteq> wu_modules payload \<or> \<not> dict_eq (w_parameters x) parameters)"

definition apply_workspace_update :: "workspace_update \<Rightarrow> (string, string) dict \<Rightarrow> workspace \<Rightarrow> workspace" where
  "apply_workspace_update payload parameters x =
     (let x1 = x\<lparr>w_name := wu_name payload, w_image_id := wu_image_id payload, w_modules := wu_modules payload\<rparr>
      in if dict_eq (w_parameters x) parameters then x1
         else x1\<lparr>w_parameters := parameters, w_parameters_revision := w_parameters_revision x1 + 1\<rparr>)"

definition update_workspace ::
  "uuid \<Rightarrow> workspace_update \<Rightarrow> uuid \<Rightarrow> instant \<Rightarrow> db \<Rightarrow> (workspace_error, db \<times> workspace \<times> bool) result" where
  "update_workspace workspace_id payload job_id now d =
     rbind (lock_workspace workspace_id d) (\<lambda>x.
     rbind (ensure_workspace_available x) (\<lambda>_.
     rbind (workspace_instance (w_instance_id x) d) (\<lambda>_.
     rbind (lock_template (w_template_id x) d) (\<lambda>t.
     rbind (require_remote_template (t_id t) (w_instance_id x) d) (\<lambda>_.
     rbind (validate_image (wu_image_id payload) (t_id t) d) (\<lambda>_.
     rbind (validate_modules t (wu_modules payload)) (\<lambda>_.
     rbind (resolve_parameters (t_id t) (wu_parameters payload) (Some (w_parameters x)) d) (\<lambda>parameters.
       if \<not> workspace_changed payload parameters x \<and> w_status x = SUCCESS then Inr (d, x, False)
       else
         let x' = request_fields ''updating'' job_id WORKSPACE_UPDATE_STEP_01
                    (apply_workspace_update payload parameters x);
             d' = attach_job (RWorkspace x') ''workspace.update'' WORKSPACE_UPDATE_STEP_01_TASK
                    WORKSPACE_UPDATE_STEP_01 job_id now d
         in if workspaces_ok (workspaces d') \<and> unique_by j_id (job_executions d') then Inr (d', x', True)
            else Inl WorkspaceAlreadyExistsError))))))))"

definition request_workspace_deletion ::
  "uuid \<Rightarrow> uuid \<Rightarrow> instant \<Rightarrow> db \<Rightarrow> (workspace_error, db \<times> workspace) result" where
  "request_workspace_deletion workspace_id job_id now d =
     rbind (lock_workspace workspace_id d) (\<lambda>x.
     rbind (ensure_workspace_available x) (\<lambda>_.
     rbind (workspace_instance (w_instance_id x) d) (\<lambda>_.
     rbind (lock_template (w_template_id x) d) (\<lambda>_.
     rbind (require_remote_template (w_template_id x) (w_instance_id x) d) (\<lambda>_.
       let x' = request_fields ''deleting'' job_id WORKSPACE_DELETE_STEP_01 x
       in Inr (attach_job (RWorkspace x') ''workspace.delete'' WORKSPACE_DELETE_STEP_01_TASK
                 WORKSPACE_DELETE_STEP_01 job_id now d, x'))))))"

definition update_workspace_action ::
  "uuid \<Rightarrow> string \<Rightarrow> string \<Rightarrow> workspace_status \<Rightarrow> db \<Rightarrow> (workspace_error, db \<times> workspace) result" where
  "update_workspace_action workspace_id expected_action action status d =
     (let normalized_action = strip action in
      rbind (guard_that (\<not> (normalized_action = [] \<or> MAX_ACTION_LENGTH < length normalized_action))
               InvalidWorkspaceActionError) (\<lambda>_.
        rbind (require (workspace_of d workspace_id) WorkspaceNotFoundError) (\<lambda>x.
          rbind (guard_that (w_action x = expected_action) WorkspaceActionConflictError) (\<lambda>_.
            let x' = x\<lparr>w_action := normalized_action, w_status := status\<rparr>
            in Inr (save_resource (RWorkspace x') d, x')))))"

section \<open>Parameter resolution: specification\<close>

lemma distinct_user_parameters [simp]: "distinct (map fst (user_parameters t d))"
proof -
  have "distinct (map fst (foldl (\<lambda>m p. dict_set (p_name p) p m) acc ps))"
    if "distinct (map fst acc)" for acc :: "(string, template_parameter) dict" and ps
    using that by (induction ps arbitrary: acc) (simp_all add: distinct_dict_set)
  then show ?thesis by (simp add: user_parameters_def)
qed

definition accepted_parameter ::
  "(string, string) dict \<Rightarrow> (string, string) dict option \<Rightarrow> string \<Rightarrow> template_parameter \<Rightarrow> string option \<Rightarrow> bool" where
  "accepted_parameter supplied previous name p v =
     (parameter_value supplied previous name p = Inr v
      \<and> (v \<noteq> None \<and> immutable_before previous name p \<longrightarrow> map_of (previous_values previous) name = v))"

lemma resolve_each_Inr:
  assumes "resolve_each supplied previous ps resolved = Inr r" and "distinct (map fst ps)"
    and "\<forall>n\<in>set (map fst ps). map_of resolved n = None"
  shows "case map_of ps n of
      None \<Rightarrow> map_of r n = map_of resolved n
    | Some p \<Rightarrow> accepted_parameter supplied previous n p (map_of r n)"
  using assms
proof (induction ps arbitrary: resolved)
  case (Cons np ps)
  obtain m q where np: "np = (m, q)" by (cases np)
  with Cons.prems obtain chosen where ch: "parameter_value supplied previous m q = Inr chosen"
    by (auto simp: rbind_Inr_iff)
  have dist: "distinct (map fst ps)" and m: "m \<notin> set (map fst ps)" using Cons.prems(2) np by simp_all
  have m_none: "map_of ps m = None" using m by (simp add: map_of_eq_None_iff)
  show ?case
  proof (cases chosen)
    case None
    with Cons.prems(1) np ch have rest: "resolve_each supplied previous ps resolved = Inr r" by simp
    have "\<forall>n\<in>set (map fst ps). map_of resolved n = None" using Cons.prems(3) np by simp
    note IH = Cons.IH[OF rest dist this]
    show ?thesis
    proof (cases "n = m")
      case True
      with IH m_none have "map_of r m = map_of resolved m" by simp
      also have "\<dots> = None" using Cons.prems(3) np by simp
      finally show ?thesis using True np ch None by (simp add: accepted_parameter_def)
    next
      case False
      with IH np show ?thesis by simp
    qed
  next
    case (Some v0)
    with Cons.prems(1) np ch have ok: "\<not> (immutable_before previous m q \<and> map_of (previous_values previous) m \<noteq> Some v0)"
      and rest: "resolve_each supplied previous ps (dict_set m v0 resolved) = Inr r"
      by (auto split: if_splits)
    have "\<forall>n\<in>set (map fst ps). map_of (dict_set m v0 resolved) n = None"
      using Cons.prems(3) np m by auto
    note IH = Cons.IH[OF rest dist this]
    show ?thesis
    proof (cases "n = m")
      case True
      with IH m_none have "map_of r m = Some v0" by simp
      with True np ch Some ok show ?thesis by (auto simp: accepted_parameter_def)
    next
      case False
      with IH np show ?thesis by (simp cong: option.case_cong)
    qed
  qed
qed simp

lemma map_of_unlisted:
  "map_of (filter (\<lambda>(name, _). \<not> dict_has by_name name) old) n
     = (if dict_has by_name n then None else map_of old n)"
  by (induction old) auto

text \<open>
  The outcome of a resolution, name by name: an active parameter gets an accepted value, a
  name that the template no longer has keeps its historical value.
\<close>

lemma resolve_parameters_Inr:
  assumes "resolve_parameters t supplied previous d = Inr r"
  shows "case map_of (user_parameters t d) n of
      None \<Rightarrow> map_of r n = map_of (previous_values previous) n
    | Some p \<Rightarrow> accepted_parameter supplied previous n p (map_of r n)"
proof -
  let ?by = "user_parameters t d" and ?old = "previous_values previous"
  have res: "resolve_each supplied previous ?by (filter (\<lambda>(name, _). \<not> dict_has ?by name) ?old) = Inr r"
    using assms by (auto simp: resolve_parameters_def Let_def result_iffs)
  have init: "\<forall>n\<in>set (map fst ?by). map_of (filter (\<lambda>(name, _). \<not> dict_has ?by name) ?old) n = None"
    using dict_has_iff[of ?by] by (fastforce simp: map_of_unlisted map_of_eq_None_iff)
  have has: "dict_has ?by n \<longleftrightarrow> map_of ?by n \<noteq> None" by (rule dict_has_iff)
  note each = resolve_each_Inr[OF res distinct_user_parameters init, of n]
  show ?thesis
  proof (cases "map_of ?by n")
    case None
    with each has show ?thesis by (simp add: map_of_unlisted)
  next
    case (Some p)
    with each show ?thesis by simp
  qed
qed

lemma resolve_keeps_immutable:
  assumes "resolve_parameters t supplied (Some old) d = Inr r"
    and "map_of (user_parameters t d) n = Some p" "p_mutable p = Some False" and "map_of old n = Some v"
  shows "map_of r n = Some v"
proof -
  have imm: "immutable_before (Some old) n p"
    using assms(3,4) by (simp add: immutable_before_def previous_values_def dict_has_iff)
  have acc: "accepted_parameter supplied (Some old) n p (map_of r n)"
    using resolve_parameters_Inr[OF assms(1), of n] assms(2) by simp
  show ?thesis
  proof (cases "map_of supplied n")
    case None
    with acc imm assms(4) show ?thesis
      by (simp add: accepted_parameter_def parameter_value_def previous_values_def)
  next
    case (Some v0)
    with acc imm assms(4) show ?thesis
      by (auto simp: accepted_parameter_def parameter_value_def previous_values_def)
  qed
qed

lemma resolve_sets_required:
  assumes "resolve_parameters t supplied previous d = Inr r"
    and "map_of (user_parameters t d) n = Some p" "p_required p = Some True"
  shows "map_of r n \<noteq> None"
proof
  assume "map_of r n = None"
  then show False
    using resolve_parameters_Inr[OF assms(1), of n] assms(2,3)
    by (auto simp: accepted_parameter_def parameter_value_def immutable_before_def dict_has_iff
        split: option.splits if_splits)
qed

lemma resolve_names:
  assumes "resolve_parameters t supplied previous d = Inr r" and "map_of r n \<noteq> None"
  shows "dict_has (user_parameters t d) n \<or> dict_has (previous_values previous) n"
  using resolve_parameters_Inr[OF assms(1), of n] assms(2) by (auto simp: dict_has_iff split: option.splits)

text \<open>Resolving the outcome of a resolution again changes nothing.\<close>

lemma resolve_each_total:
  assumes "\<forall>(n, p)\<in>set ps. \<exists>v. accepted_parameter supplied previous n p v"
  shows "\<exists>r. resolve_each supplied previous ps resolved = Inr r"
  using assms
proof (induction ps arbitrary: resolved)
  case (Cons np ps)
  obtain n p where np: "np = (n, p)" by (cases np)
  with Cons.prems obtain v where v: "accepted_parameter supplied previous n p v" by auto
  have rest: "\<exists>r. resolve_each supplied previous ps res = Inr r" for res
    using Cons.IH Cons.prems by simp
  show ?case
  proof (cases v)
    case None
    with v np rest show ?thesis by (simp add: accepted_parameter_def)
  next
    case (Some v0)
    with v np rest[of "dict_set n v0 resolved"] show ?thesis by (auto simp: accepted_parameter_def)
  qed
qed simp

lemma resolve_each_distinct:
  "resolve_each supplied previous ps resolved = Inr r \<Longrightarrow> distinct (map fst resolved) \<Longrightarrow> distinct (map fst r)"
proof (induction ps arbitrary: resolved)
  case (Cons np ps)
  obtain n p where np: "np = (n, p)" by (cases np)
  with Cons show ?case
    by (auto simp: rbind_Inr_iff distinct_dict_set split: option.splits if_splits)
qed simp

lemma resolve_parameters_distinct:
  assumes "resolve_parameters t supplied previous d = Inr r" and "distinct (map fst (previous_values previous))"
  shows "distinct (map fst r)"
  using assms distinct_map_filter[of fst]
  by (auto simp: resolve_parameters_def Let_def result_iffs intro: resolve_each_distinct)

lemma resolve_parameters_stable:
  assumes res: "resolve_parameters t supplied previous d = Inr r"
    and keys: "distinct (map fst (previous_values previous))"
  shows "\<exists>r'. resolve_parameters t r (Some r) d = Inr r' \<and> dict_eq r r'"
proof -
  let ?by = "user_parameters t d"
  have acc: "accepted_parameter r (Some r) n p (map_of r n)" if "map_of ?by n = Some p" for n p
  proof -
    have old: "accepted_parameter supplied previous n p (map_of r n)"
      using resolve_parameters_Inr[OF res, of n] that by simp
    show ?thesis
    proof (cases "map_of r n")
      case None
      with old have "p_default_value p = None" "p_required p \<noteq> Some True"
        by (auto simp: accepted_parameter_def parameter_value_def immutable_before_def dict_has_iff
            split: option.splits if_splits)
      with None show ?thesis
        by (simp add: accepted_parameter_def parameter_value_def immutable_before_def previous_values_def
            dict_has_iff)
    next
      case (Some v0)
      then show ?thesis
        by (simp add: accepted_parameter_def parameter_value_def previous_values_def)
    qed
  qed
  have "\<forall>(n, p)\<in>set ?by. \<exists>v. accepted_parameter r (Some r) n p v"
    using acc map_of_is_SomeI[OF distinct_user_parameters] by blast
  then obtain r' where r': "resolve_each r (Some r) ?by (filter (\<lambda>(name, _). \<not> dict_has ?by name) r) = Inr r'"
    using resolve_each_total by blast
  have "list_all (\<lambda>(name, value). \<not> (\<not> dict_has ?by name
                    \<and> (\<not> dict_has r name \<or> map_of r name \<noteq> Some value))) r"
    using map_of_is_SomeI[OF resolve_parameters_distinct[OF res keys]]
    by (auto simp: list_all_iff dict_has_iff)
  with r' have eq: "resolve_parameters t r (Some r) d = Inr r'"
    by (simp add: resolve_parameters_def Let_def previous_values_def)
  have "map_of r' n = map_of r n" for n
    using resolve_parameters_Inr[OF eq, of n] acc[of n]
    by (auto simp: accepted_parameter_def previous_values_def split: option.splits)
  then have "dict_eq r r'" by (auto simp: dict_eq_iff)
  with eq show ?thesis by blast
qed

section \<open>What the requests commit\<close>

lemma resource_actions_workspace [simp]:
  "map_of RESOURCE_ACTIONS ''workspace.create'' = Some ''creating''"
  "map_of RESOURCE_ACTIONS ''workspace.update'' = Some ''updating''"
  "map_of RESOURCE_ACTIONS ''workspace.delete'' = Some ''deleting''"
  by (simp_all add: RESOURCE_ACTIONS_def)

lemma request_fields_simps [simp]:
  "w_id (request_fields a k s x) = w_id x" "w_action (request_fields a k s x) = a"
  "w_status (request_fields a k s x) = PENDING" "w_job_id (request_fields a k s x) = Some k"
  "w_step (request_fields a k s x) = Some s" "w_name (request_fields a k s x) = w_name x"
  "w_image_id (request_fields a k s x) = w_image_id x" "w_modules (request_fields a k s x) = w_modules x"
  "w_parameters (request_fields a k s x) = w_parameters x"
  "w_parameters_revision (request_fields a k s x) = w_parameters_revision x"
  by (simp_all add: request_fields_def)

lemma attach_workspace:
  assumes "workspace_of d k = Some x" and "w_id x' = k" and "job_of d jk = None"
    and "requests_job (RWorkspace x') name jk step"
  shows "sys_run d (attach_job (RWorkspace x') name task step jk now d)"
    and "claimable (attach_job (RWorkspace x') name task step jk now d) jk task"
    and "workspace_of (attach_job (RWorkspace x') name task step jk now d) k = Some x'"
proof -
  have look: "lookup_resource (resource_kind (RWorkspace x')) (resource_key (RWorkspace x')) d \<noteq> None"
    using assms(1,2) by (simp add: lookup_resource_def)
  show "sys_run d (attach_job (RWorkspace x') name task step jk now d)"
    using txn_attach_job[OF look assms(3,4)] by blast
  show "claimable (attach_job (RWorkspace x') name task step jk now d) jk task"
    by (rule claimable_attach_job[OF look assms(3,4)])
  show "workspace_of (attach_job (RWorkspace x') name task step jk now d) k = Some x'"
    using assms(1,2) by (simp add: attach_job_def)
qed

lemma create_workspace_Inr:
  assumes "create_workspace payload k jk now d = Inr (d', x)"
  shows "sys_run d d'" and "claimable d' jk WORKSPACE_CREATE_STEP_01_TASK"
    and "workspaces_ok (workspaces d')"
    and "\<exists>i t m. instance_of d (w_instance_id x) = Some i \<and> i_status i = SUCCESS
       \<and> template_of d (w_template_id x) = Some t \<and> set (w_modules x) \<subseteq> set (t_modules t)
       \<and> member_of d (w_member_id x) = Some m \<and> m_instance_id m = w_instance_id x \<and> m_status m = SUCCESS
       \<and> resolve_parameters (w_template_id x) (wu_parameters payload) None d = Inr (w_parameters x)"
proof -
  obtain i t m where refs: "instance_of d (wc_instance_id payload) = Some i" "i_status i = SUCCESS"
      "template_of d (wc_template_id payload) = Some t" "set (wu_modules payload) \<subseteq> set (t_modules t)"
      "member_of d (wc_member_id payload) = Some m" "m_instance_id m = i_id i" "m_status m = SUCCESS"
      "resolve_parameters (t_id t) (wu_parameters payload) None d = Inr (w_parameters x)"
    and x: "w_id x = k" "w_instance_id x = i_id i" "w_template_id x = t_id t"
      "w_member_id x = wc_member_id payload" "w_modules x = wu_modules payload"
      "requests_job (RWorkspace x) ''workspace.create'' jk WORKSPACE_CREATE_STEP_01"
    and d': "d' = insert_with_job (RWorkspace x) ''workspace.create'' WORKSPACE_CREATE_STEP_01_TASK
                  WORKSPACE_CREATE_STEP_01 jk now d"
      "workspaces_ok (workspaces d')" "unique_by j_id (job_executions d')"
    using assms
    by (auto simp: create_workspace_def result_iffs workspace_instance_def lock_template_def
        validate_owner_def validate_modules_def requests_job_def Let_def split: if_splits)
  have ids: "i_id i = wc_instance_id payload" "t_id t = wc_template_id payload"
    using select_row_key[OF refs(1)] select_row_key[OF refs(3)] by simp_all
  have fresh: "job_of d jk = None" "workspace_of d k = None"
    using d' x(1) by (auto simp: insert_with_job_def workspaces_ok_def select_row_None)
  have look: "lookup_resource (resource_kind (RWorkspace x)) (resource_key (RWorkspace x)) d = None"
    using fresh(2) x(1) by (simp add: lookup_resource_def)
  show "sys_run d d'" unfolding d'(1) using txn_insert_with_job[OF look fresh(1) x(6)] by blast
  show "claimable d' jk WORKSPACE_CREATE_STEP_01_TASK"
    unfolding d'(1) by (rule claimable_insert_with_job[OF look fresh(1) x(6)])
  show "workspaces_ok (workspaces d')" by (rule d'(2))
  show "\<exists>i t m. instance_of d (w_instance_id x) = Some i \<and> i_status i = SUCCESS
       \<and> template_of d (w_template_id x) = Some t \<and> set (w_modules x) \<subseteq> set (t_modules t)
       \<and> member_of d (w_member_id x) = Some m \<and> m_instance_id m = w_instance_id x \<and> m_status m = SUCCESS
       \<and> resolve_parameters (w_template_id x) (wu_parameters payload) None d = Inr (w_parameters x)"
    using refs x ids by auto
qed

text \<open>An update either changes nothing or stages a job; the revision counts parameter changes.\<close>

lemma apply_workspace_update_fields [simp]:
  "w_id (apply_workspace_update u ps x) = w_id x"
  "w_name (apply_workspace_update u ps x) = wu_name u"
  "w_image_id (apply_workspace_update u ps x) = wu_image_id u"
  "w_modules (apply_workspace_update u ps x) = wu_modules u"
  "w_parameters (apply_workspace_update u ps x) = (if dict_eq (w_parameters x) ps then w_parameters x else ps)"
  "w_parameters_revision (apply_workspace_update u ps x)
     = w_parameters_revision x + (if dict_eq (w_parameters x) ps then 0 else 1)"
  by (simp_all add: apply_workspace_update_def Let_def)

lemma update_workspace_Inr:
  assumes "update_workspace k payload jk now d = Inr (d', x', changed)"
  shows "\<exists>x parameters. workspace_of d k = Some x \<and> w_status x \<notin> {PENDING, RUNNING}
    \<and> resolve_parameters (w_template_id x) (wu_parameters payload) (Some (w_parameters x)) d = Inr parameters
    \<and> (if changed
       then x' = request_fields ''updating'' jk WORKSPACE_UPDATE_STEP_01 (apply_workspace_update payload parameters x)
          \<and> d' = attach_job (RWorkspace x') ''workspace.update'' WORKSPACE_UPDATE_STEP_01_TASK
                 WORKSPACE_UPDATE_STEP_01 jk now d
          \<and> workspaces_ok (workspaces d') \<and> unique_by j_id (job_executions d')
       else d' = d \<and> x' = x \<and> w_status x = SUCCESS \<and> \<not> workspace_changed payload parameters x)"
proof -
  obtain x t where x: "workspace_of d k = Some x" "w_status x \<notin> {PENDING, RUNNING}"
    and t: "template_of d (w_template_id x) = Some t"
    using assms by (auto simp: update_workspace_def result_iffs lock_workspace_def ensure_workspace_available_def
        lock_template_def)
  have "t_id t = w_template_id x" using t by (rule select_row_key)
  with assms x t show ?thesis
    by (auto simp: update_workspace_def result_iffs lock_workspace_def ensure_workspace_available_def
        lock_template_def Let_def split: if_splits)
qed

lemma update_workspace_changed:
  assumes "update_workspace k payload jk now d = Inr (d', x', True)"
  shows "sys_run d d'" and "claimable d' jk WORKSPACE_UPDATE_STEP_01_TASK"
    and "workspace_of d' k = Some x'" and "workspaces_ok (workspaces d')"
proof -
  obtain x ps where x: "workspace_of d k = Some x"
    and x': "x' = request_fields ''updating'' jk WORKSPACE_UPDATE_STEP_01 (apply_workspace_update payload ps x)"
    and d': "d' = attach_job (RWorkspace x') ''workspace.update'' WORKSPACE_UPDATE_STEP_01_TASK
                 WORKSPACE_UPDATE_STEP_01 jk now d"
      "workspaces_ok (workspaces d')" "unique_by j_id (job_executions d')"
    using update_workspace_Inr[OF assms] by auto
  have "job_of d jk = None" using d'(1,3) by (auto simp: attach_job_def select_row_None)
  moreover have "w_id x' = k" using x' select_row_key[OF x] by simp
  moreover have "requests_job (RWorkspace x') ''workspace.update'' jk WORKSPACE_UPDATE_STEP_01"
    by (simp add: requests_job_def x')
  ultimately show "sys_run d d'" and "claimable d' jk WORKSPACE_UPDATE_STEP_01_TASK"
    and "workspace_of d' k = Some x'"
    unfolding d'(1) using attach_workspace[OF x] by blast+
  show "workspaces_ok (workspaces d')" by (rule d'(2))
qed

lemma request_workspace_deletion_Inr:
  assumes "request_workspace_deletion k jk now d = Inr (d', x')" and "job_of d jk = None"
  shows "sys_run d d'" and "claimable d' jk WORKSPACE_DELETE_STEP_01_TASK"
    and "workspace_of d' k = Some x'" and "w_action x' = ''deleting'' \<and> w_status x' = PENDING"
proof -
  obtain x where x: "workspace_of d k = Some x"
    and x': "x' = request_fields ''deleting'' jk WORKSPACE_DELETE_STEP_01 x"
    and d': "d' = attach_job (RWorkspace x') ''workspace.delete'' WORKSPACE_DELETE_STEP_01_TASK
                 WORKSPACE_DELETE_STEP_01 jk now d"
    using assms(1) by (auto simp: request_workspace_deletion_def result_iffs lock_workspace_def Let_def)
  have "w_id x' = k" using x' select_row_key[OF x] by simp
  moreover have "requests_job (RWorkspace x') ''workspace.delete'' jk WORKSPACE_DELETE_STEP_01"
    by (simp add: requests_job_def x')
  ultimately show "sys_run d d'" and "claimable d' jk WORKSPACE_DELETE_STEP_01_TASK"
    and "workspace_of d' k = Some x'"
    unfolding d' using attach_workspace[OF x _ assms(2)] by blast+
  show "w_action x' = ''deleting'' \<and> w_status x' = PENDING" by (simp add: x')
qed

text \<open>A workspace whose action is in progress refuses both requests.\<close>

lemma busy_workspace_refuses:
  assumes "workspace_of d k = Some x" and "w_status x \<in> {PENDING, RUNNING}"
  shows "update_workspace k payload jk now d = Inl WorkspaceBusyError"
    and "request_workspace_deletion k jk now d = Inl WorkspaceBusyError"
  using assms by (auto simp: update_workspace_def request_workspace_deletion_def lock_workspace_def
      ensure_workspace_available_def)

end
