(* ===== verification/Directory.thy ===== *)
theory Directory
  imports Instance_Facts Workspaces
begin

text \<open>
  Members and workspaces together. The foreign key of a workspace to its member cascades, so
  a member row that an update deletes would silently take workspaces with it. The guards of
  the two repositories and the update steps exclude this: nobody on the way out owns a
  workspace, in any interleaving of their transactions.
\<close>

section \<open>Membership requests\<close>

text \<open>The three accepted changes of membership, with what they return.\<close>

inductive member_request :: "uuid \<Rightarrow> uuid \<Rightarrow> instant \<Rightarrow> db \<Rightarrow> db \<Rightarrow> member \<Rightarrow> uuid option \<Rightarrow> bool"
  for k jk now d where
  create: "create_member k payload mk jk now d = Inr (d', m, enqueued) \<Longrightarrow> member_request k jk now d d' m enqueued"
| change: "update_role k mk role jk now d = Inr (d', m, True, enqueued) \<Longrightarrow> member_request k jk now d d' m enqueued"
| remove: "request_member_deletion k mk protected jk now d = Inr (d', m, enqueued)
    \<Longrightarrow> member_request k jk now d d' m enqueued"

lemma in_replaced_row:
  "select_row key k rows = Some r \<Longrightarrow> key x = k \<Longrightarrow> x \<in> set (replace_row key x rows)"
  by (blast dest: select_replace_row_same select_row_mem)

lemma member_request_pending:
  assumes "member_request k jk now d d' m enqueued" and "job_of d jk = None"
  shows "update_pending d' k enqueued" and "sys_run d d'" and "m \<in> set (members d')"
    and "m_instance_id m = k" and "m_status m = PENDING"
proof -
  have "update_pending d' k enqueued \<and> sys_run d d' \<and> m \<in> set (members d') \<and> m_instance_id m = k \<and> m_status m = PENDING"
    using assms
  proof (induction rule: member_request.induct)
    case (create payload mk d' m enqueued)
    note c = create_member_Inr[OF create(1) assms(2)]
    show ?case using c(1,3) by (simp add: c(2)) (simp add: c(4))
  next
    case (change mk role d' m enqueued)
    obtain m0 where m0: "member_of d mk = Some m0" "m_instance_id m0 = k"
        "m = m0\<lparr>m_role := role, m_action := ''updating'', m_status := PENDING\<rparr>"
        "members d' = replace_row m_id m (members d)"
      using update_role_Inr(3)[OF change(1) assms(2)] by blast
    have "m_id m = mk" using m0 select_row_key[OF m0(1)] by simp
    with m0 update_role_Inr(1,2)[OF change(1) assms(2)] show ?case by (simp add: in_replaced_row[OF m0(1)])
  next
    case (remove mk protected d' m enqueued)
    obtain m0 where m0: "member_of d mk = Some m0" "m_instance_id m0 = k"
        "m = m0\<lparr>m_action := ''deleting'', m_status := PENDING\<rparr>"
        "members d' = replace_row m_id m (members d)"
      using request_member_deletion_Inr(3)[OF remove(1) assms(2)] by blast
    have "m_id m = mk" using m0 select_row_key[OF m0(1)] by simp
    with m0 request_member_deletion_Inr(1,2)[OF remove(1) assms(2)] show ?case
      by (simp add: in_replaced_row[OF m0(1)])
  qed
  then show "update_pending d' k enqueued" "sys_run d d'" "m \<in> set (members d')"
    "m_instance_id m = k" "m_status m = PENDING" by blast+
qed

text \<open>The first update step claims every member that is not settled.\<close>

lemma claim_members_takes:
  assumes "claim_members c base d = Inr (d2, snap)" and "c_resource_id c = Some k"
    and "m \<in> set (members d)" "m_instance_id m = k" "m_status m \<in> {PENDING, RUNNING, ERROR}"
  shows "m_id m \<in> set (ms_member_ids snap)"
    and "m_action m \<noteq> ''deleting'' \<Longrightarrow> (m_username m, role_value (m_role m)) \<in> set (ms_members snap)"
    and "m\<lparr>m_status := RUNNING\<rparr> \<in> set (members d2)"
  using assms by (auto simp: claim_members_def result_iffs get_claimed_instance_Inr Let_def
      set_member_status_def update_where_def)

section \<open>The invariant\<close>

definition directory_inv :: "db \<Rightarrow> bool" where
  "directory_inv d = (unique_by m_id (members d)
     \<and> (\<forall>m\<in>set (members d). m_action m = ''deleting'' \<longrightarrow>
          m_status m \<noteq> SUCCESS \<and> m_id m \<notin> w_member_id ` set (workspaces d)))"

lemma directory_inv_empty [simp]: "directory_inv empty_db"
  by (simp add: directory_inv_def empty_db_def unique_by_def)

text \<open>Rows may go, statuses may change short of success, and owners may go.\<close>

lemma directory_inv_weaken:
  assumes inv: "directory_inv d" and uniq: "unique_by m_id (members d')"
    and origin: "\<And>m'. m' \<in> set (members d') \<Longrightarrow> m_action m' = ''deleting'' \<Longrightarrow>
      m_status m' \<noteq> SUCCESS \<and> (\<exists>m\<in>set (members d). m_id m = m_id m' \<and> m_action m = ''deleting'')"
    and owners: "w_member_id ` set (workspaces d') \<subseteq> w_member_id ` set (workspaces d)"
  shows "directory_inv d'"
  unfolding directory_inv_def
proof (intro conjI ballI impI)
  show "unique_by m_id (members d')" by (rule uniq)
next
  fix m' assume m': "m' \<in> set (members d')" "m_action m' = ''deleting''"
  show "m_status m' \<noteq> SUCCESS" using origin[OF m'] by blast
  obtain m where "m \<in> set (members d)" "m_id m = m_id m'" "m_action m = ''deleting''" using origin[OF m'] by blast
  with inv owners show "m_id m' \<notin> w_member_id ` set (workspaces d')" unfolding directory_inv_def by force
qed

inductive directory_step :: "db \<Rightarrow> db \<Rightarrow> bool" where
  create_member: "create_member k payload mk jk now d = Inr (d', m, enqueued) \<Longrightarrow> directory_step d d'"
| update_role: "update_role k mk role jk now d = Inr (d', m, changed, enqueued) \<Longrightarrow> directory_step d d'"
| request_member_deletion: "request_member_deletion k mk protected jk now d = Inr (d', m, enqueued)
    \<Longrightarrow> directory_step d d'"
| claim_members: "claim_members c base d = Inr (d', snap) \<Longrightarrow> directory_step d d'"
| claim_cleanup: "claim_cleanup c d = Inr (d', ids, expected, app) \<Longrightarrow> directory_step d d'"
| fail_members: "directory_step d (fail_members ids d)"
| defer_members: "directory_step d (defer_members ids d)"
| finalize_update: "finalize_update c ids name jk now d = Inr (d', outcome) \<Longrightarrow> directory_step d d'"
| remove_local_configuration: "remove_local_configuration c now d = Inr (d', outcome) \<Longrightarrow> directory_step d d'"
| create_workspace: "create_workspace wp k jk now d = Inr (d', x) \<Longrightarrow> directory_step d d'"
| update_workspace: "update_workspace k wu jk now d = Inr (d', x, changed) \<Longrightarrow> directory_step d d'"
| request_workspace_deletion: "request_workspace_deletion k jk now d = Inr (d', x) \<Longrightarrow> directory_step d d'"
| elsewhere: "members d' = members d \<Longrightarrow> w_member_id ` set (workspaces d') \<subseteq> w_member_id ` set (workspaces d)
    \<Longrightarrow> directory_step d d'"

section \<open>Every transaction keeps it\<close>

text \<open>What the transactions of the update steps do to the member and workspace tables.\<close>

lemma in_set_member_status:
  "m' \<in> set (members (set_member_status p s d)) \<longleftrightarrow>
     (\<exists>m\<in>set (members d). m' = (if p m then m\<lparr>m_status := s\<rparr> else m))"
  by (auto simp: set_member_status_def update_where_def)

lemma unique_set_member_status [simp]:
  "unique_by m_id (members (set_member_status p s d)) = unique_by m_id (members d)"
  by (simp add: set_member_status_def update_where_def unique_by_def comp_def if_distrib cong: if_cong)

lemma directory_inv_set_status:
  assumes "directory_inv d" and "s \<noteq> SUCCESS"
  shows "directory_inv (set_member_status p s d)"
  using assms(1)
proof (rule directory_inv_weaken)
  show "unique_by m_id (members (set_member_status p s d))" using assms(1) by (simp add: directory_inv_def)
  show "m_status m' \<noteq> SUCCESS \<and> (\<exists>m\<in>set (members d). m_id m = m_id m' \<and> m_action m = ''deleting'')"
    if in_rows: "m' \<in> set (members (set_member_status p s d))" and act: "m_action m' = ''deleting''" for m'
  proof -
    obtain m :: member where m: "m \<in> set (members d)" "m' = (if p m then m\<lparr>m_status := s\<rparr> else m)"
      using in_rows unfolding in_set_member_status by blast
    with act assms show ?thesis by (auto simp: directory_inv_def split: if_splits)
  qed
qed (simp add: set_member_status_def)

lemma directory_inv_eq:
  "members d' = members d \<Longrightarrow> w_member_id ` set (workspaces d') \<subseteq> w_member_id ` set (workspaces d)
    \<Longrightarrow> directory_inv d \<Longrightarrow> directory_inv d'"
  unfolding directory_inv_def by auto

lemma enqueue_update_rows [simp]:
  "members (fst (enqueue_update i jk now d)) = members d"
  "workspaces (fst (enqueue_update i jk now d)) = workspaces d"
  by (simp_all add: enqueue_update_def request_instance_update_def stage_instance_update_job_def Let_def)

lemma attach_instance_job_rows [simp]:
  "members (fst (attach_instance_job i a n t s jk now d)) = members d"
  "workspaces (fst (attach_instance_job i a n t s jk now d)) = workspaces d"
  by (simp_all add: attach_instance_job_def Let_def)

text \<open>Nobody who is settled for deletion owns a workspace, so the cascade removes none.\<close>

lemma settle_keeps_workspaces:
  assumes "directory_inv d"
  shows "workspaces (settle_members k ids d) = workspaces d"
proof -
  have "w_member_id x \<notin> m_id ` {m \<in> set (members d). (owned_member ids m \<and> m_instance_id m = k) \<and> m_action m = ''deleting''}"
    if "x \<in> set (workspaces d)" for x
    using assms that unfolding directory_inv_def by force
  then show ?thesis
    by (auto simp: settle_members_def delete_members_where_def set_member_status_def Let_def
        delete_workspaces_where_def delete_where_def intro!: filter_True)
qed

lemma directory_inv_settle:
  assumes "directory_inv d"
  shows "directory_inv (settle_members k ids d)"
  using assms
proof (rule directory_inv_weaken)
  show "unique_by m_id (members (settle_members k ids d))"
    using assms by (simp add: settle_members_def Let_def directory_inv_def delete_members_where_def)
  show "m_status m' \<noteq> SUCCESS \<and> (\<exists>m\<in>set (members d). m_id m = m_id m' \<and> m_action m = ''deleting'')"
    if "m' \<in> set (members (settle_members k ids d))" "m_action m' = ''deleting''" for m'
    using that assms unfolding in_settle_members directory_inv_def by (auto split: if_splits)
qed (simp add: settle_keeps_workspaces[OF assms])

lemma directory_inv_finalize:
  assumes "finalize_update c ids name jk now d = Inr (d', outcome)" and "directory_inv d"
  shows "directory_inv d'"
proof -
  have "d' = d \<or> (\<exists>k. members d' = members (settle_members k ids d)
      \<and> workspaces d' = workspaces (settle_members k ids d))"
    using assms(1)
    by (auto simp: finalize_update_def Let_def split: option.splits resource.splits if_splits) blast+
  with assms(2) directory_inv_settle[OF assms(2)] show ?thesis by (auto intro: directory_inv_eq)
qed

lemma directory_inv_remove:
  assumes "remove_local_configuration c now d = Inr (d', outcome)" and "directory_inv d"
  shows "directory_inv d'"
proof -
  have sub: "set (workspaces d') \<subseteq> set (workspaces d)" "set (members d') \<subseteq> set (members d)"
    "unique_by m_id (members d')"
    using assms
    by (auto simp: remove_local_configuration_def delete_instance_row_def delete_members_where_def
        delete_workspaces_where_def delete_assignments_where_def delete_where_def Let_def
        unique_by_def distinct_map_filter directory_inv_def split: option.splits resource.splits if_splits)
  from assms(2) show ?thesis
    by (rule directory_inv_weaken) (use sub assms(2) in \<open>auto simp: directory_inv_def\<close>)
qed

text \<open>The requests.\<close>

lemma directory_inv_save_member:
  assumes inv: "directory_inv d" and m: "member_of d mk = Some m" and id: "m_id m' = mk"
    and ok: "m_action m' = ''deleting'' \<Longrightarrow> m_status m' \<noteq> SUCCESS \<and> mk \<notin> w_member_id ` set (workspaces d)"
    and rows: "members d' = replace_row m_id m' (members d)" "workspaces d' = workspaces d"
  shows "directory_inv d'"
  using assms unfolding directory_inv_def rows by (auto dest!: in_replace_row)

lemma directory_inv_create_member:
  assumes "create_member k payload mk jk now d = Inr (d', m, enqueued)" and "directory_inv d"
  shows "directory_inv d'"
proof -
  obtain m0 where "members d' = members d @ [m0]" "m_action m0 = ''creating''" "workspaces d' = workspaces d"
      "members_ok (members d')"
    using assms(1) by (auto simp: create_member_def rbind_Inr_iff Let_def split_beta insert_row_def split: if_splits)
  with assms(2) show ?thesis by (auto simp: directory_inv_def members_ok_def)
qed

lemma directory_inv_update_role:
  assumes "update_role k mk role jk now d = Inr (d', m', changed, enqueued)" and "directory_inv d"
  shows "directory_inv d'"
proof (cases "d' = d")
  case False
  then obtain m where m: "member_of d mk = Some m"
      "m' = m\<lparr>m_role := role, m_action := ''updating'', m_status := PENDING\<rparr>"
      "members d' = replace_row m_id m' (members d)" "workspaces d' = workspaces d"
    using assms(1) by (auto simp: update_role_def result_iffs lock_member_Inr Let_def split_beta save_member_def
        split: if_splits)
  then show ?thesis using directory_inv_save_member[OF assms(2) m(1), of m'] select_row_key[OF m(1)] by simp
qed (use assms(2) in simp)

lemma directory_inv_request_member_deletion:
  assumes "request_member_deletion k mk protected jk now d = Inr (d', m', enqueued)" and "directory_inv d"
  shows "directory_inv d'"
proof -
  obtain m where m: "member_of d mk = Some m" "m' = m\<lparr>m_action := ''deleting'', m_status := PENDING\<rparr>"
      "members d' = replace_row m_id m' (members d)" "workspaces d' = workspaces d"
      "\<not> exists_row (\<lambda>x. w_member_id x = m_id m) (workspaces d)"
    using assms(1) by (auto simp: request_member_deletion_def result_iffs lock_member_Inr Let_def split_beta
        save_member_def)
  have id: "m_id m = mk" using m(1) by (rule select_row_key)
  show ?thesis
    by (rule directory_inv_save_member[OF assms(2) m(1) _ _ m(3,4)])
       (use m id in \<open>auto simp: exists_row_iff\<close>)
qed

lemma directory_inv_create_workspace:
  assumes "create_workspace payload k jk now d = Inr (d', x)" and inv: "directory_inv d"
  shows "directory_inv d'"
proof -
  have rows: "members d' = members d" "workspaces d' = workspaces d @ [x]"
    using assms(1) by (auto simp: create_workspace_def result_iffs Let_def insert_with_job_def insert_row_def
        split: if_splits)
  obtain m where m: "member_of d (w_member_id x) = Some m" "m_status m = SUCCESS"
    using create_workspace_Inr(4)[OF assms(1)] by blast
  have "m' = m" if "m' \<in> set (members d)" "m_id m' = w_member_id x" for m'
    using that m(1) select_row_unique[of m_id "members d"] inv by (metis directory_inv_def option.inject)
  with inv m rows show ?thesis unfolding directory_inv_def by auto
qed

lemma replace_row_owner:
  assumes "workspace_of d k = Some x" and "w_id x' = k" and "w_member_id x' = w_member_id x"
  shows "w_member_id ` set (replace_row w_id x' (workspaces d)) \<subseteq> w_member_id ` set (workspaces d)"
  using assms select_row_mem[OF assms(1)] by (auto dest!: in_replace_row)

lemma directory_inv_workspace_request:
  assumes "workspace_of d k = Some x" and "w_id x' = k" and "w_member_id x' = w_member_id x" and "directory_inv d"
  shows "directory_inv (attach_job (RWorkspace x') name task step jk now d)"
  using assms(4) by (rule directory_inv_eq[rotated 2]) (use replace_row_owner[OF assms(1-3)] in \<open>simp_all add: attach_job_def\<close>)

lemma directory_inv_update_workspace:
  assumes "update_workspace k u jk now d = Inr (d', x', changed)" and "directory_inv d"
  shows "directory_inv d'"
proof -
  obtain x ps where x: "workspace_of d k = Some x"
    and out: "if changed
       then x' = request_fields ''updating'' jk WORKSPACE_UPDATE_STEP_01 (apply_workspace_update u ps x)
          \<and> d' = attach_job (RWorkspace x') ''workspace.update'' WORKSPACE_UPDATE_STEP_01_TASK
                 WORKSPACE_UPDATE_STEP_01 jk now d
       else d' = d"
    using update_workspace_Inr[OF assms(1)] by (cases changed) auto
  show ?thesis
  proof (cases changed)
    case True
    with out have "w_id x' = k" "w_member_id x' = w_member_id x"
      using select_row_key[OF x] by (simp_all add: request_fields_def apply_workspace_update_def Let_def)
    with directory_inv_workspace_request[OF x _ _ assms(2)] out True show ?thesis by simp
  qed (use out assms(2) in simp)
qed

lemma directory_inv_request_workspace_deletion:
  assumes "request_workspace_deletion k jk now d = Inr (d', x')" and "directory_inv d"
  shows "directory_inv d'"
proof -
  obtain x where x: "workspace_of d k = Some x"
    and out: "x' = request_fields ''deleting'' jk WORKSPACE_DELETE_STEP_01 x"
      "d' = attach_job (RWorkspace x') ''workspace.delete'' WORKSPACE_DELETE_STEP_01_TASK
                 WORKSPACE_DELETE_STEP_01 jk now d"
    using assms(1) by (auto simp: request_workspace_deletion_def result_iffs lock_workspace_def Let_def)
  then show ?thesis
    using directory_inv_workspace_request[OF x _ _ assms(2)] select_row_key[OF x] by (simp add: request_fields_def)
qed

lemma directory_inv_claims:
  "claim_members c base d = Inr (d', snap) \<Longrightarrow> directory_inv d \<Longrightarrow> directory_inv d'"
  "claim_cleanup c d = Inr (d', x) \<Longrightarrow> directory_inv d \<Longrightarrow> directory_inv d'"
  "directory_inv d \<Longrightarrow> directory_inv (fail_members ids d)"
  "directory_inv d \<Longrightarrow> directory_inv (defer_members ids d)"
  by (auto simp: claim_members_def claim_cleanup_def fail_members_def defer_members_def rbind_Inr_iff Let_def
      intro: directory_inv_set_status split: option.splits if_splits)

lemma directory_inv_step: "directory_step d d' \<Longrightarrow> directory_inv d \<Longrightarrow> directory_inv d'"
  by (induction rule: directory_step.induct)
     (auto intro: directory_inv_create_member directory_inv_update_role directory_inv_request_member_deletion
       directory_inv_claims directory_inv_finalize directory_inv_remove directory_inv_create_workspace
       directory_inv_update_workspace directory_inv_request_workspace_deletion directory_inv_eq)

interpretation directory: invariant_system directory_step directory_inv
  by unfold_locales (rule directory_inv_step)

end
