(* ===== verification/Samples.thy ===== *)
theory Samples
  imports Directory
begin

text \<open>
  Concrete stores, claims and environments: small but complete inputs on which the
  properties are exercised.
\<close>

definition sample_instance :: inst where
  "sample_instance = \<lparr>i_id = 7, i_application = ''APP'', i_slug = ''abc'', i_action = ''stopping'',
     i_status = PENDING, i_state = STARTED, i_password_enc = Some [1], i_password_candidate_enc = None,
     i_argocd_application_name = Some ''coder-abc'', i_job_id = Some 1,
     i_step = Some INSTANCE_STOP_STEP_02\<rparr>"

definition sample_job :: job_execution where
  "sample_job = \<lparr>j_id = 1, j_name = ''instance.stop'', j_task_name = INSTANCE_STOP_STEP_02_TASK,
     j_resource_type = Some ''instance'', j_resource_id = Some 7, j_step = INSTANCE_STOP_STEP_02,
     j_status = PENDING, j_attempt = 0, j_claimed_at = None, j_created_at = 0, j_updated_at = 0\<rparr>"

definition sample_db :: db where
  "sample_db = empty_db\<lparr>job_executions := [sample_job], instances := [sample_instance]\<rparr>"

definition sample_claimed :: db where
  "sample_claimed = fst (claim_execution 1 INSTANCE_STOP_STEP_02_TASK 10 sample_db)"

definition sample_claim :: "int \<Rightarrow> execution_claim" where
  "sample_claim n = \<lparr>c_job_id = 1, c_task_name = INSTANCE_STOP_STEP_02_TASK,
     c_step = INSTANCE_STOP_STEP_02, c_attempt = n, c_resource_type = Some ''instance'',
     c_resource_id = Some 7\<rparr>"

definition sample_reclaimed :: db where
  "sample_reclaimed = fst (prepare_execution_retry 1 10 20 sample_claimed)"

definition sample_claimed_again :: db where
  "sample_claimed_again = fst (claim_execution 1 INSTANCE_STOP_STEP_02_TASK 30 sample_reclaimed)"

lemma sample_claims:
  "claim_execution 1 INSTANCE_STOP_STEP_02_TASK 10 sample_db = (sample_claimed, Some (sample_claim 1))"
  "claim_execution 1 INSTANCE_STOP_STEP_02_TASK 30 sample_reclaimed
     = (sample_claimed_again, Some (sample_claim 2))"
  by code_simp+

text \<open>An environment in which nobody interferes, every service answers and every cipher is the identity.\<close>

definition text_bytes :: "string \<Rightarrow> bytes" where
  "text_bytes s = map (\<lambda>c. word_of_nat (of_char c)) s"

definition bytes_text :: "bytes \<Rightarrow> string" where
  "bytes_text b = map (\<lambda>w. char_of (unat w)) b"

lemma bytes_text_roundtrip [simp]: "bytes_text (text_bytes s) = s"
proof -
  have "char_of (unat (word_of_nat (of_char c) :: 8 word)) = c" for c :: char
  proof -
    have "(of_char c :: nat) < 256" by simp
    then have "unat (word_of_nat (of_char c) :: 8 word) = of_char c"
      by (simp add: unsigned_of_nat take_bit_eq_mod)
    then show ?thesis by simp
  qed
  then show ?thesis by (simp add: bytes_text_def text_bytes_def comp_def)
qed

definition sample_celery :: celery where
  "sample_celery = \<lparr>task_loaded = (\<lambda>_. True), delay_succeeds = (\<lambda>_ _. True)\<rparr>"

definition sample_env :: env where
  "sample_env = \<lparr>e_celery = sample_celery, e_clock = (\<lambda>n. 100 + int n), e_during = (\<lambda>_ w. w),
     e_beats = (\<lambda>_. 1), e_uuid4 = 99, e_base_domain = Inr ''example.org'', e_default_admins = Inr [''root''],
     e_token_urlsafe = ''secret'',
     e_decrypt_password = (\<lambda>b _. Inr (bytes_text b)),
     e_decrypt_instance_password = (\<lambda>b _. Inr (bytes_text b)),
     e_encrypt_instance_password = (\<lambda>p _. text_bytes p),
     e_decrypt_kubeconfig = (\<lambda>b _. Inr b),
     e_create_schema = (\<lambda>_. Inr ()), e_drop_schema = (\<lambda>_. Inr ()),
     e_reconcile = (\<lambda>_ slug _ _ _. Inr \<lparr>rc_status = COMPLETED, rc_application_name = ''coder-'' @ slug\<rparr>),
     e_delete_application = (\<lambda>_ _ _. Inr COMPLETED), e_application_exists = (\<lambda>_ _ _. Inr True),
     e_bootstrap_admin = (\<lambda>_ _. Inr ()), e_cleanup_users = (\<lambda>_ _ _. Inr ()),
     e_delete_workspaces = (\<lambda>_ _. Inr ()), e_stop_workspaces = (\<lambda>_ _. Inr ())\<rparr>"

lemma safe_sample_env [simp]: "safe_env sample_env"
  by (simp add: safe_env_def sample_env_def)

definition sample_world :: world where
  "sample_world = \<lparr>store = sample_db, broker = []\<rparr>"

definition sample_payload :: database_payload where
  "sample_payload = \<lparr>dp_name = ''pg'', dp_instance_max = 1, dp_host = ''h'', dp_port = 5432,
     dp_database_name = ''db'', dp_username = ''u'', dp_password = Some ''pw''\<rparr>"

definition is_Inr :: "'a + 'b \<Rightarrow> bool" where
  "is_Inr r = (case r of Inl _ \<Rightarrow> False | Inr _ \<Rightarrow> True)"

lemma is_InrE: "is_Inr r \<Longrightarrow> \<exists>x. r = Inr x"
  by (cases r) (simp_all add: is_Inr_def)

lemma sample_create_database:
  "\<exists>x. create_database 3 sample_payload ''pw'' (\<lambda>p _. text_bytes p) empty_db = Inr x"
  by (rule is_InrE) code_simp

text \<open>Two databases, the first half full.\<close>

definition sample_database :: "uuid \<Rightarrow> string \<Rightarrow> int \<Rightarrow> database" where
  "sample_database k name capacity = \<lparr>d_id = k, d_name = name, d_instance_max = capacity, d_host = ''h'',
     d_port = 5432, d_database_name = ''db'', d_username = ''u'', d_password_enc = [1]\<rparr>"

definition sample_pool :: db where
  "sample_pool = empty_db\<lparr>databases := [sample_database 3 ''A'' 2, sample_database 4 ''B'' 3],
     database_allocations := [\<lparr>al_id = 8, al_database_id = 3, al_instance_id = 7,
       al_schema_name = schema_name_for 7\<rparr>]\<rparr>"

lemma sample_pool_selects: "select_database sample_pool = Some (sample_database 4 ''B'' 3)"
  by code_simp

text \<open>A store in which job 1 runs a given step for instance 7, and the claim that runs it.\<close>

definition sample_running :: "string \<Rightarrow> string \<Rightarrow> string \<Rightarrow> string \<Rightarrow> db" where
  "sample_running name task action step = empty_db
     \<lparr>job_executions := [sample_job\<lparr>j_name := name, j_task_name := task, j_step := step,
        j_status := RUNNING, j_attempt := 1, j_claimed_at := Some 10\<rparr>],
      instances := [sample_instance\<lparr>i_action := action, i_step := Some step, i_status := RUNNING\<rparr>]\<rparr>"

definition sample_running_claim :: "string \<Rightarrow> string \<Rightarrow> execution_claim" where
  "sample_running_claim task step = \<lparr>c_job_id = 1, c_task_name = task, c_step = step, c_attempt = 1,
     c_resource_type = Some ''instance'', c_resource_id = Some 7\<rparr>"

definition sample_member :: "uuid \<Rightarrow> string \<Rightarrow> string \<Rightarrow> exec_status \<Rightarrow> member" where
  "sample_member k name action status = \<lparr>m_id = k, m_instance_id = 7, m_username = name, m_role = USER,
     m_action = action, m_status = status\<rparr>"

definition sample_updating :: db where
  "sample_updating = (sample_running ''instance.update'' INSTANCE_UPDATE_STEP_02_TASK ''updating'' INSTANCE_UPDATE_STEP_02)
     \<lparr>members := [sample_member 20 ''ann'' ''creating'' RUNNING, sample_member 21 ''bob'' ''deleting'' RUNNING,
                  sample_member 22 ''cid'' ''creating'' PENDING]\<rparr>"

abbreviation sample_update_claim :: execution_claim where
  "sample_update_claim \<equiv> sample_running_claim INSTANCE_UPDATE_STEP_02_TASK INSTANCE_UPDATE_STEP_02"

definition sample_deleting :: db where
  "sample_deleting = (sample_running ''instance.delete'' INSTANCE_DELETE_STEP_04_TASK ''deleting'' INSTANCE_DELETE_STEP_04)
     \<lparr>members := [sample_member 20 ''ann'' ''creating'' SUCCESS]\<rparr>"

abbreviation sample_delete_claim :: execution_claim where
  "sample_delete_claim \<equiv> sample_running_claim INSTANCE_DELETE_STEP_04_TASK INSTANCE_DELETE_STEP_04"

definition sample_bootstrapping :: db where
  "sample_bootstrapping = (sample_running ''instance.create'' INSTANCE_CREATE_STEP_03_TASK ''creating'' INSTANCE_CREATE_STEP_03)
     \<lparr>instances := [sample_instance\<lparr>i_action := ''creating'', i_step := Some INSTANCE_CREATE_STEP_03,
        i_status := RUNNING, i_password_enc := None\<rparr>]\<rparr>"

abbreviation sample_bootstrap_claim :: execution_claim where
  "sample_bootstrap_claim \<equiv> sample_running_claim INSTANCE_CREATE_STEP_03_TASK INSTANCE_CREATE_STEP_03"

definition sample_idle :: db where
  "sample_idle = empty_db\<lparr>instances := [sample_instance\<lparr>i_action := ''creating'', i_step := None,
     i_status := SUCCESS, i_job_id := None\<rparr>]\<rparr>"

lemma sample_cipher_law: "password_cipher_law sample_env"
  by (simp add: password_cipher_law_def sample_env_def bytes_text_roundtrip)

definition sample_bootstrapped :: db where
  "sample_bootstrapped =
     fst (projr (prepare_bootstrap sample_env sample_bootstrap_claim ''example.org'' sample_bootstrapping))"

definition sample_preparation :: bootstrap_preparation where
  "sample_preparation = \<lparr>bp_instance_url = ''https://abc.example.org'', bp_is_update = False, bp_password = Some ''secret''\<rparr>"

lemma sample_bootstrap:
  "\<exists>job i. owned_execution sample_bootstrapping sample_bootstrap_claim = Some (job, Some (RInstance i))
    \<and> prepare_bootstrap sample_env sample_bootstrap_claim ''example.org'' sample_bootstrapping
      = Inr (sample_bootstrapped, Some sample_preparation)
    \<and> bp_password sample_preparation = Some ''secret''
    \<and> owned_execution sample_bootstrapped sample_bootstrap_claim
      = Some (job, Some (RInstance (i\<lparr>i_password_candidate_enc := Some (text_bytes ''secret'')\<rparr>)))"
proof -
  let ?job = "sample_job\<lparr>j_name := ''instance.create'', j_task_name := INSTANCE_CREATE_STEP_03_TASK,
     j_step := INSTANCE_CREATE_STEP_03, j_status := RUNNING, j_attempt := 1, j_claimed_at := Some 10\<rparr>"
  let ?i = "sample_instance\<lparr>i_action := ''creating'', i_step := Some INSTANCE_CREATE_STEP_03,
        i_status := RUNNING, i_password_enc := None\<rparr>"
  have "owned_execution sample_bootstrapping sample_bootstrap_claim = Some (?job, Some (RInstance ?i))"
    by code_simp
  moreover have "prepare_bootstrap sample_env sample_bootstrap_claim ''example.org'' sample_bootstrapping
      = Inr (sample_bootstrapped, Some sample_preparation)"
    by code_simp
  moreover have "owned_execution sample_bootstrapped sample_bootstrap_claim
      = Some (?job, Some (RInstance (?i\<lparr>i_password_candidate_enc := Some (text_bytes ''secret'')\<rparr>)))"
    by code_simp
  moreover have "bp_password sample_preparation = Some ''secret''" by (simp add: sample_preparation_def)
  ultimately show ?thesis by blast
qed

definition sample_removal_world :: world where
  "sample_removal_world = \<lparr>store = empty_db
     \<lparr>job_executions := [sample_job\<lparr>j_name := ''instance.delete'', j_task_name := INSTANCE_DELETE_STEP_02_TASK,
        j_step := INSTANCE_DELETE_STEP_02\<rparr>],
      instances := [sample_instance\<lparr>i_action := ''deleting'', i_step := Some INSTANCE_DELETE_STEP_02\<rparr>]\<rparr>,
     broker = []\<rparr>"

text \<open>A settled instance with a synchronised template, an image, two user parameters, a member and a workspace.\<close>

definition sample_template :: template where
  "sample_template = \<lparr>t_id = 30, t_display_name = ''Dev'', t_name = ''dev'', t_git_url = ''git'',
     t_source_path = ''/'', t_branch = ''main'', t_modules = [''vim'', ''git''], t_system_parameter_revision = 0,
     t_action = ''synced'', t_sync_status = SUCCESS, t_job_id = None, t_step = None\<rparr>"

definition sample_parameter :: "uuid \<Rightarrow> string \<Rightarrow> bool \<Rightarrow> string option \<Rightarrow> template_parameter" where
  "sample_parameter k name is_mutable preset = \<lparr>p_id = k, p_template_id = 30, p_type = USER_PARAMETER, p_name = name,
     p_display_name = name, p_description = name, p_required = Some True, p_mutable = Some is_mutable,
     p_default_value = preset\<rparr>"

definition sample_workspace :: workspace where
  "sample_workspace = \<lparr>w_id = 50, w_name = ''ws'', w_instance_id = 7, w_template_id = 30, w_member_id = 20,
     w_image_id = 40, w_modules = [''vim''], w_parameters = [(''disk'', ''10''), (''zone'', ''eu'')],
     w_parameters_revision = 0, w_applied_parameters_revision = Some 0, w_coder_workspace_id = Some 60,
     w_coder_workspace_build_id = Some 61, w_action = ''created'', w_status = SUCCESS, w_job_id = None,
     w_step = None\<rparr>"

definition sample_catalog :: db where
  "sample_catalog = sample_idle\<lparr>templates := [sample_template],
     template_images := [\<lparr>im_id = 40, im_template_id = 30, im_registry_name = ''r'', im_name = ''n'', im_version = ''v''\<rparr>],
     template_parameters := [sample_parameter 41 ''zone'' False None, sample_parameter 42 ''disk'' True (Some ''10'')],
     template_assignments := [\<lparr>ta_id = 43, ta_template_id = 30, ta_instance_id = 7, ta_action = ''created'',
        ta_status = SUCCESS, ta_job_id = None, ta_step = None\<rparr>],
     template_deployments := [\<lparr>td_id = 44, td_assignment_id = 43, td_coder_organization_id = Some 1,
        td_coder_template_id = Some 2, td_coder_template_version_id = Some 3, td_target_commit = None,
        td_applied_commit = None, td_target_system_parameter_revision = None,
        td_applied_system_parameter_revision = None, td_status = SUCCESS\<rparr>],
     members := [sample_member 20 ''ann'' ''creating'' SUCCESS, sample_member 21 ''bob'' ''creating'' SUCCESS],
     workspaces := [sample_workspace]\<rparr>"

lemma is_Inr2: "is_Inr r \<Longrightarrow> \<exists>x y. r = Inr (x, y)"
  by (cases r) (auto simp: is_Inr_def)

lemma is_Inr3: "is_Inr r \<Longrightarrow> \<exists>x y z. r = Inr (x, y, z)"
  by (cases r) (auto simp: is_Inr_def)

end
