(* ===== verification/Directory_Properties.thy ===== *)
theory Directory_Properties
  imports Samples
begin

text \<open>
  Properties of the member and workspace repositories, alone and together with the update
  steps that work on the same rows.
\<close>



text \<open>
  C28. Deleting a member never takes a workspace with it, although the foreign key cascades:
  from the empty store, or from any store in which nobody marked for deletion owns a
  workspace, every sequence of transactions of the repositories and of the update steps, in
  any order, keeps that so, and a transaction that ends an update leaves the workspace table
  as it was.
\<close>

theorem member_deletion_never_cascades:
  assumes "d0 = empty_db \<or> directory_inv d0" and "directory_step\<^sup>*\<^sup>* d0 d"
  shows "(\<forall>m\<in>set (members d). \<forall>x\<in>set (workspaces d). m_action m = ''deleting'' \<longrightarrow> w_member_id x \<noteq> m_id m)
    \<and> (\<forall>d' outcome. finalize_update c ids name jk now d = Inr (d', outcome) \<longrightarrow> workspaces d' = workspaces d)"
proof -
  have inv: "directory_inv d" using directory.run_preserved[OF assms(2)] assms(1) by auto
  have "workspaces d' = workspaces d" if "finalize_update c ids name jk now d = Inr (d', outcome)" for d' outcome
    using that settle_keeps_workspaces[OF inv]
    by (auto simp: finalize_update_def Let_def split: option.splits resource.splits if_splits)
  moreover have "\<forall>m\<in>set (members d). \<forall>x\<in>set (workspaces d). m_action m = ''deleting'' \<longrightarrow> w_member_id x \<noteq> m_id m"
    using inv unfolding directory_inv_def by (metis image_eqI)
  ultimately show ?thesis by blast
qed

theorem member_deletion_never_cascades_witness:
  "workspaces (fst (projr (finalize_update sample_update_claim [20, 21] ''coder-abc'' 99 5
     (sample_updating\<lparr>workspaces := [sample_workspace]\<rparr>)))) = [sample_workspace]"
proof -
  let ?d = "sample_updating\<lparr>workspaces := [sample_workspace]\<rparr>"
  have "directory_inv ?d" by code_simp
  then have inv: "?d = empty_db \<or> directory_inv ?d" ..
  have "is_Inr (finalize_update sample_update_claim [20, 21] ''coder-abc'' 99 5 ?d)" by code_simp
  then obtain d' outcome where fin: "finalize_update sample_update_claim [20, 21] ''coder-abc'' 99 5 ?d = Inr (d', outcome)"
    using is_Inr2 by blast
  with member_deletion_never_cascades[OF inv, of ?d sample_update_claim "[20, 21]" "''coder-abc''" 99 5]
  have "workspaces d' = workspaces ?d" by blast
  with fin show ?thesis by simp
qed

text \<open>
  Parameters are resolved as the template asks: what the user supplies is what is stored,
  every required parameter has a value, an immutable parameter keeps the value the workspace
  was given first, a parameter that the template has dropped keeps its historical value, and
  resolving the outcome again changes nothing.
\<close>

theorem parameters_resolved:
  assumes res: "resolve_parameters t supplied previous d = Inr r"
    and keys: "distinct (map fst (previous_values previous))"
  shows "(\<forall>n p. map_of (user_parameters t d) n = Some p \<longrightarrow>
        (p_required p = Some True \<longrightarrow> map_of r n \<noteq> None)
      \<and> (\<forall>v. map_of supplied n = Some v \<longrightarrow> map_of r n = Some v)
      \<and> (\<forall>v. p_mutable p = Some False \<longrightarrow> map_of (previous_values previous) n = Some v \<longrightarrow> map_of r n = Some v))
    \<and> (\<forall>n. map_of (user_parameters t d) n = None \<longrightarrow> map_of r n = map_of (previous_values previous) n)
    \<and> (\<exists>r'. resolve_parameters t r (Some r) d = Inr r' \<and> dict_eq r r')"
proof (intro conjI allI impI)
  fix n p assume p: "map_of (user_parameters t d) n = Some p"
  show "p_required p = Some True \<Longrightarrow> map_of r n \<noteq> None" by (rule resolve_sets_required[OF res p])
  show "map_of r n = Some v" if "map_of supplied n = Some v" for v
    using resolve_parameters_Inr[OF res, of n] p that by (simp add: accepted_parameter_def parameter_value_def)
  show "map_of r n = Some v" if "p_mutable p = Some False" "map_of (previous_values previous) n = Some v" for v
    using that resolve_keeps_immutable[OF _ p] res by (cases previous) (auto simp: previous_values_def)
next
  fix n assume "map_of (user_parameters t d) n = None"
  then show "map_of r n = map_of (previous_values previous) n" using resolve_parameters_Inr[OF res, of n] by simp
next
  show "\<exists>r'. resolve_parameters t r (Some r) d = Inr r' \<and> dict_eq r r'" by (rule resolve_parameters_stable[OF res keys])
qed

theorem parameters_resolved_witness:
  "\<exists>r. resolve_parameters 30 [(''disk'', ''20'')] (Some (w_parameters sample_workspace)) sample_catalog = Inr r
     \<and> map_of r ''disk'' = Some ''20'' \<and> map_of r ''zone'' = Some ''eu''"
proof -
  let ?res = "resolve_parameters 30 [(''disk'', ''20'')] (Some (w_parameters sample_workspace)) sample_catalog"
  have "is_Inr ?res" by code_simp
  then obtain r where r: "?res = Inr r" using is_InrE by blast
  have keys: "distinct (map fst (previous_values (Some (w_parameters sample_workspace))))" by code_simp
  have "map_of (user_parameters 30 sample_catalog) ''disk'' = Some (sample_parameter 42 ''disk'' True (Some ''10''))"
    "map_of (user_parameters 30 sample_catalog) ''zone'' = Some (sample_parameter 41 ''zone'' False None)"
    "map_of (previous_values (Some (w_parameters sample_workspace))) ''zone'' = Some ''eu''"
    "map_of [(''disk'', ''20'')] ''disk'' = Some ''20''"
    "p_mutable (sample_parameter 41 ''zone'' False None) = Some False"
    by code_simp+
  with parameters_resolved[OF r keys] r show ?thesis by blast
qed

text \<open>
  A workspace is accepted only with references that belong together (a settled instance,
  an owner who is a settled member of that instance, an image of the template, modules the
  template offers), its job can be claimed at once, names stay unique per instance without
  regard to case, and its parameters are the resolution of what was supplied.
\<close>

theorem created_workspace_is_consistent:
  assumes "create_workspace payload k jk now d = Inr (d', x)"
  shows "sys_run d d' \<and> claimable d' jk WORKSPACE_CREATE_STEP_01_TASK
    \<and> unique_by (\<lambda>w. (w_instance_id w, lower (w_name w))) (workspaces d')
    \<and> (\<exists>i t m. instance_of d (w_instance_id x) = Some i \<and> i_status i = SUCCESS
       \<and> template_of d (w_template_id x) = Some t \<and> set (w_modules x) \<subseteq> set (t_modules t)
       \<and> member_of d (w_member_id x) = Some m \<and> m_instance_id m = w_instance_id x \<and> m_status m = SUCCESS
       \<and> resolve_parameters (w_template_id x) (wu_parameters payload) None d = Inr (w_parameters x))"
  using create_workspace_Inr[OF assms] by (simp add: workspaces_ok_def)

theorem created_workspace_is_consistent_witness:
  "\<exists>d' x. create_workspace \<lparr>wu_name = ''two'', wu_image_id = 40, wu_modules = [''git''],
        wu_parameters = [(''zone'', ''us'')], wc_instance_id = 7, wc_template_id = 30, wc_member_id = 21\<rparr>
        51 99 5 sample_catalog = Inr (d', x) \<and> claimable d' 99 WORKSPACE_CREATE_STEP_01_TASK"
proof -
  let ?r = "create_workspace \<lparr>wu_name = ''two'', wu_image_id = 40, wu_modules = [''git''],
        wu_parameters = [(''zone'', ''us'')], wc_instance_id = 7, wc_template_id = 30, wc_member_id = 21\<rparr>
        51 99 5 sample_catalog"
  have "is_Inr ?r" by code_simp
  then obtain d' x where "?r = Inr (d', x)" using is_Inr2 by blast
  with created_workspace_is_consistent[OF this] show ?thesis by blast
qed

text \<open>
  An accepted update of a workspace either changes nothing at all, or stores exactly the
  requested configuration, counts the revision up by one when the parameters changed and by
  none otherwise, and stages a job that can be claimed; until that job is through, further
  updates and deletions of the workspace are refused as busy.
\<close>

theorem workspace_update_exact:
  assumes "update_workspace k u jk now d = Inr (d', x', changed)"
  shows "\<exists>x parameters. workspace_of d k = Some x
    \<and> resolve_parameters (w_template_id x) (wu_parameters u) (Some (w_parameters x)) d = Inr parameters
    \<and> (if changed
       then sys_run d d' \<and> claimable d' jk WORKSPACE_UPDATE_STEP_01_TASK \<and> workspace_of d' k = Some x'
          \<and> w_name x' = wu_name u \<and> w_image_id x' = wu_image_id u \<and> w_modules x' = wu_modules u
          \<and> dict_eq (w_parameters x') parameters
          \<and> w_parameters_revision x' = w_parameters_revision x + (if dict_eq (w_parameters x) (w_parameters x') then 0 else 1)
          \<and> update_workspace k u2 jk2 now2 d' = Inl WorkspaceBusyError
          \<and> request_workspace_deletion k jk2 now2 d' = Inl WorkspaceBusyError
       else d' = d \<and> x' = x \<and> w_status x = SUCCESS \<and> \<not> workspace_changed u parameters x)"
proof -
  obtain x ps where x: "workspace_of d k = Some x"
    and ps: "resolve_parameters (w_template_id x) (wu_parameters u) (Some (w_parameters x)) d = Inr ps"
    and out: "if changed
       then x' = request_fields ''updating'' jk WORKSPACE_UPDATE_STEP_01 (apply_workspace_update u ps x)
       else d' = d \<and> x' = x \<and> w_status x = SUCCESS \<and> \<not> workspace_changed u ps x"
    using update_workspace_Inr[OF assms] by (cases changed) auto
  show ?thesis
  proof (cases changed)
    case True
    with assms have upd: "update_workspace k u jk now d = Inr (d', x', True)" by simp
    note c = update_workspace_changed[OF upd]
    have x': "x' = request_fields ''updating'' jk WORKSPACE_UPDATE_STEP_01 (apply_workspace_update u ps x)"
      using out True by simp
    then have "w_status x' \<in> {PENDING, RUNNING}" by simp
    note busy = busy_workspace_refuses[OF c(3) this]
    show ?thesis using True x ps c busy x' by (intro exI[of _ x] exI[of _ ps]) (auto simp: dict_eq_iff)
  next
    case False
    then show ?thesis using x ps out by auto
  qed
qed

theorem workspace_update_exact_witness:
  "\<exists>d' x'. update_workspace 50 \<lparr>wu_name = ''ws'', wu_image_id = 40, wu_modules = [''vim''],
        wu_parameters = [(''disk'', ''20'')]\<rparr> 99 5 sample_catalog = Inr (d', x', True)
     \<and> claimable d' 99 WORKSPACE_UPDATE_STEP_01_TASK"
proof -
  let ?r = "update_workspace 50 \<lparr>wu_name = ''ws'', wu_image_id = 40, wu_modules = [''vim''],
        wu_parameters = [(''disk'', ''20'')]\<rparr> 99 5 sample_catalog"
  have "is_Inr ?r" by code_simp
  then obtain d' x' q where r: "?r = Inr (d', x', q)" using is_Inr3 by blast
  moreover have "snd (snd (projr ?r))" by code_simp
  ultimately have "?r = Inr (d', x', True)" by simp
  with workspace_update_exact[OF this] show ?thesis by auto
qed

end
