(* ===== verification/Templates.thy ===== *)
theory Templates
  imports Workspaces
begin

text \<open>
  The template catalogue: templates (\<^verbatim>\<open>repositories/templates.py\<close>), their images
  (\<^verbatim>\<open>repositories/template_images.py\<close>) and their parameters
  (\<^verbatim>\<open>repositories/template_parameters.py\<close>). New keys are arguments and so is the cipher of the
  system parameters.
\<close>

section \<open>Templates\<close>

datatype template_error =
    TemplateAlreadyExistsError
  | TemplateNotFoundError
  | TemplateHasAssignmentsError
  | TemplateWorkspaceCompatibilityError
  | TemplateSyncInProgressError
  | TemplateAssignmentsInProgressError
  | TemplateWorkspacesInProgressError
  | TemplateIntegrityError

record template_update =
  tu_display_name :: string
  tu_git_url :: string
  tu_source_path :: string
  tu_branch :: string
  tu_modules :: "string list"

record template_create = template_update +
  tc_name :: string

lemma unsettled_iff [simp]: "unsettled s \<longleftrightarrow> s \<noteq> SUCCESS"
  by (cases s) (simp_all add: unsettled_def)

definition list_templates :: "int \<Rightarrow> int \<Rightarrow> string option \<Rightarrow> db \<Rightarrow> template list \<times> int" where
  "list_templates page page_size display_name d =
     (let rows = filter (\<lambda>t. case display_name of None \<Rightarrow> True | Some n \<Rightarrow> icontains n (t_display_name t)) (templates d)
      in (page_slice page page_size
            (sort_key (\<lambda>t. (lower (t_display_name t), t_display_name t, t_name t, t_id t)) rows),
          int (length rows)))"

definition get_template :: "uuid \<Rightarrow> db \<Rightarrow> template option" where
  "get_template template_id d = template_of d template_id"

text \<open>The row is cleared of the job and the job, when it still exists, is deleted.\<close>

definition discard_current_job :: "template \<Rightarrow> db \<Rightarrow> template \<times> db" where
  "discard_current_job t d = (t\<lparr>t_job_id := None\<rparr>, drop_job (t_job_id t) d)"

definition create_template :: "template_create \<Rightarrow> uuid \<Rightarrow> db \<Rightarrow> (template_error, db \<times> template) result" where
  "create_template payload template_id d =
     (let t = \<lparr>t_id = template_id, t_display_name = tu_display_name payload, t_name = tc_name payload,
               t_git_url = tu_git_url payload, t_source_path = tu_source_path payload,
               t_branch = tu_branch payload, t_modules = tu_modules payload,
               t_system_parameter_revision = 0, t_action = ''created'', t_sync_status = SUCCESS,
               t_job_id = None, t_step = None\<rparr>;
          d' = d\<lparr>templates := insert_row t (templates d)\<rparr>
      in if templates_ok (templates d') then Inr (d', t) else Inl TemplateAlreadyExistsError)"

definition ensure_no_active_assignments :: "uuid \<Rightarrow> db \<Rightarrow> (template_error, unit) result" where
  "ensure_no_active_assignments template_id d =
     guard_that (\<not> exists_row (\<lambda>a. ta_template_id a = template_id \<and> unsettled (ta_status a)) (template_assignments d))
       TemplateAssignmentsInProgressError"

definition ensure_no_active_workspaces :: "uuid \<Rightarrow> db \<Rightarrow> (template_error, unit) result" where
  "ensure_no_active_workspaces template_id d =
     guard_that (\<not> exists_row (\<lambda>x. w_template_id x = template_id \<and> unsettled (w_status x)) (workspaces d))
       TemplateWorkspacesInProgressError"

definition lock_idle_template :: "uuid \<Rightarrow> db \<Rightarrow> (template_error, template) result" where
  "lock_idle_template template_id d =
     rbind (require (template_of d template_id) TemplateNotFoundError) (\<lambda>t.
       rbind (guard_that (\<not> unsettled (t_sync_status t)) TemplateSyncInProgressError) (\<lambda>_. Inr t))"

definition template_changed :: "template_update \<Rightarrow> template \<Rightarrow> bool" where
  "template_changed payload t = (t_display_name t \<noteq> tu_display_name payload \<or> t_git_url t \<noteq> tu_git_url payload
     \<or> t_source_path t \<noteq> tu_source_path payload \<or> t_branch t \<noteq> tu_branch payload
     \<or> t_modules t \<noteq> tu_modules payload)"

definition update_template :: "uuid \<Rightarrow> template_update \<Rightarrow> db \<Rightarrow> (template_error, db \<times> template) result" where
  "update_template template_id payload d =
     rbind (lock_idle_template template_id d) (\<lambda>t.
     rbind (ensure_no_active_assignments (t_id t) d) (\<lambda>_.
     rbind (ensure_no_active_workspaces (t_id t) d) (\<lambda>_.
       if \<not> template_changed payload t then Inr (d, t)
       else
         rbind (guard_that (list_all (\<lambda>x. set (w_modules x) \<subseteq> set (tu_modules payload))
                   (filter (\<lambda>x. w_template_id x = t_id t) (workspaces d)))
                  TemplateWorkspaceCompatibilityError) (\<lambda>_.
           let t1 = t\<lparr>t_display_name := tu_display_name payload, t_git_url := tu_git_url payload,
                      t_source_path := tu_source_path payload, t_branch := tu_branch payload,
                      t_modules := tu_modules payload\<rparr>;
               (t2, d1) = discard_current_job t1 d;
               t3 = t2\<lparr>t_action := ''updated'', t_sync_status := SUCCESS, t_step := None\<rparr>;
               d2 = save_resource (RTemplate t3) d1
           in if templates_ok (templates d2) then Inr (d2, t3) else Inl TemplateIntegrityError))))"

text \<open>
  The repository does not translate the integrity error that a replacement which violates a
  check of the table raises.

  A workspace that still refers to the template makes the database refuse the deletion; the
  repository does not translate that error.
\<close>

definition delete_template :: "uuid \<Rightarrow> db \<Rightarrow> (template_error, db) result" where
  "delete_template template_id d =
     rbind (lock_idle_template template_id d) (\<lambda>t.
     rbind (guard_that (\<not> exists_row (\<lambda>a. ta_template_id a = template_id) (template_assignments d))
              TemplateHasAssignmentsError) (\<lambda>_.
       let (t1, d1) = discard_current_job t d
       in case delete_template_row template_id (save_resource (RTemplate t1) d1) of
            Inl _ \<Rightarrow> Inl TemplateIntegrityError
          | Inr d2 \<Rightarrow> Inr d2))"

definition request_template_sync :: "uuid \<Rightarrow> uuid \<Rightarrow> instant \<Rightarrow> db \<Rightarrow> (template_error, db \<times> uuid) result" where
  "request_template_sync template_id job_id now d =
     rbind (lock_idle_template template_id d) (\<lambda>t.
     rbind (ensure_no_active_assignments (t_id t) d) (\<lambda>_.
     rbind (ensure_no_active_workspaces (t_id t) d) (\<lambda>_.
       let (t1, d1) = discard_current_job t d;
           t2 = t1\<lparr>t_action := ''syncing'', t_sync_status := PENDING, t_job_id := Some job_id,
                   t_step := Some TEMPLATE_SYNC_STEP_01\<rparr>
       in Inr (attach_job (RTemplate t2) ''template.sync'' TEMPLATE_SYNC_STEP_01_TASK
                 TEMPLATE_SYNC_STEP_01 job_id now d1, job_id))))"

section \<open>Images\<close>

datatype template_image_error =
    TemplateImageAlreadyExistsError
  | TemplateImageNotFoundError
  | TemplateImageTemplateNotFoundError
  | TemplateImageInUseError

record template_image_create =
  ic_registry :: string
  ic_name :: string
  ic_version :: string

definition list_images ::
  "uuid \<Rightarrow> int \<Rightarrow> int \<Rightarrow> db \<Rightarrow> (template_image_error, template_image list \<times> int) result" where
  "list_images template_id page page_size d =
     rbind (require (template_of d template_id) TemplateImageTemplateNotFoundError) (\<lambda>_.
       let rows = filter (\<lambda>m. im_template_id m = template_id) (template_images d)
       in Inr (page_slice page page_size
                 (sort_key (\<lambda>m. (im_registry_name m, im_name m, im_version m, im_id m)) rows),
               int (length rows)))"

definition get_image :: "uuid \<Rightarrow> uuid \<Rightarrow> db \<Rightarrow> template_image option" where
  "get_image template_id image_id d =
     (case image_of d image_id of
        None \<Rightarrow> None
      | Some m \<Rightarrow> if im_template_id m = template_id then Some m else None)"

definition create_image ::
  "uuid \<Rightarrow> template_image_create \<Rightarrow> uuid \<Rightarrow> db \<Rightarrow> (template_image_error, db \<times> template_image) result" where
  "create_image template_id payload image_id d =
     rbind (require (template_of d template_id) TemplateImageTemplateNotFoundError) (\<lambda>t.
       let m = \<lparr>im_id = image_id, im_template_id = t_id t, im_registry_name = ic_registry payload,
                im_name = ic_name payload, im_version = ic_version payload\<rparr>;
           d' = d\<lparr>template_images := insert_row m (template_images d)\<rparr>
       in if images_ok (template_images d') then Inr (d', m) else Inl TemplateImageAlreadyExistsError)"

definition delete_image :: "uuid \<Rightarrow> uuid \<Rightarrow> db \<Rightarrow> (template_image_error, db) result" where
  "delete_image template_id image_id d =
     rbind (require (template_of d template_id) TemplateImageTemplateNotFoundError) (\<lambda>_.
     rbind (require (get_image template_id image_id d) TemplateImageNotFoundError) (\<lambda>_.
     rbind (guard_that (\<not> exists_row (\<lambda>x. w_image_id x = image_id) (workspaces d)) TemplateImageInUseError) (\<lambda>_.
       Inr (d\<lparr>template_images := delete_where (\<lambda>m. im_id m = image_id) (template_images d)\<rparr>))))"

section \<open>Parameters\<close>

datatype template_parameter_error =
    TemplateParameterTemplateNotFoundError
  | TemplateParameterNotFoundError
  | TemplateParameterAlreadyExistsError
  | TemplateParameterImmutableFieldError
  | TemplateParameterSyncInProgressError
  | TemplateParameterEncryptionRequired
  | TemplateParameterDecryptionFailed

text \<open>The encryption of this request (its nonce drawn) and the decryption of a stored value.\<close>

record parameter_cipher =
  pc_encrypt :: "string \<Rightarrow> uuid \<Rightarrow> bytes"
  pc_decrypt :: "bytes \<Rightarrow> uuid \<Rightarrow> string option"

record parameter_named_fields =
  pn_name :: string
  pn_display_name :: string
  pn_description :: string

datatype template_parameter_create =
    UserTemplateParameterCreate parameter_named_fields bool bool "string option"
  | SystemTemplateParameterCreate parameter_named_fields string

record parameter_update_fields =
  pu_display_name :: string
  pu_description :: string

datatype template_parameter_update =
    UserTemplateParameterUpdate parameter_update_fields bool bool "string option"
  | SystemTemplateParameterUpdate parameter_update_fields "string option"

fun create_fields :: "template_parameter_create \<Rightarrow> parameter_named_fields" where
  "create_fields (UserTemplateParameterCreate f _ _ _) = f"
| "create_fields (SystemTemplateParameterCreate f _) = f"

fun create_type :: "template_parameter_create \<Rightarrow> template_parameter_type" where
  "create_type (UserTemplateParameterCreate _ _ _ _) = USER_PARAMETER"
| "create_type (SystemTemplateParameterCreate _ _) = SYSTEM_PARAMETER"

fun update_fields :: "template_parameter_update \<Rightarrow> parameter_update_fields" where
  "update_fields (UserTemplateParameterUpdate f _ _ _) = f"
| "update_fields (SystemTemplateParameterUpdate f _) = f"

fun update_type :: "template_parameter_update \<Rightarrow> template_parameter_type" where
  "update_type (UserTemplateParameterUpdate _ _ _ _) = USER_PARAMETER"
| "update_type (SystemTemplateParameterUpdate _ _) = SYSTEM_PARAMETER"

abbreviation parameter_of :: "db \<Rightarrow> uuid \<Rightarrow> template_parameter option" where
  "parameter_of d k \<equiv> select_row p_id k (template_parameters d)"

abbreviation system_value_of :: "db \<Rightarrow> uuid \<Rightarrow> template_parameter_system_value option" where
  "system_value_of d k \<equiv> select_row sv_parameter_id k (template_parameter_system_values d)"

definition type_rank :: "template_parameter_type \<Rightarrow> nat" where
  "type_rank ty = (case ty of USER_PARAMETER \<Rightarrow> 0 | SYSTEM_PARAMETER \<Rightarrow> 1)"

definition list_parameters ::
  "uuid \<Rightarrow> int \<Rightarrow> int \<Rightarrow> db \<Rightarrow> (template_parameter_error, template_parameter list \<times> int) result" where
  "list_parameters template_id page page_size d =
     rbind (require (template_of d template_id) TemplateParameterTemplateNotFoundError) (\<lambda>_.
       let rows = filter (\<lambda>p. p_template_id p = template_id) (template_parameters d)
       in Inr (page_slice page page_size (sort_key (\<lambda>p. (type_rank (p_type p), p_name p, p_id p)) rows),
               int (length rows)))"

definition get_parameter :: "uuid \<Rightarrow> uuid \<Rightarrow> db \<Rightarrow> template_parameter option" where
  "get_parameter template_id parameter_id d =
     (case parameter_of d parameter_id of
        None \<Rightarrow> None
      | Some p \<Rightarrow> if p_template_id p = template_id then Some p else None)"

definition parameter_template :: "uuid \<Rightarrow> db \<Rightarrow> (template_parameter_error, template) result" where
  "parameter_template template_id d =
     rbind (require (template_of d template_id) TemplateParameterTemplateNotFoundError) (\<lambda>t.
     rbind (guard_that (\<not> unsettled (t_sync_status t)) TemplateParameterSyncInProgressError) (\<lambda>_.
     rbind (guard_that (\<not> exists_row (\<lambda>a. ta_template_id a = template_id \<and> unsettled (ta_status a))
              (template_assignments d)) TemplateParameterSyncInProgressError) (\<lambda>_. Inr t)))"

definition locked_parameter :: "uuid \<Rightarrow> uuid \<Rightarrow> db \<Rightarrow> (template_parameter_error, template_parameter) result" where
  "locked_parameter template_id parameter_id d =
     require (get_parameter template_id parameter_id d) TemplateParameterNotFoundError"

definition bump_revision :: "template \<Rightarrow> template" where
  "bump_revision t = t\<lparr>t_system_parameter_revision := t_system_parameter_revision t + 1\<rparr>"

definition new_parameter ::
  "template \<Rightarrow> template_parameter_create \<Rightarrow> parameter_cipher option \<Rightarrow> uuid
    \<Rightarrow> (template_parameter_error, template \<times> template_parameter \<times> template_parameter_system_value option) result" where
  "new_parameter t payload cipher parameter_id =
     (let f = create_fields payload;
          p = \<lparr>p_id = parameter_id, p_template_id = t_id t, p_type = create_type payload, p_name = pn_name f,
               p_display_name = pn_display_name f, p_description = pn_description f,
               p_required = None, p_mutable = None, p_default_value = None\<rparr>
      in case payload of
           UserTemplateParameterCreate _ required mutable default_value \<Rightarrow>
             Inr (t, p\<lparr>p_required := Some required, p_mutable := Some mutable, p_default_value := default_value\<rparr>, None)
         | SystemTemplateParameterCreate _ v \<Rightarrow>
             rbind (require cipher TemplateParameterEncryptionRequired) (\<lambda>c.
               Inr (bump_revision t, p,
                    Some \<lparr>sv_parameter_id = parameter_id, sv_value_enc = pc_encrypt c v parameter_id\<rparr>)))"

definition add_system_value :: "template_parameter_system_value option \<Rightarrow> db \<Rightarrow> db" where
  "add_system_value sv d = (case sv of None \<Rightarrow> d
     | Some v \<Rightarrow> d\<lparr>template_parameter_system_values := insert_row v (template_parameter_system_values d)\<rparr>)"

definition create_parameter ::
  "uuid \<Rightarrow> template_parameter_create \<Rightarrow> parameter_cipher option \<Rightarrow> uuid \<Rightarrow> db
    \<Rightarrow> (template_parameter_error, db \<times> template_parameter) result" where
  "create_parameter template_id payload cipher parameter_id d =
     rbind (parameter_template template_id d) (\<lambda>t.
     rbind (new_parameter t payload cipher parameter_id) (\<lambda>(t', p, sv).
       let d1 = d\<lparr>template_parameters := insert_row p (template_parameters d)\<rparr>;
           d2 = save_resource (RTemplate t') (add_system_value sv d1)
       in if parameters_ok (template_parameters d2)
             \<and> unique_by sv_parameter_id (template_parameter_system_values d2) then Inr (d2, p)
          else Inl TemplateParameterAlreadyExistsError))"

text \<open>The template, the parameter and its stored value after one replacement.\<close>

definition apply_parameter_update ::
  "template \<Rightarrow> template_parameter \<Rightarrow> template_parameter_system_value option \<Rightarrow> template_parameter_update
    \<Rightarrow> parameter_cipher option
    \<Rightarrow> (template_parameter_error, template \<times> template_parameter \<times> template_parameter_system_value option) result" where
  "apply_parameter_update t p stored payload cipher =
     rbind (guard_that (p_type p = update_type payload) TemplateParameterImmutableFieldError) (\<lambda>_.
       let f = update_fields payload;
           p1 = p\<lparr>p_display_name := pu_display_name f, p_description := pu_description f\<rparr>
       in case payload of
            UserTemplateParameterUpdate _ required mutable default_value \<Rightarrow>
              Inr (t, p1\<lparr>p_required := Some required, p_mutable := Some mutable, p_default_value := default_value\<rparr>, stored)
          | SystemTemplateParameterUpdate _ None \<Rightarrow> Inr (t, p1, stored)
          | SystemTemplateParameterUpdate _ (Some v) \<Rightarrow>
              rbind (require cipher TemplateParameterEncryptionRequired) (\<lambda>c.
                let fresh = Some \<lparr>sv_parameter_id = p_id p, sv_value_enc = pc_encrypt c v (p_id p)\<rparr>
                in case stored of
                     None \<Rightarrow> Inr (bump_revision t, p1, fresh)
                   | Some s \<Rightarrow>
                       rbind (require (pc_decrypt c (sv_value_enc s) (p_id p)) TemplateParameterDecryptionFailed)
                         (\<lambda>old. if old \<noteq> v then Inr (bump_revision t, p1, fresh) else Inr (t, p1, stored))))"

definition store_system_value ::
  "template_parameter_system_value option \<Rightarrow> template_parameter_system_value option \<Rightarrow> db \<Rightarrow> db" where
  "store_system_value stored sv d =
     (case stored of
        None \<Rightarrow> add_system_value sv d
      | Some _ \<Rightarrow> (case sv of None \<Rightarrow> d
          | Some v \<Rightarrow> d\<lparr>template_parameter_system_values :=
                        replace_row sv_parameter_id v (template_parameter_system_values d)\<rparr>))"

definition update_parameter ::
  "uuid \<Rightarrow> uuid \<Rightarrow> template_parameter_update \<Rightarrow> parameter_cipher option \<Rightarrow> db
    \<Rightarrow> (template_parameter_error, db \<times> template_parameter) result" where
  "update_parameter template_id parameter_id payload cipher d =
     rbind (parameter_template template_id d) (\<lambda>t.
     rbind (locked_parameter template_id parameter_id d) (\<lambda>p.
       let stored = system_value_of d parameter_id in
       rbind (apply_parameter_update t p stored payload cipher) (\<lambda>(t', p', sv).
         let d1 = d\<lparr>template_parameters := replace_row p_id p' (template_parameters d)\<rparr>
         in Inr (save_resource (RTemplate t') (store_system_value stored sv d1), p'))))"

definition delete_parameter :: "uuid \<Rightarrow> uuid \<Rightarrow> db \<Rightarrow> (template_parameter_error, db) result" where
  "delete_parameter template_id parameter_id d =
     rbind (parameter_template template_id d) (\<lambda>t.
     rbind (locked_parameter template_id parameter_id d) (\<lambda>p.
       let t' = (if p_type p = SYSTEM_PARAMETER then bump_revision t else t);
           d1 = d\<lparr>template_parameters := delete_where (\<lambda>q. p_id q = parameter_id) (template_parameters d),
                  template_parameter_system_values :=
                    delete_where (\<lambda>v. sv_parameter_id v = parameter_id) (template_parameter_system_values d)\<rparr>
       in Inr (save_resource (RTemplate t') d1)))"

section \<open>Every operation is made of transactions of the system\<close>

lemma lock_idle_template_Inr:
  "lock_idle_template k d = Inr t \<longleftrightarrow> template_of d k = Some t \<and> t_sync_status t = SUCCESS"
  by (auto simp: lock_idle_template_def result_iffs)

lemma parameter_template_Inr:
  "parameter_template k d = Inr t \<longleftrightarrow> template_of d k = Some t \<and> t_sync_status t = SUCCESS
     \<and> \<not> exists_row (\<lambda>a. ta_template_id a = k \<and> ta_status a \<noteq> SUCCESS) (template_assignments d)"
  by (auto simp: parameter_template_def result_iffs)

lemma lookup_template: "lookup_resource ''template'' k d = map_option RTemplate (template_of d k)"
  by (simp add: lookup_resource_def)

lemma run_create_template:
  assumes "create_template payload k d = Inr (d', t)"
  shows "sys_run d d'"
proof -
  from assms have t: "t_id t = k" "t_job_id t = None" "d' = insert_resource (RTemplate t) d"
      "templates_ok (templates d')"
    by (auto simp: create_template_def Let_def split: if_splits)
  then have "template_of d k = None" by (auto simp: templates_ok_def select_row_None)
  with t have "sys_txn d (insert_resource (RTemplate t) d)"
    by (intro sys_txn.insert) (simp_all add: lookup_template del: insert_resource.simps)
  then show ?thesis using t(3) by blast
qed

lemma txn_discard:
  assumes "template_of d k = Some t" and "t_id t' = k" and "t_job_id t' = None"
  shows "sys_txn d (save_resource (RTemplate t') (drop_job jk d))"
proof -
  have "t_id t = k" using assms(1) by (rule select_row_key)
  with assms show ?thesis
    by (intro sys_txn.discard[where r = "RTemplate t"]) (simp_all add: lookup_template del: save_resource.simps)
qed

lemma update_template_Inr:
  assumes "update_template k payload d = Inr (d', t')"
  shows "\<exists>t. template_of d k = Some t
    \<and> (if template_changed payload t
       then d' = save_resource (RTemplate t') (drop_job (t_job_id t) d) \<and> t_id t' = k \<and> t_job_id t' = None
          \<and> t_sync_status t' = SUCCESS \<and> t_modules t' = tu_modules payload
          \<and> t_system_parameter_revision t' = t_system_parameter_revision t
          \<and> (\<forall>x\<in>set (workspaces d). w_template_id x = k \<longrightarrow> set (w_modules x) \<subseteq> set (t_modules t'))
       else d' = d \<and> t' = t)"
proof -
  obtain t where t: "template_of d k = Some t" "lock_idle_template k d = Inr t"
    using assms by (auto simp: update_template_def rbind_Inr_iff lock_idle_template_Inr)
  have "t_id t = k" using t(1) by (rule select_row_key)
  with assms t show ?thesis
    by (auto simp: update_template_def result_iffs discard_current_job_def Let_def list_all_iff subset_iff
        split: if_splits)
qed

lemma run_update_template:
  assumes "update_template k payload d = Inr (d', t')"
  shows "sys_run d d'"
proof -
  obtain t where t: "template_of d k = Some t" and out: "if template_changed payload t
       then d' = save_resource (RTemplate t') (drop_job (t_job_id t) d) \<and> t_id t' = k \<and> t_job_id t' = None
       else d' = d"
    using update_template_Inr[OF assms] by (auto split: if_splits)
  then show ?thesis using txn_discard[OF t] by (auto split: if_splits simp del: save_resource.simps)
qed

lemma delete_template_Inr:
  assumes "delete_template k d = Inr d'"
  obtains t where "template_of d k = Some t" "t_id t = k"
    "delete_template_row k (save_resource (RTemplate (t\<lparr>t_job_id := None\<rparr>)) (drop_job (t_job_id t) d)) = Inr d'"
proof -
  obtain t where t: "template_of d k = Some t" and
    "(case delete_template_row k (save_resource (RTemplate (t\<lparr>t_job_id := None\<rparr>)) (drop_job (t_job_id t) d)) of
        Inl _ \<Rightarrow> Inl TemplateIntegrityError | Inr d2 \<Rightarrow> Inr d2) = Inr d'"
    using assms by (auto simp: delete_template_def rbind_Inr_iff lock_idle_template_Inr discard_current_job_def Let_def
        simp del: save_resource.simps)
  then show thesis using that[OF t select_row_key[OF t]]
    by (cases "delete_template_row k (save_resource (RTemplate (t\<lparr>t_job_id := None\<rparr>)) (drop_job (t_job_id t) d))")
       (simp_all del: save_resource.simps)
qed

lemma run_delete_template:
  assumes "delete_template k d = Inr d'"
  shows "sys_run d d'"
  using assms
proof (rule delete_template_Inr)
  fix t assume t: "template_of d k = Some t" "t_id t = k"
    and del: "delete_template_row k (save_resource (RTemplate (t\<lparr>t_job_id := None\<rparr>)) (drop_job (t_job_id t) d)) = Inr d'"
  let ?d1 = "save_resource (RTemplate (t\<lparr>t_job_id := None\<rparr>)) (drop_job (t_job_id t) d)"
  have "sys_txn d ?d1" by (rule txn_discard[OF t(1)]) (simp_all add: t)
  moreover have "sys_txn ?d1 d'"
    using del by (intro sys_txn.remove) (auto simp: delete_template_row_def shrunk_def Let_def
        simp del: save_resource.simps split: if_splits)
  ultimately show ?thesis by (meson r_into_rtranclp rtranclp.rtrancl_into_rtrancl)
qed

lemma request_template_sync_Inr:
  assumes "request_template_sync k jk now d = Inr (d', jk')" and fresh: "job_of d jk = None"
  shows "sys_run d d'" and "claimable d' jk TEMPLATE_SYNC_STEP_01_TASK"
    and "\<exists>t. template_of d' k = Some t \<and> t_sync_status t = PENDING \<and> t_job_id t = Some jk"
    and "jk' = jk"
proof -
  obtain t where t: "template_of d k = Some t" and "jk' = jk"
    and d': "d' = attach_job (RTemplate (t\<lparr>t_action := ''syncing'', t_sync_status := PENDING, t_job_id := Some jk,
                   t_step := Some TEMPLATE_SYNC_STEP_01\<rparr>)) ''template.sync'' TEMPLATE_SYNC_STEP_01_TASK
                 TEMPLATE_SYNC_STEP_01 jk now (drop_job (t_job_id t) d)"
    using assms(1) by (auto simp: request_template_sync_def result_iffs lock_idle_template_Inr
        discard_current_job_def Let_def)
  show "jk' = jk" by fact
  let ?cleared = "t\<lparr>t_job_id := None\<rparr>"
  let ?t = "t\<lparr>t_action := ''syncing'', t_sync_status := PENDING, t_job_id := Some jk, t_step := Some TEMPLATE_SYNC_STEP_01\<rparr>"
  let ?d1 = "save_resource (RTemplate ?cleared) (drop_job (t_job_id t) d)"
  have id: "t_id t = k" using t by (rule select_row_key)
  have req: "requests_job (RTemplate ?t) ''template.sync'' jk TEMPLATE_SYNC_STEP_01"
    by (simp add: requests_job_def RESOURCE_ACTIONS_def)
  have d1: "d' = attach_job (RTemplate ?t) ''template.sync'' TEMPLATE_SYNC_STEP_01_TASK TEMPLATE_SYNC_STEP_01 jk now ?d1"
    unfolding d' by (simp add: attach_job_def stage_job_def)
  have look: "lookup_resource (resource_kind (RTemplate ?t)) (resource_key (RTemplate ?t)) ?d1 \<noteq> None"
    using t id by (simp add: lookup_template select_replace_row)
  have fresh1: "job_of ?d1 jk = None" using fresh by (simp add: job_of_drop_job)
  have "t_id ?cleared = k" and "t_job_id ?cleared = None" using id by simp_all
  then have "sys_txn d ?d1" by (rule txn_discard[OF t])
  moreover have "sys_txn ?d1 d'" unfolding d1 by (rule txn_attach_job[OF look fresh1 req])
  ultimately show "sys_run d d'" by (meson r_into_rtranclp rtranclp.rtrancl_into_rtrancl)
  show "claimable d' jk TEMPLATE_SYNC_STEP_01_TASK" unfolding d1 by (rule claimable_attach_job[OF look fresh1 req])
  show "\<exists>t. template_of d' k = Some t \<and> t_sync_status t = PENDING \<and> t_job_id t = Some jk"
    using t id unfolding d1 by (simp add: attach_job_def)
qed

lemma txn_touch_template:
  assumes "template_of d k = Some t" and "t_id t' = k" "t_job_id t' = t_job_id t" "t_action t' = t_action t"
    "t_step t' = t_step t" "t_sync_status t' = t_sync_status t"
  shows "sys_txn d (save_resource (RTemplate t') d)"
proof -
  have "t_id t = k" using assms(1) by (rule select_row_key)
  with assms show ?thesis
    by (intro sys_txn.touch[where r = "RTemplate t"]) (simp_all add: lookup_template del: save_resource.simps)
qed

lemma run_touch_template:
  assumes "template_of d k = Some t" and "same_lifecycle d d1" and "t' = t \<or> t' = bump_revision t"
  shows "sys_run d (save_resource (RTemplate t') d1)"
proof -
  have id: "t_id t = k" using assms(1) by (rule select_row_key)
  have "template_of d1 k = Some t" using assms(1,2) by (simp add: same_lifecycle_def)
  then have "sys_txn d1 (save_resource (RTemplate t') d1)"
    by (rule txn_touch_template) (use assms(3) id in \<open>auto simp: bump_revision_def\<close>)
  with run_bookkeep[OF assms(2)] show ?thesis by (rule sys_run_after)
qed

end
