(* ===== verification/Catalogue.thy ===== *)
theory Catalogue
  imports Templates
begin

text \<open>
  What the catalogue promises to its readers: the revision of a template versions its secrets,
  and no workspace refers to a module or an image that its template does not offer.
\<close>

section \<open>The revision versions the secrets\<close>

definition secret_of :: "parameter_cipher \<Rightarrow> db \<Rightarrow> uuid \<Rightarrow> string option" where
  "secret_of c d k = (case system_value_of d k of None \<Rightarrow> None | Some s \<Rightarrow> pc_decrypt c (sv_value_enc s) k)"

text \<open>What an authenticated encryption gives back of what it was given, for one binding.\<close>

definition parameter_cipher_law :: "parameter_cipher \<Rightarrow> bool" where
  "parameter_cipher_law c = (\<forall>v k. pc_decrypt c (pc_encrypt c v k) k = Some v)"

text \<open>Only system parameters have a stored value.\<close>

definition values_ok :: "db \<Rightarrow> bool" where
  "values_ok d = (unique_by p_id (template_parameters d)
     \<and> unique_by sv_parameter_id (template_parameter_system_values d)
     \<and> list_all (\<lambda>v. case parameter_of d (sv_parameter_id v) of None \<Rightarrow> False
          | Some p \<Rightarrow> p_type p = SYSTEM_PARAMETER) (template_parameter_system_values d))"

inductive parameter_step :: "parameter_cipher \<Rightarrow> uuid \<Rightarrow> db \<Rightarrow> db \<Rightarrow> bool" for c k where
  create: "create_parameter k payload (Some c) pk d = Inr (d', p) \<Longrightarrow> parameter_step c k d d'"
| update: "update_parameter k pk u (Some c) d = Inr (d', p) \<Longrightarrow> parameter_step c k d d'"
| delete: "delete_parameter k pk d = Inr d' \<Longrightarrow> parameter_step c k d d'"

text \<open>
  What a step on parameter \<open>pk\<close> does to the template and to the values: the revision moves by
  at most one, and by one whenever the secret of \<open>pk\<close> moves.
\<close>

definition versioned :: "parameter_cipher \<Rightarrow> uuid \<Rightarrow> db \<Rightarrow> db \<Rightarrow> bool" where
  "versioned c k d d' = (\<exists>t t'. template_of d k = Some t \<and> template_of d' k = Some t'
     \<and> (\<forall>k'. k' \<noteq> k \<longrightarrow> template_of d' k' = template_of d k')
     \<and> (t' = t \<and> (\<forall>n. secret_of c d' n = secret_of c d n) \<or> t' = bump_revision t))"

lemma values_okD:
  assumes "values_ok d" and "system_value_of d k = Some v"
  shows "\<exists>p. parameter_of d k = Some p \<and> p_type p = SYSTEM_PARAMETER"
  using assms select_row_Some[OF assms(2)] by (fastforce simp: values_ok_def list_all_iff split: option.splits)

lemma get_parameter_Some:
  "get_parameter k pk d = Some p \<longleftrightarrow> parameter_of d pk = Some p \<and> p_template_id p = k"
  by (auto simp: get_parameter_def split: option.splits)

lemma versionedI:
  assumes t: "template_of d k = Some t" and d': "d' = save_resource (RTemplate t') d1"
    and same: "templates d1 = templates d" and t': "t' = t \<or> t' = bump_revision t"
    and secrets: "t' = t \<Longrightarrow> \<forall>n. system_value_of d1 n = system_value_of d n"
  shows "versioned c k d d'"
proof -
  have id: "t_id t = k" using t by (rule select_row_key)
  then have id': "t_id t' = k" using t' by (auto simp: bump_revision_def)
  have new: "template_of d' k = Some t'" using t same id' by (simp add: d')
  have others: "\<forall>k'. k' \<noteq> k \<longrightarrow> template_of d' k' = template_of d k'" using same id' by (simp add: d')
  have "\<forall>n. secret_of c d' n = secret_of c d n" if "t' = t"
    using secrets[OF that] by (simp add: d' secret_of_def)
  with t new others t' show ?thesis unfolding versioned_def by blast
qed

lemma bump_differs [simp]: "bump_revision t \<noteq> t" "t \<noteq> bump_revision t"
  by (auto simp: bump_revision_def dest: arg_cong[where f = t_system_parameter_revision])

lemma create_parameter_versioned:
  assumes "create_parameter k payload (Some c) pk d = Inr (d', p)"
  shows "versioned c k d d'" and "sys_run d d'"
proof -
  obtain t t' sv where t: "template_of d k = Some t" and np: "new_parameter t payload (Some c) pk = Inr (t', p, sv)"
    and d': "d' = save_resource (RTemplate t') (add_system_value sv (d\<lparr>template_parameters := insert_row p (template_parameters d)\<rparr>))"
    using assms by (auto simp: create_parameter_def rbind_Inr_iff parameter_template_Inr Let_def
        simp del: save_resource.simps split: if_splits)
  have t': "t' = t \<and> sv = None \<or> t' = bump_revision t"
    using np by (auto simp: new_parameter_def Let_def split: template_parameter_create.splits)
  show "versioned c k d d'"
    by (rule versionedI[OF t d']) (use t' bump_differs in \<open>auto simp: add_system_value_def split: option.splits\<close>)
  show "sys_run d d'" unfolding d'
    by (rule run_touch_template[OF t]) (use t' in \<open>auto simp: same_lifecycle_def add_system_value_def split: option.splits\<close>)
qed

text \<open>A replaced value bumps the revision, and only a value that differs is replaced.\<close>

lemma apply_parameter_update_Inr:
  assumes "apply_parameter_update t p stored u (Some c) = Inr (t', p', sv)"
  shows "p_id p' = p_id p" and "p_type p' = p_type p" and "p_template_id p' = p_template_id p" and "p_name p' = p_name p"
    and "t' = t \<and> sv = stored \<or> t' = bump_revision t \<and> p_type p = SYSTEM_PARAMETER
       \<and> (\<exists>v. sv = Some \<lparr>sv_parameter_id = p_id p, sv_value_enc = pc_encrypt c v (p_id p)\<rparr>
            \<and> (case stored of None \<Rightarrow> True | Some s \<Rightarrow> pc_decrypt c (sv_value_enc s) (p_id p) \<noteq> Some v))"
  using assms by (auto simp: apply_parameter_update_def result_iffs Let_def
      split: template_parameter_update.splits option.splits if_splits)

lemma update_parameter_Inr:
  assumes "update_parameter k pk u (Some c) d = Inr (d', p')"
  obtains t t' p sv where "template_of d k = Some t" "parameter_of d pk = Some p" "p_template_id p = k"
    "apply_parameter_update t p (system_value_of d pk) u (Some c) = Inr (t', p', sv)"
    "d' = save_resource (RTemplate t') (store_system_value (system_value_of d pk) sv
       (d\<lparr>template_parameters := replace_row p_id p' (template_parameters d)\<rparr>))"
  using assms by (auto simp: update_parameter_def rbind_Inr_iff parameter_template_Inr locked_parameter_def
      require_iff get_parameter_Some Let_def simp del: save_resource.simps)

lemma system_value_store:
  assumes "stored = system_value_of d pk" and "\<forall>v. sv = Some v \<longrightarrow> sv_parameter_id v = pk"
    and "sv = None \<Longrightarrow> stored = None"
  shows "system_value_of (store_system_value stored sv d) n = (if n = pk then sv else system_value_of d n)"
  using assms by (cases stored; cases sv)
    (auto simp: store_system_value_def add_system_value_def select_insert_row select_replace_row split: option.splits)

lemma update_parameter_versioned:
  assumes upd: "update_parameter k pk u (Some c) d = Inr (d', p')"
  shows "versioned c k d d'" and "sys_run d d'"
    and "parameter_cipher_law c \<Longrightarrow> template_of d' k \<noteq> template_of d k \<Longrightarrow> secret_of c d' pk \<noteq> secret_of c d pk"
proof -
  obtain t t' p sv where t: "template_of d k = Some t" and p: "parameter_of d pk = Some p"
    and app: "apply_parameter_update t p (system_value_of d pk) u (Some c) = Inr (t', p', sv)"
    and d': "d' = save_resource (RTemplate t') (store_system_value (system_value_of d pk) sv
       (d\<lparr>template_parameters := replace_row p_id p' (template_parameters d)\<rparr>))"
    by (rule update_parameter_Inr[OF upd])
  let ?d1 = "d\<lparr>template_parameters := replace_row p_id p' (template_parameters d)\<rparr>"
  let ?d2 = "store_system_value (system_value_of d pk) sv ?d1"
  note out = apply_parameter_update_Inr[OF app]
  have id: "p_id p = pk" using p by (rule select_row_key)
  have key: "\<forall>v. sv = Some v \<longrightarrow> sv_parameter_id v = pk" and gone: "sv = None \<Longrightarrow> system_value_of d pk = None"
    using out(5) id by (auto dest: select_row_key select_row_key[OF sym])
  have vals: "system_value_of ?d2 n = (if n = pk then sv else system_value_of d n)" for n
    using system_value_store[where stored = "system_value_of d pk" and d = ?d1 and pk = pk and sv = sv] key gone by simp
  have frame: "same_lifecycle d ?d2"
    by (simp add: same_lifecycle_def store_system_value_def add_system_value_def split: option.split)
  show "versioned c k d d'"
    by (rule versionedI[OF t d']) (use frame out(5) vals in \<open>auto simp: same_lifecycle_def\<close>)
  show "sys_run d d'" unfolding d' by (rule run_touch_template[OF t frame]) (use out(5) in blast)
  show "secret_of c d' pk \<noteq> secret_of c d pk" if "parameter_cipher_law c" "template_of d' k \<noteq> template_of d k"
  proof -
    have "t_id t = k" using t by (rule select_row_key)
    then have "t' \<noteq> t" using that(2) t frame out(5) by (auto simp: d' same_lifecycle_def)
    with out(5) obtain v where v: "sv = Some \<lparr>sv_parameter_id = p_id p, sv_value_enc = pc_encrypt c v (p_id p)\<rparr>"
      "case system_value_of d pk of None \<Rightarrow> True | Some s \<Rightarrow> pc_decrypt c (sv_value_enc s) (p_id p) \<noteq> Some v" by blast
    have "secret_of c d' pk = Some v"
      using vals[of pk] v(1) that(1) id by (simp add: d' secret_of_def parameter_cipher_law_def)
    moreover have "secret_of c d pk \<noteq> Some v" using v(2) id by (auto simp: secret_of_def split: option.splits)
    ultimately show ?thesis by simp
  qed
qed

lemma delete_parameter_Inr:
  assumes "delete_parameter k pk d = Inr d'"
  obtains t p where "template_of d k = Some t" "parameter_of d pk = Some p"
    "d' = save_resource (RTemplate (if p_type p = SYSTEM_PARAMETER then bump_revision t else t))
      (d\<lparr>template_parameters := delete_where (\<lambda>q. p_id q = pk) (template_parameters d),
         template_parameter_system_values :=
           delete_where (\<lambda>v. sv_parameter_id v = pk) (template_parameter_system_values d)\<rparr>)"
  using assms by (auto simp: delete_parameter_def rbind_Inr_iff parameter_template_Inr locked_parameter_def
      require_iff get_parameter_Some Let_def simp del: save_resource.simps)

lemma delete_parameter_versioned:
  assumes "delete_parameter k pk d = Inr d'" and "values_ok d"
  shows "versioned c k d d'" and "sys_run d d'"
proof -
  obtain t p where t: "template_of d k = Some t" and p: "parameter_of d pk = Some p"
    and d': "d' = save_resource (RTemplate (if p_type p = SYSTEM_PARAMETER then bump_revision t else t))
      (d\<lparr>template_parameters := delete_where (\<lambda>q. p_id q = pk) (template_parameters d),
         template_parameter_system_values :=
           delete_where (\<lambda>v. sv_parameter_id v = pk) (template_parameter_system_values d)\<rparr>)"
    by (rule delete_parameter_Inr[OF assms(1)])
  have "system_value_of d pk = None" if "p_type p \<noteq> SYSTEM_PARAMETER"
    using values_okD[OF assms(2), of pk] p that by (cases "system_value_of d pk") auto
  then show "versioned c k d d'"
    by (intro versionedI[OF t d']) (auto simp: select_delete_key split: if_splits)
  show "sys_run d d'" unfolding d' by (rule run_touch_template[OF t]) (simp_all add: same_lifecycle_def)
qed

lemma values_ok_step:
  assumes "parameter_step c k d d'" and ok: "values_ok d"
  shows "values_ok d'"
  using assms(1)
proof cases
  case (create payload pk p)
  then obtain t t' sv where np: "new_parameter t payload (Some c) pk = Inr (t', p, sv)"
    and d': "d' = save_resource (RTemplate t') (add_system_value sv (d\<lparr>template_parameters := insert_row p (template_parameters d)\<rparr>))"
    and con: "parameters_ok (template_parameters d')" "unique_by sv_parameter_id (template_parameter_system_values d')"
    by (auto simp: create_parameter_def rbind_Inr_iff parameter_template_Inr Let_def
        simp del: save_resource.simps split: if_splits)
  have fresh: "p_id p \<notin> keys_of p_id (template_parameters d)"
    using con(1) by (auto simp: d' parameters_ok_def add_system_value_def split: option.splits)
  have "p_type p = SYSTEM_PARAMETER \<and> sv_parameter_id v = p_id p" if "sv = Some v" for v
    using np that by (auto simp: new_parameter_def Let_def split: template_parameter_create.splits)
  then have sys: "v \<in> set (template_parameter_system_values d) \<or> (sv_parameter_id v = p_id p \<and> p_type p = SYSTEM_PARAMETER)"
    if "v \<in> set (template_parameter_system_values d')" for v
    using that by (auto simp: d' add_system_value_def split: option.splits)
  have params: "parameter_of d' n = (if n = p_id p then Some p else parameter_of d n)" for n
    using fresh by (auto simp: d' add_system_value_def select_insert_row select_row_None[symmetric] split: option.splits)
  have "case parameter_of d' (sv_parameter_id v) of None \<Rightarrow> False | Some q \<Rightarrow> p_type q = SYSTEM_PARAMETER"
    if "v \<in> set (template_parameter_system_values d')" for v
    using sys[OF that] ok params fresh
    by (auto simp: values_ok_def list_all_iff select_row_None[symmetric] split: option.splits)
  with con show ?thesis by (simp add: values_ok_def list_all_iff parameters_ok_def)
next
  case (update pk u p')
  from update obtain t t' p sv where p: "parameter_of d pk = Some p"
    and app: "apply_parameter_update t p (system_value_of d pk) u (Some c) = Inr (t', p', sv)"
    and d': "d' = save_resource (RTemplate t') (store_system_value (system_value_of d pk) sv
       (d\<lparr>template_parameters := replace_row p_id p' (template_parameters d)\<rparr>))"
    by (rule update_parameter_Inr)
  note out = apply_parameter_update_Inr[OF app]
  have id: "p_id p = pk" using p by (rule select_row_key)
  let ?vals = "template_parameter_system_values d'"
  have sys: "v \<in> set (template_parameter_system_values d) \<or> (sv_parameter_id v = pk \<and> p_type p = SYSTEM_PARAMETER)"
    if "v \<in> set ?vals" for v
    using that out(5) id by (auto simp: d' store_system_value_def add_system_value_def
        dest!: in_replace_row dest: select_row_mem split: option.splits)
  have params: "parameter_of d' n = (if n = pk then Some p' else parameter_of d n)" for n
    using p out(1) id by (auto simp: d' select_replace_row store_system_value_def add_system_value_def split: option.splits)
  have "unique_by sv_parameter_id ?vals"
  proof (cases "system_value_of d pk")
    case None
    then have "pk \<notin> keys_of sv_parameter_id (template_parameter_system_values d)" by (simp add: select_row_None)
    with ok None out(5) id show ?thesis
      by (auto simp: values_ok_def d' store_system_value_def add_system_value_def)
  next
    case (Some s)
    with ok show ?thesis by (auto simp: values_ok_def d' store_system_value_def split: option.split)
  qed
  moreover have "unique_by p_id (template_parameters d')"
    using ok by (simp add: values_ok_def d' store_system_value_def add_system_value_def split: option.split)
  moreover have "case parameter_of d' (sv_parameter_id v) of None \<Rightarrow> False | Some q \<Rightarrow> p_type q = SYSTEM_PARAMETER"
    if "v \<in> set ?vals" for v
    using sys[OF that] ok params out(2) p by (auto simp: values_ok_def list_all_iff split: option.splits)
  ultimately show ?thesis by (simp add: values_ok_def list_all_iff)
next
  case (delete pk)
  then obtain t' where d': "d' = save_resource (RTemplate t')
      (d\<lparr>template_parameters := delete_where (\<lambda>q. p_id q = pk) (template_parameters d),
         template_parameter_system_values :=
           delete_where (\<lambda>v. sv_parameter_id v = pk) (template_parameter_system_values d)\<rparr>)"
    by (auto simp: delete_parameter_def rbind_Inr_iff Let_def simp del: save_resource.simps)
  show ?thesis using ok by (auto simp: values_ok_def d' list_all_iff select_delete_key
      split: option.splits)
qed

interpretation secrets: invariant_system "parameter_step c k" values_ok for c k
  by unfold_locales (rule values_ok_step)

section \<open>Workspaces fit their template\<close>

text \<open>The modules of a workspace are offered by its template and its image is one of the template's.\<close>

definition fits :: "db \<Rightarrow> workspace \<Rightarrow> bool" where
  "fits d x = ((case template_of d (w_template_id x) of None \<Rightarrow> False | Some t \<Rightarrow> set (w_modules x) \<subseteq> set (t_modules t))
     \<and> (case image_of d (w_image_id x) of None \<Rightarrow> False | Some m \<Rightarrow> im_template_id m = w_template_id x))"

definition catalogue_inv :: "db \<Rightarrow> bool" where
  "catalogue_inv d = (unique_by t_id (templates d) \<and> unique_by im_id (template_images d) \<and> list_all (fits d) (workspaces d))"

lemma catalogue_inv_empty [simp]: "catalogue_inv empty_db"
  by (simp add: catalogue_inv_def empty_db_def unique_by_def)

inductive catalogue_step :: "db \<Rightarrow> db \<Rightarrow> bool" where
  create_template: "create_template payload k d = Inr (d', t) \<Longrightarrow> catalogue_step d d'"
| update_template: "update_template k u d = Inr (d', t) \<Longrightarrow> catalogue_step d d'"
| delete_template: "delete_template k d = Inr d' \<Longrightarrow> catalogue_step d d'"
| request_template_sync: "request_template_sync k jk now d = Inr (d', r) \<Longrightarrow> catalogue_step d d'"
| create_image: "create_image k ip ik d = Inr (d', m) \<Longrightarrow> catalogue_step d d'"
| delete_image: "delete_image k ik d = Inr d' \<Longrightarrow> catalogue_step d d'"
| parameters: "parameter_step c k d d' \<Longrightarrow> catalogue_step d d'"
| create_workspace: "create_workspace wp k jk now d = Inr (d', x) \<Longrightarrow> catalogue_step d d'"
| update_workspace: "update_workspace k wu jk now d = Inr (d', x, changed) \<Longrightarrow> catalogue_step d d'"
| request_workspace_deletion: "request_workspace_deletion k jk now d = Inr (d', x) \<Longrightarrow> catalogue_step d d'"
| elsewhere: "map t_id (templates d') = map t_id (templates d) \<Longrightarrow> map t_modules (templates d') = map t_modules (templates d)
    \<Longrightarrow> template_images d' = template_images d
    \<Longrightarrow> (\<forall>x\<in>set (workspaces d'). \<exists>y\<in>set (workspaces d). w_template_id x = w_template_id y
          \<and> w_image_id x = w_image_id y \<and> w_modules x = w_modules y) \<Longrightarrow> catalogue_step d d'"

text \<open>\<open>offers d' d\<close>: every template keeps its modules and every image its template.\<close>

definition offers :: "db \<Rightarrow> db \<Rightarrow> bool" where
  "offers d' d = ((\<forall>k t. template_of d k = Some t \<longrightarrow> (\<exists>t'. template_of d' k = Some t' \<and> set (t_modules t) \<subseteq> set (t_modules t')))
     \<and> (\<forall>k m. image_of d k = Some m \<longrightarrow> image_of d' k = Some m))"

lemma fits_mono: "fits d x \<Longrightarrow> offers d' d \<Longrightarrow> fits d' x"
  unfolding fits_def offers_def by (auto split: option.splits) (metis option.inject option.distinct(1) subsetD)+

lemma fits_fields:
  "w_template_id x = w_template_id y \<Longrightarrow> w_image_id x = w_image_id y \<Longrightarrow> w_modules x = w_modules y \<Longrightarrow> fits d x = fits d y"
  by (simp add: fits_def cong: option.case_cong)

lemma catalogue_inv_mono:
  assumes "catalogue_inv d" and "unique_by t_id (templates d')" and "unique_by im_id (template_images d')"
    and "offers d' d" and "\<forall>x\<in>set (workspaces d'). fits d x \<or> fits d' x"
  shows "catalogue_inv d'"
  using assms fits_mono unfolding catalogue_inv_def list_all_iff by blast

text \<open>A template row replaced by one with the same key and at least the same modules.\<close>

lemma offers_save_template:
  assumes "template_of d k = Some t" "t_id t' = k" "set (t_modules t) \<subseteq> set (t_modules t')"
    and "templates d1 = templates d" "template_images d1 = template_images d"
  shows "offers (save_resource (RTemplate t') d1) d"
  using assms by (auto simp: offers_def select_replace_row)

lemma select_same_columns:
  "map key xs = map key ys \<Longrightarrow> map f xs = map f ys \<Longrightarrow>
   map_option f (select_row key k xs) = map_option f (select_row key k ys)"
proof (induction xs arbitrary: ys)
  case (Cons x xs)
  then obtain y ys' where "ys = y # ys'" by (cases ys) auto
  with Cons show ?case by (simp add: select_row_Cons)
qed simp

lemma offers_elsewhere:
  assumes "map t_id (templates d') = map t_id (templates d)" and "map t_modules (templates d') = map t_modules (templates d)"
    and "template_images d' = template_images d"
  shows "offers d' d"
  unfolding offers_def
proof (intro conjI allI impI)
  fix k t assume "template_of d k = Some t"
  with select_same_columns[OF assms(1,2), of k] show "\<exists>t'. template_of d' k = Some t' \<and> set (t_modules t) \<subseteq> set (t_modules t')"
    by (cases "template_of d' k") auto
qed (simp add: assms(3))

lemma catalogue_inv_create_template:
  assumes "create_template payload k d = Inr (d', t)" and inv: "catalogue_inv d"
  shows "catalogue_inv d'"
proof -
  have d': "d' = d\<lparr>templates := insert_row t (templates d)\<rparr>" "templates_ok (templates d')"
    using assms(1) by (auto simp: create_template_def Let_def split: if_splits)
  then have "offers d' d" by (auto simp: offers_def select_insert_row)
  then show ?thesis
    by (intro catalogue_inv_mono[OF inv]) (use inv d' in \<open>auto simp: catalogue_inv_def templates_ok_def list_all_iff\<close>)
qed

lemma catalogue_inv_update_template:
  assumes "update_template k u d = Inr (d', t')" and inv: "catalogue_inv d"
  shows "catalogue_inv d'"
proof -
  obtain t where t: "template_of d k = Some t" and out: "if template_changed u t
       then d' = save_resource (RTemplate t') (drop_job (t_job_id t) d) \<and> t_id t' = k
          \<and> (\<forall>x\<in>set (workspaces d). w_template_id x = k \<longrightarrow> set (w_modules x) \<subseteq> set (t_modules t'))
       else d' = d"
    using update_template_Inr[OF assms(1)] by (auto split: if_splits simp del: save_resource.simps)
  show ?thesis
  proof (cases "template_changed u t")
    case True
    with out have d': "d' = save_resource (RTemplate t') (drop_job (t_job_id t) d)" and id: "t_id t' = k"
      and mods: "\<forall>x\<in>set (workspaces d). w_template_id x = k \<longrightarrow> set (w_modules x) \<subseteq> set (t_modules t')"
      by simp_all
    have "fits d' x" if "x \<in> set (workspaces d)" for x
      using inv that mods t id
      by (auto simp: d' catalogue_inv_def list_all_iff fits_def select_replace_row split: option.splits)
    then show ?thesis using inv by (auto simp: catalogue_inv_def d' list_all_iff)
  qed (use out inv in simp)
qed

lemma catalogue_inv_delete_template:
  assumes "delete_template k d = Inr d'" and inv: "catalogue_inv d"
  shows "catalogue_inv d'"
  using assms(1)
proof (rule delete_template_Inr)
  fix t assume t: "template_of d k = Some t" "t_id t = k"
    and del: "delete_template_row k (save_resource (RTemplate (t\<lparr>t_job_id := None\<rparr>)) (drop_job (t_job_id t) d)) = Inr d'"
  then have free: "\<forall>x\<in>set (workspaces d). w_template_id x \<noteq> k"
    and rows: "workspaces d' = workspaces d" "templates d' = delete_where (\<lambda>t. t_id t = k) (replace_row t_id (t\<lparr>t_job_id := None\<rparr>) (templates d))"
      "template_images d' = delete_where (\<lambda>m. im_template_id m = k) (template_images d)"
    by (auto simp: delete_template_row_def Let_def exists_row_iff split: if_splits)
  have "fits d' x" if "x \<in> set (workspaces d)" for x
    using that inv free t(2)
    by (auto simp: catalogue_inv_def list_all_iff fits_def rows select_delete_key select_replace_row
        select_delete_where split: option.splits)
  then show ?thesis using inv by (auto simp: catalogue_inv_def rows list_all_iff)
qed

lemma catalogue_inv_sync:
  assumes "request_template_sync k jk now d = Inr (d', r)" and inv: "catalogue_inv d"
  shows "catalogue_inv d'"
proof -
  obtain t where t: "template_of d k = Some t"
    and d': "d' = attach_job (RTemplate (t\<lparr>t_action := ''syncing'', t_sync_status := PENDING, t_job_id := Some jk,
                   t_step := Some TEMPLATE_SYNC_STEP_01\<rparr>)) ''template.sync'' TEMPLATE_SYNC_STEP_01_TASK
                 TEMPLATE_SYNC_STEP_01 jk now (drop_job (t_job_id t) d)"
    using assms(1) by (auto simp: request_template_sync_def result_iffs lock_idle_template_Inr
        discard_current_job_def Let_def)
  have id: "t_id t = k" using t by (rule select_row_key)
  show ?thesis
  proof (rule catalogue_inv_mono[OF inv])
    show "offers d' d" unfolding d' attach_job_def by (rule offers_save_template[OF t]) (simp_all add: id stage_job_def)
  qed (use inv in \<open>auto simp: d' attach_job_def stage_job_def catalogue_inv_def list_all_iff\<close>)
qed

lemma catalogue_inv_images:
  "create_image k ip ik d = Inr (d', m) \<Longrightarrow> catalogue_inv d \<Longrightarrow> catalogue_inv d'"
  "delete_image k ik d = Inr d' \<Longrightarrow> catalogue_inv d \<Longrightarrow> catalogue_inv d'"
proof -
  assume c: "create_image k ip ik d = Inr (d', m)" and inv: "catalogue_inv d"
  then have d': "d' = d\<lparr>template_images := insert_row m (template_images d)\<rparr>" "images_ok (template_images d')"
    by (auto simp: create_image_def rbind_Inr_iff Let_def split: if_splits)
  then have "offers d' d" by (auto simp: offers_def select_insert_row)
  then show "catalogue_inv d'"
    by (intro catalogue_inv_mono[OF inv]) (use inv d' in \<open>auto simp: catalogue_inv_def images_ok_def list_all_iff\<close>)
next
  assume c: "delete_image k ik d = Inr d'" and inv: "catalogue_inv d"
  then have d': "d' = d\<lparr>template_images := delete_where (\<lambda>m. im_id m = ik) (template_images d)\<rparr>"
    and free: "\<forall>x\<in>set (workspaces d). w_image_id x \<noteq> ik"
    by (auto simp: delete_image_def result_iffs exists_row_iff)
  have "fits d' x" if "x \<in> set (workspaces d)" for x
    using that inv free by (auto simp: catalogue_inv_def list_all_iff fits_def d' select_delete_key)
  then show "catalogue_inv d'" using inv by (auto simp: catalogue_inv_def d' list_all_iff)
qed

lemma system_value_frame [simp]:
  "templates (add_system_value sv d) = templates d" "template_images (add_system_value sv d) = template_images d"
  "workspaces (add_system_value sv d) = workspaces d"
  "templates (store_system_value stored sv d) = templates d"
  "template_images (store_system_value stored sv d) = template_images d"
  "workspaces (store_system_value stored sv d) = workspaces d"
  by (simp_all add: add_system_value_def store_system_value_def split: option.split)

lemma parameter_step_frame:
  assumes "parameter_step c k d d'"
  shows "\<exists>t t' d1. template_of d k = Some t \<and> (t' = t \<or> t' = bump_revision t) \<and> d' = save_resource (RTemplate t') d1
    \<and> templates d1 = templates d \<and> template_images d1 = template_images d \<and> workspaces d1 = workspaces d"
  using assms
proof cases
  case (create payload pk p)
  then obtain t t' sv where t: "template_of d k = Some t" and np: "new_parameter t payload (Some c) pk = Inr (t', p, sv)"
    and d': "d' = save_resource (RTemplate t') (add_system_value sv (d\<lparr>template_parameters := insert_row p (template_parameters d)\<rparr>))"
    by (auto simp: create_parameter_def rbind_Inr_iff parameter_template_Inr Let_def
        simp del: save_resource.simps split: if_splits)
  have "t' = t \<or> t' = bump_revision t"
    using np by (auto simp: new_parameter_def Let_def split: template_parameter_create.splits)
  with t show ?thesis
    by (intro exI[of _ t] exI[of _ t'] exI[of _ "add_system_value sv (d\<lparr>template_parameters := insert_row p (template_parameters d)\<rparr>)"])
       (simp add: d' del: save_resource.simps)
next
  case (update pk u p')
  from update obtain t t' p sv where t: "template_of d k = Some t"
    and app: "apply_parameter_update t p (system_value_of d pk) u (Some c) = Inr (t', p', sv)"
    and d': "d' = save_resource (RTemplate t') (store_system_value (system_value_of d pk) sv
       (d\<lparr>template_parameters := replace_row p_id p' (template_parameters d)\<rparr>))"
    by (rule update_parameter_Inr)
  have "t' = t \<or> t' = bump_revision t" using apply_parameter_update_Inr(5)[OF app] by blast
  with t show ?thesis
    by (intro exI[of _ t] exI[of _ t'] exI[of _ "store_system_value (system_value_of d pk) sv
       (d\<lparr>template_parameters := replace_row p_id p' (template_parameters d)\<rparr>)"])
       (simp add: d' del: save_resource.simps)
next
  case (delete pk)
  then obtain t p where "template_of d k = Some t" "parameter_of d pk = Some p"
    "d' = save_resource (RTemplate (if p_type p = SYSTEM_PARAMETER then bump_revision t else t))
      (d\<lparr>template_parameters := delete_where (\<lambda>q. p_id q = pk) (template_parameters d),
         template_parameter_system_values :=
           delete_where (\<lambda>v. sv_parameter_id v = pk) (template_parameter_system_values d)\<rparr>)"
    by (rule delete_parameter_Inr)
  then show ?thesis
    by (intro exI[of _ t] exI[of _ "if p_type p = SYSTEM_PARAMETER then bump_revision t else t"]
        exI[of _ "d\<lparr>template_parameters := delete_where (\<lambda>q. p_id q = pk) (template_parameters d),
         template_parameter_system_values :=
           delete_where (\<lambda>v. sv_parameter_id v = pk) (template_parameter_system_values d)\<rparr>"])
       (simp del: save_resource.simps)
qed

lemma catalogue_inv_parameters:
  assumes "parameter_step c k d d'" and inv: "catalogue_inv d"
  shows "catalogue_inv d'"
proof -
  obtain t t' d1 where t: "template_of d k = Some t" "t' = t \<or> t' = bump_revision t"
    and d': "d' = save_resource (RTemplate t') d1"
    and same: "templates d1 = templates d" "template_images d1 = template_images d" "workspaces d1 = workspaces d"
    using parameter_step_frame[OF assms(1)] by blast
  have "t_id t = k" using t(1) by (rule select_row_key)
  then have "offers d' d"
    unfolding d' by (intro offers_save_template[OF t(1)]) (use t(2) same in \<open>auto simp: bump_revision_def\<close>)
  then show ?thesis
    by (intro catalogue_inv_mono[OF inv]) (use inv d' same in \<open>auto simp: catalogue_inv_def list_all_iff\<close>)
qed

text \<open>A workspace is written only after its modules and its image were checked.\<close>

lemma checks_fit:
  assumes "template_of d k = Some t" and "validate_modules t ms = Inr u" and "validate_image im k d = Inr u'"
    and "w_template_id x = k" "w_modules x = ms" "w_image_id x = im"
  shows "fits d x"
  using assms by (auto simp: fits_def validate_modules_def validate_image_def result_iffs)

lemma catalogue_inv_write_workspace:
  assumes inv: "catalogue_inv d" and "fits d x" and "templates d' = templates d" "template_images d' = template_images d"
    and "set (workspaces d') \<subseteq> insert x (set (workspaces d))"
  shows "catalogue_inv d'"
  by (rule catalogue_inv_mono[OF inv])
     (use assms in \<open>auto simp: catalogue_inv_def offers_def list_all_iff\<close>)

lemma catalogue_inv_create_workspace:
  assumes "create_workspace wp k jk now d = Inr (d', x)" and inv: "catalogue_inv d"
  shows "catalogue_inv d'"
proof -
  obtain t where t: "template_of d (wc_template_id wp) = Some t" "validate_image (wu_image_id wp) (t_id t) d = Inr ()"
      "validate_modules t (wu_modules wp) = Inr ()"
    and x: "w_template_id x = t_id t" "w_modules x = wu_modules wp" "w_image_id x = wu_image_id wp"
    and d': "d' = insert_with_job (RWorkspace x) ''workspace.create'' WORKSPACE_CREATE_STEP_01_TASK
                  WORKSPACE_CREATE_STEP_01 jk now d"
    using assms(1) by (auto simp: create_workspace_def rbind_Inr_iff lock_template_def require_iff Let_def split: if_splits)
  have "t_id t = wc_template_id wp" using t(1) by (rule select_row_key)
  with t x have "fits d x" by (intro checks_fit[OF t(1)]) simp_all
  then show ?thesis
    by (rule catalogue_inv_write_workspace[OF inv]) (simp_all add: d' insert_with_job_def stage_job_def)
qed

lemma catalogue_inv_attach_workspace:
  assumes "catalogue_inv d" and "fits d x'"
  shows "catalogue_inv (attach_job (RWorkspace x') name task step jk now d)"
  by (rule catalogue_inv_write_workspace[OF assms])
     (use set_replace_row_subset[of w_id x' "workspaces d"] in \<open>auto simp: attach_job_def stage_job_def\<close>)

lemma catalogue_inv_update_workspace:
  assumes "update_workspace k u jk now d = Inr (d', x', changed)" and inv: "catalogue_inv d"
  shows "catalogue_inv d'"
proof -
  obtain x t ps where x: "workspace_of d k = Some x" and t: "template_of d (w_template_id x) = Some t"
      "validate_image (wu_image_id u) (t_id t) d = Inr ()" "validate_modules t (wu_modules u) = Inr ()"
    and out: "d' = d \<or> x' = request_fields ''updating'' jk WORKSPACE_UPDATE_STEP_01 (apply_workspace_update u ps x)
          \<and> d' = attach_job (RWorkspace x') ''workspace.update'' WORKSPACE_UPDATE_STEP_01_TASK
                 WORKSPACE_UPDATE_STEP_01 jk now d"
    using assms(1) by (auto simp: update_workspace_def rbind_Inr_iff lock_workspace_def lock_template_def require_iff Let_def
        split: if_splits)
  have "t_id t = w_template_id x" using t(1) by (rule select_row_key)
  with t have "fits d (request_fields ''updating'' jk WORKSPACE_UPDATE_STEP_01 (apply_workspace_update u ps x))"
    by (intro checks_fit[OF t(1)]) (simp_all add: request_fields_def apply_workspace_update_def Let_def)
  with out inv catalogue_inv_attach_workspace[OF inv] show ?thesis by auto
qed

lemma catalogue_inv_request_workspace_deletion:
  assumes "request_workspace_deletion k jk now d = Inr (d', x')" and inv: "catalogue_inv d"
  shows "catalogue_inv d'"
proof -
  obtain x where x: "workspace_of d k = Some x"
    and out: "x' = request_fields ''deleting'' jk WORKSPACE_DELETE_STEP_01 x"
      "d' = attach_job (RWorkspace x') ''workspace.delete'' WORKSPACE_DELETE_STEP_01_TASK
                 WORKSPACE_DELETE_STEP_01 jk now d"
    using assms(1) by (auto simp: request_workspace_deletion_def result_iffs lock_workspace_def Let_def)
  have "fits d x" using inv select_row_mem[OF x] by (simp add: catalogue_inv_def list_all_iff)
  then have "fits d x'" using fits_fields[of x' x] by (simp add: out request_fields_def)
  with catalogue_inv_attach_workspace[OF inv] out(2) show ?thesis by simp
qed

lemma catalogue_inv_elsewhere:
  assumes "map t_id (templates d') = map t_id (templates d)" and "map t_modules (templates d') = map t_modules (templates d)"
    and "template_images d' = template_images d"
    and "\<forall>x\<in>set (workspaces d'). \<exists>y\<in>set (workspaces d). w_template_id x = w_template_id y
          \<and> w_image_id x = w_image_id y \<and> w_modules x = w_modules y"
    and inv: "catalogue_inv d"
  shows "catalogue_inv d'"
proof (rule catalogue_inv_mono[OF inv _ _ offers_elsewhere[OF assms(1-3)]])
  show "unique_by t_id (templates d')" "unique_by im_id (template_images d')"
    using inv assms(1,3) by (simp_all add: catalogue_inv_def unique_by_def)
  show "\<forall>x\<in>set (workspaces d'). fits d x \<or> fits d' x"
    using inv assms(4) fits_fields unfolding catalogue_inv_def list_all_iff by metis
qed

lemma catalogue_inv_step: "catalogue_step d d' \<Longrightarrow> catalogue_inv d \<Longrightarrow> catalogue_inv d'"
  by (induction rule: catalogue_step.induct)
     (blast intro: catalogue_inv_create_template catalogue_inv_update_template catalogue_inv_delete_template
       catalogue_inv_sync catalogue_inv_images catalogue_inv_parameters catalogue_inv_create_workspace
       catalogue_inv_update_workspace catalogue_inv_request_workspace_deletion catalogue_inv_elsewhere)+

interpretation catalogue: invariant_system catalogue_step catalogue_inv
  by unfold_locales (rule catalogue_inv_step)

end
