(* ===== verification/Assignments.thy ===== *)
theory Assignments
  imports Templates
begin

text \<open>
  The assignments of templates to instances (\<^verbatim>\<open>repositories/template_assignments.py\<close>). Both
  requests are idempotent: repeating one returns the row as it is. The key of a job that the
  route has to dispatch after the commit (\<^verbatim>\<open>enqueue_job_id\<close>) is part of the result.
\<close>

datatype assignment_error =
    TemplateAssignmentInstanceNotFoundError
  | TemplateAssignmentTemplateNotFoundError
  | TemplateAssignmentInstanceUnavailableError
  | TemplateAssignmentActionConflictError
  | TemplateAssignmentJobConflictError
  | TemplateAssignmentSyncInProgressError
  | TemplateAssignmentWorkspacesBusyError
  | TemplateAssignmentIntegrityError

section \<open>Operations\<close>

definition assignment_order :: "db \<Rightarrow> template_assignment \<Rightarrow> string \<times> string \<times> string \<times> uuid" where
  "assignment_order d a = (case template_of d (ta_template_id a) of
       None \<Rightarrow> ([], [], [], ta_id a)
     | Some t \<Rightarrow> (lower (t_display_name t), t_display_name t, t_name t, ta_id a))"

definition list_assignments ::
  "uuid \<Rightarrow> int \<Rightarrow> int \<Rightarrow> db \<Rightarrow> (assignment_error, template_assignment list \<times> int) result" where
  "list_assignments instance_id page page_size d =
     rbind (require (instance_of d instance_id) TemplateAssignmentInstanceNotFoundError) (\<lambda>_.
       let rows = filter (\<lambda>a. ta_instance_id a = instance_id) (template_assignments d);
           joined = filter (\<lambda>a. template_of d (ta_template_id a) \<noteq> None) rows
       in Inr (page_slice page page_size (sort_key (assignment_order d) joined), int (length rows)))"

definition assignment_instance :: "uuid \<Rightarrow> db \<Rightarrow> (assignment_error, inst) result" where
  "assignment_instance instance_id d =
     require (instance_of d instance_id) TemplateAssignmentInstanceNotFoundError"

definition assignment_template :: "uuid \<Rightarrow> db \<Rightarrow> (assignment_error, template) result" where
  "assignment_template template_id d =
     require (template_of d template_id) TemplateAssignmentTemplateNotFoundError"

definition lock_assignment :: "uuid \<Rightarrow> uuid \<Rightarrow> db \<Rightarrow> template_assignment option" where
  "lock_assignment instance_id template_id d =
     find (\<lambda>a. ta_instance_id a = instance_id \<and> ta_template_id a = template_id) (template_assignments d)"

definition require_mutation_available :: "inst \<Rightarrow> template \<Rightarrow> (assignment_error, unit) result" where
  "require_mutation_available i t =
     rbind (guard_that (i_state i = STARTED \<and> i_status i = SUCCESS) TemplateAssignmentInstanceUnavailableError) (\<lambda>_.
       guard_that (\<not> unsettled (t_sync_status t)) TemplateAssignmentSyncInProgressError)"

definition require_consistent_job ::
  "template_assignment \<Rightarrow> string \<Rightarrow> string \<Rightarrow> string \<Rightarrow> db \<Rightarrow> (assignment_error, job_execution) result" where
  "require_consistent_job a job_name task_name step d =
     (case ta_job_id a of
        None \<Rightarrow> Inl TemplateAssignmentJobConflictError
      | Some jk \<Rightarrow>
          (case job_of d jk of
             None \<Rightarrow> Inl TemplateAssignmentJobConflictError
           | Some job \<Rightarrow>
               if j_name job = job_name \<and> j_task_name job = task_name
                  \<and> j_resource_type job = Some ''template_assignment'' \<and> j_resource_id job = Some (ta_id a)
                  \<and> j_step job = step \<and> ta_step a = Some step \<and> j_status job = ta_status a
               then Inr job else Inl TemplateAssignmentJobConflictError))"

definition put_assignment ::
  "uuid \<Rightarrow> uuid \<Rightarrow> uuid \<Rightarrow> uuid \<Rightarrow> instant \<Rightarrow> db
    \<Rightarrow> (assignment_error, db \<times> template_assignment \<times> bool \<times> uuid option) result" where
  "put_assignment instance_id template_id assignment_id job_id now d =
     rbind (assignment_instance instance_id d) (\<lambda>i.
     rbind (assignment_template template_id d) (\<lambda>t.
     rbind (require_mutation_available i t) (\<lambda>_.
       case lock_assignment instance_id template_id d of
         None \<Rightarrow>
           let a = \<lparr>ta_id = assignment_id, ta_template_id = template_id, ta_instance_id = instance_id,
                    ta_action = ''creating'', ta_status = PENDING, ta_job_id = Some job_id,
                    ta_step = Some TEMPLATE_ASSIGNMENT_CREATE_STEP_01\<rparr>;
               d' = insert_with_job (RAssignment a) ''template_assignment.create''
                      TEMPLATE_ASSIGNMENT_CREATE_STEP_01_TASK TEMPLATE_ASSIGNMENT_CREATE_STEP_01 job_id now d
           in if assignments_ok (template_assignments d') \<and> unique_by j_id (job_executions d')
              then Inr (d', a, True, Some job_id) else Inl TemplateAssignmentIntegrityError
       | Some a \<Rightarrow>
           if ta_action a = ''created'' \<and> ta_status a = SUCCESS then Inr (d, a, False, None)
           else if ta_action a = ''creating'' \<and> unsettled (ta_status a)
           then rbind (require_consistent_job a ''template_assignment.create''
                         TEMPLATE_ASSIGNMENT_CREATE_STEP_01_TASK TEMPLATE_ASSIGNMENT_CREATE_STEP_01 d) (\<lambda>_.
                  Inr (d, a, True, None))
           else Inl TemplateAssignmentActionConflictError)))"

definition request_assignment_deletion ::
  "uuid \<Rightarrow> uuid \<Rightarrow> uuid \<Rightarrow> instant \<Rightarrow> db
    \<Rightarrow> (assignment_error, db \<times> template_assignment option \<times> bool \<times> uuid option) result" where
  "request_assignment_deletion instance_id template_id job_id now d =
     rbind (assignment_instance instance_id d) (\<lambda>i.
     rbind (assignment_template template_id d) (\<lambda>t.
       case lock_assignment instance_id template_id d of
         None \<Rightarrow> Inr (d, None, False, None)
       | Some a \<Rightarrow>
           rbind (require_mutation_available i t) (\<lambda>_.
             if ta_action a = ''deleting'' \<and> unsettled (ta_status a)
             then rbind (require_consistent_job a ''template_assignment.delete''
                           TEMPLATE_ASSIGNMENT_DELETE_STEP_01_TASK TEMPLATE_ASSIGNMENT_DELETE_STEP_01 d) (\<lambda>_.
                    Inr (d, Some a, True, None))
             else rbind (guard_that (ta_action a = ''created'' \<and> ta_status a = SUCCESS)
                           TemplateAssignmentActionConflictError) (\<lambda>_.
                  rbind (guard_that (\<not> exists_row (\<lambda>x. w_instance_id x = instance_id
                             \<and> w_template_id x = template_id \<and> unsettled (w_status x)) (workspaces d))
                           TemplateAssignmentWorkspacesBusyError) (\<lambda>_.
                    let a' = a\<lparr>ta_action := ''deleting'', ta_status := PENDING, ta_job_id := Some job_id,
                               ta_step := Some TEMPLATE_ASSIGNMENT_DELETE_STEP_01\<rparr>
                    in Inr (attach_job (RAssignment a') ''template_assignment.delete''
                              TEMPLATE_ASSIGNMENT_DELETE_STEP_01_TASK TEMPLATE_ASSIGNMENT_DELETE_STEP_01 job_id now d,
                            Some a', True, Some job_id))))))"

section \<open>Idempotence\<close>

lemma lock_assignment_Some:
  assumes "lock_assignment ik tk d = Some a"
  shows "a \<in> set (template_assignments d)" and "ta_instance_id a = ik" and "ta_template_id a = tk"
  using assms by (auto simp: lock_assignment_def find_Some_iff in_set_conv_nth)

lemma find_insert_row: "find p rows = None \<Longrightarrow> p a \<Longrightarrow> find p (insert_row a rows) = Some a"
  by (induction rows) (auto simp: insert_row_def split: if_splits)

lemma find_replace_row:
  "find p rows = Some a \<Longrightarrow> key a' = key a \<Longrightarrow> p a' \<Longrightarrow> unique_by key rows \<Longrightarrow> find p (replace_row key a' rows) = Some a'"
proof (induction rows)
  case (Cons r rows)
  show ?case
  proof (cases "p r")
    case True
    with Cons show ?thesis by (simp add: replace_row_def update_row_def)
  next
    case False
    with Cons.prems have "find p rows = Some a" by simp
    then have "a \<in> set rows" by (auto simp: find_Some_iff)
    then have "key r \<noteq> key a" using Cons.prems(4) by (force simp: unique_by_def)
    with Cons False show ?thesis by (simp add: replace_row_def update_row_def unique_by_def)
  qed
qed simp

lemma resource_actions_assignment [simp]:
  "map_of RESOURCE_ACTIONS ''template_assignment.create'' = Some ''creating''"
  "map_of RESOURCE_ACTIONS ''template_assignment.delete'' = Some ''deleting''"
  by (simp_all add: RESOURCE_ACTIONS_def)

lemma mutation_available_iff [simp]:
  "require_mutation_available i t = Inr u \<longleftrightarrow> i_state i = STARTED \<and> i_status i = SUCCESS \<and> t_sync_status t = SUCCESS"
  by (auto simp: require_mutation_available_def result_iffs)

text \<open>A row and the job that was staged for it pass the consistency check.\<close>

lemma consistent_staged:
  assumes "ta_job_id a = Some jk" "ta_step a = Some step" "ta_status a = PENDING"
    and "job_of d jk = Some (add_job_execution jk name task (Some ''template_assignment'') (Some (ta_id a)) step now)"
  shows "\<exists>job. require_consistent_job a name task step d = Inr job"
proof -
  have "j_status (add_job_execution jk name task (Some ''template_assignment'') (Some (ta_id a)) step now) = PENDING"
    using new_job_add by (simp add: new_job_def)
  with assms show ?thesis by (simp add: require_consistent_job_def add_job_execution_def)
qed

lemma insert_assignment_rows [simp]:
  "instances (insert_with_job (RAssignment a) n t s jk now d) = instances d"
  "templates (insert_with_job (RAssignment a) n t s jk now d) = templates d"
  "template_assignments (insert_with_job (RAssignment a) n t s jk now d) = insert_row a (template_assignments d)"
  "instances (attach_job (RAssignment a) n t s jk now d) = instances d"
  "templates (attach_job (RAssignment a) n t s jk now d) = templates d"
  "template_assignments (attach_job (RAssignment a) n t s jk now d) = replace_row ta_id a (template_assignments d)"
  by (simp_all add: insert_with_job_def attach_job_def stage_job_def)

text \<open>What an accepted request leaves behind, whether or not it had to stage a job.\<close>

definition assignment_settles :: "db \<Rightarrow> uuid \<Rightarrow> uuid \<Rightarrow> template_assignment \<Rightarrow> string \<Rightarrow> string \<Rightarrow> string \<Rightarrow> bool" where
  "assignment_settles d ik tk a name task step =
     ((\<exists>i. instance_of d ik = Some i \<and> i_state i = STARTED \<and> i_status i = SUCCESS)
      \<and> (\<exists>t. template_of d tk = Some t \<and> t_sync_status t = SUCCESS)
      \<and> lock_assignment ik tk d = Some a \<and> ta_status a \<noteq> SUCCESS
      \<and> (\<exists>job. require_consistent_job a name task step d = Inr job))"

lemma put_assignment_Inr:
  assumes put: "put_assignment ik tk ak jk now d = Inr (d', a, accepted, enqueued)"
  shows "sys_run d d'"
    and "enqueued = Some k \<Longrightarrow> k = jk \<and> claimable d' jk TEMPLATE_ASSIGNMENT_CREATE_STEP_01_TASK"
    and "accepted \<Longrightarrow> ta_action a = ''creating'' \<and> assignment_settles d' ik tk a ''template_assignment.create''
           TEMPLATE_ASSIGNMENT_CREATE_STEP_01_TASK TEMPLATE_ASSIGNMENT_CREATE_STEP_01"
    and "\<not> accepted \<Longrightarrow> d' = d \<and> enqueued = None \<and> ta_action a = ''created'' \<and> ta_status a = SUCCESS
           \<and> lock_assignment ik tk d = Some a"
    and "enqueued = None \<Longrightarrow> d' = d"
proof -
  obtain i t where i: "instance_of d ik = Some i" "i_state i = STARTED" "i_status i = SUCCESS"
    and t: "template_of d tk = Some t" "t_sync_status t = SUCCESS"
    using put by (auto simp: put_assignment_def rbind_Inr_iff assignment_instance_def assignment_template_def require_iff)
  have "sys_run d d' \<and> (\<forall>k. enqueued = Some k \<longrightarrow> k = jk \<and> claimable d' jk TEMPLATE_ASSIGNMENT_CREATE_STEP_01_TASK)
    \<and> (accepted \<longrightarrow> ta_action a = ''creating'' \<and> assignment_settles d' ik tk a ''template_assignment.create''
           TEMPLATE_ASSIGNMENT_CREATE_STEP_01_TASK TEMPLATE_ASSIGNMENT_CREATE_STEP_01)
    \<and> (\<not> accepted \<longrightarrow> d' = d \<and> enqueued = None \<and> ta_action a = ''created'' \<and> ta_status a = SUCCESS
           \<and> lock_assignment ik tk d = Some a)
    \<and> (enqueued = None \<longrightarrow> d' = d)"
  proof (cases "lock_assignment ik tk d")
    case (Some b)
    with put i t show ?thesis
      by (auto simp: put_assignment_def rbind_Inr_iff assignment_instance_def assignment_template_def require_iff
          assignment_settles_def split: if_splits)
  next
    case None
    let ?a = "\<lparr>ta_id = ak, ta_template_id = tk, ta_instance_id = ik, ta_action = ''creating'', ta_status = PENDING,
        ta_job_id = Some jk, ta_step = Some TEMPLATE_ASSIGNMENT_CREATE_STEP_01\<rparr>"
    from None put i t have a: "a = ?a" "accepted" "enqueued = Some jk"
      and d': "d' = insert_with_job (RAssignment ?a) ''template_assignment.create''
                      TEMPLATE_ASSIGNMENT_CREATE_STEP_01_TASK TEMPLATE_ASSIGNMENT_CREATE_STEP_01 jk now d"
        "assignments_ok (template_assignments d')" "unique_by j_id (job_executions d')"
      by (auto simp: put_assignment_def rbind_Inr_iff assignment_instance_def assignment_template_def require_iff Let_def
          split: if_splits)
    have fresh: "job_of d jk = None" using d' by (auto simp: insert_with_job_def select_row_None)
    have look: "lookup_resource (resource_kind (RAssignment ?a)) (resource_key (RAssignment ?a)) d = None"
      using d' by (auto simp: lookup_resource_def assignments_ok_def select_row_None)
    have req: "requests_job (RAssignment ?a) ''template_assignment.create'' jk TEMPLATE_ASSIGNMENT_CREATE_STEP_01"
      by (simp add: requests_job_def)
    have "sys_txn d d'" unfolding d'(1) by (rule txn_insert_with_job[OF look fresh req])
    moreover have "claimable d' jk TEMPLATE_ASSIGNMENT_CREATE_STEP_01_TASK"
      unfolding d'(1) by (rule claimable_insert_with_job[OF look fresh req])
    moreover have "lock_assignment ik tk d' = Some ?a"
      using None by (simp add: d'(1) lock_assignment_def find_insert_row)
    moreover have "\<exists>job. require_consistent_job ?a ''template_assignment.create''
        TEMPLATE_ASSIGNMENT_CREATE_STEP_01_TASK TEMPLATE_ASSIGNMENT_CREATE_STEP_01 d' = Inr job"
      by (rule consistent_staged[where jk = jk and now = now]) (use fresh in \<open>simp_all add: d'(1) insert_with_job_def select_insert_row\<close>)
    ultimately show ?thesis using a i t by (auto simp: assignment_settles_def d'(1))
  qed
  then show "sys_run d d'"
    and "enqueued = Some k \<Longrightarrow> k = jk \<and> claimable d' jk TEMPLATE_ASSIGNMENT_CREATE_STEP_01_TASK"
    and "accepted \<Longrightarrow> ta_action a = ''creating'' \<and> assignment_settles d' ik tk a ''template_assignment.create''
           TEMPLATE_ASSIGNMENT_CREATE_STEP_01_TASK TEMPLATE_ASSIGNMENT_CREATE_STEP_01"
    and "\<not> accepted \<Longrightarrow> d' = d \<and> enqueued = None \<and> ta_action a = ''created'' \<and> ta_status a = SUCCESS
           \<and> lock_assignment ik tk d = Some a"
    and "enqueued = None \<Longrightarrow> d' = d"
    by blast+
qed

lemma request_assignment_deletion_Inr:
  assumes del: "request_assignment_deletion ik tk jk now d = Inr (d', a', accepted, enqueued)"
    and fresh: "job_of d jk = None" and uniq: "unique_by ta_id (template_assignments d)"
  shows "sys_run d d'"
    and "enqueued = Some k \<Longrightarrow> k = jk \<and> claimable d' jk TEMPLATE_ASSIGNMENT_DELETE_STEP_01_TASK"
    and "accepted \<Longrightarrow> \<exists>a. a' = Some a \<and> ta_action a = ''deleting'' \<and> assignment_settles d' ik tk a ''template_assignment.delete''
           TEMPLATE_ASSIGNMENT_DELETE_STEP_01_TASK TEMPLATE_ASSIGNMENT_DELETE_STEP_01"
    and "\<not> accepted \<Longrightarrow> d' = d \<and> a' = None \<and> lock_assignment ik tk d = None"
    and "enqueued = None \<Longrightarrow> d' = d"
proof -
  obtain i t where it: "instance_of d ik = Some i" "template_of d tk = Some t"
    using del by (auto simp: request_assignment_deletion_def rbind_Inr_iff assignment_instance_def
        assignment_template_def require_iff)
  have "sys_run d d' \<and> (\<forall>k. enqueued = Some k \<longrightarrow> k = jk \<and> claimable d' jk TEMPLATE_ASSIGNMENT_DELETE_STEP_01_TASK)
    \<and> (accepted \<longrightarrow> (\<exists>a. a' = Some a \<and> ta_action a = ''deleting'' \<and> assignment_settles d' ik tk a ''template_assignment.delete''
           TEMPLATE_ASSIGNMENT_DELETE_STEP_01_TASK TEMPLATE_ASSIGNMENT_DELETE_STEP_01))
    \<and> (\<not> accepted \<longrightarrow> d' = d \<and> a' = None \<and> lock_assignment ik tk d = None)
    \<and> (enqueued = None \<longrightarrow> d' = d)"
  proof (cases "lock_assignment ik tk d")
    case None
    with del it show ?thesis
      by (auto simp: request_assignment_deletion_def rbind_Inr_iff assignment_instance_def assignment_template_def require_iff)
  next
    case (Some b)
    then have avail: "i_state i = STARTED" "i_status i = SUCCESS" "t_sync_status t = SUCCESS"
      using del it by (auto simp: request_assignment_deletion_def rbind_Inr_iff assignment_instance_def
          assignment_template_def require_iff)
    show ?thesis
    proof (cases "ta_action b = ''deleting'' \<and> ta_status b \<noteq> SUCCESS")
      case True
      with Some del it obtain job where "d' = d" "a' = Some b" "accepted" "enqueued = None"
        "require_consistent_job b ''template_assignment.delete'' TEMPLATE_ASSIGNMENT_DELETE_STEP_01_TASK
           TEMPLATE_ASSIGNMENT_DELETE_STEP_01 d = Inr job"
        by (auto simp: request_assignment_deletion_def rbind_Inr_iff assignment_instance_def assignment_template_def
            require_iff)
      with True Some it avail show ?thesis by (simp add: assignment_settles_def)
    next
      case False
      let ?b = "b\<lparr>ta_action := ''deleting'', ta_status := PENDING, ta_job_id := Some jk,
                  ta_step := Some TEMPLATE_ASSIGNMENT_DELETE_STEP_01\<rparr>"
      from False Some del it have a': "a' = Some ?b" "accepted" "enqueued = Some jk"
        and d': "d' = attach_job (RAssignment ?b) ''template_assignment.delete''
              TEMPLATE_ASSIGNMENT_DELETE_STEP_01_TASK TEMPLATE_ASSIGNMENT_DELETE_STEP_01 jk now d"
        by (auto simp: request_assignment_deletion_def result_iffs assignment_instance_def assignment_template_def Let_def
            split: if_splits)
      note b = lock_assignment_Some[OF Some]
      have look: "lookup_resource (resource_kind (RAssignment ?b)) (resource_key (RAssignment ?b)) d \<noteq> None"
        using select_row_unique[OF uniq b(1)] by (simp add: lookup_resource_def)
      have req: "requests_job (RAssignment ?b) ''template_assignment.delete'' jk TEMPLATE_ASSIGNMENT_DELETE_STEP_01"
        by (simp add: requests_job_def)
      have "sys_txn d d'" unfolding d' by (rule txn_attach_job[OF look fresh req])
      moreover have "claimable d' jk TEMPLATE_ASSIGNMENT_DELETE_STEP_01_TASK"
        unfolding d' by (rule claimable_attach_job[OF look fresh req])
      moreover have "lock_assignment ik tk d' = Some ?b"
        using find_replace_row[OF Some[unfolded lock_assignment_def], of ta_id ?b] b uniq by (simp add: d' lock_assignment_def)
      moreover have "\<exists>job. require_consistent_job ?b ''template_assignment.delete''
          TEMPLATE_ASSIGNMENT_DELETE_STEP_01_TASK TEMPLATE_ASSIGNMENT_DELETE_STEP_01 d' = Inr job"
        by (rule consistent_staged[where jk = jk and now = now]) (use fresh in \<open>simp_all add: d' attach_job_def select_insert_row\<close>)
      ultimately show ?thesis using a' it avail by (auto simp: assignment_settles_def d')
    qed
  qed
  then show "sys_run d d'"
    and "enqueued = Some k \<Longrightarrow> k = jk \<and> claimable d' jk TEMPLATE_ASSIGNMENT_DELETE_STEP_01_TASK"
    and "accepted \<Longrightarrow> \<exists>a. a' = Some a \<and> ta_action a = ''deleting'' \<and> assignment_settles d' ik tk a ''template_assignment.delete''
           TEMPLATE_ASSIGNMENT_DELETE_STEP_01_TASK TEMPLATE_ASSIGNMENT_DELETE_STEP_01"
    and "\<not> accepted \<Longrightarrow> d' = d \<and> a' = None \<and> lock_assignment ik tk d = None"
    and "enqueued = None \<Longrightarrow> d' = d"
    by blast+
qed

text \<open>In such a state the same request is answered with the row as it is, and the other one with a conflict.\<close>

lemma settling_repeats:
  assumes "assignment_settles d ik tk a ''template_assignment.create'' TEMPLATE_ASSIGNMENT_CREATE_STEP_01_TASK
      TEMPLATE_ASSIGNMENT_CREATE_STEP_01" and "ta_action a = ''creating''"
  shows "put_assignment ik tk ak jk now d = Inr (d, a, True, None)"
    and "request_assignment_deletion ik tk jk now d = Inl TemplateAssignmentActionConflictError"
  using assms by (auto simp: assignment_settles_def put_assignment_def request_assignment_deletion_def
      assignment_instance_def assignment_template_def require_mutation_available_def)

lemma deletion_repeats:
  assumes "assignment_settles d ik tk a ''template_assignment.delete'' TEMPLATE_ASSIGNMENT_DELETE_STEP_01_TASK
      TEMPLATE_ASSIGNMENT_DELETE_STEP_01" and "ta_action a = ''deleting''"
  shows "request_assignment_deletion ik tk jk now d = Inr (d, Some a, True, None)"
    and "put_assignment ik tk ak jk now d = Inl TemplateAssignmentActionConflictError"
  using assms by (auto simp: assignment_settles_def put_assignment_def request_assignment_deletion_def
      assignment_instance_def assignment_template_def require_mutation_available_def)

end
