(* ===== verification/Coder_Models.thy ===== *)
theory Coder_Models
  imports Instance_Tasks
begin

text \<open>
  The typed values of the Coder domain (\<^verbatim>\<open>domains/coder/models.py\<close>) and what the template
  and workspace steps get from the services they call: a client per instance address with the
  outcome of each call, the branch archive, the decryption of a template parameter, the key of
  a new deployment row. A body asks for each outcome at most once, except that a build is
  read again at every poll, which the first argument of \<open>cc_workspace_build\<close> counts.
  How often a poll loop finds its deadline not reached yet is the number \<open>r_checks\<close>.
\<close>

record coder_template_data =
  ct_id :: uuid
  ct_active_version_id :: "uuid option"

record coder_template_version =
  cv_id :: uuid
  cv_status :: string
  cv_archived :: bool
  cv_job_id :: "uuid option"
  cv_error :: "string option"
  cv_error_code :: "string option"
  cv_logs_overflowed :: bool

record coder_workspace =
  cw_id :: uuid
  cw_status :: string
  cw_latest_build_id :: uuid
  cw_latest_build_transition :: string
  cw_name :: string
  cw_template_id :: "uuid option"

record coder_workspace_build =
  cb_id :: uuid
  cb_status :: string
  cb_transition :: string

record template_archive =
  ar_commit :: string
  ar_content :: bytes

type_synonym pairs = "(string \<times> string) list"

record coder_client =
  cc_authenticate :: "string \<Rightarrow> (task_error, unit) result"
  cc_default_organization_id :: "(task_error, uuid) result"
  cc_template :: "uuid \<Rightarrow> (task_error, coder_template_data option) result"
  cc_template_by_name :: "uuid \<Rightarrow> string \<Rightarrow> (task_error, coder_template_data option) result"
  cc_template_version_by_name ::
    "uuid \<Rightarrow> string \<Rightarrow> string \<Rightarrow> (task_error, coder_template_version option) result"
  cc_template_version_for_recovery :: "uuid \<Rightarrow> (task_error, coder_template_version option) result"
  cc_upload_template_archive :: "bytes \<Rightarrow> (task_error, uuid) result"
  cc_create_template_version ::
    "uuid \<Rightarrow> uuid \<Rightarrow> string \<Rightarrow> uuid option \<Rightarrow> pairs \<Rightarrow> (task_error, coder_template_version) result"
  cc_wait_template_version :: "uuid \<Rightarrow> (task_error, coder_template_version) result"
  cc_unarchive_template_version :: "uuid \<Rightarrow> (task_error, unit) result"
  cc_create_template :: "uuid \<Rightarrow> string \<Rightarrow> string \<Rightarrow> uuid \<Rightarrow> (task_error, coder_template_data) result"
  cc_activate_template_version :: "uuid \<Rightarrow> uuid \<Rightarrow> (task_error, unit) result"
  cc_delete_template_workspaces :: "string \<Rightarrow> uuid \<Rightarrow> (task_error, unit) result"
  cc_delete_template :: "uuid \<Rightarrow> (task_error, unit) result"
  cc_workspace :: "uuid \<Rightarrow> (task_error, coder_workspace option) result"
  cc_workspace_by_owner_and_name :: "string \<Rightarrow> string \<Rightarrow> (task_error, coder_workspace option) result"
  cc_create_workspace :: "string \<Rightarrow> string \<Rightarrow> uuid \<Rightarrow> pairs \<Rightarrow> (task_error, coder_workspace) result"
  cc_update_workspace_name :: "uuid \<Rightarrow> string \<Rightarrow> (task_error, unit) result"
  cc_create_workspace_start_build :: "uuid \<Rightarrow> pairs \<Rightarrow> (task_error, coder_workspace_build) result"
  cc_create_workspace_delete_build :: "uuid \<Rightarrow> (task_error, coder_workspace_build) result"
  cc_workspace_build :: "nat \<Rightarrow> uuid \<Rightarrow> (task_error, coder_workspace_build) result"
  cc_workspace_build_parameters :: "uuid \<Rightarrow> (task_error, pairs) result"
  cc_submit_active_workspace_stops :: "string \<Rightarrow> (task_error, nat \<times> nat) result"

record remote =
  r_client :: "string \<Rightarrow> coder_client"
  r_fetch :: "string \<Rightarrow> string \<Rightarrow> string \<Rightarrow> (task_error, template_archive) result"
  r_decrypt_parameter :: "bytes \<Rightarrow> uuid \<Rightarrow> (task_error, string) result"
  r_checks :: nat
  r_deployment_id :: "uuid \<Rightarrow> uuid"

text \<open>A heartbeat whose outcome is ignored.\<close>

definition tbeat :: "env \<Rightarrow> nat \<Rightarrow> execution_claim \<Rightarrow> unit task" where
  "tbeat env n claim = ttxn env n (\<lambda>d. Inr (fst (heartbeat_execution claim (e_clock env n) d), ()))"

lemma safe_tbeat [intro]: "safe_env env \<Longrightarrow> safe_task (tbeat env n c)"
  unfolding tbeat_def by (rule safe_ttxn) (auto intro!: sys_txn.heartbeat simp: prod_eq_iff)

text \<open>
  The points of the body for the \<open>i\<close>-th target of a loop are apart from those of every other target
  and from those outside the loop.
\<close>

definition at_target :: "nat \<Rightarrow> env \<Rightarrow> env" where
  "at_target i env = env\<lparr>e_during := (\<lambda>n. e_during env (100 + 2 ^ i * (2 * n + 1))),
     e_clock := (\<lambda>n. e_clock env (100 + 2 ^ i * (2 * n + 1))),
     e_beats := (\<lambda>n. e_beats env (100 + 2 ^ i * (2 * n + 1)))\<rparr>"

lemma safe_env_at [simp]: "safe_env env \<Longrightarrow> safe_env (at_target i env)"
  by (simp add: safe_env_def at_target_def)

end
