(* ===== verification/Workspace_Tasks.thy ===== *)
theory Workspace_Tasks
  imports Coder_Models
begin

text \<open>
  The durable steps of the workspace workflows (\<^verbatim>\<open>tasks/workspace\<close>): each reads one snapshot,
  finds or builds the remote workspace, stores the remote keys as soon as they are known, waits
  for the build and completes the job.
\<close>

section \<open>Shared helpers\<close>

record workspace_remote_snapshot =
  ws_id :: uuid
  ws_name :: string
  ws_username :: string
  ws_instance_url :: string
  ws_password :: string
  ws_coder_template_id :: uuid
  ws_coder_workspace_id :: "uuid option"
  ws_coder_workspace_build_id :: "uuid option"
  ws_parameters :: pairs
  ws_parameters_revision :: int
  ws_applied_parameters_revision :: "int option"

definition deployment_for :: "uuid \<Rightarrow> uuid \<Rightarrow> db \<Rightarrow> template_deployment option" where
  "deployment_for template_id instance_id d =
     find (\<lambda>dep. exists_row (\<lambda>a. ta_id a = td_assignment_id dep \<and> ta_template_id a = template_id
              \<and> ta_instance_id a = instance_id) (template_assignments d))
       (template_deployments d)"

definition active_names :: "uuid \<Rightarrow> db \<Rightarrow> string set" where
  "active_names template_id d =
     set (map p_name (filter (\<lambda>p. p_template_id p = template_id \<and> p_type p = USER_PARAMETER) (template_parameters d)))"

definition workspace_remote_snapshot_of ::
  "env \<Rightarrow> uuid \<Rightarrow> string \<Rightarrow> db \<Rightarrow> (task_error, workspace_remote_snapshot) result" where
  "workspace_remote_snapshot_of env workspace_id base_domain d =
     rbind (require (workspace_of d workspace_id) (WorkspaceRemoteError ''Workspace is missing'')) (\<lambda>x.
       let missing = Inl (WorkspaceRemoteError ''Workspace remote prerequisites are missing'') in
       case (instance_of d (w_instance_id x), member_of d (w_member_id x),
             deployment_for (w_template_id x) (w_instance_id x) d) of
         (Some i, Some m, Some dep) \<Rightarrow>
           (case (td_coder_template_id dep, i_password_enc i) of
              (Some coder_template_id, Some enc) \<Rightarrow>
                let parameters = sort_key id (filter (\<lambda>(name, _). name \<in> active_names (w_template_id x) d) (w_parameters x))
                in rbind (e_decrypt_instance_password env enc (i_id i)) (\<lambda>password.
                     Inr \<lparr>ws_id = w_id x, ws_name = w_name x, ws_username = m_username m,
                          ws_instance_url = url_for base_domain (i_slug i), ws_password = password,
                          ws_coder_template_id = coder_template_id, ws_coder_workspace_id = w_coder_workspace_id x,
                          ws_coder_workspace_build_id = w_coder_workspace_build_id x, ws_parameters = parameters,
                          ws_parameters_revision = w_parameters_revision x,
                          ws_applied_parameters_revision = w_applied_parameters_revision x\<rparr>)
            | _ \<Rightarrow> missing)
       | _ \<Rightarrow> missing)"

definition find_remote_workspace ::
  "env \<Rightarrow> coder_client \<Rightarrow> workspace_remote_snapshot \<Rightarrow> coder_workspace option task" where
  "find_remote_workspace env client s =
     tbind (case ws_coder_workspace_id s of
              None \<Rightarrow> treturn None
            | Some k \<Rightarrow> tremote env 2 (cc_workspace client k)) (\<lambda>found.
     case found of
       None \<Rightarrow> tremote env 3 (cc_workspace_by_owner_and_name client (ws_username s) (ws_name s))
     | Some remote \<Rightarrow> treturn (Some remote))"

definition require_matching_template :: "coder_workspace \<Rightarrow> workspace_remote_snapshot \<Rightarrow> (task_error, unit) result" where
  "require_matching_template remote s =
     guard_that (cw_template_id remote = Some (ws_coder_template_id s))
       (WorkspaceRemoteError ''Remote workspace uses a different template'')"

definition store_remote_ids ::
  "execution_claim \<Rightarrow> uuid \<Rightarrow> uuid \<Rightarrow> db \<Rightarrow> (task_error, db \<times> bool) result" where
  "store_remote_ids claim workspace_id build_id d =
     (case owned_execution d claim of
        Some (_, Some (RWorkspace x)) \<Rightarrow>
          Inr (save_resource (RWorkspace (x\<lparr>w_coder_workspace_id := Some workspace_id,
                 w_coder_workspace_build_id := Some build_id\<rparr>)) d, True)
      | _ \<Rightarrow> Inr (d, False))"

definition remote_convergence :: "uuid option \<Rightarrow> uuid option \<Rightarrow> bool \<Rightarrow> mutator" where
  "remote_convergence workspace_id build_id apply_parameters d r =
     (case r of
        Some (RWorkspace x) \<Rightarrow>
          let x1 = (case workspace_id of None \<Rightarrow> x | Some k \<Rightarrow> x\<lparr>w_coder_workspace_id := Some k\<rparr>);
              x2 = (case build_id of None \<Rightarrow> x1 | Some k \<Rightarrow> x1\<lparr>w_coder_workspace_build_id := Some k\<rparr>);
              x3 = (if apply_parameters
                    then x2\<lparr>w_applied_parameters_revision := Some (w_parameters_revision x2)\<rparr> else x2)
          in Inr (d, Some (RWorkspace x3))
      | _ \<Rightarrow> Inr (d, r))"

definition complete_workspace ::
  "env \<Rightarrow> nat \<Rightarrow> execution_claim \<Rightarrow> uuid option \<Rightarrow> uuid option \<Rightarrow> bool \<Rightarrow> bool \<Rightarrow> bool task" where
  "complete_workspace env n claim workspace_id build_id apply_parameters delete_resource =
     ttxn env n (complete_execution claim (remote_convergence workspace_id build_id apply_parameters)
       delete_resource (e_clock env n))"

definition BUILD_FAILURES :: "string list" where
  "BUILD_FAILURES = [''failed'', ''canceled'', ''canceling'']"

text \<open>The argument \<open>k\<close> counts the deadline checks that still pass.\<close>

fun wait_workspace_build ::
  "env \<Rightarrow> coder_client \<Rightarrow> execution_claim \<Rightarrow> string \<Rightarrow> nat \<Rightarrow> coder_workspace_build \<Rightarrow> coder_workspace_build task" where
  "wait_workspace_build env client claim success_status k current =
     (if cb_status current = success_status then treturn current
      else if cb_status current \<in> set BUILD_FAILURES
      then traise (RemoteError ''Coder workspace build failed'')
      else case k of
             0 \<Rightarrow> traise (RemoteError ''Coder workspace build timed out'')
           | Suc k' \<Rightarrow>
               tbind (tbeat env (200 + 2 * k) claim) (\<lambda>_.
               tbind (tremote env (201 + 2 * k) (cc_workspace_build client k (cb_id current))) (\<lambda>b.
               wait_workspace_build env client claim success_status k' b)))"

declare wait_workspace_build.simps [simp del]

definition latest_build :: "coder_workspace \<Rightarrow> coder_workspace_build" where
  "latest_build remote = \<lparr>cb_id = cw_latest_build_id remote, cb_status = cw_status remote,
     cb_transition = cw_latest_build_transition remote\<rparr>"

definition snapshot_for :: "env \<Rightarrow> execution_claim \<Rightarrow> workspace_remote_snapshot task" where
  "snapshot_for env claim =
     tbind (tlift (e_base_domain env)) (\<lambda>base_domain.
     tbind (tlift (required_resource_id claim)) (\<lambda>workspace_id.
     tread env 11 (workspace_remote_snapshot_of env workspace_id base_domain)))"

section \<open>The steps\<close>

definition step_01_create_workspace :: "remote \<Rightarrow> env \<Rightarrow> uuid \<Rightarrow> string task" where
  "step_01_create_workspace rem env job_id = run_step env job_id WORKSPACE_CREATE_STEP_01_TASK (\<lambda>claim.
     tbind (snapshot_for env claim) (\<lambda>s.
     let client = r_client rem (ws_instance_url s) in
     tbind (tremote env 1 (cc_authenticate client (ws_password s))) (\<lambda>_.
     tbind (find_remote_workspace env client s) (\<lambda>found.
     tbind (case found of
              Some remote \<Rightarrow> treturn remote
            | None \<Rightarrow> tremote env 4 (cc_create_workspace client (ws_username s) (ws_name s)
                        (ws_coder_template_id s) (ws_parameters s))) (\<lambda>remote.
     tbind (tlift (require_matching_template remote s)) (\<lambda>_.
     let build = latest_build remote in
     tbind (if found = None then treturn build
            else
              tbind (if cb_transition build = ''start''
                     then tremote env 5 (cc_workspace_build_parameters client (cb_id build))
                     else treturn []) (\<lambda>current_parameters.
              if current_parameters \<noteq> ws_parameters s
                 \<or> cb_status build \<in> {''stopped'', ''failed'', ''canceled'', ''canceling'', ''deleting'', ''deleted''}
              then tremote env 6 (cc_create_workspace_start_build client (cw_id remote) (ws_parameters s))
              else treturn build)) (\<lambda>build.
     tbind (ttxn env 12 (store_remote_ids claim (cw_id remote) (cb_id build))) (\<lambda>owned.
     if \<not> owned then treturn ''noop''
     else
       tbind (wait_workspace_build env client claim ''running'' (r_checks rem) build) (\<lambda>build.
       tbind (complete_workspace env 13 claim (Some (cw_id remote)) (Some (cb_id build)) True False) (\<lambda>completed.
       treturn (if completed then ''success'' else ''noop'')))))))))))"

definition finish_workspace_update ::
  "env \<Rightarrow> execution_claim \<Rightarrow> coder_workspace \<Rightarrow> uuid option \<Rightarrow> bool \<Rightarrow> string task" where
  "finish_workspace_update env claim remote build_id applied =
     tbind (complete_workspace env 13 claim (Some (cw_id remote)) build_id applied False) (\<lambda>completed.
     treturn (if completed then ''success'' else ''noop''))"

definition apply_workspace_parameters ::
  "remote \<Rightarrow> env \<Rightarrow> execution_claim \<Rightarrow> workspace_remote_snapshot \<Rightarrow> coder_workspace \<Rightarrow> string task" where
  "apply_workspace_parameters rem env claim s remote =
     (let client = r_client rem (ws_instance_url s); latest = latest_build remote in
      if ws_applied_parameters_revision s = Some (ws_parameters_revision s)
      then finish_workspace_update env claim remote None False
      else
        tbind (if cb_transition latest = ''start'' \<and> cb_status latest \<in> {''pending'', ''starting'', ''running''}
               then tbind (tremote env 5 (cc_workspace_build_parameters client (cb_id latest))) (\<lambda>current.
                    treturn (current = ws_parameters s))
               else treturn False) (\<lambda>adopt.
        tbind (if adopt then treturn latest
               else tremote env 6 (cc_create_workspace_start_build client (cw_id remote) (ws_parameters s))) (\<lambda>build.
        tbind (ttxn env 12 (store_remote_ids claim (cw_id remote) (cb_id build))) (\<lambda>owned.
        if \<not> owned then treturn ''noop''
        else
          tbind (wait_workspace_build env client claim ''running'' (r_checks rem) build) (\<lambda>build.
          finish_workspace_update env claim remote (Some (cb_id build)) True)))))"

definition step_01_update_workspace :: "remote \<Rightarrow> env \<Rightarrow> uuid \<Rightarrow> string task" where
  "step_01_update_workspace rem env job_id = run_step env job_id WORKSPACE_UPDATE_STEP_01_TASK (\<lambda>claim.
     tbind (snapshot_for env claim) (\<lambda>s.
     let client = r_client rem (ws_instance_url s) in
     tbind (tremote env 1 (cc_authenticate client (ws_password s))) (\<lambda>_.
     tbind (find_remote_workspace env client s) (\<lambda>found.
     tbind (tlift (require found (WorkspaceRemoteError ''Remote workspace is missing''))) (\<lambda>remote.
     tbind (tlift (require_matching_template remote s)) (\<lambda>_.
     tbind (if cw_name remote \<noteq> ws_name s
            then tremote env 4 (cc_update_workspace_name client (cw_id remote) (ws_name s))
            else treturn ()) (\<lambda>_.
     apply_workspace_parameters rem env claim s remote)))))))"

definition step_01_delete_workspace :: "remote \<Rightarrow> env \<Rightarrow> uuid \<Rightarrow> string task" where
  "step_01_delete_workspace rem env job_id = run_step env job_id WORKSPACE_DELETE_STEP_01_TASK (\<lambda>claim.
     tbind (snapshot_for env claim) (\<lambda>s.
     let client = r_client rem (ws_instance_url s);
         finish = tbind (complete_workspace env 13 claim None None False True) (\<lambda>completed.
           treturn (if completed then ''deleted'' else ''noop'')) in
     tbind (tremote env 1 (cc_authenticate client (ws_password s))) (\<lambda>_.
     tbind (find_remote_workspace env client s) (\<lambda>found.
     case found of
       None \<Rightarrow> finish
     | Some remote \<Rightarrow>
         let build = latest_build remote in
         tbind (if cb_transition build \<noteq> ''delete'' \<or> cb_status build \<in> set BUILD_FAILURES
                then tremote env 4 (cc_create_workspace_delete_build client (cw_id remote))
                else treturn build) (\<lambda>build.
         tbind (ttxn env 12 (store_remote_ids claim (cw_id remote) (cb_id build))) (\<lambda>owned.
         if \<not> owned then treturn ''noop''
         else
           tbind (wait_workspace_build env client claim ''deleted'' (r_checks rem) build) (\<lambda>_. finish)))))))"

section \<open>Every step is a run of the system\<close>

lemma mutator_ok_remote_convergence [simp, intro!]: "mutator_ok (remote_convergence wk bk b)"
  by (auto simp: mutator_ok_def remote_convergence_def Let_def split: option.splits resource.splits if_splits)

lemma run_store_remote_ids:
  assumes "store_remote_ids c wk bk d = Inr (d', b)"
  shows "sys_run d d'"
proof (cases "\<exists>job x. owned_execution d c = Some (job, Some (RWorkspace x))")
  case True
  then obtain job x where own: "owned_execution d c = Some (job, Some (RWorkspace x))" by blast
  have "sys_txn d (save_resource (RWorkspace (x\<lparr>w_coder_workspace_id := Some wk, w_coder_workspace_build_id := Some bk\<rparr>)) d)"
    by (rule sys_txn.touch[OF owned_lookup[OF own]]) simp_all
  with assms own show ?thesis by (auto simp: store_remote_ids_def simp del: save_resource.simps)
next
  case False
  with assms show ?thesis
    by (auto simp: store_remote_ids_def split: option.splits prod.splits resource.splits)
qed

lemma safe_wait_workspace_build: "safe_env env \<Longrightarrow> safe_task (wait_workspace_build env cl c ok k b)"
proof (induction k arbitrary: b)
  case 0
  then show ?case by (subst wait_workspace_build.simps) auto
next
  case (Suc k)
  then show ?case by (subst wait_workspace_build.simps) (auto intro!: safe_tbind)
qed

lemma safe_workspace_txns:
  assumes "safe_env env"
  shows "safe_task (ttxn env n (store_remote_ids c wk bk))" and "safe_task (complete_workspace env n c wo bo ap del)"
proof -
  show "safe_task (ttxn env n (store_remote_ids c wk bk))"
    by (rule safe_ttxn[OF assms]) (rule run_store_remote_ids)
  show "safe_task (complete_workspace env n c wo bo ap del)"
    unfolding complete_workspace_def
    by (rule safe_ttxn[OF assms]) (auto intro: sys_txn.complete[OF mutator_ok_remote_convergence])
qed

lemma safe_workspace_parts:
  assumes "safe_env env"
  shows "safe_task (snapshot_for env c)" and "safe_task (find_remote_workspace env cl s)"
  unfolding snapshot_for_def find_remote_workspace_def
  using assms by (auto intro!: safe_rules split: option.split)

lemma safe_apply_workspace_parameters: "safe_env env \<Longrightarrow> safe_task (apply_workspace_parameters rem env c s remote)"
  unfolding apply_workspace_parameters_def finish_workspace_update_def Let_def
  by (auto intro!: safe_rules safe_workspace_txns safe_wait_workspace_build)

lemma safe_workspace_steps:
  assumes "safe_env env"
  shows "safe_task (step_01_create_workspace rem env k)" and "safe_task (step_01_update_workspace rem env k)"
    and "safe_task (step_01_delete_workspace rem env k)"
  unfolding step_01_create_workspace_def step_01_update_workspace_def step_01_delete_workspace_def Let_def
  by (intro safe_run_step; use assms in \<open>auto intro!: safe_rules safe_workspace_parts safe_workspace_txns safe_wait_workspace_build
      safe_apply_workspace_parameters split: option.split\<close>)+

section \<open>What a success means\<close>

lemma wait_workspace_build_status:
  "wait_workspace_build env cl c ok k b w = (w', Inr b') \<Longrightarrow> cb_status b' = ok"
proof (induction k arbitrary: b w)
  case 0
  then show ?case by (subst (asm) wait_workspace_build.simps) (auto simp: treturn_def traise_def split: if_splits)
next
  case (Suc k)
  from Suc.prems show ?case
    by (subst (asm) wait_workspace_build.simps)
      (auto simp: treturn_def traise_def tbind_Inr_iff split: if_splits dest!: Suc.IH)
qed

definition converged :: "uuid \<Rightarrow> uuid option \<Rightarrow> uuid option \<Rightarrow> bool \<Rightarrow> db \<Rightarrow> bool" where
  "converged workspace_id remote_id build_id applied d =
     (\<exists>x. workspace_of d workspace_id = Some x \<and> w_status x = SUCCESS \<and> w_step x = None
        \<and> (remote_id \<noteq> None \<longrightarrow> w_coder_workspace_id x = remote_id)
        \<and> (build_id \<noteq> None \<longrightarrow> w_coder_workspace_build_id x = build_id)
        \<and> (applied \<longrightarrow> w_applied_parameters_revision x = Some (w_parameters_revision x)))"

lemma complete_workspace_converged:
  assumes fin: "complete_workspace env n c wk bk ap False w = (w', Inr True)"
    and job: "job_of (store w') (c_job_id c) = Some job" "j_resource_type job = Some ''workspace''" "j_resource_id job = Some xk"
  shows "j_status job = SUCCESS \<and> converged xk wk bk ap (store w')"
proof -
  let ?d = "store (e_during env n w)"
  have comp: "complete_execution c (remote_convergence wk bk ap) False (e_clock env n) ?d = Inr (store w', True)"
    using fin by (auto simp: complete_workspace_def ttxn_Inr_iff)
  then obtain job0 r where own: "owned_execution ?d c = Some (job0, r)"
    by (cases "owned_execution ?d c") (auto simp: complete_execution_def)
  obtain r' where mut: "remote_convergence wk bk ap ?d r = Inr (?d, r')"
  proof (cases r)
    case (Some x)
    then show ?thesis by (cases x) (auto simp: remote_convergence_def Let_def intro: that)
  qed (auto simp: remote_convergence_def intro: that)
  let ?job = "job0\<lparr>j_status := SUCCESS, j_claimed_at := None, j_updated_at := e_clock env n\<rparr>"
  have out: "store w' = (case r' of None \<Rightarrow> save_job ?job ?d
      | Some a \<Rightarrow> save_resource (set_resource_step None (set_resource_status SUCCESS a)) (save_job ?job ?d))"
    using comp own mut by (cases r') (simp_all add: complete_execution_def)
  then have "job_of (store w') (c_job_id c) = Some ?job"
    using own owned_job_id[OF own] by (cases r') (simp_all add: owned_execution_iff job_of_save_job)
  with job have job0: "job = ?job" "j_resource_type job0 = Some ''workspace''" "j_resource_id job0 = Some xk" by auto
  then obtain x where r: "r = Some (RWorkspace x)" and x: "workspace_of ?d xk = Some x"
    using own by (auto simp: owned_execution_iff resource_for_job_def lookup_resource_def resource_matches_def split: option.splits)
  obtain x' where x': "r' = Some (RWorkspace x')" "w_id x' = w_id x"
    "wk \<noteq> None \<longrightarrow> w_coder_workspace_id x' = wk" "bk \<noteq> None \<longrightarrow> w_coder_workspace_build_id x' = bk"
    "ap \<longrightarrow> w_applied_parameters_revision x' = Some (w_parameters_revision x')"
    using mut r by (cases wk; cases bk; cases ap) (auto simp: remote_convergence_def Let_def)
  have "w_id x = xk" using x by (rule select_row_key)
  then have "workspace_of (store w') xk = Some (x'\<lparr>w_status := SUCCESS, w_step := None\<rparr>)"
    using x x'(1,2) by (simp add: out save_job_def)
  then show ?thesis using x' job0(1) by (auto simp: converged_def)
qed

lemma claim_execution_job: "claim_execution k t now d = (d', Some c) \<Longrightarrow> c_job_id c = k"
  by (auto simp: claim_execution_def Let_def dest: select_row_key split: option.splits if_splits)

text \<open>Where the remote side stands when a step reports success.\<close>

definition applied_remotely :: "env \<Rightarrow> uuid \<Rightarrow> db \<Rightarrow> bool" where
  "applied_remotely env workspace_id d =
     (\<exists>(s :: workspace_remote_snapshot) (remote :: coder_workspace) (build :: coder_workspace_build) base d0.
        workspace_remote_snapshot_of env (ws_id s) base d0 = Inr s
        \<and> cw_template_id remote = Some (ws_coder_template_id s) \<and> cb_status build = ''running''
        \<and> converged workspace_id (Some (cw_id remote)) (Some (cb_id build)) True d)"

lemma snapshot_id:
  assumes "workspace_remote_snapshot_of env k base d = Inr s"
  shows "ws_id s = k"
proof -
  obtain x where x: "workspace_of d k = Some x"
    using assms by (auto simp: workspace_remote_snapshot_of_def rbind_Inr_iff require_iff)
  then have "w_id x = k" by (rule select_row_key)
  with assms x show ?thesis
    by (cases "instance_of d (w_instance_id x)"; cases "member_of d (w_member_id x)";
        cases "deployment_for (w_template_id x) (w_instance_id x) d")
      (auto simp: workspace_remote_snapshot_of_def rbind_Inr_iff Let_def split: option.splits)
qed

lemma snapshot_for_Inr:
  assumes "snapshot_for env claim w = (w', Inr s)"
  obtains base d where "workspace_remote_snapshot_of env (ws_id s) base d = Inr s"
  using assms snapshot_id unfolding snapshot_for_def by (auto simp: task_iffs)

lemma create_workspace_success:
  assumes run: "step_01_create_workspace rem env k w = (w', Inr ''success'')"
    and job: "job_of (store w') k = Some job" "j_resource_type job = Some ''workspace''" "j_resource_id job = Some xk"
  shows "j_status job = SUCCESS \<and> applied_remotely env xk (store w')"
  using run[unfolded step_01_create_workspace_def]
proof (cases rule: run_step_Inr)
  case (ran claim d)
  obtain s remote b w1 w2 w3 w4 build where snap: "snapshot_for env claim (w\<lparr>store := d\<rparr>) = (w1, Inr s)"
    and match: "require_matching_template remote s = Inr ()"
    and wait: "wait_workspace_build env (r_client rem (ws_instance_url s)) claim ''running'' (r_checks rem) build w2 = (w3, Inr b)"
    and comp: "complete_workspace env 13 claim (Some (cw_id remote)) (Some (cb_id b)) True False w3 = (w', Inr True)"
    using ran(2) unfolding Let_def by (auto simp: task_iffs split: if_splits)
  have "c_job_id claim = k" using ran(1) by (rule claim_execution_job)
  then have fin: "j_status job = SUCCESS \<and> converged xk (Some (cw_id remote)) (Some (cb_id b)) True (store w')"
    using complete_workspace_converged[OF comp] job by simp
  obtain base d0 where "workspace_remote_snapshot_of env (ws_id s) base d0 = Inr s" using snap by (rule snapshot_for_Inr)
  moreover have "cw_template_id remote = Some (ws_coder_template_id s)"
    using match by (simp add: require_matching_template_def guard_that_iff)
  ultimately show ?thesis using fin wait_workspace_build_status[OF wait] unfolding applied_remotely_def by blast
qed simp

text \<open>An update whose parameters were applied before only has to carry the name over.\<close>

definition already_applied :: "env \<Rightarrow> uuid \<Rightarrow> db \<Rightarrow> bool" where
  "already_applied env workspace_id d =
     (\<exists>(s :: workspace_remote_snapshot) (remote :: coder_workspace) base d0.
        workspace_remote_snapshot_of env (ws_id s) base d0 = Inr s
        \<and> cw_template_id remote = Some (ws_coder_template_id s)
        \<and> ws_applied_parameters_revision s = Some (ws_parameters_revision s)
        \<and> converged workspace_id (Some (cw_id remote)) None False d)"

lemma apply_workspace_parameters_success:
  assumes run: "apply_workspace_parameters rem env c s remote w = (w', Inr ''success'')"
  obtains (kept) w1 where "ws_applied_parameters_revision s = Some (ws_parameters_revision s)"
      "complete_workspace env 13 c (Some (cw_id remote)) None False False w1 = (w', Inr True)"
    | (built) w1 and b :: coder_workspace_build where "cb_status b = ''running''"
      "complete_workspace env 13 c (Some (cw_id remote)) (Some (cb_id b)) True False w1 = (w', Inr True)"
proof (cases "ws_applied_parameters_revision s = Some (ws_parameters_revision s)")
  case True
  with run have "complete_workspace env 13 c (Some (cw_id remote)) None False False w = (w', Inr True)"
    by (auto simp: apply_workspace_parameters_def finish_workspace_update_def task_iffs split: if_splits)
  with True show thesis by (rule kept)
next
  case False
  with run obtain build w1 w2 b where "wait_workspace_build env (r_client rem (ws_instance_url s)) c ''running'' (r_checks rem) build w1 = (w2, Inr b)"
    "finish_workspace_update env c remote (Some (cb_id b)) True w2 = (w', Inr ''success'')"
    by (auto simp: apply_workspace_parameters_def Let_def tbind_Inr_iff treturn_Inr_iff split: if_splits)
  then have "cb_status b = ''running''"
    "complete_workspace env 13 c (Some (cw_id remote)) (Some (cb_id b)) True False w2 = (w', Inr True)"
    using wait_workspace_build_status by (auto simp: finish_workspace_update_def task_iffs split: if_splits)
  then show thesis by (rule built)
qed

lemma update_workspace_success:
  assumes run: "step_01_update_workspace rem env k w = (w', Inr ''success'')"
    and job: "job_of (store w') k = Some job" "j_resource_type job = Some ''workspace''" "j_resource_id job = Some xk"
  shows "j_status job = SUCCESS \<and> (applied_remotely env xk (store w') \<or> already_applied env xk (store w'))"
  using run[unfolded step_01_update_workspace_def]
proof (cases rule: run_step_Inr)
  case (ran claim d)
  have k: "c_job_id claim = k" using ran(1) by (rule claim_execution_job)
  obtain s remote w1 w2 where snap: "snapshot_for env claim (w\<lparr>store := d\<rparr>) = (w1, Inr s)"
    and match: "require_matching_template remote s = Inr ()"
    and rest: "apply_workspace_parameters rem env claim s remote w2 = (w', Inr ''success'')"
    using ran(2) unfolding Let_def by (auto simp: tbind_Inr_iff tlift_Inr_iff)
  obtain base d0 where snapped: "workspace_remote_snapshot_of env (ws_id s) base d0 = Inr s" using snap by (rule snapshot_for_Inr)
  have tmpl: "cw_template_id remote = Some (ws_coder_template_id s)"
    using match by (simp add: require_matching_template_def guard_that_iff)
  from rest show ?thesis
  proof (cases rule: apply_workspace_parameters_success)
    case (kept w3)
    have "j_status job = SUCCESS \<and> converged xk (Some (cw_id remote)) None False (store w')"
      using complete_workspace_converged[OF kept(2)] k job by simp
    then show ?thesis using snapped tmpl kept(1) unfolding already_applied_def by blast
  next
    case (built w3 b)
    have "j_status job = SUCCESS \<and> converged xk (Some (cw_id remote)) (Some (cb_id b)) True (store w')"
      using complete_workspace_converged[OF built(2)] k job by simp
    then show ?thesis using snapped tmpl built(1) unfolding applied_remotely_def by blast
  qed
qed simp

end
