(* ===== verification/Template_Tasks.thy ===== *)
theory Template_Tasks
  imports Coder_Models Templates
begin

text \<open>
  The durable steps that publish and remove templates (\<^verbatim>\<open>tasks/template\<close>): the fenced
  deployment row of one assignment, the recovery of a publication that was interrupted, the
  synchronisation of every stable assignment of a template, and the removal of an assignment.
\<close>

section \<open>Snapshots\<close>

record template_source_snapshot =
  ts_id :: uuid
  ts_display_name :: string
  ts_name :: string
  ts_git_url :: string
  ts_source_path :: string
  ts_branch :: string
  ts_system_parameter_revision :: int

record template_deployment_preparation =
  tp_already_applied :: bool
  tp_instance_url :: string
  tp_password :: string
  tp_persisted_template_id :: "uuid option"
  tp_persisted_version_id :: "uuid option"
  tp_system_values :: pairs

record owned_template_target =
  ot_instance :: inst
  ot_template :: template
  ot_assignment :: template_assignment
  ot_deployment :: "template_deployment option"

definition template_source_snapshot_of :: "uuid \<Rightarrow> db \<Rightarrow> (task_error, template_source_snapshot) result" where
  "template_source_snapshot_of template_id d =
     (case template_of d template_id of
        None \<Rightarrow> Inl (TemplateTargetSyncError ''Template is missing'')
      | Some t \<Rightarrow> Inr \<lparr>ts_id = t_id t, ts_display_name = t_display_name t, ts_name = t_name t,
          ts_git_url = t_git_url t, ts_source_path = t_source_path t, ts_branch = t_branch t,
          ts_system_parameter_revision = t_system_parameter_revision t\<rparr>)"

definition fetch_template_archive :: "remote \<Rightarrow> template_source_snapshot \<Rightarrow> (task_error, template_archive) result" where
  "fetch_template_archive rem snapshot = r_fetch rem (ts_git_url snapshot) (ts_branch snapshot) (ts_source_path snapshot)"

definition assignment_template_id :: "uuid \<Rightarrow> db \<Rightarrow> (task_error, uuid) result" where
  "assignment_template_id assignment_id d =
     (case assignment_of d assignment_id of
        None \<Rightarrow> Inl (TemplateTargetSyncError ''Template assignment is missing'')
      | Some a \<Rightarrow> Inr (ta_template_id a))"

definition stable_assignment_ids :: "uuid \<Rightarrow> db \<Rightarrow> (task_error, uuid list) result" where
  "stable_assignment_ids template_id d =
     (if template_of d template_id = None then Inl (TemplateTargetSyncError ''Template is missing'')
      else Inr (sort_key id (map ta_id (filter (\<lambda>a. ta_template_id a = template_id
             \<and> ta_action a = ''created'' \<and> ta_status a = SUCCESS
             \<and> exists_row (\<lambda>i. i_id i = ta_instance_id a \<and> i_state i = STARTED \<and> i_status i = SUCCESS
                  \<and> i_action i \<noteq> ''deleting'') (instances d)) (template_assignments d)))))"

section \<open>The fence\<close>

definition job_matches_claim :: "job_execution \<Rightarrow> execution_claim \<Rightarrow> bool" where
  "job_matches_claim job claim =
     (j_task_name job = c_task_name claim \<and> j_step job = c_step claim \<and> j_attempt job = c_attempt claim
      \<and> j_status job = RUNNING \<and> j_resource_type job = c_resource_type claim
      \<and> j_resource_id job = c_resource_id claim)"

definition job_owns_sync_resource :: "job_execution \<Rightarrow> template \<Rightarrow> template_assignment \<Rightarrow> bool" where
  "job_owns_sync_resource job t a =
     (if j_name job = ''template.sync'' \<and> j_resource_type job = Some ''template''
      then j_resource_id job = Some (t_id t) \<and> t_job_id t = Some (j_id job) \<and> t_action t = ''syncing''
           \<and> t_step t = Some (j_step job) \<and> t_sync_status t = RUNNING
      else if j_name job = ''template_assignment.create'' \<and> j_resource_type job = Some ''template_assignment''
      then j_resource_id job = Some (ta_id a) \<and> ta_job_id a = Some (j_id job) \<and> ta_action a = ''creating''
           \<and> ta_step a = Some (j_step job) \<and> ta_status a = RUNNING
      else False)"

definition lock_owned_template_target ::
  "execution_claim \<Rightarrow> uuid \<Rightarrow> uuid option \<Rightarrow> db \<Rightarrow> (task_error, owned_template_target) result" where
  "lock_owned_template_target claim assignment_id expected_template_id d =
     (case job_of d (c_job_id claim) of
        None \<Rightarrow> Inl TemplateTargetClaimLostError
      | Some job \<Rightarrow>
          if \<not> job_matches_claim job claim then Inl TemplateTargetClaimLostError
          else case assignment_of d assignment_id of
            None \<Rightarrow> Inl (TemplateTargetSyncError ''Template synchronization assignment is missing'')
          | Some a \<Rightarrow>
              if (case expected_template_id of None \<Rightarrow> False | Some k \<Rightarrow> ta_template_id a \<noteq> k)
              then Inl (TemplateTargetSyncError ''Template synchronization assignment is missing'')
              else case (instance_of d (ta_instance_id a), template_of d (ta_template_id a)) of
                (Some i, Some t) \<Rightarrow>
                  if \<not> job_owns_sync_resource job t a then Inl TemplateTargetClaimLostError
                  else Inr \<lparr>ot_instance = i, ot_template = t, ot_assignment = a,
                        ot_deployment = find (\<lambda>dep. td_assignment_id dep = assignment_id) (template_deployments d)\<rparr>
              | _ \<Rightarrow> Inl (TemplateTargetSyncError ''Template synchronization target is missing''))"

section \<open>The deployment row\<close>

fun system_values_from ::
  "(bytes \<Rightarrow> uuid \<Rightarrow> (task_error, string) result) \<Rightarrow> db \<Rightarrow> template_parameter list \<Rightarrow> (task_error, pairs) result" where
  "system_values_from decrypt d [] = Inr []"
| "system_values_from decrypt d (p # ps) =
     (if p_type p \<noteq> SYSTEM_PARAMETER then system_values_from decrypt d ps
      else case system_value_of d (p_id p) of
             None \<Rightarrow> Inl (TemplateTargetSyncError ''Template system parameter value is missing'')
           | Some v \<Rightarrow> rbind (decrypt (sv_value_enc v) (p_id p)) (\<lambda>plain.
               rbind (system_values_from decrypt d ps) (\<lambda>rest. Inr ((p_name p, plain) # rest))))"

definition system_parameter_values ::
  "(bytes \<Rightarrow> uuid \<Rightarrow> (task_error, string) result) \<Rightarrow> db \<Rightarrow> template \<Rightarrow> (task_error, pairs) result" where
  "system_parameter_values decrypt d t =
     system_values_from decrypt d
       (sort_key p_name (filter (\<lambda>p. p_template_id p = t_id t) (template_parameters d)))"

definition new_deployment :: "uuid \<Rightarrow> uuid \<Rightarrow> template_deployment" where
  "new_deployment key assignment_id =
     \<lparr>td_id = key, td_assignment_id = assignment_id, td_coder_organization_id = None,
      td_coder_template_id = None, td_coder_template_version_id = None, td_target_commit = None,
      td_applied_commit = None, td_target_system_parameter_revision = None,
      td_applied_system_parameter_revision = None, td_status = PENDING\<rparr>"

definition commit_deployments :: "template_deployment list \<Rightarrow> 'a \<Rightarrow> db \<Rightarrow> (task_error, db \<times> 'a) result" where
  "commit_deployments rows x d =
     (if deployments_ok rows then Inr (d\<lparr>template_deployments := rows\<rparr>, x) else Inl IntegrityError)"

definition up_to_date :: "template_deployment \<Rightarrow> string \<Rightarrow> int \<Rightarrow> bool" where
  "up_to_date dep commit revision = (td_status dep = SUCCESS \<and> td_applied_commit dep = Some commit
     \<and> td_applied_system_parameter_revision dep = Some revision)"

definition deployment_row ::
  "remote \<Rightarrow> uuid \<Rightarrow> owned_template_target \<Rightarrow> db \<Rightarrow> template_deployment \<times> template_deployment list" where
  "deployment_row rem assignment_id target d =
     (case ot_deployment target of
        Some dep \<Rightarrow> (dep, template_deployments d)
      | None \<Rightarrow> (let dep = new_deployment (r_deployment_id rem assignment_id) assignment_id
                 in (dep, insert_row dep (template_deployments d))))"

definition retarget :: "string \<Rightarrow> int \<Rightarrow> template_deployment \<Rightarrow> template_deployment" where
  "retarget commit revision dep =
     (if td_target_commit dep \<noteq> Some commit \<or> td_target_system_parameter_revision dep \<noteq> Some revision
      then dep\<lparr>td_coder_template_version_id := None\<rparr> else dep)
     \<lparr>td_target_commit := Some commit, td_target_system_parameter_revision := Some revision, td_status := RUNNING\<rparr>"

definition prepare_deployment ::
  "remote \<Rightarrow> env \<Rightarrow> execution_claim \<Rightarrow> uuid \<Rightarrow> uuid \<Rightarrow> string \<Rightarrow> int \<Rightarrow> string \<Rightarrow> db
    \<Rightarrow> (task_error, db \<times> template_deployment_preparation) result" where
  "prepare_deployment rem env claim assignment_id template_id commit revision base_domain d =
     rbind (lock_owned_template_target claim assignment_id (Some template_id) d) (\<lambda>target.
     rbind (guard_that (i_state (ot_instance target) = STARTED \<and> i_status (ot_instance target) = SUCCESS)
              (TemplateTargetSyncError ''Coder instance is not started and successful'')) (\<lambda>_.
     rbind (require (i_password_enc (ot_instance target))
              (TemplateTargetSyncError ''Coder administrator password is not initialized'')) (\<lambda>enc.
     let instance_url = url_for base_domain (i_slug (ot_instance target));
         dep = fst (deployment_row rem assignment_id target d);
         rows = snd (deployment_row rem assignment_id target d);
         dep' = retarget commit revision dep
     in if up_to_date dep commit revision
        then Inr (d, \<lparr>tp_already_applied = True, tp_instance_url = instance_url, tp_password = [],
               tp_persisted_template_id = td_coder_template_id dep,
               tp_persisted_version_id = td_coder_template_version_id dep, tp_system_values = []\<rparr>)
        else
          rbind (e_decrypt_instance_password env enc (i_id (ot_instance target))) (\<lambda>password.
          rbind (system_parameter_values (r_decrypt_parameter rem) d (ot_template target)) (\<lambda>system_values.
          commit_deployments (replace_row td_id dep' rows)
            \<lparr>tp_already_applied = False, tp_instance_url = instance_url, tp_password = password,
             tp_persisted_template_id = td_coder_template_id dep',
             tp_persisted_version_id = td_coder_template_version_id dep', tp_system_values = system_values\<rparr> d)))))"

definition with_remote_ids ::
  "uuid option \<Rightarrow> uuid option \<Rightarrow> uuid option \<Rightarrow> template_deployment \<Rightarrow> template_deployment" where
  "with_remote_ids organization_id coder_template_id coder_template_version_id dep =
     (let dep1 = (case organization_id of None \<Rightarrow> dep | Some k \<Rightarrow> dep\<lparr>td_coder_organization_id := Some k\<rparr>);
          dep2 = (case coder_template_id of None \<Rightarrow> dep1 | Some k \<Rightarrow> dep1\<lparr>td_coder_template_id := Some k\<rparr>)
      in case coder_template_version_id of None \<Rightarrow> dep2 | Some k \<Rightarrow> dep2\<lparr>td_coder_template_version_id := Some k\<rparr>)"

definition store_deployment_ids ::
  "execution_claim \<Rightarrow> uuid \<Rightarrow> uuid option \<Rightarrow> uuid option \<Rightarrow> uuid option \<Rightarrow> db \<Rightarrow> (task_error, db \<times> unit) result" where
  "store_deployment_ids claim assignment_id organization_id coder_template_id coder_template_version_id d =
     rbind (lock_owned_template_target claim assignment_id None d) (\<lambda>target.
     case ot_deployment target of
       None \<Rightarrow> Inl (TemplateTargetSyncError ''Template deployment is missing'')
     | Some dep \<Rightarrow> commit_deployments (replace_row td_id
           (with_remote_ids organization_id coder_template_id coder_template_version_id dep)
           (template_deployments d)) () d)"

definition finish_deployment ::
  "execution_claim \<Rightarrow> uuid \<Rightarrow> string \<Rightarrow> int \<Rightarrow> bool \<Rightarrow> db \<Rightarrow> (task_error, db \<times> unit) result" where
  "finish_deployment claim assignment_id commit revision success d =
     rbind (lock_owned_template_target claim assignment_id None d) (\<lambda>target.
     case ot_deployment target of
       None \<Rightarrow> Inr (d, ())
     | Some dep \<Rightarrow>
         let dep1 = dep\<lparr>td_status := (if success then SUCCESS else ERROR)\<rparr>;
             dep2 = (if success then dep1\<lparr>td_applied_commit := Some commit,
                       td_applied_system_parameter_revision := Some revision\<rparr> else dep1)
         in commit_deployments (replace_row td_id dep2 (template_deployments d)) () d)"

section \<open>One target\<close>

definition owned_outside :: task_error where
  "owned_outside = TemplateTargetSyncError ''Remote template name is already owned outside CoderManager''"

definition managed_remote_template ::
  "coder_client \<Rightarrow> uuid \<Rightarrow> string \<Rightarrow> uuid option \<Rightarrow> uuid option
    \<Rightarrow> (task_error, coder_template_data option \<times> bool) result" where
  "managed_remote_template client organization_id name persisted_template_id persisted_version_id =
     rbind (case persisted_template_id of None \<Rightarrow> Inr None | Some k \<Rightarrow> cc_template client k) (\<lambda>persisted.
     rbind (cc_template_by_name client organization_id name) (\<lambda>named.
     case persisted of
       Some p \<Rightarrow>
         (case named of
            Some n \<Rightarrow> if ct_id n \<noteq> ct_id p then Inl owned_outside else Inr (Some p, True)
          | None \<Rightarrow> Inr (Some p, False))
     | None \<Rightarrow>
         (case named of
            None \<Rightarrow> Inr (None, False)
          | Some n \<Rightarrow>
              if persisted_template_id = Some (ct_id n)
                 \<or> persisted_version_id \<noteq> None \<and> ct_active_version_id n = persisted_version_id
              then Inr (Some n, True) else Inl owned_outside)))"

definition version_name :: "string \<Rightarrow> int \<Rightarrow> string" where
  "version_name commit revision = ''git-'' @ commit @ ''-p'' @ int_text revision"

definition publish_version ::
  "env \<Rightarrow> coder_client \<Rightarrow> template_source_snapshot \<Rightarrow> template_archive \<Rightarrow> execution_claim \<Rightarrow> uuid
    \<Rightarrow> template_deployment_preparation \<Rightarrow> uuid \<Rightarrow> coder_template_data option \<Rightarrow> bool
    \<Rightarrow> coder_template_version task" where
  "publish_version env client snapshot archive claim assignment_id prep organization_id remote_template found_by_name =
     (let vname = version_name (ar_commit archive) (ts_system_parameter_revision snapshot) in
     tbind (if remote_template \<noteq> None \<and> found_by_name
            then tremote env 5 (cc_template_version_by_name client organization_id (ts_name snapshot) vname)
            else treturn None) (\<lambda>by_name.
     tbind (case (by_name, tp_persisted_version_id prep) of
              (None, Some k) \<Rightarrow> tremote env 6 (cc_template_version_for_recovery client k)
            | _ \<Rightarrow> treturn by_name) (\<lambda>recovered.
     case recovered of
       Some v \<Rightarrow> treturn v
     | None \<Rightarrow>
         tbind (tremote env 7 (cc_upload_template_archive client (ar_content archive))) (\<lambda>file_id.
         tbind (tremote env 8 (cc_create_template_version client organization_id file_id vname
                  (map_option ct_id remote_template) (tp_system_values prep))) (\<lambda>v.
         tbind (ttxn env 9 (store_deployment_ids claim assignment_id None None (Some (cv_id v)))) (\<lambda>_.
         treturn v))))))"

definition publish_target ::
  "env \<Rightarrow> coder_client \<Rightarrow> template_source_snapshot \<Rightarrow> template_archive \<Rightarrow> execution_claim \<Rightarrow> uuid
    \<Rightarrow> template_deployment_preparation \<Rightarrow> unit task" where
  "publish_target env client snapshot archive claim assignment_id prep =
     tbind (tremote env 1 (cc_authenticate client (tp_password prep))) (\<lambda>_.
     tbind (tremote env 2 (cc_default_organization_id client)) (\<lambda>organization_id.
     tbind (tremote env 3 (managed_remote_template client organization_id (ts_name snapshot)
              (tp_persisted_template_id prep) (tp_persisted_version_id prep))) (\<lambda>(remote_template, found_by_name).
     tbind (ttxn env 4 (store_deployment_ids claim assignment_id (Some organization_id)
              (map_option ct_id remote_template) None)) (\<lambda>_.
     tbind (publish_version env client snapshot archive claim assignment_id prep organization_id
              remote_template found_by_name) (\<lambda>found.
     tbind (if cv_status found \<noteq> ''succeeded''
            then tremote_beating env TemplateTargetClaimLostError 10 claim (cc_wait_template_version client (cv_id found))
            else treturn found) (\<lambda>version.
     tbind (if cv_archived version then tremote env 11 (cc_unarchive_template_version client (cv_id version))
            else treturn ()) (\<lambda>_.
     case remote_template of
       None \<Rightarrow>
         tbind (tremote env 12 (cc_create_template client organization_id (ts_name snapshot)
                  (ts_display_name snapshot) (cv_id version))) (\<lambda>created.
         ttxn env 13 (store_deployment_ids claim assignment_id None (Some (ct_id created)) None))
     | Some t \<Rightarrow> tremote env 14 (cc_activate_template_version client (ct_id t) (cv_id version)))))))))"

definition sync_template_target ::
  "remote \<Rightarrow> env \<Rightarrow> template_source_snapshot \<Rightarrow> template_archive \<Rightarrow> execution_claim \<Rightarrow> uuid \<Rightarrow> bool task" where
  "sync_template_target rem env snapshot archive claim assignment_id =
     tbind (tlift (e_base_domain env)) (\<lambda>base_domain.
     tbind (ttxn env 20 (prepare_deployment rem env claim assignment_id (ts_id snapshot) (ar_commit archive)
              (ts_system_parameter_revision snapshot) base_domain)) (\<lambda>prep.
     if tp_already_applied prep then treturn False
     else
       tbind (tcatch (publish_target env (r_client rem (tp_instance_url prep)) snapshot archive claim assignment_id prep)
                (\<lambda>e. if e = TemplateTargetClaimLostError then traise e
                     else tbind (ttxn env 21 (finish_deployment claim assignment_id (ar_commit archive)
                                   (ts_system_parameter_revision snapshot) False)) (\<lambda>_. traise e))) (\<lambda>_.
       tbind (ttxn env 22 (finish_deployment claim assignment_id (ar_commit archive)
                (ts_system_parameter_revision snapshot) True)) (\<lambda>_.
       treturn True))))"

section \<open>The steps\<close>

fun sync_targets ::
  "remote \<Rightarrow> env \<Rightarrow> template_source_snapshot \<Rightarrow> template_archive \<Rightarrow> execution_claim \<Rightarrow> nat \<Rightarrow> uuid list \<Rightarrow> nat task" where
  "sync_targets rem env snapshot archive claim i [] = treturn 0"
| "sync_targets rem env snapshot archive claim i (assignment_id # rest) =
     tbind (heartbeat_owned (at_target i env) TemplateTargetClaimLostError 0 claim) (\<lambda>_.
     tbind (tcatch (tbind (sync_template_target rem (at_target i env) snapshot archive claim assignment_id)
                      (\<lambda>_. treturn 0))
              (\<lambda>e. if e = TemplateTargetClaimLostError then traise e else treturn 1)) (\<lambda>failed.
     tbind (sync_targets rem env snapshot archive claim (Suc i) rest) (\<lambda>failures.
     treturn (failed + failures))))"

definition step_01_sync_template :: "remote \<Rightarrow> env \<Rightarrow> uuid \<Rightarrow> string task" where
  "step_01_sync_template rem env job_id = run_step env job_id TEMPLATE_SYNC_STEP_01_TASK (\<lambda>claim.
     tbind (tlift (required_resource_id claim)) (\<lambda>template_id.
     tbind (tread env 11 (stable_assignment_ids template_id)) (\<lambda>assignment_ids.
     if assignment_ids = [] then tcomplete env 13 claim no_mutate False
     else
       tbind (tread env 12 (template_source_snapshot_of template_id)) (\<lambda>snapshot.
       tbind (tremote env 1 (fetch_template_archive rem snapshot)) (\<lambda>archive.
       tbind (sync_targets rem env snapshot archive claim 0 assignment_ids) (\<lambda>failures.
       if failures \<noteq> 0
       then traise (RuntimeError (''Template synchronization failed for '' @ nat_text failures @ '' target(s)''))
       else tcomplete env 13 claim no_mutate False))))))"

definition mark_created :: mutator where
  "mark_created d r = (case r of
       Some (RAssignment a) \<Rightarrow> Inr (d, Some (RAssignment (a\<lparr>ta_action := ''created''\<rparr>)))
     | _ \<Rightarrow> Inl (TypeError ''Template assignment is missing''))"

definition step_01_create_template :: "remote \<Rightarrow> env \<Rightarrow> uuid \<Rightarrow> string task" where
  "step_01_create_template rem env job_id = run_step env job_id TEMPLATE_ASSIGNMENT_CREATE_STEP_01_TASK (\<lambda>claim.
     tbind (tlift (required_resource_id claim)) (\<lambda>assignment_id.
     tbind (tread env 11 (assignment_template_id assignment_id)) (\<lambda>template_id.
     tbind (tread env 12 (template_source_snapshot_of template_id)) (\<lambda>snapshot.
     tbind (tremote env 1 (fetch_template_archive rem snapshot)) (\<lambda>archive.
     tbind (sync_template_target rem (at_target 0 env) snapshot archive claim assignment_id) (\<lambda>_.
     tcomplete env 13 claim mark_created False))))))"

record template_removal_snapshot =
  tr_assignment_id :: uuid
  tr_template_id :: uuid
  tr_instance_id :: uuid
  tr_instance_url :: string
  tr_password :: "string option"
  tr_coder_template_id :: "uuid option"

definition removal_snapshot ::
  "env \<Rightarrow> uuid \<Rightarrow> string \<Rightarrow> db \<Rightarrow> (task_error, template_removal_snapshot) result" where
  "removal_snapshot env assignment_id base_domain d =
     rbind (require (assignment_of d assignment_id) (RuntimeError ''Template assignment is missing'')) (\<lambda>a.
     rbind (require (instance_of d (ta_instance_id a)) (RuntimeError ''Template assignment instance is missing'')) (\<lambda>i.
     let coder_template_id = (case find (\<lambda>dep. td_assignment_id dep = ta_id a) (template_deployments d) of
                                None \<Rightarrow> None | Some dep \<Rightarrow> td_coder_template_id dep) in
     rbind (if coder_template_id = None then Inr None
            else if i_state i \<noteq> STARTED \<or> i_status i \<noteq> SUCCESS
            then Inl (RuntimeError ''Coder instance is not started and successful'')
            else case i_password_enc i of
                   None \<Rightarrow> Inl (RuntimeError ''Coder administrator password is not initialized'')
                 | Some enc \<Rightarrow> rbind (e_decrypt_instance_password env enc (i_id i)) (\<lambda>p. Inr (Some p))) (\<lambda>password.
     Inr \<lparr>tr_assignment_id = ta_id a, tr_template_id = ta_template_id a, tr_instance_id = i_id i,
          tr_instance_url = url_for base_domain (i_slug i), tr_password = password,
          tr_coder_template_id = coder_template_id\<rparr>)))"

definition remove_local_assignment ::
  "execution_claim \<Rightarrow> template_removal_snapshot \<Rightarrow> instant \<Rightarrow> db \<Rightarrow> (task_error, db \<times> bool) result" where
  "remove_local_assignment claim snapshot now d =
     (case owned_execution d claim of
        Some (job, Some (RAssignment a)) \<Rightarrow>
          let d1 = delete_workspaces_where (\<lambda>x. w_template_id x = tr_template_id snapshot
                     \<and> w_instance_id x = tr_instance_id snapshot) d;
              d2 = d1\<lparr>template_deployments := delete_where (\<lambda>t. td_assignment_id t = ta_id a) (template_deployments d1)\<rparr>;
              d3 = save_job (job\<lparr>j_status := SUCCESS, j_claimed_at := None, j_updated_at := now\<rparr>) d2
          in Inr (delete_assignments_where (\<lambda>b. ta_id b = ta_id a) d3, True)
      | _ \<Rightarrow> Inr (d, False))"

definition removal_lost :: task_error where
  "removal_lost = RuntimeError ''Template assignment deletion claim is no longer current''"

definition step_01_delete_template :: "remote \<Rightarrow> env \<Rightarrow> uuid \<Rightarrow> string task" where
  "step_01_delete_template rem env job_id = run_step env job_id TEMPLATE_ASSIGNMENT_DELETE_STEP_01_TASK (\<lambda>claim.
     tbind (tlift (required_resource_id claim)) (\<lambda>assignment_id.
     tbind (tlift (e_base_domain env)) (\<lambda>base_domain.
     tbind (tread env 11 (removal_snapshot env assignment_id base_domain)) (\<lambda>s.
     tbind (case (tr_coder_template_id s, tr_password s) of
              (Some coder_template_id, Some password) \<Rightarrow>
                let client = r_client rem (tr_instance_url s) in
                tbind (tremote_beating env removal_lost 1 claim (cc_delete_template_workspaces client password coder_template_id)) (\<lambda>_.
                tbind (heartbeat_owned env removal_lost 2 claim) (\<lambda>_.
                tbind (tremote env 3 (cc_authenticate client password)) (\<lambda>_.
                tremote env 4 (cc_delete_template client coder_template_id))))
            | _ \<Rightarrow> treturn ()) (\<lambda>_.
     tbind (ttxn env 12 (remove_local_assignment claim s (e_clock env 12))) (\<lambda>deleted.
     treturn (if deleted then ''deleted'' else ''noop'')))))))"

section \<open>Every step is a run of the system\<close>

lemma commit_deployments_Inr:
  "commit_deployments rows x d = Inr (d', y) \<longleftrightarrow>
     deployments_ok rows \<and> d' = d\<lparr>template_deployments := rows\<rparr> \<and> y = x"
  by (auto simp: commit_deployments_def)

lemma same_lifecycle_deployments [simp]: "same_lifecycle d (d\<lparr>template_deployments := rows\<rparr>)"
  by (simp add: same_lifecycle_def)

lemma run_prepare_deployment:
  assumes "prepare_deployment rem env c k tk commit rv base d = Inr (d', x)"
  shows "sys_run d d'"
proof -
  have "d' = d \<or> (\<exists>rows. d' = d\<lparr>template_deployments := rows\<rparr>)"
    using assms unfolding prepare_deployment_def Let_def
    by (auto simp: rbind_Inr_iff commit_deployments_Inr split_beta split: if_splits option.splits)
  then show ?thesis by (auto intro: run_bookkeep)
qed

lemma run_store_deployment_ids:
  assumes "store_deployment_ids c k ok tk vk d = Inr (d', x)"
  shows "sys_run d d'"
  using assms unfolding store_deployment_ids_def
  by (auto simp: rbind_Inr_iff commit_deployments_Inr intro: run_bookkeep split: option.splits)

lemma run_finish_deployment:
  assumes "finish_deployment c k commit rv ok d = Inr (d', x)"
  shows "sys_run d d'"
  using assms unfolding finish_deployment_def Let_def
  by (auto simp: rbind_Inr_iff commit_deployments_Inr intro: run_bookkeep split: option.splits)

lemma safe_deployment_txns:
  assumes "safe_env env"
  shows "safe_task (ttxn env n (prepare_deployment rem env c k tk commit rv base))"
    and "safe_task (ttxn env n (store_deployment_ids c k ok t vk))"
    and "safe_task (ttxn env n (finish_deployment c k commit rv b))"
  by (rule safe_ttxn[OF assms]; fact run_prepare_deployment run_store_deployment_ids run_finish_deployment)+

lemma safe_publish:
  assumes "safe_env env"
  shows "safe_task (publish_version env cl s a c k prep org t b)" and "safe_task (publish_target env cl s a c k prep)"
proof -
  show pv: "safe_task (publish_version env cl s a c k prep org t b)" for org t b
    unfolding publish_version_def Let_def
    using assms by (auto intro!: safe_rules safe_deployment_txns split: option.split prod.split)
  show "safe_task (publish_target env cl s a c k prep)"
    unfolding publish_target_def
    using assms by (auto intro!: safe_rules safe_deployment_txns pv split: option.split prod.split)
qed

lemma safe_sync_template_target:
  assumes "safe_env env"
  shows "safe_task (sync_template_target rem env s a c k)"
  unfolding sync_template_target_def
  using assms by (auto intro!: safe_rules safe_tcatch safe_deployment_txns safe_publish)

lemma safe_sync_targets: "safe_env env \<Longrightarrow> safe_task (sync_targets rem env s a c i ks)"
  by (induction ks arbitrary: i)
    (auto intro!: safe_rules safe_tcatch safe_heartbeat_owned safe_sync_template_target)

lemma mutator_ok_mark_created [simp, intro!]: "mutator_ok mark_created"
  by (auto simp: mutator_ok_def mark_created_def split: option.splits resource.splits)

lemma run_remove_local_assignment:
  assumes rem: "remove_local_assignment c s now d = Inr (d', x)"
  shows "sys_run d d'"
proof (cases "\<exists>job a. owned_execution d c = Some (job, Some (RAssignment a))")
  case False
  with rem show ?thesis
    by (auto simp: remove_local_assignment_def split: option.splits prod.splits resource.splits)
next
  case True
  then obtain job a where own: "owned_execution d c = Some (job, Some (RAssignment a))" by blast
  define d1 where "d1 = delete_workspaces_where (\<lambda>x. w_template_id x = tr_template_id s \<and> w_instance_id x = tr_instance_id s) d"
  define d2 where "d2 = d1\<lparr>template_deployments := delete_where (\<lambda>t. td_assignment_id t = ta_id a) (template_deployments d1)\<rparr>"
  have d2: "shrunk d d2" "template_assignments d2 = template_assignments d"
    by (simp_all add: d2_def d1_def shrunk_def delete_workspaces_where_def)
  have "resource_for_job d2 job = resource_for_job d job"
    using own resource_for_job_Some[of d job "RAssignment a"] d2(2)
    by (simp add: owned_execution_iff resource_for_job_def lookup_resource_def)
  moreover have "job_of d2 (c_job_id c) = job_of d (c_job_id c)" using d2(1) by (simp add: shrunk_def)
  ultimately have "owned_execution d2 c = Some (job, Some (RAssignment a))"
    using own unfolding owned_execution_iff by metis
  then have "complete_execution c no_mutate True now d2 = Inr (d', True)"
    using rem own by (auto simp: complete_execution_def no_mutate_def remove_local_assignment_def Let_def d2_def d1_def)
  then have "sys_txn d2 d'" by (rule sys_txn.complete[rotated]) simp
  moreover have "sys_txn d d2" using d2(1) by (rule sys_txn.remove)
  ultimately show ?thesis by (blast intro: rtranclp_trans)
qed

lemma safe_template_steps:
  assumes "safe_env env"
  shows "safe_task (step_01_sync_template rem env k)" and "safe_task (step_01_create_template rem env k)"
    and "safe_task (step_01_delete_template rem env k)"
  unfolding step_01_sync_template_def step_01_create_template_def step_01_delete_template_def Let_def
  by (intro safe_run_step; use assms in \<open>auto intro!: safe_rules safe_sync_targets safe_sync_template_target
      safe_heartbeat_owned safe_ttxn run_remove_local_assignment split: option.split\<close>)+

section \<open>The fence\<close>

lemma lock_target_Inr:
  assumes "lock_owned_template_target c k expected d = Inr target"
  obtains job a t where "job_of d (c_job_id c) = Some job" "job_matches_claim job c" "assignment_of d k = Some a"
    "template_of d (ta_template_id a) = Some t" "job_owns_sync_resource job t a"
    "ot_template target = t" "ot_assignment target = a"
    "ot_deployment target = find (\<lambda>dep. td_assignment_id dep = k) (template_deployments d)"
proof -
  obtain job where job: "job_of d (c_job_id c) = Some job" "job_matches_claim job c"
    using assms by (cases "job_of d (c_job_id c)") (auto simp: lock_owned_template_target_def split: if_splits)
  obtain a where a: "assignment_of d k = Some a"
    using assms job by (cases "assignment_of d k") (auto simp: lock_owned_template_target_def)
  show thesis
    using assms job a
    by (cases "instance_of d (ta_instance_id a)"; cases "template_of d (ta_template_id a)")
      (auto simp: lock_owned_template_target_def split: if_splits intro: that)
qed

text \<open>The fence lets no worker through that does not own its job.\<close>

lemma lock_target_owned:
  assumes "lock_owned_template_target c k expected d = Inr target"
  shows "owned_execution d c \<noteq> None"
proof -
  obtain job a t where job: "job_of d (c_job_id c) = Some job" "job_matches_claim job c" and a: "assignment_of d k = Some a"
    and t: "template_of d (ta_template_id a) = Some t" and owns: "job_owns_sync_resource job t a"
    using lock_target_Inr[OF assms] by metis
  have ids: "ta_id a = k" "t_id t = ta_template_id a" using a t by (auto dest: select_row_key)
  have "resource_matches job (resource_for_job d job)"
    using owns a t ids
    by (auto simp: job_owns_sync_resource_def resource_matches_def resource_for_job_def lookup_resource_def
        RESOURCE_ACTIONS_def split: if_splits)
  then have "owned_execution d c = Some (job, resource_for_job d job)"
    using job by (auto simp: owned_execution_iff job_matches_claim_def)
  then show ?thesis by simp
qed

text \<open>One target's row is all a deployment transaction writes.\<close>

definition writes_target :: "uuid \<Rightarrow> db \<Rightarrow> db \<Rightarrow> bool" where
  "writes_target k d d' = (d' = d\<lparr>template_deployments := template_deployments d'\<rparr>
     \<and> filter (\<lambda>dep. td_assignment_id dep \<noteq> k) (template_deployments d')
       = filter (\<lambda>dep. td_assignment_id dep \<noteq> k) (template_deployments d))"

lemma writes_target_refl [simp]: "writes_target k d d"
  by (simp add: writes_target_def)

lemma filter_replace_own:
  assumes "unique_by td_id rows" and "dep \<in> set rows" and "td_assignment_id dep = k"
    and "td_id dep' = td_id dep" and "td_assignment_id dep' = k"
  shows "filter (\<lambda>x. td_assignment_id x \<noteq> k) (replace_row td_id dep' rows) = filter (\<lambda>x. td_assignment_id x \<noteq> k) rows"
  using assms(1,2)
proof (induction rows)
  case (Cons r rows)
  show ?case
  proof (cases "dep = r")
    case True
    have "td_id r \<notin> td_id ` set rows" using Cons.prems(1) by (simp add: unique_by_def)
    then have "\<forall>x\<in>set rows. td_id x \<noteq> td_id dep'" using True assms(4) by (metis imageI)
    then have "replace_row td_id dep' rows = rows"
      by (induction rows) (auto simp: replace_row_def update_row_def)
    then show ?thesis using True assms by (simp add: replace_row_def update_row_def)
  next
    case False
    then have "dep \<in> set rows" using Cons.prems by simp
    moreover from this have "td_id r \<noteq> td_id dep'" using Cons.prems assms(4) by (auto simp: unique_by_def)
    ultimately show ?thesis using Cons by (simp add: replace_row_def update_row_def unique_by_def)
  qed
qed simp

lemma commit_writes_target:
  assumes com: "commit_deployments (replace_row td_id dep' rows) x d = Inr (d', y)"
    and rows: "filter (\<lambda>x. td_assignment_id x \<noteq> k) rows = filter (\<lambda>x. td_assignment_id x \<noteq> k) (template_deployments d)"
    and dep: "dep \<in> set rows" "td_assignment_id dep = k" "td_id dep' = td_id dep" "td_assignment_id dep' = k"
  shows "writes_target k d d'"
proof -
  have "unique_by td_id rows" and d': "d' = d\<lparr>template_deployments := replace_row td_id dep' rows\<rparr>"
    using com by (auto simp: commit_deployments_Inr deployments_ok_def)
  then show ?thesis using filter_replace_own[OF _ dep] rows by (simp add: writes_target_def d')
qed

lemma find_target: "find (\<lambda>dep. td_assignment_id dep = k) rows = Some dep \<Longrightarrow> dep \<in> set rows \<and> td_assignment_id dep = k"
  by (metis (mono_tags) find_Some_iff nth_mem)

lemma with_remote_ids_same [simp]:
  "td_id (with_remote_ids a b c dep) = td_id dep" "td_assignment_id (with_remote_ids a b c dep) = td_assignment_id dep"
  by (simp_all add: with_remote_ids_def Let_def split: option.split)

lemma store_ids_fenced:
  assumes "store_deployment_ids c k ok tk vk d = Inr (d', x)"
  shows "owned_execution d c \<noteq> None \<and> writes_target k d d'"
proof -
  obtain target where lock: "lock_owned_template_target c k None d = Inr target"
    using assms by (auto simp: store_deployment_ids_def rbind_Inr_iff)
  then have dep: "ot_deployment target = find (\<lambda>dep. td_assignment_id dep = k) (template_deployments d)"
    by (rule lock_target_Inr)
  obtain dep where "ot_deployment target = Some dep"
    and com: "commit_deployments (replace_row td_id (with_remote_ids ok tk vk dep) (template_deployments d)) () d = Inr (d', x)"
    using assms lock by (auto simp: store_deployment_ids_def rbind_Inr_iff split: option.splits)
  then have "dep \<in> set (template_deployments d) \<and> td_assignment_id dep = k" using dep find_target by metis
  then show ?thesis
    using commit_writes_target[OF com refl, of dep k] lock_target_owned[OF lock] by simp
qed

lemma finish_fenced:
  assumes "finish_deployment c k commit rv ok d = Inr (d', x)"
  shows "owned_execution d c \<noteq> None \<and> writes_target k d d'"
proof -
  obtain target where lock: "lock_owned_template_target c k None d = Inr target"
    using assms by (auto simp: finish_deployment_def rbind_Inr_iff)
  then have dep: "ot_deployment target = find (\<lambda>dep. td_assignment_id dep = k) (template_deployments d)"
    by (rule lock_target_Inr)
  show ?thesis
  proof (cases "ot_deployment target")
    case None
    with assms lock show ?thesis using lock_target_owned[OF lock] by (simp add: finish_deployment_def)
  next
    case (Some row)
    then have "row \<in> set (template_deployments d) \<and> td_assignment_id row = k" using dep find_target by metis
    with assms lock Some show ?thesis
      using commit_writes_target[of _ "template_deployments d" "()" d d' x k row] lock_target_owned[OF lock]
      by (cases ok) (simp_all add: finish_deployment_def Let_def)
  qed
qed

text \<open>A preparation either finds the target up to date and writes nothing, or marks the row running.\<close>

lemma retarget_same [simp]:
  "td_id (retarget commit rv dep) = td_id dep" "td_assignment_id (retarget commit rv dep) = td_assignment_id dep"
  by (simp_all add: retarget_def)

lemma deployment_row_own:
  assumes "lock_owned_template_target c k expected d = Inr target" and "deployment_row rem k target d = (dep, rows)"
  shows "dep \<in> set rows" and "td_assignment_id dep = k"
    and "filter (\<lambda>x. td_assignment_id x \<noteq> k) rows = filter (\<lambda>x. td_assignment_id x \<noteq> k) (template_deployments d)"
proof -
  have "ot_deployment target = find (\<lambda>dep. td_assignment_id dep = k) (template_deployments d)"
    by (rule lock_target_Inr[OF assms(1)])
  then show "dep \<in> set rows" and "td_assignment_id dep = k"
    and "filter (\<lambda>x. td_assignment_id x \<noteq> k) rows = filter (\<lambda>x. td_assignment_id x \<noteq> k) (template_deployments d)"
    using assms(2) find_target[of k "template_deployments d"]
    by (auto simp: deployment_row_def Let_def new_deployment_def insert_row_def split: option.splits)
qed

lemma prepare_Inr:
  assumes "prepare_deployment rem env c k tk commit rv base d = Inr (d', prep)"
  obtains target where "lock_owned_template_target c k (Some tk) d = Inr target"
    "i_state (ot_instance target) = STARTED" "i_status (ot_instance target) = SUCCESS"
    "if tp_already_applied prep
     then d' = d \<and> (\<exists>dep. ot_deployment target = Some dep \<and> up_to_date dep commit rv)
     else writes_target k d d'"
proof -
  obtain target where lock: "lock_owned_template_target c k (Some tk) d = Inr target"
    and ready: "i_state (ot_instance target) = STARTED" "i_status (ot_instance target) = SUCCESS"
    using assms by (auto simp: prepare_deployment_def rbind_Inr_iff guard_that_iff)
  obtain dep rows where pick: "deployment_row rem k target d = (dep, rows)" by fastforce
  note own = deployment_row_own[OF lock pick]
  show thesis
  proof (cases "up_to_date dep commit rv")
    case True
    then have "d' = d" "tp_already_applied prep"
      using assms lock pick by (auto simp: prepare_deployment_def rbind_Inr_iff guard_that_iff)
    moreover have "ot_deployment target = Some dep"
      using True pick by (auto simp: deployment_row_def new_deployment_def up_to_date_def Let_def split: option.splits)
    ultimately show thesis using True lock ready by (intro that) auto
  next
    case False
    then obtain x where com: "commit_deployments (replace_row td_id (retarget commit rv dep) rows) x d = Inr (d', prep)"
      and "tp_already_applied x = False"
      using assms lock pick by (auto simp: prepare_deployment_def rbind_Inr_iff Let_def)
    moreover from this have "prep = x" by (simp add: commit_deployments_Inr)
    ultimately have "writes_target k d d'" "\<not> tp_already_applied prep"
      using commit_writes_target[OF com own(3,1,2)] own(2) by auto
    then show thesis using lock ready by (intro that) auto
  qed
qed

lemma prepare_fenced:
  assumes "prepare_deployment rem env c k tk commit rv base d = Inr (d', prep)"
  shows "owned_execution d c \<noteq> None \<and> writes_target k d d'"
  using prepare_Inr[OF assms] lock_target_owned by (metis writes_target_refl)

section \<open>Publication\<close>

text \<open>Only a template that carries what was persisted is taken over.\<close>

lemma managed_remote_template_Inr:
  assumes "managed_remote_template cl org name pt pv = Inr (Some t, by_name)"
  shows "(\<exists>k. pt = Some k \<and> cc_template cl k = Inr (Some t))
    \<or> by_name \<and> cc_template_by_name cl org name = Inr (Some t)
       \<and> (pt = Some (ct_id t) \<or> pv \<noteq> None \<and> ct_active_version_id t = pv)"
  using assms
  by (auto simp: managed_remote_template_def rbind_Inr_iff split: option.splits if_splits)

lemma finish_success:
  assumes "finish_deployment c k commit rv True d = Inr (d', x)"
  shows "\<forall>dep \<in> set (template_deployments d'). td_assignment_id dep = k \<longrightarrow> up_to_date dep commit rv"
proof -
  obtain target where lock: "lock_owned_template_target c k None d = Inr target"
    using assms by (auto simp: finish_deployment_def rbind_Inr_iff)
  then have dep: "ot_deployment target = find (\<lambda>dep. td_assignment_id dep = k) (template_deployments d)"
    by (rule lock_target_Inr)
  show ?thesis
  proof (cases "ot_deployment target")
    case None
    then have "\<forall>dep\<in>set (template_deployments d). td_assignment_id dep \<noteq> k"
      using dep by (metis (mono_tags) find_None_iff)
    with None assms lock show ?thesis by (auto simp: finish_deployment_def)
  next
    case (Some row)
    then have row: "row \<in> set (template_deployments d)" "td_assignment_id row = k" using dep find_target by metis+
    define row' where "row' = row\<lparr>td_status := SUCCESS, td_applied_commit := Some commit,
        td_applied_system_parameter_revision := Some rv\<rparr>"
    have ok: "deployments_ok (replace_row td_id row' (template_deployments d))"
      and d': "template_deployments d' = replace_row td_id row' (template_deployments d)"
      using assms lock Some by (auto simp: finish_deployment_def commit_deployments_Inr row'_def)
    have mem: "row' \<in> set (replace_row td_id row' (template_deployments d))"
      using row(1) by (force simp: replace_row_def update_row_def row'_def)
    have inj: "inj_on td_assignment_id (set (template_deployments d'))"
      using ok unfolding d' deployments_ok_def unique_by_def distinct_map by blast
    have "dep = row'" if "dep \<in> set (template_deployments d')" "td_assignment_id dep = k" for dep
      using inj_onD[OF inj _ that(1)] mem that(2) row(2) by (simp add: d' row'_def)
    moreover have "up_to_date row' commit rv" by (simp add: row'_def up_to_date_def)
    ultimately show ?thesis by blast
  qed
qed

lemma tcatch_Inr_iff:
  "tcatch m h w = (w', Inr x) \<longleftrightarrow> m w = (w', Inr x) \<or> (\<exists>e w1. m w = (w1, Inl e) \<and> h e w1 = (w', Inr x))"
  by (auto simp: tcatch_def split: prod.split sum.split)

lemma sync_target_True:
  assumes run: "sync_template_target rem env s a c k w = (w', Inr True)"
  shows "\<forall>dep \<in> set (template_deployments (store w')). td_assignment_id dep = k \<longrightarrow>
           up_to_date dep (ar_commit a) (ts_system_parameter_revision s)"
    and "\<exists>prep w1 w2. publish_target env (r_client rem (tp_instance_url prep)) s a c k prep w1 = (w2, Inr ())"
proof -
  obtain prep w1 w2 d where "publish_target env (r_client rem (tp_instance_url prep)) s a c k prep w1 = (w2, Inr ())"
    and fin: "finish_deployment c k (ar_commit a) (ts_system_parameter_revision s) True (store (e_during env 22 w2)) = Inr (d, ())"
    and w': "w' = (e_during env 22 w2)\<lparr>store := d\<rparr>"
    using run unfolding sync_template_target_def
    by (auto simp: task_iffs tcatch_Inr_iff traise_def split: if_splits)
  then show "\<exists>prep w1 w2. publish_target env (r_client rem (tp_instance_url prep)) s a c k prep w1 = (w2, Inr ())" by blast
  show "\<forall>dep \<in> set (template_deployments (store w')). td_assignment_id dep = k \<longrightarrow>
           up_to_date dep (ar_commit a) (ts_system_parameter_revision s)"
    using finish_success[OF fin] by (simp add: w')
qed

lemma sync_target_False:
  assumes run: "sync_template_target rem env s a c k w = (w', Inr False)"
  shows "store w' = store (e_during env 20 w) \<and> (\<exists>dep \<in> set (template_deployments (store w')).
           td_assignment_id dep = k \<and> up_to_date dep (ar_commit a) (ts_system_parameter_revision s))"
proof -
  obtain base prep d where prep: "prepare_deployment rem env c k (ts_id s) (ar_commit a)
      (ts_system_parameter_revision s) base (store (e_during env 20 w)) = Inr (d, prep)"
    and w': "w' = (e_during env 20 w)\<lparr>store := d\<rparr>" and applied: "tp_already_applied prep"
    using run unfolding sync_template_target_def by (auto simp: task_iffs split: if_splits)
  obtain target where lock: "lock_owned_template_target c k (Some (ts_id s)) (store (e_during env 20 w)) = Inr target"
    and d: "d = store (e_during env 20 w)" and dep: "\<exists>dep. ot_deployment target = Some dep
        \<and> up_to_date dep (ar_commit a) (ts_system_parameter_revision s)"
    using prepare_Inr[OF prep] applied by (metis (full_types))
  have "ot_deployment target = find (\<lambda>dep. td_assignment_id dep = k) (template_deployments (store (e_during env 20 w)))"
    by (rule lock_target_Inr[OF lock])
  moreover obtain row where row: "ot_deployment target = Some row" "up_to_date row (ar_commit a) (ts_system_parameter_revision s)"
    using dep by blast
  ultimately have "row \<in> set (template_deployments (store (e_during env 20 w))) \<and> td_assignment_id row = k"
    using find_target by metis
  with row(2) show ?thesis by (auto simp: w' d)
qed

text \<open>A synchronisation without failures has brought every target up to date.\<close>

lemma sync_targets_zero:
  "sync_targets rem env s a c i ks w = (w', Inr 0) \<Longrightarrow> k \<in> set ks \<Longrightarrow>
   \<exists>j w1 w2 b. sync_template_target rem (at_target j env) s a c k w1 = (w2, Inr b)"
proof (induction ks arbitrary: i w)
  case (Cons k' ks)
  then obtain w1 w2 w3 b where "sync_template_target rem (at_target i env) s a c k' w1 = (w2, Inr b)"
    "sync_targets rem env s a c (Suc i) ks w3 = (w', Inr 0)"
    by (auto simp: task_iffs tcatch_Inr_iff traise_def split: if_splits)
  with Cons show ?case by auto
qed simp

text \<open>One name per commit and revision.\<close>

lemma version_name_inj:
  "length c = length c' \<Longrightarrow> 0 \<le> r \<Longrightarrow> 0 \<le> r' \<Longrightarrow> version_name c r = version_name c' r' \<Longrightarrow> c = c' \<and> r = r'"
  using int_text_inj[of r r'] by (simp add: version_name_def)

end
