(* ===== verification/Periodic_Tasks.thy ===== *)
theory Periodic_Tasks
  imports Coder_Models
begin

text \<open>
  The tasks Celery beat starts (\<^verbatim>\<open>tasks/check_instance_states.py\<close>,
  \<^verbatim>\<open>tasks/daily_workspace_stops.py\<close>, \<^verbatim>\<open>tasks/healthcheck.py\<close>) and the synchronisation step of the
  database pool (\<^verbatim>\<open>tasks/database/sync\<close>). The retry scan is in the engine.
\<close>

section \<open>Observing the state of idle instances\<close>

record instance_state_snapshot =
  ss_id :: uuid
  ss_slug :: string
  ss_attached_name :: "string option"
  ss_job_id :: "uuid option"
  ss_action :: string
  ss_status :: instance_status

definition state_snapshot :: "inst \<Rightarrow> instance_state_snapshot" where
  "state_snapshot i = \<lparr>ss_id = i_id i, ss_slug = i_slug i, ss_attached_name = i_argocd_application_name i,
     ss_job_id = i_job_id i, ss_action = i_action i, ss_status = i_status i\<rparr>"

definition observable :: "inst \<Rightarrow> bool" where
  "observable i = (i_status i \<notin> {PENDING, RUNNING} \<and> i_action i \<noteq> ''deleting'')"

definition state_snapshots :: "db \<Rightarrow> instance_state_snapshot list" where
  "state_snapshots d = map state_snapshot (sort_key i_id (filter observable (instances d)))"

definition store_observation ::
  "instance_state_snapshot \<Rightarrow> instance_state \<Rightarrow> db \<Rightarrow> (task_error, db \<times> nat) result" where
  "store_observation snapshot observed d =
     (case instance_of d (ss_id snapshot) of
        None \<Rightarrow> Inr (d, 0)
      | Some i \<Rightarrow>
          if i_job_id i \<noteq> ss_job_id snapshot \<or> i_action i \<noteq> ss_action snapshot \<or> i_status i \<noteq> ss_status snapshot
             \<or> i_status i \<in> {PENDING, RUNNING} \<or> i_action i = ''deleting'' then Inr (d, 0)
          else if i_state i \<noteq> observed then Inr (save_resource (RInstance (i\<lparr>i_state := observed\<rparr>)) d, 1)
          else Inr (d, 0))"

record state_counts =
  sc_checked :: nat
  sc_changed :: nat
  sc_errors :: nat

fun observe_states :: "env \<Rightarrow> nat \<Rightarrow> instance_state_snapshot list \<Rightarrow> state_counts \<Rightarrow> state_counts task" where
  "observe_states env i [] n = treturn n"
| "observe_states env i (s # rest) n =
     tbind (tcatch (tbind (tremote (at_target i env) 1 (e_application_exists env (ss_id s) (ss_slug s) (ss_attached_name s)))
                      (\<lambda>exists. treturn (Some exists)))
              (\<lambda>_. treturn None)) (\<lambda>exists.
     case exists of
       None \<Rightarrow> observe_states env (Suc i) rest (n\<lparr>sc_errors := sc_errors n + 1\<rparr>)
     | Some e \<Rightarrow>
         tbind (ttxn (at_target i env) 2 (store_observation s (if e then STARTED else STOPPED))) (\<lambda>changed.
         observe_states env (Suc i) rest
           (n\<lparr>sc_checked := sc_checked n + 1, sc_changed := sc_changed n + changed\<rparr>)))"

definition check_instance_states :: "env \<Rightarrow> state_counts task" where
  "check_instance_states env =
     tbind (tread env 1 (\<lambda>d. Inr (state_snapshots d))) (\<lambda>snapshots.
     observe_states env 0 snapshots \<lparr>sc_checked = 0, sc_changed = 0, sc_errors = 0\<rparr>)"

section \<open>Daily stops\<close>

definition STOP_INSTANCE_WORKSPACES_TASK :: string where
  "STOP_INSTANCE_WORKSPACES_TASK = ''coder_manager.stop_instance_workspaces''"

fun dispatch_stops :: "celery \<Rightarrow> uuid list \<Rightarrow> broker_queue \<Rightarrow> broker_queue \<times> nat \<times> nat" where
  "dispatch_stops cel [] q = (q, 0, 0)"
| "dispatch_stops cel (k # ks) q =
     (if delay_succeeds cel STOP_INSTANCE_WORKSPACES_TASK k
      then (let (q', dispatched, failed) = dispatch_stops cel ks (q @ [(STOP_INSTANCE_WORKSPACES_TASK, k)])
            in (q', dispatched + 1, failed))
      else (let (q', dispatched, failed) = dispatch_stops cel ks q in (q', dispatched, failed + 1)))"

definition dispatch_daily_workspace_stops :: "env \<Rightarrow> nat task" where
  "dispatch_daily_workspace_stops env =
     tbind (tread env 1 (\<lambda>d. Inr (sort_key id (map i_id (instances d))))) (\<lambda>instance_ids w.
       let (q, dispatched, failed) = dispatch_stops (e_celery env) instance_ids (broker w) in
       (w\<lparr>broker := q\<rparr>,
        if failed \<noteq> 0
        then Inl (RuntimeError (''Could not dispatch daily workspace stops for '' @ nat_text failed @ '' instance(s)''))
        else Inr dispatched))"

definition stored_instance_credentials ::
  "env \<Rightarrow> uuid \<Rightarrow> string \<Rightarrow> db \<Rightarrow> (task_error, (string \<times> string) option) result" where
  "stored_instance_credentials env instance_id base_domain d =
     (case instance_of d instance_id of
        None \<Rightarrow> Inr None
      | Some i \<Rightarrow>
          (case i_password_enc i of
             None \<Rightarrow> Inl (RuntimeError ''Instance administrator password is missing'')
           | Some enc \<Rightarrow> rbind (e_decrypt_instance_password env enc (i_id i)) (\<lambda>password.
               Inr (Some (url_for base_domain (i_slug i), password)))))"

datatype stop_outcome = StopNoop | StopSubmitted nat nat

definition stop_instance_workspaces :: "remote \<Rightarrow> env \<Rightarrow> uuid \<Rightarrow> stop_outcome task" where
  "stop_instance_workspaces rem env instance_id =
     tbind (tlift (e_base_domain env)) (\<lambda>base_domain.
     tbind (tread env 1 (stored_instance_credentials env instance_id base_domain)) (\<lambda>credentials.
     case credentials of
       None \<Rightarrow> treturn StopNoop
     | Some (instance_url, password) \<Rightarrow>
         tbind (tremote env 2 (cc_submit_active_workspace_stops (r_client rem instance_url) password))
           (\<lambda>(submitted, already_stopping). treturn (StopSubmitted submitted already_stopping))))"

definition healthcheck :: "string task" where
  "healthcheck = treturn ''ok''"

section \<open>Database synchronisation\<close>

definition step_01_sync_database :: "env \<Rightarrow> uuid \<Rightarrow> string task" where
  "step_01_sync_database env job_id = run_step env job_id DATABASE_SYNC_STEP_01_TASK (\<lambda>claim.
     tcomplete env 1 claim no_mutate False)"

section \<open>Every task is a run of the system\<close>

lemma store_observation_Inr:
  assumes "store_observation s observed d = Inr (d', n)"
  obtains (kept) "d' = d" "n = 0"
  | (moved) i where "instance_of d (ss_id s) = Some i" "observable i" "i_job_id i = ss_job_id s"
      "i_action i = ss_action s" "i_status i = ss_status s"
      "d' = save_resource (RInstance (i\<lparr>i_state := observed\<rparr>)) d" "n = 1"
  using assms unfolding store_observation_def
  by (auto simp: observable_def simp del: save_resource.simps split: option.splits if_splits)

lemma run_store_observation: "store_observation s observed d = Inr (d', n) \<Longrightarrow> sys_run d d'"
proof (erule store_observation_Inr)
  fix i assume "instance_of d (ss_id s) = Some i" and d': "d' = save_resource (RInstance (i\<lparr>i_state := observed\<rparr>)) d"
  then have "lookup_resource (resource_kind (RInstance i)) (resource_key (RInstance i)) d = Some (RInstance i)"
    using select_row_key[of i_id "ss_id s" "instances d" i] by (simp add: lookup_resource_def)
  then have "sys_txn d d'" unfolding d' by (rule sys_txn.touch) simp_all
  then show ?thesis by blast
qed simp

lemma safe_observe_states: "safe_env env \<Longrightarrow> safe_task (observe_states env i ss n)"
proof (induction ss arbitrary: i n)
  case (Cons s ss)
  then show ?case
    by (auto intro!: safe_rules safe_tcatch safe_ttxn run_store_observation split: option.split)
qed simp

lemma safe_periodic_tasks:
  assumes "safe_env env"
  shows "safe_task (check_instance_states env)" and "safe_task (dispatch_daily_workspace_stops env)"
    and "safe_task (stop_instance_workspaces rem env k)" and "safe_task (step_01_sync_database env k)"
proof -
  show "safe_task (check_instance_states env)"
    unfolding check_instance_states_def using assms by (intro safe_tbind safe_tread safe_observe_states)
  show "safe_task (stop_instance_workspaces rem env k)"
    unfolding stop_instance_workspaces_def using assms by (auto intro!: safe_rules split: option.split prod.split)
  show "safe_task (step_01_sync_database env k)"
    unfolding step_01_sync_database_def by (intro safe_run_step; use assms in \<open>auto intro!: safe_rules\<close>)
  have "safe_task (\<lambda>w. let (q, m, f) = g w in (w\<lparr>broker := q\<rparr>, h m f))" for g and h :: "nat \<Rightarrow> nat \<Rightarrow> task_error + nat"
    by (simp add: safe_task_def split_beta Let_def)
  then show "safe_task (dispatch_daily_workspace_stops env)"
    unfolding dispatch_daily_workspace_stops_def using assms by (intro safe_tbind safe_tread)
qed

end
