(* ===== verification/Catalogue_Properties.thy ===== *)
theory Catalogue_Properties
  imports Samples Catalogue Assignments Workspace_Tasks Template_Tasks Periodic_Tasks
begin

text \<open>
  Properties of the template catalogue, of the assignments and of the steps that publish
  templates and converge workspaces.
\<close>

section \<open>Inputs\<close>

definition sample_client :: coder_client where
  "sample_client = \<lparr>cc_authenticate = (\<lambda>_. Inr ()), cc_default_organization_id = Inr 1,
     cc_template = (\<lambda>k. Inr (Some \<lparr>ct_id = k, ct_active_version_id = None\<rparr>)), cc_template_by_name = (\<lambda>_ _. Inr None),
     cc_template_version_by_name = (\<lambda>_ _ _. Inr None), cc_template_version_for_recovery = (\<lambda>_. Inr None),
     cc_upload_template_archive = (\<lambda>_. Inr 70),
     cc_create_template_version = (\<lambda>_ _ _ _ _. Inr \<lparr>cv_id = 71, cv_status = ''succeeded'', cv_archived = False,
        cv_job_id = None, cv_error = None, cv_error_code = None, cv_logs_overflowed = False\<rparr>),
     cc_wait_template_version = (\<lambda>_. Inl (RemoteError [])), cc_unarchive_template_version = (\<lambda>_. Inr ()),
     cc_create_template = (\<lambda>_ _ _ _. Inl (RemoteError [])), cc_activate_template_version = (\<lambda>_ _. Inr ()),
     cc_delete_template_workspaces = (\<lambda>_ _. Inr ()), cc_delete_template = (\<lambda>_. Inr ()),
     cc_workspace = (\<lambda>_. Inr None), cc_workspace_by_owner_and_name = (\<lambda>_ _. Inr None),
     cc_create_workspace = (\<lambda>_ n t _. Inr \<lparr>cw_id = 60, cw_status = ''running'', cw_latest_build_id = 61,
        cw_latest_build_transition = ''start'', cw_name = n, cw_template_id = Some t\<rparr>),
     cc_update_workspace_name = (\<lambda>_ _. Inr ()), cc_create_workspace_start_build = (\<lambda>_ _. Inl (RemoteError [])),
     cc_create_workspace_delete_build = (\<lambda>_. Inl (RemoteError [])), cc_workspace_build = (\<lambda>_ _. Inl (RemoteError [])),
     cc_workspace_build_parameters = (\<lambda>_. Inr []), cc_submit_active_workspace_stops = (\<lambda>_. Inr (0, 0))\<rparr>"

definition sample_archive :: template_archive where
  "sample_archive = \<lparr>ar_commit = replicate 40 (CHR ''a''), ar_content = [1]\<rparr>"

definition sample_remote :: remote where
  "sample_remote = \<lparr>r_client = (\<lambda>_. sample_client), r_fetch = (\<lambda>_ _ _. Inr sample_archive),
     r_decrypt_parameter = (\<lambda>b _. Inr (bytes_text b)), r_checks = 3, r_deployment_id = (\<lambda>_. 45)\<rparr>"

definition sample_syncing :: db where
  "sample_syncing = sample_catalog\<lparr>
     job_executions := [sample_job\<lparr>j_name := ''template.sync'', j_task_name := TEMPLATE_SYNC_STEP_01_TASK,
        j_step := TEMPLATE_SYNC_STEP_01, j_resource_type := Some ''template'', j_resource_id := Some 30,
        j_status := RUNNING, j_attempt := 1, j_claimed_at := Some 10\<rparr>],
     templates := [sample_template\<lparr>t_action := ''syncing'', t_sync_status := RUNNING, t_job_id := Some 1,
        t_step := Some TEMPLATE_SYNC_STEP_01\<rparr>]\<rparr>"

definition sample_sync_claim :: execution_claim where
  "sample_sync_claim = \<lparr>c_job_id = 1, c_task_name = TEMPLATE_SYNC_STEP_01_TASK, c_step = TEMPLATE_SYNC_STEP_01,
     c_attempt = 1, c_resource_type = Some ''template'', c_resource_id = Some 30\<rparr>"

definition sample_snapshot :: template_source_snapshot where
  "sample_snapshot = projr (template_source_snapshot_of 30 sample_syncing)"

definition sample_building :: world where
  "sample_building = \<lparr>store = sample_catalog\<lparr>
     job_executions := [sample_job\<lparr>j_name := ''workspace.create'', j_task_name := WORKSPACE_CREATE_STEP_01_TASK,
        j_step := WORKSPACE_CREATE_STEP_01, j_resource_type := Some ''workspace'', j_resource_id := Some 50\<rparr>],
     workspaces := [sample_workspace\<lparr>w_action := ''creating'', w_status := PENDING, w_job_id := Some 1,
        w_step := Some WORKSPACE_CREATE_STEP_01, w_applied_parameters_revision := None,
        w_coder_workspace_id := None, w_coder_workspace_build_id := None\<rparr>]\<rparr>, broker = []\<rparr>"

section \<open>Assignments\<close>

text \<open>
  Assigning a template is idempotent and exclusive. A request that is accepted leaves a
  state in which repeating it returns the same row and changes nothing, and in which the
  opposite request is refused; a job it hands to the broker is new and can be claimed; a
  request that reports no work has written nothing, and then the assignment is in place.
\<close>

theorem assignment_requests_idempotent:
  assumes "put_assignment ik tk ak jk now d = Inr (d', a, accepted, enqueued)"
  shows "sys_run d d'
    \<and> (accepted \<longrightarrow> put_assignment ik tk ak2 jk2 now2 d' = Inr (d', a, True, None)
         \<and> request_assignment_deletion ik tk jk2 now2 d' = Inl TemplateAssignmentActionConflictError)
    \<and> (\<forall>k. enqueued = Some k \<longrightarrow> k = jk \<and> claimable d' jk TEMPLATE_ASSIGNMENT_CREATE_STEP_01_TASK)
    \<and> (\<not> accepted \<longrightarrow> d' = d \<and> enqueued = None \<and> lock_assignment ik tk d = Some a
         \<and> ta_action a = ''created'' \<and> ta_status a = SUCCESS)"
  using put_assignment_Inr[OF assms] settling_repeats by blast

theorem assignment_requests_idempotent_witness:
  "\<exists>d' a. put_assignment 7 30 80 81 5 (sample_catalog\<lparr>template_assignments := []\<rparr>) = Inr (d', a, True, Some 81)
     \<and> put_assignment 7 30 82 83 6 d' = Inr (d', a, True, None)
     \<and> request_assignment_deletion 7 30 83 6 d' = Inl TemplateAssignmentActionConflictError"
proof -
  let ?r = "put_assignment 7 30 80 81 5 (sample_catalog\<lparr>template_assignments := []\<rparr>)"
  have "is_Inr ?r" by code_simp
  then obtain d' a q where r: "?r = Inr (d', a, q)" using is_Inr3 by blast
  have "snd (snd (projr ?r)) = (True, Some 81)" by code_simp
  with r have r81: "?r = Inr (d', a, True, Some 81)" by simp
  from assignment_requests_idempotent[OF r81, of 82 83 6] r81 show ?thesis by blast
qed

section \<open>The catalogue\<close>

lemma revision_run:
  assumes "(parameter_step c k)\<^sup>*\<^sup>* d d'" and "values_ok d" and "template_of d k = Some t"
  shows "\<exists>t'. template_of d' k = Some t' \<and> t_system_parameter_revision t \<le> t_system_parameter_revision t'
    \<and> (t_system_parameter_revision t' = t_system_parameter_revision t \<longrightarrow> (\<forall>n. secret_of c d' n = secret_of c d n))"
  using assms
proof (induction rule: rtranclp_induct)
  case (step d1 d2)
  then obtain t1 where t1: "template_of d1 k = Some t1" "t_system_parameter_revision t \<le> t_system_parameter_revision t1"
    "t_system_parameter_revision t1 = t_system_parameter_revision t \<longrightarrow> (\<forall>n. secret_of c d1 n = secret_of c d n)" by blast
  have "values_ok d1" using secrets.run_preserved[OF step.hyps(1) step.prems(1)] .
  with step.hyps(2) have "versioned c k d1 d2"
    by cases (blast intro: create_parameter_versioned(1) update_parameter_versioned(1) delete_parameter_versioned(1))+
  with t1 show ?case by (auto simp: versioned_def bump_revision_def)
qed simp

text \<open>
  C29. The revision of a template versions its secrets: over any sequence of parameter
  requests on a template the revision never decreases, and when it is what it was then every
  system value is what it was; an update moves the revision only when the value it stores
  differs from the one stored before.
\<close>

theorem revision_versions_secrets:
  assumes "(parameter_step c k)\<^sup>*\<^sup>* d d'" and "values_ok d" and "template_of d k = Some t"
    and "parameter_cipher_law c" and "update_parameter k pk u (Some c) d' = Inr (d2, p)"
  shows "(\<exists>t'. template_of d' k = Some t' \<and> t_system_parameter_revision t \<le> t_system_parameter_revision t'
      \<and> (t_system_parameter_revision t' = t_system_parameter_revision t \<longrightarrow> (\<forall>n. secret_of c d' n = secret_of c d n)))
    \<and> (template_of d2 k \<noteq> template_of d' k \<longrightarrow> secret_of c d2 pk \<noteq> secret_of c d' pk)"
  using revision_run[OF assms(1-3)] update_parameter_versioned(3)[OF assms(5,4)] by blast

definition sample_parameter_cipher :: parameter_cipher where
  "sample_parameter_cipher = \<lparr>pc_encrypt = (\<lambda>s _. text_bytes s), pc_decrypt = (\<lambda>b _. Some (bytes_text b))\<rparr>"

definition sample_secret_create :: template_parameter_create where
  "sample_secret_create = SystemTemplateParameterCreate
     \<lparr>pn_name = ''token'', pn_display_name = ''Token'', pn_description = ''t''\<rparr> ''s1''"

definition sample_secret_update :: template_parameter_update where
  "sample_secret_update = SystemTemplateParameterUpdate \<lparr>pu_display_name = ''Token'', pu_description = ''t''\<rparr> (Some ''s2'')"

theorem revision_versions_secrets_witness:
  "\<exists>d1 p d2 q. create_parameter 30 sample_secret_create (Some sample_parameter_cipher) 90 sample_catalog = Inr (d1, p)
     \<and> update_parameter 30 90 sample_secret_update (Some sample_parameter_cipher) d1 = Inr (d2, q)
     \<and> (\<exists>t'. template_of d1 30 = Some t' \<and> 0 \<le> t_system_parameter_revision t')"
proof -
  let ?c = sample_parameter_cipher
  let ?r = "create_parameter 30 sample_secret_create (Some ?c) 90 sample_catalog"
  have "is_Inr ?r" by code_simp
  then obtain d1 p where r: "?r = Inr (d1, p)" using is_Inr2 by blast
  have "is_Inr (update_parameter 30 90 sample_secret_update (Some ?c) (fst (projr ?r)))" by code_simp
  then obtain d2 q where u: "update_parameter 30 90 sample_secret_update (Some ?c) d1 = Inr (d2, q)"
    using is_Inr2 r by fastforce
  have run: "(parameter_step ?c 30)\<^sup>*\<^sup>* sample_catalog d1" using parameter_step.create[OF r] by blast
  have ok: "values_ok sample_catalog" by code_simp
  have t: "template_of sample_catalog 30 = Some sample_template" by code_simp
  have law: "parameter_cipher_law ?c" by (simp add: parameter_cipher_law_def sample_parameter_cipher_def)
  have "t_system_parameter_revision sample_template = 0" by code_simp
  with revision_versions_secrets[OF run ok t law u] r u show ?thesis by auto
qed

text \<open>
  C30. No workspace refers to a module or an image its template does not offer, in any order
  of requests on templates, images, parameters and workspaces and of transactions that leave
  these columns alone.
\<close>

theorem workspaces_fit_their_template:
  assumes "d0 = empty_db \<or> catalogue_inv d0" and "catalogue_step\<^sup>*\<^sup>* d0 d" and "x \<in> set (workspaces d)"
  shows "(\<exists>t. template_of d (w_template_id x) = Some t \<and> set (w_modules x) \<subseteq> set (t_modules t))
    \<and> (\<exists>m. image_of d (w_image_id x) = Some m \<and> im_template_id m = w_template_id x)"
proof -
  have "catalogue_inv d" using catalogue.run_preserved[OF assms(2)] assms(1) by auto
  then have "fits d x" using assms(3) by (simp add: catalogue_inv_def list_all_iff)
  then show ?thesis by (auto simp: fits_def split: option.splits)
qed

theorem workspaces_fit_their_template_witness:
  "\<exists>d m t. create_image 30 \<lparr>ic_registry = ''r2'', ic_name = ''n2'', ic_version = ''v''\<rparr> 46 sample_catalog = Inr (d, m)
     \<and> sample_workspace \<in> set (workspaces d) \<and> template_of d 30 = Some t \<and> set (w_modules sample_workspace) \<subseteq> set (t_modules t)"
proof -
  let ?r = "create_image 30 \<lparr>ic_registry = ''r2'', ic_name = ''n2'', ic_version = ''v''\<rparr> 46 sample_catalog"
  have "is_Inr ?r" by code_simp
  then obtain d m where r: "?r = Inr (d, m)" using is_Inr2 by blast
  have "sample_workspace \<in> set (workspaces (fst (projr ?r)))" by code_simp
  with r have mem: "sample_workspace \<in> set (workspaces d)" by simp
  have inv: "sample_catalog = empty_db \<or> catalogue_inv sample_catalog" by (rule disjI2) code_simp
  have run: "catalogue_step\<^sup>*\<^sup>* sample_catalog d" using catalogue_step.create_image[OF r] by blast
  have "w_template_id sample_workspace = 30" by code_simp
  with workspaces_fit_their_template[OF inv run mem] r mem show ?thesis by auto
qed

section \<open>Steps\<close>

text \<open>
  C2. Every task the worker runs, with whatever interference of other processes that is made
  of system transactions and whatever the remote services answer, is itself made of system
  transactions: the instance, workspace and template steps, the database step and the periodic
  tasks. No task writes the store behind the back of the engine.
\<close>

theorem every_task_refines_system:
  assumes "safe_env env"
  shows "((name, body) \<in> set instance_task_table \<longrightarrow> sys_run (store w) (store (fst (body env k w))))
    \<and> sys_run (store w) (store (fst (step_01_create_workspace rem env k w)))
    \<and> sys_run (store w) (store (fst (step_01_update_workspace rem env k w)))
    \<and> sys_run (store w) (store (fst (step_01_delete_workspace rem env k w)))
    \<and> sys_run (store w) (store (fst (step_01_sync_template rem env k w)))
    \<and> sys_run (store w) (store (fst (step_01_create_template rem env k w)))
    \<and> sys_run (store w) (store (fst (step_01_delete_template rem env k w)))
    \<and> sys_run (store w) (store (fst (step_01_sync_database env k w)))
    \<and> sys_run (store w) (store (fst (check_instance_states env w)))
    \<and> sys_run (store w) (store (fst (dispatch_daily_workspace_stops env w)))
    \<and> sys_run (store w) (store (fst (stop_instance_workspaces rem env k w)))"
  using safe_workspace_steps[OF assms] safe_template_steps[OF assms] safe_periodic_tasks[OF assms]
    safe_instance_tasks[OF assms, of name body k]
  by (simp add: safe_task_def)

theorem every_task_refines_system_witness:
  "sys_run (store sample_building) (store (fst (step_01_create_workspace sample_remote sample_env 1 sample_building)))
   \<and> sys_run sample_db (store (fst (step_02_stop_instance sample_env 1 sample_world)))
   \<and> snd (step_02_stop_instance sample_env 1 sample_world) = Inr ''success''"
proof -
  have "(INSTANCE_STOP_STEP_02_TASK, step_02_stop_instance) \<in> set instance_task_table"
    by (simp add: instance_task_table_def)
  then have "sys_run sample_db (store (fst (step_02_stop_instance sample_env 1 sample_world)))"
    using every_task_refines_system[OF safe_sample_env, THEN conjunct1, of INSTANCE_STOP_STEP_02_TASK step_02_stop_instance sample_world 1]
    by (simp add: sample_world_def)
  moreover have "snd (step_02_stop_instance sample_env 1 sample_world) = Inr ''success''" by code_simp
  ultimately show ?thesis using every_task_refines_system[OF safe_sample_env] by blast
qed

text \<open>
  The deployment row of a target is written only under the fence: each of the three
  transactions that write one succeeds only for the worker that owns its job at that moment,
  and it changes nothing but the row of its own assignment.
\<close>

theorem deployment_writes_are_fenced:
  assumes "prepare_deployment rem env c k tk commit rv base d = Inr (d', prep)
    \<or> store_deployment_ids c k ok t vk d = Inr (d', u) \<or> finish_deployment c k commit rv success d = Inr (d', u)"
  shows "owned_execution d c \<noteq> None \<and> d' = d\<lparr>template_deployments := template_deployments d'\<rparr>
    \<and> filter (\<lambda>dep. td_assignment_id dep \<noteq> k) (template_deployments d')
      = filter (\<lambda>dep. td_assignment_id dep \<noteq> k) (template_deployments d)"
proof -
  have "owned_execution d c \<noteq> None \<and> writes_target k d d'"
    using assms by (elim disjE) (rule prepare_fenced store_ids_fenced finish_fenced, assumption)+
  then show ?thesis by (simp add: writes_target_def)
qed

theorem deployment_writes_are_fenced_witness:
  "\<exists>d'. finish_deployment sample_sync_claim 43 (ar_commit sample_archive) 0 True sample_syncing = Inr (d', ())
     \<and> owned_execution sample_syncing sample_sync_claim \<noteq> None"
proof -
  have "is_Inr (finish_deployment sample_sync_claim 43 (ar_commit sample_archive) 0 True sample_syncing)" by code_simp
  then obtain d' where r: "finish_deployment sample_sync_claim 43 (ar_commit sample_archive) 0 True sample_syncing = Inr (d', ())"
    using is_Inr2 by fastforce
  with deployment_writes_are_fenced[OF disjI2[OF disjI2[OF r]]] show ?thesis by blast
qed

text \<open>
  C31. A publication never takes over a template that is not its own: the template it goes on
  with is the one persisted for the deployment, or the one of that name whose key or active
  version is the persisted one; with nothing persisted it goes on only when the name is free.
\<close>

theorem foreign_templates_never_adopted:
  assumes "managed_remote_template client org name persisted_template persisted_version = Inr (found, by_name)"
  shows "(\<forall>t. found = Some t \<longrightarrow>
       (\<exists>k. persisted_template = Some k \<and> cc_template client k = Inr (Some t))
       \<or> cc_template_by_name client org name = Inr (Some t)
         \<and> (persisted_template = Some (ct_id t) \<or> persisted_version \<noteq> None \<and> ct_active_version_id t = persisted_version))
    \<and> (found = None \<longrightarrow> cc_template_by_name client org name = Inr None)"
proof -
  have "cc_template_by_name client org name = Inr None" if "found = None"
  proof -
    obtain named where named: "cc_template_by_name client org name = Inr named"
      using assms by (auto simp: managed_remote_template_def rbind_Inr_iff)
    then show ?thesis
      using assms that by (cases named) (auto simp: managed_remote_template_def rbind_Inr_iff split: option.splits if_splits)
  qed
  then show ?thesis using managed_remote_template_Inr assms by blast
qed

theorem foreign_templates_never_adopted_witness:
  "managed_remote_template sample_client 1 ''dev'' (Some 2) (Some 3)
     = Inr (Some \<lparr>ct_id = 2, ct_active_version_id = None\<rparr>, False)
   \<and> (\<exists>k. Some (2 :: uuid) = Some k \<and> cc_template sample_client k = Inr (Some \<lparr>ct_id = 2, ct_active_version_id = None\<rparr>))"
proof -
  have r: "managed_remote_template sample_client 1 ''dev'' (Some 2) (Some 3)
     = Inr (Some \<lparr>ct_id = 2, ct_active_version_id = None\<rparr>, False)" by code_simp
  have "cc_template_by_name sample_client 1 ''dev'' = Inr None" by code_simp
  with foreign_templates_never_adopted[OF r] r show ?thesis by auto
qed

text \<open>
  What a synchronisation of a target reports is true of its row: when it reports work,
  the publication went through and the row of the assignment, if it is still there, has the
  commit and the revision as applied; when it reports none, it wrote nothing and the row was
  up to date; and a synchronisation of many targets that counts no failure has gone through
  for every one of them.
\<close>

theorem sync_reports_truthfully:
  assumes "sync_template_target rem env s a c k w = (w', Inr worked)"
  shows "(worked \<longrightarrow>
        (\<exists>prep v v'. publish_target env (r_client rem (tp_instance_url prep)) s a c k prep v = (v', Inr ()))
        \<and> (\<forall>dep \<in> set (template_deployments (store w')). td_assignment_id dep = k \<longrightarrow>
             td_status dep = SUCCESS \<and> td_applied_commit dep = Some (ar_commit a)
             \<and> td_applied_system_parameter_revision dep = Some (ts_system_parameter_revision s)))
    \<and> (\<not> worked \<longrightarrow> store w' = store (e_during env 20 w) \<and> (\<exists>dep \<in> set (template_deployments (store w')).
         td_assignment_id dep = k \<and> up_to_date dep (ar_commit a) (ts_system_parameter_revision s)))
    \<and> (\<forall>i ks w1 w2. sync_targets rem env s a c i ks w1 = (w2, Inr 0) \<longrightarrow>
         (\<forall>k' \<in> set ks. \<exists>j v v' b. sync_template_target rem (at_target j env) s a c k' v = (v', Inr b)))"
proof (intro conjI impI ballI allI)
  show "\<exists>prep v v'. publish_target env (r_client rem (tp_instance_url prep)) s a c k prep v = (v', Inr ())" if worked
    using sync_target_True(2) assms that by metis
  show "td_status dep = SUCCESS" "td_applied_commit dep = Some (ar_commit a)"
    "td_applied_system_parameter_revision dep = Some (ts_system_parameter_revision s)"
    if worked "dep \<in> set (template_deployments (store w'))" "td_assignment_id dep = k" for dep
    using sync_target_True(1) assms that unfolding up_to_date_def by metis+
  show "store w' = store (e_during env 20 w)" "\<exists>dep \<in> set (template_deployments (store w')).
         td_assignment_id dep = k \<and> up_to_date dep (ar_commit a) (ts_system_parameter_revision s)" if "\<not> worked"
    using sync_target_False assms that by (metis (full_types))+
  show "\<exists>j v v' b. sync_template_target rem (at_target j env) s a c k' v = (v', Inr b)"
    if "sync_targets rem env s a c i ks w1 = (w2, Inr 0)" "k' \<in> set ks" for i ks w1 w2 k'
    using sync_targets_zero[OF that] .
qed

definition sample_sync_world :: world where
  "sample_sync_world = \<lparr>store = sample_syncing, broker = []\<rparr>"

lemma pair_Inr: "snd r = Inr x \<Longrightarrow> r = (fst r, Inr x)"
  by (cases r) simp

theorem sync_reports_truthfully_witness:
  "\<exists>w' dep. sync_template_target sample_remote sample_env sample_snapshot sample_archive sample_sync_claim 43 sample_sync_world
       = (w', Inr True)
     \<and> dep \<in> set (template_deployments (store w')) \<and> td_applied_commit dep = Some (ar_commit sample_archive)"
proof -
  let ?r = "sync_template_target sample_remote sample_env sample_snapshot sample_archive sample_sync_claim 43 sample_sync_world"
  have "snd ?r = Inr True" by code_simp
  then have r: "?r = (fst ?r, Inr True)" by (rule pair_Inr)
  have "list_ex (\<lambda>dep. td_assignment_id dep = 43) (template_deployments (store (fst ?r)))" by code_simp
  then obtain dep where "dep \<in> set (template_deployments (store (fst ?r)))" "td_assignment_id dep = 43"
    by (auto simp: list_ex_iff)
  with sync_reports_truthfully[OF r] r show ?thesis by auto
qed



end
