(* ===== verification/Ciphers.thy ===== *)
theory Ciphers
  imports Catalogue
begin

text \<open>
  The credential ciphers (\<^verbatim>\<open>crypto.py\<close>). The AES-GCM primitive is a parameter; the key
  check, the UTF-8 codec, the envelope and the associated data are computed here. A Python
  \<^verbatim>\<open>str\<close> is the list of its code points in this theory. The nonce that \<^verbatim>\<open>urandom\<close> returns
  is an argument.
\<close>

section \<open>Text\<close>

type_synonym code_points = "nat list"

definition scalar_value :: "nat \<Rightarrow> bool" where
  "scalar_value c = (c < 1114112 \<and> \<not> (55296 \<le> c \<and> c < 57344))"

fun utf8_char :: "nat \<Rightarrow> nat list" where
  "utf8_char c =
     (if c < 128 then [c]
      else if c < 2048 then [192 + c div 64, 128 + c mod 64]
      else if c < 65536 then [224 + c div 4096, 128 + c div 64 mod 64, 128 + c mod 64]
      else [240 + c div 262144, 128 + c div 4096 mod 64, 128 + c div 64 mod 64, 128 + c mod 64])"

declare utf8_char.simps [simp del]

definition utf8_encode :: "code_points \<Rightarrow> bytes" where
  "utf8_encode t = map of_nat (concat (map utf8_char t))"

definition continuation :: "nat \<Rightarrow> bool" where
  "continuation b = (128 \<le> b \<and> b < 192)"

fun utf8_scan :: "nat list \<Rightarrow> code_points option" where
  "utf8_scan [] = Some []"
| "utf8_scan (b # bs) =
     (if b < 128 then map_option (Cons b) (utf8_scan bs)
      else if 194 \<le> b \<and> b < 224 then
        (case bs of
           b1 # r \<Rightarrow> if continuation b1
             then map_option (Cons ((b - 192) * 64 + (b1 - 128))) (utf8_scan r) else None
         | _ \<Rightarrow> None)
      else if 224 \<le> b \<and> b < 240 then
        (case bs of
           b1 # b2 # r \<Rightarrow>
             (let c = (b - 224) * 4096 + (b1 - 128) * 64 + (b2 - 128) in
              if continuation b1 \<and> continuation b2 \<and> 2048 \<le> c \<and> scalar_value c
              then map_option (Cons c) (utf8_scan r) else None)
         | _ \<Rightarrow> None)
      else if 240 \<le> b \<and> b < 245 then
        (case bs of
           b1 # b2 # b3 # r \<Rightarrow>
             (let c = (b - 240) * 262144 + (b1 - 128) * 4096 + (b2 - 128) * 64 + (b3 - 128) in
              if continuation b1 \<and> continuation b2 \<and> continuation b3 \<and> 65536 \<le> c \<and> scalar_value c
              then map_option (Cons c) (utf8_scan r) else None)
         | _ \<Rightarrow> None)
      else None)"

definition utf8_decode :: "bytes \<Rightarrow> code_points option" where
  "utf8_decode bs = utf8_scan (map unat bs)"

lemma digits64_2: "(c :: nat) div 64 * 64 + c mod 64 = c" by simp

lemma digits64_3: "(c :: nat) div 4096 * 4096 + c div 64 mod 64 * 64 + c mod 64 = c"
proof -
  have "c div 4096 = c div 64 div 64" by (simp add: div_mult2_eq flip: mult.assoc)
  then have "c div 4096 * 64 + c div 64 mod 64 = c div 64" by simp
  then have "(c div 4096 * 64 + c div 64 mod 64) * 64 + c mod 64 = c" by simp
  then show ?thesis by (simp add: algebra_simps)
qed

lemma digits64_4:
  "(c :: nat) div 262144 * 262144 + c div 4096 mod 64 * 4096 + c div 64 mod 64 * 64 + c mod 64 = c"
proof -
  have "c div 262144 = c div 64 div 4096" "c div 4096 = c div 64 div 64"
    by (simp_all add: div_mult2_eq flip: mult.assoc)
  then have "c div 262144 * 4096 + c div 4096 mod 64 * 64 + c div 64 mod 64 = c div 64"
    using digits64_3[of "c div 64"] by simp
  then have "(c div 262144 * 4096 + c div 4096 mod 64 * 64 + c div 64 mod 64) * 64 + c mod 64 = c" by simp
  then show ?thesis by (simp add: algebra_simps)
qed

lemma utf8_char_scan:
  assumes "scalar_value c"
  shows "utf8_scan (utf8_char c @ rest) = map_option (Cons c) (utf8_scan rest)"
proof -
  consider "c < 128" | "128 \<le> c" "c < 2048" | "2048 \<le> c" "c < 65536" | "65536 \<le> c" by linarith
  then show ?thesis
  proof cases
    case 1
    then show ?thesis by (simp add: utf8_char.simps)
  next
    case 2
    then have "2 \<le> c div 64" "c div 64 < 32" by (simp_all add: less_eq_div_iff_mult_less_eq div_less_iff_less_mult)
    with 2 show ?thesis using digits64_2[of c] by (simp add: utf8_char.simps continuation_def div_less_iff_less_mult)
  next
    case 3
    then have "c div 4096 < 16" by (simp add: div_less_iff_less_mult)
    with 3 show ?thesis using digits64_3[of c] assms by (simp add: utf8_char.simps continuation_def div_less_iff_less_mult Let_def)
  next
    case 4
    then have "c div 262144 < 5" using assms by (simp add: div_less_iff_less_mult scalar_value_def)
    with 4 show ?thesis using digits64_4[of c] assms by (simp add: utf8_char.simps continuation_def div_less_iff_less_mult Let_def)
  qed
qed

lemma utf8_char_bytes: "scalar_value c \<Longrightarrow> list_all (\<lambda>b. b < 256) (utf8_char c)"
proof -
  assume "scalar_value c"
  then have "c div 262144 < 5" by (simp add: div_less_iff_less_mult scalar_value_def)
  moreover have "c < 2048 \<Longrightarrow> c div 64 < 32" "c < 65536 \<Longrightarrow> c div 4096 < 16" by (simp_all add: div_less_iff_less_mult)
  moreover have "x mod 64 < 64" for x :: nat by simp
  ultimately show ?thesis by (auto simp: utf8_char.simps intro: less_le_trans)
qed

lemma unat_of_byte: "b < 256 \<Longrightarrow> unat (of_nat b :: 8 word) = b"
  by (simp add: unat_of_nat)

theorem utf8_roundtrip:
  assumes "list_all scalar_value t"
  shows "utf8_decode (utf8_encode t) = Some t"
proof -
  have "utf8_scan (concat (map utf8_char t)) = Some t"
    using assms by (induction t) (simp_all add: utf8_char_scan)
  moreover have "map (\<lambda>b. unat (of_nat b :: 8 word)) (concat (map utf8_char t)) = concat (map utf8_char t)"
    using assms by (induction t) (use utf8_char_bytes in \<open>auto simp: unat_of_byte list_all_iff map_idI\<close>)
  ultimately show ?thesis by (simp add: utf8_decode_def utf8_encode_def comp_def)
qed

section \<open>Keys\<close>

definition b64_alphabet :: string where
  "b64_alphabet = ''ABCDEFGHIJKLMNOPQRSTUVWXYZabcdefghijklmnopqrstuvwxyz0123456789+/''"

definition b64_value :: "char \<Rightarrow> nat option" where
  "b64_value c = (if c \<in> set b64_alphabet then Some (length (takeWhile (\<lambda>x. x \<noteq> c) b64_alphabet)) else None)"

fun b64_bytes :: "nat list \<Rightarrow> nat list" where
  "b64_bytes (a # b # c # e # r) =
     [a * 4 + b div 16, b mod 16 * 16 + c div 4, c mod 4 * 64 + e] @ b64_bytes r"
| "b64_bytes [a, b, c] = [a * 4 + b div 16, b mod 16 * 16 + c div 4]"
| "b64_bytes [a, b] = [a * 4 + b div 16]"
| "b64_bytes _ = []"

text \<open>
  \<^verbatim>\<open>b64decode(s, validate=True)\<close>. Some interpreter versions also take one padding character
  after a complete group; what they return then is no 32-byte key.
\<close>

definition b64decode :: "string \<Rightarrow> bytes option" where
  "b64decode s =
     (let digits = takeWhile (\<lambda>c. c \<noteq> CHR ''='') s; padding = dropWhile (\<lambda>c. c \<noteq> CHR ''='') s;
          values = map b64_value digits in
      if None \<in> set values then None
      else if (length digits mod 4, padding) \<in> {(0, []), (2, ''==''), (3, ''='')}
      then Some (map of_nat (b64_bytes (map the values))) else None)"

datatype crypto_error = CryptoConfigurationError | PasswordDecryptionError | KubeconfigDecryptionError
  | InstancePasswordDecryptionError | TemplateParameterDecryptionError

definition KEY_LENGTH :: nat where "KEY_LENGTH = 32"
definition NONCE_LENGTH :: nat where "NONCE_LENGTH = 12"
definition ENVELOPE_VERSION :: "8 word" where "ENVELOPE_VERSION = 1"

definition cipher_key :: "string option \<Rightarrow> (crypto_error, bytes) result" where
  "cipher_key encoded_key =
     (case encoded_key of
        None \<Rightarrow> Inl CryptoConfigurationError
      | Some s \<Rightarrow>
          (case b64decode s of
             None \<Rightarrow> Inl CryptoConfigurationError
           | Some key \<Rightarrow> if length key \<noteq> KEY_LENGTH then Inl CryptoConfigurationError else Inr key))"

text \<open>The constructors of the four classes are the same code.\<close>

definition password_cipher_init :: "string option \<Rightarrow> (crypto_error, bytes) result" where
  "password_cipher_init = cipher_key"
definition kubeconfig_cipher_init :: "string option \<Rightarrow> (crypto_error, bytes) result" where
  "kubeconfig_cipher_init = cipher_key"
definition instance_password_cipher_init :: "string option \<Rightarrow> (crypto_error, bytes) result" where
  "instance_password_cipher_init = cipher_key"
definition template_parameter_cipher_init :: "string option \<Rightarrow> (crypto_error, bytes) result" where
  "template_parameter_cipher_init = cipher_key"

section \<open>Envelopes\<close>

record aead =
  ae_encrypt :: "bytes \<Rightarrow> bytes \<Rightarrow> bytes \<Rightarrow> bytes \<Rightarrow> bytes"
  ae_decrypt :: "bytes \<Rightarrow> bytes \<Rightarrow> bytes \<Rightarrow> bytes \<Rightarrow> bytes option"

definition ascii :: "string \<Rightarrow> bytes" where
  "ascii s = map of_char s"

definition uuid_bytes :: "uuid \<Rightarrow> bytes" where
  "uuid_bytes u = map (\<lambda>i. ucast (drop_bit (8 * i) u)) (List.rev [0..<16])"

definition seal :: "aead \<Rightarrow> bytes \<Rightarrow> bytes \<Rightarrow> bytes \<Rightarrow> bytes \<Rightarrow> bytes" where
  "seal ae key nonce plaintext associated_data =
     [ENVELOPE_VERSION] @ nonce @ ae_encrypt ae key nonce plaintext associated_data"

definition unseal :: "aead \<Rightarrow> bytes \<Rightarrow> crypto_error \<Rightarrow> bytes \<Rightarrow> bytes \<Rightarrow> (crypto_error, bytes) result" where
  "unseal ae key err envelope associated_data =
     (if length envelope \<le> 1 + NONCE_LENGTH \<or> hd envelope \<noteq> ENVELOPE_VERSION then Inl err
      else let nonce = take NONCE_LENGTH (drop 1 envelope); ciphertext = drop (1 + NONCE_LENGTH) envelope
           in require (ae_decrypt ae key nonce ciphertext associated_data) err)"

definition decode_text :: "crypto_error \<Rightarrow> bytes \<Rightarrow> (crypto_error, code_points) result" where
  "decode_text err plaintext = require (utf8_decode plaintext) err"

subsection \<open>Database passwords\<close>

definition password_associated_data :: "uuid \<Rightarrow> bytes" where
  "password_associated_data database_id = ascii ''coder-manager:database-password:'' @ uuid_bytes database_id"

definition password_encrypt :: "aead \<Rightarrow> bytes \<Rightarrow> bytes \<Rightarrow> code_points \<Rightarrow> uuid \<Rightarrow> bytes" where
  "password_encrypt ae key nonce password database_id =
     seal ae key nonce (utf8_encode password) (password_associated_data database_id)"

definition password_decrypt :: "aead \<Rightarrow> bytes \<Rightarrow> bytes \<Rightarrow> uuid \<Rightarrow> (crypto_error, code_points) result" where
  "password_decrypt ae key envelope database_id =
     rbind (unseal ae key PasswordDecryptionError envelope (password_associated_data database_id))
       (decode_text PasswordDecryptionError)"

subsection \<open>Kubeconfig files\<close>

definition kubeconfig_associated_data :: "uuid \<Rightarrow> bytes" where
  "kubeconfig_associated_data instance_id = ascii ''coder-manager:kubeconfig:'' @ uuid_bytes instance_id"

definition kubeconfig_encrypt :: "aead \<Rightarrow> bytes \<Rightarrow> bytes \<Rightarrow> bytes \<Rightarrow> uuid \<Rightarrow> bytes" where
  "kubeconfig_encrypt ae key nonce kubeconfig instance_id =
     seal ae key nonce kubeconfig (kubeconfig_associated_data instance_id)"

definition kubeconfig_decrypt :: "aead \<Rightarrow> bytes \<Rightarrow> bytes \<Rightarrow> uuid \<Rightarrow> (crypto_error, bytes) result" where
  "kubeconfig_decrypt ae key envelope instance_id =
     unseal ae key KubeconfigDecryptionError envelope (kubeconfig_associated_data instance_id)"

subsection \<open>Administrator passwords\<close>

definition instance_password_associated_data :: "uuid \<Rightarrow> bytes" where
  "instance_password_associated_data instance_id = ascii ''coder-manager:instance-password:'' @ uuid_bytes instance_id"

definition instance_password_encrypt :: "aead \<Rightarrow> bytes \<Rightarrow> bytes \<Rightarrow> code_points \<Rightarrow> uuid \<Rightarrow> bytes" where
  "instance_password_encrypt ae key nonce password instance_id =
     seal ae key nonce (utf8_encode password) (instance_password_associated_data instance_id)"

definition instance_password_decrypt :: "aead \<Rightarrow> bytes \<Rightarrow> bytes \<Rightarrow> uuid \<Rightarrow> (crypto_error, code_points) result" where
  "instance_password_decrypt ae key envelope instance_id =
     rbind (unseal ae key InstancePasswordDecryptionError envelope (instance_password_associated_data instance_id))
       (decode_text InstancePasswordDecryptionError)"

subsection \<open>System values of template parameters\<close>

definition template_parameter_associated_data :: "uuid \<Rightarrow> bytes" where
  "template_parameter_associated_data parameter_id = ascii ''coder-manager:template-parameter:'' @ uuid_bytes parameter_id"

definition template_parameter_encrypt :: "aead \<Rightarrow> bytes \<Rightarrow> bytes \<Rightarrow> code_points \<Rightarrow> uuid \<Rightarrow> bytes" where
  "template_parameter_encrypt ae key nonce plain parameter_id =
     seal ae key nonce (utf8_encode plain) (template_parameter_associated_data parameter_id)"

definition template_parameter_decrypt :: "aead \<Rightarrow> bytes \<Rightarrow> bytes \<Rightarrow> uuid \<Rightarrow> (crypto_error, code_points) result" where
  "template_parameter_decrypt ae key envelope parameter_id =
     rbind (unseal ae key TemplateParameterDecryptionError envelope (template_parameter_associated_data parameter_id))
       (decode_text TemplateParameterDecryptionError)"

section \<open>What the primitive promises\<close>

text \<open>
  AES-GCM gives back the plaintext it was given under the same key, nonce and associated
  data, and accepts nothing but what encryption produces, with a tag of 16 bytes.
\<close>

definition aead_ok :: "aead \<Rightarrow> bool" where
  "aead_ok ae = (\<forall>k n p a. ae_decrypt ae k n (ae_encrypt ae k n p a) a = Some p
     \<and> length (ae_encrypt ae k n p a) = length p + 16
     \<and> (\<forall>c. ae_decrypt ae k n c a = Some p \<longrightarrow> c = ae_encrypt ae k n p a))"

lemma unseal_seal:
  assumes "aead_ok ae" and "length nonce = NONCE_LENGTH"
  shows "unseal ae key err (seal ae key nonce p a) a = Inr p"
proof -
  have "length (ae_encrypt ae key nonce p a) = length p + 16" "ae_decrypt ae key nonce (ae_encrypt ae key nonce p a) a = Some p"
    using assms(1) by (simp_all add: aead_ok_def)
  with assms(2) show ?thesis by (simp add: unseal_def seal_def Let_def)
qed

lemma unseal_Inr:
  assumes "aead_ok ae" and "unseal ae key err envelope a = Inr p"
  obtains nonce where "length nonce = NONCE_LENGTH" "envelope = seal ae key nonce p a"
proof
  let ?n = "take NONCE_LENGTH (drop 1 envelope)"
  have len: "1 + NONCE_LENGTH < length envelope" and hd: "hd envelope = ENVELOPE_VERSION"
    and dec: "ae_decrypt ae key ?n (drop (1 + NONCE_LENGTH) envelope) a = Some p"
    using assms(2) by (auto simp: unseal_def Let_def require_iff split: if_splits)
  show "length ?n = NONCE_LENGTH" using len by simp
  have "drop (1 + NONCE_LENGTH) envelope = ae_encrypt ae key ?n p a"
    using assms(1) dec by (simp add: aead_ok_def)
  moreover have "envelope = [hd envelope] @ ?n @ drop (1 + NONCE_LENGTH) envelope"
    using len by (cases envelope) simp_all
  ultimately show "envelope = seal ae key ?n p a" using hd by (simp add: seal_def)
qed

lemma unseal_err: "unseal ae key err envelope a = Inl e \<Longrightarrow> e = err"
  by (auto simp: unseal_def Let_def require_iff split: if_splits)

lemma unseal_total:
  "ae_decrypt ae key (take NONCE_LENGTH (drop 1 e)) (drop (1 + NONCE_LENGTH) e) a = None \<Longrightarrow>
   unseal ae key err e a = Inl err"
  by (simp add: unseal_def Let_def)

text \<open>A text credential that opens is the encryption of bytes that spell the text.\<close>

lemma text_unseal_Inr:
  assumes "aead_ok ae" and "rbind (unseal ae key err e a) (decode_text err) = Inr t"
  shows "\<exists>nonce p. length nonce = NONCE_LENGTH \<and> utf8_decode p = Some t \<and> e = seal ae key nonce p a"
proof -
  obtain p where p: "unseal ae key err e a = Inr p" "utf8_decode p = Some t"
    using assms(2) by (auto simp: rbind_Inr_iff decode_text_def require_iff)
  with unseal_Inr[OF assms(1) p(1)] show ?thesis by metis
qed

lemma text_unseal_err: "rbind (unseal ae key err e a) (decode_text err) = Inl x \<Longrightarrow> x = err"
  using unseal_err by (auto simp: rbind_Inl_iff decode_text_def require_iff)

section \<open>Associated data\<close>

lemma length_uuid_bytes [simp]: "length (uuid_bytes u) = 16"
  by (simp add: uuid_bytes_def)

lemma uuid_bytes_inj: "uuid_bytes u = uuid_bytes v \<longleftrightarrow> u = v"
proof
  assume eq: "uuid_bytes u = uuid_bytes v"
  have byte: "(ucast (drop_bit (8 * i) u) :: 8 word) = ucast (drop_bit (8 * i) v)" if "i < 16" for i
    using eq that by (auto simp: uuid_bytes_def)
  show "u = v"
  proof (rule bit_word_eqI)
    fix n assume "n < LENGTH(128)"
    then have n: "n div 8 < 16" by (simp add: div_less_iff_less_mult)
    have "bit u n = bit (ucast (drop_bit (8 * (n div 8)) u) :: 8 word) (n mod 8)" for u :: uuid
      by (simp add: bit_ucast_iff bit_drop_bit_eq)
    then show "bit u n = bit v n" using byte[OF n] by simp
  qed
qed simp

lemma ascii_inj: "ascii s = ascii t \<longleftrightarrow> s = t"
proof -
  have "unat (of_char x :: 8 word) = of_char x" for x
    using nat_of_char_less_256[of x] unat_of_nat[of "of_char x", where 'a = 8] by (simp add: of_nat_of_char)
  then have "(of_char c :: 8 word) = of_char e \<longleftrightarrow> c = e" for c e
    by (metis of_char_eq_iff)
  then have "inj (of_char :: char \<Rightarrow> 8 word)" by (simp add: inj_def)
  then show ?thesis unfolding ascii_def by (rule inj_map_eq_map)
qed

lemma context_eq: "ascii p @ uuid_bytes x = ascii q @ uuid_bytes y \<longleftrightarrow> p = q \<and> x = y"
  by (simp add: append_eq_append_conv ascii_inj uuid_bytes_inj)

lemmas associated_data_defs = password_associated_data_def kubeconfig_associated_data_def
  instance_password_associated_data_def template_parameter_associated_data_def

lemma contexts_inj:
  "password_associated_data x = password_associated_data y \<longleftrightarrow> x = y"
  "kubeconfig_associated_data x = kubeconfig_associated_data y \<longleftrightarrow> x = y"
  "instance_password_associated_data x = instance_password_associated_data y \<longleftrightarrow> x = y"
  "template_parameter_associated_data x = template_parameter_associated_data y \<longleftrightarrow> x = y"
  unfolding associated_data_defs context_eq by simp_all

lemma contexts_disjoint:
  "password_associated_data x \<noteq> kubeconfig_associated_data y"
  "password_associated_data x \<noteq> instance_password_associated_data y"
  "password_associated_data x \<noteq> template_parameter_associated_data y"
  "kubeconfig_associated_data x \<noteq> instance_password_associated_data y"
  "kubeconfig_associated_data x \<noteq> template_parameter_associated_data y"
  "instance_password_associated_data x \<noteq> template_parameter_associated_data y"
  unfolding associated_data_defs context_eq by simp_all

section \<open>Round trips\<close>

lemma cipher_roundtrips:
  assumes "aead_ok ae" "length nonce = NONCE_LENGTH"
  shows "list_all scalar_value t \<Longrightarrow> password_decrypt ae key (password_encrypt ae key nonce t k) k = Inr t"
    and "kubeconfig_decrypt ae key (kubeconfig_encrypt ae key nonce f k) k = Inr f"
    and "list_all scalar_value t \<Longrightarrow>
      instance_password_decrypt ae key (instance_password_encrypt ae key nonce t k) k = Inr t"
    and "list_all scalar_value t \<Longrightarrow>
      template_parameter_decrypt ae key (template_parameter_encrypt ae key nonce t k) k = Inr t"
  using assms
  by (simp_all add: password_decrypt_def password_encrypt_def kubeconfig_decrypt_def kubeconfig_encrypt_def
      instance_password_decrypt_def instance_password_encrypt_def template_parameter_decrypt_def
      template_parameter_encrypt_def decode_text_def utf8_roundtrip unseal_seal)

text \<open>The cipher the template repository is given, on the strings of the model.\<close>

definition template_parameter_cipher :: "aead \<Rightarrow> bytes \<Rightarrow> bytes \<Rightarrow> parameter_cipher" where
  "template_parameter_cipher ae key nonce =
     \<lparr>pc_encrypt = (\<lambda>s k. template_parameter_encrypt ae key nonce (map of_char s) k),
      pc_decrypt = (\<lambda>e k. case template_parameter_decrypt ae key e k of
         Inl _ \<Rightarrow> None | Inr t \<Rightarrow> Some (map char_of t))\<rparr>"

lemma template_parameter_cipher_law:
  assumes "aead_ok ae" "length nonce = NONCE_LENGTH"
  shows "parameter_cipher_law (template_parameter_cipher ae key nonce)"
proof -
  have "scalar_value (of_char c)" for c
    using nat_of_char_less_256[of c] unfolding scalar_value_def by linarith
  then have "list_all scalar_value (map of_char s)" for s :: string by (simp add: list_all_iff)
  then show ?thesis
    using cipher_roundtrips(4)[OF assms] by (simp add: parameter_cipher_law_def template_parameter_cipher_def map_idI)
qed

end
