(* ===== verification/Coder_Http.thy ===== *)
theory Coder_Http
  imports Coder_Models
begin

text \<open>
  What the Coder client uses of Python and of \<^verbatim>\<open>httpx\<close>: JSON values, requests and responses,
  the text form of a UUID, percent encoding, and calls that thread the connection. The remote
  server is a parameter: a function that answers a request and moves to its next state, or
  fails with a transport error.
\<close>

section \<open>Values\<close>

datatype json = JNull | JBool bool | JInt int | JNumber string | JStr string
  | JArr "json list" | JObj "(string \<times> json) list"

datatype body = NoBody | JsonBody json | Content bytes

record http_request =
  rq_method :: string
  rq_path :: string
  rq_params :: "(string \<times> string) list"
  rq_token :: "string option"
  rq_body :: body

record http_response =
  rs_status :: int
  rs_build_version :: "string option"
  rs_json :: "json option"

datatype coder_error = CoderRequestError string | CoderFirstUserConflictError string | HTTPError string
  | CallbackError task_error

record 's conn =
  cl_token :: "string option"
  cl_server :: 's

text \<open>
  A service answers a request and moves on; an exchange with it threads the connection. Both
  are used with the errors of each domain.
\<close>

type_synonym ('e, 's) service = "http_request \<Rightarrow> 's \<Rightarrow> 's \<times> ('e, http_response) result"
type_synonym ('e, 's, 'a) exchange = "'s conn \<Rightarrow> 's conn \<times> ('e, 'a) result"
type_synonym 's transport = "(coder_error, 's) service"
type_synonym ('s, 'a) call = "(coder_error, 's, 'a) exchange"

section \<open>Calls\<close>

definition creturn :: "'a \<Rightarrow> ('e, 's, 'a) exchange" where
  "creturn x c = (c, Inr x)"

definition craise :: "'e \<Rightarrow> ('e, 's, 'a) exchange" where
  "craise e c = (c, Inl e)"

definition cbind :: "('e, 's, 'a) exchange \<Rightarrow> ('a \<Rightarrow> ('e, 's, 'b) exchange) \<Rightarrow> ('e, 's, 'b) exchange" where
  "cbind m f c = (case m c of (c', Inl e) \<Rightarrow> (c', Inl e) | (c', Inr x) \<Rightarrow> f x c')"

definition clift :: "('e, 'a) result \<Rightarrow> ('e, 's, 'a) exchange" where
  "clift r c = (c, r)"

lemma cbind_Inr_iff: "cbind m f c = (c', Inr y) \<longleftrightarrow> (\<exists>c1 x. m c = (c1, Inr x) \<and> f x c1 = (c', Inr y))"
  by (auto simp: cbind_def split: prod.split sum.split)

lemma call_Inr_iffs:
  "creturn x c = (c', Inr y) \<longleftrightarrow> c' = c \<and> y = x"
  "craise e c = (c', Inr y) \<longleftrightarrow> False"
  "clift r c = (c', Inr y) \<longleftrightarrow> c' = c \<and> r = Inr y"
  by (auto simp: creturn_def craise_def clift_def)

lemmas call_iffs = cbind_Inr_iff call_Inr_iffs

text \<open>A request carries the session header once the client has stored it.\<close>

definition request :: "('e, 's) service \<Rightarrow> string \<Rightarrow> string \<Rightarrow> pairs \<Rightarrow> body \<Rightarrow> ('e, 's, http_response) exchange" where
  "request tr meth path params b c =
     (let (s, r) = tr \<lparr>rq_method = meth, rq_path = path, rq_params = params, rq_token = cl_token c, rq_body = b\<rparr> (cl_server c)
      in (c\<lparr>cl_server := s\<rparr>, r))"

definition http_get :: "'s transport \<Rightarrow> string \<Rightarrow> ('s, http_response) call" where
  "http_get tr path = request tr ''GET'' path [] NoBody"

definition http_post :: "'s transport \<Rightarrow> string \<Rightarrow> json \<Rightarrow> ('s, http_response) call" where
  "http_post tr path payload = request tr ''POST'' path [] (JsonBody payload)"

definition http_patch :: "'s transport \<Rightarrow> string \<Rightarrow> json \<Rightarrow> ('s, http_response) call" where
  "http_patch tr path payload = request tr ''PATCH'' path [] (JsonBody payload)"

definition http_delete :: "'s transport \<Rightarrow> string \<Rightarrow> ('s, http_response) call" where
  "http_delete tr path = request tr ''DELETE'' path [] NoBody"

section \<open>Text of a UUID\<close>

definition uuid_text :: "uuid \<Rightarrow> string" where
  "uuid_text u = (let h = uuid_hex u in
     take 8 h @ ''-'' @ take 4 (drop 8 h) @ ''-'' @ take 4 (drop 12 h) @ ''-'' @ take 4 (drop 16 h) @ ''-'' @ drop 20 h)"

definition hex_value :: "char \<Rightarrow> nat option" where
  "hex_value c = (let n = (of_char c :: nat) in
     if 48 \<le> n \<and> n \<le> 57 then Some (n - 48)
     else if 97 \<le> n \<and> n \<le> 102 then Some (n - 87)
     else if 65 \<le> n \<and> n \<le> 70 then Some (n - 55) else None)"

text \<open>The digits of \<^verbatim>\<open>int(s, 16)\<close>: underscores may stand between two digits.\<close>

fun hex_scan :: "nat \<Rightarrow> string \<Rightarrow> nat option" where
  "hex_scan acc [] = Some acc"
| "hex_scan acc (c # s) =
     (if c = CHR ''_'' then
        (case s of [] \<Rightarrow> None
         | c1 # r \<Rightarrow> (case hex_value c1 of None \<Rightarrow> None | Some v \<Rightarrow> hex_scan (acc * 16 + v) r))
      else case hex_value c of None \<Rightarrow> None | Some v \<Rightarrow> hex_scan (acc * 16 + v) s)"

definition hex_unsigned :: "string \<Rightarrow> nat option" where
  "hex_unsigned s =
     (let digits = (if take 2 s \<in> {''0x'', ''0X''} then (if take 1 (drop 2 s) = ''_'' then drop 3 s else drop 2 s) else s)
      in case digits of [] \<Rightarrow> None
         | c # r \<Rightarrow> (case hex_value c of None \<Rightarrow> None | Some v \<Rightarrow> hex_scan v r))"

definition int_base16 :: "string \<Rightarrow> int option" where
  "int_base16 s = (case strip s of
       [] \<Rightarrow> None
     | c # r \<Rightarrow> if c = CHR ''-'' then map_option (\<lambda>n. - int n) (hex_unsigned r)
               else if c = CHR ''+'' then map_option int (hex_unsigned r)
               else map_option int (hex_unsigned (c # r)))"

text \<open>\<^verbatim>\<open>str.replace\<close>: every occurrence of a non-empty text, from the left.\<close>

fun replace_all :: "string \<Rightarrow> string \<Rightarrow> string \<Rightarrow> string" where
  "replace_all old new [] = []"
| "replace_all old new (c # s) =
     (if old \<noteq> [] \<and> take (length old) (c # s) = old then new @ replace_all old new (drop (length old) (c # s))
      else c # replace_all old new s)"

definition parse_uuid :: "string \<Rightarrow> uuid option" where
  "parse_uuid s =
     (let h = filter (\<lambda>c. c \<noteq> CHR ''-'')
                (strip_with (\<lambda>c. c = CHR ''{'' \<or> c = CHR ''}'')
                  (replace_all ''uuid:'' [] (replace_all ''urn:'' [] s)))
      in if length h \<noteq> 32 then None
         else case int_base16 h of
                None \<Rightarrow> None
              | Some n \<Rightarrow> if 0 \<le> n \<and> n < 2 ^ 128 then Some (word_of_int n) else None)"

text \<open>\<^verbatim>\<open>UUID(str(x))\<close> for a JSON value: only texts and integers can be read as a UUID.\<close>

definition json_uuid :: "json \<Rightarrow> uuid option" where
  "json_uuid x = (case x of JStr s \<Rightarrow> parse_uuid s | JInt n \<Rightarrow> parse_uuid (int_text n) | _ \<Rightarrow> None)"

section \<open>Percent encoding\<close>

definition unreserved :: "char \<Rightarrow> bool" where
  "unreserved c = (let n = (of_char c :: nat) in
     48 \<le> n \<and> n \<le> 57 \<or> 65 \<le> n \<and> n \<le> 90 \<or> 97 \<le> n \<and> n \<le> 122 \<or> c \<in> set ''_.-~'')"

definition quote :: "string \<Rightarrow> string" where
  "quote s = concat (map (\<lambda>c. if unreserved c then [c] else CHR ''%'' # upper (hex_digits 2 (of_char c))) s)"

section \<open>Reading JSON\<close>

definition field :: "(string \<times> json) list \<Rightarrow> string \<Rightarrow> json" where
  "field payload name = (case map_of payload name of None \<Rightarrow> JNull | Some x \<Rightarrow> x)"

definition is_str :: "json \<Rightarrow> bool" where
  "is_str x = (case x of JStr _ \<Rightarrow> True | _ \<Rightarrow> False)"

definition str_of :: "json \<Rightarrow> string option" where
  "str_of x = (case x of JStr s \<Rightarrow> Some s | _ \<Rightarrow> None)"

definition obj_of :: "json \<Rightarrow> (string \<times> json) list option" where
  "obj_of x = (case x of JObj m \<Rightarrow> Some m | _ \<Rightarrow> None)"

section \<open>Reading back a UUID\<close>

lemma hex_value_digit: "n < 16 \<Longrightarrow> hex_value (hex_digit n) = Some n"
  by (simp add: hex_value_def hex_digit_def)

lemma hex_digit_plain:
  assumes "n < 16"
  shows "hex_digit n \<notin> {CHR ''_'', CHR ''-'', CHR ''+'', CHR ''{'', CHR ''}'', CHR ''u'', CHR ''x'', CHR ''X''}" and "\<not> is_space (hex_digit n)"
proof -
  have code: "(of_char (hex_digit n) :: nat) = (if n < 10 then 48 + n else 87 + n)"
    using assms by (simp add: hex_digit_def)
  then have "(of_char (hex_digit n) :: nat) \<notin> {95, 45, 43, 123, 125, 117, 120, 88}" using assms by auto
  then show "hex_digit n \<notin> {CHR ''_'', CHR ''-'', CHR ''+'', CHR ''{'', CHR ''}'', CHR ''u'', CHR ''x'', CHR ''X''}" by force
  show "\<not> is_space (hex_digit n)" using code assms by (auto simp: is_space_def Let_def)
qed

lemma set_hex_digits: "set (hex_digits k n) \<subseteq> hex_digit ` {..<16}"
  by (induction k arbitrary: n) auto

lemma hex_scan_append: "set s \<subseteq> hex_digit ` {..<16} \<Longrightarrow> hex_scan acc (s @ t) = (case hex_scan acc s of None \<Rightarrow> None | Some v \<Rightarrow> hex_scan v t)"
proof (induction s arbitrary: acc)
  case (Cons c s)
  then obtain n where "n < 16" "c = hex_digit n" by auto
  with Cons hex_digit_plain(1)[of n] show ?case by (simp add: hex_value_digit)
qed simp

lemma hex_scan_digits: "n < 16 ^ k \<Longrightarrow> hex_scan acc (hex_digits k n) = Some (acc * 16 ^ k + n)"
proof (induction k arbitrary: n)
  case (Suc k)
  then have "n div 16 < 16 ^ k" by (simp add: less_mult_imp_div_less mult.commute)
  then have IH: "hex_scan acc (hex_digits k (n div 16)) = Some (acc * 16 ^ k + n div 16)" by (rule Suc.IH)
  have "n mod 16 < 16" by simp
  then have "hex_value (hex_digit (n mod 16)) = Some (n mod 16)" "hex_digit (n mod 16) \<noteq> CHR ''_''"
    using hex_value_digit hex_digit_plain(1) by blast+
  then have "hex_scan acc (hex_digits (Suc k) n) = Some ((acc * 16 ^ k + n div 16) * 16 + n mod 16)"
    by (simp add: hex_scan_append[OF set_hex_digits] IH)
  then show ?case by (simp add: algebra_simps)
qed simp

lemma replace_all_absent: "old \<noteq> [] \<Longrightarrow> hd old \<notin> set s \<Longrightarrow> replace_all old new s = s"
proof (induction old new s rule: replace_all.induct)
  case (2 old new c s)
  then have "take (length old) (c # s) \<noteq> old" by (cases old) auto
  with 2 show ?case by auto
qed simp

lemma strip_with_absent: "(\<And>c. c \<in> set s \<Longrightarrow> \<not> p c) \<Longrightarrow> strip_with p s = s"
  by (intro strip_with_id) (auto dest: hd_in_set last_in_set)

lemma hex_unsigned_digits:
  assumes "set s \<subseteq> hex_digit ` {..<16}" and "s \<noteq> []"
  shows "hex_unsigned s = hex_scan 0 s"
proof -
  obtain c r where s: "s = c # r" using assms(2) by (cases s) auto
  then obtain n where n: "n < 16" "c = hex_digit n" using assms(1) by auto
  have "x \<notin> {CHR ''x'', CHR ''X''}" if "x \<in> set s" for x
    using assms(1) that hex_digit_plain(1) by fastforce
  then have "take 2 s \<notin> {''0x'', ''0X''}" by (metis in_set_takeD insert_iff empty_iff list.set_intros)
  then show ?thesis using s n hex_digit_plain(1)[of n] by (auto simp: hex_unsigned_def hex_value_digit Let_def)
qed

lemma parse_uuid_text: "parse_uuid (uuid_text u) = Some u"
proof -
  define h where "h = uuid_hex u"
  have len: "length h = 32" by (simp add: h_def)
  have digits: "set h \<subseteq> hex_digit ` {..<16}" unfolding h_def uuid_hex_def by (rule set_hex_digits)
  have plain: "c \<notin> {CHR ''-'', CHR ''+'', CHR ''{'', CHR ''}'', CHR ''u''} \<and> \<not> is_space c" if c: "c \<in> set h" for c
  proof -
    obtain n where "n < 16" "c = hex_digit n" using digits c by auto
    then show ?thesis using hex_digit_plain[of n] by simp
  qed
  have split: "uuid_text u = take 8 h @ ''-'' @ take 4 (drop 8 h) @ ''-'' @ take 4 (drop 12 h) @ ''-'' @ take 4 (drop 16 h) @ ''-'' @ drop 20 h"
    by (simp add: uuid_text_def h_def Let_def)
  have sub: "set (uuid_text u) \<subseteq> insert (CHR ''-'') (set h)"
    unfolding split by (auto dest: in_set_takeD in_set_dropD)
  have "replace_all ''uuid:'' [] (replace_all ''urn:'' [] (uuid_text u)) = uuid_text u"
    using sub plain by (subst (1 2) replace_all_absent) auto
  moreover have "strip_with (\<lambda>c. c = CHR ''{'' \<or> c = CHR ''}'') (uuid_text u) = uuid_text u"
    using sub plain by (intro strip_with_absent) auto
  moreover have keep: "filter (\<lambda>c. c \<noteq> CHR ''-'') t = t" if "set t \<subseteq> set h" for t
    using that plain by (intro filter_True) auto
  have "filter (\<lambda>c. c \<noteq> CHR ''-'') (uuid_text u) = take 8 h @ take 4 (drop 8 h) @ take 4 (drop 12 h) @ take 4 (drop 16 h) @ drop 20 h"
    unfolding split by (simp add: keep set_take_subset set_drop_subset subset_trans[OF set_take_subset set_drop_subset])
  moreover have "take 8 h @ take 4 (drop 8 h) @ take 4 (drop 12 h) @ take 4 (drop 16 h) @ drop 20 h = h"
    using append_take_drop_id[of 8 h] append_take_drop_id[of 4 "drop 8 h"] append_take_drop_id[of 4 "drop 12 h"]
      append_take_drop_id[of 4 "drop 16 h"] by simp
  moreover have "strip h = h" unfolding strip_def using plain by (intro strip_with_absent) auto
  moreover have "h \<noteq> []" using len by auto
  moreover have "hex_unsigned h = Some (unat u)"
  proof -
    have "unat u < 16 ^ 32" using unsigned_less[of u, where ?'a = nat] by simp
    then have "hex_scan 0 h = Some (unat u)" unfolding h_def uuid_hex_def using hex_scan_digits[of "unat u" 32 0] by simp
    then show ?thesis using hex_unsigned_digits[OF digits \<open>h \<noteq> []\<close>] by simp
  qed
  ultimately show ?thesis
    using len plain[of "hd h"] unsigned_less[of u, where ?'a = int]
    by (cases h) (auto simp: parse_uuid_def int_base16_def Let_def)
qed

lemma uuid_text_inj [simp]: "uuid_text u = uuid_text v \<longleftrightarrow> u = v"
  by (metis parse_uuid_text option.inject)

end
