(* ===== verification/Coder_Client.thy ===== *)
theory Coder_Client
  imports Coder_Http
begin

text \<open>
  The HTTP client of a Coder instance (\<^verbatim>\<open>domains/coder/client.py\<close>), method by method: the
  request it sends, the statuses it accepts and how it reads the response. A response that
  is not what the method expects is an error that carries the method, the path and the
  status, never the body.
\<close>

section \<open>Constants\<close>

definition ADMIN_EMAIL :: string where "ADMIN_EMAIL = ''admin@coder.local''"
definition ADMIN_NAME :: string where "ADMIN_NAME = ''Coder Admin''"

definition TEMPLATE_IMPORT_ERROR_MAX_CHARS :: nat where "TEMPLATE_IMPORT_ERROR_MAX_CHARS = 4096"
definition TEMPLATE_IMPORT_LOG_MAX_CHARS :: nat where "TEMPLATE_IMPORT_LOG_MAX_CHARS = 8192"
definition TEMPLATE_IMPORT_LOG_MAX_ENTRIES :: nat where "TEMPLATE_IMPORT_LOG_MAX_ENTRIES = 50"

definition WORKSPACE_STATUSES :: "string list" where
  "WORKSPACE_STATUSES = [''pending'', ''starting'', ''running'', ''stopping'', ''stopped'', ''failed'',
     ''canceling'', ''canceled'', ''deleting'', ''deleted'']"

definition WORKSPACE_TRANSITIONS :: "string list" where
  "WORKSPACE_TRANSITIONS = [''start'', ''stop'', ''delete'']"

section \<open>Reading responses\<close>

definition raise_for_response ::
  "http_response \<Rightarrow> string \<Rightarrow> string \<Rightarrow> int \<Rightarrow> (coder_error, unit) result" where
  "raise_for_response response meth path expected_status =
     guard_that (rs_status response = expected_status)
       (CoderRequestError (''Coder '' @ meth @ '' '' @ path @ '' returned HTTP '' @ int_text (rs_status response)))"

definition json_object :: "http_response \<Rightarrow> string \<Rightarrow> (coder_error, (string \<times> json) list) result" where
  "json_object response path =
     (case rs_json response of
        None \<Rightarrow> Inl (CoderRequestError (''Coder '' @ path @ '' returned invalid JSON''))
      | Some (JObj payload) \<Rightarrow> Inr payload
      | Some _ \<Rightarrow> Inl (CoderRequestError (''Coder '' @ path @ '' returned non-object JSON'')))"

definition json_array :: "http_response \<Rightarrow> string \<Rightarrow> (coder_error, (string \<times> json) list list) result" where
  "json_array response path =
     (let invalid = Inl (CoderRequestError (''Coder '' @ path @ '' returned invalid array JSON'')) in
      case rs_json response of
        None \<Rightarrow> Inl (CoderRequestError (''Coder '' @ path @ '' returned invalid JSON''))
      | Some (JArr items) \<Rightarrow>
          if list_all (\<lambda>x. obj_of x \<noteq> None) items then Inr (map (the \<circ> obj_of) items) else invalid
      | Some _ \<Rightarrow> invalid)"

definition invalid_field :: "string \<Rightarrow> string \<Rightarrow> coder_error" where
  "invalid_field path name = CoderRequestError (''Coder '' @ path @ '' returned an invalid '' @ name)"

definition uuid_field :: "(string \<times> json) list \<Rightarrow> string \<Rightarrow> string \<Rightarrow> (coder_error, uuid) result" where
  "uuid_field payload name path =
     (case map_of payload name of
        None \<Rightarrow> Inl (invalid_field path name)
      | Some x \<Rightarrow> require (json_uuid x) (invalid_field path name))"

definition optional_uuid_field ::
  "(string \<times> json) list \<Rightarrow> string \<Rightarrow> string \<Rightarrow> (coder_error, uuid option) result" where
  "optional_uuid_field payload name path =
     (case map_of payload name of
        None \<Rightarrow> Inr None
      | Some JNull \<Rightarrow> Inr None
      | Some x \<Rightarrow> rbind (require (json_uuid x) (invalid_field path name)) (\<lambda>u. Inr (Some u)))"

definition read_template_version :: "http_response \<Rightarrow> string \<Rightarrow> (coder_error, coder_template_version) result" where
  "read_template_version response path =
     rbind (json_object response path) (\<lambda>payload.
     let bad = Inl (CoderRequestError (''Coder '' @ path @ '' returned an invalid provisioner job'')) in
     case obj_of (field payload ''job'') of
       None \<Rightarrow> bad
     | Some job \<Rightarrow>
         (case str_of (field job ''status'') of
            None \<Rightarrow> bad
          | Some status \<Rightarrow>
              rbind (uuid_field payload ''id'' path) (\<lambda>version_id.
              rbind (optional_uuid_field job ''id'' path) (\<lambda>job_id.
              Inr \<lparr>cv_id = version_id, cv_status = status,
                   cv_archived = (field payload ''archived'' = JBool True), cv_job_id = job_id,
                   cv_error = str_of (field job ''error''), cv_error_code = str_of (field job ''error_code''),
                   cv_logs_overflowed = (field job ''logs_overflowed'' = JBool True)\<rparr>))))"

definition read_template :: "http_response \<Rightarrow> string \<Rightarrow> (coder_error, coder_template_data) result" where
  "read_template response path =
     rbind (json_object response path) (\<lambda>payload.
     rbind (uuid_field payload ''id'' path) (\<lambda>template_id.
     rbind (optional_uuid_field payload ''active_version_id'' path) (\<lambda>active.
     Inr \<lparr>ct_id = template_id, ct_active_version_id = active\<rparr>)))"

definition member_str :: "json \<Rightarrow> string list \<Rightarrow> string option" where
  "member_str x allowed = (case str_of x of None \<Rightarrow> None | Some s \<Rightarrow> if s \<in> set allowed then Some s else None)"

definition read_workspace_build :: "http_response \<Rightarrow> string \<Rightarrow> (coder_error, coder_workspace_build) result" where
  "read_workspace_build response path =
     rbind (json_object response path) (\<lambda>payload.
     rbind (require (member_str (field payload ''status'') WORKSPACE_STATUSES)
              (CoderRequestError (''Coder '' @ path @ '' returned an invalid workspace build status''))) (\<lambda>status.
     rbind (require (member_str (field payload ''transition'') WORKSPACE_TRANSITIONS)
              (CoderRequestError (''Coder '' @ path @ '' returned an invalid workspace build transition''))) (\<lambda>transition.
     rbind (uuid_field payload ''id'' path) (\<lambda>build_id.
     Inr \<lparr>cb_id = build_id, cb_status = status, cb_transition = transition\<rparr>))))"

definition read_workspace :: "http_response \<Rightarrow> string \<Rightarrow> (coder_error, coder_workspace) result" where
  "read_workspace response path =
     rbind (json_object response path) (\<lambda>payload.
     case (str_of (field payload ''name''), obj_of (field payload ''latest_build'')) of
       (Some name, Some latest_build) \<Rightarrow>
         if name = [] then Inl (CoderRequestError (''Coder '' @ path @ '' returned an invalid workspace''))
         else
           (case (member_str (field latest_build ''status'') WORKSPACE_STATUSES,
                  member_str (field latest_build ''transition'') WORKSPACE_TRANSITIONS) of
              (Some status, Some transition) \<Rightarrow>
                rbind (uuid_field payload ''id'' path) (\<lambda>workspace_id.
                rbind (uuid_field latest_build ''id'' path) (\<lambda>build_id.
                rbind (uuid_field payload ''template_id'' path) (\<lambda>template_id.
                Inr \<lparr>cw_id = workspace_id, cw_status = status, cw_latest_build_id = build_id,
                     cw_latest_build_transition = transition, cw_name = name, cw_template_id = Some template_id\<rparr>)))
            | _ \<Rightarrow> Inl (CoderRequestError (''Coder '' @ path @ '' returned an invalid latest build'')))
     | _ \<Rightarrow> Inl (CoderRequestError (''Coder '' @ path @ '' returned an invalid workspace'')))"

text \<open>A call that requires one status and reads the response, and one where 404 means absence.\<close>

definition expect ::
  "('s, http_response) call \<Rightarrow> string \<Rightarrow> string \<Rightarrow> int \<Rightarrow> (http_response \<Rightarrow> string \<Rightarrow> (coder_error, 'a) result) \<Rightarrow> ('s, 'a) call" where
  "expect m meth path status read_it =
     cbind m (\<lambda>response.
     cbind (clift (raise_for_response response meth path status)) (\<lambda>_.
     clift (read_it response path)))"

definition expect_or_absent ::
  "('s, http_response) call \<Rightarrow> string \<Rightarrow> string \<Rightarrow> int \<Rightarrow> (http_response \<Rightarrow> string \<Rightarrow> (coder_error, 'a) result) \<Rightarrow> ('s, 'a option) call" where
  "expect_or_absent m meth path status read_it =
     cbind m (\<lambda>response.
     if rs_status response = 404 then creturn None
     else cbind (clift (raise_for_response response meth path status)) (\<lambda>_.
          cbind (clift (read_it response path)) (\<lambda>x. creturn (Some x))))"

definition no_body :: "http_response \<Rightarrow> string \<Rightarrow> (coder_error, unit) result" where
  "no_body response path = Inr ()"

section \<open>Accounts\<close>

definition has_first_user :: "'s transport \<Rightarrow> ('s, bool) call" where
  "has_first_user tr =
     (let path = ''api/v2/users/first'' in
      cbind (http_get tr path) (\<lambda>response.
      if rs_status response = 200 then creturn True
      else if rs_status response = 404 then
        (if rs_build_version response \<in> {None, Some []}
         then craise (CoderRequestError ''Coder GET api/v2/users/first returned an unverified HTTP 404'')
         else creturn False)
      else cbind (clift (raise_for_response response ''GET'' path 200)) (\<lambda>_. creturn False)))"

definition create_first_user :: "'s transport \<Rightarrow> string \<Rightarrow> ('s, unit) call" where
  "create_first_user tr password =
     (let path = ''api/v2/users/first'' in
      expect (http_post tr path (JObj [(''email'', JStr ADMIN_EMAIL), (''username'', JStr ADMIN_USERNAME),
                (''name'', JStr ADMIN_NAME), (''password'', JStr password), (''trial'', JBool False)]))
        ''POST'' path 201 no_body)"

definition credentials_conflict :: coder_error where
  "credentials_conflict =
     CoderFirstUserConflictError ''Coder already has a first user that does not match prepared credentials''"

definition authenticate_prepared_admin :: "'s transport \<Rightarrow> string \<Rightarrow> ('s, unit) call" where
  "authenticate_prepared_admin tr password =
     (let login_path = ''api/v2/users/login''; me_path = ''api/v2/users/me'' in
      cbind (http_post tr login_path (JObj [(''email'', JStr ADMIN_EMAIL), (''password'', JStr password)])) (\<lambda>response.
      if rs_status response \<in> {401, 403} then craise credentials_conflict
      else
        cbind (clift (raise_for_response response ''POST'' login_path 201)) (\<lambda>_.
        cbind (clift (json_object response login_path)) (\<lambda>payload.
        case str_of (field payload ''session_token'') of
          None \<Rightarrow> craise (CoderRequestError ''Coder POST api/v2/users/login returned an invalid session token'')
        | Some token \<Rightarrow>
            if token = [] then craise (CoderRequestError ''Coder POST api/v2/users/login returned an invalid session token'')
            else
              cbind (\<lambda>c. let (c', r) = http_get tr me_path (c\<lparr>cl_token := Some token\<rparr>)
                         in (c'\<lparr>cl_token := cl_token c\<rparr>, r)) (\<lambda>me.
              cbind (clift (raise_for_response me ''GET'' me_path 200)) (\<lambda>_.
              cbind (clift (json_object me me_path)) (\<lambda>user.
              if field user ''username'' \<noteq> JStr ADMIN_USERNAME \<or> field user ''email'' \<noteq> JStr ADMIN_EMAIL
              then craise credentials_conflict
              else (\<lambda>c. (c\<lparr>cl_token := Some token\<rparr>, Inr ()))))))))) "

definition verify_prepared_first_user :: "'s transport \<Rightarrow> string \<Rightarrow> ('s, unit) call" where
  "verify_prepared_first_user = authenticate_prepared_admin"

definition delete_user :: "'s transport \<Rightarrow> string \<Rightarrow> ('s, unit) call" where
  "delete_user tr username =
     (let path = ''api/v2/users/'' @ quote username in
      cbind (expect_or_absent (http_delete tr path) ''DELETE'' path 200 no_body) (\<lambda>_. creturn ()))"

definition read_usernames :: "http_response \<Rightarrow> string \<Rightarrow> (coder_error, string list) result" where
  "read_usernames response path =
     rbind (json_object response path) (\<lambda>payload.
     case (field payload ''users'', field payload ''count'') of
       (JArr users, JInt count) \<Rightarrow>
         let names = List.map_filter (\<lambda>u. case obj_of u of None \<Rightarrow> None | Some m \<Rightarrow> str_of (field m ''username'')) users
         in if length names \<noteq> length users \<or> int (length names) \<noteq> count \<or> [] \<in> set names \<or> \<not> distinct names
            then Inl (CoderRequestError ''Coder GET api/v2/users returned an incomplete users page'')
            else Inr names
     | _ \<Rightarrow> Inl (CoderRequestError ''Coder GET api/v2/users returned an invalid users page''))"

definition usernames :: "'s transport \<Rightarrow> ('s, string list) call" where
  "usernames tr = (let path = ''api/v2/users'' in expect (http_get tr path) ''GET'' path 200 read_usernames)"

section \<open>Workspaces\<close>

record coder_workspace_page =
  pg_items :: "coder_workspace list"
  pg_count :: int

definition read_page_item :: "string \<Rightarrow> json \<Rightarrow> (coder_error, coder_workspace) result" where
  "read_page_item path x =
     (case obj_of x of
        None \<Rightarrow> Inl (CoderRequestError ''Coder GET api/v2/workspaces returned an invalid workspace'')
      | Some item \<Rightarrow>
          let bad = Inl (CoderRequestError ''Coder GET api/v2/workspaces returned an invalid latest build'') in
          (case obj_of (field item ''latest_build'') of
             None \<Rightarrow> bad
           | Some latest_build \<Rightarrow>
               (case (member_str (field latest_build ''status'') WORKSPACE_STATUSES,
                      member_str (field latest_build ''transition'') WORKSPACE_TRANSITIONS) of
                  (Some status, Some transition) \<Rightarrow>
                    rbind (uuid_field item ''id'' path) (\<lambda>workspace_id.
                    rbind (uuid_field latest_build ''id'' path) (\<lambda>build_id.
                    rbind (optional_uuid_field item ''template_id'' path) (\<lambda>template_id.
                    Inr \<lparr>cw_id = workspace_id, cw_status = status, cw_latest_build_id = build_id,
                         cw_latest_build_transition = transition,
                         cw_name = (case str_of (field item ''name'') of None \<Rightarrow> [] | Some n \<Rightarrow> n),
                         cw_template_id = template_id\<rparr>)))
                | _ \<Rightarrow> bad)))"

fun read_page_items :: "string \<Rightarrow> json list \<Rightarrow> (coder_error, coder_workspace list) result" where
  "read_page_items path [] = Inr []"
| "read_page_items path (x # xs) =
     rbind (read_page_item path x) (\<lambda>w. rbind (read_page_items path xs) (\<lambda>ws. Inr (w # ws)))"

definition read_workspace_page ::
  "int \<Rightarrow> int \<Rightarrow> http_response \<Rightarrow> string \<Rightarrow> (coder_error, coder_workspace_page) result" where
  "read_workspace_page offset limit response path =
     rbind (json_object response path) (\<lambda>payload.
     let bad = Inl (CoderRequestError ''Coder GET api/v2/workspaces returned an invalid workspace page'') in
     case (field payload ''workspaces'', field payload ''count'') of
       (JArr raw_workspaces, JInt count) \<Rightarrow>
         if count < 0 then bad
         else rbind (read_page_items path raw_workspaces) (\<lambda>items.
           if int (length items) \<noteq> min limit (max (count - offset) 0)
           then Inl (CoderRequestError ''Coder GET api/v2/workspaces returned an incomplete workspace page'')
           else Inr \<lparr>pg_items = items, pg_count = count\<rparr>)
     | _ \<Rightarrow> bad)"

definition workspaces_page :: "'s transport \<Rightarrow> string option \<Rightarrow> int \<Rightarrow> int \<Rightarrow> ('s, coder_workspace_page) call" where
  "workspaces_page tr status offset limit =
     (let path = ''api/v2/workspaces'';
          q = (case status of None \<Rightarrow> [] | Some s \<Rightarrow> ''status:\"'' @ s @ ''\"'') in
      expect (request tr ''GET'' path [(''q'', q), (''offset'', int_text offset), (''limit'', int_text limit)] NoBody)
        ''GET'' path 200 (read_workspace_page offset limit))"

definition workspace_by_id :: "'s transport \<Rightarrow> uuid \<Rightarrow> ('s, coder_workspace option) call" where
  "workspace_by_id tr workspace_id =
     (let path = ''api/v2/workspaces/'' @ uuid_text workspace_id in
      expect_or_absent (http_get tr path) ''GET'' path 200 read_workspace)"

definition workspace_by_owner_and_name :: "'s transport \<Rightarrow> string \<Rightarrow> string \<Rightarrow> ('s, coder_workspace option) call" where
  "workspace_by_owner_and_name tr username name =
     (let path = ''api/v2/users/'' @ quote username @ ''/workspace/'' @ quote name in
      expect_or_absent (http_get tr path) ''GET'' path 200 read_workspace)"

definition parameter_objects :: "pairs \<Rightarrow> json" where
  "parameter_objects ps = JArr (map (\<lambda>(n, v). JObj [(''name'', JStr n), (''value'', JStr v)]) ps)"

definition create_remote_workspace :: "'s transport \<Rightarrow> string \<Rightarrow> string \<Rightarrow> uuid \<Rightarrow> pairs \<Rightarrow> ('s, coder_workspace) call" where
  "create_remote_workspace tr username name template_id rich_parameter_values =
     (let path = ''api/v2/users/'' @ quote username @ ''/workspaces'' in
      expect (http_post tr path (JObj [(''name'', JStr name), (''template_id'', JStr (uuid_text template_id)),
                (''rich_parameter_values'', parameter_objects rich_parameter_values)]))
        ''POST'' path 201 read_workspace)"

definition update_workspace_name :: "'s transport \<Rightarrow> uuid \<Rightarrow> string \<Rightarrow> ('s, unit) call" where
  "update_workspace_name tr workspace_id name =
     (let path = ''api/v2/workspaces/'' @ uuid_text workspace_id in
      expect (http_patch tr path (JObj [(''name'', JStr name)])) ''PATCH'' path 204 no_body)"

definition builds_path :: "uuid \<Rightarrow> string" where
  "builds_path workspace_id = ''api/v2/workspaces/'' @ uuid_text workspace_id @ ''/builds''"

definition create_workspace_start_build :: "'s transport \<Rightarrow> uuid \<Rightarrow> pairs \<Rightarrow> ('s, coder_workspace_build) call" where
  "create_workspace_start_build tr workspace_id rich_parameter_values =
     expect (http_post tr (builds_path workspace_id) (JObj [(''transition'', JStr ''start''),
               (''rich_parameter_values'', parameter_objects rich_parameter_values)]))
       ''POST'' (builds_path workspace_id) 201 read_workspace_build"

definition create_workspace_stop_build :: "'s transport \<Rightarrow> uuid \<Rightarrow> ('s, coder_workspace_build) call" where
  "create_workspace_stop_build tr workspace_id =
     expect (http_post tr (builds_path workspace_id) (JObj [(''transition'', JStr ''stop'')]))
       ''POST'' (builds_path workspace_id) 201 read_workspace_build"

definition create_workspace_delete_build :: "'s transport \<Rightarrow> uuid \<Rightarrow> ('s, coder_workspace_build) call" where
  "create_workspace_delete_build tr workspace_id =
     expect (http_post tr (builds_path workspace_id) (JObj [(''transition'', JStr ''delete'')]))
       ''POST'' (builds_path workspace_id) 201 read_workspace_build"

definition workspace_build_by_id :: "'s transport \<Rightarrow> uuid \<Rightarrow> ('s, coder_workspace_build) call" where
  "workspace_build_by_id tr build_id =
     (let path = ''api/v2/workspacebuilds/'' @ uuid_text build_id in
      expect (http_get tr path) ''GET'' path 200 read_workspace_build)"

definition read_build_parameters :: "http_response \<Rightarrow> string \<Rightarrow> (coder_error, pairs) result" where
  "read_build_parameters response path =
     rbind (json_array response path) (\<lambda>payload.
     if list_all (\<lambda>item. str_of (field item ''name'') \<notin> {None, Some []} \<and> str_of (field item ''value'') \<noteq> None) payload
     then let pairs = map (\<lambda>item. (the (str_of (field item ''name'')), the (str_of (field item ''value'')))) payload
          in if distinct (map fst pairs) then Inr (sort_key id pairs)
             else Inl (CoderRequestError (''Coder '' @ path @ '' returned duplicate build parameters''))
     else Inl (CoderRequestError (''Coder '' @ path @ '' returned invalid build parameters'')))"

definition workspace_build_parameters :: "'s transport \<Rightarrow> uuid \<Rightarrow> ('s, pairs) call" where
  "workspace_build_parameters tr build_id =
     (let path = ''api/v2/workspacebuilds/'' @ uuid_text build_id @ ''/parameters'' in
      expect (http_get tr path) ''GET'' path 200 read_build_parameters)"

section \<open>Templates\<close>

definition read_default_organization :: "http_response \<Rightarrow> string \<Rightarrow> (coder_error, uuid) result" where
  "read_default_organization response path =
     rbind (json_array response path) (\<lambda>payload.
     case filter (\<lambda>item. field item ''is_default'' = JBool True) payload of
       [item] \<Rightarrow> uuid_field item ''id'' path
     | _ \<Rightarrow> Inl (CoderRequestError ''Coder did not return exactly one default organization''))"

definition default_organization_id :: "'s transport \<Rightarrow> ('s, uuid) call" where
  "default_organization_id tr =
     (let path = ''api/v2/organizations'' in expect (http_get tr path) ''GET'' path 200 read_default_organization)"

definition template_by_name :: "'s transport \<Rightarrow> uuid \<Rightarrow> string \<Rightarrow> ('s, coder_template_data option) call" where
  "template_by_name tr organization_id name =
     (let path = ''api/v2/organizations/'' @ uuid_text organization_id @ ''/templates/'' @ name in
      expect_or_absent (http_get tr path) ''GET'' path 200 read_template)"

definition template_by_id :: "'s transport \<Rightarrow> uuid \<Rightarrow> ('s, coder_template_data option) call" where
  "template_by_id tr template_id =
     (let path = ''api/v2/templates/'' @ uuid_text template_id in
      expect_or_absent (http_get tr path) ''GET'' path 200 read_template)"

definition delete_remote_template :: "'s transport \<Rightarrow> uuid \<Rightarrow> ('s, unit) call" where
  "delete_remote_template tr template_id =
     (let path = ''api/v2/templates/'' @ uuid_text template_id in
      cbind (expect_or_absent (http_delete tr path) ''DELETE'' path 200 no_body) (\<lambda>_. creturn ()))"

definition template_version_by_name ::
  "'s transport \<Rightarrow> uuid \<Rightarrow> string \<Rightarrow> string \<Rightarrow> ('s, coder_template_version option) call" where
  "template_version_by_name tr organization_id template_name vname =
     (let path = ''api/v2/organizations/'' @ uuid_text organization_id @ ''/templates/'' @ template_name
                 @ ''/versions/'' @ vname in
      expect_or_absent (http_get tr path) ''GET'' path 200 read_template_version)"

definition template_version :: "'s transport \<Rightarrow> uuid \<Rightarrow> ('s, coder_template_version) call" where
  "template_version tr version_id =
     (let path = ''api/v2/templateversions/'' @ uuid_text version_id in
      expect (http_get tr path) ''GET'' path 200 read_template_version)"

definition template_version_for_recovery :: "'s transport \<Rightarrow> uuid \<Rightarrow> ('s, coder_template_version option) call" where
  "template_version_for_recovery tr version_id =
     (let path = ''api/v2/templateversions/'' @ uuid_text version_id in
      expect_or_absent (http_get tr path) ''GET'' path 200 read_template_version)"

definition upload_template_archive :: "'s transport \<Rightarrow> bytes \<Rightarrow> ('s, uuid) call" where
  "upload_template_archive tr content =
     (let path = ''api/v2/files'' in
      cbind (request tr ''POST'' path [] (Content content)) (\<lambda>response.
      cbind (if rs_status response \<in> {200, 201} then creturn ()
             else clift (raise_for_response response ''POST'' path 201)) (\<lambda>_.
      cbind (clift (json_object response path)) (\<lambda>payload.
      clift (uuid_field payload ''hash'' path)))))"

definition create_template_version ::
  "'s transport \<Rightarrow> uuid \<Rightarrow> uuid \<Rightarrow> string \<Rightarrow> uuid option \<Rightarrow> pairs \<Rightarrow> ('s, coder_template_version) call" where
  "create_template_version tr organization_id file_id vname template_id user_variable_values =
     (let path = ''api/v2/organizations/'' @ uuid_text organization_id @ ''/templateversions'';
          base = [(''file_id'', JStr (uuid_text file_id)), (''message'', JStr ''Synchronized from CoderManager''),
                  (''name'', JStr vname), (''provisioner'', JStr ''terraform''), (''storage_method'', JStr ''file''),
                  (''tags'', JObj []), (''user_variable_values'', parameter_objects user_variable_values)];
          payload = (case template_id of None \<Rightarrow> base | Some k \<Rightarrow> base @ [(''template_id'', JStr (uuid_text k))]) in
      expect (http_post tr path (JObj payload)) ''POST'' path 201 read_template_version)"

definition create_remote_template :: "'s transport \<Rightarrow> uuid \<Rightarrow> string \<Rightarrow> string \<Rightarrow> uuid \<Rightarrow> ('s, coder_template_data) call" where
  "create_remote_template tr organization_id name display_name version_id =
     (let path = ''api/v2/organizations/'' @ uuid_text organization_id @ ''/templates'' in
      expect (http_post tr path (JObj [(''name'', JStr name), (''display_name'', JStr display_name),
                (''template_version_id'', JStr (uuid_text version_id))])) ''POST'' path 200 read_template)"

definition activate_template_version :: "'s transport \<Rightarrow> uuid \<Rightarrow> uuid \<Rightarrow> ('s, unit) call" where
  "activate_template_version tr template_id version_id =
     (let path = ''api/v2/templates/'' @ uuid_text template_id @ ''/versions'' in
      expect (http_patch tr path (JObj [(''id'', JStr (uuid_text version_id))])) ''PATCH'' path 200 no_body)"

definition unarchive_template_version :: "'s transport \<Rightarrow> uuid \<Rightarrow> ('s, unit) call" where
  "unarchive_template_version tr version_id =
     (let path = ''api/v2/templateversions/'' @ uuid_text version_id @ ''/unarchive'' in
      expect (request tr ''POST'' path [] NoBody) ''POST'' path 200 no_body)"

section \<open>Diagnostics of a failed import\<close>

text \<open>\<^verbatim>\<open>str.split()\<close>: the words between white space.\<close>

fun split_words :: "string \<Rightarrow> string \<Rightarrow> string list" where
  "split_words w [] = (if w = [] then [] else [w])"
| "split_words w (c # s) =
     (if is_space c then (if w = [] then split_words [] s else w # split_words [] s)
      else split_words (w @ [c]) s)"

fun join :: "string \<Rightarrow> string list \<Rightarrow> string" where
  "join sep [] = []"
| "join sep [x] = x"
| "join sep (x # y # r) = x @ sep @ join sep (y # r)"

definition sanitize_diagnostic :: "nat \<Rightarrow> string \<Rightarrow> string list \<Rightarrow> string \<times> bool" where
  "sanitize_diagnostic max_chars diagnostic sensitive_values =
     (let words = join '' '' (split_words [] diagnostic);
          ordered = sort_key (\<lambda>v. - int (length v)) (filter (\<lambda>v. v \<noteq> []) sensitive_values);
          redacted = fold (\<lambda>v s. replace_all v ''<redacted>'' s) ordered words;
          truncated = (max_chars < length redacted)
      in (if truncated then take (max_chars - 3) redacted @ ''...'' else redacted, truncated))"

definition render_log_entry :: "string list \<Rightarrow> (string \<times> json) list \<Rightarrow> string option" where
  "render_log_entry sensitive_values entry =
     (case (str_of (field entry ''log_level''), str_of (field entry ''stage''), str_of (field entry ''output'')) of
        (Some level, Some stage, Some output) \<Rightarrow>
          Some (fst (sanitize_diagnostic TEMPLATE_IMPORT_LOG_MAX_CHARS
                       (''['' @ stage @ ''] ['' @ level @ ''] '' @ output) sensitive_values))
      | _ \<Rightarrow> None)"

fun drop_oldest :: "string list \<Rightarrow> bool \<Rightarrow> string list \<times> bool" where
  "drop_oldest [] truncated = ([], truncated)"
| "drop_oldest (l # ls) truncated =
     (if TEMPLATE_IMPORT_LOG_MAX_CHARS < sum_list (map (\<lambda>x. length x + 1) (l # ls)) then drop_oldest ls True
      else (l # ls, truncated))"

definition read_template_version_logs ::
  "string list \<Rightarrow> http_response \<Rightarrow> string \<Rightarrow> (coder_error, string list \<times> bool) result" where
  "read_template_version_logs sensitive_values response path =
     rbind (json_array response path) (\<lambda>payload.
     let tail = drop (length payload - TEMPLATE_IMPORT_LOG_MAX_ENTRIES) payload;
         rendered = List.map_filter (render_log_entry sensitive_values) tail
     in Inr (drop_oldest rendered (TEMPLATE_IMPORT_LOG_MAX_ENTRIES < length payload)))"

definition template_version_logs :: "'s transport \<Rightarrow> uuid \<Rightarrow> string list \<Rightarrow> ('s, string list \<times> bool) call" where
  "template_version_logs tr version_id sensitive_values =
     (let path = ''api/v2/templateversions/'' @ uuid_text version_id @ ''/logs'' in
      expect (http_get tr path) ''GET'' path 200 (read_template_version_logs sensitive_values))"

definition log_template_import_failure ::
  "'s transport \<Rightarrow> coder_template_version \<Rightarrow> string list \<Rightarrow> ('s, unit) call" where
  "log_template_import_failure tr version sensitive_values c =
     (case template_version_logs tr (cv_id version) sensitive_values c of
        (c', Inl (CallbackError e)) \<Rightarrow> (c', Inl (CallbackError e))
      | (c', _) \<Rightarrow> (c', Inr ()))"

definition import_failure_message :: "coder_template_version \<Rightarrow> string list \<Rightarrow> string" where
  "import_failure_message version sensitive_values =
     (let details =
        [''version_id='' @ uuid_text (cv_id version), ''status='' @ cv_status version]
        @ (case cv_job_id version of None \<Rightarrow> [] | Some k \<Rightarrow> [''job_id='' @ uuid_text k])
        @ (if cv_error_code version \<in> {None, Some []} then [] else [''error_code='' @ the (cv_error_code version)])
        @ (if cv_error version \<in> {None, Some []} then []
           else [''reason='' @ fst (sanitize_diagnostic TEMPLATE_IMPORT_ERROR_MAX_CHARS (the (cv_error version)) sensitive_values)])
      in ''Coder template import failed: '' @ join '', '' details)"

fun wait_template_version ::
  "'s transport \<Rightarrow> (nat \<Rightarrow> ('s, unit) call) \<Rightarrow> string list \<Rightarrow> nat \<Rightarrow> uuid \<Rightarrow> ('s, coder_template_version) call" where
  "wait_template_version tr heartbeat sensitive_values k version_id =
     cbind (template_version tr version_id) (\<lambda>version.
     if cv_status version = ''succeeded'' then creturn version
     else if cv_status version \<in> {''failed'', ''canceled'', ''cancelled''}
     then cbind (log_template_import_failure tr version sensitive_values) (\<lambda>_.
          craise (CoderRequestError (import_failure_message version sensitive_values)))
     else case k of
            0 \<Rightarrow> craise (CoderRequestError ''Coder template import timed out'')
          | Suc k' \<Rightarrow> cbind (heartbeat k) (\<lambda>_. wait_template_version tr heartbeat sensitive_values k' version_id))"

declare wait_template_version.simps [simp del]

section \<open>What a response can make of the client\<close>

lemma length_sanitize: "3 \<le> n \<Longrightarrow> length (fst (sanitize_diagnostic n diagnostic vs)) \<le> n"
  by (auto simp: sanitize_diagnostic_def Let_def)

lemma drop_oldest_bounded: "sum_list (map (\<lambda>x. length x + 1) (fst (drop_oldest ls b))) \<le> TEMPLATE_IMPORT_LOG_MAX_CHARS"
  by (induction ls b rule: drop_oldest.induct) (auto simp del: sum_list.Cons)

lemma length_drop_oldest: "length (fst (drop_oldest ls b)) \<le> length ls"
  by (induction ls b rule: drop_oldest.induct) (auto simp del: sum_list.Cons intro: le_SucI)

lemma length_map_filter: "length (List.map_filter f xs) \<le> length xs"
  by (simp add: List.map_filter_def)

lemma read_logs_bounded:
  assumes "read_template_version_logs vs response path = Inr (ls, tr)"
  shows "length ls \<le> TEMPLATE_IMPORT_LOG_MAX_ENTRIES \<and> sum_list (map (\<lambda>x. length x + 1) ls) \<le> TEMPLATE_IMPORT_LOG_MAX_CHARS"
proof -
  obtain payload where "json_array response path = Inr payload"
    and ls: "ls = fst (drop_oldest (List.map_filter (render_log_entry vs)
        (drop (length payload - TEMPLATE_IMPORT_LOG_MAX_ENTRIES) payload)) (TEMPLATE_IMPORT_LOG_MAX_ENTRIES < length payload))"
    using assms by (auto simp: read_template_version_logs_def rbind_Inr_iff Let_def dest!: arg_cong[of _ _ fst])
  have "length ls \<le> length (drop (length payload - TEMPLATE_IMPORT_LOG_MAX_ENTRIES) payload)"
    unfolding ls by (rule order_trans[OF length_drop_oldest length_map_filter])
  then show ?thesis using drop_oldest_bounded unfolding ls by auto
qed

lemma member_str_Some: "member_str x allowed = Some s \<longleftrightarrow> x = JStr s \<and> s \<in> set allowed"
  by (auto simp: member_str_def str_of_def split: json.splits)

definition known_state :: "coder_workspace \<Rightarrow> bool" where
  "known_state w = (cw_status w \<in> set WORKSPACE_STATUSES \<and> cw_latest_build_transition w \<in> set WORKSPACE_TRANSITIONS)"

lemma read_page_item_known: "read_page_item path x = Inr w \<Longrightarrow> known_state w"
  by (auto simp: read_page_item_def Let_def rbind_Inr_iff member_str_Some known_state_def split: option.splits)

lemma read_page_items_known: "read_page_items path xs = Inr ws \<Longrightarrow> list_all known_state ws \<and> length ws = length xs"
  by (induction xs arbitrary: ws) (auto simp: rbind_Inr_iff dest: read_page_item_known)

lemma read_workspace_page_ok:
  assumes "read_workspace_page off lm response path = Inr pg"
  shows "list_all known_state (pg_items pg) \<and> 0 \<le> pg_count pg
     \<and> int (length (pg_items pg)) = min lm (max (pg_count pg - off) 0)"
proof -
  obtain payload where "json_object response path = Inr payload"
    and out: "read_workspace_page off lm response path = Inr pg" using assms by (auto simp: read_workspace_page_def rbind_Inr_iff)
  then obtain raw n where "field payload ''workspaces'' = JArr raw" "field payload ''count'' = JInt n"
    by (cases "field payload ''workspaces''"; cases "field payload ''count''") (auto simp: read_workspace_page_def Let_def)
  with out \<open>json_object response path = Inr payload\<close> show ?thesis
    by (auto simp: read_workspace_page_def rbind_Inr_iff Let_def dest: read_page_items_known split: if_splits)
qed

lemma workspaces_page_ok:
  assumes "workspaces_page tr st off lm c = (c', Inr pg)"
  shows "list_all known_state (pg_items pg) \<and> 0 \<le> pg_count pg
     \<and> int (length (pg_items pg)) = min lm (max (pg_count pg - off) 0)"
  using assms read_workspace_page_ok by (auto simp: workspaces_page_def expect_def call_iffs Let_def)

text \<open>The session is stored only for the administrator.\<close>

lemma cbind_last:
  assumes "cbind m f c = (c', Inr y)" and "\<And>x c1. f x c1 = (c', Inr y) \<Longrightarrow> thesis"
  shows thesis
  using assms by (auto simp: cbind_Inr_iff)

lemma authenticate_Inr:
  assumes "authenticate_prepared_admin tr password c = (c', Inr u)"
  shows "\<exists>token. token \<noteq> [] \<and> cl_token c' = Some token"
  using assms unfolding authenticate_prepared_admin_def Let_def
  by (auto elim!: cbind_last simp: call_Inr_iffs split: if_splits option.splits)

definition same_token :: "('s, 'a) call \<Rightarrow> bool" where
  "same_token m = (\<forall>c. cl_token (fst (m c)) = cl_token c)"

lemma same_token_rules [intro!]:
  "same_token (clift r)" "same_token (creturn x)" "same_token (craise e)"
  "same_token (request tr meth path ps b)"
  "same_token (\<lambda>c. case http_get tr path (c\<lparr>cl_token := t\<rparr>) of (c', r) \<Rightarrow> (c'\<lparr>cl_token := cl_token c\<rparr>, r))"
  by (simp_all add: same_token_def clift_def creturn_def craise_def request_def split_beta Let_def)

lemma cbind_Inl_token:
  assumes "same_token m" and "\<And>x c1 c'. f x c1 = (c', Inl e) \<Longrightarrow> cl_token c' = cl_token c1"
  shows "cbind m f c = (c', Inl e) \<Longrightarrow> cl_token c' = cl_token c"
  using assms unfolding cbind_def same_token_def by (auto split: prod.splits sum.splits) (metis fst_conv)+

lemma authenticate_Inl:
  assumes "authenticate_prepared_admin tr password c = (c', Inl e)"
  shows "cl_token c' = cl_token c"
  using assms unfolding authenticate_prepared_admin_def Let_def http_post_def
  by (elim cbind_Inl_token[rotated 2], goal_cases)
    (auto elim!: cbind_Inl_token[rotated 2] simp: craise_def split: if_splits option.splits)

end
