(* ===== verification/Coder_Service.thy ===== *)
theory Coder_Service
  imports Coder_Client
begin

text \<open>
  The account and workspace services (\<^verbatim>\<open>domains/coder/service.py\<close>). The heartbeat callback
  is a call. A loop with a deadline takes the number \<open>k\<close> of deadline checks that still pass:
  the outer loop and the wait loop inside it draw on the same number, so a state of the two
  loops is one state here, with the builds still awaited. Sets of builds are lists without
  repetition; the order in which builds are read is the order of insertion. The listing that
  follows the count of each page as it comes need not end; it is an optional value.
\<close>

section \<open>Accounts\<close>

definition bootstrap_admin_account :: "'s transport \<Rightarrow> string \<Rightarrow> ('s, unit) call" where
  "bootstrap_admin_account tr password =
     cbind (has_first_user tr) (\<lambda>present.
     if present then verify_prepared_first_user tr password else create_first_user tr password)"

fun delete_users :: "'s transport \<Rightarrow> ('s, unit) call \<Rightarrow> string list \<Rightarrow> ('s, unit) call" where
  "delete_users tr heartbeat [] = creturn ()"
| "delete_users tr heartbeat (u # us) =
     cbind heartbeat (\<lambda>_. cbind (delete_user tr u) (\<lambda>_. delete_users tr heartbeat us))"

definition prepare_admin :: "'s transport \<Rightarrow> string \<Rightarrow> ('s, unit) call" where
  "prepare_admin tr password =
     cbind (has_first_user tr) (\<lambda>present.
     cbind (if present then creturn () else create_first_user tr password) (\<lambda>_.
     authenticate_prepared_admin tr password))"

definition delete_user_accounts :: "'s transport \<Rightarrow> ('s, unit) call \<Rightarrow> string \<Rightarrow> string list \<Rightarrow> ('s, unit) call" where
  "delete_user_accounts tr heartbeat password names =
     cbind (prepare_admin tr password) (\<lambda>_. delete_users tr heartbeat names)"

definition cleanup_user_accounts ::
  "'s transport \<Rightarrow> ('s, unit) call \<Rightarrow> string \<Rightarrow> string list \<Rightarrow> ('s, string list) call" where
  "cleanup_user_accounts tr heartbeat password expected_usernames =
     cbind (prepare_admin tr password) (\<lambda>_.
     cbind heartbeat (\<lambda>_.
     cbind (usernames tr) (\<lambda>names.
     let orphaned = sort_key id (remdups (filter (\<lambda>u. u \<notin> set expected_usernames) names)) in
     cbind (delete_users tr heartbeat orphaned) (\<lambda>_. creturn orphaned))))"

section \<open>Listing workspaces\<close>

definition WORKSPACE_PAGE_SIZE :: int where "WORKSPACE_PAGE_SIZE = 100"

definition OBSERVED_WORKSPACE_STATUSES :: "string list" where
  "OBSERVED_WORKSPACE_STATUSES = [''running'', ''starting'', ''stopping'']"

definition TERMINAL_WORKSPACE_STOP_FAILURES :: "string list" where
  "TERMINAL_WORKSPACE_STOP_FAILURES = [''failed'', ''canceled'', ''canceling'', ''deleting'', ''deleted'']"

definition ACTIVE_WORKSPACE_BUILD_STATUSES :: "string list" where
  "ACTIVE_WORKSPACE_BUILD_STATUSES = [''pending'', ''starting'', ''stopping'', ''canceling'', ''deleting'']"

definition TERMINAL_WORKSPACE_DELETE_FAILURES :: "string list" where
  "TERMINAL_WORKSPACE_DELETE_FAILURES = [''failed'', ''canceled'']"

type_synonym found = "(string, coder_workspace) dict"

definition by_key :: "found \<Rightarrow> coder_workspace list" where
  "by_key found = map snd (sort_key fst found)"

definition add_found :: "found \<Rightarrow> coder_workspace list \<Rightarrow> found" where
  "add_found found items = fold (\<lambda>w m. dict_set (uuid_text (cw_id w)) w m) items found"

fun add_unique :: "found \<Rightarrow> coder_workspace list \<Rightarrow> (coder_error, found) result" where
  "add_unique found [] = Inr found"
| "add_unique found (w # ws) =
     (if dict_has found (uuid_text (cw_id w))
      then Inl (CoderRequestError ''Coder workspace pagination returned a duplicate workspace'')
      else add_unique (dict_set (uuid_text (cw_id w)) w found) ws)"

definition not_advanced :: coder_error where
  "not_advanced = CoderRequestError ''Coder workspace pagination did not advance''"

function all_pages ::
  "'s transport \<Rightarrow> ('s, unit) call \<Rightarrow> int option \<Rightarrow> int \<Rightarrow> found \<Rightarrow> ('s, coder_workspace list) call" where
  "all_pages tr heartbeat expected offset found c =
     (case heartbeat c of
        (c1, Inl e) \<Rightarrow> (c1, Inl e)
      | (c1, Inr _) \<Rightarrow>
     (case workspaces_page tr None offset WORKSPACE_PAGE_SIZE c1 of
        (c2, Inl e) \<Rightarrow> (c2, Inl e)
      | (c2, Inr page) \<Rightarrow>
          let expected_count = (case expected of None \<Rightarrow> pg_count page | Some n \<Rightarrow> n) in
          if pg_count page \<noteq> expected_count
          then (c2, Inl (CoderRequestError ''Coder workspace count changed during pagination''))
          else case add_unique found (pg_items page) of
                 Inl e \<Rightarrow> (c2, Inl e)
               | Inr found' \<Rightarrow>
                   let offset' = offset + int (length (pg_items page)) in
                   if pg_count page \<le> offset' then
                     (if expected_count \<noteq> int (length found')
                      then (c2, Inl (CoderRequestError ''Coder workspace pagination returned an incomplete snapshot''))
                      else (c2, Inr (by_key found')))
                   else if pg_items page = [] then (c2, Inl not_advanced)
                   else all_pages tr heartbeat (Some expected_count) offset' found' c2))"
  by pat_completeness auto

termination
  by (relation "measures [\<lambda>(tr, hb, expected, offset, found, c). if expected = None then 1 else 0,
        \<lambda>(tr, hb, expected, offset, found, c). case expected of None \<Rightarrow> 0 | Some n \<Rightarrow> nat (n - offset)]")
    (auto split: option.splits)

declare all_pages.simps [simp del]

definition all_workspaces :: "'s transport \<Rightarrow> ('s, unit) call \<Rightarrow> ('s, coder_workspace list) call" where
  "all_workspaces tr heartbeat = all_pages tr heartbeat None 0 []"

definition template_workspaces :: "'s transport \<Rightarrow> ('s, unit) call \<Rightarrow> uuid \<Rightarrow> ('s, coder_workspace list) call" where
  "template_workspaces tr heartbeat template_id =
     cbind (all_workspaces tr heartbeat) (\<lambda>workspaces.
     if list_ex (\<lambda>w. cw_template_id w = None) workspaces
     then craise (CoderRequestError ''Coder workspace page did not expose template identities'')
     else creturn (filter (\<lambda>w. cw_template_id w = Some template_id) workspaces))"

definition list_template_workspaces ::
  "'s transport \<Rightarrow> ('s, unit) call \<Rightarrow> string \<Rightarrow> uuid \<Rightarrow> ('s, coder_workspace list) call" where
  "list_template_workspaces tr heartbeat password template_id =
     cbind (authenticate_prepared_admin tr password) (\<lambda>_. template_workspaces tr heartbeat template_id)"

partial_function (option) active_pages ::
  "'s transport \<Rightarrow> ('s, unit) call \<Rightarrow> string \<Rightarrow> int \<Rightarrow> found \<Rightarrow> 's conn
    \<Rightarrow> ('s conn \<times> (coder_error, found) result) option" where
  "active_pages tr heartbeat status offset found c =
     (case heartbeat c of
        (c1, Inl e) \<Rightarrow> Some (c1, Inl e)
      | (c1, Inr _) \<Rightarrow>
     (case workspaces_page tr (Some status) offset WORKSPACE_PAGE_SIZE c1 of
        (c2, Inl e) \<Rightarrow> Some (c2, Inl e)
      | (c2, Inr page) \<Rightarrow>
          let found' = add_found found (pg_items page);
              offset' = offset + int (length (pg_items page)) in
          if pg_count page \<le> offset' then Some (c2, Inr found')
          else if pg_items page = [] then Some (c2, Inl not_advanced)
          else active_pages tr heartbeat status offset' found' c2))"

fun active_statuses ::
  "'s transport \<Rightarrow> ('s, unit) call \<Rightarrow> string list \<Rightarrow> found \<Rightarrow> 's conn \<Rightarrow> ('s conn \<times> (coder_error, found) result) option" where
  "active_statuses tr heartbeat [] found c = Some (c, Inr found)"
| "active_statuses tr heartbeat (st # sts) found c =
     (case active_pages tr heartbeat st 0 found c of
        None \<Rightarrow> None
      | Some (c', Inl e) \<Rightarrow> Some (c', Inl e)
      | Some (c', Inr found') \<Rightarrow> active_statuses tr heartbeat sts found' c')"

definition active_workspaces ::
  "'s transport \<Rightarrow> ('s, unit) call \<Rightarrow> 's conn \<Rightarrow> ('s conn \<times> (coder_error, coder_workspace list) result) option" where
  "active_workspaces tr heartbeat c =
     (case active_statuses tr heartbeat OBSERVED_WORKSPACE_STATUSES [] c of
        None \<Rightarrow> None
      | Some (c', Inl e) \<Rightarrow> Some (c', Inl e)
      | Some (c', Inr found) \<Rightarrow> Some (c', Inr (by_key found)))"

section \<open>Stopping workspaces\<close>

definition require_stop_transition :: "coder_workspace_build \<Rightarrow> (coder_error, unit) result" where
  "require_stop_transition build =
     guard_that (cb_transition build = ''stop'')
       (CoderRequestError ''Coder workspace stop returned an unexpected transition'')"

fun submit_stops ::
  "'s transport \<Rightarrow> ('s, unit) call \<Rightarrow> coder_workspace list \<Rightarrow> uuid list \<Rightarrow> ('s, uuid list) call" where
  "submit_stops tr heartbeat [] pending = creturn pending"
| "submit_stops tr heartbeat (w # ws) pending =
     cbind heartbeat (\<lambda>_.
     if cw_status w = ''stopping'' then submit_stops tr heartbeat ws (List.insert (cw_latest_build_id w) pending)
     else
       cbind (create_workspace_stop_build tr (cw_id w)) (\<lambda>build.
       cbind (clift (require_stop_transition build)) (\<lambda>_.
       submit_stops tr heartbeat ws
         (if cb_status build \<noteq> ''stopped'' then List.insert (cb_id build) pending else pending))))"

fun poll_stops :: "'s transport \<Rightarrow> uuid list \<Rightarrow> uuid list \<Rightarrow> ('s, uuid list) call" where
  "poll_stops tr [] pending = creturn pending"
| "poll_stops tr (b # bs) pending =
     cbind (workspace_build_by_id tr b) (\<lambda>build.
     cbind (clift (require_stop_transition build)) (\<lambda>_.
     if cb_status build = ''stopped'' then poll_stops tr bs (removeAll b pending)
     else if cb_status build \<in> set TERMINAL_WORKSPACE_STOP_FAILURES
     then craise (CoderRequestError ''Coder workspace stop failed'')
     else poll_stops tr bs pending))"

definition obind ::
  "('s conn \<times> (coder_error, 'a) result) option \<Rightarrow> ('a \<Rightarrow> 's conn \<Rightarrow> ('s conn \<times> (coder_error, 'b) result) option)
    \<Rightarrow> ('s conn \<times> (coder_error, 'b) result) option" where
  "obind m f = (case m of None \<Rightarrow> None | Some (c, Inl e) \<Rightarrow> Some (c, Inl e) | Some (c, Inr x) \<Rightarrow> f x c)"

fun stop_loop ::
  "'s transport \<Rightarrow> ('s, unit) call \<Rightarrow> nat \<Rightarrow> uuid list \<Rightarrow> string list \<Rightarrow> 's conn
    \<Rightarrow> ('s conn \<times> (coder_error, string list) result) option" where
  "stop_loop tr heartbeat 0 pending stopped_ids c =
     Some (c, Inl (CoderRequestError ''Coder workspace stop timed out''))"
| "stop_loop tr heartbeat (Suc k) pending stopped_ids c =
     (if pending = [] then
        obind (active_workspaces tr heartbeat c) (\<lambda>active c.
        if active = [] then Some (c, Inr stopped_ids)
        else obind (Some (submit_stops tr heartbeat active [] c)) (\<lambda>pending' c.
             stop_loop tr heartbeat k pending' (stopped_ids @ map (uuid_text \<circ> cw_id) active) c))
      else
        obind (Some (cbind heartbeat (\<lambda>_. poll_stops tr pending pending) c)) (\<lambda>pending' c.
        stop_loop tr heartbeat k pending' stopped_ids c))"

definition stop_active_workspaces ::
  "'s transport \<Rightarrow> ('s, unit) call \<Rightarrow> nat \<Rightarrow> string \<Rightarrow> 's conn
    \<Rightarrow> ('s conn \<times> (coder_error, string list) result) option" where
  "stop_active_workspaces tr heartbeat k password c =
     obind (Some (authenticate_prepared_admin tr password c)) (\<lambda>_ c. stop_loop tr heartbeat k [] [] c)"

record workspace_stop_submissions =
  su_submitted_ids :: "string list"
  su_already_stopping_ids :: "string list"

fun submit_each ::
  "'s transport \<Rightarrow> coder_workspace list \<Rightarrow> workspace_stop_submissions \<Rightarrow> string list
    \<Rightarrow> ('s, workspace_stop_submissions \<times> string list) call" where
  "submit_each tr [] acc failures = creturn (acc, failures)"
| "submit_each tr (w # ws) acc failures =
     (let key = uuid_text (cw_id w) in
      if cw_status w = ''stopping''
      then submit_each tr ws (acc\<lparr>su_already_stopping_ids := su_already_stopping_ids acc @ [key]\<rparr>) failures
      else (\<lambda>c. case cbind (create_workspace_stop_build tr (cw_id w)) (\<lambda>build. clift (require_stop_transition build)) c of
                 (c', Inl e) \<Rightarrow> submit_each tr ws acc (failures @ [key]) c'
               | (c', Inr _) \<Rightarrow> submit_each tr ws (acc\<lparr>su_submitted_ids := su_submitted_ids acc @ [key]\<rparr>) failures c'))"

definition submit_active_workspace_stops ::
  "'s transport \<Rightarrow> string \<Rightarrow> 's conn \<Rightarrow> ('s conn \<times> (coder_error, workspace_stop_submissions) result) option" where
  "submit_active_workspace_stops tr password c =
     obind (Some (authenticate_prepared_admin tr password c)) (\<lambda>_ c.
     obind (active_workspaces tr (creturn ()) c) (\<lambda>active c.
     obind (Some (submit_each tr active \<lparr>su_submitted_ids = [], su_already_stopping_ids = []\<rparr> [] c)) (\<lambda>(acc, failures) c.
     if failures \<noteq> []
     then Some (c, Inl (CoderRequestError (''Coder workspace stop submission failed for: '' @ join '', '' failures)))
     else Some (c, Inr acc))))"

section \<open>Deleting workspaces\<close>

record delete_messages =
  dm_timeout :: string
  dm_transition :: string
  dm_failed :: string

fun submit_deletes ::
  "'s transport \<Rightarrow> ('s, unit) call \<Rightarrow> delete_messages \<Rightarrow> coder_workspace list \<Rightarrow> uuid list \<Rightarrow> uuid list
    \<Rightarrow> ('s, uuid list \<times> uuid list) call" where
  "submit_deletes tr heartbeat dm [] blocking deleting = creturn (blocking, deleting)"
| "submit_deletes tr heartbeat dm (w # ws) blocking deleting =
     cbind heartbeat (\<lambda>_.
     if cw_status w \<in> set ACTIVE_WORKSPACE_BUILD_STATUSES then
       (if cw_latest_build_transition w = ''delete''
        then submit_deletes tr heartbeat dm ws blocking (List.insert (cw_latest_build_id w) deleting)
        else submit_deletes tr heartbeat dm ws (List.insert (cw_latest_build_id w) blocking) deleting)
     else
       cbind (create_workspace_delete_build tr (cw_id w)) (\<lambda>build.
       if cb_transition build \<noteq> ''delete'' then craise (CoderRequestError (dm_transition dm))
       else if cb_status build \<in> set TERMINAL_WORKSPACE_DELETE_FAILURES then craise (CoderRequestError (dm_failed dm))
       else submit_deletes tr heartbeat dm ws blocking
              (if cb_status build \<noteq> ''deleted'' then List.insert (cb_id build) deleting else deleting)))"

fun poll_blocking :: "'s transport \<Rightarrow> uuid list \<Rightarrow> uuid list \<Rightarrow> ('s, uuid list) call" where
  "poll_blocking tr [] blocking = creturn blocking"
| "poll_blocking tr (b # bs) blocking =
     cbind (workspace_build_by_id tr b) (\<lambda>build.
     poll_blocking tr bs
       (if cb_status build \<notin> set ACTIVE_WORKSPACE_BUILD_STATUSES then removeAll b blocking else blocking))"

fun poll_deleting :: "'s transport \<Rightarrow> uuid list \<Rightarrow> uuid list \<Rightarrow> ('s, uuid list) call" where
  "poll_deleting tr [] deleting = creturn deleting"
| "poll_deleting tr (b # bs) deleting =
     cbind (workspace_build_by_id tr b) (\<lambda>build.
     if cb_transition build \<noteq> ''delete''
     then craise (CoderRequestError ''Coder workspace deletion returned an unexpected transition'')
     else if cb_status build = ''deleted'' then poll_deleting tr bs (removeAll b deleting)
     else if cb_status build \<in> set TERMINAL_WORKSPACE_DELETE_FAILURES
     then craise (CoderRequestError ''Coder workspace deletion failed'')
     else poll_deleting tr bs deleting)"

definition wait_workspace_deletions ::
  "'s transport \<Rightarrow> ('s, unit) call \<Rightarrow> uuid list \<Rightarrow> uuid list \<Rightarrow> ('s, uuid list \<times> uuid list) call" where
  "wait_workspace_deletions tr heartbeat blocking deleting =
     cbind heartbeat (\<lambda>_.
     cbind (poll_blocking tr blocking blocking) (\<lambda>blocking'.
     cbind (poll_deleting tr deleting deleting) (\<lambda>deleting'.
     creturn (blocking', deleting'))))"

definition deletion_timeout :: string where
  "deletion_timeout = ''Coder workspace deletion timed out''"

fun delete_loop ::
  "'s transport \<Rightarrow> ('s, unit) call \<Rightarrow> ('s, coder_workspace list) call \<Rightarrow> delete_messages \<Rightarrow> nat \<Rightarrow> uuid list \<Rightarrow> uuid list
    \<Rightarrow> string list \<Rightarrow> ('s, string list) call" where
  "delete_loop tr heartbeat lister dm 0 blocking deleting deleted_ids =
     craise (CoderRequestError (if blocking = [] \<and> deleting = [] then dm_timeout dm else deletion_timeout))"
| "delete_loop tr heartbeat lister dm (Suc k) blocking deleting deleted_ids =
     (if blocking = [] \<and> deleting = [] then
        cbind lister (\<lambda>workspaces.
        if workspaces = [] then creturn (sort_key id deleted_ids)
        else
          cbind (submit_deletes tr heartbeat dm workspaces [] []) (\<lambda>(blocking', deleting').
          delete_loop tr heartbeat lister dm k blocking' deleting'
            (fold (\<lambda>w ids. List.insert (uuid_text (cw_id w)) ids) workspaces deleted_ids)))
      else
        cbind (wait_workspace_deletions tr heartbeat blocking deleting) (\<lambda>(blocking', deleting').
        delete_loop tr heartbeat lister dm k blocking' deleting' deleted_ids))"

text \<open>Every attempt opens a client of its own; the number of checks left is part of the result.\<close>

fun wait_for_coder :: "'s transport \<Rightarrow> ('s, unit) call \<Rightarrow> nat \<Rightarrow> string \<Rightarrow> ('s, nat) call" where
  "wait_for_coder tr heartbeat k password c =
     (case k of
        0 \<Rightarrow> (c, Inl (CoderRequestError deletion_timeout))
      | Suc k1 \<Rightarrow>
          (case heartbeat c of
             (c1, Inl e) \<Rightarrow> (c1, Inl e)
           | (c1, Inr _) \<Rightarrow>
               (case authenticate_prepared_admin tr password (c1\<lparr>cl_token := None\<rparr>) of
                  (c2, Inr _) \<Rightarrow> (c2, Inr k1)
                | (c2, Inl (CoderFirstUserConflictError m)) \<Rightarrow> (c2, Inl (CoderFirstUserConflictError m))
                | (c2, Inl (CallbackError e)) \<Rightarrow> (c2, Inl (CallbackError e))
                | (c2, Inl _) \<Rightarrow>
                    (case k1 of
                       0 \<Rightarrow> (c2, Inl (CoderRequestError deletion_timeout))
                     | Suc k2 \<Rightarrow> wait_for_coder tr heartbeat k2 password c2))))"

declare wait_for_coder.simps [simp del]

definition delete_all_workspaces :: "'s transport \<Rightarrow> ('s, unit) call \<Rightarrow> nat \<Rightarrow> string \<Rightarrow> ('s, string list) call" where
  "delete_all_workspaces tr heartbeat k password =
     cbind (wait_for_coder tr heartbeat k password) (\<lambda>k'.
     delete_loop tr heartbeat (all_workspaces tr heartbeat)
       \<lparr>dm_timeout = deletion_timeout, dm_transition = ''Coder workspace deletion returned an unexpected transition'',
        dm_failed = ''Coder workspace deletion failed''\<rparr> k' [] [] [])"

definition delete_template_workspaces ::
  "'s transport \<Rightarrow> ('s, unit) call \<Rightarrow> nat \<Rightarrow> string \<Rightarrow> uuid \<Rightarrow> ('s, string list) call" where
  "delete_template_workspaces tr heartbeat k password template_id =
     cbind (wait_for_coder tr heartbeat k password) (\<lambda>k'.
     delete_loop tr heartbeat (template_workspaces tr heartbeat template_id)
       \<lparr>dm_timeout = ''Coder template workspace deletion timed out'',
        dm_transition = ''Coder template workspace deletion returned an unexpected transition'',
        dm_failed = ''Coder template workspace deletion failed''\<rparr> k' [] [] [])"

section \<open>A complete listing is what the server holds\<close>

definition keyed :: "found \<Rightarrow> bool" where
  "keyed found = (distinct (map fst found) \<and> list_all (\<lambda>(k, w). k = uuid_text (cw_id w)) found)"

abbreviation entry :: "coder_workspace \<Rightarrow> string \<times> coder_workspace" where
  "entry w \<equiv> (uuid_text (cw_id w), w)"

lemma dict_set_fresh: "\<not> dict_has d k \<Longrightarrow> dict_set k v d = d @ [(k, v)]"
  by (induction d) (auto simp: dict_has_def)

lemma dict_has_entries: "dict_has (map entry ws) (uuid_text k) \<longleftrightarrow> k \<in> cw_id ` set ws"
  by (auto simp: dict_has_iff map_of_eq_None_iff image_image)

lemma add_unique_entries:
  "distinct (map cw_id (ws @ items)) \<Longrightarrow> add_unique (map entry ws) items = Inr (map entry (ws @ items))"
proof (induction items arbitrary: ws)
  case (Cons w items)
  then have "\<not> dict_has (map entry ws) (uuid_text (cw_id w))" by (simp add: dict_has_entries)
  moreover have "add_unique (map entry (ws @ [w])) items = Inr (map entry ((ws @ [w]) @ items))"
    using Cons.prems by (intro Cons.IH) simp
  ultimately show ?case by (simp add: dict_set_fresh)
qed simp

lemma add_unique_keyed: "add_unique found items = Inr found' \<Longrightarrow> keyed found \<Longrightarrow> keyed found'"
proof (induction found items rule: add_unique.induct)
  case (2 found w ws)
  then have new: "\<not> dict_has found (uuid_text (cw_id w))" by (auto split: if_splits)
  moreover have "keyed (dict_set (uuid_text (cw_id w)) w found)"
    using 2(3) new by (auto simp: keyed_def dict_set_fresh dict_has_iff map_of_eq_None_iff)
  ultimately show ?case using 2 by auto
qed simp

lemma insort_entry: "insort_key fst (entry w) (map entry xs) = map entry (insort_key (\<lambda>w. uuid_text (cw_id w)) w xs)"
  by (induction xs) simp_all

lemma by_key_entries: "by_key (map entry ws) = sort_key (\<lambda>w. uuid_text (cw_id w)) ws"
proof -
  have "sort_key fst (map entry ws) = map entry (sort_key (\<lambda>w. uuid_text (cw_id w)) ws)"
    by (induction ws) (simp_all add: insort_entry)
  then show ?thesis by (simp add: by_key_def comp_def)
qed

text \<open>A server that does not change while it is listed.\<close>

definition serves :: "'s transport \<Rightarrow> coder_workspace list \<Rightarrow> bool" where
  "serves tr ws = (\<forall>c offset. 0 \<le> offset \<longrightarrow> workspaces_page tr None offset WORKSPACE_PAGE_SIZE c
     = (c, Inr \<lparr>pg_items = take 100 (drop (nat offset) ws), pg_count = int (length ws)\<rparr>))"

lemma all_pages_serves:
  assumes "serves tr ws" and "distinct (map cw_id ws)" and "n \<le> length ws"
    and "expected \<in> {None, Some (int (length ws))}"
  shows "all_pages tr (creturn ()) expected (int n) (map entry (take n ws)) c = (c, Inr (sort_key (\<lambda>w. uuid_text (cw_id w)) ws))"
  using assms(3,4)
proof (induction "length ws - n" arbitrary: n expected rule: less_induct)
  case less
  let ?items = "take 100 (drop n ws)"
  have page: "workspaces_page tr None (int n) WORKSPACE_PAGE_SIZE c = (c, Inr \<lparr>pg_items = ?items, pg_count = int (length ws)\<rparr>)"
    using assms(1) by (simp add: serves_def)
  have next_page: "take n ws @ ?items = take (n + 100) ws" by (simp add: take_add)
  have "distinct (map cw_id (take n ws @ ?items))"
    using assms(2) unfolding next_page by (simp add: distinct_take flip: take_map)
  then have added: "add_unique (map entry (take n ws)) ?items = Inr (map entry (take (n + 100) ws))"
    using add_unique_entries[of "take n ws" ?items] next_page by simp
  have step: "(case expected of None \<Rightarrow> int (length ws) | Some m \<Rightarrow> m) = int (length ws)" using less.prems(2) by auto
  show ?case
  proof (cases "length ws \<le> n + 100")
    case True
    then have "n + length ?items = length ws" using less.prems(1) by simp
    with True page added step show ?thesis
      by (subst all_pages.simps) (simp add: creturn_def Let_def by_key_entries cong: option.case_cong)
  next
    case False
    then have len: "length ?items = 100" "?items \<noteq> []" by auto
    have "all_pages tr (creturn ()) (Some (int (length ws))) (int (n + 100)) (map entry (take (n + 100) ws)) c
        = (c, Inr (sort_key (\<lambda>w. uuid_text (cw_id w)) ws))"
      using False by (intro less.hyps) auto
    with False page added step len show ?thesis
      by (subst all_pages.simps) (simp add: creturn_def Let_def cong: option.case_cong)
  qed
qed

text \<open>Whatever the server does, a listing that succeeds has no workspace twice and is ordered.\<close>

lemma by_key_keyed:
  assumes "keyed found"
  shows "distinct (map cw_id (by_key found))" and "sorted (map (\<lambda>w. uuid_text (cw_id w)) (by_key found))"
    and "length (by_key found) = length found"
proof -
  have entries: "found = map entry (map snd found)" using assms by (induction found) (auto simp: keyed_def)
  have "distinct (map (\<lambda>w. uuid_text (cw_id w)) (map snd found))"
    using assms arg_cong[OF entries, of "map fst"] by (simp add: keyed_def comp_def)
  then have "distinct (map cw_id (map snd found))" by (auto simp: distinct_map inj_on_def)
  then show "distinct (map cw_id (by_key found))"
    by (subst entries) (simp only: by_key_entries distinct_map distinct_sort set_sort)
  show "sorted (map (\<lambda>w. uuid_text (cw_id w)) (by_key found))"
    by (subst entries) (simp only: by_key_entries sorted_sort_key)
  show "length (by_key found) = length found" by (simp add: by_key_def)
qed

lemma all_pages_sound:
  "all_pages tr hb expected offset found c = (c', Inr ws) \<Longrightarrow> keyed found \<Longrightarrow>
   distinct (map cw_id ws) \<and> sorted (map (\<lambda>w. uuid_text (cw_id w)) ws)"
proof (induction tr hb expected offset found c rule: all_pages.induct)
  case (1 tr hb expected offset found c)
  obtain c1 u where hb: "hb c = (c1, Inr u)"
    using 1(2) by (subst (asm) all_pages.simps) (auto split: prod.splits sum.splits)
  obtain c2 page where page: "workspaces_page tr None offset WORKSPACE_PAGE_SIZE c1 = (c2, Inr page)"
    using 1(2) hb by (subst (asm) all_pages.simps) (auto split: prod.splits sum.splits)
  let ?n = "case expected of None \<Rightarrow> pg_count page | Some n \<Rightarrow> n"
  obtain found' where found': "pg_count page = ?n" "add_unique found (pg_items page) = Inr found'"
    using 1(2) hb page by (subst (asm) all_pages.simps) (auto simp: Let_def split: sum.splits if_splits)
  have keyed: "keyed found'" using add_unique_keyed[OF found'(2) 1(3)] .
  show ?case
  proof (cases "pg_count page \<le> offset + int (length (pg_items page))")
    case True
    then have "ws = by_key found'"
      using 1(2) hb page found' by (subst (asm) all_pages.simps) (auto simp: Let_def split: if_splits)
    then show ?thesis using by_key_keyed[OF keyed] by simp
  next
    case False
    then have rest: "pg_items page \<noteq> []"
      "all_pages tr hb (Some ?n) (offset + int (length (pg_items page))) found' c2 = (c', Inr ws)"
      using 1(2) hb page found' by (subst (asm) all_pages.simps, auto simp: Let_def split: if_splits)+
    show ?thesis
      by (rule 1(1)[OF hb[symmetric] refl page[symmetric] refl refl _ found'(2) refl _ rest(1,2) keyed])
        (use False found'(1) in auto)
  qed
qed

section \<open>Which requests a service makes\<close>

text \<open>
  A call keeps a property of the server when every request it makes keeps it. The services
  are followed through their requests with the rules below.
\<close>

definition keeps :: "('s \<Rightarrow> bool) \<Rightarrow> ('s, 'a) call \<Rightarrow> bool" where
  "keeps P m = (\<forall>c. P (cl_server c) \<longrightarrow> P (cl_server (fst (m c))))"

definition request_keeps :: "('s \<Rightarrow> bool) \<Rightarrow> 's transport \<Rightarrow> string \<Rightarrow> string \<Rightarrow> body \<Rightarrow> bool" where
  "request_keeps P tr meth path b = (\<forall>rq s. rq_method rq = meth \<longrightarrow> rq_path rq = path \<longrightarrow> rq_body rq = b \<longrightarrow>
     P s \<longrightarrow> P (fst (tr rq s)))"

lemma keepsD: "keeps P m \<Longrightarrow> m c = (c', r) \<Longrightarrow> P (cl_server c) \<Longrightarrow> P (cl_server c')"
  unfolding keeps_def by (metis fst_conv)

lemma keeps_basic [simp, intro!]: "keeps P (creturn x)" "keeps P (craise e)" "keeps P (clift r)"
  by (simp_all add: keeps_def creturn_def craise_def clift_def)

lemma keeps_cbind [intro!]: "keeps P m \<Longrightarrow> (\<And>x. keeps P (f x)) \<Longrightarrow> keeps P (cbind m f)"
  by (auto simp: keeps_def cbind_def split: prod.split sum.split)

lemma keeps_request: "request_keeps P tr meth path b \<Longrightarrow> keeps P (request tr meth path ps b)"
  by (auto simp: keeps_def request_keeps_def request_def split_beta Let_def)

lemma keeps_expect:
  "keeps P m \<Longrightarrow> keeps P (expect m meth path st rd)" "keeps P m \<Longrightarrow> keeps P (expect_or_absent m meth path st rd)"
  unfolding expect_def expect_or_absent_def by auto

lemmas client_defs = http_get_def http_post_def http_patch_def http_delete_def

lemma keeps_gets:
  assumes "\<And>path. request_keeps P tr ''GET'' path NoBody"
  shows "keeps P (has_first_user tr)" and "keeps P (usernames tr)" and "keeps P (workspaces_page tr st off lm)"
    and "keeps P (workspace_build_by_id tr k)"
  unfolding has_first_user_def usernames_def workspaces_page_def workspace_build_by_id_def Let_def client_defs
  using assms by (auto intro!: keeps_request keeps_expect)

lemma keeps_authenticate:
  assumes "\<And>path. request_keeps P tr ''GET'' path NoBody" and "\<And>b. request_keeps P tr ''POST'' ''api/v2/users/login'' b"
  shows "keeps P (authenticate_prepared_admin tr password)"
proof -
  have "keeps P (\<lambda>c. let (c', r) = http_get tr ''api/v2/users/me'' (c\<lparr>cl_token := t\<rparr>) in (c'\<lparr>cl_token := cl_token c\<rparr>, r))" for t
    using assms(1) by (auto simp: keeps_def http_get_def request_def request_keeps_def split_beta Let_def)
  moreover have "keeps P (\<lambda>c. (c\<lparr>cl_token := t\<rparr>, Inr ()))" for t by (simp add: keeps_def)
  ultimately show ?thesis
    unfolding authenticate_prepared_admin_def Let_def http_post_def
    using assms(2) by (auto intro!: keeps_cbind keeps_request split: option.split)
qed

lemma keeps_delete_users:
  assumes "keeps P hb" and "\<And>u. u \<in> set us \<Longrightarrow> request_keeps P tr ''DELETE'' (''api/v2/users/'' @ quote u) NoBody"
  shows "keeps P (delete_users tr hb us)"
  using assms(2)
proof (induction us)
  case (Cons u us)
  have "keeps P (delete_user tr u)"
    unfolding delete_user_def Let_def http_delete_def using Cons.prems by (auto intro!: keeps_expect keeps_request)
  with Cons assms(1) show ?case by auto
qed simp

lemma keeps_cleanup:
  assumes hb: "keeps P hb" and reads: "\<And>path. request_keeps P tr ''GET'' path NoBody"
    and posts: "\<And>path b. request_keeps P tr ''POST'' path b"
    and orphans: "\<And>u. u \<notin> set expected \<Longrightarrow> request_keeps P tr ''DELETE'' (''api/v2/users/'' @ quote u) NoBody"
  shows "keeps P (cleanup_user_accounts tr hb password expected)"
proof -
  have "keeps P (create_first_user tr password)"
    unfolding create_first_user_def Let_def http_post_def using posts by (intro keeps_expect keeps_request)
  then have "keeps P (prepare_admin tr password)"
    unfolding prepare_admin_def using keeps_gets(1)[OF reads] keeps_authenticate[OF reads posts] by auto
  moreover have "keeps P (delete_users tr hb (sort_key id (remdups (filter (\<lambda>u. u \<notin> set expected) names))))" for names
    using hb orphans by (intro keeps_delete_users) auto
  ultimately show ?thesis
    unfolding cleanup_user_accounts_def Let_def using hb keeps_gets[OF reads] by (intro keeps_cbind) auto
qed

lemma sorted_sort_id [simp]: "sorted (sort_key id xs)"
  using sorted_sort_key[of id xs] by simp

text \<open>The result of a cleanup is what was found and is not expected.\<close>

lemma cleanup_result:
  assumes "cleanup_user_accounts tr hb password expected c = (c', Inr gone)"
  shows "distinct gone \<and> sorted gone \<and> set gone \<inter> set expected = {}"
  using assms unfolding cleanup_user_accounts_def Let_def by (auto simp: call_iffs)

section \<open>Deletion\<close>

text \<open>A deletion returns only after a listing that was empty.\<close>

lemma delete_loop_converged:
  "delete_loop tr hb lister dm k blocking deleting ids c = (c', Inr gone) \<Longrightarrow> \<exists>c1. lister c1 = (c', Inr [])"
proof (induction k arbitrary: blocking deleting ids c)
  case (Suc k)
  then show ?case by (auto simp: call_iffs split_beta split: if_splits)
qed (simp add: call_iffs)

lemma keeps_all_pages:
  "keeps P hb \<Longrightarrow> (\<And>off. keeps P (workspaces_page tr None off WORKSPACE_PAGE_SIZE)) \<Longrightarrow>
   P (cl_server c) \<Longrightarrow> P (cl_server (fst (all_pages tr hb expected offset found c)))"
proof (induction tr hb expected offset found c rule: all_pages.induct)
  case (1 tr hb expected offset found c)
  obtain c1 r where hb: "hb c = (c1, r)" by (cases "hb c")
  then have c1: "P (cl_server c1)" using keepsD[OF 1(2)] 1(4) by blast
  obtain c2 r2 where page: "workspaces_page tr None offset WORKSPACE_PAGE_SIZE c1 = (c2, r2)"
    by (cases "workspaces_page tr None offset WORKSPACE_PAGE_SIZE c1")
  then have c2: "P (cl_server c2)" using keepsD[OF 1(3)] c1 by blast
  show ?case
  proof (cases r)
    case (Inl e)
    with hb c1 show ?thesis by (subst all_pages.simps) simp
  next
    case r: (Inr u)
    show ?thesis
    proof (cases r2)
      case (Inl e)
      with hb r page c2 show ?thesis by (subst all_pages.simps) simp
    next
      case r2: (Inr pg)
      have rec: "P (cl_server (fst (all_pages tr hb (Some n) off fd c2)))"
        if "n = (case expected of None \<Rightarrow> pg_count pg | Some n \<Rightarrow> n)" "pg_count pg = n"
          "add_unique found (pg_items pg) = Inr fd" "off = offset + int (length (pg_items pg))"
          "\<not> pg_count pg \<le> off" "pg_items pg \<noteq> []" for n fd off
        using 1(1)[OF hb[symmetric] r page[symmetric] r2 that(1) _ that(3,4,5,6) 1(2) 1(3) c2] that(2) by simp
      show ?thesis
        by (subst all_pages.simps) (use hb r page r2 c2 rec in \<open>auto simp: Let_def split: sum.split option.splits\<close>)
    qed
  qed
qed

lemma keeps_cbind_result:
  assumes "keeps P m" and "\<And>x c c'. m c = (c', Inr x) \<Longrightarrow> keeps P (f x)"
  shows "keeps P (cbind m f)"
  unfolding keeps_def
proof (intro allI impI)
  fix c :: "'a conn" assume P: "P (cl_server c)"
  obtain c' r where m: "m c = (c', r)" by (cases "m c")
  then have c': "P (cl_server c')" using keepsD[OF assms(1)] P by blast
  show "P (cl_server (fst (cbind m f c)))"
  proof (cases r)
    case (Inl e)
    with m c' show ?thesis by (simp add: cbind_def)
  next
    case (Inr x)
    then have "keeps P (f x)" using assms(2) m by blast
    with m Inr c' show ?thesis by (simp add: cbind_def keeps_def)
  qed
qed

definition deletes_only :: "('s \<Rightarrow> bool) \<Rightarrow> 's transport \<Rightarrow> uuid set \<Rightarrow> bool" where
  "deletes_only P tr K = (\<forall>k\<in>K. request_keeps P tr ''POST'' (builds_path k) (JsonBody (JObj [(''transition'', JStr ''delete'')])))"

lemma keeps_submit_deletes:
  assumes "keeps P hb" and "deletes_only P tr K"
  shows "\<forall>w\<in>set ws. cw_id w \<in> K \<Longrightarrow> keeps P (submit_deletes tr hb dm ws bl dl)"
proof (induction ws arbitrary: bl dl)
  case (Cons w ws)
  then have "keeps P (create_workspace_delete_build tr (cw_id w))"
    unfolding create_workspace_delete_build_def http_post_def
    using assms(2) by (auto simp: deletes_only_def intro!: keeps_expect keeps_request)
  with Cons assms(1) show ?case by auto
qed simp

lemma keeps_wait_deletions:
  assumes "keeps P hb" and "\<And>path. request_keeps P tr ''GET'' path NoBody"
  shows "keeps P (wait_workspace_deletions tr hb bl dl)"
proof -
  have "keeps P (poll_blocking tr bs acc)" for bs acc
    by (induction bs arbitrary: acc) (use keeps_gets(4)[OF assms(2)] in auto)
  moreover have "keeps P (poll_deleting tr bs acc)" for bs acc
    by (induction bs arbitrary: acc) (use keeps_gets(4)[OF assms(2)] in auto)
  ultimately show ?thesis unfolding wait_workspace_deletions_def using assms(1) by auto
qed

lemma keeps_delete_loop:
  assumes hb: "keeps P hb" and reads: "\<And>path. request_keeps P tr ''GET'' path NoBody"
    and dels: "deletes_only P tr K" and lister: "keeps P lister"
    and listed: "\<And>c c' ws. lister c = (c', Inr ws) \<Longrightarrow> \<forall>w\<in>set ws. cw_id w \<in> K"
  shows "keeps P (delete_loop tr hb lister dm k bl dl ids)"
proof (induction k arbitrary: bl dl ids)
  case (Suc k)
  show ?case
  proof (cases "bl = [] \<and> dl = []")
    case True
    have "keeps P (cbind lister (\<lambda>ws. if ws = [] then creturn (sort_key id ids)
        else cbind (submit_deletes tr hb dm ws [] []) (\<lambda>(bl', dl'). delete_loop tr hb lister dm k bl' dl'
          (fold (\<lambda>w ids. List.insert (uuid_text (cw_id w)) ids) ws ids))))"
      by (rule keeps_cbind_result[OF lister]) (use listed keeps_submit_deletes[OF hb dels] Suc in \<open>auto split: prod.split\<close>)
    with True show ?thesis by simp
  next
    case False
    with Suc keeps_wait_deletions[OF hb reads] show ?thesis by (auto split: prod.split)
  qed
qed simp

lemma add_unique_from:
  "add_unique found items = Inr found' \<Longrightarrow> \<forall>w\<in>snd ` set found. Q w \<Longrightarrow> \<forall>w\<in>set items. Q w \<Longrightarrow> \<forall>w\<in>snd ` set found'. Q w"
  by (induction found items rule: add_unique.induct) (auto simp: dict_set_fresh split: if_splits)

lemma all_pages_from:
  "all_pages tr hb expected offset found c = (c', Inr ws) \<Longrightarrow> \<forall>w\<in>snd ` set found. Q w \<Longrightarrow>
   (\<And>off c c' pg. workspaces_page tr None off WORKSPACE_PAGE_SIZE c = (c', Inr pg) \<Longrightarrow> \<forall>w\<in>set (pg_items pg). Q w) \<Longrightarrow>
   \<forall>w\<in>set ws. Q w"
proof (induction tr hb expected offset found c rule: all_pages.induct)
  case (1 tr hb expected offset found c)
  obtain c1 u where hb: "hb c = (c1, Inr u)"
    using 1(2) by (subst (asm) all_pages.simps) (auto split: prod.splits sum.splits)
  obtain c2 page where page: "workspaces_page tr None offset WORKSPACE_PAGE_SIZE c1 = (c2, Inr page)"
    using 1(2) hb by (subst (asm) all_pages.simps) (auto split: prod.splits sum.splits)
  let ?n = "case expected of None \<Rightarrow> pg_count page | Some n \<Rightarrow> n"
  obtain found' where found': "pg_count page = ?n" "add_unique found (pg_items page) = Inr found'"
    using 1(2) hb page by (subst (asm) all_pages.simps) (auto simp: Let_def split: sum.splits if_splits)
  have Q: "\<forall>w\<in>snd ` set found'. Q w" using add_unique_from[OF found'(2) 1(3)] 1(4)[OF page] by blast
  show ?case
  proof (cases "pg_count page \<le> offset + int (length (pg_items page))")
    case True
    then have "ws = by_key found'"
      using 1(2) hb page found' by (subst (asm) all_pages.simps) (auto simp: Let_def split: if_splits)
    then show ?thesis using Q by (auto simp: by_key_def)
  next
    case False
    then have rest: "pg_items page \<noteq> []"
      "all_pages tr hb (Some ?n) (offset + int (length (pg_items page))) found' c2 = (c', Inr ws)"
      using 1(2) hb page found' by (subst (asm) all_pages.simps, auto simp: Let_def split: if_splits)+
    show ?thesis
      by (rule 1(1)[OF hb[symmetric] refl page[symmetric] refl refl _ found'(2) refl _ rest(1,2) Q 1(4)])
        (use False found'(1) in auto)
  qed
qed

lemma keeps_wait_for_coder:
  assumes "keeps P hb" and "keeps P (authenticate_prepared_admin tr password)"
  shows "keeps P (wait_for_coder tr hb k password)"
proof -
  have "P (cl_server c) \<Longrightarrow> P (cl_server (fst (wait_for_coder tr hb k password c)))" for c :: "'a conn"
  proof (induction k arbitrary: c rule: less_induct)
    case (less k)
    obtain c1 r where hb: "hb c = (c1, r)" by (cases "hb c")
    obtain c2 r2 where auth: "authenticate_prepared_admin tr password (c1\<lparr>cl_token := None\<rparr>) = (c2, r2)"
      by (cases "authenticate_prepared_admin tr password (c1\<lparr>cl_token := None\<rparr>)")
    have "P (cl_server c1)" using keepsD[OF assms(1) hb less.prems] .
    moreover from this have "P (cl_server c2)" using keepsD[OF assms(2) auth] by simp
    moreover from this have "P (cl_server (fst (wait_for_coder tr hb k2 password c2)))" if "k = Suc (Suc k2)" for k2
      using less.IH[of k2 c2] that by simp
    ultimately show ?case
      using less.prems hb auth by (subst wait_for_coder.simps) (auto split: nat.split sum.split coder_error.split)
  qed
  then show ?thesis by (simp add: keeps_def)
qed

lemma keeps_delete_template_workspaces:
  assumes hb: "keeps P hb" and reads: "\<And>path. request_keeps P tr ''GET'' path NoBody"
    and login: "\<And>b. request_keeps P tr ''POST'' ''api/v2/users/login'' b" and dels: "deletes_only P tr K"
    and pages: "\<And>off c c' pg w. workspaces_page tr None off WORKSPACE_PAGE_SIZE c = (c', Inr pg) \<Longrightarrow>
        w \<in> set (pg_items pg) \<Longrightarrow> cw_template_id w = Some t \<Longrightarrow> cw_id w \<in> K"
  shows "keeps P (delete_template_workspaces tr hb k password t)"
proof -
  have all: "keeps P (all_workspaces tr hb)"
    unfolding keeps_def all_workspaces_def using keeps_all_pages[OF hb keeps_gets(3)[OF reads]] by blast
  have lister: "keeps P (template_workspaces tr hb t)" unfolding template_workspaces_def using all by auto
  have listed: "\<forall>w\<in>set ws. cw_id w \<in> K" if ws: "template_workspaces tr hb t c = (c', Inr ws)" for c c' ws
  proof -
    obtain all where "all_workspaces tr hb c = (c', Inr all)" "ws = filter (\<lambda>w. cw_template_id w = Some t) all"
      using ws by (auto simp: template_workspaces_def call_iffs split: if_splits)
    then show ?thesis
      using all_pages_from[of tr hb None 0 "[]" c c' all "\<lambda>w. cw_template_id w = Some t \<longrightarrow> cw_id w \<in> K"] pages
      by (auto simp: all_workspaces_def)
  qed
  show ?thesis
    unfolding delete_template_workspaces_def
    using keeps_wait_for_coder[OF hb keeps_authenticate[OF reads login]]
      keeps_delete_loop[OF hb reads dels lister listed] by (intro keeps_cbind) auto
qed

section \<open>The listing by status ends on a server whose counts are bounded\<close>

lemma active_pages_returns:
  assumes "\<And>off c c' pg. workspaces_page tr (Some st) off WORKSPACE_PAGE_SIZE c = (c', Inr pg) \<Longrightarrow> pg_count pg \<le> bound"
  shows "\<exists>r. active_pages tr hb st offset found c = Some r"
proof (induction "nat (bound - offset)" arbitrary: offset found c rule: less_induct)
  case less
  obtain c1 r where hb: "hb c = (c1, r)" by (cases "hb c")
  obtain c2 r2 where page: "workspaces_page tr (Some st) offset WORKSPACE_PAGE_SIZE c1 = (c2, r2)"
    by (cases "workspaces_page tr (Some st) offset WORKSPACE_PAGE_SIZE c1")
  have "\<exists>x. active_pages tr hb st (offset + int (length (pg_items pg))) fd c2 = Some x"
    if "r2 = Inr pg" "\<not> pg_count pg \<le> offset + int (length (pg_items pg))" "pg_items pg \<noteq> []" for pg fd
    using that assms[OF page[unfolded that(1)]] by (intro less.hyps) (auto simp flip: length_greater_0_conv)
  then show ?case
    using hb page by (subst active_pages.simps) (auto simp: Let_def split: sum.split)
qed

end
