(* ===== verification/Coder_Properties.thy ===== *)
theory Coder_Properties
  imports Ciphers Coder_Service
begin

text \<open>
  Properties of the ciphers and of the Coder domain.
\<close>

section \<open>Credentials\<close>

text \<open>
  C33. What is encrypted comes back: with the promise of the primitive and a nonce of the
  length the code draws, every text of Unicode scalar values and every file is returned by the
  decryption of its envelope, for each of the four kinds of credential.
\<close>

theorem credentials_roundtrip:
  assumes "aead_ok ae" and "length nonce = NONCE_LENGTH" and "list_all scalar_value t"
  shows "password_decrypt ae key (password_encrypt ae key nonce t k) k = Inr t
    \<and> kubeconfig_decrypt ae key (kubeconfig_encrypt ae key nonce f k) k = Inr f
    \<and> instance_password_decrypt ae key (instance_password_encrypt ae key nonce t k) k = Inr t
    \<and> template_parameter_decrypt ae key (template_parameter_encrypt ae key nonce t k) k = Inr t"
  using cipher_roundtrips[OF assms(1,2)] assms(3) by blast

text \<open>A primitive that appends the first sixteen bytes of its associated data as the tag.\<close>

definition sample_tag :: "bytes \<Rightarrow> bytes \<Rightarrow> bytes \<Rightarrow> bytes \<Rightarrow> bytes" where
  "sample_tag k n p a = take 16 (a @ replicate 16 0)"

definition sample_aead :: aead where
  "sample_aead = \<lparr>ae_encrypt = (\<lambda>k n p a. p @ sample_tag k n p a),
     ae_decrypt = (\<lambda>k n c a. let p = take (length c - 16) c in
        if c = p @ sample_tag k n p a then Some p else None)\<rparr>"

lemma sample_aead_ok: "aead_ok sample_aead"
  by (auto simp: aead_ok_def sample_aead_def sample_tag_def Let_def split: if_splits)

theorem credentials_roundtrip_witness:
  "instance_password_decrypt sample_aead [] (instance_password_encrypt sample_aead [] (replicate 12 5) [104, 233, 8364, 128512] 7) 7
     = Inr [104, 233, 8364, 128512]"
  using credentials_roundtrip[OF sample_aead_ok, of "replicate 12 5" "[104, 233, 8364, 128512]" "[]" 7]
  by (simp add: NONCE_LENGTH_def scalar_value_def)



section \<open>Diagnostics\<close>

text \<open>
  What a failed import puts into an error and into the log is bounded, whatever the
  server sends: a diagnostic has at most its limit of characters, and a log excerpt has at
  most fifty lines that together, with their line ends, stay within its limit.
\<close>

theorem diagnostics_are_bounded:
  assumes "template_version_logs tr version_id secrets c = (c', Inr (ls, truncated))"
  shows "length (fst (sanitize_diagnostic TEMPLATE_IMPORT_ERROR_MAX_CHARS diagnostic secrets)) \<le> 4096
    \<and> length ls \<le> 50 \<and> sum_list (map (\<lambda>l. length l + 1) ls) \<le> 8192"
proof -
  have "length (fst (sanitize_diagnostic TEMPLATE_IMPORT_ERROR_MAX_CHARS diagnostic secrets)) \<le> TEMPLATE_IMPORT_ERROR_MAX_CHARS"
    by (rule length_sanitize) (simp add: TEMPLATE_IMPORT_ERROR_MAX_CHARS_def)
  moreover obtain response path where "read_template_version_logs secrets response path = Inr (ls, truncated)"
    using assms by (auto simp: template_version_logs_def expect_def call_iffs Let_def)
  ultimately show ?thesis
    using read_logs_bounded
    by (fastforce simp: TEMPLATE_IMPORT_ERROR_MAX_CHARS_def TEMPLATE_IMPORT_LOG_MAX_ENTRIES_def TEMPLATE_IMPORT_LOG_MAX_CHARS_def)
qed

definition sample_log_server :: "unit transport" where
  "sample_log_server rq s = (s, Inr \<lparr>rs_status = 200, rs_build_version = None,
     rs_json = Some (JArr [JObj [(''log_level'', JStr ''info''), (''stage'', JStr ''plan''), (''output'', JStr ''key=s3cret'')]])\<rparr>)"

definition sample_conn :: "unit conn" where
  "sample_conn = \<lparr>cl_token = None, cl_server = ()\<rparr>"

theorem diagnostics_are_bounded_witness:
  "\<exists>c' ls. template_version_logs sample_log_server 5 [''s3cret''] sample_conn = (c', Inr (ls, False))
     \<and> ls = [''[plan] [info] key=<redacted>''] \<and> length ls \<le> 50"
proof -
  have r: "template_version_logs sample_log_server 5 [''s3cret''] sample_conn
      = (sample_conn, Inr ([''[plan] [info] key=<redacted>''], False))" by code_simp
  from diagnostics_are_bounded[OF r] r show ?thesis by blast
qed

text \<open>
  Redaction works on the text with its white space normalised, so a value that itself has
  two spaces or a line break in a row is not found and stays readable.
\<close>

theorem redaction_misses_spaced_values:
  "sanitize_diagnostic TEMPLATE_IMPORT_ERROR_MAX_CHARS ''key=my  secret'' [''my  secret''] = (''key=my secret'', False)"
  by code_simp

section \<open>Listing\<close>

text \<open>
  C35. A listing of every workspace is the server's: on a server that does not change while
  it is listed the paginated reading returns exactly the workspaces it holds, in the order of
  their keys; on any server a listing that succeeds has no workspace twice and is ordered.
\<close>

theorem workspace_listing_complete:
  assumes "serves tr ws" and "distinct (map cw_id ws)"
  shows "all_workspaces tr (creturn ()) c = (c, Inr (sort_key (\<lambda>w. uuid_text (cw_id w)) ws))
    \<and> (\<forall>tr' hb c1 c2 found. all_workspaces tr' hb (c1 :: 's conn) = (c2, Inr found) \<longrightarrow>
         distinct (map cw_id found) \<and> sorted (map (\<lambda>w. uuid_text (cw_id w)) found))"
proof -
  have "all_workspaces tr (creturn ()) c = (c, Inr (sort_key (\<lambda>w. uuid_text (cw_id w)) ws))"
    using all_pages_serves[OF assms, of 0 None c] by (simp add: all_workspaces_def)
  moreover have "distinct (map cw_id found) \<and> sorted (map (\<lambda>w. uuid_text (cw_id w)) found)"
    if "all_workspaces tr' hb (c1 :: 's conn) = (c2, Inr found)" for tr' hb c1 c2 found
    using all_pages_sound[OF that[unfolded all_workspaces_def]] by (simp add: keyed_def)
  ultimately show ?thesis by blast
qed

definition sample_remote_workspace :: "uuid \<Rightarrow> uuid \<Rightarrow> coder_workspace" where
  "sample_remote_workspace k t = \<lparr>cw_id = k, cw_status = ''running'', cw_latest_build_id = k + 100,
     cw_latest_build_transition = ''start'', cw_name = [], cw_template_id = Some t\<rparr>"

definition workspace_json :: "coder_workspace \<Rightarrow> json" where
  "workspace_json w = JObj [(''id'', JStr (uuid_text (cw_id w))),
     (''template_id'', JStr (uuid_text (the (cw_template_id w)))),
     (''latest_build'', JObj [(''id'', JStr (uuid_text (cw_latest_build_id w))), (''status'', JStr (cw_status w)),
        (''transition'', JStr (cw_latest_build_transition w))])]"

definition sample_page_server :: "unit transport" where
  "sample_page_server rq s = (s, Inr \<lparr>rs_status = 200, rs_build_version = None, rs_json = Some (JObj
     [(''workspaces'', JArr (if map_of (rq_params rq) ''offset'' = Some ''0''
         then [workspace_json (sample_remote_workspace 60 2)] else [])), (''count'', JInt 1)])\<rparr>)"

lemma sample_page_first:
  "workspaces_page sample_page_server None 0 WORKSPACE_PAGE_SIZE sample_conn
     = (sample_conn, Inr \<lparr>pg_items = [sample_remote_workspace 60 2], pg_count = 1\<rparr>)"
  by code_simp

lemma sample_page_server_serves: "serves sample_page_server [sample_remote_workspace 60 2]"
proof -
  have rest: "workspaces_page sample_page_server None offset WORKSPACE_PAGE_SIZE c = (c, Inr \<lparr>pg_items = [], pg_count = 1\<rparr>)"
    if "0 < offset" for offset c
  proof -
    have "int_text offset \<noteq> int_text 0" using that int_text_inj[of offset 0] by auto
    moreover have "int_text 0 = ''0''" by code_simp
    ultimately show ?thesis
      using that by (simp add: workspaces_page_def expect_def request_def cbind_def clift_def raise_for_response_def
          read_workspace_page_def json_object_def field_def sample_page_server_def WORKSPACE_PAGE_SIZE_def Let_def)
  qed
  have first: "workspaces_page sample_page_server None 0 WORKSPACE_PAGE_SIZE c
      = (c, Inr \<lparr>pg_items = [sample_remote_workspace 60 2], pg_count = 1\<rparr>)" for c
    using sample_page_first
    by (simp add: workspaces_page_def expect_def request_def cbind_def clift_def raise_for_response_def
        sample_page_server_def sample_conn_def Let_def split: sum.splits prod.splits)
  show ?thesis unfolding serves_def
  proof (intro allI impI)
    fix c and offset :: int
    assume "0 \<le> offset"
    then consider "offset = 0" | "0 < offset" by linarith
    then show "workspaces_page sample_page_server None offset WORKSPACE_PAGE_SIZE c
        = (c, Inr \<lparr>pg_items = take 100 (drop (nat offset) [sample_remote_workspace 60 2]),
             pg_count = int (length [sample_remote_workspace 60 2])\<rparr>)"
      by cases (use first rest in \<open>simp_all add: drop_Cons'\<close>)
  qed
qed

theorem workspace_listing_complete_witness:
  "all_workspaces sample_page_server (creturn ()) sample_conn = (sample_conn, Inr [sample_remote_workspace 60 2])"
proof -
  have "distinct (map cw_id [sample_remote_workspace 60 2])" by simp
  from workspace_listing_complete[OF sample_page_server_serves this, of sample_conn, THEN conjunct1]
  show ?thesis by simp
qed

text \<open>
  C36. The listing by status ends: on a server whose counts stay below some bound it returns,
  with a value or an error, from every state.
\<close>

theorem workspace_listing_ends:
  assumes "\<forall>st off c c' pg. workspaces_page tr (Some st) off WORKSPACE_PAGE_SIZE c = (c', Inr pg) \<longrightarrow> pg_count pg \<le> bound"
  shows "\<exists>r. active_workspaces tr hb c = Some r"
proof -
  have pages: "\<exists>r. active_pages tr hb st off found c = Some r" for st off found c
    using assms by (intro active_pages_returns) blast
  have "\<exists>r. active_statuses tr hb sts found c = Some r" for sts found c
  proof (induction sts arbitrary: found c)
    case (Cons st sts)
    obtain r where "active_pages tr hb st 0 found c = Some r" using pages by blast
    with Cons show ?case by (cases r) (auto split: sum.split)
  qed simp
  then obtain r where "active_statuses tr hb OBSERVED_WORKSPACE_STATUSES [] c = Some r" by blast
  then show ?thesis by (cases r) (auto simp: active_workspaces_def split: sum.split)
qed

theorem workspace_listing_ends_witness: "\<exists>r. active_workspaces sample_page_server (creturn ()) sample_conn = Some r"
proof (rule workspace_listing_ends)
  have "pg_count pg = 1" if "workspaces_page sample_page_server (Some st) off WORKSPACE_PAGE_SIZE c = (c', Inr pg)"
    for st off c c' pg
    using that
    by (auto simp: workspaces_page_def expect_def call_iffs request_def sample_page_server_def read_workspace_page_def
        json_object_def field_def rbind_Inr_iff Let_def split: if_splits)
  then show "\<forall>st off c c' pg. workspaces_page sample_page_server (Some st) off WORKSPACE_PAGE_SIZE c = (c', Inr pg) \<longrightarrow> pg_count pg \<le> 1"
    by simp
qed

section \<open>Deletion\<close>

text \<open>
  The cleanup of accounts touches only accounts nobody expects. Any property of the server
  that survives reads, posts and the deletion of unexpected accounts survives the cleanup,
  also when it fails halfway; the accounts it reports as deleted are in order, without
  repetition, and none of them is expected.
\<close>

theorem account_cleanup_spares_expected:
  assumes "keeps P hb" and "\<forall>path. request_keeps P tr ''GET'' path NoBody"
    and "\<forall>path b. request_keeps P tr ''POST'' path b"
    and "\<forall>u. u \<notin> set expected \<longrightarrow> request_keeps P tr ''DELETE'' (''api/v2/users/'' @ quote u) NoBody"
  shows "(P (cl_server c) \<longrightarrow> P (cl_server (fst (cleanup_user_accounts tr hb password expected c))))
    \<and> (\<forall>c' gone. cleanup_user_accounts tr hb password expected c = (c', Inr gone) \<longrightarrow>
         distinct gone \<and> sorted gone \<and> set gone \<inter> set expected = {})"
proof -
  have "keeps P (cleanup_user_accounts tr hb password expected)" using assms by (intro keeps_cleanup) auto
  moreover have "distinct gone \<and> sorted gone \<and> set gone \<inter> set expected = {}"
    if "cleanup_user_accounts tr hb password expected c = (c', Inr gone)" for c' gone
    using cleanup_result[OF that] by simp
  ultimately show ?thesis by (simp add: keeps_def)
qed

definition sample_account_server :: "(string list) transport" where
  "sample_account_server rq s =
     (if rq_method rq = ''DELETE'' then (filter (\<lambda>a. rq_path rq \<noteq> ''api/v2/users/'' @ quote a) s,
        Inr \<lparr>rs_status = 200, rs_build_version = None, rs_json = None\<rparr>)
      else (s, Inr (if rq_path rq = ''api/v2/users/login''
        then \<lparr>rs_status = 201, rs_build_version = None, rs_json = Some (JObj [(''session_token'', JStr ''t'')])\<rparr>
        else if rq_path rq = ''api/v2/users/me''
        then \<lparr>rs_status = 200, rs_build_version = None,
               rs_json = Some (JObj [(''username'', JStr ADMIN_USERNAME), (''email'', JStr ADMIN_EMAIL)])\<rparr>
        else \<lparr>rs_status = 200, rs_build_version = None, rs_json = Some (JObj
               [(''users'', JArr (map (\<lambda>a. JObj [(''username'', JStr a)]) s)), (''count'', JInt (int (length s)))])\<rparr>)))"

lemma quote_plain: "CHR ''%'' \<notin> set (quote u) \<Longrightarrow> quote u = u"
  by (induction u) (auto simp: quote_def split: if_splits)

theorem account_cleanup_spares_expected_witness:
  "cleanup_user_accounts sample_account_server (creturn ()) ''pw'' [''admin'', ''ann'']
       \<lparr>cl_token = None, cl_server = [''admin'', ''ann'', ''bob'']\<rparr>
     = (\<lparr>cl_token = Some ''t'', cl_server = [''admin'', ''ann'']\<rparr>, Inr [''bob''])
   \<and> ''ann'' \<in> set (cl_server (fst (cleanup_user_accounts sample_account_server (creturn ()) ''pw'' [''admin'', ''ann'']
       \<lparr>cl_token = None, cl_server = [''admin'', ''ann'', ''bob'']\<rparr>)))"
proof -
  let ?P = "\<lambda>s. ''ann'' \<in> set s"
  have gets: "\<forall>path. request_keeps ?P sample_account_server ''GET'' path NoBody"
    and posts: "\<forall>path b. request_keeps ?P sample_account_server ''POST'' path b"
    by (simp_all add: request_keeps_def sample_account_server_def)
  have "quote u \<noteq> quote ''ann''" if "u \<notin> set [''admin'', ''ann'']" for u
  proof
    assume eq: "quote u = quote ''ann''"
    have ann: "quote ''ann'' = ''ann''" by code_simp
    then have "quote u = u" using eq by (intro quote_plain) simp
    with eq ann that show False by simp
  qed
  then have orphans: "\<forall>u. u \<notin> set [''admin'', ''ann''] \<longrightarrow>
      request_keeps ?P sample_account_server ''DELETE'' (''api/v2/users/'' @ quote u) NoBody"
    by (auto simp: request_keeps_def sample_account_server_def)
  have run: "cleanup_user_accounts sample_account_server (creturn ()) ''pw'' [''admin'', ''ann'']
       \<lparr>cl_token = None, cl_server = [''admin'', ''ann'', ''bob'']\<rparr>
     = (\<lparr>cl_token = Some ''t'', cl_server = [''admin'', ''ann'']\<rparr>, Inr [''bob''])" by code_simp
  have "?P (cl_server \<lparr>cl_token = None, cl_server = [''admin'', ''ann'', ''bob'']\<rparr>)" by simp
  with account_cleanup_spares_expected[OF keeps_basic(1) gets posts orphans, THEN conjunct1] run
  show ?thesis by blast
qed

text \<open>
  C37. The removal of a template's workspaces spares every other workspace and ends only when
  none is left. With \<open>K\<close> the workspaces that any page shows under the template, every property
  of the server that survives reads, the login and delete builds of workspaces in \<open>K\<close> survives
  the removal, also when it fails or times out; and when it returns, a complete listing has
  just shown no workspace of the template.
\<close>

theorem template_deletion_spares_others:
  assumes "keeps P hb" and "\<forall>path. request_keeps P tr ''GET'' path NoBody"
    and "\<forall>b. request_keeps P tr ''POST'' ''api/v2/users/login'' b"
    and "\<forall>n\<in>K. request_keeps P tr ''POST'' (builds_path n) (JsonBody (JObj [(''transition'', JStr ''delete'')]))"
    and "\<forall>off c c' pg w. workspaces_page tr None off WORKSPACE_PAGE_SIZE c = (c', Inr pg) \<longrightarrow>
        w \<in> set (pg_items pg) \<longrightarrow> cw_template_id w = Some t \<longrightarrow> cw_id w \<in> K"
  shows "(P (cl_server c) \<longrightarrow> P (cl_server (fst (delete_template_workspaces tr hb k password t c))))
    \<and> (\<forall>c' gone. delete_template_workspaces tr hb k password t c = (c', Inr gone) \<longrightarrow>
         (\<exists>c1. template_workspaces tr hb t c1 = (c', Inr [])))"
proof -
  have "keeps P (delete_template_workspaces tr hb k password t)"
    using assms by (intro keeps_delete_template_workspaces[where K = K]) (auto simp: deletes_only_def)
  moreover have "\<exists>c1. template_workspaces tr hb t c1 = (c', Inr [])"
    if "delete_template_workspaces tr hb k password t c = (c', Inr gone)" for c' gone
    using that delete_loop_converged by (auto simp: delete_template_workspaces_def call_iffs)
  ultimately show ?thesis by (simp add: keeps_def)
qed

definition sample_build_server :: "(uuid list) transport" where
  "sample_build_server rq s =
     (if rq_method rq = ''POST'' \<and> rq_path rq \<noteq> ''api/v2/users/login''
      then (filter (\<lambda>n. rq_path rq \<noteq> builds_path n) s, Inr \<lparr>rs_status = 201, rs_build_version = None,
        rs_json = Some (JObj [(''id'', JStr (uuid_text 1)), (''status'', JStr ''deleted''), (''transition'', JStr ''delete'')])\<rparr>)
      else (s, Inr (if rq_path rq = ''api/v2/users/login''
        then \<lparr>rs_status = 201, rs_build_version = None, rs_json = Some (JObj [(''session_token'', JStr ''t'')])\<rparr>
        else if rq_path rq = ''api/v2/users/me''
        then \<lparr>rs_status = 200, rs_build_version = None,
               rs_json = Some (JObj [(''username'', JStr ADMIN_USERNAME), (''email'', JStr ADMIN_EMAIL)])\<rparr>
        else \<lparr>rs_status = 200, rs_build_version = None, rs_json = Some (JObj
               [(''workspaces'', JArr (map (\<lambda>n. workspace_json (sample_remote_workspace n (if n = 60 then 2 else 3))) s)),
                (''count'', JInt (int (length s)))])\<rparr>)))"

lemma read_sample_items:
  "read_page_items path (map (\<lambda>n. workspace_json (sample_remote_workspace n (f n))) ns)
     = Inr (map (\<lambda>n. sample_remote_workspace n (f n)) ns)"
proof (induction ns)
  case (Cons n ns)
  have "read_page_item path (workspace_json (sample_remote_workspace n (f n))) = Inr (sample_remote_workspace n (f n))"
    by (simp add: read_page_item_def workspace_json_def sample_remote_workspace_def obj_of_def field_def member_str_def
        str_of_def uuid_field_def optional_uuid_field_def json_uuid_def parse_uuid_text WORKSPACE_STATUSES_def
        WORKSPACE_TRANSITIONS_def)
  with Cons show ?case by simp
qed simp

lemma sample_build_pages:
  assumes "workspaces_page sample_build_server None off WORKSPACE_PAGE_SIZE c = (c', Inr pg)" and "w \<in> set (pg_items pg)"
    and "cw_template_id w = Some 2"
  shows "cw_id w = 60"
proof -
  have "\<exists>s. pg_items pg = map (\<lambda>n. sample_remote_workspace n (if n = 60 then 2 else 3)) s"
    using assms(1)
    by (auto simp: workspaces_page_def expect_def call_iffs request_def sample_build_server_def read_workspace_page_def
        json_object_def field_def rbind_Inr_iff Let_def read_sample_items split: if_splits)
  with assms(2,3) show ?thesis by (auto simp: sample_remote_workspace_def split: if_splits)
qed

theorem template_deletion_spares_others_witness:
  "61 \<in> set (cl_server (fst (delete_template_workspaces sample_build_server (creturn ()) 9 ''pw'' 2
        \<lparr>cl_token = None, cl_server = [60, 61]\<rparr>)))"
proof -
  let ?P = "\<lambda>s :: uuid list. 61 \<in> set s"
  have gets: "\<forall>path. request_keeps ?P sample_build_server ''GET'' path NoBody"
    and login: "\<forall>b. request_keeps ?P sample_build_server ''POST'' ''api/v2/users/login'' b"
    by (simp_all add: request_keeps_def sample_build_server_def)
  have dels: "\<forall>n\<in>{60}. request_keeps ?P sample_build_server ''POST'' (builds_path n) (JsonBody (JObj [(''transition'', JStr ''delete'')]))"
    by (simp add: request_keeps_def sample_build_server_def builds_path_def)
  have pages: "\<forall>off c c' pg w. workspaces_page sample_build_server None off WORKSPACE_PAGE_SIZE c = (c', Inr pg) \<longrightarrow>
        w \<in> set (pg_items pg) \<longrightarrow> cw_template_id w = Some 2 \<longrightarrow> cw_id w \<in> {60}"
    using sample_build_pages by blast
  have "?P (cl_server \<lparr>cl_token = None, cl_server = [60, 61]\<rparr>)" by simp
  with template_deletion_spares_others[OF keeps_basic(1) gets login dels pages, THEN conjunct1]
  show ?thesis by blast
qed

end
