(* ===== verification/Settings.thy ===== *)
theory Settings
  imports Coder_Client Ciphers
begin

text \<open>
  The settings the domains read (\<^verbatim>\<open>config.py\<close>) and the text functions their validation uses:
  splitting at a separator, DNS labels and names, line breaks. Reading the process environment
  is left to the settings library; the record holds what it delivers, without the ports,
  intervals and addresses that only the process wiring uses.
\<close>

section \<open>Texts\<close>

fun split_on :: "char \<Rightarrow> string \<Rightarrow> string list" where
  "split_on sep [] = [[]]"
| "split_on sep (c # s) =
     (if c = sep then [] # split_on sep s
      else case split_on sep s of [] \<Rightarrow> [[c]] | part # parts \<Rightarrow> (c # part) # parts)"

definition has_line_break :: "string \<Rightarrow> bool" where
  "has_line_break s = (CHR 0x0D \<in> set s \<or> CHR 0x0A \<in> set s)"

definition blank :: "string option \<Rightarrow> bool" where
  "blank v = (case v of None \<Rightarrow> True | Some s \<Rightarrow> strip s = [])"

definition label_char :: "char \<Rightarrow> bool" where
  "label_char c = (let n = (of_char c :: nat) in 97 \<le> n \<and> n \<le> 122 \<or> 48 \<le> n \<and> n \<le> 57)"

text \<open>\<^verbatim>\<open>[a-z0-9](?:[-a-z0-9]*[a-z0-9])?\<close> as a full match.\<close>

definition label_shape :: "string \<Rightarrow> bool" where
  "label_shape s = (s \<noteq> [] \<and> label_char (hd s) \<and> label_char (last s)
     \<and> list_all (\<lambda>c. label_char c \<or> c = CHR ''-'') s)"

definition dns_label :: "string \<Rightarrow> bool" where
  "dns_label s = (label_shape s \<and> length s \<le> 63)"

definition dns_name :: "string \<Rightarrow> bool" where
  "dns_name s = (let labels = split_on (CHR ''.'') s in 2 \<le> length labels \<and> list_all dns_label labels)"

lemma take_until: "sep \<notin> set p \<Longrightarrow> takeWhile (\<lambda>c. c \<noteq> sep) (p @ s) = p @ takeWhile (\<lambda>c. c \<noteq> sep) s"
  by (induction p) auto

lemma drop_until: "sep \<notin> set p \<Longrightarrow> dropWhile (\<lambda>c. c \<noteq> sep) (p @ s) = dropWhile (\<lambda>c. c \<noteq> sep) s"
  by (induction p) auto

lemma split_on_nonempty [simp]: "split_on sep s \<noteq> []"
  by (induction s) (auto split: list.splits)

lemma split_on_join: "concat (map (\<lambda>p. p @ [sep]) (split_on sep s)) = s @ [sep]"
  by (induction s) (auto split: list.splits)

lemma split_on_parts: "p \<in> set (split_on sep s) \<Longrightarrow> sep \<notin> set p"
  by (induction s arbitrary: p) (auto split: list.splits if_splits)

lemma split_on_append: "sep \<notin> set p \<Longrightarrow> split_on sep (p @ sep # s) = p # split_on sep s"
  by (induction p) auto

lemma split_on_absent: "sep \<notin> set s \<Longrightarrow> split_on sep s = [s]"
  by (induction s) auto

lemma set_split_on: "set s \<subseteq> insert sep (\<Union>p \<in> set (split_on sep s). set p)"
  using arg_cong[OF split_on_join[of sep s], of set] by auto

lemma lower_label_char: "label_char c \<Longrightarrow> lower_char c = c"
  by (auto simp: label_char_def lower_char_def Let_def)

section \<open>Settings\<close>

record settings =
  s_database_schema :: "string option"
  s_instance_base_domain :: "string option"
  s_crypto_key :: "string option"
  s_argocd_url :: "string option"
  s_argocd_token :: "string option"
  s_argocd_skip_ssl_verify :: bool
  s_argocd_application_prefix :: "string option"
  s_argocd_region :: "string option"
  s_argocd_repository_url :: "string option"
  s_argocd_repository_path :: "string option"
  s_argocd_target_revision :: "string option"
  s_argocd_project_name :: "string option"
  s_argocd_destination_name :: "string option"
  s_argocd_additional_values :: "string option"
  s_allow_unauthenticated_api :: bool
  s_oidc_issuer_url :: "string option"
  s_oidc_client_id :: "string option"
  s_oidc_authorization_url :: "string option"
  s_oidc_token_url :: "string option"
  s_oidc_scopes :: string
  s_cyberark_app_id :: "string option"
  s_cyberark_cert_name :: "string option"
  s_cyberark_key_name :: "string option"
  s_cyberark_safe :: "string option"
  s_default_admins :: string

datatype settings_error = SettingsValueError string

definition MAX_DNS_NAME_LENGTH :: nat where "MAX_DNS_NAME_LENGTH = 253"

definition MAX_INSTANCE_BASE_DOMAIN_LENGTH :: nat where
  "MAX_INSTANCE_BASE_DOMAIN_LENGTH = MAX_DNS_NAME_LENGTH - INSTANCE_SLUG_LENGTH - 1"

definition require_database_schema :: "settings \<Rightarrow> (settings_error, string) result" where
  "require_database_schema st =
     (case s_database_schema st of
        Some v \<Rightarrow> if strip v = [] then Inl (SettingsValueError ''CODER_MANAGER_DATABASE_SCHEMA is required'') else Inr v
      | None \<Rightarrow> Inl (SettingsValueError ''CODER_MANAGER_DATABASE_SCHEMA is required''))"

definition require_argocd_region :: "settings \<Rightarrow> (settings_error, string) result" where
  "require_argocd_region st =
     (if blank (s_argocd_region st) then Inl (SettingsValueError ''CODER_MANAGER_ARGOCD_REGION is required'')
      else let region = lower (strip (the (s_argocd_region st))) in
        if dns_label region then Inr region
        else Inl (SettingsValueError ''CODER_MANAGER_ARGOCD_REGION must be a valid DNS label''))"

definition require_instance_base_domain :: "settings \<Rightarrow> (settings_error, string) result" where
  "require_instance_base_domain st =
     (if blank (s_instance_base_domain st) then Inl (SettingsValueError ''CODER_MANAGER_INSTANCE_BASE_DOMAIN is required'')
      else let base_domain = lower (strip (the (s_instance_base_domain st))) in
        if length base_domain > MAX_INSTANCE_BASE_DOMAIN_LENGTH \<or> \<not> dns_name base_domain
        then Inl (SettingsValueError ''CODER_MANAGER_INSTANCE_BASE_DOMAIN must be a valid DNS name'')
        else Inr base_domain)"

text \<open>
  A base domain that passes leaves room for the slug and its dot, and is a name of lower case
  labels.
\<close>

lemma base_domain_ok:
  assumes "require_instance_base_domain st = Inr b"
  shows "dns_name b" and "length b + INSTANCE_SLUG_LENGTH + 1 \<le> MAX_DNS_NAME_LENGTH"
  using assms
  by (auto simp: require_instance_base_domain_def Let_def MAX_INSTANCE_BASE_DOMAIN_LENGTH_def
      MAX_DNS_NAME_LENGTH_def INSTANCE_SLUG_LENGTH_def split: if_splits)

lemma dns_name_chars:
  assumes "dns_name b" and "c \<in> set b"
  shows "label_char c \<or> c = CHR ''-'' \<or> c = CHR ''.''"
proof -
  have "c = CHR ''.'' \<or> (\<exists>p \<in> set (split_on (CHR ''.'') b). c \<in> set p)"
    using assms(2) set_split_on[of b "CHR ''.''"] by auto
  then show ?thesis
    using assms(1) by (auto simp: dns_name_def dns_label_def label_shape_def list_all_iff Let_def)
qed

text \<open>The slug in front of a valid base domain is a valid name again.\<close>

lemma dns_name_extend:
  assumes "dns_label s" and "CHR ''.'' \<notin> set s" and "dns_name b"
  shows "dns_name (s @ ''.'' @ b)"
  using assms split_on_append[of "CHR ''.''" s b] by (simp add: dns_name_def Let_def)

end
