(* ===== verification/ArgoCd.thy ===== *)
theory ArgoCd
  imports Settings
begin

text \<open>
  The Argo CD domain (\<^verbatim>\<open>domains/argocd\<close>): validation of its settings, the Application that is
  desired for an instance, and the client of the Applications API. The API server is a
  parameter, a service with a state of its own.
\<close>

section \<open>Errors and configuration\<close>

datatype argocd_error =
    ArgoCdConfigurationError string
  | ArgoCdRequestError string
  | ArgoCdApplicationOwnershipError string
  | ArgoCdApplicationNotFoundError string
  | ArgoCdValueError string
  | ArgoCdHTTPError string

record cyberark_parameters =
  cy_app_id :: string
  cy_cert_name :: string
  cy_key_name :: string
  cy_safe :: string

record argocd_client_config =
  ac_url :: string
  ac_token :: string
  ac_skip_ssl_verify :: bool
  ac_project :: string
  ac_application_prefix :: string

record argocd_config = argocd_client_config +
  ac_region :: string
  ac_repository_url :: string
  ac_repository_path :: string
  ac_target_revision :: string
  ac_destination_name :: string
  ac_additional_values :: "string option"
  ac_cyberark :: cyberark_parameters
  ac_default_admins :: "string list"

definition MAX_APPLICATION_NAME_LENGTH :: nat where "MAX_APPLICATION_NAME_LENGTH = 63"
definition MAX_USERNAME_LENGTH :: nat where "MAX_USERNAME_LENGTH = 255"

type_synonym required_settings = "(string \<times> string option) list"

definition missing_settings :: "required_settings \<Rightarrow> string list" where
  "missing_settings required = sort_key id (map fst (filter (\<lambda>(_, v). blank v) required))"

definition required_value :: "required_settings \<Rightarrow> string \<Rightarrow> (argocd_error, string) result" where
  "required_value values name =
     (case map_of values name of
        Some (Some v) \<Rightarrow> Inr (strip v)
      | _ \<Rightarrow> Inl (ArgoCdConfigurationError name))"

definition optional_single_line_value :: "string option \<Rightarrow> string \<Rightarrow> (argocd_error, string option) result" where
  "optional_single_line_value v name =
     (case v of
        None \<Rightarrow> Inr None
      | Some s \<Rightarrow>
          if has_line_break s then Inl (ArgoCdConfigurationError (name @ '' cannot contain line breaks''))
          else Inr (if strip s = [] then None else Some (strip s)))"

definition application_prefix :: "string \<Rightarrow> string \<Rightarrow> (argocd_error, string) result" where
  "application_prefix raw_value setting_name =
     (let prefix = lower (strip raw_value);
          maximum_prefix_length = MAX_APPLICATION_NAME_LENGTH - INSTANCE_SLUG_LENGTH - 1
      in if \<not> label_shape prefix \<or> length prefix > maximum_prefix_length
         then Inl (ArgoCdConfigurationError (setting_name @ '' is not a valid DNS label prefix''))
         else Inr prefix)"

definition parse_default_admins :: "string \<Rightarrow> (argocd_error, string list) result" where
  "parse_default_admins raw_value =
     (if strip raw_value = [] then Inr []
      else let raw_admins = split_on (CHR '','') raw_value;
               admins = map (lower \<circ> strip) raw_admins
        in if list_ex (\<lambda>a. strip a = []) raw_admins
           then Inl (ArgoCdConfigurationError ''CODER_MANAGER_DEFAULT_ADMINS contains an empty username'')
           else if list_ex has_line_break admins
           then Inl (ArgoCdConfigurationError ''CODER_MANAGER_DEFAULT_ADMINS contains a username with line breaks'')
           else if list_ex (\<lambda>a. length a > MAX_USERNAME_LENGTH) admins
           then Inl (ArgoCdConfigurationError
                  ''CODER_MANAGER_DEFAULT_ADMINS contains a username longer than 255 characters'')
           else Inr (sort_key id (remdups admins)))"

definition argocd_client_config_from_settings :: "settings \<Rightarrow> (argocd_error, argocd_client_config) result" where
  "argocd_client_config_from_settings st =
     (let required = [(''CODER_MANAGER_ARGOCD_URL'', s_argocd_url st),
                      (''CODER_MANAGER_ARGOCD_TOKEN'', s_argocd_token st),
                      (''CODER_MANAGER_ARGOCD_PROJECT_NAME'', s_argocd_project_name st),
                      (''CODER_MANAGER_ARGOCD_APPLICATION_PREFIX'', s_argocd_application_prefix st)];
          missing = missing_settings required
      in if missing \<noteq> []
         then Inl (ArgoCdConfigurationError (''Missing required Argo CD client settings: '' @ join '', '' missing))
         else
           rbind (required_value required ''CODER_MANAGER_ARGOCD_URL'') (\<lambda>url.
           rbind (required_value required ''CODER_MANAGER_ARGOCD_TOKEN'') (\<lambda>token.
           rbind (required_value required ''CODER_MANAGER_ARGOCD_PROJECT_NAME'') (\<lambda>project.
           rbind (required_value required ''CODER_MANAGER_ARGOCD_APPLICATION_PREFIX'') (\<lambda>raw_prefix.
           rbind (application_prefix raw_prefix ''CODER_MANAGER_ARGOCD_APPLICATION_PREFIX'') (\<lambda>prefix.
             Inr \<lparr>ac_url = List.rev (dropWhile (\<lambda>c. c = CHR ''/'') (List.rev url)), ac_token = token,
                  ac_skip_ssl_verify = s_argocd_skip_ssl_verify st, ac_project = project,
                  ac_application_prefix = prefix\<rparr>))))))"

definition argocd_config_from_settings :: "settings \<Rightarrow> (argocd_error, argocd_config) result" where
  "argocd_config_from_settings st =
     rbind (argocd_client_config_from_settings st) (\<lambda>client.
     let required = [(''CODER_MANAGER_ARGOCD_REGION'', s_argocd_region st),
                     (''CODER_MANAGER_ARGOCD_REPOSITORY_URL'', s_argocd_repository_url st),
                     (''CODER_MANAGER_ARGOCD_REPOSITORY_PATH'', s_argocd_repository_path st),
                     (''CODER_MANAGER_ARGOCD_TARGET_REVISION'', s_argocd_target_revision st),
                     (''CODER_MANAGER_ARGOCD_DESTINATION_NAME'', s_argocd_destination_name st),
                     (''CODER_MANAGER_CYBERARK_APP_ID'', s_cyberark_app_id st),
                     (''CODER_MANAGER_CYBERARK_CERT_NAME'', s_cyberark_cert_name st),
                     (''CODER_MANAGER_CYBERARK_KEY_NAME'', s_cyberark_key_name st),
                     (''CODER_MANAGER_CYBERARK_SAFE'', s_cyberark_safe st)];
         missing = missing_settings required
     in if missing \<noteq> []
        then Inl (ArgoCdConfigurationError (''Missing required Argo CD settings: '' @ join '', '' missing))
        else
          rbind (case require_argocd_region st of
                   Inl (SettingsValueError m) \<Rightarrow> Inl (ArgoCdConfigurationError m)
                 | Inr region \<Rightarrow> Inr (upper region)) (\<lambda>region.
          rbind (required_value required ''CODER_MANAGER_ARGOCD_REPOSITORY_URL'') (\<lambda>repository_url.
          rbind (required_value required ''CODER_MANAGER_ARGOCD_REPOSITORY_PATH'') (\<lambda>repository_path.
          rbind (required_value required ''CODER_MANAGER_ARGOCD_TARGET_REVISION'') (\<lambda>target_revision.
          rbind (required_value required ''CODER_MANAGER_ARGOCD_DESTINATION_NAME'') (\<lambda>destination_name.
          rbind (optional_single_line_value (s_argocd_additional_values st)
                   ''CODER_MANAGER_ARGOCD_ADDITIONAL_VALUES'') (\<lambda>additional_values.
          rbind (required_value required ''CODER_MANAGER_CYBERARK_APP_ID'') (\<lambda>app_id.
          rbind (required_value required ''CODER_MANAGER_CYBERARK_CERT_NAME'') (\<lambda>cert_name.
          rbind (required_value required ''CODER_MANAGER_CYBERARK_KEY_NAME'') (\<lambda>key_name.
          rbind (required_value required ''CODER_MANAGER_CYBERARK_SAFE'') (\<lambda>safe.
          rbind (parse_default_admins (s_default_admins st)) (\<lambda>default_admins.
            Inr (argocd_client_config.extend client
              (argocd_config.fields region repository_url repository_path target_revision destination_name
                 additional_values \<lparr>cy_app_id = app_id, cy_cert_name = cert_name, cy_key_name = key_name, cy_safe = safe\<rparr>
                 default_admins))))))))))))))"

section \<open>Applications\<close>

definition INSTANCE_ID_LABEL :: string where "INSTANCE_ID_LABEL = ''coder-manager/instance-id''"
definition REGION_LABEL :: string where "REGION_LABEL = ''region''"
definition DOMAIN_LABEL :: string where "DOMAIN_LABEL = ''domain''"
definition TIER_LABEL :: string where "TIER_LABEL = ''tier''"
definition DOMAIN_LABEL_VALUE :: string where "DOMAIN_LABEL_VALUE = ''code-station''"
definition TIER_LABEL_VALUE :: string where "TIER_LABEL_VALUE = ''standard''"
definition APPLICATION_NAMESPACE :: string where "APPLICATION_NAMESPACE = ''app-code-instance''"
definition ACTIVE_OPERATION_PHASES :: "string list" where "ACTIVE_OPERATION_PHASES = [''Running'', ''Terminating'']"

definition application_name :: "('a argocd_client_config_scheme) \<Rightarrow> string \<Rightarrow> string option \<Rightarrow> string" where
  "application_name config slug attached_name =
     (case attached_name of
        Some n \<Rightarrow> if n \<noteq> [] then n else ac_application_prefix config @ ''-'' @ slug
      | None \<Rightarrow> ac_application_prefix config @ ''-'' @ slug)"

definition helm_escape :: "string \<Rightarrow> string" where
  "helm_escape v = replace_all '','' [CHR 0x5C, CHR '',''] (replace_all [CHR 0x5C] [CHR 0x5C, CHR 0x5C] v)"

definition helm_scalar_argument :: "string \<Rightarrow> string \<Rightarrow> (argocd_error, string) result" where
  "helm_scalar_argument name v =
     (if has_line_break v
      then Inl (ArgoCdRequestError (''Helm argument '' @ name @ '' cannot contain line breaks''))
      else Inr (''--set '' @ name @ ''='' @ helm_escape v))"

definition member_values :: "string list \<Rightarrow> (string \<times> string) list \<Rightarrow> string list \<times> string list" where
  "member_values default_admins ms =
     (let base = ADMIN_USERNAME # default_admins;
          admins = base @ map fst (filter (\<lambda>(_, role). role = ''admin'') ms);
          users = base @ map fst ms
      in (sort_key id (remdups users), sort_key id (remdups admins)))"


text \<open>
  \<^verbatim>\<open>urlsplit(url).hostname\<close>: the host of the part between the two slashes and the path, without
  user, port and brackets, in lower case. A bracket without its partner is an error; the
  address between two brackets is not examined further.
\<close>

definition url_netloc :: "string \<Rightarrow> string" where
  "url_netloc url =
     (let clean = filter (\<lambda>c. of_char c \<notin> {9, 10, 13 :: nat}) (dropWhile (\<lambda>c. (of_char c :: nat) \<le> 32) url);
          scheme = takeWhile (\<lambda>c. c \<noteq> CHR '':'') clean;
          alpha = (\<lambda>c. let n = (of_char c :: nat) in 65 \<le> n \<and> n \<le> 90 \<or> 97 \<le> n \<and> n \<le> 122);
          scheme_char = (\<lambda>c. alpha c \<or> 48 \<le> (of_char c :: nat) \<and> (of_char c :: nat) \<le> 57 \<or> c \<in> set ''+-.'');
          rest = (if scheme \<noteq> clean \<and> scheme \<noteq> [] \<and> alpha (hd scheme) \<and> list_all scheme_char scheme
                  then drop (length scheme + 1) clean else clean)
      in if take 2 rest = ''//'' then takeWhile (\<lambda>c. c \<notin> set ''/?#'') (drop 2 rest) else [])"

definition url_hostname :: "string \<Rightarrow> (argocd_error, string option) result" where
  "url_hostname url =
     (let netloc = url_netloc url;
          hostinfo = List.rev (takeWhile (\<lambda>c. c \<noteq> CHR ''@'') (List.rev netloc));
          hostname = (if CHR ''['' \<in> set hostinfo
                      then takeWhile (\<lambda>c. c \<noteq> CHR '']'') (drop 1 (dropWhile (\<lambda>c. c \<noteq> CHR ''['') hostinfo))
                      else takeWhile (\<lambda>c. c \<noteq> CHR '':'') hostinfo);
          name = takeWhile (\<lambda>c. c \<noteq> CHR ''%'') hostname
      in if (CHR ''['' \<in> set netloc) \<noteq> (CHR '']'' \<in> set netloc) then Inl (ArgoCdValueError ''Invalid IPv6 URL'')
         else Inr (if hostname = [] then None else Some (lower name @ drop (length name) hostname)))"

definition helm_base_domain :: "instance_helm_values_data \<Rightarrow> (argocd_error, string) result" where
  "helm_base_domain hv =
     rbind (url_hostname (hv_public_url hv)) (\<lambda>hostname.
       require hostname (ArgoCdValueError ''Instance public URL does not contain a hostname''))"

definition wildcard_access_host :: "instance_helm_values_data \<Rightarrow> (argocd_error, string) result" where
  "wildcard_access_host hv = rbind (helm_base_domain hv) (\<lambda>b. Inr (''*.'' @ b))"

definition b64_char :: "nat \<Rightarrow> char" where
  "b64_char n = b64_alphabet ! n"

fun b64_encode :: "nat list \<Rightarrow> string" where
  "b64_encode (a # b # c # r) =
     map b64_char [a div 4, a mod 4 * 16 + b div 16, b mod 16 * 4 + c div 64, c mod 64] @ b64_encode r"
| "b64_encode [a, b] = map b64_char [a div 4, a mod 4 * 16 + b div 16, b mod 16 * 4] @ ''=''"
| "b64_encode [a] = map b64_char [a div 4, a mod 4 * 16] @ ''==''"
| "b64_encode [] = []"

definition b64encode :: "bytes \<Rightarrow> string" where
  "b64encode b = b64_encode (map unat b)"

fun collect :: "('e, 'a) result list \<Rightarrow> ('e, 'a list) result" where
  "collect [] = Inr []"
| "collect (r # rs) = rbind r (\<lambda>x. rbind (collect rs) (\<lambda>xs. Inr (x # xs)))"

definition helm_argument_lines ::
  "argocd_config \<Rightarrow> (string \<times> string) list \<Rightarrow> instance_helm_values_data \<Rightarrow> (argocd_error, string list) result" where
  "helm_argument_lines config ms hv =
     (let (users, admins) = member_values (ac_default_admins config) ms in
      rbind (collect
        [helm_scalar_argument ''policy.config.allowedUsernames'' (join '','' users),
         helm_scalar_argument ''policy.config.adminUsernames'' (join '','' admins),
         rbind (helm_base_domain hv) (helm_scalar_argument ''global.baseDomain''),
         helm_scalar_argument ''global.identifier'' (hv_slug hv),
         helm_scalar_argument ''server.config.postgres.username''
           (''<secret:'' @ hv_managed_database_name hv @ ''#username>''),
         helm_scalar_argument ''server.config.postgres.password''
           (''<secret:'' @ hv_managed_database_name hv @ ''#password>''),
         helm_scalar_argument ''server.config.postgres.host'' (hv_database_host hv),
         helm_scalar_argument ''server.config.postgres.database'' (hv_database_name hv),
         helm_scalar_argument ''server.config.postgres.schema'' (hv_database_schema hv)]) (\<lambda>scalars.
      rbind (case hv_kubeconfig hv of
               None \<Rightarrow> Inr []
             | Some k \<Rightarrow> collect [helm_scalar_argument ''server.config.kube'' (b64encode k)]) (\<lambda>kube.
        Inr ((case ac_additional_values config of None \<Rightarrow> [] | Some v \<Rightarrow> [''--values '' @ v])
             @ [''--namespace '' @ APPLICATION_NAMESPACE] @ scalars @ kube))))"

definition application_labels :: "argocd_config \<Rightarrow> uuid \<Rightarrow> (string \<times> json) list" where
  "application_labels config instance_id =
     [(INSTANCE_ID_LABEL, JStr (uuid_text instance_id)), (REGION_LABEL, JStr (ac_region config)),
      (DOMAIN_LABEL, JStr DOMAIN_LABEL_VALUE), (TIER_LABEL, JStr TIER_LABEL_VALUE)]"

definition application_spec :: "argocd_config \<Rightarrow> string \<Rightarrow> json" where
  "application_spec config helm_arguments =
     (let cyberark = ac_cyberark config in
      JObj [(''project'', JStr (ac_project config)),
        (''source'', JObj [(''repoURL'', JStr (ac_repository_url config)), (''path'', JStr (ac_repository_path config)),
           (''targetRevision'', JStr (ac_target_revision config)),
           (''plugin'', JObj [(''name'', JStr ''argocd-cyberark-plugin-helm''),
              (''env'', JArr [JObj [(''name'', JStr ''HELM_ARGS''), (''value'', JStr helm_arguments)]]),
              (''parameters'', JArr [JObj [(''name'', JStr ''cyberark''),
                 (''map'', JObj [(''appId'', JStr (cy_app_id cyberark)), (''certName'', JStr (cy_cert_name cyberark)),
                    (''keyName'', JStr (cy_key_name cyberark)), (''region'', JStr (ac_region config)),
                    (''safe'', JStr (cy_safe cyberark))])]])])]),
        (''destination'', JObj [(''name'', JStr (ac_destination_name config)),
           (''namespace'', JStr APPLICATION_NAMESPACE)]),
        (''syncPolicy'', JObj [(''automated'', JObj [(''prune'', JBool True), (''selfHeal'', JBool True)])])])"

record application =
  ap_api_version :: json
  ap_kind :: json
  ap_name :: string
  ap_labels :: "(string \<times> json) list"
  ap_spec :: json

definition application_payload ::
  "argocd_config \<Rightarrow> string \<Rightarrow> uuid \<Rightarrow> (string \<times> string) list \<Rightarrow> instance_helm_values_data
    \<Rightarrow> (argocd_error, application) result" where
  "application_payload config name instance_id ms hv =
     rbind (helm_argument_lines config ms hv) (\<lambda>helm_argument_lines.
       Inr \<lparr>ap_api_version = JStr ''argoproj.io/v1alpha1'', ap_kind = JStr ''Application'', ap_name = name,
            ap_labels = application_labels config instance_id,
            ap_spec = application_spec config (join [CHR 0x0A] helm_argument_lines @ [CHR 0x0A])\<rparr>)"

definition application_json :: "application \<Rightarrow> json" where
  "application_json a = JObj [(''apiVersion'', ap_api_version a), (''kind'', ap_kind a),
     (''metadata'', JObj [(''name'', JStr (ap_name a)), (''labels'', JObj (ap_labels a))]), (''spec'', ap_spec a)]"


text \<open>The merge keeps what Argo CD owns, the server metadata and foreign labels.\<close>

definition merged_labels :: "(string \<times> json) list \<Rightarrow> (string \<times> json) list \<Rightarrow> (string \<times> json) list" where
  "merged_labels metadata desired =
     (let labels = (case field metadata ''labels'' of JObj m \<Rightarrow> m | _ \<Rightarrow> []);
          kept = filter (\<lambda>(k, _). k \<notin> {''coder-manager/managed'', ''environment''}) labels
      in foldl (\<lambda>acc (k, v). dict_set k v acc) kept desired)"

definition application_update_payload :: "(string \<times> json) list \<Rightarrow> application \<Rightarrow> (argocd_error, json) result" where
  "application_update_payload existing desired =
     (case field existing ''metadata'' of
        JObj metadata \<Rightarrow>
          let md = dict_set ''name'' (JStr (ap_name desired))
                     (dict_set ''labels'' (JObj (merged_labels metadata (ap_labels desired))) metadata);
              keep = (\<lambda>key v. case map_of existing key of None \<Rightarrow> v | Some x \<Rightarrow> x)
          in Inr (JObj [(''apiVersion'', keep ''apiVersion'' (ap_api_version desired)),
               (''kind'', keep ''kind'' (ap_kind desired)), (''metadata'', JObj md), (''spec'', ap_spec desired)])
      | _ \<Rightarrow> Inl (ArgoCdRequestError ''Argo CD returned an Application without metadata''))"

fun nested :: "json \<Rightarrow> string list \<Rightarrow> json option" where
  "nested v [] = Some v"
| "nested v (key # path) = (case v of JObj m \<Rightarrow> nested (field m key) path | _ \<Rightarrow> None)"

definition nested_string :: "(string \<times> json) list \<Rightarrow> string list \<Rightarrow> string option" where
  "nested_string payload path = (case nested (JObj payload) path of Some (JStr s) \<Rightarrow> Some s | _ \<Rightarrow> None)"

record argocd_application_status =
  as_application_name :: string
  as_sync_status :: "string option"
  as_health_status :: "string option"
  as_operation_phase :: "string option"
  as_revision :: "string option"
  as_reconciled_at :: "string option"

definition application_status :: "string \<Rightarrow> (string \<times> json) list \<Rightarrow> argocd_application_status" where
  "application_status name app =
     \<lparr>as_application_name = name,
      as_sync_status = nested_string app [''status'', ''sync'', ''status''],
      as_health_status = nested_string app [''status'', ''health'', ''status''],
      as_operation_phase = nested_string app [''status'', ''operationState'', ''phase''],
      as_revision = nested_string app [''status'', ''sync'', ''revision''],
      as_reconciled_at = nested_string app [''status'', ''reconciledAt'']\<rparr>"

definition application_operation_is_active :: "(string \<times> json) list \<Rightarrow> bool" where
  "application_operation_is_active app =
     (case nested_string app [''status'', ''operationState'', ''phase''] of
        None \<Rightarrow> False
      | Some phase \<Rightarrow> phase \<in> set ACTIVE_OPERATION_PHASES)"

section \<open>The client\<close>

definition response_message :: "http_response \<Rightarrow> string option" where
  "response_message response =
     (case rs_json response of
        Some (JObj payload) \<Rightarrow>
          (case field payload ''message'' of
             JStr message \<Rightarrow> if strip message = [] then None else Some message
           | _ \<Rightarrow> None)
      | _ \<Rightarrow> None)"

definition argocd_raise_for_response :: "http_response \<Rightarrow> string \<Rightarrow> string \<Rightarrow> (argocd_error, unit) result" where
  "argocd_raise_for_response response meth path =
     (if 200 \<le> rs_status response \<and> rs_status response < 300 then Inr ()
      else let msg = ''Argo CD '' @ meth @ '' '' @ path @ '' returned HTTP '' @ int_text (rs_status response)
        in Inl (ArgoCdRequestError (case response_message response of None \<Rightarrow> msg | Some m \<Rightarrow> msg @ '': '' @ m)))"

definition argocd_json_object :: "http_response \<Rightarrow> string \<Rightarrow> (argocd_error, (string \<times> json) list) result" where
  "argocd_json_object response path =
     (case rs_json response of
        None \<Rightarrow> Inl (ArgoCdRequestError (''Argo CD GET '' @ path @ '' returned invalid JSON''))
      | Some (JObj payload) \<Rightarrow> Inr payload
      | Some _ \<Rightarrow> Inl (ArgoCdRequestError (''Argo CD GET '' @ path @ '' returned a non-object JSON response'')))"

definition application_deletion_is_pending :: "(string \<times> json) list \<Rightarrow> bool" where
  "application_deletion_is_pending app =
     (case field app ''metadata'' of JObj metadata \<Rightarrow> field metadata ''deletionTimestamp'' \<noteq> JNull | _ \<Rightarrow> False)"

text \<open>Every request carries the token of the configuration.\<close>

definition authorized ::
  "(argocd_error, 's) service \<Rightarrow> 'a argocd_client_config_scheme \<Rightarrow> string \<Rightarrow> string \<Rightarrow> pairs \<Rightarrow> body
    \<Rightarrow> (argocd_error, 's, http_response) exchange" where
  "authorized tr config meth path params b c =
     (let (s, r) = tr \<lparr>rq_method = meth, rq_path = path, rq_params = params, rq_token = Some (ac_token config),
                       rq_body = b\<rparr> (cl_server c)
      in (c\<lparr>cl_server := s\<rparr>, r))"

definition application_path :: "string \<Rightarrow> string" where
  "application_path name = ''api/v1/applications/'' @ name"

definition get_application ::
  "(argocd_error, 's) service \<Rightarrow> 'a argocd_client_config_scheme \<Rightarrow> string
    \<Rightarrow> (argocd_error, 's, (string \<times> json) list option) exchange" where
  "get_application tr config name =
     (let path = application_path name in
      cbind (authorized tr config ''GET'' path [(''project'', ac_project config)] NoBody) (\<lambda>response.
      if rs_status response = 404 then creturn None
      else cbind (clift (argocd_raise_for_response response ''GET'' path)) (\<lambda>_.
           cbind (clift (argocd_json_object response path)) (\<lambda>app. creturn (Some app)))))"

definition application_owner :: "(string \<times> json) list \<Rightarrow> json" where
  "application_owner app =
     (case field app ''metadata'' of
        JObj metadata \<Rightarrow> (case field metadata ''labels'' of JObj labels \<Rightarrow> field labels INSTANCE_ID_LABEL | _ \<Rightarrow> JNull)
      | _ \<Rightarrow> JNull)"

definition not_owned :: "string \<Rightarrow> uuid \<Rightarrow> argocd_error" where
  "not_owned name instance_id = ArgoCdApplicationOwnershipError
     (''Argo CD Application '' @ name @ '' is not owned by instance '' @ uuid_text instance_id)"

definition get_owned_application ::
  "(argocd_error, 's) service \<Rightarrow> 'a argocd_client_config_scheme \<Rightarrow> string \<Rightarrow> uuid
    \<Rightarrow> (argocd_error, 's, (string \<times> json) list option) exchange" where
  "get_owned_application tr config name instance_id =
     cbind (get_application tr config name) (\<lambda>found.
     case found of
       None \<Rightarrow> creturn None
     | Some app \<Rightarrow>
         if application_owner app \<noteq> JStr (uuid_text instance_id) then craise (not_owned name instance_id)
         else creturn (Some app))"


text \<open>
  The creation attempt of a reconciliation. It returns the Application that another worker
  created in between, if any, and nothing at all when that one has an operation under way.
\<close>

definition create_application ::
  "(argocd_error, 's) service \<Rightarrow> argocd_config \<Rightarrow> string \<Rightarrow> uuid \<Rightarrow> application
    \<Rightarrow> (argocd_error, 's, (string \<times> json) list option option) exchange" where
  "create_application tr config name instance_id desired =
     (let path = ''api/v1/applications'' in
      cbind (authorized tr config ''POST'' path [(''upsert'', ''false''), (''validate'', ''true'')]
               (JsonBody (application_json desired))) (\<lambda>response.
      if rs_status response = 409
      then cbind (get_owned_application tr config name instance_id) (\<lambda>existing.
           case existing of
             None \<Rightarrow> cbind (clift (argocd_raise_for_response response ''POST'' path)) (\<lambda>_. creturn (Some None))
           | Some app \<Rightarrow> creturn (if application_operation_is_active app then None else Some (Some app)))
      else cbind (clift (argocd_raise_for_response response ''POST'' path)) (\<lambda>_. creturn (Some None))))"

definition replace_application ::
  "(argocd_error, 's) service \<Rightarrow> argocd_config \<Rightarrow> string \<Rightarrow> application \<Rightarrow> (string \<times> json) list
    \<Rightarrow> (argocd_error, 's, unit) exchange" where
  "replace_application tr config name desired existing =
     (let path = application_path name in
      cbind (clift (application_update_payload existing desired)) (\<lambda>payload.
      cbind (authorized tr config ''PUT'' path [(''project'', ac_project config), (''validate'', ''true'')]
               (JsonBody payload)) (\<lambda>response.
      clift (argocd_raise_for_response response ''PUT'' path))))"

definition reconciled :: "string \<Rightarrow> argocd_mutation_status \<Rightarrow> argocd_reconcile_result" where
  "reconciled name st = \<lparr>rc_status = st, rc_application_name = name\<rparr>"

definition sync_application ::
  "(argocd_error, 's) service \<Rightarrow> argocd_config \<Rightarrow> string \<Rightarrow> uuid
    \<Rightarrow> (argocd_error, 's, argocd_reconcile_result) exchange" where
  "sync_application tr config name instance_id =
     (let sync_path = application_path name @ ''/sync'' in
      cbind (get_owned_application tr config name instance_id) (\<lambda>current.
      if (case current of None \<Rightarrow> False | Some app \<Rightarrow> application_operation_is_active app)
      then creturn (reconciled name DEFERRED)
      else cbind (authorized tr config ''POST'' sync_path [(''project'', ac_project config)] (JsonBody (JObj []))) (\<lambda>response.
           cbind (clift (argocd_raise_for_response response ''POST'' sync_path)) (\<lambda>_.
           creturn (reconciled name COMPLETED)))))"

definition ensure_application ::
  "(argocd_error, 's) service \<Rightarrow> argocd_config \<Rightarrow> uuid \<Rightarrow> string \<Rightarrow> string option \<Rightarrow> (string \<times> string) list
    \<Rightarrow> instance_helm_values_data \<Rightarrow> (argocd_error, 's, argocd_reconcile_result) exchange" where
  "ensure_application tr config instance_id slug attached_name ms hv =
     (let name = application_name config slug attached_name in
      cbind (clift (application_payload config name instance_id ms hv)) (\<lambda>desired.
      cbind (get_owned_application tr config name instance_id) (\<lambda>first.
      cbind (case first of
               None \<Rightarrow> create_application tr config name instance_id desired
             | Some app \<Rightarrow> creturn (if application_operation_is_active app then None else Some (Some app))) (\<lambda>outcome.
      case outcome of
        None \<Rightarrow> creturn (reconciled name DEFERRED)
      | Some existing \<Rightarrow>
          cbind (case existing of None \<Rightarrow> creturn () | Some app \<Rightarrow> replace_application tr config name desired app) (\<lambda>_.
          sync_application tr config name instance_id)))))"

definition get_application_status ::
  "(argocd_error, 's) service \<Rightarrow> 'a argocd_client_config_scheme \<Rightarrow> uuid \<Rightarrow> string \<Rightarrow> string option
    \<Rightarrow> (argocd_error, 's, argocd_application_status) exchange" where
  "get_application_status tr config instance_id slug attached_name =
     (let name = application_name config slug attached_name in
      cbind (get_owned_application tr config name instance_id) (\<lambda>found.
      case found of
        None \<Rightarrow> craise (ArgoCdApplicationNotFoundError name)
      | Some app \<Rightarrow> creturn (application_status name app)))"

definition application_exists ::
  "(argocd_error, 's) service \<Rightarrow> 'a argocd_client_config_scheme \<Rightarrow> uuid \<Rightarrow> string \<Rightarrow> string option
    \<Rightarrow> (argocd_error, 's, bool) exchange" where
  "application_exists tr config instance_id slug attached_name =
     cbind (get_owned_application tr config (application_name config slug attached_name) instance_id)
       (\<lambda>found. creturn (found \<noteq> None))"

definition delete_application ::
  "(argocd_error, 's) service \<Rightarrow> 'a argocd_client_config_scheme \<Rightarrow> uuid \<Rightarrow> string \<Rightarrow> string option
    \<Rightarrow> (argocd_error, 's, argocd_mutation_status) exchange" where
  "delete_application tr config instance_id slug attached_name =
     (let name = application_name config slug attached_name; path = application_path name in
      cbind (get_owned_application tr config name instance_id) (\<lambda>existing.
      case existing of
        None \<Rightarrow> creturn COMPLETED
      | Some app \<Rightarrow>
          if application_operation_is_active app \<or> application_deletion_is_pending app then creturn DEFERRED
          else
            cbind (authorized tr config ''DELETE'' path
                     [(''cascade'', ''true''), (''propagationPolicy'', ''foreground''), (''project'', ac_project config)]
                     NoBody) (\<lambda>response.
            if rs_status response = 404 then creturn COMPLETED
            else
              cbind (clift (argocd_raise_for_response response ''DELETE'' path)) (\<lambda>_.
              cbind (get_owned_application tr config name instance_id) (\<lambda>remaining.
              creturn (if remaining = None then COMPLETED else DEFERRED))))))"

section \<open>The services\<close>

definition reconcile_instance_application ::
  "(argocd_error, 's) service \<Rightarrow> settings \<Rightarrow> uuid \<Rightarrow> string \<Rightarrow> string option \<Rightarrow> (string \<times> string) list
    \<Rightarrow> instance_helm_values_data \<Rightarrow> (argocd_error, 's, argocd_reconcile_result) exchange" where
  "reconcile_instance_application tr st instance_id slug attached_name ms hv =
     cbind (clift (argocd_config_from_settings st)) (\<lambda>config.
     ensure_application tr config instance_id slug attached_name ms hv)"

definition delete_instance_application ::
  "(argocd_error, 's) service \<Rightarrow> settings \<Rightarrow> uuid \<Rightarrow> string \<Rightarrow> string option
    \<Rightarrow> (argocd_error, 's, argocd_mutation_status) exchange" where
  "delete_instance_application tr st instance_id slug attached_name =
     cbind (clift (argocd_config_from_settings st)) (\<lambda>config.
     delete_application tr config instance_id slug attached_name)"

definition instance_application_exists ::
  "(argocd_error, 's) service \<Rightarrow> settings \<Rightarrow> uuid \<Rightarrow> string \<Rightarrow> string option \<Rightarrow> (argocd_error, 's, bool) exchange" where
  "instance_application_exists tr st instance_id slug attached_name =
     cbind (clift (argocd_config_from_settings st)) (\<lambda>config.
     application_exists tr config instance_id slug attached_name)"

definition read_instance_application_status ::
  "(argocd_error, 's) service \<Rightarrow> settings \<Rightarrow> uuid \<Rightarrow> string \<Rightarrow> string option
    \<Rightarrow> (argocd_error, 's, argocd_application_status) exchange" where
  "read_instance_application_status tr st instance_id slug attached_name =
     cbind (clift (argocd_client_config_from_settings st)) (\<lambda>config.
     get_application_status tr config instance_id slug attached_name)"


section \<open>Base64\<close>

lemma b64_value_char: "n < 64 \<Longrightarrow> b64_value (b64_char n) = Some n"
proof -
  assume "n < 64"
  moreover have "list_all (\<lambda>n. b64_value (b64_char n) = Some n) [0..<64]" by code_simp
  ultimately show ?thesis by (simp add: list_all_iff)
qed

lemma b64_char_pad: "n < 64 \<Longrightarrow> b64_char n \<noteq> CHR ''=''"
proof
  assume "n < 64" and "b64_char n = CHR ''=''"
  then have "b64_value (CHR ''='') = Some n" using b64_value_char by force
  moreover have "b64_value (CHR ''='') = None" by code_simp
  ultimately show False by simp
qed

text \<open>The digits of an encoding, without the padding.\<close>

fun sextets :: "nat list \<Rightarrow> nat list" where
  "sextets (a # b # c # r) = [a div 4, a mod 4 * 16 + b div 16, b mod 16 * 4 + c div 64, c mod 64] @ sextets r"
| "sextets [a, b] = [a div 4, a mod 4 * 16 + b div 16, b mod 16 * 4]"
| "sextets [a] = [a div 4, a mod 4 * 16]"
| "sextets [] = []"

lemma sextets_small: "list_all (\<lambda>x. x < 256) bs \<Longrightarrow> list_all (\<lambda>n. n < 64) (sextets bs)"
proof (induction bs rule: sextets.induct)
  case (1 a b c r)
  then have "a div 4 < 64" "b div 16 < 16" "c div 64 < 4" by auto
  with 1 show ?case by (auto simp: less_mult_imp_div_less)
qed auto

lemma b64_encode_sextets:
  "b64_encode bs = map b64_char (sextets bs) @ (if length bs mod 3 = 0 then [] else if length bs mod 3 = 2 then ''='' else ''=='')"
  by (induction bs rule: sextets.induct) (auto simp: numeral_2_eq_2)

lemma sextets_length: "length (sextets bs) mod 4 = (if length bs mod 3 = 0 then 0 else length bs mod 3 + 1)"
  by (induction bs rule: sextets.induct) auto

lemma sextets_bytes: "list_all (\<lambda>x. x < 256) bs \<Longrightarrow> b64_bytes (sextets bs) = bs"
proof (induction bs rule: sextets.induct)
  case (1 a b c r)
  have "a div 4 * 4 + (a mod 4 * 16 + b div 16) div 16 = a" using 1 by (auto; presburger)
  moreover have "(a mod 4 * 16 + b div 16) mod 16 * 16 + (b mod 16 * 4 + c div 64) div 4 = b" using 1 by (auto; presburger)
  moreover have "(b mod 16 * 4 + c div 64) mod 4 * 64 + c mod 64 = c" using 1 by (auto; presburger)
  ultimately show ?case using 1 by simp
next
  case (2 a b)
  have "a div 4 * 4 + (a mod 4 * 16 + b div 16) div 16 = a" using 2 by (auto; presburger)
  moreover have "(a mod 4 * 16 + b div 16) mod 16 * 16 + (b mod 16 * 4) div 4 = b" using 2 by (auto; presburger)
  ultimately show ?case by simp
qed auto


lemma b64_roundtrip: "b64decode (b64encode b) = Some b"
proof -
  define bs where "bs = map unat b"
  have small: "list_all (\<lambda>x. x < 256) bs"
    using unsigned_less[where ?'a = nat and ?'b = 8] by (auto simp: bs_def list_all_iff)
  define pad where "pad = (if length bs mod 3 = 0 then [] else if length bs mod 3 = 2 then ''='' else ''=='')"
  have s64: "n < 64" if "n \<in> set (sextets bs)" for n
    using sextets_small[OF small] that by (auto simp: list_all_iff)
  then have plain: "CHR ''='' \<notin> set (map b64_char (sextets bs))" using b64_char_pad by fastforce
  have enc: "b64encode b = map b64_char (sextets bs) @ pad"
    by (simp add: b64encode_def bs_def[symmetric] b64_encode_sextets pad_def)
  have tw: "takeWhile (\<lambda>c. c \<noteq> CHR ''='') (b64encode b) = map b64_char (sextets bs)"
    and dw: "dropWhile (\<lambda>c. c \<noteq> CHR ''='') (b64encode b) = pad"
    unfolding enc take_until[OF plain] drop_until[OF plain] by (simp_all add: pad_def)
  have vals: "map b64_value (map b64_char (sextets bs)) = map Some (sextets bs)"
    using s64 b64_value_char by auto
  have "(length (sextets bs) mod 4, pad) \<in> {(0, []), (2, ''==''), (3, ''='')}"
    using sextets_length[of bs] by (auto simp: pad_def)
  then have "b64decode (b64encode b) = Some (map of_nat (b64_bytes (sextets bs)))"
    unfolding b64decode_def Let_def tw dw vals by (auto simp: comp_def)
  also have "b64_bytes (sextets bs) = bs" using sextets_bytes[OF small] .
  also have "map of_nat bs = b" by (simp add: bs_def comp_def)
  finally show ?thesis .
qed

section \<open>Helm arguments\<close>

text \<open>How Helm reads the argument text: one argument per line, a backslash quotes the next character.\<close>

fun helm_unescape :: "string \<Rightarrow> string" where
  "helm_unescape [] = []"
| "helm_unescape [c] = [c]"
| "helm_unescape (c # c' # s) = (if c = CHR 0x5C then c' # helm_unescape s else c # helm_unescape (c' # s))"

definition helm_setting :: "string \<Rightarrow> (string \<times> string) option" where
  "helm_setting line =
     (if take 6 line = ''--set ''
      then Some (takeWhile (\<lambda>c. c \<noteq> CHR ''='') (drop 6 line),
                 helm_unescape (drop 1 (dropWhile (\<lambda>c. c \<noteq> CHR ''='') (drop 6 line))))
      else None)"

definition helm_settings :: "string \<Rightarrow> (string \<times> string) list" where
  "helm_settings helm_arguments = List.map_filter helm_setting (split_on (CHR 0x0A) helm_arguments)"

lemma replace_all_char: "replace_all [a] new s = concat (map (\<lambda>c. if c = a then new else [c]) s)"
  by (induction s) auto

definition escape_char :: "char \<Rightarrow> string" where
  "escape_char c = (if c = CHR 0x5C \<or> c = CHR '','' then [CHR 0x5C, c] else [c])"

lemma helm_escape_chars: "helm_escape v = concat (map escape_char v)"
  unfolding helm_escape_def replace_all_char by (induction v) (auto simp: escape_char_def)

lemma helm_unescape_escape: "helm_unescape (helm_escape v) = v"
proof -
  have "helm_unescape (escape_char c @ s) = c # helm_unescape s" for c s
    by (cases s) (auto simp: escape_char_def)
  then show ?thesis unfolding helm_escape_chars by (induction v) auto
qed

lemma helm_escape_line: "CHR 0x0A \<notin> set v \<Longrightarrow> CHR 0x0A \<notin> set (helm_escape v)"
  unfolding helm_escape_chars by (auto simp: escape_char_def split: if_splits)

lemma helm_scalar_setting:
  assumes "helm_scalar_argument name v = Inr line" and "CHR ''='' \<notin> set name" and "CHR 0x0A \<notin> set name"
  shows "helm_setting line = Some (name, v)" and "CHR 0x0A \<notin> set line"
proof -
  have line: "line = ''--set '' @ name @ ''='' @ helm_escape v" and v: "CHR 0x0A \<notin> set v"
    using assms(1) by (auto simp: helm_scalar_argument_def has_line_break_def split: if_splits)
  have "takeWhile (\<lambda>c. c \<noteq> CHR ''='') (name @ ''='' @ helm_escape v) = name"
    and "dropWhile (\<lambda>c. c \<noteq> CHR ''='') (name @ ''='' @ helm_escape v) = ''='' @ helm_escape v"
    using assms(2) by (simp_all add: take_until drop_until)
  then show "helm_setting line = Some (name, v)" by (simp add: line helm_setting_def helm_unescape_escape)
  show "CHR 0x0A \<notin> set line" using assms(3) helm_escape_line[OF v] by (simp add: line)
qed

lemma split_lines:
  assumes "ls \<noteq> []" and "\<forall>l \<in> set ls. CHR 0x0A \<notin> set l"
  shows "split_on (CHR 0x0A) (join [CHR 0x0A] ls @ [CHR 0x0A]) = ls @ [[]]"
  using assms
proof (induction "[CHR 0x0A]" ls rule: join.induct)
  case (2 x)
  then show ?case using split_on_append[of "CHR 0x0A" x "[]"] by simp
next
  case (3 x y r)
  then show ?case using split_on_append[of "CHR 0x0A" x "join [CHR 0x0A] (y # r) @ [CHR 0x0A]"] by simp
qed simp

end
