(* ===== verification/Api.thy ===== *)
theory Api
  imports ArgoCd Assignments
begin

text \<open>
  What the routes (\<^verbatim>\<open>api/routes/\<close>) and the response schemas (\<^verbatim>\<open>schemas/\<close>) share: an answer is a
  response or a failure, and a failure is an \<^verbatim>\<open>HTTPException\<close> or an exception that no handler
  translates, which the server answers with status 500. A route is a function of the
  application, its request and the world. The schemas ending in \<open>Read\<close> are records without the
  audit columns.
\<close>

section \<open>Answers\<close>

record http_exception =
  hx_status :: nat
  hx_detail :: string
  hx_headers :: "(string \<times> string) list"

datatype failure = HTTPException http_exception | Unhandled

record 'a reply =
  rp_status :: nat
  rp_headers :: "(string \<times> string) list"
  rp_body :: 'a

type_synonym 'a answer = "(failure, 'a reply) result"

definition HTTP_200_OK :: nat where "HTTP_200_OK = 200"
definition HTTP_201_CREATED :: nat where "HTTP_201_CREATED = 201"
definition HTTP_202_ACCEPTED :: nat where "HTTP_202_ACCEPTED = 202"
definition HTTP_204_NO_CONTENT :: nat where "HTTP_204_NO_CONTENT = 204"
definition HTTP_401_UNAUTHORIZED :: nat where "HTTP_401_UNAUTHORIZED = 401"
definition HTTP_403_FORBIDDEN :: nat where "HTTP_403_FORBIDDEN = 403"
definition HTTP_404_NOT_FOUND :: nat where "HTTP_404_NOT_FOUND = 404"
definition HTTP_409_CONFLICT :: nat where "HTTP_409_CONFLICT = 409"
definition HTTP_422_UNPROCESSABLE_CONTENT :: nat where "HTTP_422_UNPROCESSABLE_CONTENT = 422"
definition HTTP_502_BAD_GATEWAY :: nat where "HTTP_502_BAD_GATEWAY = 502"
definition HTTP_503_SERVICE_UNAVAILABLE :: nat where "HTTP_503_SERVICE_UNAVAILABLE = 503"

lemmas http_status_defs = HTTP_200_OK_def HTTP_201_CREATED_def HTTP_202_ACCEPTED_def HTTP_204_NO_CONTENT_def
  HTTP_401_UNAUTHORIZED_def HTTP_403_FORBIDDEN_def HTTP_404_NOT_FOUND_def HTTP_409_CONFLICT_def
  HTTP_422_UNPROCESSABLE_CONTENT_def HTTP_502_BAD_GATEWAY_def HTTP_503_SERVICE_UNAVAILABLE_def

definition NO_STORE_HEADERS :: "(string \<times> string) list" where
  "NO_STORE_HEADERS = [(''Cache-Control'', ''no-store'')]"

definition http_error :: "nat \<Rightarrow> string \<Rightarrow> failure" where
  "http_error code message = HTTPException \<lparr>hx_status = code, hx_detail = message, hx_headers = []\<rparr>"

definition no_store_error :: "nat \<Rightarrow> string \<Rightarrow> failure" where
  "no_store_error code message =
     HTTPException \<lparr>hx_status = code, hx_detail = message, hx_headers = NO_STORE_HEADERS\<rparr>"

definition reply :: "nat \<Rightarrow> 'a \<Rightarrow> 'a reply" where
  "reply code content = \<lparr>rp_status = code, rp_headers = [], rp_body = content\<rparr>"

definition no_store_reply :: "nat \<Rightarrow> 'a \<Rightarrow> 'a reply" where
  "no_store_reply code content = \<lparr>rp_status = code, rp_headers = NO_STORE_HEADERS, rp_body = content\<rparr>"

text \<open>The clauses of a \<^verbatim>\<open>try\<close>: every exception of the repository is mapped to a failure.\<close>

definition attempt :: "('e, 'a) result \<Rightarrow> ('e \<Rightarrow> failure) \<Rightarrow> (failure, 'a) result" where
  "attempt r handlers = (case r of Inl e \<Rightarrow> Inl (handlers e) | Inr x \<Rightarrow> Inr x)"

lemma attempt_Inr_iff: "attempt r handlers = Inr x \<longleftrightarrow> r = Inr x"
  by (auto simp: attempt_def split: sum.splits)

lemma attempt_Inl_iff: "attempt r handlers = Inl f \<longleftrightarrow> (\<exists>e. r = Inl e \<and> f = handlers e)"
  by (auto simp: attempt_def split: sum.splits)

lemmas answer_iffs = result_iffs attempt_Inr_iff attempt_Inl_iff

text \<open>The application that serves a request: its settings, Celery, and the AEAD primitive.\<close>

record api =
  ap_settings :: settings
  ap_celery :: celery
  ap_aead :: aead

section \<open>Pages\<close>

record 'a page =
  pg_items :: "'a list"
  pg_page :: int
  pg_page_size :: int
  pg_total :: int
  pg_pages :: int

definition page_count :: "int \<Rightarrow> int \<Rightarrow> int" where
  "page_count count page_size = (count + page_size - 1) div page_size"

definition page_of :: "('r \<Rightarrow> 'a) \<Rightarrow> int \<Rightarrow> int \<Rightarrow> 'r list \<times> int \<Rightarrow> 'a page" where
  "page_of view page page_size listing =
     (let (rows, count) = listing in
      \<lparr>pg_items = map view rows, pg_page = page, pg_page_size = page_size, pg_total = count,
       pg_pages = page_count count page_size\<rparr>)"


section \<open>Jobs\<close>

record job_read =
  jr_id :: uuid
  jr_name :: string
  jr_resource_type :: "string option"
  jr_resource_id :: "uuid option"
  jr_step :: string
  jr_status :: job_status
  jr_attempt :: int
  jr_claimed_at :: "instant option"
  jr_created_at :: instant
  jr_updated_at :: instant

definition job_view :: "job_execution \<Rightarrow> job_read" where
  "job_view j = \<lparr>jr_id = j_id j, jr_name = j_name j, jr_resource_type = j_resource_type j,
     jr_resource_id = j_resource_id j, jr_step = j_step j, jr_status = j_status j, jr_attempt = j_attempt j,
     jr_claimed_at = j_claimed_at j, jr_created_at = j_created_at j, jr_updated_at = j_updated_at j\<rparr>"

definition get_job_execution :: "uuid \<Rightarrow> db \<Rightarrow> job_execution option" where
  "get_job_execution job_id d = job_of d job_id"

definition read_job :: "db \<Rightarrow> uuid option \<Rightarrow> job_read option" where
  "read_job d job_id =
     (case job_id of None \<Rightarrow> None | Some k \<Rightarrow> map_option job_view (get_job_execution k d))"

definition get_job_route :: "uuid \<Rightarrow> db \<Rightarrow> job_read answer" where
  "get_job_route job_id d =
     (case get_job_execution job_id d of
        None \<Rightarrow> Inl (http_error HTTP_404_NOT_FOUND ''Job not found'')
      | Some job \<Rightarrow> Inr (reply HTTP_200_OK (job_view job)))"

text \<open>A step is dispatched once the transaction that staged its job is committed.\<close>

definition dispatch_to :: "api \<Rightarrow> string \<Rightarrow> job_read option \<Rightarrow> world \<Rightarrow> world" where
  "dispatch_to ap task_name job w =
     (case job of None \<Rightarrow> w
      | Some j \<Rightarrow> w\<lparr>broker := fst (dispatch_registered_step (ap_celery ap) task_name (jr_id j) (broker w))\<rparr>)"

record ('r) job_resource =
  res_resource :: 'r
  res_job :: "job_read option"

section \<open>Rows as responses\<close>

record instance_read =
  ir_id :: uuid
  ir_application :: string
  ir_slug :: string
  ir_action :: string
  ir_status :: instance_status
  ir_state :: instance_state
  ir_instance_url :: string
  ir_argocd_application_name :: "string option"
  ir_job_id :: "uuid option"
  ir_step :: "string option"
  ir_database_id :: "uuid option"
  ir_schema_name :: "string option"

definition allocation_for :: "db \<Rightarrow> uuid \<Rightarrow> database_allocation option" where
  "allocation_for d instance_id = find (\<lambda>a. al_instance_id a = instance_id) (database_allocations d)"

definition instance_database_id :: "db \<Rightarrow> inst \<Rightarrow> uuid option" where
  "instance_database_id d i = map_option al_database_id (allocation_for d (i_id i))"

definition instance_schema_name :: "db \<Rightarrow> inst \<Rightarrow> string option" where
  "instance_schema_name d i = map_option al_schema_name (allocation_for d (i_id i))"

definition from_instance :: "string \<Rightarrow> db \<Rightarrow> inst \<Rightarrow> instance_read" where
  "from_instance base_domain d i =
     \<lparr>ir_id = i_id i, ir_application = i_application i, ir_slug = i_slug i, ir_action = i_action i,
      ir_status = i_status i, ir_state = i_state i, ir_instance_url = url_for base_domain (i_slug i),
      ir_argocd_application_name = i_argocd_application_name i, ir_job_id = i_job_id i, ir_step = i_step i,
      ir_database_id = instance_database_id d i, ir_schema_name = instance_schema_name d i\<rparr>"

record instance_kubernetes_read =
  kr_instance_id :: uuid
  kr_kubeconfig_configured :: bool

definition kubernetes_provider_read :: "instance_kubernetes \<Rightarrow> instance_kubernetes_read" where
  "kubernetes_provider_read provider =
     \<lparr>kr_instance_id = k_instance_id provider, kr_kubeconfig_configured = True\<rparr>"

record admin_credentials_read =
  cr_username :: string
  cr_email :: string
  cr_password :: code_points

record database_read =
  dr_id :: uuid
  dr_name :: string
  dr_instance_max :: int
  dr_host :: string
  dr_port :: int
  dr_database_name :: string
  dr_username :: string
  dr_password_configured :: bool
  dr_allocated_instances :: int
  dr_available_slots :: int

definition database_view :: "database_usage \<Rightarrow> database_read" where
  "database_view usage =
     (let (x, allocated) = usage in
      \<lparr>dr_id = d_id x, dr_name = d_name x, dr_instance_max = d_instance_max x, dr_host = d_host x,
       dr_port = d_port x, dr_database_name = d_database_name x, dr_username = d_username x,
       dr_password_configured = (d_password_enc x \<noteq> []), dr_allocated_instances = allocated,
       dr_available_slots = max (d_instance_max x - allocated) 0\<rparr>)"

record template_parameter_read =
  pr_id :: uuid
  pr_template_id :: uuid
  pr_type :: template_parameter_type
  pr_name :: string
  pr_display_name :: string
  pr_description :: string
  pr_required :: "bool option"
  pr_mutable :: "bool option"
  pr_default_value :: "string option"
  pr_value_configured :: "bool option"

definition parameter_read :: "db \<Rightarrow> template_parameter \<Rightarrow> template_parameter_read" where
  "parameter_read d p =
     \<lparr>pr_id = p_id p, pr_template_id = p_template_id p, pr_type = p_type p, pr_name = p_name p,
      pr_display_name = p_display_name p, pr_description = p_description p, pr_required = p_required p,
      pr_mutable = p_mutable p, pr_default_value = p_default_value p,
      pr_value_configured = (if p_type p = SYSTEM_PARAMETER then Some (system_value_of d (p_id p) \<noteq> None)
                             else None)\<rparr>"

record template_read =
  tr_id :: uuid
  tr_display_name :: string
  tr_name :: string
  tr_git_url :: string
  tr_source_path :: string
  tr_branch :: string
  tr_modules :: "string list"
  tr_system_parameter_revision :: int

definition template_view :: "template \<Rightarrow> template_read" where
  "template_view t =
     \<lparr>tr_id = t_id t, tr_display_name = t_display_name t, tr_name = t_name t, tr_git_url = t_git_url t,
      tr_source_path = t_source_path t, tr_branch = t_branch t, tr_modules = t_modules t,
      tr_system_parameter_revision = t_system_parameter_revision t\<rparr>"

record instance_template_read =
  it_id :: uuid
  it_instance_id :: uuid
  it_template :: template_read
  it_action :: string
  it_status :: template_assignment_status
  it_job_id :: "uuid option"
  it_step :: "string option"
  it_deployment_status :: "template_deployment_status option"
  it_target_commit :: "string option"
  it_applied_commit :: "string option"
  it_target_system_parameter_revision :: "int option"
  it_applied_system_parameter_revision :: "int option"

text \<open>The assignment with its template and, when there is one, its deployment.\<close>

definition assignment_view :: "db \<Rightarrow> template_assignment \<Rightarrow> instance_template_read option" where
  "assignment_view d a =
     (let deployment = find (\<lambda>x. td_assignment_id x = ta_id a) (template_deployments d) in
      map_option (\<lambda>t.
        \<lparr>it_id = ta_id a, it_instance_id = ta_instance_id a, it_template = template_view t,
         it_action = ta_action a, it_status = ta_status a, it_job_id = ta_job_id a, it_step = ta_step a,
         it_deployment_status = map_option td_status deployment,
         it_target_commit = Option.bind deployment td_target_commit,
         it_applied_commit = Option.bind deployment td_applied_commit,
         it_target_system_parameter_revision = Option.bind deployment td_target_system_parameter_revision,
         it_applied_system_parameter_revision = Option.bind deployment td_applied_system_parameter_revision\<rparr>)
        (template_of d (ta_template_id a)))"

record workspace_read =
  wr_id :: uuid
  wr_name :: string
  wr_instance_id :: uuid
  wr_template_id :: uuid
  wr_member_id :: uuid
  wr_image_id :: uuid
  wr_modules :: "string list"
  wr_parameters :: "(string, string) dict"
  wr_action :: string
  wr_status :: workspace_status
  wr_job_id :: "uuid option"
  wr_step :: "string option"

definition workspace_view :: "workspace \<Rightarrow> workspace_read" where
  "workspace_view x =
     \<lparr>wr_id = w_id x, wr_name = w_name x, wr_instance_id = w_instance_id x, wr_template_id = w_template_id x,
      wr_member_id = w_member_id x, wr_image_id = w_image_id x, wr_modules = w_modules x,
      wr_parameters = w_parameters x, wr_action = w_action x, wr_status = w_status x,
      wr_job_id = w_job_id x, wr_step = w_step x\<rparr>"

end
