(* ===== verification/Instance_Routes.thy ===== *)
theory Instance_Routes
  imports Api
begin

text \<open>
  The routes of instances and of the database pool (\<^verbatim>\<open>api/routes/instances.py\<close> and
  \<^verbatim>\<open>api/routes/databases.py\<close>). A route that only reads is a function of the store; one that
  writes returns the answer and the next world, which is the old one whenever the repository
  raised. Keys, nonces, slugs and clock readings are arguments, the Argo CD server is a service
  as in \<open>ArgoCd\<close>, and the connection test of a managed database is a parameter.
\<close>

section \<open>Ciphers\<close>

definition kubeconfig_cipher :: "settings \<Rightarrow> (failure, bytes) result" where
  "kubeconfig_cipher st = attempt (kubeconfig_cipher_init (s_crypto_key st))
     (\<lambda>_. no_store_error HTTP_503_SERVICE_UNAVAILABLE ''Kubeconfig encryption is not configured'')"

definition instance_password_cipher :: "settings \<Rightarrow> (failure, bytes) result" where
  "instance_password_cipher st = attempt (instance_password_cipher_init (s_crypto_key st))
     (\<lambda>_. no_store_error HTTP_503_SERVICE_UNAVAILABLE ''Instance password encryption is not configured'')"

definition password_cipher :: "settings \<Rightarrow> (failure, bytes) result" where
  "password_cipher st = attempt (password_cipher_init (s_crypto_key st))
     (\<lambda>_. http_error HTTP_503_SERVICE_UNAVAILABLE ''Database password encryption is not configured'')"

text \<open>The base domain is validated when the application is built; reading it again can only fail before.\<close>

definition public_url_config :: "api \<Rightarrow> (failure, string) result" where
  "public_url_config ap = attempt (require_instance_base_domain (ap_settings ap)) (\<lambda>_. Unhandled)"

section \<open>Reading instances\<close>

definition list_instances_route ::
  "api \<Rightarrow> int \<Rightarrow> int \<Rightarrow> string option \<Rightarrow> db \<Rightarrow> instance_read page answer" where
  "list_instances_route ap page page_size application d =
     (let listing = list_instances page page_size application None d in
      rbind (public_url_config ap) (\<lambda>base_domain.
      Inr (reply HTTP_200_OK (page_of (from_instance base_domain d) page page_size listing))))"

definition get_instance_route :: "api \<Rightarrow> uuid \<Rightarrow> db \<Rightarrow> instance_read answer" where
  "get_instance_route ap instance_id d =
     rbind (require (get_instance instance_id d) (http_error HTTP_404_NOT_FOUND ''Instance not found'')) (\<lambda>i.
     rbind (public_url_config ap) (\<lambda>base_domain.
     Inr (reply HTTP_200_OK (from_instance base_domain d i))))"

definition get_instance_admin_route :: "api \<Rightarrow> uuid \<Rightarrow> db \<Rightarrow> admin_credentials_read answer" where
  "get_instance_admin_route ap instance_id d =
     rbind (require (get_instance instance_id d) (no_store_error HTTP_404_NOT_FOUND ''Instance not found'')) (\<lambda>i.
     rbind (require (i_password_enc i)
              (no_store_error HTTP_404_NOT_FOUND ''Instance admin account not initialized'')) (\<lambda>envelope.
     rbind (instance_password_cipher (ap_settings ap)) (\<lambda>key.
     rbind (attempt (instance_password_decrypt (ap_aead ap) key envelope (i_id i))
              (\<lambda>_. no_store_error HTTP_503_SERVICE_UNAVAILABLE ''Instance admin password cannot be decrypted''))
       (\<lambda>password.
     Inr (no_store_reply HTTP_200_OK
            \<lparr>cr_username = ADMIN_USERNAME, cr_email = ADMIN_EMAIL, cr_password = password\<rparr>)))))"

definition provider_errors :: "(nat \<Rightarrow> string \<Rightarrow> failure) \<Rightarrow> provider_error \<Rightarrow> failure" where
  "provider_errors raise e =
     (case e of
        ProviderInstance InstanceNotFoundError \<Rightarrow> raise HTTP_404_NOT_FOUND ''Instance not found''
      | InstanceKubernetesNotFoundError \<Rightarrow> raise HTTP_404_NOT_FOUND ''Kubernetes provider not configured''
      | _ \<Rightarrow> Unhandled)"

definition get_instance_provider_route :: "uuid \<Rightarrow> db \<Rightarrow> instance_kubernetes_read answer" where
  "get_instance_provider_route instance_id d =
     rbind (attempt (get_provider instance_id d) (provider_errors http_error)) (\<lambda>provider.
     Inr (reply HTTP_200_OK (kubernetes_provider_read provider)))"

definition get_instance_provider_configuration_route :: "api \<Rightarrow> uuid \<Rightarrow> db \<Rightarrow> bytes answer" where
  "get_instance_provider_configuration_route ap instance_id d =
     rbind (attempt (get_provider instance_id d) (provider_errors no_store_error)) (\<lambda>provider.
     rbind (kubeconfig_cipher (ap_settings ap)) (\<lambda>key.
     rbind (attempt (kubeconfig_decrypt (ap_aead ap) key (k_kubeconfig_enc provider) (k_instance_id provider))
              (\<lambda>_. no_store_error HTTP_503_SERVICE_UNAVAILABLE ''Kubeconfig cannot be decrypted'')) (\<lambda>kubeconfig.
     Inr \<lparr>rp_status = HTTP_200_OK,
          rp_headers = NO_STORE_HEADERS @ [(''Content-Disposition'', ''attachment; filename=\"kubeconfig\"'')],
          rp_body = kubeconfig\<rparr>)))"

record instance_argocd_status_read =
  sr_instance_id :: uuid
  sr_application_name :: string
  sr_sync_status :: "string option"
  sr_health_status :: "string option"
  sr_operation_phase :: "string option"
  sr_revision :: "string option"
  sr_reconciled_at :: "string option"

definition status_errors :: "argocd_error \<Rightarrow> failure" where
  "status_errors e =
     (case e of
        ArgoCdApplicationNotFoundError _ \<Rightarrow> http_error HTTP_404_NOT_FOUND ''Argo CD Application not found''
      | ArgoCdApplicationOwnershipError _ \<Rightarrow> http_error HTTP_409_CONFLICT ''Argo CD Application ownership conflict''
      | ArgoCdConfigurationError _ \<Rightarrow> http_error HTTP_503_SERVICE_UNAVAILABLE ''Argo CD is not configured''
      | ArgoCdRequestError _ \<Rightarrow> http_error HTTP_502_BAD_GATEWAY ''Argo CD status is unavailable''
      | ArgoCdHTTPError _ \<Rightarrow> http_error HTTP_502_BAD_GATEWAY ''Argo CD status is unavailable''
      | ArgoCdValueError _ \<Rightarrow> Unhandled)"

text \<open>\<open>is_datetime\<close> is the schema library's parser of date and time texts.\<close>

definition get_instance_status_route ::
  "api \<Rightarrow> (argocd_error, 's) service \<Rightarrow> (string \<Rightarrow> bool) \<Rightarrow> uuid \<Rightarrow> db \<Rightarrow> 's conn
    \<Rightarrow> 's conn \<times> instance_argocd_status_read answer" where
  "get_instance_status_route ap tr is_datetime instance_id d c =
     (case get_instance instance_id d of
        None \<Rightarrow> (c, Inl (http_error HTTP_404_NOT_FOUND ''Instance not found''))
      | Some i \<Rightarrow>
          (case read_instance_application_status tr (ap_settings ap) (i_id i) (i_slug i)
                  (i_argocd_application_name i) c of
             (c', Inl e) \<Rightarrow> (c', Inl (status_errors e))
           | (c', Inr remote) \<Rightarrow>
               (c', if (case as_reconciled_at remote of None \<Rightarrow> True | Some s \<Rightarrow> is_datetime s)
                    then Inr (reply HTTP_200_OK
                      \<lparr>sr_instance_id = i_id i, sr_application_name = as_application_name remote,
                       sr_sync_status = as_sync_status remote, sr_health_status = as_health_status remote,
                       sr_operation_phase = as_operation_phase remote, sr_revision = as_revision remote,
                       sr_reconciled_at = as_reconciled_at remote\<rparr>)
                    else Inl Unhandled)))"

section \<open>Changing instances\<close>

definition provider_create_errors :: "provider_error \<Rightarrow> failure" where
  "provider_create_errors e =
     (case e of
        ProviderInstance InstanceNotFoundError \<Rightarrow> http_error HTTP_404_NOT_FOUND ''Instance not found''
      | ProviderInstance InstanceActionConflictError \<Rightarrow>
          http_error HTTP_409_CONFLICT ''Instance has an action in progress''
      | InstanceKubernetesAlreadyConfiguredError \<Rightarrow>
          http_error HTTP_409_CONFLICT ''Kubernetes provider is already configured''
      | _ \<Rightarrow> Unhandled)"

definition instance_job :: "db \<Rightarrow> uuid \<Rightarrow> job_read option" where
  "instance_job d instance_id = read_job d (Option.bind (get_instance instance_id d) i_job_id)"

definition create_instance_provider_route ::
  "api \<Rightarrow> uuid \<Rightarrow> bytes \<Rightarrow> bytes \<Rightarrow> uuid \<Rightarrow> instant \<Rightarrow> world
    \<Rightarrow> instance_kubernetes_read job_resource answer \<times> world" where
  "create_instance_provider_route ap instance_id kubeconfig nonce job_id now w =
     (case rbind (kubeconfig_cipher (ap_settings ap)) (\<lambda>key.
             attempt (create_provider_and_request_update instance_id kubeconfig
                        (kubeconfig_encrypt (ap_aead ap) key nonce) job_id now (store w)) provider_create_errors) of
        Inl f \<Rightarrow> (Inl f, w)
      | Inr (d, provider) \<Rightarrow>
          let job = instance_job d instance_id in
          (Inr (reply HTTP_202_ACCEPTED \<lparr>res_resource = kubernetes_provider_read provider, res_job = job\<rparr>),
           dispatch_to ap INSTANCE_UPDATE_STEP_01_TASK job (w\<lparr>store := d\<rparr>)))"

definition create_instance_errors :: "instance_error \<Rightarrow> failure" where
  "create_instance_errors e =
     (case e of
        InstanceAlreadyExistsError \<Rightarrow>
          http_error HTTP_409_CONFLICT ''An instance already exists for this application or slug''
      | InstanceDatabaseUnavailableError \<Rightarrow> http_error HTTP_409_CONFLICT ''No database capacity available''
      | _ \<Rightarrow> Unhandled)"

text \<open>
  Every route that changes an instance ends in the same lines: read the job back, dispatch the
  step, build the response. A creation whose slug draws run out has no answer yet.
\<close>

definition accept_instance ::
  "api \<Rightarrow> nat \<Rightarrow> (job_read \<Rightarrow> string) \<Rightarrow> db \<times> inst \<Rightarrow> world \<Rightarrow> instance_read job_resource answer \<times> world" where
  "accept_instance ap code task_name accepted w =
     (let (d, i) = accepted; job = read_job d (i_job_id i); w1 = w\<lparr>store := d\<rparr>;
          w2 = (case job of None \<Rightarrow> w1 | Some j \<Rightarrow> dispatch_to ap (task_name j) job w1)
      in (rbind (public_url_config ap) (\<lambda>base_domain.
            Inr (reply code \<lparr>res_resource = from_instance base_domain d i, res_job = job\<rparr>)), w2))"

definition create_instance_route ::
  "api \<Rightarrow> string \<Rightarrow> uuid \<Rightarrow> uuid \<Rightarrow> uuid \<Rightarrow> string list \<Rightarrow> instant \<Rightarrow> world
    \<Rightarrow> (instance_read job_resource answer \<times> world) option" where
  "create_instance_route ap application instance_id job_id allocation_id slugs now w =
     map_option (\<lambda>r.
       case attempt r create_instance_errors of
         Inl f \<Rightarrow> (Inl f, w)
       | Inr accepted \<Rightarrow> accept_instance ap HTTP_201_CREATED (\<lambda>_. INSTANCE_CREATE_STEP_01_TASK) accepted w)
     (create_instance application instance_id job_id allocation_id slugs now (store w))"

definition lifecycle_errors :: "string \<Rightarrow> instance_error \<Rightarrow> failure" where
  "lifecycle_errors conflict e =
     (case e of
        InstanceNotFoundError \<Rightarrow> http_error HTTP_404_NOT_FOUND ''Instance not found''
      | InstanceActionConflictError \<Rightarrow> http_error HTTP_409_CONFLICT conflict
      | _ \<Rightarrow> Unhandled)"

definition lifecycle_route ::
  "api \<Rightarrow> (instance_error, db \<times> inst) result \<Rightarrow> string \<Rightarrow> (job_read \<Rightarrow> string) \<Rightarrow> world
    \<Rightarrow> instance_read job_resource answer \<times> world" where
  "lifecycle_route ap r conflict task_name w =
     (case attempt r (lifecycle_errors conflict) of
        Inl f \<Rightarrow> (Inl f, w)
      | Inr accepted \<Rightarrow> accept_instance ap HTTP_202_ACCEPTED task_name accepted w)"

definition start_instance_route ::
  "api \<Rightarrow> uuid \<Rightarrow> uuid \<Rightarrow> instant \<Rightarrow> world \<Rightarrow> instance_read job_resource answer \<times> world" where
  "start_instance_route ap instance_id job_id now w =
     lifecycle_route ap (request_instance_start instance_id job_id now (store w))
       ''Instance has an action in progress or is deleting'' (\<lambda>_. INSTANCE_START_STEP_01_TASK) w"

definition stop_instance_route ::
  "api \<Rightarrow> uuid \<Rightarrow> uuid \<Rightarrow> instant \<Rightarrow> world \<Rightarrow> instance_read job_resource answer \<times> world" where
  "stop_instance_route ap instance_id job_id now w =
     lifecycle_route ap (request_instance_stop instance_id job_id now (store w))
       ''Instance has an action in progress or is deleting'' (\<lambda>_. INSTANCE_STOP_STEP_01_TASK) w"

definition sync_instance_route ::
  "api \<Rightarrow> uuid \<Rightarrow> uuid \<Rightarrow> instant \<Rightarrow> world \<Rightarrow> instance_read job_resource answer \<times> world" where
  "sync_instance_route ap instance_id job_id now w =
     lifecycle_route ap (request_instance_sync instance_id job_id now (store w))
       ''Instance has an action in progress'' (\<lambda>_. INSTANCE_UPDATE_STEP_01_TASK) w"

definition delete_instance_route ::
  "api \<Rightarrow> uuid \<Rightarrow> uuid \<Rightarrow> instant \<Rightarrow> world \<Rightarrow> instance_read job_resource answer \<times> world" where
  "delete_instance_route ap instance_id job_id now w =
     lifecycle_route ap (request_instance_deletion instance_id job_id now (store w))
       ''Instance cannot be deleted in its current lifecycle state''
       (\<lambda>job. if jr_step job = INSTANCE_DELETE_STEP_02 then INSTANCE_DELETE_STEP_02_TASK
              else INSTANCE_DELETE_STEP_01_TASK) w"

section \<open>The database pool\<close>

text \<open>\<open>percent allocated capacity\<close> is the rounded floating point quotient of the language.\<close>

definition utilization_percent :: "(int \<Rightarrow> int \<Rightarrow> 'f) \<Rightarrow> 'f \<Rightarrow> int \<Rightarrow> int \<Rightarrow> 'f" where
  "utilization_percent percent float_zero allocated capacity =
     (if capacity = 0 then float_zero else percent allocated capacity)"

definition list_databases_route :: "int \<Rightarrow> int \<Rightarrow> string option \<Rightarrow> db \<Rightarrow> database_read page answer" where
  "list_databases_route page page_size name d =
     Inr (reply HTTP_200_OK (page_of database_view page page_size (list_database_page page page_size name d)))"

record 'f database_item_statistics =
  is_id :: uuid
  is_name :: string
  is_instance_max :: int
  is_allocated_instances :: int
  is_available_slots :: int
  is_utilization_percent :: 'f

record 'f database_statistics =
  ds_database_count :: int
  ds_total_capacity :: int
  ds_allocated_instances :: int
  ds_available_slots :: int
  ds_utilization_percent :: 'f
  ds_databases :: "'f database_item_statistics list"

definition get_database_statistics_route ::
  "(int \<Rightarrow> int \<Rightarrow> 'f) \<Rightarrow> 'f \<Rightarrow> db \<Rightarrow> 'f database_statistics answer" where
  "get_database_statistics_route percent float_zero d =
     (let usages = list_usage d;
          total_capacity = sum_list (map (\<lambda>u. d_instance_max (fst u)) usages);
          allocated_instances = sum_list (map snd usages)
      in Inr (reply HTTP_200_OK
           \<lparr>ds_database_count = int (length usages), ds_total_capacity = total_capacity,
            ds_allocated_instances = allocated_instances,
            ds_available_slots = max (total_capacity - allocated_instances) 0,
            ds_utilization_percent = utilization_percent percent float_zero allocated_instances total_capacity,
            ds_databases = map (\<lambda>(x, allocated).
              \<lparr>is_id = d_id x, is_name = d_name x, is_instance_max = d_instance_max x,
               is_allocated_instances = allocated, is_available_slots = max (d_instance_max x - allocated) 0,
               is_utilization_percent = utilization_percent percent float_zero allocated (d_instance_max x)\<rparr>)
              usages\<rparr>))"

definition sync_databases_route :: "api \<Rightarrow> uuid \<Rightarrow> instant \<Rightarrow> world \<Rightarrow> job_read answer \<times> world" where
  "sync_databases_route ap job_id now w =
     (let (d, job) = create_system_job job_id ''database.sync'' DATABASE_SYNC_STEP_01_TASK DATABASE_SYNC_STEP_01
                       now (store w)
      in (Inr (reply HTTP_202_ACCEPTED (job_view job)),
          dispatch_to ap (j_task_name job) (Some (job_view job)) (w\<lparr>store := d\<rparr>)))"

definition database_not_found :: failure where
  "database_not_found = http_error HTTP_404_NOT_FOUND ''Database not found''"

definition list_database_instances_route ::
  "api \<Rightarrow> uuid \<Rightarrow> int \<Rightarrow> int \<Rightarrow> db \<Rightarrow> instance_read page answer" where
  "list_database_instances_route ap database_id page page_size d =
     rbind (require (get_usage database_id d) database_not_found) (\<lambda>_.
     let listing = list_instances page page_size None (Some database_id) d in
     rbind (public_url_config ap) (\<lambda>base_domain.
     Inr (reply HTTP_200_OK (page_of (from_instance base_domain d) page page_size listing))))"

text \<open>
  How a connection test ends: it succeeds, fails with an error of PostgreSQL, of the system or
  of time, or raises something else.
\<close>

datatype connection_test = Connected | ConnectionUnavailable | ConnectionRaises

record connection_target =
  ct_host :: string
  ct_port :: int
  ct_database :: string
  ct_user :: string
  ct_password :: code_points

definition check_managed_database_connection ::
  "(connection_target \<Rightarrow> connection_test) \<Rightarrow> database \<Rightarrow> code_points \<Rightarrow> connection_test" where
  "check_managed_database_connection connect x password =
     connect \<lparr>ct_host = d_host x, ct_port = d_port x, ct_database = d_database_name x, ct_user = d_username x,
              ct_password = password\<rparr>"

definition check_database_route ::
  "api \<Rightarrow> (connection_target \<Rightarrow> connection_test) \<Rightarrow> uuid \<Rightarrow> db \<Rightarrow> string answer" where
  "check_database_route ap connect database_id d =
     rbind (require (get_usage database_id d) database_not_found) (\<lambda>(x, _).
     rbind (password_cipher (ap_settings ap)) (\<lambda>key.
     rbind (attempt (password_decrypt (ap_aead ap) key (d_password_enc x) (d_id x))
              (\<lambda>_. http_error HTTP_503_SERVICE_UNAVAILABLE ''Database password cannot be decrypted'')) (\<lambda>password.
     case check_managed_database_connection connect x password of
       Connected \<Rightarrow> Inr (reply HTTP_200_OK ''ok'')
     | ConnectionUnavailable \<Rightarrow> Inl (http_error HTTP_502_BAD_GATEWAY ''Database connection is unavailable'')
     | ConnectionRaises \<Rightarrow> Inl Unhandled)))"

definition get_database_route :: "uuid \<Rightarrow> db \<Rightarrow> database_read answer" where
  "get_database_route database_id d =
     rbind (require (get_usage database_id d) database_not_found) (\<lambda>usage.
     Inr (reply HTTP_200_OK (database_view usage)))"

definition database_exists :: failure where
  "database_exists = http_error HTTP_409_CONFLICT ''A database with this name already exists''"

definition create_database_errors :: "database_error \<Rightarrow> failure" where
  "create_database_errors e = (case e of DatabaseAlreadyExistsError \<Rightarrow> database_exists | _ \<Rightarrow> Unhandled)"

definition update_database_errors :: "database_error \<Rightarrow> failure" where
  "update_database_errors e =
     (case e of
        DatabaseNotFoundError \<Rightarrow> database_not_found
      | DatabaseAlreadyExistsError \<Rightarrow> database_exists
      | DatabaseCapacityConflictError \<Rightarrow>
          http_error HTTP_409_CONFLICT ''instance_max cannot be lower than current allocations''
      | _ \<Rightarrow> Unhandled)"

definition delete_database_errors :: "database_error \<Rightarrow> failure" where
  "delete_database_errors e =
     (case e of
        DatabaseNotFoundError \<Rightarrow> database_not_found
      | DatabaseInUseError \<Rightarrow> http_error HTTP_409_CONFLICT ''Database still has allocated instances''
      | _ \<Rightarrow> Unhandled)"

definition points :: "string \<Rightarrow> code_points" where
  "points s = map of_char s"

definition create_database_route ::
  "api \<Rightarrow> database_payload \<Rightarrow> string \<Rightarrow> bytes \<Rightarrow> uuid \<Rightarrow> world \<Rightarrow> database_read answer \<times> world" where
  "create_database_route ap payload password nonce database_id w =
     (case rbind (password_cipher (ap_settings ap)) (\<lambda>key.
             attempt (create_database database_id payload password
                        (\<lambda>p. password_encrypt (ap_aead ap) key nonce (points p)) (store w)) create_database_errors) of
        Inl f \<Rightarrow> (Inl f, w)
      | Inr (d, usage) \<Rightarrow> (Inr (reply HTTP_201_CREATED (database_view usage)), w\<lparr>store := d\<rparr>))"

definition update_database_route ::
  "api \<Rightarrow> uuid \<Rightarrow> database_payload \<Rightarrow> bytes \<Rightarrow> world \<Rightarrow> database_read answer \<times> world" where
  "update_database_route ap database_id payload nonce w =
     (case rbind (password_cipher (ap_settings ap)) (\<lambda>key.
             attempt (update_database database_id payload
                        (\<lambda>p. password_encrypt (ap_aead ap) key nonce (points p)) (store w)) update_database_errors) of
        Inl f \<Rightarrow> (Inl f, w)
      | Inr (d, usage) \<Rightarrow> (Inr (reply HTTP_200_OK (database_view usage)), w\<lparr>store := d\<rparr>))"

definition delete_database_route :: "uuid \<Rightarrow> world \<Rightarrow> unit answer \<times> world" where
  "delete_database_route database_id w =
     (case attempt (delete_database database_id (store w)) delete_database_errors of
        Inl f \<Rightarrow> (Inl f, w)
      | Inr d \<Rightarrow> (Inr (reply HTTP_204_NO_CONTENT ()), w\<lparr>store := d\<rparr>))"

end
