(* ===== verification/Directory_Routes.thy ===== *)
theory Directory_Routes
  imports Api
begin

text \<open>
  The routes of members, workspaces and template assignments (\<^verbatim>\<open>api/routes/members.py\<close>,
  \<^verbatim>\<open>api/routes/workspaces.py\<close> and \<^verbatim>\<open>api/routes/instance_templates.py\<close>). The job that a repository
  asks to enqueue after its commit (\<^verbatim>\<open>session.info["enqueue_job_id"]\<close>) is part of its result.
\<close>

section \<open>Members\<close>

definition member_instance_not_found :: failure where
  "member_instance_not_found = http_error HTTP_404_NOT_FOUND ''Instance not found''"
definition member_not_found :: failure where
  "member_not_found = http_error HTTP_404_NOT_FOUND ''Member not found''"
definition member_instance_busy :: failure where
  "member_instance_busy = http_error HTTP_409_CONFLICT ''Instance has an action in progress''"
definition member_conflict :: failure where
  "member_conflict = http_error HTTP_409_CONFLICT ''Member action is not in a successful state''"

definition list_member_errors :: "member_error \<Rightarrow> failure" where
  "list_member_errors e = (case e of MemberInstanceNotFoundError \<Rightarrow> member_instance_not_found | _ \<Rightarrow> Unhandled)"

record member_read =
  mr_id :: uuid
  mr_instance_id :: uuid
  mr_username :: string
  mr_role :: member_role
  mr_action :: string
  mr_status :: member_status

definition member_view :: "member \<Rightarrow> member_read" where
  "member_view m = \<lparr>mr_id = m_id m, mr_instance_id = m_instance_id m, mr_username = m_username m,
     mr_role = m_role m, mr_action = m_action m, mr_status = m_status m\<rparr>"

definition list_members_route :: "uuid \<Rightarrow> int \<Rightarrow> int \<Rightarrow> db \<Rightarrow> member_read page answer" where
  "list_members_route instance_id page page_size d =
     rbind (attempt (list_members instance_id page page_size d) list_member_errors) (\<lambda>listing.
     Inr (reply HTTP_200_OK (page_of member_view page page_size listing)))"

definition consume_instance_update_request :: "db \<Rightarrow> uuid option \<Rightarrow> job_read option" where
  "consume_instance_update_request d enqueued =
     (case enqueued of None \<Rightarrow> None | Some k \<Rightarrow> map_option job_view (get_job_execution k d))"

definition create_member_errors :: "member_error \<Rightarrow> failure" where
  "create_member_errors e =
     (case e of
        MemberInstanceNotFoundError \<Rightarrow> member_instance_not_found
      | MemberInstanceBusyError \<Rightarrow> member_instance_busy
      | MemberAlreadyExistsError \<Rightarrow> http_error HTTP_409_CONFLICT ''Member already exists for this instance''
      | _ \<Rightarrow> Unhandled)"

definition create_member_route ::
  "api \<Rightarrow> uuid \<Rightarrow> member_create \<Rightarrow> uuid \<Rightarrow> uuid \<Rightarrow> instant \<Rightarrow> world
    \<Rightarrow> member_read job_resource answer \<times> world" where
  "create_member_route ap instance_id payload member_id job_id now w =
     (case attempt (create_member instance_id payload member_id job_id now (store w)) create_member_errors of
        Inl f \<Rightarrow> (Inl f, w)
      | Inr (d, m, enqueued) \<Rightarrow>
          let job = consume_instance_update_request d enqueued in
          (Inr (reply HTTP_201_CREATED \<lparr>res_resource = member_view m, res_job = job\<rparr>),
           dispatch_to ap INSTANCE_UPDATE_STEP_01_TASK job (w\<lparr>store := d\<rparr>)))"

definition get_member_route :: "uuid \<Rightarrow> uuid \<Rightarrow> db \<Rightarrow> member_read answer" where
  "get_member_route instance_id member_id d =
     rbind (require (get_member instance_id member_id d) member_not_found) (\<lambda>m.
     Inr (reply HTTP_200_OK (member_view m)))"

definition update_member_role_errors :: "member_error \<Rightarrow> failure" where
  "update_member_role_errors e =
     (case e of
        MemberInstanceNotFoundError \<Rightarrow> member_instance_not_found
      | MemberInstanceBusyError \<Rightarrow> member_instance_busy
      | MemberNotFoundError \<Rightarrow> member_not_found
      | MemberActionConflictError \<Rightarrow> member_conflict
      | _ \<Rightarrow> Unhandled)"

definition update_member_role_route ::
  "api \<Rightarrow> uuid \<Rightarrow> uuid \<Rightarrow> member_role \<Rightarrow> uuid \<Rightarrow> instant \<Rightarrow> world
    \<Rightarrow> member_read job_resource answer \<times> world" where
  "update_member_role_route ap instance_id member_id role job_id now w =
     (case attempt (update_role instance_id member_id role job_id now (store w)) update_member_role_errors of
        Inl f \<Rightarrow> (Inl f, w)
      | Inr (d, m, changed, enqueued) \<Rightarrow>
          let job = (if changed then consume_instance_update_request d enqueued else None) in
          (Inr (reply (if changed then HTTP_202_ACCEPTED else HTTP_200_OK)
                  \<lparr>res_resource = member_view m, res_job = job\<rparr>),
           dispatch_to ap INSTANCE_UPDATE_STEP_01_TASK job (w\<lparr>store := d\<rparr>)))"

definition delete_member_errors :: "member_error \<Rightarrow> failure" where
  "delete_member_errors e =
     (case e of
        MemberInstanceNotFoundError \<Rightarrow> member_instance_not_found
      | MemberInstanceBusyError \<Rightarrow> member_instance_busy
      | MemberNotFoundError \<Rightarrow> member_not_found
      | MemberActionConflictError \<Rightarrow> member_conflict
      | MemberHasWorkspacesError \<Rightarrow> http_error HTTP_409_CONFLICT ''Member still owns workspaces''
      | MemberProtectedAdministratorError \<Rightarrow>
          http_error HTTP_409_CONFLICT ''Protected administrator cannot be removed''
      | _ \<Rightarrow> Unhandled)"

text \<open>The list of default administrators is parsed outside the \<^verbatim>\<open>try\<close>.\<close>

definition delete_member_route ::
  "api \<Rightarrow> uuid \<Rightarrow> uuid \<Rightarrow> uuid \<Rightarrow> instant \<Rightarrow> world \<Rightarrow> member_read job_resource answer \<times> world" where
  "delete_member_route ap instance_id member_id job_id now w =
     (case rbind (attempt (parse_default_admins (s_default_admins (ap_settings ap))) (\<lambda>_. Unhandled)) (\<lambda>admins.
             attempt (request_member_deletion instance_id member_id (ADMIN_USERNAME # admins) job_id now (store w))
               delete_member_errors) of
        Inl f \<Rightarrow> (Inl f, w)
      | Inr (d, m, enqueued) \<Rightarrow>
          let job = consume_instance_update_request d enqueued in
          (Inr (reply HTTP_202_ACCEPTED \<lparr>res_resource = member_view m, res_job = job\<rparr>),
           dispatch_to ap INSTANCE_UPDATE_STEP_01_TASK job (w\<lparr>store := d\<rparr>)))"

section \<open>Workspaces\<close>

definition workspace_not_found :: failure where
  "workspace_not_found = http_error HTTP_404_NOT_FOUND ''Workspace not found''"
definition workspace_instance_not_found :: failure where
  "workspace_instance_not_found = http_error HTTP_404_NOT_FOUND ''Instance not found''"
definition workspace_template_not_found :: failure where
  "workspace_template_not_found = http_error HTTP_404_NOT_FOUND ''Template not found''"
definition workspace_member_not_found :: failure where
  "workspace_member_not_found = http_error HTTP_404_NOT_FOUND ''Member not found''"
definition workspace_image_not_found :: failure where
  "workspace_image_not_found = http_error HTTP_404_NOT_FOUND ''Docker image not found''"
definition workspace_instance_busy :: failure where
  "workspace_instance_busy = http_error HTTP_409_CONFLICT ''Instance has an action in progress''"
definition workspace_busy :: failure where
  "workspace_busy = http_error HTTP_409_CONFLICT ''Workspace has an action in progress''"
definition invalid_configuration :: failure where
  "invalid_configuration = http_error HTTP_422_UNPROCESSABLE_CONTENT
     ''Workspace configuration is incompatible with its template''"
definition name_conflict :: failure where
  "name_conflict = http_error HTTP_409_CONFLICT ''A workspace with this name already exists in the instance''"
definition template_not_deployed :: failure where
  "template_not_deployed = http_error HTTP_409_CONFLICT ''Template is not deployed to this instance''"

definition list_workspaces_route :: "workspace_list_query \<Rightarrow> db \<Rightarrow> workspace_read page answer" where
  "list_workspaces_route q d =
     Inr (reply HTTP_200_OK (page_of workspace_view (wq_page q) (wq_page_size q) (list_workspace_page q d)))"

definition get_workspace_route :: "uuid \<Rightarrow> db \<Rightarrow> workspace_read answer" where
  "get_workspace_route workspace_id d =
     rbind (require (get_workspace workspace_id d) workspace_not_found) (\<lambda>x.
     Inr (reply HTTP_200_OK (workspace_view x)))"

definition create_workspace_errors :: "workspace_error \<Rightarrow> failure" where
  "create_workspace_errors e =
     (case e of
        WorkspaceInstanceNotFoundError \<Rightarrow> workspace_instance_not_found
      | WorkspaceTemplateNotFoundError \<Rightarrow> workspace_template_not_found
      | WorkspaceMemberNotFoundError \<Rightarrow> workspace_member_not_found
      | WorkspaceImageNotFoundError \<Rightarrow> workspace_image_not_found
      | WorkspaceInstanceBusyError \<Rightarrow> workspace_instance_busy
      | WorkspaceMemberUnavailableError \<Rightarrow>
          http_error HTTP_409_CONFLICT ''Workspace owner is not ready for this instance''
      | WorkspaceTemplateNotDeployedError \<Rightarrow> template_not_deployed
      | WorkspaceImageUnavailableError \<Rightarrow> invalid_configuration
      | WorkspaceConfigurationError \<Rightarrow> invalid_configuration
      | WorkspaceAlreadyExistsError \<Rightarrow> name_conflict
      | _ \<Rightarrow> Unhandled)"

definition create_workspace_route ::
  "api \<Rightarrow> workspace_create \<Rightarrow> uuid \<Rightarrow> uuid \<Rightarrow> instant \<Rightarrow> world \<Rightarrow> workspace_read job_resource answer \<times> world" where
  "create_workspace_route ap payload workspace_id job_id now w =
     (case attempt (create_workspace payload workspace_id job_id now (store w)) create_workspace_errors of
        Inl f \<Rightarrow> (Inl f, w)
      | Inr (d, x) \<Rightarrow>
          let job = read_job d (w_job_id x) in
          (Inr (reply HTTP_201_CREATED \<lparr>res_resource = workspace_view x, res_job = job\<rparr>),
           dispatch_to ap WORKSPACE_CREATE_STEP_01_TASK job (w\<lparr>store := d\<rparr>)))"

definition update_workspace_errors :: "workspace_error \<Rightarrow> failure" where
  "update_workspace_errors e =
     (case e of
        WorkspaceNotFoundError \<Rightarrow> workspace_not_found
      | WorkspaceInstanceNotFoundError \<Rightarrow> workspace_instance_not_found
      | WorkspaceTemplateNotFoundError \<Rightarrow> workspace_template_not_found
      | WorkspaceImageNotFoundError \<Rightarrow> workspace_image_not_found
      | WorkspaceInstanceBusyError \<Rightarrow> workspace_instance_busy
      | WorkspaceBusyError \<Rightarrow> workspace_busy
      | WorkspaceTemplateNotDeployedError \<Rightarrow> template_not_deployed
      | WorkspaceImageUnavailableError \<Rightarrow> invalid_configuration
      | WorkspaceConfigurationError \<Rightarrow> invalid_configuration
      | WorkspaceParameterImmutableError \<Rightarrow>
          http_error HTTP_409_CONFLICT ''An immutable workspace parameter cannot be changed''
      | WorkspaceAlreadyExistsError \<Rightarrow> name_conflict
      | _ \<Rightarrow> Unhandled)"

definition dispatch_job :: "api \<Rightarrow> db \<Rightarrow> uuid option \<Rightarrow> string \<Rightarrow> bool \<Rightarrow> world \<Rightarrow> job_read option \<times> world" where
  "dispatch_job ap d job_id task_name dispatch w =
     (if \<not> dispatch then (None, w)
      else let job = read_job d job_id in (job, dispatch_to ap task_name job w))"

definition update_workspace_route ::
  "api \<Rightarrow> uuid \<Rightarrow> workspace_update \<Rightarrow> uuid \<Rightarrow> instant \<Rightarrow> world \<Rightarrow> workspace_read job_resource answer \<times> world" where
  "update_workspace_route ap workspace_id payload job_id now w =
     (case attempt (update_workspace workspace_id payload job_id now (store w)) update_workspace_errors of
        Inl f \<Rightarrow> (Inl f, w)
      | Inr (d, x, changed) \<Rightarrow>
          let (job, w') = dispatch_job ap d (w_job_id x) WORKSPACE_UPDATE_STEP_01_TASK changed (w\<lparr>store := d\<rparr>) in
          (Inr (reply (if changed then HTTP_202_ACCEPTED else HTTP_200_OK)
                  \<lparr>res_resource = workspace_view x, res_job = job\<rparr>), w'))"

definition delete_workspace_errors :: "workspace_error \<Rightarrow> failure" where
  "delete_workspace_errors e =
     (case e of
        WorkspaceNotFoundError \<Rightarrow> workspace_not_found
      | WorkspaceInstanceNotFoundError \<Rightarrow> workspace_instance_not_found
      | WorkspaceInstanceBusyError \<Rightarrow> workspace_instance_busy
      | WorkspaceBusyError \<Rightarrow> workspace_busy
      | WorkspaceTemplateNotDeployedError \<Rightarrow> template_not_deployed
      | _ \<Rightarrow> Unhandled)"

definition delete_workspace_route ::
  "api \<Rightarrow> uuid \<Rightarrow> uuid \<Rightarrow> instant \<Rightarrow> world \<Rightarrow> workspace_read job_resource answer \<times> world" where
  "delete_workspace_route ap workspace_id job_id now w =
     (case attempt (request_workspace_deletion workspace_id job_id now (store w)) delete_workspace_errors of
        Inl f \<Rightarrow> (Inl f, w)
      | Inr (d, x) \<Rightarrow>
          let job = read_job d (w_job_id x) in
          (Inr (reply HTTP_202_ACCEPTED \<lparr>res_resource = workspace_view x, res_job = job\<rparr>),
           dispatch_to ap WORKSPACE_DELETE_STEP_01_TASK job (w\<lparr>store := d\<rparr>)))"

section \<open>Template assignments\<close>

definition assignment_instance_not_found :: failure where
  "assignment_instance_not_found = http_error HTTP_404_NOT_FOUND ''Instance not found''"
definition assignment_template_not_found :: failure where
  "assignment_template_not_found = http_error HTTP_404_NOT_FOUND ''Template not found''"
definition instance_unavailable :: failure where
  "instance_unavailable = http_error HTTP_409_CONFLICT ''Instance must be started and ready''"
definition assignment_sync_conflict :: failure where
  "assignment_sync_conflict = http_error HTTP_409_CONFLICT ''Template synchronization is already in progress''"
definition action_conflict :: failure where
  "action_conflict = http_error HTTP_409_CONFLICT ''Template assignment has a conflicting action''"
definition job_conflict :: failure where
  "job_conflict = http_error HTTP_409_CONFLICT ''Template assignment durable job is inconsistent''"

text \<open>An assignment whose template cannot be loaded does not validate as a response.\<close>

definition assignment_reply :: "db \<Rightarrow> template_assignment \<Rightarrow> (failure, instance_template_read) result" where
  "assignment_reply d a = require (assignment_view d a) Unhandled"

definition list_assignment_errors :: "assignment_error \<Rightarrow> failure" where
  "list_assignment_errors e =
     (case e of TemplateAssignmentInstanceNotFoundError \<Rightarrow> assignment_instance_not_found | _ \<Rightarrow> Unhandled)"

definition list_instance_templates_route ::
  "uuid \<Rightarrow> int \<Rightarrow> int \<Rightarrow> db \<Rightarrow> instance_template_read page answer" where
  "list_instance_templates_route instance_id page page_size d =
     rbind (attempt (list_assignments instance_id page page_size d) list_assignment_errors) (\<lambda>(rows, count).
     rbind (collect (map (assignment_reply d) rows)) (\<lambda>items.
     Inr (reply HTTP_200_OK (page_of id page page_size (items, count)))))"

definition put_assignment_errors :: "assignment_error \<Rightarrow> failure" where
  "put_assignment_errors e =
     (case e of
        TemplateAssignmentInstanceNotFoundError \<Rightarrow> assignment_instance_not_found
      | TemplateAssignmentTemplateNotFoundError \<Rightarrow> assignment_template_not_found
      | TemplateAssignmentInstanceUnavailableError \<Rightarrow> instance_unavailable
      | TemplateAssignmentSyncInProgressError \<Rightarrow> assignment_sync_conflict
      | TemplateAssignmentActionConflictError \<Rightarrow> action_conflict
      | TemplateAssignmentJobConflictError \<Rightarrow> job_conflict
      | _ \<Rightarrow> Unhandled)"

definition dispatch_enqueued_job :: "api \<Rightarrow> uuid option \<Rightarrow> string \<Rightarrow> world \<Rightarrow> world" where
  "dispatch_enqueued_job ap enqueued task_name w =
     (case enqueued of None \<Rightarrow> w
      | Some k \<Rightarrow> w\<lparr>broker := fst (dispatch_registered_step (ap_celery ap) task_name k (broker w))\<rparr>)"

definition put_instance_template_route ::
  "api \<Rightarrow> uuid \<Rightarrow> uuid \<Rightarrow> uuid \<Rightarrow> uuid \<Rightarrow> instant \<Rightarrow> world
    \<Rightarrow> instance_template_read job_resource answer \<times> world" where
  "put_instance_template_route ap instance_id template_id assignment_id job_id now w =
     (case attempt (put_assignment instance_id template_id assignment_id job_id now (store w)) put_assignment_errors of
        Inl f \<Rightarrow> (Inl f, w)
      | Inr (d, a, accepted, enqueued) \<Rightarrow>
          let job = (if accepted then read_job d (ta_job_id a) else None) in
          (rbind (assignment_reply d a) (\<lambda>resource.
             Inr (reply (if accepted then HTTP_202_ACCEPTED else HTTP_200_OK)
                    \<lparr>res_resource = resource, res_job = job\<rparr>)),
           dispatch_enqueued_job ap enqueued TEMPLATE_ASSIGNMENT_CREATE_STEP_01_TASK (w\<lparr>store := d\<rparr>)))"

definition delete_assignment_errors :: "assignment_error \<Rightarrow> failure" where
  "delete_assignment_errors e =
     (case e of
        TemplateAssignmentWorkspacesBusyError \<Rightarrow>
          http_error HTTP_409_CONFLICT ''Template assignment has workspaces with an action in progress''
      | _ \<Rightarrow> put_assignment_errors e)"

definition delete_instance_template_route ::
  "api \<Rightarrow> uuid \<Rightarrow> uuid \<Rightarrow> uuid \<Rightarrow> instant \<Rightarrow> world
    \<Rightarrow> instance_template_read job_resource option answer \<times> world" where
  "delete_instance_template_route ap instance_id template_id job_id now w =
     (case attempt (request_assignment_deletion instance_id template_id job_id now (store w)) delete_assignment_errors of
        Inl f \<Rightarrow> (Inl f, w)
      | Inr (d, None, accepted, enqueued) \<Rightarrow> (Inr (reply HTTP_204_NO_CONTENT None), w\<lparr>store := d\<rparr>)
      | Inr (d, Some a, accepted, enqueued) \<Rightarrow>
          (rbind (assignment_reply d a) (\<lambda>resource.
             Inr (reply HTTP_202_ACCEPTED (Some \<lparr>res_resource = resource, res_job = read_job d (ta_job_id a)\<rparr>))),
           dispatch_enqueued_job ap enqueued TEMPLATE_ASSIGNMENT_DELETE_STEP_01_TASK (w\<lparr>store := d\<rparr>)))"

end
