(* ===== verification/Catalogue_Routes.thy ===== *)
theory Catalogue_Routes
  imports Instance_Routes
begin

text \<open>
  The routes of templates, their images and their parameters (\<^verbatim>\<open>api/routes/templates.py\<close>,
  \<^verbatim>\<open>api/routes/template_images.py\<close> and \<^verbatim>\<open>api/routes/template_parameters.py\<close>).
\<close>

section \<open>Templates\<close>

definition template_not_found :: failure where
  "template_not_found = http_error HTTP_404_NOT_FOUND ''Template not found''"
definition sync_conflict :: failure where
  "sync_conflict = http_error HTTP_409_CONFLICT ''Template synchronization is already in progress''"
definition assignment_conflict :: failure where
  "assignment_conflict = http_error HTTP_409_CONFLICT ''Template assignment operation is already in progress''"
definition workspace_conflict :: failure where
  "workspace_conflict = http_error HTTP_409_CONFLICT ''Template workspace operation is already in progress''"

definition list_templates_route :: "int \<Rightarrow> int \<Rightarrow> string option \<Rightarrow> db \<Rightarrow> template_read page answer" where
  "list_templates_route page page_size display_name d =
     Inr (reply HTTP_200_OK
            (page_of template_view page page_size (list_templates page page_size display_name d)))"

definition list_template_modules_route :: "uuid \<Rightarrow> db \<Rightarrow> string list answer" where
  "list_template_modules_route template_id d =
     rbind (require (get_template template_id d) template_not_found) (\<lambda>t.
     Inr (reply HTTP_200_OK (t_modules t)))"

definition sync_template_errors :: "template_error \<Rightarrow> failure" where
  "sync_template_errors e =
     (case e of
        TemplateNotFoundError \<Rightarrow> template_not_found
      | TemplateSyncInProgressError \<Rightarrow> sync_conflict
      | TemplateAssignmentsInProgressError \<Rightarrow> assignment_conflict
      | TemplateWorkspacesInProgressError \<Rightarrow> workspace_conflict
      | _ \<Rightarrow> Unhandled)"

definition sync_template_route :: "api \<Rightarrow> uuid \<Rightarrow> uuid \<Rightarrow> instant \<Rightarrow> world \<Rightarrow> unit answer \<times> world" where
  "sync_template_route ap template_id job_id now w =
     (case attempt (request_template_sync template_id job_id now (store w)) sync_template_errors of
        Inl f \<Rightarrow> (Inl f, w)
      | Inr (d, k) \<Rightarrow>
          (Inr (reply HTTP_202_ACCEPTED ()),
           w\<lparr>store := d,
             broker := fst (dispatch_registered_step (ap_celery ap) TEMPLATE_SYNC_STEP_01_TASK k (broker w))\<rparr>))"

definition get_template_route :: "uuid \<Rightarrow> db \<Rightarrow> template_read answer" where
  "get_template_route template_id d =
     rbind (require (get_template template_id d) template_not_found) (\<lambda>t.
     Inr (reply HTTP_200_OK (template_view t)))"

definition create_template_errors :: "template_error \<Rightarrow> failure" where
  "create_template_errors e =
     (case e of
        TemplateAlreadyExistsError \<Rightarrow> http_error HTTP_409_CONFLICT ''A template with this name already exists''
      | _ \<Rightarrow> Unhandled)"

definition create_template_route ::
  "template_create \<Rightarrow> uuid \<Rightarrow> world \<Rightarrow> template_read answer \<times> world" where
  "create_template_route payload template_id w =
     (case attempt (create_template payload template_id (store w)) create_template_errors of
        Inl f \<Rightarrow> (Inl f, w)
      | Inr (d, t) \<Rightarrow> (Inr (reply HTTP_201_CREATED (template_view t)), w\<lparr>store := d\<rparr>))"

definition update_template_errors :: "template_error \<Rightarrow> failure" where
  "update_template_errors e =
     (case e of
        TemplateNotFoundError \<Rightarrow> template_not_found
      | TemplateSyncInProgressError \<Rightarrow> sync_conflict
      | TemplateAssignmentsInProgressError \<Rightarrow> assignment_conflict
      | TemplateWorkspacesInProgressError \<Rightarrow> workspace_conflict
      | TemplateWorkspaceCompatibilityError \<Rightarrow>
          http_error HTTP_409_CONFLICT ''Template changes would invalidate existing workspaces''
      | _ \<Rightarrow> Unhandled)"

definition update_template_route ::
  "uuid \<Rightarrow> template_update \<Rightarrow> world \<Rightarrow> template_read answer \<times> world" where
  "update_template_route template_id payload w =
     (case attempt (update_template template_id payload (store w)) update_template_errors of
        Inl f \<Rightarrow> (Inl f, w)
      | Inr (d, t) \<Rightarrow> (Inr (reply HTTP_200_OK (template_view t)), w\<lparr>store := d\<rparr>))"

definition delete_template_errors :: "template_error \<Rightarrow> failure" where
  "delete_template_errors e =
     (case e of
        TemplateNotFoundError \<Rightarrow> template_not_found
      | TemplateHasAssignmentsError \<Rightarrow> http_error HTTP_409_CONFLICT ''Template is still assigned to instances''
      | TemplateSyncInProgressError \<Rightarrow> sync_conflict
      | _ \<Rightarrow> Unhandled)"

definition delete_template_route :: "uuid \<Rightarrow> world \<Rightarrow> unit answer \<times> world" where
  "delete_template_route template_id w =
     (case attempt (delete_template template_id (store w)) delete_template_errors of
        Inl f \<Rightarrow> (Inl f, w)
      | Inr d \<Rightarrow> (Inr (reply HTTP_204_NO_CONTENT ()), w\<lparr>store := d\<rparr>))"

section \<open>Images\<close>

definition image_template_not_found :: failure where
  "image_template_not_found = http_error HTTP_404_NOT_FOUND ''Template not found''"
definition image_not_found :: failure where
  "image_not_found = http_error HTTP_404_NOT_FOUND ''Docker image not found''"

record template_image_read =
  mg_id :: uuid
  mg_template_id :: uuid
  mg_registry :: string
  mg_name :: string
  mg_version :: string

definition image_view :: "template_image \<Rightarrow> template_image_read" where
  "image_view m = \<lparr>mg_id = im_id m, mg_template_id = im_template_id m, mg_registry = im_registry_name m,
     mg_name = im_name m, mg_version = im_version m\<rparr>"

definition list_image_errors :: "template_image_error \<Rightarrow> failure" where
  "list_image_errors e =
     (case e of TemplateImageTemplateNotFoundError \<Rightarrow> image_template_not_found | _ \<Rightarrow> Unhandled)"

definition list_template_images_route :: "uuid \<Rightarrow> int \<Rightarrow> int \<Rightarrow> db \<Rightarrow> template_image_read page answer" where
  "list_template_images_route template_id page page_size d =
     rbind (attempt (list_images template_id page page_size d) list_image_errors) (\<lambda>listing.
     Inr (reply HTTP_200_OK (page_of image_view page page_size listing)))"

definition get_template_image_route :: "uuid \<Rightarrow> uuid \<Rightarrow> db \<Rightarrow> template_image_read answer" where
  "get_template_image_route template_id image_id d =
     rbind (require (get_image template_id image_id d) image_not_found) (\<lambda>m.
     Inr (reply HTTP_200_OK (image_view m)))"

definition create_image_errors :: "template_image_error \<Rightarrow> failure" where
  "create_image_errors e =
     (case e of
        TemplateImageTemplateNotFoundError \<Rightarrow> image_template_not_found
      | TemplateImageAlreadyExistsError \<Rightarrow>
          http_error HTTP_409_CONFLICT ''Docker image is already allowed by this template''
      | _ \<Rightarrow> Unhandled)"

definition create_template_image_route ::
  "uuid \<Rightarrow> template_image_create \<Rightarrow> uuid \<Rightarrow> world \<Rightarrow> template_image_read answer \<times> world" where
  "create_template_image_route template_id payload image_id w =
     (case attempt (create_image template_id payload image_id (store w)) create_image_errors of
        Inl f \<Rightarrow> (Inl f, w)
      | Inr (d, m) \<Rightarrow> (Inr (reply HTTP_201_CREATED (image_view m)), w\<lparr>store := d\<rparr>))"

definition delete_image_errors :: "template_image_error \<Rightarrow> failure" where
  "delete_image_errors e =
     (case e of
        TemplateImageTemplateNotFoundError \<Rightarrow> image_template_not_found
      | TemplateImageNotFoundError \<Rightarrow> image_not_found
      | TemplateImageInUseError \<Rightarrow> http_error HTTP_409_CONFLICT ''Docker image is still used by workspaces''
      | _ \<Rightarrow> Unhandled)"

definition delete_template_image_route :: "uuid \<Rightarrow> uuid \<Rightarrow> world \<Rightarrow> unit answer \<times> world" where
  "delete_template_image_route template_id image_id w =
     (case attempt (delete_image template_id image_id (store w)) delete_image_errors of
        Inl f \<Rightarrow> (Inl f, w)
      | Inr d \<Rightarrow> (Inr (reply HTTP_204_NO_CONTENT ()), w\<lparr>store := d\<rparr>))"

section \<open>Parameters\<close>

definition parameter_template_not_found :: failure where
  "parameter_template_not_found = http_error HTTP_404_NOT_FOUND ''Template not found''"
definition parameter_not_found :: failure where
  "parameter_not_found = http_error HTTP_404_NOT_FOUND ''Template parameter not found''"
definition parameter_conflict :: failure where
  "parameter_conflict = http_error HTTP_409_CONFLICT ''A parameter with this name already exists in the template''"
definition parameter_sync_conflict :: failure where
  "parameter_sync_conflict = http_error HTTP_409_CONFLICT ''Template synchronization is already in progress''"

text \<open>
  The cipher of a request: encryption under the nonce drawn for it, decryption with the key. A
  text is the list of its code points.
\<close>

definition cipher_under :: "aead \<Rightarrow> bytes \<Rightarrow> bytes \<Rightarrow> parameter_cipher" where
  "cipher_under ae key nonce =
     \<lparr>pc_encrypt = (\<lambda>v k. template_parameter_encrypt ae key nonce (points v) k),
      pc_decrypt = (\<lambda>e k. case template_parameter_decrypt ae key e k of
                      Inl _ \<Rightarrow> None | Inr cs \<Rightarrow> Some (map char_of cs))\<rparr>"

definition parameter_cipher :: "api \<Rightarrow> bytes \<Rightarrow> (failure, parameter_cipher) result" where
  "parameter_cipher ap nonce =
     (case template_parameter_cipher_init (s_crypto_key (ap_settings ap)) of
        Inl _ \<Rightarrow> Inl (no_store_error HTTP_503_SERVICE_UNAVAILABLE ''Template parameter encryption is not configured'')
      | Inr key \<Rightarrow> Inr (cipher_under (ap_aead ap) key nonce))"

definition cipher_for :: "api \<Rightarrow> template_parameter_type \<Rightarrow> bytes \<Rightarrow> (failure, parameter_cipher option) result" where
  "cipher_for ap ty nonce =
     (if ty = SYSTEM_PARAMETER then rbind (parameter_cipher ap nonce) (\<lambda>c. Inr (Some c)) else Inr None)"

definition typed_reply :: "template_parameter_type \<Rightarrow> nat \<Rightarrow> 'a \<Rightarrow> 'a reply" where
  "typed_reply ty code content = (if ty = SYSTEM_PARAMETER then no_store_reply code content else reply code content)"

definition list_parameter_errors :: "template_parameter_error \<Rightarrow> failure" where
  "list_parameter_errors e =
     (case e of TemplateParameterTemplateNotFoundError \<Rightarrow> parameter_template_not_found | _ \<Rightarrow> Unhandled)"

definition list_template_parameters_route ::
  "uuid \<Rightarrow> int \<Rightarrow> int \<Rightarrow> db \<Rightarrow> template_parameter_read page answer" where
  "list_template_parameters_route template_id page page_size d =
     rbind (attempt (list_parameters template_id page page_size d) list_parameter_errors) (\<lambda>listing.
     Inr (reply HTTP_200_OK (page_of (parameter_read d) page page_size listing)))"

definition get_template_parameter_route :: "uuid \<Rightarrow> uuid \<Rightarrow> db \<Rightarrow> template_parameter_read answer" where
  "get_template_parameter_route template_id parameter_id d =
     rbind (require (get_parameter template_id parameter_id d) parameter_not_found) (\<lambda>p.
     Inr (reply HTTP_200_OK (parameter_read d p)))"

definition create_parameter_errors :: "template_parameter_error \<Rightarrow> failure" where
  "create_parameter_errors e =
     (case e of
        TemplateParameterTemplateNotFoundError \<Rightarrow> parameter_template_not_found
      | TemplateParameterAlreadyExistsError \<Rightarrow> parameter_conflict
      | TemplateParameterSyncInProgressError \<Rightarrow> parameter_sync_conflict
      | _ \<Rightarrow> Unhandled)"

definition create_template_parameter_route ::
  "api \<Rightarrow> uuid \<Rightarrow> template_parameter_create \<Rightarrow> bytes \<Rightarrow> uuid \<Rightarrow> world
    \<Rightarrow> template_parameter_read answer \<times> world" where
  "create_template_parameter_route ap template_id payload nonce parameter_id w =
     (case rbind (cipher_for ap (create_type payload) nonce) (\<lambda>cipher.
             attempt (create_parameter template_id payload cipher parameter_id (store w)) create_parameter_errors) of
        Inl f \<Rightarrow> (Inl f, w)
      | Inr (d, p) \<Rightarrow> (Inr (typed_reply (create_type payload) HTTP_201_CREATED (parameter_read d p)), w\<lparr>store := d\<rparr>))"

definition update_parameter_errors :: "template_parameter_error \<Rightarrow> failure" where
  "update_parameter_errors e =
     (case e of
        TemplateParameterTemplateNotFoundError \<Rightarrow> parameter_template_not_found
      | TemplateParameterNotFoundError \<Rightarrow> parameter_not_found
      | TemplateParameterImmutableFieldError \<Rightarrow> http_error HTTP_409_CONFLICT ''Template parameter type is immutable''
      | TemplateParameterSyncInProgressError \<Rightarrow> parameter_sync_conflict
      | TemplateParameterDecryptionFailed \<Rightarrow>
          no_store_error HTTP_503_SERVICE_UNAVAILABLE ''Template parameter value cannot be decrypted''
      | _ \<Rightarrow> Unhandled)"

definition update_template_parameter_route ::
  "api \<Rightarrow> uuid \<Rightarrow> uuid \<Rightarrow> template_parameter_update \<Rightarrow> bytes \<Rightarrow> world
    \<Rightarrow> template_parameter_read answer \<times> world" where
  "update_template_parameter_route ap template_id parameter_id payload nonce w =
     (case rbind (cipher_for ap (update_type payload) nonce) (\<lambda>cipher.
             attempt (update_parameter template_id parameter_id payload cipher (store w)) update_parameter_errors) of
        Inl f \<Rightarrow> (Inl f, w)
      | Inr (d, p) \<Rightarrow> (Inr (typed_reply (update_type payload) HTTP_200_OK (parameter_read d p)), w\<lparr>store := d\<rparr>))"

definition delete_parameter_errors :: "template_parameter_error \<Rightarrow> failure" where
  "delete_parameter_errors e =
     (case e of
        TemplateParameterTemplateNotFoundError \<Rightarrow> parameter_template_not_found
      | TemplateParameterNotFoundError \<Rightarrow> parameter_not_found
      | TemplateParameterSyncInProgressError \<Rightarrow> parameter_sync_conflict
      | _ \<Rightarrow> Unhandled)"

definition delete_template_parameter_route :: "uuid \<Rightarrow> uuid \<Rightarrow> world \<Rightarrow> unit answer \<times> world" where
  "delete_template_parameter_route template_id parameter_id w =
     (case attempt (delete_parameter template_id parameter_id (store w)) delete_parameter_errors of
        Inl f \<Rightarrow> (Inl f, w)
      | Inr d \<Rightarrow> (Inr (reply HTTP_204_NO_CONTENT ()), w\<lparr>store := d\<rparr>))"

end
