(* ===== verification/Router.thy ===== *)
theory Router
  imports Instance_Routes Directory_Routes Catalogue_Routes Catalogue
begin

text \<open>
  The top-level router (\<^verbatim>\<open>api/router.py\<close>): every request that may change the store, served by
  its route. The outcome keeps the status, the headers and the job of the response; the bodies
  are those of the routes.
\<close>

section \<open>Requests\<close>

datatype request =
    CreateProvider uuid bytes
  | CreateInstance string
  | StartInstance uuid
  | StopInstance uuid
  | SyncInstance uuid
  | DeleteInstance uuid
  | SyncDatabases
  | CreateDatabase database_payload string
  | UpdateDatabase uuid database_payload
  | DeleteDatabase uuid
  | CreateMember uuid member_create
  | UpdateMemberRole uuid uuid member_role
  | DeleteMember uuid uuid
  | CreateWorkspace workspace_create
  | UpdateWorkspace uuid workspace_update
  | DeleteWorkspace uuid
  | PutInstanceTemplate uuid uuid
  | DeleteInstanceTemplate uuid uuid
  | SyncTemplate uuid
  | CreateTemplate template_create
  | UpdateTemplate uuid template_update
  | DeleteTemplate uuid
  | CreateTemplateImage uuid template_image_create
  | DeleteTemplateImage uuid uuid
  | CreateTemplateParameter uuid template_parameter_create
  | UpdateTemplateParameter uuid uuid template_parameter_update
  | DeleteTemplateParameter uuid uuid

text \<open>What a request draws: keys for the rows it creates, a nonce, slugs, and the time.\<close>

record draws =
  dw_key :: uuid
  dw_job :: uuid
  dw_allocation :: uuid
  dw_nonce :: bytes
  dw_slugs :: "string list"
  dw_now :: instant

type_synonym outcome = "(failure, nat \<times> (string \<times> string) list \<times> job_read option) result"

definition outcome_of :: "('a \<Rightarrow> job_read option) \<Rightarrow> 'a answer \<times> world \<Rightarrow> outcome \<times> world" where
  "outcome_of job served =
     (case served of
        (Inl f, w) \<Rightarrow> (Inl f, w)
      | (Inr r, w) \<Rightarrow> (Inr (rp_status r, rp_headers r, job (rp_body r)), w))"

abbreviation plain :: "'a answer \<times> world \<Rightarrow> outcome \<times> world" where
  "plain \<equiv> outcome_of (\<lambda>_. None)"

abbreviation with_job :: "'r job_resource answer \<times> world \<Rightarrow> outcome \<times> world" where
  "with_job \<equiv> outcome_of res_job"

definition serve :: "api \<Rightarrow> draws \<Rightarrow> request \<Rightarrow> world \<Rightarrow> (outcome \<times> world) option" where
  "serve ap dw r w =
     (case r of
        CreateProvider k kubeconfig \<Rightarrow>
          Some (with_job (create_instance_provider_route ap k kubeconfig (dw_nonce dw) (dw_job dw) (dw_now dw) w))
      | CreateInstance application \<Rightarrow>
          map_option with_job (create_instance_route ap application (dw_key dw) (dw_job dw) (dw_allocation dw)
                                 (dw_slugs dw) (dw_now dw) w)
      | StartInstance k \<Rightarrow> Some (with_job (start_instance_route ap k (dw_job dw) (dw_now dw) w))
      | StopInstance k \<Rightarrow> Some (with_job (stop_instance_route ap k (dw_job dw) (dw_now dw) w))
      | SyncInstance k \<Rightarrow> Some (with_job (sync_instance_route ap k (dw_job dw) (dw_now dw) w))
      | DeleteInstance k \<Rightarrow> Some (with_job (delete_instance_route ap k (dw_job dw) (dw_now dw) w))
      | SyncDatabases \<Rightarrow> Some (outcome_of Some (sync_databases_route ap (dw_job dw) (dw_now dw) w))
      | CreateDatabase payload password \<Rightarrow>
          Some (plain (create_database_route ap payload password (dw_nonce dw) (dw_key dw) w))
      | UpdateDatabase k payload \<Rightarrow> Some (plain (update_database_route ap k payload (dw_nonce dw) w))
      | DeleteDatabase k \<Rightarrow> Some (plain (delete_database_route k w))
      | CreateMember k payload \<Rightarrow>
          Some (with_job (create_member_route ap k payload (dw_key dw) (dw_job dw) (dw_now dw) w))
      | UpdateMemberRole k m role \<Rightarrow>
          Some (with_job (update_member_role_route ap k m role (dw_job dw) (dw_now dw) w))
      | DeleteMember k m \<Rightarrow> Some (with_job (delete_member_route ap k m (dw_job dw) (dw_now dw) w))
      | CreateWorkspace payload \<Rightarrow>
          Some (with_job (create_workspace_route ap payload (dw_key dw) (dw_job dw) (dw_now dw) w))
      | UpdateWorkspace k payload \<Rightarrow>
          Some (with_job (update_workspace_route ap k payload (dw_job dw) (dw_now dw) w))
      | DeleteWorkspace k \<Rightarrow> Some (with_job (delete_workspace_route ap k (dw_job dw) (dw_now dw) w))
      | PutInstanceTemplate k t \<Rightarrow>
          Some (with_job (put_instance_template_route ap k t (dw_key dw) (dw_job dw) (dw_now dw) w))
      | DeleteInstanceTemplate k t \<Rightarrow>
          Some (outcome_of (\<lambda>b. Option.bind b res_job)
                  (delete_instance_template_route ap k t (dw_job dw) (dw_now dw) w))
      | SyncTemplate k \<Rightarrow> Some (plain (sync_template_route ap k (dw_job dw) (dw_now dw) w))
      | CreateTemplate payload \<Rightarrow> Some (plain (create_template_route payload (dw_key dw) w))
      | UpdateTemplate k payload \<Rightarrow> Some (plain (update_template_route k payload w))
      | DeleteTemplate k \<Rightarrow> Some (plain (delete_template_route k w))
      | CreateTemplateImage k payload \<Rightarrow> Some (plain (create_template_image_route k payload (dw_key dw) w))
      | DeleteTemplateImage k m \<Rightarrow> Some (plain (delete_template_image_route k m w))
      | CreateTemplateParameter k payload \<Rightarrow>
          Some (plain (create_template_parameter_route ap k payload (dw_nonce dw) (dw_key dw) w))
      | UpdateTemplateParameter k p payload \<Rightarrow>
          Some (plain (update_template_parameter_route ap k p payload (dw_nonce dw) w))
      | DeleteTemplateParameter k p \<Rightarrow> Some (plain (delete_template_parameter_route k p w)))"

text \<open>The keys drawn are new: they are random identifiers of 128 bits.\<close>

definition fresh_draws :: "draws \<Rightarrow> db \<Rightarrow> bool" where
  "fresh_draws dw d = (job_of d (dw_job dw) = None \<and> template_of d (dw_key dw) = None)"

section \<open>What every request does\<close>

text \<open>
  \<open>handled\<close>: the request is a run of the system, and either it stages no job and sends nothing,
  or it stages one job, under the key drawn for it, which the worker that receives the message can
  claim; the message is sent for the task that the job names.
\<close>

definition handled :: "api \<Rightarrow> uuid \<Rightarrow> world \<Rightarrow> world \<Rightarrow> bool" where
  "handled ap jk w w' =
     (sys_run (store w) (store w')
      \<and> (broker w' = broker w \<and> (\<forall>k. job_of (store w) k = None \<longrightarrow> job_of (store w') k = None)
         \<or> (\<exists>t. t \<in> set REGISTERED_STEP_NAMES \<and> claimable (store w') jk t
              \<and> broker w' = fst (dispatch_registered_step (ap_celery ap) t jk (broker w))
              \<and> (\<forall>k. k \<noteq> jk \<longrightarrow> job_of (store w) k = None \<longrightarrow> job_of (store w') k = None))))"

lemma handled_same [simp]: "handled ap jk w w"
  by (simp add: handled_def)

lemma handled_silent:
  "sys_run (store w) d \<Longrightarrow> (\<And>k. job_of (store w) k = None \<Longrightarrow> job_of d k = None) \<Longrightarrow> handled ap jk w (w\<lparr>store := d\<rparr>)"
  by (simp add: handled_def)

lemma handled_sent:
  assumes "sys_run (store w) d" and "claimable d jk t" and "t \<in> set REGISTERED_STEP_NAMES"
    and "\<And>k. k \<noteq> jk \<Longrightarrow> job_of (store w) k = None \<Longrightarrow> job_of d k = None"
  shows "handled ap jk w (w\<lparr>store := d, broker := fst (dispatch_registered_step (ap_celery ap) t jk (broker w))\<rparr>)"
  unfolding handled_def using assms by (intro conjI disjI2 exI[of _ t]) simp_all

text \<open>The job of the answer is the one staged, so \<open>dispatch_to\<close> sends its key.\<close>

lemma dispatch_claimable:
  assumes "claimable d jk t"
  shows "dispatch_to ap t (read_job d (Some jk)) (w\<lparr>store := d\<rparr>)
    = w\<lparr>store := d, broker := fst (dispatch_registered_step (ap_celery ap) t jk (broker w))\<rparr>"
proof -
  obtain job where "job_of d jk = Some job" using assms by (auto simp: claimable_def split: option.splits)
  with select_row_key[OF this] show ?thesis
    by (simp add: dispatch_to_def read_job_def get_job_execution_def job_view_def)
qed

section \<open>Which jobs an operation stages\<close>

definition jobs_within :: "uuid \<Rightarrow> db \<Rightarrow> db \<Rightarrow> bool" where
  "jobs_within jk d d' = (\<forall>k. k \<noteq> jk \<longrightarrow> job_of d k = None \<longrightarrow> job_of d' k = None)"

definition jobs_kept :: "db \<Rightarrow> db \<Rightarrow> bool" where
  "jobs_kept d d' = (\<forall>k. job_of d k = None \<longrightarrow> job_of d' k = None)"

lemma jobs_kept_same: "job_executions d' = job_executions d \<Longrightarrow> jobs_kept d d'"
  by (simp add: jobs_kept_def)

lemma jobs_within_insert:
  "job_executions d' = insert_row job (job_executions d) \<Longrightarrow> j_id job = jk \<Longrightarrow> jobs_within jk d d'"
  by (simp add: jobs_within_def select_insert_row)

lemma jobs_within_trans: "jobs_kept d d1 \<Longrightarrow> jobs_within jk d1 d' \<Longrightarrow> jobs_within jk d d'"
  by (simp add: jobs_kept_def jobs_within_def)

lemma jobs_kept_trans: "jobs_kept d d1 \<Longrightarrow> jobs_kept d1 d' \<Longrightarrow> jobs_kept d d'"
  by (simp add: jobs_kept_def)

lemma jobs_kept_drop_job [simp]: "jobs_kept d (drop_job k d)"
  by (auto simp: jobs_kept_def drop_job_def select_delete_key split: option.splits)

lemma jobs_save_resource [simp]: "job_executions (save_resource r d) = job_executions d"
  by (cases r) simp_all

lemma jobs_insert_resource [simp]: "job_executions (insert_resource r d) = job_executions d"
  by (cases r) simp_all

lemma j_id_add_job_execution [simp]: "j_id (add_job_execution k name task ty rid step now) = k"
  by (simp add: add_job_execution_def)

lemma jobs_within_attach_instance:
  "jobs_kept d d1 \<Longrightarrow> jobs_within jk d (fst (attach_instance_job i action name task step jk now d1))"
  by (rule jobs_within_trans, assumption, rule jobs_within_insert)
     (auto simp: attach_instance_job_def Let_def stage_job_def simp del: save_resource.simps)

lemma jobs_within_attach_job: "jobs_kept d d1 \<Longrightarrow> jobs_within jk d (attach_job r name task step jk now d1)"
  by (rule jobs_within_trans, assumption, rule jobs_within_insert) (auto simp: attach_job_def stage_job_def)

lemma jobs_within_insert_with_job: "jobs_within jk d (insert_with_job r name task step jk now d)"
  by (rule jobs_within_insert) (auto simp: insert_with_job_def stage_job_def)

lemma jobs_within_enqueue:
  assumes "enqueue_update i jk now d1 = (d', enqueued)" and "job_executions d1 = job_executions d"
  shows "(case enqueued of None \<Rightarrow> jobs_kept d d' | Some k \<Rightarrow> k = jk \<and> jobs_within jk d d')"
proof -
  have stage: "jobs_within jk d (stage_instance_update_job j jk now d1)" for j
    by (rule jobs_within_insert) (auto simp: stage_instance_update_job_def stage_job_def assms(2) Let_def simp del: save_resource.simps)
  show ?thesis
    using assms stage
    by (auto simp: enqueue_update_def request_instance_update_def Let_def jobs_kept_same simp del: save_resource.simps
        split: if_splits)
qed

lemma handled_kept: "sys_run (store w) d \<Longrightarrow> jobs_kept (store w) d \<Longrightarrow> handled ap jk w (w\<lparr>store := d\<rparr>)"
  by (rule handled_silent) (simp_all add: jobs_kept_def)

lemma handled_staged:
  assumes "sys_run (store w) d" and "claimable d jk t" and "t \<in> set REGISTERED_STEP_NAMES" and "jobs_within jk (store w) d"
  shows "handled ap jk w (dispatch_to ap t (read_job d (Some jk)) (w\<lparr>store := d\<rparr>))"
  unfolding dispatch_claimable[OF assms(2)]
  by (rule handled_sent[OF assms(1-3)]) (use assms(4) in \<open>simp add: jobs_within_def\<close>)

section \<open>Instances\<close>

lemma attach_instance_facts:
  assumes "instance_of d k = Some i" and "job_of d jk = None" and "same_lifecycle d d1"
    and "map_of RESOURCE_ACTIONS name = Some action"
    and "(d', i') = attach_instance_job i action name task step jk now d1"
  shows "sys_run d d'" and "claimable d' jk task" and "jobs_within jk d d'" and "i_job_id i' = Some jk"
    and "job_of d' jk = Some (add_job_execution jk name task (Some ''instance'') (Some (i_id i)) step now)"
proof -
  have d': "d' = fst (attach_instance_job i action name task step jk now d1)"
    and i': "i' = snd (attach_instance_job i action name task step jk now d1)"
    using assms(5) by (metis fst_conv, metis snd_conv)
  have key: "i_id i = k" using assms(1) by (rule select_row_key)
  have same: "instance_of d1 (i_id i) = Some i" "job_of d1 jk = None" "jobs_kept d d1"
    using assms(1-3) key by (simp_all add: same_lifecycle_def jobs_kept_def)
  show "sys_run d d'" unfolding d' by (rule run_attach[OF assms(1-3)])
  show "claimable d' jk task" unfolding d' by (rule claimable_attach[OF same(1,2) assms(4)])
  show "jobs_within jk d d'" unfolding d' by (rule jobs_within_attach_instance[OF same(3)])
  show "i_job_id i' = Some jk" by (simp add: i' attach_instance_job_def Let_def)
  show "job_of d' jk = Some (add_job_execution jk name task (Some ''instance'') (Some (i_id i)) step now)"
    unfolding d' by (rule job_of_attach[OF same(2)])
qed

lemma accept_instance_handled:
  assumes "sys_run (store w) d" and "claimable d jk t" and "t \<in> set REGISTERED_STEP_NAMES"
    and "jobs_within jk (store w) d" and "i_job_id i = Some jk"
    and "\<And>job. job_of d jk = Some job \<Longrightarrow> task_name (job_view job) = t"
    and "accept_instance ap code task_name (d, i) w = (ans, w')"
  shows "handled ap jk w w'"
proof -
  obtain job where job: "job_of d jk = Some job" using assms(2) by (auto simp: claimable_def split: option.splits)
  then have "read_job d (Some jk) = Some (job_view job)" by (simp add: read_job_def get_job_execution_def)
  then have "w' = dispatch_to ap t (read_job d (Some jk)) (w\<lparr>store := d\<rparr>)"
    using assms(5,7) assms(6)[OF job] by (auto simp: accept_instance_def Let_def)
  then show ?thesis using handled_staged[OF assms(1-4)] by simp
qed

definition staged :: "world \<Rightarrow> uuid \<Rightarrow> (job_read \<Rightarrow> string) \<Rightarrow> db \<Rightarrow> inst \<Rightarrow> bool" where
  "staged w jk task_name d i =
     (\<exists>t. sys_run (store w) d \<and> claimable d jk t \<and> t \<in> set REGISTERED_STEP_NAMES \<and> jobs_within jk (store w) d
        \<and> i_job_id i = Some jk \<and> (\<forall>job. job_of d jk = Some job \<longrightarrow> task_name (job_view job) = t))"

lemma staged_attach:
  assumes "instance_of (store w) k = Some i" and "job_of (store w) jk = None" and "same_lifecycle (store w) d1"
    and "map_of RESOURCE_ACTIONS name = Some action" and "task \<in> set REGISTERED_STEP_NAMES"
    and "(d', i') = attach_instance_job i action name task step jk now d1"
    and "\<And>j. jr_step j = step \<Longrightarrow> task_name j = task"
  shows "staged w jk task_name d' i'"
  using attach_instance_facts[OF assms(1-4,6)] assms(5,7)
  unfolding staged_def by (intro exI[of _ task]) (simp add: job_view_def)

lemma accept_staged_handled:
  "staged w jk task_name d i \<Longrightarrow> accept_instance ap code task_name (d, i) w = (ans, w') \<Longrightarrow> handled ap jk w w'"
  using accept_instance_handled unfolding staged_def by metis

lemma lifecycle_route_handled:
  assumes "\<And>d i. r = Inr (d, i) \<Longrightarrow> staged w jk task_name d i"
    and "lifecycle_route ap r conflict task_name w = (ans, w')"
  shows "handled ap jk w w'"
proof (cases r)
  case (Inl e)
  with assms(2) show ?thesis by (simp add: lifecycle_route_def attempt_def)
next
  case (Inr p)
  with assms show ?thesis
    by (cases p) (auto simp: lifecycle_route_def attempt_def intro: accept_staged_handled)
qed

lemma power_route_handled:
  assumes "job_of (store w) jk = None" and "map_of RESOURCE_ACTIONS name = Some action"
    and "task \<in> set REGISTERED_STEP_NAMES"
    and "lifecycle_route ap (request_power_action k action name task step jk now (store w)) msg (\<lambda>_. task) w = (ans, w')"
  shows "handled ap jk w w'"
proof (rule lifecycle_route_handled[OF _ assms(4)])
  fix d i assume "request_power_action k action name task step jk now (store w) = Inr (d, i)"
  then obtain i0 where i0: "instance_of (store w) k = Some i0"
    "(d, i) = attach_instance_job i0 action name task step jk now (store w)"
    using request_power_action_Inr by blast
  show "staged w jk (\<lambda>_. task) d i"
    by (rule staged_attach[OF i0(1) assms(1) same_lifecycle_refl assms(2,3) i0(2)]) simp
qed

lemma start_instance_handled:
  "job_of (store w) jk = None \<Longrightarrow> start_instance_route ap k jk now w = (ans, w') \<Longrightarrow> handled ap jk w w'"
  unfolding start_instance_route_def request_instance_start_def by (erule power_route_handled[rotated 3]) simp_all

lemma stop_instance_handled:
  "job_of (store w) jk = None \<Longrightarrow> stop_instance_route ap k jk now w = (ans, w') \<Longrightarrow> handled ap jk w w'"
  unfolding stop_instance_route_def request_instance_stop_def by (erule power_route_handled[rotated 3]) simp_all

lemma sync_instance_handled:
  assumes "job_of (store w) jk = None" and "sync_instance_route ap k jk now w = (ans, w')"
  shows "handled ap jk w w'"
proof (rule lifecycle_route_handled[OF _ assms(2)[unfolded sync_instance_route_def]])
  fix d i assume "request_instance_sync k jk now (store w) = Inr (d, i)"
  then obtain i0 where i0: "instance_of (store w) k = Some i0"
    "(d, i) = attach_instance_job i0 ''updating'' ''instance.update'' INSTANCE_UPDATE_STEP_01_TASK
       INSTANCE_UPDATE_STEP_01 jk now (retry_failed_members k (store w))"
    using request_instance_sync_Inr by blast
  show "staged w jk (\<lambda>_. INSTANCE_UPDATE_STEP_01_TASK) d i"
    by (rule staged_attach[OF i0(1) assms(1) same_lifecycle_retry_failed_members _ _ i0(2)]) simp_all
qed

lemma deletion_entry_cases:
  "deletion_entry i = (INSTANCE_DELETE_STEP_02_TASK, INSTANCE_DELETE_STEP_02)
   \<or> deletion_entry i = (INSTANCE_DELETE_STEP_01_TASK, INSTANCE_DELETE_STEP_01)"
  by (simp add: deletion_entry_def Let_def)

text \<open>The route of a deletion recovers the task from the step, and finds the task the job names.\<close>

lemma delete_instance_handled:
  assumes "job_of (store w) jk = None" and "delete_instance_route ap k jk now w = (ans, w')"
  shows "handled ap jk w w'"
proof (rule lifecycle_route_handled[OF _ assms(2)[unfolded delete_instance_route_def]])
  fix d i assume "request_instance_deletion k jk now (store w) = Inr (d, i)"
  then obtain i0 where i0: "instance_of (store w) k = Some i0"
    "(d, i) = attach_instance_job i0 ''deleting'' ''instance.delete'' (fst (deletion_entry i0))
       (snd (deletion_entry i0)) jk now (store w)"
    using request_instance_deletion_Inr by blast
  have steps: "INSTANCE_DELETE_STEP_01 \<noteq> INSTANCE_DELETE_STEP_02" by (simp add: registry_defs)
  show "staged w jk (\<lambda>job. if jr_step job = INSTANCE_DELETE_STEP_02 then INSTANCE_DELETE_STEP_02_TASK
              else INSTANCE_DELETE_STEP_01_TASK) d i"
    by (rule staged_attach[OF i0(1) assms(1) same_lifecycle_refl _ _ i0(2)])
       (use deletion_entry_cases[of i0] steps in auto)
qed

lemma create_instance_handled:
  assumes "create_instance_route ap application ik jk ak slugs now w = Some (ans, w')"
  shows "handled ap jk w w'"
proof -
  obtain r where r: "create_instance application ik jk ak slugs now (store w) = Some r"
    and ans: "(case attempt r create_instance_errors of Inl f \<Rightarrow> (Inl f, w)
       | Inr accepted \<Rightarrow> accept_instance ap HTTP_201_CREATED (\<lambda>_. INSTANCE_CREATE_STEP_01_TASK) accepted w) = (ans, w')"
    using assms by (auto simp: create_instance_route_def)
  show ?thesis
  proof (cases r)
    case (Inl e)
    with ans show ?thesis by (simp add: attempt_def)
  next
    case (Inr p)
    obtain d i where p: "p = (d, i)" by (cases p)
    with Inr r have created: "create_instance application ik jk ak slugs now (store w) = Some (Inr (d, i))" by simp
    have "i_job_id i = Some jk" "jobs_within jk (store w) d"
      using created by (auto elim!: create_instance_Inr simp: new_instance_row_def jobs_within_def stage_job_def select_insert_row)
    then have "staged w jk (\<lambda>_. INSTANCE_CREATE_STEP_01_TASK) d i"
      unfolding staged_def
      using run_create_instance[OF created] claimable_create_instance[OF created] registered_tasks(1) by blast
    with ans Inr p show ?thesis by (auto simp: attempt_def intro: accept_staged_handled)
  qed
qed

lemma create_provider_handled:
  assumes "job_of (store w) jk = None"
    and "create_instance_provider_route ap k kubeconfig nonce jk now w = (ans, w')"
  shows "handled ap jk w w'"
proof (cases "rbind (kubeconfig_cipher (ap_settings ap)) (\<lambda>key.
     attempt (create_provider_and_request_update k kubeconfig
        (kubeconfig_encrypt (ap_aead ap) key nonce) jk now (store w)) provider_create_errors)")
  case (Inl f)
  with assms(2) show ?thesis by (simp add: create_instance_provider_route_def)
next
  case (Inr p)
  obtain d provider where p: "p = (d, provider)" by (cases p)
  with Inr obtain key where
    "create_provider_and_request_update k kubeconfig (kubeconfig_encrypt (ap_aead ap) key nonce) jk now (store w)
       = Inr (d, provider)"
    by (auto simp: answer_iffs)
  then obtain i where i: "instance_of (store w) k = Some i"
    and d: "d = fst (attach_instance_job i ''updating'' ''instance.update'' INSTANCE_UPDATE_STEP_01_TASK
              INSTANCE_UPDATE_STEP_01 jk now
              ((store w)\<lparr>instance_kubernetes_rows := insert_row provider (instance_kubernetes_rows (store w))\<rparr>))"
      (is "_ = fst (attach_instance_job _ _ _ _ _ _ _ ?d1)")
    by (auto simp: create_provider_and_request_update_def lock_idle_instance_def result_iffs Let_def)
  have d1: "same_lifecycle (store w) ?d1" by (simp add: same_lifecycle_def)
  note facts = attach_instance_facts[OF i assms(1) d1 _ prod.collapse, of "''instance.update''" "''updating''"
      INSTANCE_UPDATE_STEP_01_TASK INSTANCE_UPDATE_STEP_01 now, folded d, simplified]
  have key: "i_id i = k" by (rule select_row_key[OF i])
  then have "instance_of ?d1 (i_id i) = Some i" using i by simp
  from instance_of_attach[OF this] have "instance_of d k
      = Some (i\<lparr>i_action := ''updating'', i_status := PENDING, i_job_id := Some jk, i_step := Some INSTANCE_UPDATE_STEP_01\<rparr>)"
    unfolding d key .
  then have "instance_job d k = read_job d (Some jk)" by (simp add: instance_job_def get_instance_def)
  with assms(2) Inr p have "w' = dispatch_to ap INSTANCE_UPDATE_STEP_01_TASK (read_job d (Some jk)) (w\<lparr>store := d\<rparr>)"
    by (auto simp: create_instance_provider_route_def Let_def)
  with handled_staged[OF facts(1,2) registered_tasks(4) facts(3)] show ?thesis by simp
qed

section \<open>The other routes\<close>

text \<open>A route that stages no job stores what its repository returns, or nothing.\<close>

lemma plain_handled:
  assumes "(case r of Inl f \<Rightarrow> (Inl f, w) | Inr p \<Rightarrow> (Inr (view p), w\<lparr>store := next_store p\<rparr>)) = (ans, w')"
    and "\<And>p. r = Inr p \<Longrightarrow> sys_run (store w) (next_store p) \<and> jobs_kept (store w) (next_store p)"
  shows "handled ap jk w w'"
  using assms handled_kept by (cases r) auto

lemma bookkeeping: "same_lifecycle d d' \<Longrightarrow> sys_run d d' \<and> jobs_kept d d'"
  by (auto simp: run_bookkeep jobs_kept_def same_lifecycle_def)

lemma databases_handled:
  "create_database_route ap payload password nonce k w = (ans1, w1) \<Longrightarrow> handled ap jk w w1"
  "update_database_route ap k payload nonce w = (ans2, w2) \<Longrightarrow> handled ap jk w w2"
  "delete_database_route k w = (ans3, w3) \<Longrightarrow> handled ap jk w w3"
proof -
  show "create_database_route ap payload password nonce k w = (ans1, w1) \<Longrightarrow> handled ap jk w w1"
    unfolding create_database_route_def split_beta
    by (erule plain_handled, rule bookkeeping)
       (auto simp: answer_iffs create_database_def Let_def same_lifecycle_def split: if_splits)
  show "update_database_route ap k payload nonce w = (ans2, w2) \<Longrightarrow> handled ap jk w w2"
    unfolding update_database_route_def split_beta
    by (erule plain_handled, rule bookkeeping)
       (auto simp: answer_iffs update_database_def Let_def same_lifecycle_def split: if_splits)
  show "delete_database_route k w = (ans3, w3) \<Longrightarrow> handled ap jk w w3"
    unfolding delete_database_route_def
    by (erule plain_handled, rule bookkeeping) (auto simp: answer_iffs delete_database_def same_lifecycle_def)
qed

lemma sync_databases_handled:
  assumes "job_of (store w) jk = None" and "sync_databases_route ap jk now w = (ans, w')"
  shows "handled ap jk w w'"
proof -
  let ?job = "add_job_execution jk ''database.sync'' DATABASE_SYNC_STEP_01_TASK None None DATABASE_SYNC_STEP_01 now"
  let ?d = "stage_job ?job (store w)"
  have job: "job_of ?d jk = Some ?job" using assms(1) by (simp add: stage_job_def select_insert_row)
  have "sys_txn (store w) ?d" using assms(1) by (intro sys_txn.system_job) simp_all
  then have run: "sys_run (store w) ?d" by (rule r_into_rtranclp)
  have ready: "claimable ?d jk DATABASE_SYNC_STEP_01_TASK"
    using job new_job_add[of jk "''database.sync''"] by (simp add: claimable_def resource_matches_def resource_for_job_def new_job_def)
  have "jobs_within jk (store w) ?d" by (rule jobs_within_insert[where job = ?job]) (simp_all add: stage_job_def)
  from handled_staged[OF run ready registered_tasks(16) this] show ?thesis
    using assms(2) job
    by (auto simp: sync_databases_route_def create_system_job_def Let_def read_job_def get_job_execution_def)
qed

lemma handled_enqueued:
  assumes "update_pending d k enqueued" and "sys_run (store w) d"
    and "case enqueued of None \<Rightarrow> jobs_kept (store w) d | Some k \<Rightarrow> k = jk \<and> jobs_within jk (store w) d"
  shows "handled ap jk w (dispatch_to ap INSTANCE_UPDATE_STEP_01_TASK (consume_instance_update_request d enqueued) (w\<lparr>store := d\<rparr>))"
proof (cases enqueued)
  case None
  with assms handled_kept[OF assms(2)] show ?thesis by (simp add: consume_instance_update_request_def dispatch_to_def)
next
  case (Some n)
  with assms have "n = jk" "claimable d jk INSTANCE_UPDATE_STEP_01_TASK" "jobs_within jk (store w) d"
    by (auto simp: update_pending_def)
  with handled_staged[OF assms(2) this(2) registered_tasks(4) this(3)] Some show ?thesis
    by (simp add: consume_instance_update_request_def read_job_def)
qed

lemma create_member_handled:
  assumes fresh: "job_of (store w) jk = None" and "create_member_route ap k payload mk jk now w = (ans, w')"
  shows "handled ap jk w w'"
proof (cases "create_member k payload mk jk now (store w)")
  case (Inl e)
  with assms(2) show ?thesis by (simp add: create_member_route_def attempt_def)
next
  case (Inr p)
  obtain d m enqueued where p: "p = (d, m, enqueued)" by (cases p)
  with Inr have made: "create_member k payload mk jk now (store w) = Inr (d, m, enqueued)" by simp
  have "case enqueued of None \<Rightarrow> jobs_kept (store w) d | Some k \<Rightarrow> k = jk \<and> jobs_within jk (store w) d"
  proof -
    obtain i where i: "lock_available_instance k (store w) = Inr i"
      using made by (auto simp: create_member_def rbind_Inr_iff)
    then have "enqueue_update i jk now ((store w)\<lparr>members := insert_row m (members (store w))\<rparr>) = (d, enqueued)"
      using made by (auto simp: create_member_def Let_def split: prod.splits if_splits)
    then show ?thesis by (rule jobs_within_enqueue) simp
  qed
  from handled_enqueued[OF create_member_Inr(1,3)[OF made fresh] this] show ?thesis
    using assms(2) Inr p by (auto simp: create_member_route_def attempt_def Let_def)
qed

lemma update_member_role_handled:
  assumes fresh: "job_of (store w) jk = None" and "update_member_role_route ap k mk role jk now w = (ans, w')"
  shows "handled ap jk w w'"
proof (cases "update_role k mk role jk now (store w)")
  case (Inl e)
  with assms(2) show ?thesis by (simp add: update_member_role_route_def attempt_def)
next
  case (Inr p)
  obtain d m changed enqueued where p: "p = (d, m, changed, enqueued)" by (cases p)
  show ?thesis
  proof (cases changed)
    case True
    with Inr p have made: "update_role k mk role jk now (store w) = Inr (d, m, True, enqueued)" by simp
    have "case enqueued of None \<Rightarrow> jobs_kept (store w) d | Some k \<Rightarrow> k = jk \<and> jobs_within jk (store w) d"
      using made by (auto simp: update_role_def result_iffs Let_def save_member_def split: prod.splits if_splits
          dest!: jobs_within_enqueue[where d = "store w"])
    from handled_enqueued[OF update_role_Inr(1,2)[OF made fresh] this] show ?thesis
      using assms(2) Inr p True by (auto simp: update_member_role_route_def attempt_def Let_def)
  next
    case False
    with Inr p have "d = store w" by (auto simp: update_role_def result_iffs Let_def split: prod.splits if_splits)
    with False assms(2) Inr p show ?thesis
      by (auto simp: update_member_role_route_def attempt_def Let_def dispatch_to_def)
  qed
qed

lemma delete_member_handled:
  assumes fresh: "job_of (store w) jk = None" and "delete_member_route ap k mk jk now w = (ans, w')"
  shows "handled ap jk w w'"
proof (cases "rbind (attempt (parse_default_admins (s_default_admins (ap_settings ap))) (\<lambda>_. Unhandled)) (\<lambda>admins.
     attempt (request_member_deletion k mk (ADMIN_USERNAME # admins) jk now (store w)) delete_member_errors)")
  case (Inl f)
  with assms(2) show ?thesis by (simp add: delete_member_route_def)
next
  case (Inr p)
  obtain d m enqueued where p: "p = (d, m, enqueued)" by (cases p)
  with Inr obtain admins where made: "request_member_deletion k mk (ADMIN_USERNAME # admins) jk now (store w) = Inr (d, m, enqueued)"
    by (auto simp: answer_iffs)
  have "case enqueued of None \<Rightarrow> jobs_kept (store w) d | Some k \<Rightarrow> k = jk \<and> jobs_within jk (store w) d"
  proof -
    obtain i m0 where "enqueue_update i jk now (save_member m0 (store w)) = (d, enqueued)"
      using made by (auto simp: request_member_deletion_def result_iffs Let_def split_beta prod_eq_iff)
    then show ?thesis by (rule jobs_within_enqueue) (simp add: save_member_def)
  qed
  from handled_enqueued[OF request_member_deletion_Inr(1,2)[OF made fresh] this] show ?thesis
    using assms(2) Inr p by (auto simp: delete_member_route_def Let_def)
qed

lemma create_workspace_handled:
  assumes "create_workspace_route ap payload k jk now w = (ans, w')"
  shows "handled ap jk w w'"
proof (cases "create_workspace payload k jk now (store w)")
  case (Inl e)
  with assms show ?thesis by (simp add: create_workspace_route_def attempt_def)
next
  case (Inr p)
  obtain d x where p: "p = (d, x)" by (cases p)
  with Inr have made: "create_workspace payload k jk now (store w) = Inr (d, x)" by simp
  have "w_job_id x = Some jk" "jobs_within jk (store w) d"
    using made by (auto simp: create_workspace_def result_iffs Let_def intro: jobs_within_insert_with_job split: if_splits)
  with handled_staged[OF create_workspace_Inr(1,2)[OF made] registered_tasks(13)] assms Inr p show ?thesis
    by (auto simp: create_workspace_route_def attempt_def Let_def)
qed

lemma update_workspace_handled:
  assumes "update_workspace_route ap k payload jk now w = (ans, w')"
  shows "handled ap jk w w'"
proof (cases "update_workspace k payload jk now (store w)")
  case (Inl e)
  with assms show ?thesis by (simp add: update_workspace_route_def attempt_def)
next
  case (Inr p)
  obtain d x changed where p: "p = (d, x, changed)" by (cases p)
  with Inr have made: "update_workspace k payload jk now (store w) = Inr (d, x, changed)" by simp
  show ?thesis
  proof (cases changed)
    case True
    have "w_job_id x = Some jk" "jobs_within jk (store w) d"
      using update_workspace_Inr[OF made] True
      by (auto simp: request_fields_def jobs_kept_def intro!: jobs_within_attach_job)
    with handled_staged[OF update_workspace_changed(1,2)[OF made[unfolded True[THEN eqTrueI]]] registered_tasks(14)]
      True assms Inr p show ?thesis
      by (auto simp: update_workspace_route_def attempt_def dispatch_job_def Let_def)
  next
    case False
    with update_workspace_Inr[OF made] have "d = store w" by auto
    with False assms Inr p show ?thesis by (auto simp: update_workspace_route_def attempt_def dispatch_job_def)
  qed
qed

lemma delete_workspace_handled:
  assumes fresh: "job_of (store w) jk = None" and "delete_workspace_route ap k jk now w = (ans, w')"
  shows "handled ap jk w w'"
proof (cases "request_workspace_deletion k jk now (store w)")
  case (Inl e)
  with assms(2) show ?thesis by (simp add: delete_workspace_route_def attempt_def)
next
  case (Inr p)
  obtain d x where p: "p = (d, x)" by (cases p)
  with Inr have made: "request_workspace_deletion k jk now (store w) = Inr (d, x)" by simp
  have "w_job_id x = Some jk" "jobs_within jk (store w) d"
    using made by (auto simp: request_workspace_deletion_def result_iffs Let_def request_fields_def jobs_kept_def
        intro!: jobs_within_attach_job)
  with handled_staged[OF request_workspace_deletion_Inr(1,2)[OF made fresh] registered_tasks(15)] assms(2) Inr p
  show ?thesis by (auto simp: delete_workspace_route_def attempt_def Let_def)
qed

lemma handled_enqueued_assignment:
  assumes "sys_run (store w) d" and "enqueued = None \<Longrightarrow> d = store w"
    and "\<And>k. enqueued = Some k \<Longrightarrow> k = jk \<and> claimable d jk t" and "t \<in> set REGISTERED_STEP_NAMES"
    and "jobs_within jk (store w) d"
  shows "handled ap jk w (dispatch_enqueued_job ap enqueued t (w\<lparr>store := d\<rparr>))"
proof (cases enqueued)
  case None
  with assms(2) show ?thesis by (simp add: dispatch_enqueued_job_def)
next
  case (Some n)
  with assms(3) have "n = jk" "claimable d jk t" by auto
  with Some handled_sent[OF assms(1) this(2) assms(4)] assms(5) show ?thesis
    by (simp add: dispatch_enqueued_job_def jobs_within_def)
qed

lemma put_template_handled:
  assumes "put_instance_template_route ap k t ak jk now w = (ans, w')"
  shows "handled ap jk w w'"
proof (cases "put_assignment k t ak jk now (store w)")
  case (Inl e)
  with assms show ?thesis by (simp add: put_instance_template_route_def attempt_def)
next
  case (Inr p)
  obtain d a accepted enqueued where p: "p = (d, a, accepted, enqueued)" by (cases p)
  with Inr have made: "put_assignment k t ak jk now (store w) = Inr (d, a, accepted, enqueued)" by simp
  have "jobs_within jk (store w) d"
    using made by (auto simp: put_assignment_def result_iffs Let_def jobs_within_def
        intro: jobs_within_insert_with_job[unfolded jobs_within_def, rule_format] split: option.splits if_splits)
  from handled_enqueued_assignment[OF put_assignment_Inr(1)[OF made] put_assignment_Inr(5)[OF made]
      put_assignment_Inr(2)[OF made] registered_tasks(18) this] show ?thesis
    using assms Inr p by (auto simp: put_instance_template_route_def attempt_def Let_def)
qed

lemma delete_assignment_handled:
  assumes fresh: "job_of (store w) jk = None" and uniq: "unique_by ta_id (template_assignments (store w))"
    and "delete_instance_template_route ap k t jk now w = (ans, w')"
  shows "handled ap jk w w'"
proof (cases "request_assignment_deletion k t jk now (store w)")
  case (Inl e)
  with assms(3) show ?thesis by (simp add: delete_instance_template_route_def attempt_def)
next
  case (Inr p)
  obtain d a accepted enqueued where p: "p = (d, a, accepted, enqueued)" by (cases p)
  with Inr have made: "request_assignment_deletion k t jk now (store w) = Inr (d, a, accepted, enqueued)" by simp
  have within: "jobs_within jk (store w) d"
    using made by (auto simp: request_assignment_deletion_def result_iffs Let_def jobs_within_def jobs_kept_def
        intro: jobs_within_attach_job[unfolded jobs_within_def jobs_kept_def, rule_format] split: option.splits if_splits)
  note facts = request_assignment_deletion_Inr[OF made fresh uniq]
  from handled_enqueued_assignment[OF facts(1) facts(5) facts(2) registered_tasks(19) within]
  have "handled ap jk w (dispatch_enqueued_job ap enqueued TEMPLATE_ASSIGNMENT_DELETE_STEP_01_TASK (w\<lparr>store := d\<rparr>))" .
  moreover have "d = store w" if "a = None" using facts(3,4) that by (cases accepted) auto
  ultimately show ?thesis
    using assms(3) Inr p by (cases a) (auto simp: delete_instance_template_route_def attempt_def)
qed

lemma sync_template_handled:
  assumes fresh: "job_of (store w) jk = None" and "sync_template_route ap k jk now w = (ans, w')"
  shows "handled ap jk w w'"
proof (cases "request_template_sync k jk now (store w)")
  case (Inl e)
  with assms(2) show ?thesis by (simp add: sync_template_route_def attempt_def)
next
  case (Inr p)
  obtain d n where p: "p = (d, n)" by (cases p)
  with Inr have made: "request_template_sync k jk now (store w) = Inr (d, n)" by simp
  have "jobs_within jk (store w) d"
    using made by (auto simp: request_template_sync_def result_iffs Let_def discard_current_job_def
        intro!: jobs_within_attach_job)
  with handled_sent[OF request_template_sync_Inr(1,2)[OF made fresh] registered_tasks(17)] assms(2) Inr p
    request_template_sync_Inr(4)[OF made fresh]
  show ?thesis by (auto simp: sync_template_route_def attempt_def jobs_within_def)
qed

lemma templates_handled:
  "create_template_route payload k w = (ans1, w1) \<Longrightarrow> handled ap jk w w1"
  "update_template_route k' payload' w = (ans2, w2) \<Longrightarrow> handled ap jk w w2"
  "delete_template_route k' w = (ans3, w3) \<Longrightarrow> handled ap jk w w3"
proof -
  have kept1: "jobs_kept d d'" if "create_template payload k d = Inr (d', t)" for d d' t
    using that by (auto simp: create_template_def Let_def jobs_kept_def split: if_splits)
  show "create_template_route payload k w = (ans1, w1) \<Longrightarrow> handled ap jk w w1"
    unfolding create_template_route_def split_beta
    by (erule plain_handled) (auto simp: attempt_Inr_iff dest: run_create_template kept1)
  have kept2: "jobs_kept d d'" if "update_template k' payload' d = Inr (d', t)" for d d' t
    using that by (auto simp: update_template_def result_iffs Let_def discard_current_job_def
        intro: jobs_kept_trans[OF jobs_kept_drop_job jobs_kept_same] jobs_kept_same split: if_splits)
  show "update_template_route k' payload' w = (ans2, w2) \<Longrightarrow> handled ap jk w w2"
    unfolding update_template_route_def split_beta
    by (erule plain_handled) (auto simp: attempt_Inr_iff dest: run_update_template kept2)
  have kept3: "jobs_kept d d'" if "delete_template k' d = Inr d'" for d d'
    using that by (rule delete_template_Inr)
      (auto simp: delete_template_row_def Let_def intro: jobs_kept_trans[OF jobs_kept_drop_job jobs_kept_same] split: if_splits)
  show "delete_template_route k' w = (ans3, w3) \<Longrightarrow> handled ap jk w w3"
    unfolding delete_template_route_def by (erule plain_handled) (auto simp: attempt_Inr_iff dest: run_delete_template kept3)
qed

lemma images_handled:
  "create_template_image_route k payload ik w = (ans1, w1) \<Longrightarrow> handled ap jk w w1"
  "delete_template_image_route k ik w = (ans2, w2) \<Longrightarrow> handled ap jk w w2"
proof -
  show "create_template_image_route k payload ik w = (ans1, w1) \<Longrightarrow> handled ap jk w w1"
    unfolding create_template_image_route_def split_beta
    by (erule plain_handled, rule bookkeeping)
       (auto simp: answer_iffs create_image_def Let_def same_lifecycle_def split: if_splits)
  show "delete_template_image_route k ik w = (ans2, w2) \<Longrightarrow> handled ap jk w w2"
    unfolding delete_template_image_route_def
    by (erule plain_handled, rule bookkeeping) (auto simp: answer_iffs delete_image_def same_lifecycle_def)
qed

text \<open>A parameter of the user type does not look at the cipher.\<close>

lemma user_cipher:
  "create_type payload = USER_PARAMETER \<Longrightarrow> create_parameter k payload c pk d = create_parameter k payload c' pk d"
  "update_type u = USER_PARAMETER \<Longrightarrow> update_parameter k pk u c d = update_parameter k pk u c' d"
  by (cases payload; simp add: create_parameter_def new_parameter_def)
     (cases u; simp add: update_parameter_def apply_parameter_update_def Let_def)

lemma cipher_for_Inr:
  "cipher_for ap ty nonce = Inr c \<Longrightarrow> ty = USER_PARAMETER \<or> (\<exists>c'. c = Some c')"
  by (cases ty) (auto simp: cipher_for_def answer_iffs)

lemma parameters_handled:
  "create_template_parameter_route ap k payload nonce pk w = (ans1, w1) \<Longrightarrow> handled ap jk w w1"
  "update_template_parameter_route ap k pk u nonce w = (ans2, w2) \<Longrightarrow> handled ap jk w w2"
  "delete_template_parameter_route k pk w = (ans3, w3) \<Longrightarrow> handled ap jk w w3"
proof -
  have create: "sys_run d d' \<and> jobs_kept d d'"
    if key: "cipher_for ap (create_type payload) nonce = Inr c" and made: "create_parameter k payload c pk d = Inr (d', p)" for c d d' p
  proof -
    obtain c' where "create_parameter k payload (Some c') pk d = Inr (d', p)"
      using made cipher_for_Inr[OF key] user_cipher(1) by metis
    moreover have "jobs_kept d d'"
      using made by (auto simp: create_parameter_def result_iffs Let_def jobs_kept_def add_system_value_def
          split: if_splits option.splits)
    ultimately show ?thesis using create_parameter_versioned(2) by blast
  qed
  show "create_template_parameter_route ap k payload nonce pk w = (ans1, w1) \<Longrightarrow> handled ap jk w w1"
    unfolding create_template_parameter_route_def split_beta by (erule plain_handled) (auto simp: answer_iffs dest: create)
  have update: "sys_run d d' \<and> jobs_kept d d'"
    if key: "cipher_for ap (update_type u) nonce = Inr c" and made: "update_parameter k pk u c d = Inr (d', p)" for c d d' p
  proof -
    obtain c' where "update_parameter k pk u (Some c') d = Inr (d', p)"
      using made cipher_for_Inr[OF key] user_cipher(2) by metis
    moreover have "jobs_kept d d'"
      using made by (auto simp: update_parameter_def result_iffs Let_def jobs_kept_def store_system_value_def
          add_system_value_def split: option.splits)
    ultimately show ?thesis using update_parameter_versioned(2) by blast
  qed
  show "update_template_parameter_route ap k pk u nonce w = (ans2, w2) \<Longrightarrow> handled ap jk w w2"
    unfolding update_template_parameter_route_def split_beta by (erule plain_handled) (auto simp: answer_iffs dest: update)
  have delete: "sys_run d d' \<and> jobs_kept d d'" if del: "delete_parameter k pk d = Inr d'" for d d'
  proof -
    obtain t p where t: "template_of d k = Some t" and "parameter_of d pk = Some p"
      and d': "d' = save_resource (RTemplate (if p_type p = SYSTEM_PARAMETER then bump_revision t else t))
        (d\<lparr>template_parameters := delete_where (\<lambda>q. p_id q = pk) (template_parameters d),
           template_parameter_system_values :=
             delete_where (\<lambda>v. sv_parameter_id v = pk) (template_parameter_system_values d)\<rparr>)"
      by (rule delete_parameter_Inr[OF del])
    have "sys_run d d'" unfolding d' by (rule run_touch_template[OF t]) (simp_all add: same_lifecycle_def)
    then show ?thesis by (simp add: d' jobs_kept_def)
  qed
  show "delete_template_parameter_route k pk w = (ans3, w3) \<Longrightarrow> handled ap jk w w3"
    unfolding delete_template_parameter_route_def by (erule plain_handled) (auto simp: attempt_Inr_iff dest: delete)
qed

section \<open>Every request\<close>

lemma outcome_of_world: "outcome_of job served = (out, w) \<Longrightarrow> \<exists>ans. served = (ans, w)"
  by (auto simp: outcome_of_def split: prod.splits sum.splits)

lemmas routes_handled = create_provider_handled create_instance_handled start_instance_handled stop_instance_handled
  sync_instance_handled delete_instance_handled databases_handled sync_databases_handled create_member_handled
  update_member_role_handled delete_member_handled create_workspace_handled update_workspace_handled
  delete_workspace_handled put_template_handled delete_assignment_handled sync_template_handled templates_handled
  images_handled parameters_handled

lemma serve_handled:
  assumes "serve ap dw r w = Some (out, w')" and "job_of (store w) (dw_job dw) = None"
    and "unique_by ta_id (template_assignments (store w))"
  shows "handled ap (dw_job dw) w w'"
  using assms
  by (cases r) (auto simp: serve_def dest!: outcome_of_world intro: routes_handled)

end
