(* ===== verification/Auth.thy ===== *)
theory Auth
  imports Router
begin

text \<open>
  Authentication (\<^verbatim>\<open>auth.py\<close>) and the application that puts it in front of every route
  (\<^verbatim>\<open>create_app\<close> of \<^verbatim>\<open>main.py\<close>). The token library, the client for signing keys, the URL parser
  and the identity provider are third-party code: a record of functions that every operation
  takes, each with the outcomes its documentation names.
\<close>

section \<open>The libraries and the provider\<close>

record url_parts =
  u_scheme :: string
  u_host :: string
  u_query :: string
  u_fragment :: string

record signing_key =
  jk_key_id :: "string option"
  jk_algorithm_name :: string
  jk_public_key_use :: "string option"
  jk_material :: bytes

datatype jwk_failure = PyJWKClientConnectionError | PyJWKClientError | PyJWKSetError | InvalidTokenError | OtherJwkError

type_synonym claims = "(string \<times> json) list"

text \<open>
  \<open>op_decode token key issuer\<close> verifies the signature with RS256 and this key, the issuer, and
  that the claims \<open>exp\<close> and \<open>iss\<close> are there and hold; it gives no claims otherwise. A JWK client is
  identified with the address it was built for.
\<close>

record oidc_library =
  op_url :: "string \<Rightarrow> url_parts option"
  op_get :: "string \<Rightarrow> http_response option"
  op_jwk_set :: "string \<Rightarrow> (jwk_failure, signing_key list) result"
  op_signing_key :: "string \<Rightarrow> string \<Rightarrow> (jwk_failure, signing_key) result"
  op_unverified_header :: "string \<Rightarrow> claims option"
  op_decode :: "string \<Rightarrow> signing_key \<Rightarrow> string \<Rightarrow> claims option"

section \<open>Configuration\<close>

definition OIDC_ALGORITHM :: string where "OIDC_ALGORITHM = ''RS256''"
definition OIDC_ROLES_CLAIM :: string where "OIDC_ROLES_CLAIM = ''roles''"
definition OIDC_REQUIRED_ROLE :: string where "OIDC_REQUIRED_ROLE = ''admin''"
definition AUTHENTICATION_ERROR :: string where "AUTHENTICATION_ERROR = ''Invalid authentication credentials''"
definition AUTHORIZATION_ERROR :: string where "AUTHORIZATION_ERROR = ''Access denied''"
definition PROVIDER_ERROR :: string where "PROVIDER_ERROR = ''OIDC provider unavailable''"

text \<open>\<open>OidcOtherError\<close> is an exception of a library that no clause mentions.\<close>

datatype oidc_error = OidcConfigurationError string | OidcProviderUnavailableError string
  | OidcRefused failure | OidcOtherError

record oidc_config =
  oc_issuer_url :: string
  oc_client_id :: string
  oc_authorization_url :: string
  oc_token_url :: string
  oc_scopes :: "string list"

definition oidc_optional_value :: "string option \<Rightarrow> string option" where
  "oidc_optional_value v =
     (case v of None \<Rightarrow> None | Some s \<Rightarrow> if strip s = [] then None else Some (strip s))"

definition oidc_required_value :: "string option \<Rightarrow> string \<Rightarrow> (oidc_error, string) result" where
  "oidc_required_value v environment_name =
     require (oidc_optional_value v)
       (OidcConfigurationError (environment_name @ '' is required when OIDC is enabled''))"

definition require_https_url :: "oidc_library \<Rightarrow> string \<Rightarrow> string \<Rightarrow> bool \<Rightarrow> (oidc_error, string) result" where
  "require_https_url lib v environment_name allow_query =
     rbind (require (op_url lib v) OidcOtherError) (\<lambda>url.
     if u_scheme url \<noteq> ''https'' \<or> u_host url = [] \<or> u_fragment url \<noteq> [] \<or> (u_query url \<noteq> [] \<and> \<not> allow_query)
     then Inl (OidcConfigurationError (environment_name @ '' must be a valid HTTPS URL''))
     else Inr v)"

text \<open>\<^verbatim>\<open>tuple(dict.fromkeys(xs))\<close>: the first occurrence of every value, in order.\<close>

definition fromkeys :: "'a list \<Rightarrow> 'a list" where
  "fromkeys xs = rev (remdups (rev xs))"

definition parse_comma_list :: "string \<Rightarrow> string \<Rightarrow> (oidc_error, string list) result" where
  "parse_comma_list raw_value environment_name =
     (let parts = split_on (CHR '','') raw_value in
      if list_ex (\<lambda>v. strip v = []) parts
      then Inl (OidcConfigurationError (environment_name @ '' contains an empty value''))
      else Inr (fromkeys (map strip parts)))"

definition parse_scopes :: "string \<Rightarrow> (oidc_error, string list) result" where
  "parse_scopes raw_value =
     rbind (parse_comma_list raw_value ''CODER_MANAGER_OIDC_SCOPES'') (\<lambda>scopes.
     if ''openid'' \<notin> set scopes then Inl (OidcConfigurationError ''CODER_MANAGER_OIDC_SCOPES must contain openid'')
     else Inr scopes)"

definition oidc_config_from_settings :: "oidc_library \<Rightarrow> settings \<Rightarrow> (oidc_error, oidc_config option) result" where
  "oidc_config_from_settings lib st =
     (case oidc_optional_value (s_oidc_issuer_url st) of
        None \<Rightarrow>
          if s_allow_unauthenticated_api st then Inr None
          else Inl (OidcConfigurationError
            ''CODER_MANAGER_OIDC_ISSUER_URL is required unless CODER_MANAGER_ALLOW_UNAUTHENTICATED_API=true'')
      | Some issuer_url \<Rightarrow>
          rbind (require_https_url lib issuer_url ''CODER_MANAGER_OIDC_ISSUER_URL'' False) (\<lambda>issuer.
          rbind (oidc_required_value (s_oidc_client_id st) ''CODER_MANAGER_OIDC_CLIENT_ID'') (\<lambda>client_id.
          rbind (oidc_required_value (s_oidc_authorization_url st) ''CODER_MANAGER_OIDC_AUTHORIZATION_URL'') (\<lambda>auth.
          rbind (require_https_url lib auth ''CODER_MANAGER_OIDC_AUTHORIZATION_URL'' True) (\<lambda>authorization_url.
          rbind (oidc_required_value (s_oidc_token_url st) ''CODER_MANAGER_OIDC_TOKEN_URL'') (\<lambda>tok.
          rbind (require_https_url lib tok ''CODER_MANAGER_OIDC_TOKEN_URL'' True) (\<lambda>token_url.
          rbind (parse_scopes (s_oidc_scopes st)) (\<lambda>scopes.
          Inr (Some \<lparr>oc_issuer_url = issuer, oc_client_id = client_id, oc_authorization_url = authorization_url,
                     oc_token_url = token_url, oc_scopes = scopes\<rparr>)))))))))"

section \<open>The authenticator\<close>

record oidc_authenticator =
  oa_config :: oidc_config
  oa_jwk_client :: "string option"

definition authentication_exception :: failure where
  "authentication_exception = HTTPException \<lparr>hx_status = HTTP_401_UNAUTHORIZED, hx_detail = AUTHENTICATION_ERROR,
     hx_headers = [(''WWW-Authenticate'', ''Bearer'')]\<rparr>"

definition authorization_exception :: failure where
  "authorization_exception = http_error HTTP_403_FORBIDDEN AUTHORIZATION_ERROR"

text \<open>\<^verbatim>\<open>raise_for_status\<close> accepts the answers of class 2xx only.\<close>

definition oidc_get_json :: "oidc_library \<Rightarrow> string \<Rightarrow> (oidc_error, claims) result" where
  "oidc_get_json lib url =
     rbind (require (op_get lib url) (OidcProviderUnavailableError PROVIDER_ERROR)) (\<lambda>response.
     if rs_status response < 200 \<or> 300 \<le> rs_status response then Inl (OidcProviderUnavailableError PROVIDER_ERROR)
     else case rs_json response of
            Some (JObj payload) \<Rightarrow> Inr payload
          | _ \<Rightarrow> Inl (OidcProviderUnavailableError PROVIDER_ERROR))"

definition rstrip_slashes :: "string \<Rightarrow> string" where
  "rstrip_slashes s = rev (dropWhile (\<lambda>c. c = CHR ''/'') (rev s))"

definition usable_for_signing :: "signing_key \<Rightarrow> bool" where
  "usable_for_signing key =
     (jk_algorithm_name key = OIDC_ALGORITHM \<and> jk_public_key_use key \<in> {None, Some ''sig''})"

definition jwk_set_errors :: "jwk_failure \<Rightarrow> oidc_error" where
  "jwk_set_errors e =
     (case e of
        PyJWKClientConnectionError \<Rightarrow> OidcProviderUnavailableError PROVIDER_ERROR
      | PyJWKClientError \<Rightarrow> OidcConfigurationError ''OIDC jwks_uri did not return a valid JWK set''
      | PyJWKSetError \<Rightarrow> OidcConfigurationError ''OIDC jwks_uri did not return a valid JWK set''
      | _ \<Rightarrow> OidcOtherError)"

definition oidc_initialize :: "oidc_library \<Rightarrow> oidc_authenticator \<Rightarrow> (oidc_error, oidc_authenticator) result" where
  "oidc_initialize lib a =
     (let discovery_url = rstrip_slashes (oc_issuer_url (oa_config a)) @ ''/.well-known/openid-configuration'' in
      rbind (oidc_get_json lib discovery_url) (\<lambda>metadata.
      if field metadata ''issuer'' \<noteq> JStr (oc_issuer_url (oa_config a))
      then Inl (OidcConfigurationError ''OIDC discovery issuer does not match CODER_MANAGER_OIDC_ISSUER_URL'')
      else rbind (require (str_of (field metadata ''jwks_uri''))
             (OidcConfigurationError ''OIDC discovery metadata does not contain a valid jwks_uri'')) (\<lambda>jwks_uri.
      rbind (require_https_url lib jwks_uri ''OIDC discovery jwks_uri'' True) (\<lambda>client.
      case op_jwk_set lib client of
        Inl e \<Rightarrow> Inl (jwk_set_errors e)
      | Inr keys \<Rightarrow>
          if list_ex (\<lambda>key. jk_key_id key \<notin> {None, Some []} \<and> usable_for_signing key) keys
          then Inr (a\<lparr>oa_jwk_client := Some client\<rparr>)
          else Inl (OidcConfigurationError ''OIDC JWK set does not contain an RS256 signing key with a kid'')))))"

definition signing_key_errors :: "jwk_failure \<Rightarrow> oidc_error" where
  "signing_key_errors e =
     (case e of
        PyJWKClientConnectionError \<Rightarrow> OidcProviderUnavailableError PROVIDER_ERROR
      | PyJWKSetError \<Rightarrow> OidcProviderUnavailableError PROVIDER_ERROR
      | InvalidTokenError \<Rightarrow> OidcRefused authentication_exception
      | PyJWKClientError \<Rightarrow> OidcRefused authentication_exception
      | OtherJwkError \<Rightarrow> OidcOtherError)"

definition signing_key_for :: "oidc_library \<Rightarrow> oidc_authenticator \<Rightarrow> string \<Rightarrow> (oidc_error, signing_key) result" where
  "signing_key_for lib a token =
     rbind (require (oa_jwk_client a) (OidcConfigurationError ''OIDC authenticator has not been initialized''))
     (\<lambda>client.
     case op_signing_key lib client token of Inl e \<Rightarrow> Inl (signing_key_errors e) | Inr key \<Rightarrow> Inr key)"

text \<open>The truth value of a JSON value; numbers that are no integers are kept by their text.\<close>

definition json_truthy :: "json \<Rightarrow> bool" where
  "json_truthy x =
     (case x of JNull \<Rightarrow> False | JBool b \<Rightarrow> b | JInt n \<Rightarrow> n \<noteq> 0 | JNumber s \<Rightarrow> s \<notin> {''0.0'', ''-0.0''}
      | JStr s \<Rightarrow> s \<noteq> [] | JArr xs \<Rightarrow> xs \<noteq> [] | JObj m \<Rightarrow> m \<noteq> [])"

definition authorize_roles :: "json \<Rightarrow> (oidc_error, unit) result" where
  "authorize_roles roles =
     (case roles of
        JArr xs \<Rightarrow>
          if list_ex (\<lambda>x. \<not> is_str x) xs then Inl (OidcRefused authorization_exception)
          else if list_ex (\<lambda>x. map_option lower (str_of x) = Some (lower OIDC_REQUIRED_ROLE)) xs then Inr ()
          else Inl (OidcRefused authorization_exception)
      | _ \<Rightarrow> Inl (OidcRefused authorization_exception))"

definition oidc_authorize :: "oidc_library \<Rightarrow> oidc_authenticator \<Rightarrow> string option \<Rightarrow> (oidc_error, unit) result" where
  "oidc_authorize lib a token =
     (case token of
        None \<Rightarrow> Inl (OidcRefused authentication_exception)
      | Some t \<Rightarrow>
          if t = [] then Inl (OidcRefused authentication_exception)
          else rbind (require (op_unverified_header lib t) (OidcRefused authentication_exception)) (\<lambda>header.
          if field header ''alg'' \<noteq> JStr OIDC_ALGORITHM \<or> \<not> json_truthy (field header ''kid'')
          then Inl (OidcRefused authentication_exception)
          else rbind (signing_key_for lib a t) (\<lambda>key.
          if \<not> usable_for_signing key then Inl (OidcRefused authentication_exception)
          else rbind (require (op_decode lib t key (oc_issuer_url (oa_config a)))
                       (OidcRefused authentication_exception)) (\<lambda>claims.
          authorize_roles (field claims OIDC_ROLES_CLAIM)))))"

definition authorize_oidc_request ::
  "oidc_library \<Rightarrow> oidc_authenticator \<Rightarrow> string option \<Rightarrow> (failure, unit) result" where
  "authorize_oidc_request lib a token =
     attempt (oidc_authorize lib a token)
       (\<lambda>e. case e of
          OidcProviderUnavailableError _ \<Rightarrow> http_error HTTP_503_SERVICE_UNAVAILABLE PROVIDER_ERROR
        | OidcRefused f \<Rightarrow> f
        | _ \<Rightarrow> Unhandled)"

section \<open>The application\<close>

record swagger_oauth =
  sw_client_id :: string
  sw_scopes :: string

record application_state =
  fa_settings :: settings
  fa_authenticator :: "oidc_authenticator option"
  fa_swagger :: "swagger_oauth option"

datatype startup_error = StartupSettings settings_error | StartupOidc oidc_error

text \<open>
  The base domain is required before anything is built, and the settings that were validated are
  the ones that the routes read.
\<close>

definition create_app :: "oidc_library \<Rightarrow> settings \<Rightarrow> (startup_error, application_state) result" where
  "create_app lib st =
     (case require_instance_base_domain st of
        Inl e \<Rightarrow> Inl (StartupSettings e)
      | Inr _ \<Rightarrow>
          (case oidc_config_from_settings lib st of
             Inl e \<Rightarrow> Inl (StartupOidc e)
           | Inr config \<Rightarrow>
               Inr \<lparr>fa_settings = st,
                    fa_authenticator = map_option (\<lambda>c. \<lparr>oa_config = c, oa_jwk_client = None\<rparr>) config,
                    fa_swagger = map_option (\<lambda>c. \<lparr>sw_client_id = oc_client_id c,
                                                  sw_scopes = join '' '' (oc_scopes c)\<rparr>) config\<rparr>))"

text \<open>The start of the process: keys are loaded before the first request is served.\<close>

definition lifespan :: "oidc_library \<Rightarrow> application_state \<Rightarrow> (oidc_error, application_state) result" where
  "lifespan lib fa =
     (case fa_authenticator fa of
        None \<Rightarrow> Inr fa
      | Some a \<Rightarrow> rbind (oidc_initialize lib a) (\<lambda>a'. Inr (fa\<lparr>fa_authenticator := Some a'\<rparr>)))"

definition admit :: "oidc_library \<Rightarrow> application_state \<Rightarrow> string option \<Rightarrow> (failure, unit) result" where
  "admit lib fa token =
     (case fa_authenticator fa of None \<Rightarrow> Inr () | Some a \<Rightarrow> authorize_oidc_request lib a token)"

text \<open>
  The router is included with the dependency, which runs before every route: a request that
  changes something, and the answer of a route that only reads.
\<close>

definition api_of :: "application_state \<Rightarrow> celery \<Rightarrow> aead \<Rightarrow> api" where
  "api_of fa cel ae = \<lparr>ap_settings = fa_settings fa, ap_celery = cel, ap_aead = ae\<rparr>"

definition handle ::
  "oidc_library \<Rightarrow> application_state \<Rightarrow> celery \<Rightarrow> aead \<Rightarrow> string option \<Rightarrow> draws \<Rightarrow> request \<Rightarrow> world
    \<Rightarrow> (outcome \<times> world) option" where
  "handle lib fa cel ae token dw r w =
     (case admit lib fa token of Inl f \<Rightarrow> Some (Inl f, w) | Inr _ \<Rightarrow> serve (api_of fa cel ae) dw r w)"

definition handle_read :: "oidc_library \<Rightarrow> application_state \<Rightarrow> string option \<Rightarrow> 'a answer \<Rightarrow> 'a answer" where
  "handle_read lib fa token read = (case admit lib fa token of Inl f \<Rightarrow> Inl f | Inr _ \<Rightarrow> read)"

end
