(* ===== verification/Validation_Errors.thy ===== *)
theory Validation_Errors
  imports Api Texts
begin

text \<open>
  The answer to a request that does not validate (\<^verbatim>\<open>main.py\<close>): the details of the schema library
  with the input removed where it carries a credential. A detail has the place of the error, the
  input found there, and a context.
\<close>

datatype loc_part = LocName string | LocIndex int

record error_detail =
  ed_type :: string
  ed_loc :: "loc_part list"
  ed_msg :: string
  ed_input :: json
  ed_ctx :: "json option"

definition loc_text :: "loc_part \<Rightarrow> string" where
  "loc_text part = (case part of LocName s \<Rightarrow> s | LocIndex n \<Rightarrow> int_text n)"

definition is_secret_field_name :: "string \<Rightarrow> bool" where
  "is_secret_field_name v =
     (let field_name = lower v in
      list_ex (\<lambda>marker. contains marker field_name) [''password'', ''secret'', ''token'']
      \<or> field_name \<in> {''value'', ''values''})"

fun input_contains_secret :: "json \<Rightarrow> bool" where
  "input_contains_secret (JObj m) = list_ex (\<lambda>e. is_secret_field_name (fst e) \<or> input_contains_secret (snd e)) m"
| "input_contains_secret (JArr xs) = list_ex input_contains_secret xs"
| "input_contains_secret _ = False"

definition validation_error_contains_secret :: "error_detail \<Rightarrow> bool" where
  "validation_error_contains_secret detail =
     (list_ex (\<lambda>part. is_secret_field_name (loc_text part)) (ed_loc detail)
      \<or> input_contains_secret (ed_input detail))"

definition redacted_validation_errors :: "error_detail list \<Rightarrow> error_detail list" where
  "redacted_validation_errors errors =
     map (\<lambda>detail. if validation_error_contains_secret detail
                   then detail\<lparr>ed_input := JStr ''[REDACTED]'', ed_ctx := None\<rparr> else detail) errors"

definition validation_exception_handler :: "error_detail list \<Rightarrow> error_detail list reply" where
  "validation_exception_handler errors =
     \<lparr>rp_status = HTTP_422_UNPROCESSABLE_CONTENT,
      rp_headers = (if list_ex validation_error_contains_secret errors then NO_STORE_HEADERS else []),
      rp_body = redacted_validation_errors errors\<rparr>"

section \<open>What the answer depends on\<close>

text \<open>An input with the values of credential fields taken out.\<close>

fun without_secrets :: "json \<Rightarrow> json" where
  "without_secrets (JObj m) =
     JObj (map (\<lambda>e. (fst e, if is_secret_field_name (fst e) then JNull else without_secrets (snd e))) m)"
| "without_secrets (JArr xs) = JArr (map without_secrets xs)"
| "without_secrets x = x"

definition public_part :: "error_detail \<Rightarrow> error_detail" where
  "public_part detail =
     (if list_ex (\<lambda>part. is_secret_field_name (loc_text part)) (ed_loc detail)
      then detail\<lparr>ed_input := JNull, ed_ctx := None\<rparr>
      else if input_contains_secret (ed_input detail)
      then detail\<lparr>ed_input := without_secrets (ed_input detail), ed_ctx := None\<rparr>
      else detail)"

lemma contains_without_secrets: "input_contains_secret (without_secrets x) = input_contains_secret x"
  by (induction x rule: without_secrets.induct) (auto simp: list_ex_iff)

lemma public_part_fields:
  "ed_loc (public_part d) = ed_loc d" "ed_type (public_part d) = ed_type d" "ed_msg (public_part d) = ed_msg d"
  by (simp_all add: public_part_def)

lemma public_part_secret:
  assumes "public_part d = public_part e"
  shows "validation_error_contains_secret d = validation_error_contains_secret e"
proof -
  have "ed_loc d = ed_loc e" using assms public_part_fields(1) by metis
  moreover have "input_contains_secret (ed_input d) = input_contains_secret (ed_input e)"
    if "\<not> list_ex (\<lambda>part. is_secret_field_name (loc_text part)) (ed_loc d)"
  proof -
    have "input_contains_secret (ed_input (public_part x)) = input_contains_secret (ed_input x)"
      if "\<not> list_ex (\<lambda>part. is_secret_field_name (loc_text part)) (ed_loc x)" for x
      using that by (simp add: public_part_def contains_without_secrets)
    with that \<open>ed_loc d = ed_loc e\<close> assms show ?thesis by metis
  qed
  ultimately show ?thesis by (auto simp: validation_error_contains_secret_def)
qed

lemma redaction_of_public_part:
  assumes "public_part d = public_part e"
  shows "redacted_validation_errors [d] = redacted_validation_errors [e]"
proof (cases "validation_error_contains_secret d")
  case True
  with assms public_part_secret have secret: "validation_error_contains_secret d" "validation_error_contains_secret e" by blast+
  have "ed_loc d = ed_loc e" "ed_type d = ed_type e" "ed_msg d = ed_msg e"
    using assms public_part_fields by metis+
  with secret show ?thesis by (cases d, cases e) (simp add: redacted_validation_errors_def)
next
  case False
  with assms public_part_secret have "\<not> validation_error_contains_secret d" "\<not> validation_error_contains_secret e" by blast+
  with assms show ?thesis
    by (simp add: redacted_validation_errors_def public_part_def validation_error_contains_secret_def)
qed

lemma handler_of_public_parts:
  assumes "map public_part errors = map public_part errors'"
  shows "validation_exception_handler errors = validation_exception_handler errors'"
  using assms
proof (induction errors arbitrary: errors')
  case (Cons d ds)
  then obtain e es where es: "errors' = e # es" "public_part d = public_part e" "map public_part ds = map public_part es"
    by auto
  from Cons.IH[OF es(3)] redaction_of_public_part[OF es(2)] public_part_secret[OF es(2)] show ?case
    by (auto simp: es(1) validation_exception_handler_def redacted_validation_errors_def split: if_splits)
qed simp

end
