(* ===== verification/Refusals.thy ===== *)
theory Refusals
  imports Router
begin

text \<open>
  How requests are refused: which errors every repository can raise, and that each of them is
  translated by the route that calls it.
\<close>

section \<open>Documented failures\<close>

definition documented :: "failure \<Rightarrow> bool" where
  "documented f = (case f of Unhandled \<Rightarrow> False
     | HTTPException x \<Rightarrow> hx_status x \<in> {404, 409, 422, 503})"

lemma documented_simps [simp]:
  "\<not> documented Unhandled"
  "documented (http_error code msg) \<longleftrightarrow> code \<in> {404, 409, 422, 503}"
  "documented (no_store_error code msg) \<longleftrightarrow> code \<in> {404, 409, 422, 503}"
  by (simp_all add: documented_def http_error_def no_store_error_def)

named_theorems refusals \<open>the errors a repository raises\<close>
named_theorems clauses \<open>the except clauses of the routes\<close>

lemmas [clauses] = provider_create_errors_def create_instance_errors_def lifecycle_errors_def
  create_database_errors_def update_database_errors_def delete_database_errors_def database_not_found_def
  database_exists_def create_member_errors_def update_member_role_errors_def delete_member_errors_def
  member_instance_not_found_def member_not_found_def member_instance_busy_def member_conflict_def
  create_workspace_errors_def update_workspace_errors_def delete_workspace_errors_def workspace_not_found_def
  workspace_instance_not_found_def workspace_template_not_found_def workspace_member_not_found_def
  workspace_image_not_found_def workspace_instance_busy_def workspace_busy_def invalid_configuration_def
  name_conflict_def template_not_deployed_def put_assignment_errors_def delete_assignment_errors_def
  assignment_instance_not_found_def assignment_template_not_found_def instance_unavailable_def
  assignment_sync_conflict_def action_conflict_def job_conflict_def sync_template_errors_def
  create_template_errors_def update_template_errors_def delete_template_errors_def template_not_found_def
  sync_conflict_def assignment_conflict_def workspace_conflict_def create_image_errors_def
  delete_image_errors_def image_template_not_found_def image_not_found_def create_parameter_errors_def
  update_parameter_errors_def delete_parameter_errors_def parameter_template_not_found_def
  parameter_not_found_def parameter_conflict_def parameter_sync_conflict_def http_status_defs

section \<open>Errors of the repositories\<close>

lemma instance_refusals [refusals]:
  "request_power_action k action name task step jk now d = Inl e
     \<Longrightarrow> e = InstanceNotFoundError \<or> e = InstanceActionConflictError"
  "request_instance_sync k jk now d = Inl e \<Longrightarrow> e = InstanceNotFoundError \<or> e = InstanceActionConflictError"
  "request_instance_deletion k jk now d = Inl e \<Longrightarrow> e = InstanceNotFoundError \<or> e = InstanceActionConflictError"
  "create_instance app ik jk ak slugs now d = Some (Inl e)
     \<Longrightarrow> e = InstanceAlreadyExistsError \<or> e = InstanceDatabaseUnavailableError"
  "create_provider_and_request_update k kc enc jk now d = Inl pe
     \<Longrightarrow> pe = ProviderInstance InstanceNotFoundError \<or> pe = ProviderInstance InstanceActionConflictError
       \<or> pe = InstanceKubernetesAlreadyConfiguredError"
  by (auto simp: request_power_action_def request_instance_sync_def request_instance_deletion_def
      create_provider_and_request_update_def lock_idle_instance_def create_instance_def result_iffs Let_def
      split: prod.splits option.splits if_splits)

lemma database_refusals [refusals]:
  "create_database k payload password enc d = Inl e \<Longrightarrow> e = DatabaseAlreadyExistsError"
  "update_database k payload enc d = Inl e
     \<Longrightarrow> e = DatabaseNotFoundError \<or> e = DatabaseCapacityConflictError \<or> e = DatabaseAlreadyExistsError"
  "delete_database k d = Inl e \<Longrightarrow> e = DatabaseNotFoundError \<or> e = DatabaseInUseError"
  by (auto simp: create_database_def update_database_def delete_database_def result_iffs Let_def split: if_splits)

lemma lock_available_Inl:
  "lock_available_instance k d = Inl e \<Longrightarrow> e = MemberInstanceNotFoundError \<or> e = MemberInstanceBusyError"
  by (auto simp: lock_available_instance_def result_iffs)

lemma lock_member_Inl: "lock_member k mk d = Inl e \<Longrightarrow> e = MemberNotFoundError"
  by (auto simp: lock_member_def split: option.splits if_splits)

lemma member_refusals [refusals]:
  "create_member k payload mk jk now d = Inl e
     \<Longrightarrow> e = MemberInstanceNotFoundError \<or> e = MemberInstanceBusyError \<or> e = MemberAlreadyExistsError"
  "update_role k mk role jk now d = Inl e
     \<Longrightarrow> e = MemberInstanceNotFoundError \<or> e = MemberInstanceBusyError \<or> e = MemberNotFoundError
       \<or> e = MemberActionConflictError"
  "request_member_deletion k mk protected jk now d = Inl e
     \<Longrightarrow> e = MemberInstanceNotFoundError \<or> e = MemberInstanceBusyError \<or> e = MemberNotFoundError
       \<or> e = MemberActionConflictError \<or> e = MemberHasWorkspacesError \<or> e = MemberProtectedAdministratorError"
  by (auto simp: create_member_def update_role_def request_member_deletion_def result_iffs Let_def
      split_beta dest!: lock_available_Inl lock_member_Inl split: if_splits)

lemma resolve_each_Inl:
  "resolve_each supplied previous ps resolved = Inl e \<Longrightarrow>
   e = WorkspaceConfigurationError \<or> e = WorkspaceParameterImmutableError \<and> previous \<noteq> None"
  by (induction supplied previous ps resolved rule: resolve_each.induct)
     (auto simp: result_iffs parameter_value_def immutable_before_def split: option.splits if_splits)

lemma resolve_parameters_Inl:
  "resolve_parameters t supplied previous d = Inl e \<Longrightarrow>
   e = WorkspaceConfigurationError \<or> e = WorkspaceParameterImmutableError \<and> previous \<noteq> None"
  by (auto simp: resolve_parameters_def result_iffs Let_def dest!: resolve_each_Inl)

lemmas workspace_checks = workspace_instance_def lock_template_def validate_owner_def validate_image_def
  lock_workspace_def ensure_workspace_available_def validate_modules_def require_remote_template_def

lemma create_workspace_Inl:
  assumes "create_workspace payload k jk now d = Inl e"
  shows "e \<in> {WorkspaceInstanceNotFoundError, WorkspaceInstanceBusyError, WorkspaceTemplateNotFoundError,
    WorkspaceTemplateNotDeployedError, WorkspaceMemberNotFoundError, WorkspaceMemberUnavailableError,
    WorkspaceImageNotFoundError, WorkspaceImageUnavailableError, WorkspaceConfigurationError,
    WorkspaceAlreadyExistsError}"
  using assms
  by (auto simp: create_workspace_def result_iffs workspace_checks Let_def dest!: resolve_parameters_Inl split: if_splits)

lemma update_workspace_Inl:
  assumes "update_workspace k payload jk now d = Inl e"
  shows "e \<in> {WorkspaceNotFoundError, WorkspaceBusyError, WorkspaceInstanceNotFoundError,
    WorkspaceInstanceBusyError, WorkspaceTemplateNotFoundError, WorkspaceTemplateNotDeployedError,
    WorkspaceImageNotFoundError, WorkspaceImageUnavailableError, WorkspaceConfigurationError,
    WorkspaceParameterImmutableError, WorkspaceAlreadyExistsError}"
  using assms
  by (auto simp: update_workspace_def result_iffs workspace_checks Let_def dest!: resolve_parameters_Inl split: if_splits)

text \<open>The template of a stored workspace exists, so a deletion never misses it.\<close>

lemma request_workspace_deletion_Inl:
  assumes "request_workspace_deletion k jk now d = Inl e"
    and "\<forall>x\<in>set (workspaces d). template_of d (w_template_id x) \<noteq> None"
  shows "e \<in> {WorkspaceNotFoundError, WorkspaceBusyError, WorkspaceInstanceNotFoundError,
    WorkspaceInstanceBusyError, WorkspaceTemplateNotDeployedError}"
proof -
  have "template_of d (w_template_id x) \<noteq> None" if "workspace_of d k = Some x" for x
    using that assms(2) select_row_mem by metis
  then show ?thesis
    using assms(1) by (auto simp: request_workspace_deletion_def result_iffs workspace_checks Let_def)
qed

lemma require_consistent_job_Inl:
  "require_consistent_job a name task step d = Inl e \<Longrightarrow> e = TemplateAssignmentJobConflictError"
  by (auto simp: require_consistent_job_def split: option.splits if_splits)

text \<open>An assignment that the lock did not find is new, so the commit does not violate a key.\<close>

lemma put_assignment_Inl:
  assumes "put_assignment ik tk ak jk now d = Inl e" and "assignments_ok (template_assignments d)"
    and "unique_by j_id (job_executions d)" and "job_of d jk = None" and "assignment_of d ak = None"
  shows "e \<noteq> TemplateAssignmentIntegrityError \<and> e \<noteq> TemplateAssignmentWorkspacesBusyError"
proof -
  have new: "(tk, ik) \<notin> keys_of (\<lambda>a. (ta_template_id a, ta_instance_id a)) (template_assignments d)"
    if "lock_assignment ik tk d = None"
    using that by (auto simp: lock_assignment_def find_None_iff keys_of_def)
  show ?thesis
    using assms new
    by (auto simp: put_assignment_def result_iffs assignment_instance_def assignment_template_def
        require_mutation_available_def Let_def insert_with_job_def stage_job_def assignments_ok_def assignment_check_def
        select_row_None list_all_iff
        dest!: require_consistent_job_Inl split: option.splits if_splits)
qed

lemma request_assignment_deletion_Inl:
  "request_assignment_deletion ik tk jk now d = Inl e \<Longrightarrow> e \<noteq> TemplateAssignmentIntegrityError"
  by (auto simp: request_assignment_deletion_def result_iffs assignment_instance_def assignment_template_def
      require_mutation_available_def Let_def dest!: require_consistent_job_Inl split: option.splits if_splits)

lemma image_refusals [refusals]:
  "create_image k payload ik d = Inl e \<Longrightarrow> e = TemplateImageTemplateNotFoundError \<or> e = TemplateImageAlreadyExistsError"
  "delete_image k ik d = Inl e
     \<Longrightarrow> e = TemplateImageTemplateNotFoundError \<or> e = TemplateImageNotFoundError \<or> e = TemplateImageInUseError"
  by (auto simp: create_image_def delete_image_def result_iffs Let_def split: if_splits)

lemma parameter_template_Inl:
  "parameter_template k d = Inl e \<Longrightarrow> e = TemplateParameterTemplateNotFoundError \<or> e = TemplateParameterSyncInProgressError"
  by (auto simp: parameter_template_def result_iffs)

text \<open>A cipher is at hand whenever the payload is of the system type.\<close>

lemma parameter_refusals:
  "create_parameter k payload c pk d = Inl e \<Longrightarrow> create_type payload = USER_PARAMETER \<or> c \<noteq> None
     \<Longrightarrow> e = TemplateParameterTemplateNotFoundError \<or> e = TemplateParameterSyncInProgressError
       \<or> e = TemplateParameterAlreadyExistsError"
  "update_parameter k pk u c d = Inl e \<Longrightarrow> update_type u = USER_PARAMETER \<or> c \<noteq> None
     \<Longrightarrow> e = TemplateParameterTemplateNotFoundError \<or> e = TemplateParameterSyncInProgressError
       \<or> e = TemplateParameterNotFoundError \<or> e = TemplateParameterImmutableFieldError
       \<or> e = TemplateParameterDecryptionFailed"
  "delete_parameter k pk d = Inl e
     \<Longrightarrow> e = TemplateParameterTemplateNotFoundError \<or> e = TemplateParameterSyncInProgressError
       \<or> e = TemplateParameterNotFoundError"
proof -
  show "create_parameter k payload c pk d = Inl e \<Longrightarrow> create_type payload = USER_PARAMETER \<or> c \<noteq> None
     \<Longrightarrow> e = TemplateParameterTemplateNotFoundError \<or> e = TemplateParameterSyncInProgressError
       \<or> e = TemplateParameterAlreadyExistsError"
    by (cases payload) (auto simp: create_parameter_def new_parameter_def result_iffs Let_def
        dest!: parameter_template_Inl split: if_splits)
  show "update_parameter k pk u c d = Inl e \<Longrightarrow> update_type u = USER_PARAMETER \<or> c \<noteq> None
     \<Longrightarrow> e = TemplateParameterTemplateNotFoundError \<or> e = TemplateParameterSyncInProgressError
       \<or> e = TemplateParameterNotFoundError \<or> e = TemplateParameterImmutableFieldError
       \<or> e = TemplateParameterDecryptionFailed"
    by (cases u) (auto simp: update_parameter_def apply_parameter_update_def locked_parameter_def result_iffs Let_def
        dest!: parameter_template_Inl split: option.splits if_splits)
  show "delete_parameter k pk d = Inl e
     \<Longrightarrow> e = TemplateParameterTemplateNotFoundError \<or> e = TemplateParameterSyncInProgressError
       \<or> e = TemplateParameterNotFoundError"
    by (auto simp: delete_parameter_def locked_parameter_def result_iffs Let_def dest!: parameter_template_Inl)
qed

section \<open>Templates\<close>

lemma map_replace_row_same:
  assumes "unique_by key rows" and "select_row key (key x) rows = Some r" and "g x = g r"
  shows "map g (replace_row key x rows) = map g rows"
proof -
  have "g (if key y = key x then x else y) = g y" if "y \<in> set rows" for y
    using select_row_unique[OF assms(1) that] assms(2,3) by auto
  then show ?thesis by (simp add: replace_row_def update_row_def)
qed

definition template_fields_ok :: "template_update \<Rightarrow> bool" where
  "template_fields_ok u = (not_blank (tu_display_name u) \<and> not_blank (tu_git_url u) \<and> not_blank (tu_source_path u)
     \<and> not_blank (tu_branch u))"

lemma templates_ok_replace:
  assumes "templates_ok rows" and "select_row t_id (t_id t') rows = Some t" and "t_name t' = t_name t" and "template_check t'"
  shows "templates_ok (replace_row t_id t' rows)"
proof -
  have "map (\<lambda>t. lower (t_name t)) (replace_row t_id t' rows) = map (\<lambda>t. lower (t_name t)) rows"
    using assms(1-3) by (intro map_replace_row_same) (simp_all add: templates_ok_def)
  moreover have "list_all template_check (replace_row t_id t' rows)"
    using assms(1,4) by (auto simp: templates_ok_def list_all_iff dest: in_replace_row)
  ultimately show ?thesis using assms(1) by (simp add: templates_ok_def unique_by_def)
qed

lemma lock_idle_template_Inl:
  "lock_idle_template k d = Inl e \<Longrightarrow> e = TemplateNotFoundError \<or> e = TemplateSyncInProgressError"
  by (auto simp: lock_idle_template_def result_iffs)

lemma update_template_Inl:
  assumes "update_template k u d = Inl e" and "templates_ok (templates d)" and "template_fields_ok u"
  shows "e \<in> {TemplateNotFoundError, TemplateSyncInProgressError, TemplateAssignmentsInProgressError,
    TemplateWorkspacesInProgressError, TemplateWorkspaceCompatibilityError}"
proof (cases "lock_idle_template k d")
  case (Inl e')
  with assms(1) lock_idle_template_Inl[OF this] show ?thesis by (auto simp: update_template_def)
next
  case (Inr t)
  then have t: "template_of d k = Some t" by (simp add: lock_idle_template_Inr)
  have key: "t_id t = k" using t by (rule select_row_key)
  have "template_check t"
    using assms(2) select_row_mem[OF t] by (auto simp: templates_ok_def list_all_iff)
  let ?t = "t\<lparr>t_display_name := tu_display_name u, t_git_url := tu_git_url u, t_source_path := tu_source_path u,
    t_branch := tu_branch u, t_modules := tu_modules u, t_job_id := None, t_action := ''updated'',
    t_sync_status := SUCCESS, t_step := None\<rparr>"
  have "not_blank ''updated''" by code_simp
  with \<open>template_check t\<close> assms(3) have "template_check ?t" by (simp add: template_check_def template_fields_ok_def)
  then have "templates_ok (replace_row t_id ?t (templates d))"
    using templates_ok_replace[OF assms(2)] t key by simp
  with assms(1) Inr show ?thesis
    by (auto simp: update_template_def result_iffs ensure_no_active_assignments_def ensure_no_active_workspaces_def
        discard_current_job_def drop_job_def Let_def split: if_splits option.splits)
qed

text \<open>
  The deletion of a template that a workspace uses, without any assignment left, is the one
  integrity error that no clause translates.
\<close>

lemma delete_template_Inl:
  assumes "delete_template k d = Inl e" and "\<not> exists_row (\<lambda>x. w_template_id x = k) (workspaces d)"
  shows "e \<in> {TemplateNotFoundError, TemplateSyncInProgressError, TemplateHasAssignmentsError}"
proof (cases "lock_idle_template k d")
  case (Inl e')
  with assms(1) lock_idle_template_Inl[OF this] show ?thesis by (auto simp: delete_template_def)
next
  case (Inr t)
  have "exists_row p (workspaces (drop_job j d)) = exists_row p (workspaces d)"
    "exists_row q (template_assignments (drop_job j d)) = exists_row q (template_assignments d)" for p q j
    by (simp_all add: drop_job_def split: option.split)
  with assms Inr show ?thesis
    by (auto simp: delete_template_def result_iffs discard_current_job_def delete_template_row_def Let_def
        split: if_splits sum.splits)
qed

lemma template_refusals [refusals]:
  "create_template payload k d = Inl e \<Longrightarrow> e = TemplateAlreadyExistsError"
  "request_template_sync k jk now d = Inl e
     \<Longrightarrow> e = TemplateNotFoundError \<or> e = TemplateSyncInProgressError \<or> e = TemplateAssignmentsInProgressError
       \<or> e = TemplateWorkspacesInProgressError"
  by (auto simp: create_template_def request_template_sync_def result_iffs ensure_no_active_assignments_def
      ensure_no_active_workspaces_def Let_def split_beta dest!: lock_idle_template_Inl split: if_splits)

section \<open>Routes\<close>

text \<open>The settings with which the application starts, and what the tables guarantee.\<close>

definition app_ok :: "api \<Rightarrow> bool" where
  "app_ok ap = (case (require_instance_base_domain (ap_settings ap), parse_default_admins (s_default_admins (ap_settings ap)))
     of (Inr _, Inr _) \<Rightarrow> True | _ \<Rightarrow> False)"

definition store_ok :: "db \<Rightarrow> bool" where
  "store_ok d = (keys_ok d \<and> templates_ok (templates d) \<and> assignments_ok (template_assignments d)
     \<and> list_all (\<lambda>x. template_of d (w_template_id x) \<noteq> None) (workspaces d))"

text \<open>A template that workspaces still use, or a replacement with a blank field, is refused by the database itself.\<close>

fun breaks_table :: "request \<Rightarrow> db \<Rightarrow> bool" where
  "breaks_table (DeleteTemplate k) d = exists_row (\<lambda>x. w_template_id x = k) (workspaces d)"
| "breaks_table (UpdateTemplate k u) d = (\<not> template_fields_ok u)"
| "breaks_table _ d = False"

definition refused :: "'a answer \<times> world \<Rightarrow> world \<Rightarrow> bool" where
  "refused served w = (case served of (Inl f, w') \<Rightarrow> w' = w \<and> documented f | (Inr r, w') \<Rightarrow> True)"

lemma refused_simps [simp]:
  "refused (Inl f, w') w \<longleftrightarrow> w' = w \<and> documented f"
  "refused (Inr r, w') w"
  by (simp_all add: refused_def)

lemma refused_outcome: "refused served w \<Longrightarrow> outcome_of job served = (Inl f, w') \<Longrightarrow> w' = w \<and> documented f"
  by (auto simp: outcome_of_def refused_def split: prod.splits sum.splits)

lemma app_okE:
  assumes "app_ok ap"
  obtains b admins where "public_url_config ap = Inr b"
    "parse_default_admins (s_default_admins (ap_settings ap)) = Inr admins"
  using assms by (auto simp: app_ok_def public_url_config_def attempt_def split: sum.splits)

lemma cipher_failures:
  "kubeconfig_cipher st = Inl f \<Longrightarrow> documented f"
  "password_cipher st = Inl f \<Longrightarrow> documented f"
  "cipher_for ap ty nonce = Inl f \<Longrightarrow> documented f"
  by (auto simp: kubeconfig_cipher_def password_cipher_def cipher_for_def parameter_cipher_def answer_iffs
      http_status_defs split: if_splits sum.splits)

lemma accept_instance_refused: "app_ok ap \<Longrightarrow> refused (accept_instance ap code task_name accepted w) w"
  by (erule app_okE) (simp add: accept_instance_def Let_def split_beta)

lemma lifecycle_refused:
  assumes "app_ok ap" and "\<And>e. r = Inl e \<Longrightarrow> e = InstanceNotFoundError \<or> e = InstanceActionConflictError"
  shows "refused (lifecycle_route ap r conflict task_name w) w"
  using assms accept_instance_refused[OF assms(1)]
  by (cases r) (auto simp: lifecycle_route_def attempt_def clauses)

lemma instance_routes_refused:
  assumes "app_ok ap"
  shows "refused (start_instance_route ap k jk now w) w"
    and "refused (stop_instance_route ap k jk now w) w"
    and "refused (sync_instance_route ap k jk now w) w"
    and "refused (delete_instance_route ap k jk now w) w"
    and "create_instance_route ap app ik jk ak slugs now w = Some served \<Longrightarrow> refused served w"
    and "refused (create_instance_provider_route ap k kc nonce jk now w) w"
proof -
  show "refused (start_instance_route ap k jk now w) w"
    unfolding start_instance_route_def request_instance_start_def by (rule lifecycle_refused[OF assms instance_refusals(1)])
  show "refused (stop_instance_route ap k jk now w) w"
    unfolding stop_instance_route_def request_instance_stop_def by (rule lifecycle_refused[OF assms instance_refusals(1)])
  show "refused (sync_instance_route ap k jk now w) w"
    unfolding sync_instance_route_def by (rule lifecycle_refused[OF assms instance_refusals(2)])
  show "refused (delete_instance_route ap k jk now w) w"
    unfolding delete_instance_route_def by (rule lifecycle_refused[OF assms instance_refusals(3)])
  show "refused served w" if "create_instance_route ap app ik jk ak slugs now w = Some served"
    using that accept_instance_refused[OF assms]
    by (auto simp: create_instance_route_def attempt_def clauses dest!: instance_refusals(4) split: sum.splits)
  show "refused (create_instance_provider_route ap k kc nonce jk now w) w"
    by (auto simp: create_instance_provider_route_def Let_def answer_iffs clauses cipher_failures
        dest!: instance_refusals(5) split: sum.splits)
qed

lemma database_routes_refused:
  "refused (create_database_route ap payload password nonce k w) w"
  "refused (update_database_route ap k payload nonce w) w"
  "refused (delete_database_route k w) w"
  "refused (sync_databases_route ap jk now w) w"
  by (auto simp: create_database_route_def update_database_route_def delete_database_route_def
      sync_databases_route_def create_system_job_def Let_def answer_iffs clauses cipher_failures
      dest!: database_refusals split: sum.splits)

lemma member_routes_refused:
  assumes "app_ok ap"
  shows "refused (create_member_route ap k payload mk jk now w) w"
    and "refused (update_member_role_route ap k mk role jk now w) w"
    and "refused (delete_member_route ap k mk jk now w) w"
proof -
  show "refused (create_member_route ap k payload mk jk now w) w"
    by (auto simp: create_member_route_def Let_def answer_iffs clauses dest!: member_refusals(1) split: sum.splits)
  show "refused (update_member_role_route ap k mk role jk now w) w"
    by (auto simp: update_member_role_route_def Let_def answer_iffs clauses dest!: member_refusals(2) split: sum.splits)
  obtain admins where "parse_default_admins (s_default_admins (ap_settings ap)) = Inr admins"
    using assms by (rule app_okE)
  then show "refused (delete_member_route ap k mk jk now w) w"
    by (auto simp: delete_member_route_def Let_def answer_iffs clauses dest!: member_refusals(3) split: sum.splits)
qed

lemma workspace_routes_refused:
  assumes "store_ok (store w)"
  shows "refused (create_workspace_route ap payload k jk now w) w"
    and "refused (update_workspace_route ap k payload' jk now w) w"
    and "refused (delete_workspace_route ap k jk now w) w"
proof -
  show "refused (create_workspace_route ap payload k jk now w) w"
    by (auto simp: create_workspace_route_def Let_def answer_iffs clauses dest!: create_workspace_Inl split: sum.splits)
  show "refused (update_workspace_route ap k payload' jk now w) w"
    by (auto simp: update_workspace_route_def Let_def answer_iffs clauses dest!: update_workspace_Inl
        split: sum.splits prod.splits)
  have "\<forall>x\<in>set (workspaces (store w)). template_of (store w) (w_template_id x) \<noteq> None"
    using assms by (simp add: store_ok_def list_all_iff)
  from request_workspace_deletion_Inl[OF _ this] show "refused (delete_workspace_route ap k jk now w) w"
    by (fastforce simp: delete_workspace_route_def Let_def answer_iffs clauses split: sum.splits)
qed

lemma assignment_routes_refused:
  assumes "store_ok (store w)" and "job_of (store w) jk = None" and "assignment_of (store w) ak = None"
  shows "refused (put_instance_template_route ap k t ak jk now w) w"
    and "refused (delete_instance_template_route ap k t jk now w) w"
proof -
  have reply: "\<exists>v. assignment_reply d a = Inr v" if "template_of d (ta_template_id a) \<noteq> None" for d a
    using that by (auto simp: assignment_reply_def assignment_view_def Let_def)
  have tables: "assignments_ok (template_assignments (store w))" "unique_by j_id (job_executions (store w))"
    using assms(1) by (simp_all add: store_ok_def keys_ok_def)
  have "template_of d (ta_template_id a) \<noteq> None"
    if "put_assignment k t ak jk now (store w) = Inr (d, a, accepted, enqueued)" for d a accepted enqueued
    using that by (auto simp: put_assignment_def result_iffs assignment_template_def Let_def insert_with_job_def stage_job_def
        dest: lock_assignment_Some split: option.splits if_splits)
  note found = reply[OF this]
  have "documented (put_assignment_errors e)" if "put_assignment k t ak jk now (store w) = Inl e" for e
    using put_assignment_Inl[OF that tables assms(2,3)] by (cases e) (simp_all add: clauses)
  then show "refused (put_instance_template_route ap k t ak jk now w) w"
    by (auto simp: put_instance_template_route_def attempt_def Let_def dest!: found split: sum.split)
  have "template_of d (ta_template_id a) \<noteq> None"
    if "request_assignment_deletion k t jk now (store w) = Inr (d, Some a, accepted, enqueued)" for d a accepted enqueued
    using that by (cases "lock_assignment k t (store w)")
      (auto simp: request_assignment_deletion_def result_iffs assignment_template_def Let_def attach_job_def stage_job_def
        dest: lock_assignment_Some split: if_splits)
  note found' = reply[OF this]
  have "documented (delete_assignment_errors e)" if "request_assignment_deletion k t jk now (store w) = Inl e" for e
    using request_assignment_deletion_Inl[OF that] by (cases e) (simp_all add: clauses)
  then show "refused (delete_instance_template_route ap k t jk now w) w"
    by (auto simp: delete_instance_template_route_def attempt_def dest!: found' split: sum.split option.split)
qed

lemma template_routes_refused:
  assumes "store_ok (store w)"
  shows "refused (sync_template_route ap k jk now w) w"
    and "refused (create_template_route payload k w) w"
    and "template_fields_ok u \<Longrightarrow> refused (update_template_route k u w) w"
    and "\<not> exists_row (\<lambda>x. w_template_id x = k) (workspaces (store w)) \<Longrightarrow> refused (delete_template_route k w) w"
    and "refused (create_template_image_route k ip ik w) w"
    and "refused (delete_template_image_route k ik w) w"
proof -
  show "refused (sync_template_route ap k jk now w) w"
    by (auto simp: sync_template_route_def answer_iffs clauses dest!: template_refusals(2) split: sum.splits)
  show "refused (create_template_route payload k w) w"
    by (auto simp: create_template_route_def answer_iffs clauses dest!: template_refusals(1) split: sum.splits)
  show "refused (update_template_route k u w) w" if "template_fields_ok u"
    using update_template_Inl[OF _ _ that] assms
    by (fastforce simp: update_template_route_def answer_iffs clauses store_ok_def split: sum.splits)
  show "refused (delete_template_route k w) w" if "\<not> exists_row (\<lambda>x. w_template_id x = k) (workspaces (store w))"
    using delete_template_Inl[OF _ that]
    by (fastforce simp: delete_template_route_def answer_iffs clauses split: sum.splits)
  show "refused (create_template_image_route k ip ik w) w" "refused (delete_template_image_route k ik w) w"
    by (auto simp: create_template_image_route_def delete_template_image_route_def answer_iffs clauses
        dest!: image_refusals split: sum.splits)
qed

lemma parameter_routes_refused:
  "refused (create_template_parameter_route ap k payload nonce pk w) w"
  "refused (update_template_parameter_route ap k pk u nonce w) w"
  "refused (delete_template_parameter_route k pk w) w"
proof -
  have typed: "ty = USER_PARAMETER \<or> c \<noteq> None" if "cipher_for ap ty nonce = Inr c" for ty c
    using cipher_for_Inr[OF that] by auto
  show "refused (create_template_parameter_route ap k payload nonce pk w) w"
    by (auto simp: create_template_parameter_route_def answer_iffs clauses cipher_failures
        dest!: parameter_refusals(1)[OF _ typed] split: sum.splits)
  show "refused (update_template_parameter_route ap k pk u nonce w) w"
    by (auto simp: update_template_parameter_route_def answer_iffs clauses cipher_failures
        dest!: parameter_refusals(2)[OF _ typed] split: sum.splits)
  show "refused (delete_template_parameter_route k pk w) w"
    by (auto simp: delete_template_parameter_route_def answer_iffs clauses dest!: parameter_refusals(3) split: sum.splits)
qed

lemmas routes_refused = instance_routes_refused database_routes_refused member_routes_refused
  workspace_routes_refused assignment_routes_refused template_routes_refused parameter_routes_refused

definition turned_down :: "failure \<Rightarrow> world \<Rightarrow> world \<Rightarrow> bool" where
  "turned_down f w w' = (w' = w \<and> documented f)"

lemma turned_downI: "outcome_of job served = (Inl f, w') \<Longrightarrow> refused served w \<Longrightarrow> turned_down f w w'"
  unfolding turned_down_def by (rule refused_outcome)

lemma serve_refused:
  assumes "serve ap dw r w = Some (Inl f, w')" and "app_ok ap" and "store_ok (store w)"
    and "job_of (store w) (dw_job dw) = None" and "assignment_of (store w) (dw_key dw) = None"
    and "\<not> breaks_table r (store w)"
  shows "turned_down f w w'"
  using assms by (cases r) (auto simp: serve_def elim!: turned_downI intro: routes_refused)

end
