(* ===== verification/Confidentiality.thy ===== *)
theory Confidentiality
  imports Refusals
begin

text \<open>
  What answers may depend on. \<open>redact\<close> removes every encrypted credential from the store and
  keeps only whether a database has a password at all; an answer that is the same on the
  redacted store carries nothing of a credential.
\<close>

section \<open>The store without its credentials\<close>

definition redact_instance :: "inst \<Rightarrow> inst" where
  "redact_instance i = i\<lparr>i_password_enc := None, i_password_candidate_enc := None\<rparr>"

definition redact_database :: "database \<Rightarrow> database" where
  "redact_database x = x\<lparr>d_password_enc := (if d_password_enc x = [] then [] else [0])\<rparr>"

definition redact :: "db \<Rightarrow> db" where
  "redact d = d\<lparr>instances := map redact_instance (instances d), databases := map redact_database (databases d),
     instance_kubernetes_rows := map (\<lambda>p. p\<lparr>k_kubeconfig_enc := []\<rparr>) (instance_kubernetes_rows d),
     template_parameter_system_values := map (\<lambda>v. v\<lparr>sv_value_enc := []\<rparr>) (template_parameter_system_values d)\<rparr>"

section \<open>Tables with changed rows\<close>

lemma sort_key_map_same:
  assumes "\<And>x. k (h x) = k x"
  shows "sort_key k (map h xs) = map h (sort_key k xs)"
proof -
  have "insort_key k (h x) (map h ys) = map h (insort_key k x ys)" for x ys
    by (induction ys) (simp_all add: assms)
  then show ?thesis by (induction xs) simp_all
qed

lemma page_slice_map: "page_slice p s (map h xs) = map h (page_slice p s xs)"
  by (simp add: page_slice_def take_map drop_map)

lemma filter_map_same: "(\<And>x. P (h x) = P x) \<Longrightarrow> filter P (map h xs) = map h (filter P xs)"
  by (simp add: filter_map comp_def)

lemma select_row_map:
  "(\<And>r. key (h r) = key r) \<Longrightarrow> select_row key k (map h rows) = map_option h (select_row key k rows)"
  by (induction rows) (simp_all add: select_row_Cons)

lemma redact_instance_fields [simp]:
  "i_id (redact_instance i) = i_id i" "i_application (redact_instance i) = i_application i"
  "i_slug (redact_instance i) = i_slug i" "i_action (redact_instance i) = i_action i"
  "i_status (redact_instance i) = i_status i" "i_state (redact_instance i) = i_state i"
  "i_argocd_application_name (redact_instance i) = i_argocd_application_name i"
  "i_job_id (redact_instance i) = i_job_id i" "i_step (redact_instance i) = i_step i"
  by (simp_all add: redact_instance_def)

lemma redact_database_fields [simp]:
  "d_id (redact_database x) = d_id x" "d_name (redact_database x) = d_name x"
  "d_instance_max (redact_database x) = d_instance_max x" "database_order (redact_database x) = database_order x"
  by (simp_all add: redact_database_def database_order_def)

lemma redact_tables [simp]:
  "database_allocations (redact d) = database_allocations d" "members (redact d) = members d"
  "templates (redact d) = templates d" "template_images (redact d) = template_images d"
  "template_parameters (redact d) = template_parameters d" "template_assignments (redact d) = template_assignments d"
  "template_deployments (redact d) = template_deployments d" "workspaces (redact d) = workspaces d"
  "job_executions (redact d) = job_executions d"
  by (simp_all add: redact_def)

lemma instance_of_redact [simp]: "instance_of (redact d) k = map_option redact_instance (instance_of d k)"
  by (simp add: redact_def select_row_map)

lemma allocation_count_redact [simp]: "allocation_count (redact d) k = allocation_count d k"
  by (simp add: allocation_count_def)

section \<open>Instances\<close>

lemma from_instance_redact [simp]: "from_instance b (redact d) (redact_instance i) = from_instance b d i"
  by (simp add: from_instance_def instance_database_id_def instance_schema_name_def allocation_for_def)

lemma list_instances_redact:
  "list_instances p s app dbk (redact d)
     = (map redact_instance (fst (list_instances p s app dbk d)), snd (list_instances p s app dbk d))"
  by (simp add: list_instances_def Let_def redact_def filter_map_same sort_key_map_same page_slice_map split: option.split)

lemma page_of_redact:
  assumes "\<And>r. view' (h r) = view r"
  shows "page_of view' p s (map h (fst l), snd l) = page_of view p s l"
  using assms by (simp add: page_of_def split_beta comp_def)

lemma instance_reads_redact:
  "list_instances_route ap p s app (redact d) = list_instances_route ap p s app d"
  "list_database_instances_route ap k p s (redact d) = list_database_instances_route ap k p s d"
  "get_instance_route ap k (redact d) = get_instance_route ap k d"
  "get_instance_provider_route k (redact d) = get_instance_provider_route k d"
  "get_instance_status_route ap tr is_datetime k (redact d) c = get_instance_status_route ap tr is_datetime k d c"
proof -
  have pages: "page_of (from_instance b (redact d)) p s (list_instances p s app dbk (redact d))
      = page_of (from_instance b d) p s (list_instances p s app dbk d)" for b dbk app
    unfolding list_instances_redact by (rule page_of_redact) simp
  show "list_instances_route ap p s app (redact d) = list_instances_route ap p s app d"
    by (simp add: list_instances_route_def Let_def pages)
  have "get_usage k (redact d) = None \<longleftrightarrow> get_usage k d = None"
    by (simp add: get_usage_def redact_def select_row_map)
  then have found: "rbind (require (get_usage k (redact d)) e) (\<lambda>_. m) = rbind (require (get_usage k d) e) (\<lambda>_. m)" for e m
    by (cases "get_usage k d"; cases "get_usage k (redact d)") simp_all
  show "list_database_instances_route ap k p s (redact d) = list_database_instances_route ap k p s d"
    by (simp add: list_database_instances_route_def Let_def pages found)
  show "get_instance_route ap k (redact d) = get_instance_route ap k d"
    by (cases "instance_of d k") (simp_all add: get_instance_route_def get_instance_def)
  have "provider_of (redact d) k = map_option (\<lambda>p. p\<lparr>k_kubeconfig_enc := []\<rparr>) (provider_of d k)"
    by (simp add: redact_def select_row_map)
  then show "get_instance_provider_route k (redact d) = get_instance_provider_route k d"
    by (auto simp: get_instance_provider_route_def get_provider_def kubernetes_provider_read_def attempt_def
        split: option.split)
  show "get_instance_status_route ap tr is_datetime k (redact d) c = get_instance_status_route ap tr is_datetime k d c"
    by (cases "instance_of d k") (simp_all add: get_instance_status_route_def get_instance_def split: prod.split sum.split)
qed

section \<open>Databases\<close>

definition redact_usage :: "database_usage \<Rightarrow> database_usage" where
  "redact_usage u = (redact_database (fst u), snd u)"

lemma redact_usage_simps [simp]: "fst (redact_usage u) = redact_database (fst u)" "snd (redact_usage u) = snd u"
  by (simp_all add: redact_usage_def)

lemma database_view_redact [simp]: "database_view (redact_usage u) = database_view u"
  by (simp add: database_view_def redact_database_def redact_usage_def split_beta)

lemma usage_rows_redact: "usage_rows (redact d) = map redact_usage (usage_rows d)"
proof -
  have "usage_rows (redact d) = map (\<lambda>x. (x, allocation_count d (d_id x))) (map redact_database (databases d))"
    by (simp add: usage_rows_def redact_def allocation_count_def)
  then show ?thesis by (simp add: usage_rows_def redact_usage_def)
qed

lemma list_database_page_redact:
  "list_database_page p s name (redact d)
     = (map redact_usage (fst (list_database_page p s name d)), snd (list_database_page p s name d))"
  by (simp add: list_database_page_def usage_rows_redact Let_def filter_map_same sort_key_map_same page_slice_map
      split: option.split)

lemma list_usage_redact: "list_usage (redact d) = map redact_usage (list_usage d)"
  by (simp add: list_usage_def usage_rows_redact sort_key_map_same)

lemma database_reads_redact:
  "list_databases_route p s name (redact d) = list_databases_route p s name d"
  "get_database_route k (redact d) = get_database_route k d"
  "get_database_statistics_route percent zero (redact d) = get_database_statistics_route percent zero d"
proof -
  show "list_databases_route p s name (redact d) = list_databases_route p s name d"
    unfolding list_databases_route_def list_database_page_redact
    by (subst page_of_redact[where view = database_view]) simp_all
  have "get_usage k (redact d) = map_option redact_usage (get_usage k d)"
    by (cases "database_of d k") (simp_all add: get_usage_def redact_def select_row_map redact_usage_def allocation_count_def)
  then show "get_database_route k (redact d) = get_database_route k d"
    by (cases "get_usage k d") (simp_all add: get_database_route_def)
  show "get_database_statistics_route percent zero (redact d) = get_database_statistics_route percent zero d"
    by (simp add: get_database_statistics_route_def list_usage_redact Let_def comp_def case_prod_unfold)
qed

section \<open>Members, workspaces and the catalogue\<close>

lemma system_value_redact: "system_value_of (redact d) k = None \<longleftrightarrow> system_value_of d k = None"
  by (simp add: redact_def select_row_map)

lemma parameter_read_redact [simp]: "parameter_read (redact d) = parameter_read d"
  by (rule ext) (simp add: parameter_read_def system_value_redact)

lemma assignments_redact [simp]:
  "assignment_reply (redact d) = assignment_reply d" "assignment_order (redact d) = assignment_order d"
  by (rule ext, simp add: assignment_reply_def assignment_view_def)
     (rule ext, simp add: assignment_order_def)

lemma catalogue_reads_redact:
  "list_members_route k p s (redact d) = list_members_route k p s d"
  "get_member_route k m (redact d) = get_member_route k m d"
  "list_workspaces_route q (redact d) = list_workspaces_route q d"
  "get_workspace_route k (redact d) = get_workspace_route k d"
  "list_instance_templates_route k p s (redact d) = list_instance_templates_route k p s d"
  "list_templates_route p s name (redact d) = list_templates_route p s name d"
  "list_template_modules_route k (redact d) = list_template_modules_route k d"
  "get_template_route k (redact d) = get_template_route k d"
  "list_template_images_route k p s (redact d) = list_template_images_route k p s d"
  "get_template_image_route k m (redact d) = get_template_image_route k m d"
  "list_template_parameters_route k p s (redact d) = list_template_parameters_route k p s d"
  "get_template_parameter_route k m (redact d) = get_template_parameter_route k m d"
  "get_job_route k (redact d) = get_job_route k d"
proof -
  show "list_members_route k p s (redact d) = list_members_route k p s d"
    by (cases "instance_of d k") (simp_all add: list_members_route_def list_members_def)
  show "list_instance_templates_route k p s (redact d) = list_instance_templates_route k p s d"
    by (cases "instance_of d k")
       (simp_all add: list_instance_templates_route_def list_assignments_def)
qed (simp_all add: get_member_route_def get_member_def list_workspaces_route_def list_workspace_page_def
    get_workspace_route_def get_workspace_def list_templates_route_def list_templates_def
    list_template_modules_route_def get_template_route_def get_template_def list_template_images_route_def
    list_images_def get_template_image_route_def get_image_def list_template_parameters_route_def
    list_parameters_def get_template_parameter_route_def get_parameter_def get_job_route_def get_job_execution_def)

lemmas reads_redact = instance_reads_redact database_reads_redact catalogue_reads_redact

end
