(* ===== verification/Argo_Properties.thy ===== *)
theory Argo_Properties
  imports ArgoCd
begin

text \<open>
  Properties of the Argo CD domain and of the settings it validates.
\<close>

section \<open>Names\<close>

lemma slug_chars: "list_all label_char (generate_instance_slug choices)"
proof -
  have alphabet: "list_all label_char INSTANCE_SLUG_ALPHABET" by code_simp
  have "INSTANCE_SLUG_ALPHABET ! (n mod length INSTANCE_SLUG_ALPHABET) \<in> set INSTANCE_SLUG_ALPHABET" for n
    by (rule nth_mem) (simp add: INSTANCE_SLUG_ALPHABET_def)
  then show ?thesis using alphabet by (auto simp: generate_instance_slug_def list_all_iff)
qed

lemma slug_length: "length (generate_instance_slug choices) = 12"
  by (simp add: generate_instance_slug_def INSTANCE_SLUG_LENGTH_def)

lemma label_chars_shape: "list_all label_char s \<Longrightarrow> s \<noteq> [] \<Longrightarrow> label_shape s"
  by (auto simp: label_shape_def list_all_iff)

lemma label_shape_append:
  assumes "label_shape p" and "label_shape s"
  shows "label_shape (p @ ''-'' @ s)"
  using assms by (auto simp: label_shape_def list_all_iff)

lemma prefix_ok:
  assumes "application_prefix raw name = Inr p"
  shows "label_shape p" and "length p \<le> 50"
  using assms
  by (auto simp: application_prefix_def Let_def MAX_APPLICATION_NAME_LENGTH_def INSTANCE_SLUG_LENGTH_def split: if_splits)

lemma config_prefix:
  assumes "argocd_client_config_from_settings st = Inr config"
  shows "label_shape (ac_application_prefix config)" and "length (ac_application_prefix config) \<le> 50"
  using assms prefix_ok
  by (auto simp: argocd_client_config_from_settings_def Let_def rbind_Inr_iff split: if_splits)

lemma hostname_plain:
  assumes plain: "\<forall>c \<in> set h. label_char c \<or> c = CHR ''-'' \<or> c = CHR ''.''" and "h \<noteq> []"
  shows "url_hostname (''https://'' @ h) = Inr (Some h)"
proof -
  have ok: "c \<notin> set ''/?#@[]:%'' \<and> 32 < (of_char c :: nat) \<and> lower_char c = c" if "c \<in> set h" for c
    using plain that by (auto simp: label_char_def lower_char_def Let_def)
  have clean: "filter (\<lambda>c. of_char c \<notin> {9, 10, 13 :: nat}) h = h"
    using ok by (intro filter_True) force
  have netloc: "takeWhile (\<lambda>c. c \<notin> set ''/?#'') h = h" using ok by (intro takeWhile_eq_all_conv[THEN iffD2]) auto
  have n: "url_netloc (''https://'' @ h) = h"
    using clean netloc by (simp add: url_netloc_def Let_def)
  have "takeWhile (\<lambda>c. c \<noteq> CHR ''@'') (List.rev h) = List.rev h"
    using ok by (auto simp: takeWhile_eq_all_conv)
  then have at: "List.rev (takeWhile (\<lambda>c. c \<noteq> CHR ''@'') (List.rev h)) = h" by (simp only: rev_rev_ident)
  have port: "takeWhile (\<lambda>c. c \<noteq> CHR '':'') h = h" and zone: "takeWhile (\<lambda>c. c \<noteq> CHR ''%'') h = h"
    using ok by (auto simp: takeWhile_eq_all_conv)
  have "CHR ''['' \<notin> set h" "CHR '']'' \<notin> set h" using ok by auto
  moreover have "lower h = h" using ok by (auto simp: lower_def intro: map_idI)
  ultimately show ?thesis using assms(2) unfolding url_hostname_def Let_def n at by (simp add: port zone)
qed

text \<open>
  The names the program makes up are valid where they are used. With settings that pass
  validation and any slug the generator draws, the Application name is a DNS label, the public
  host name is a DNS name within its length limit, and the host name that the Helm values get
  from the public URL is exactly this one.
\<close>

theorem generated_names_valid:
  assumes "argocd_client_config_from_settings st = Inr config" and "require_instance_base_domain st = Inr b"
    and "slug = generate_instance_slug choices"
  shows "dns_label (application_name config slug None) \<and> dns_name (slug @ ''.'' @ b)
    \<and> length (slug @ ''.'' @ b) \<le> MAX_DNS_NAME_LENGTH
    \<and> url_hostname (url_for b slug) = Inr (Some (slug @ ''.'' @ b))"
proof (intro conjI)
  have chars: "list_all label_char slug" and len: "length slug = 12"
    unfolding assms(3) by (rule slug_chars, rule slug_length)
  then have ne: "slug \<noteq> []" by auto
  have shape: "label_shape slug" using label_chars_shape[OF chars ne] .
  show "dns_label (application_name config slug None)"
    using label_shape_append[OF config_prefix(1)[OF assms(1)] shape] config_prefix(2)[OF assms(1)] len
    by (simp add: dns_label_def application_name_def)
  have dot: "CHR ''.'' \<notin> set slug" using chars by (auto simp: list_all_iff label_char_def)
  show name: "dns_name (slug @ ''.'' @ b)"
    using dns_name_extend[OF _ dot base_domain_ok(1)[OF assms(2)]] shape len by (simp add: dns_label_def)
  show "length (slug @ ''.'' @ b) \<le> MAX_DNS_NAME_LENGTH"
    using base_domain_ok(2)[OF assms(2)] len by (simp add: INSTANCE_SLUG_LENGTH_def)
  show "url_hostname (url_for b slug) = Inr (Some (slug @ ''.'' @ b))"
    unfolding url_for_def using dns_name_chars[OF name] by (intro hostname_plain) auto
qed

definition sample_settings :: settings where
  "sample_settings = \<lparr>s_database_schema = Some ''cm'', s_instance_base_domain = Some '' Coder.Example.org '',
     s_crypto_key = None, s_argocd_url = Some ''https://argo.example.org/'', s_argocd_token = Some ''tok'',
     s_argocd_skip_ssl_verify = False, s_argocd_application_prefix = Some ''Coder'', s_argocd_region = Some ''eu-1'',
     s_argocd_repository_url = Some ''https://git.example.org/charts'', s_argocd_repository_path = Some ''coder'',
     s_argocd_target_revision = Some ''main'', s_argocd_project_name = Some ''coder'',
     s_argocd_destination_name = Some ''cluster'', s_argocd_additional_values = Some ''extra.yaml'',
     s_allow_unauthenticated_api = False, s_oidc_issuer_url = None, s_oidc_client_id = None,
     s_oidc_authorization_url = None, s_oidc_token_url = None, s_oidc_scopes = ''openid'',
     s_cyberark_app_id = Some ''app'', s_cyberark_cert_name = Some ''cert'', s_cyberark_key_name = Some ''key'',
     s_cyberark_safe = Some ''safe'', s_default_admins = ''Root, ops''\<rparr>"

definition sample_slug :: string where
  "sample_slug = generate_instance_slug id"

definition sample_argocd_config :: argocd_config where
  "sample_argocd_config = (case argocd_config_from_settings sample_settings of Inr c \<Rightarrow> c)"

lemma sample_configuration:
  "argocd_config_from_settings sample_settings = Inr sample_argocd_config"
  "ac_default_admins sample_argocd_config = [''ops'', ''root'']"
  "require_instance_base_domain sample_settings = Inr ''coder.example.org''"
  by code_simp+

theorem generated_names_valid_witness:
  "\<exists>config. argocd_client_config_from_settings sample_settings = Inr config
    \<and> application_name config sample_slug None = ''coder-'' @ sample_slug
    \<and> url_hostname (url_for ''coder.example.org'' sample_slug) = Inr (Some (sample_slug @ ''.coder.example.org''))"
proof -
  obtain config where config: "argocd_client_config_from_settings sample_settings = Inr config"
    and prefix: "ac_application_prefix config = ''coder''"
    by (rule that[of "\<lparr>ac_url = ''https://argo.example.org'', ac_token = ''tok'', ac_skip_ssl_verify = False,
          ac_project = ''coder'', ac_application_prefix = ''coder''\<rparr>"]) code_simp+
  from generated_names_valid[OF config sample_configuration(3) sample_slug_def] config prefix
  show ?thesis by (simp add: application_name_def)
qed


section \<open>Helm arguments\<close>

lemma collect_Inr_iffs:
  "collect [] = Inr xs \<longleftrightarrow> xs = []"
  "collect (r # rs) = Inr xs \<longleftrightarrow> (\<exists>y ys. r = Inr y \<and> collect rs = Inr ys \<and> xs = y # ys)"
  by (auto simp: rbind_Inr_iff)

lemma single_line:
  assumes "optional_single_line_value v name = Inr (Some s)"
  shows "CHR 0x0A \<notin> set s"
proof -
  obtain raw where "v = Some raw" "\<not> has_line_break raw" "s = strip raw"
    using assms by (auto simp: optional_single_line_value_def split: option.splits if_splits)
  moreover have "set (strip raw) \<subseteq> set raw"
    unfolding strip_def strip_with_def by (auto dest!: set_dropWhileD)
  ultimately show ?thesis by (auto simp: has_line_break_def)
qed

lemma config_values_line:
  assumes "argocd_config_from_settings st = Inr config" and "ac_additional_values config = Some v"
  shows "CHR 0x0A \<notin> set v"
proof -
  obtain extra where "optional_single_line_value (s_argocd_additional_values st)
      ''CODER_MANAGER_ARGOCD_ADDITIONAL_VALUES'' = Inr extra" and "ac_additional_values config = extra"
    using assms(1) unfolding argocd_config_from_settings_def Let_def
    by (auto simp: rbind_Inr_iff argocd_client_config.extend_def argocd_config.fields_def split: if_splits)
  with assms(2) single_line show ?thesis by simp
qed


lemma no_setting:
  "helm_setting (''--values '' @ v) = None" "helm_setting (''--namespace '' @ v) = None" "helm_setting [] = None"
  by (simp_all add: helm_setting_def)

definition scalar_ok :: "string \<Rightarrow> string \<times> string \<Rightarrow> bool" where
  "scalar_ok line p = (helm_setting line = Some p \<and> CHR 0x0A \<notin> set line)"

lemma scalar_okI:
  "helm_scalar_argument name v = Inr line \<Longrightarrow> CHR ''='' \<notin> set name \<Longrightarrow> CHR 0x0A \<notin> set name \<Longrightarrow> scalar_ok line (name, v)"
  using helm_scalar_setting by (simp add: scalar_ok_def)

lemma scalars_read:
  "list_all2 scalar_ok ls ps \<Longrightarrow> List.map_filter helm_setting ls = ps \<and> (\<forall>l \<in> set ls. CHR 0x0A \<notin> set l)"
  by (induction ls ps rule: list_all2_induct) (auto simp: scalar_ok_def List.map_filter_def)

lemma map_filter_append: "List.map_filter f (xs @ ys) = List.map_filter f xs @ List.map_filter f ys"
  by (simp add: List.map_filter_def)

text \<open>The assignments an instance gets, in their order.\<close>

definition helm_assignments ::
  "argocd_config \<Rightarrow> (string \<times> string) list \<Rightarrow> instance_helm_values_data \<Rightarrow> string \<Rightarrow> (string \<times> string) list" where
  "helm_assignments config ms hv base_domain =
     [(''policy.config.allowedUsernames'', join '','' (fst (member_values (ac_default_admins config) ms))),
      (''policy.config.adminUsernames'', join '','' (snd (member_values (ac_default_admins config) ms))),
      (''global.baseDomain'', base_domain), (''global.identifier'', hv_slug hv),
      (''server.config.postgres.username'', ''<secret:'' @ hv_managed_database_name hv @ ''#username>''),
      (''server.config.postgres.password'', ''<secret:'' @ hv_managed_database_name hv @ ''#password>''),
      (''server.config.postgres.host'', hv_database_host hv), (''server.config.postgres.database'', hv_database_name hv),
      (''server.config.postgres.schema'', hv_database_schema hv)]
     @ (case hv_kubeconfig hv of None \<Rightarrow> [] | Some k \<Rightarrow> [(''server.config.kube'', b64encode k)])"

lemma argument_lines:
  assumes "helm_argument_lines config ms hv = Inr ls"
  shows "\<exists>b scalars. helm_base_domain hv = Inr b
    \<and> ls = (case ac_additional_values config of None \<Rightarrow> [] | Some v \<Rightarrow> [''--values '' @ v])
        @ [''--namespace '' @ APPLICATION_NAMESPACE] @ scalars
    \<and> list_all2 scalar_ok scalars (helm_assignments config ms hv b)"
proof -
  obtain users admins where mv: "member_values (ac_default_admins config) ms = (users, admins)" by fastforce
  obtain k where k: "hv_kubeconfig hv = k" by simp
  have [simp]: "CHR ''='' \<notin> set n \<Longrightarrow> CHR 0x0A \<notin> set n \<Longrightarrow> helm_scalar_argument n v = Inr l \<Longrightarrow> scalar_ok l (n, v)" for n v l
    by (rule scalar_okI)
  show ?thesis
    using assms unfolding helm_argument_lines_def mv prod.case k
    by (cases k) (auto simp: rbind_Inr_iff collect_Inr_iffs helm_assignments_def mv k simp del: collect.simps)
qed


text \<open>
  C39. The Helm arguments of an Application say what was meant, whatever the values contain.
  With settings that pass validation the argument text, read the way Helm reads it, has exactly
  the intended assignments with exactly the intended values: no value can end its line, start
  another argument or assign another key. A kubeconfig comes back byte for byte.
\<close>

theorem helm_arguments_faithful:
  assumes "argocd_config_from_settings st = Inr config" and "application_payload config name k ms hv = Inr app"
  shows "\<exists>helm_arguments b. ap_spec app = application_spec config helm_arguments \<and> helm_base_domain hv = Inr b
    \<and> helm_settings helm_arguments = helm_assignments config ms hv b
    \<and> map_option (b64decode \<circ> b64encode) (hv_kubeconfig hv) = map_option Some (hv_kubeconfig hv)"
proof -
  obtain ls where ls: "helm_argument_lines config ms hv = Inr ls"
    and spec: "ap_spec app = application_spec config (join [CHR 0x0A] ls @ [CHR 0x0A])"
    using assms(2) by (auto simp: application_payload_def rbind_Inr_iff)
  from argument_lines[OF ls] obtain b scalars where b: "helm_base_domain hv = Inr b"
    and shape: "ls = (case ac_additional_values config of None \<Rightarrow> [] | Some v \<Rightarrow> [''--values '' @ v])
        @ [''--namespace '' @ APPLICATION_NAMESPACE] @ scalars"
    and scalars: "list_all2 scalar_ok scalars (helm_assignments config ms hv b)" by blast
  have lines: "\<forall>l \<in> set ls. CHR 0x0A \<notin> set l"
    using scalars_read[OF scalars] config_values_line[OF assms(1)]
    by (auto simp: shape APPLICATION_NAMESPACE_def split: option.splits)
  have "ls \<noteq> []" by (simp add: shape)
  from split_lines[OF this lines] have "helm_settings (join [CHR 0x0A] ls @ [CHR 0x0A]) = List.map_filter helm_setting (ls @ [[]])"
    by (simp only: helm_settings_def)
  moreover have "List.map_filter helm_setting (ls @ [[]]) = helm_assignments config ms hv b"
    unfolding shape map_filter_append using scalars_read[OF scalars] no_setting
    by (cases "ac_additional_values config") (simp_all add: List.map_filter_def)
  ultimately have "helm_settings (join [CHR 0x0A] ls @ [CHR 0x0A]) = helm_assignments config ms hv b" by simp
  with spec b show ?thesis by (auto simp: b64_roundtrip option.map_comp comp_def)
qed

definition sample_helm_values :: instance_helm_values_data where
  "sample_helm_values = \<lparr>hv_slug = sample_slug, hv_public_url = url_for ''coder.example.org'' sample_slug,
     hv_database_username = ''u'', hv_database_password = ''p'', hv_database_host = ''db,x=1'',
     hv_database_name = ''coder'', hv_managed_database_name = ''main'', hv_database_schema = ''coder_1'',
     hv_kubeconfig = Some [1, 2]\<rparr>"

theorem helm_arguments_faithful_witness:
  "\<exists>app text b. application_payload sample_argocd_config ''coder-x'' 7 [(''ann'', ''admin'')] sample_helm_values = Inr app
    \<and> ap_spec app = application_spec sample_argocd_config text
    \<and> helm_settings text = helm_assignments sample_argocd_config [(''ann'', ''admin'')] sample_helm_values b
    \<and> (''server.config.postgres.host'', ''db,x=1'') \<in> set (helm_settings text)"
proof -
  have "\<exists>app. application_payload sample_argocd_config ''coder-x'' 7 [(''ann'', ''admin'')] sample_helm_values = Inr app"
  proof (rule exI)
    have ok: "isl (application_payload sample_argocd_config ''coder-x'' 7 [(''ann'', ''admin'')] sample_helm_values) = False"
      by code_simp
    show "application_payload sample_argocd_config ''coder-x'' 7 [(''ann'', ''admin'')] sample_helm_values
      = Inr (projr (application_payload sample_argocd_config ''coder-x'' 7 [(''ann'', ''admin'')] sample_helm_values))"
      using ok by (simp add: sum.expand sum.collapse)
  qed
  then obtain app where app: "application_payload sample_argocd_config ''coder-x'' 7 [(''ann'', ''admin'')] sample_helm_values = Inr app"
    by blast
  from helm_arguments_faithful[OF sample_configuration(1) app] app show ?thesis
    by (fastforce simp: helm_assignments_def sample_helm_values_def)
qed


section \<open>The client\<close>

lemma get_application_None:
  assumes "get_application tr config name c = (c', Inr None)"
  shows "\<exists>r. authorized tr config ''GET'' (application_path name) [(''project'', ac_project config)] NoBody c = (c', Inr r)
    \<and> rs_status r = 404"
proof -
  obtain c1 r where r: "authorized tr config ''GET'' (application_path name) [(''project'', ac_project config)] NoBody c = (c1, Inr r)"
    and rest: "(if rs_status r = 404 then creturn None
      else cbind (clift (argocd_raise_for_response r ''GET'' (application_path name))) (\<lambda>_.
           cbind (clift (argocd_json_object r (application_path name))) (\<lambda>app. creturn (Some app)))) c1 = (c', Inr None)"
    using assms unfolding get_application_def Let_def cbind_Inr_iff by blast
  then show ?thesis by (cases "rs_status r = 404") (auto simp: call_iffs)
qed

lemma get_owned_None_iff:
  "get_owned_application tr config name k c = (c', Inr None) \<longleftrightarrow> get_application tr config name c = (c', Inr None)"
  by (auto simp: get_owned_application_def cbind_def creturn_def craise_def split: prod.splits sum.splits option.splits if_splits)


lemma accepted_iff: "argocd_raise_for_response r meth path = Inr u \<longleftrightarrow> 200 \<le> rs_status r \<and> rs_status r < 300"
  by (simp add: argocd_raise_for_response_def Let_def)

text \<open>
  What Argo CD has said last when the connection is in a given state: that the Application does
  not exist, that it exists and belongs to the instance, that it accepted a synchronisation.
\<close>

definition reported_absent :: "(argocd_error, 's) service \<Rightarrow> 'a argocd_client_config_scheme \<Rightarrow> string \<Rightarrow> 's conn \<Rightarrow> bool" where
  "reported_absent tr config name c' = (\<exists>c1 meth params r. meth \<in> {''GET'', ''DELETE''}
     \<and> authorized tr config meth (application_path name) params NoBody c1 = (c', Inr r) \<and> rs_status r = 404)"

definition shown :: "(argocd_error, 's) service \<Rightarrow> 'a argocd_client_config_scheme \<Rightarrow> string \<Rightarrow> uuid
    \<Rightarrow> ((string \<times> json) list \<Rightarrow> bool) \<Rightarrow> 's conn \<Rightarrow> bool" where
  "shown tr config name k p c' = (\<exists>c1 app. get_owned_application tr config name k c1 = (c', Inr (Some app)) \<and> p app)"

definition sync_accepted :: "(argocd_error, 's) service \<Rightarrow> 'a argocd_client_config_scheme \<Rightarrow> string \<Rightarrow> 's conn \<Rightarrow> bool" where
  "sync_accepted tr config name c' = (\<exists>c1 r. authorized tr config ''POST'' (application_path name @ ''/sync'')
     [(''project'', ac_project config)] (JsonBody (JObj [])) c1 = (c', Inr r) \<and> 200 \<le> rs_status r \<and> rs_status r < 300)"

lemma sync_outcome:
  assumes "sync_application tr config name k c = (c', Inr r)"
  shows "rc_application_name r = name" and "rc_status r = COMPLETED \<Longrightarrow> sync_accepted tr config name c'"
    and "rc_status r = DEFERRED \<Longrightarrow> shown tr config name k application_operation_is_active c'"
  using assms unfolding sync_application_def Let_def
  by (auto simp: call_iffs reconciled_def accepted_iff sync_accepted_def shown_def split: if_splits option.splits)

lemma ensure_outcome:
  assumes "ensure_application tr config k slug attached ms hv c = (c', Inr r)" and "name = application_name config slug attached"
  shows "(\<exists>c1. sync_application tr config name k c1 = (c', Inr r))
    \<or> r = reconciled name DEFERRED \<and> shown tr config name k application_operation_is_active c'"
proof -
  obtain desired c1 first c2 outcome where first: "get_owned_application tr config name k c = (c1, Inr first)"
    and outcome: "(case first of None \<Rightarrow> create_application tr config name k desired
        | Some app \<Rightarrow> creturn (if application_operation_is_active app then None else Some (Some app))) c1 = (c2, Inr outcome)"
    and rest: "(case outcome of None \<Rightarrow> creturn (reconciled name DEFERRED)
      | Some existing \<Rightarrow> cbind (case existing of None \<Rightarrow> creturn () | Some app \<Rightarrow> replace_application tr config name desired app)
          (\<lambda>_. sync_application tr config name k)) c2 = (c', Inr r)"
    using assms unfolding ensure_application_def Let_def by (auto simp: cbind_Inr_iff call_Inr_iffs(3))
  show ?thesis
  proof (cases outcome)
    case (Some existing)
    then show ?thesis using rest by (auto simp: cbind_Inr_iff)
  next
    case None
    then have end_: "c' = c2" "r = reconciled name DEFERRED" using rest by (simp_all add: call_iffs)
    have "shown tr config name k application_operation_is_active c2"
    proof (cases first)
      case (Some app)
      then show ?thesis using first outcome None by (auto simp: call_iffs shown_def split: if_splits)
    next
      case None
      then show ?thesis using outcome \<open>outcome = None\<close> unfolding create_application_def Let_def
        by (auto simp: call_iffs shown_def split: if_splits option.splits)
    qed
    with end_ show ?thesis by simp
  qed
qed

lemma delete_outcome:
  assumes "delete_application tr config k slug attached c = (c', Inr st)" and "name = application_name config slug attached"
  shows "st = COMPLETED \<Longrightarrow> reported_absent tr config name c'"
    and "st = DEFERRED \<Longrightarrow> shown tr config name k (\<lambda>_. True) c'"
proof -
  obtain c1 existing where g: "get_owned_application tr config name k c = (c1, Inr existing)"
    and rest: "(case existing of None \<Rightarrow> creturn COMPLETED
      | Some app \<Rightarrow> if application_operation_is_active app \<or> application_deletion_is_pending app then creturn DEFERRED
          else cbind (authorized tr config ''DELETE'' (application_path name)
                 [(''cascade'', ''true''), (''propagationPolicy'', ''foreground''), (''project'', ac_project config)] NoBody) (\<lambda>response.
            if rs_status response = 404 then creturn COMPLETED
            else cbind (clift (argocd_raise_for_response response ''DELETE'' (application_path name))) (\<lambda>_.
              cbind (get_owned_application tr config name k) (\<lambda>remaining.
              creturn (if remaining = None then COMPLETED else DEFERRED))))) c1 = (c', Inr st)"
    using assms unfolding delete_application_def Let_def by (auto simp: cbind_Inr_iff)
  have absent: "reported_absent tr config name c'"
    if "get_owned_application tr config name k c0 = (c', Inr None)" for c0
  proof -
    have "get_application tr config name c0 = (c', Inr None)" using that by (simp add: get_owned_None_iff)
    from get_application_None[OF this] show ?thesis by (auto simp: reported_absent_def)
  qed
  show "st = COMPLETED \<Longrightarrow> reported_absent tr config name c'"
  proof (cases existing)
    case None
    then show ?thesis using g rest absent by (auto simp: call_iffs)
  next
    case (Some app)
    assume "st = COMPLETED"
    then have "\<exists>c2 r. authorized tr config ''DELETE'' (application_path name)
          [(''cascade'', ''true''), (''propagationPolicy'', ''foreground''), (''project'', ac_project config)] NoBody c1 = (c2, Inr r)
        \<and> (rs_status r = 404 \<and> c' = c2 \<or> get_owned_application tr config name k c2 = (c', Inr None))"
      using Some rest by (auto simp: call_iffs split: if_splits)
    then show ?thesis using absent by (auto simp: reported_absent_def)
  qed
  show "st = DEFERRED \<Longrightarrow> shown tr config name k (\<lambda>_. True) c'"
    using g rest by (cases existing) (auto simp: call_iffs shown_def split: if_splits)
qed



definition sample_application :: "uuid \<Rightarrow> (string \<times> json) list" where
  "sample_application k = [(''metadata'', JObj [(''labels'', JObj [(INSTANCE_ID_LABEL, JStr (uuid_text k))])])]"

definition sample_argo_server :: "(argocd_error, uuid option) service" where
  "sample_argo_server rq s =
     (if rq_method rq = ''DELETE''
      then (None, Inr \<lparr>rs_status = 200, rs_build_version = None, rs_json = None\<rparr>)
      else (s, Inr (case s of
          None \<Rightarrow> \<lparr>rs_status = 404, rs_build_version = None, rs_json = None\<rparr>
        | Some k \<Rightarrow> \<lparr>rs_status = 200, rs_build_version = None, rs_json = Some (JObj (sample_application k))\<rparr>)))"

lemma sample_owner: "application_owner (sample_application k) = JStr (uuid_text k)"
  by (simp add: application_owner_def sample_application_def field_def)

lemma sample_read:
  "get_application sample_argo_server config name \<lparr>cl_token = t, cl_server = s\<rparr>
     = (\<lparr>cl_token = t, cl_server = s\<rparr>, Inr (map_option sample_application s))"
  by (cases s) (simp_all add: get_application_def authorized_def sample_argo_server_def cbind_def creturn_def clift_def
      argocd_raise_for_response_def argocd_json_object_def Let_def)


text \<open>
  What the Argo CD client reports is true. A deletion reports completion only after Argo CD
  has answered, last of all, that the Application does not exist, and reports deferral only
  after it has shown it once more. A reconciliation reports completion only after Argo CD has
  accepted a synchronisation of that Application, and deferral only after it has shown an
  operation under way; both name the Application they worked on.
\<close>

theorem argocd_reports_truthfully:
  assumes "name = application_name config slug attached"
  shows "(delete_application tr config k slug attached c = (c', Inr COMPLETED) \<longrightarrow> reported_absent tr config name c')
    \<and> (delete_application tr config k slug attached c = (c', Inr DEFERRED) \<longrightarrow> shown tr config name k (\<lambda>_. True) c')
    \<and> (ensure_application tr config k slug attached ms hv c = (c', Inr r) \<longrightarrow> rc_application_name r = name
        \<and> (rc_status r = COMPLETED \<longrightarrow> sync_accepted tr config name c')
        \<and> (rc_status r = DEFERRED \<longrightarrow> shown tr config name k application_operation_is_active c'))"
proof (intro conjI impI)
  assume "ensure_application tr config k slug attached ms hv c = (c', Inr r)"
  note outcome = ensure_outcome[OF this assms]
  show "rc_application_name r = name" using outcome sync_outcome(1) by (auto simp: reconciled_def)
  show "sync_accepted tr config name c'" if "rc_status r = COMPLETED"
    using outcome that sync_outcome(2) by (auto simp: reconciled_def)
  show "shown tr config name k application_operation_is_active c'" if "rc_status r = DEFERRED"
    using outcome that sync_outcome(3) by auto
qed (erule delete_outcome[OF _ assms], rule refl)+

theorem argocd_reports_truthfully_witness:
  "delete_application sample_argo_server sample_argocd_config 7 ''x'' None \<lparr>cl_token = None, cl_server = Some 7\<rparr>
     = (\<lparr>cl_token = None, cl_server = None\<rparr>, Inr COMPLETED)
   \<and> reported_absent sample_argo_server sample_argocd_config (application_name sample_argocd_config ''x'' None)
       \<lparr>cl_token = None, cl_server = None\<rparr>"
proof -
  have inactive: "\<not> application_operation_is_active (sample_application 7)" "\<not> application_deletion_is_pending (sample_application 7)"
    by (simp_all add: application_operation_is_active_def application_deletion_is_pending_def nested_string_def
        sample_application_def field_def)
  have run: "delete_application sample_argo_server sample_argocd_config 7 ''x'' None \<lparr>cl_token = None, cl_server = Some 7\<rparr>
     = (\<lparr>cl_token = None, cl_server = None\<rparr>, Inr COMPLETED)"
    by (simp add: delete_application_def get_owned_application_def sample_read sample_owner inactive cbind_def creturn_def
        clift_def authorized_def sample_argo_server_def argocd_raise_for_response_def Let_def)
  from run argocd_reports_truthfully[OF refl, THEN conjunct1, THEN mp, OF run] show ?thesis ..
qed

end
