(* ===== verification/Api_Properties.thy ===== *)
theory Api_Properties
  imports Confidentiality Samples Argo_Properties
begin

text \<open>
  Properties of the HTTP interface: what requests do to the store and the broker, how they are
  refused, and what answers carry.
\<close>

section \<open>Samples\<close>

definition plain_aead :: aead where
  "plain_aead = \<lparr>ae_encrypt = (\<lambda>_ _ p _. p @ replicate 16 0),
     ae_decrypt = (\<lambda>_ _ c _. if length c < 16 then None else Some (take (length c - 16) c))\<rparr>"

definition sample_api :: api where
  "sample_api = \<lparr>ap_settings = sample_settings, ap_celery = sample_celery, ap_aead = plain_aead\<rparr>"

definition sample_draws :: draws where
  "sample_draws = \<lparr>dw_key = 60, dw_job = 61, dw_allocation = 62, dw_nonce = replicate 12 0, dw_slugs = [], dw_now = 5\<rparr>"

definition world_at :: "db \<Rightarrow> world" where
  "world_at d = \<lparr>store = d, broker = []\<rparr>"

section \<open>Requests\<close>

text \<open>
  C3. Every request that may change the store is a run of the system, whether it is accepted or
  refused, so the invariant that ties jobs to rows holds after it. The key drawn for a job is
  new.
\<close>

theorem every_request_refines_system:
  assumes "serve ap dw r w = Some (out, w')" and "engine_inv (store w)" and "job_of (store w) (dw_job dw) = None"
  shows "sys_run (store w) (store w') \<and> engine_inv (store w')"
proof -
  have "unique_by ta_id (template_assignments (store w))"
    using engine_invE(1)[OF assms(2)] by (simp add: keys_ok_def)
  from serve_handled[OF assms(1,3) this] have run: "sys_run (store w) (store w')" by (simp add: handled_def)
  with engine.run_preserved[OF run assms(2)] show ?thesis by blast
qed

theorem every_request_refines_system_witness:
  "engine_inv (store (snd (the (serve sample_api sample_draws SyncDatabases (world_at empty_db)))))"
proof -
  obtain out w' where s: "serve sample_api sample_draws SyncDatabases (world_at empty_db) = Some (out, w')"
    by (auto simp: serve_def outcome_of_def sync_databases_route_def create_system_job_def Let_def)
  have "engine_inv (store (world_at empty_db))" "job_of (store (world_at empty_db)) (dw_job sample_draws) = None"
    using engine_inv_empty by (simp_all add: world_at_def) (simp add: empty_db_def)
  from every_request_refines_system[OF s this] s show ?thesis by simp
qed

text \<open>
  C4. Requests and workers meet. Every message that a request adds to the queue names a job of the
  store that a worker can claim for the task of the message, and the claim succeeds at once.
  Conversely, every job that a request stages can be claimed, and if the task is loaded and the
  broker takes the message, the job is in the queue when the request is answered. The task is the
  one the job itself names, also where a route recovers it from the step.
\<close>

theorem dispatched_steps_can_be_claimed:
  assumes "serve ap dw r w = Some (out, w')" and "keys_ok (store w)" and "job_of (store w) (dw_job dw) = None"
  shows "(\<exists>sent. broker w' = broker w @ sent
      \<and> (\<forall>(t, k) \<in> set sent. \<exists>d c. claim_execution k t now (store w') = (d, Some c)))
    \<and> (\<forall>k job. job_of (store w) k = None \<longrightarrow> job_of (store w') k = Some job \<longrightarrow>
        claimable (store w') k (j_task_name job)
        \<and> (task_loaded (ap_celery ap) (j_task_name job) \<longrightarrow> delay_succeeds (ap_celery ap) (j_task_name job) k \<longrightarrow>
             (j_task_name job, k) \<in> set (broker w')))"
proof -
  have "unique_by ta_id (template_assignments (store w))" using assms(2) by (simp add: keys_ok_def)
  from serve_handled[OF assms(1,3) this]
  consider (silent) "broker w' = broker w" "\<forall>k. job_of (store w) k = None \<longrightarrow> job_of (store w') k = None"
    | (sent) t where "t \<in> set REGISTERED_STEP_NAMES" "claimable (store w') (dw_job dw) t"
        "broker w' = fst (dispatch_registered_step (ap_celery ap) t (dw_job dw) (broker w))"
        "\<forall>k. k \<noteq> dw_job dw \<longrightarrow> job_of (store w) k = None \<longrightarrow> job_of (store w') k = None"
    unfolding handled_def by blast
  then show ?thesis
  proof cases
    case silent
    then show ?thesis by auto
  next
    case sent
    have task: "j_task_name job = t" if "job_of (store w') (dw_job dw) = Some job" for job
      using that sent(2) by (simp add: claimable_def)
    have "claimable (store w') k (j_task_name job)
        \<and> (task_loaded (ap_celery ap) (j_task_name job) \<longrightarrow> delay_succeeds (ap_celery ap) (j_task_name job) k \<longrightarrow>
             (j_task_name job, k) \<in> set (broker w'))"
      if "job_of (store w) k = None" "job_of (store w') k = Some job" for k job
    proof -
      have "k = dw_job dw" using sent(4) that by (metis option.distinct(1))
      with that(2) task sent(1-3) show ?thesis by (auto simp: dispatch_registered_step_def)
    qed
    moreover have "\<exists>sent. broker w' = broker w @ sent
      \<and> (\<forall>(t, k) \<in> set sent. \<exists>d c. claim_execution k t now (store w') = (d, Some c))"
      using sent(3) claimable_claims[OF sent(2)] by (auto simp: dispatch_registered_step_def split: if_splits)
    ultimately show ?thesis by blast
  qed
qed

theorem dispatched_steps_can_be_claimed_witness:
  "\<exists>w' d c. serve sample_api sample_draws SyncDatabases (world_at empty_db) = Some w'
     \<and> (DATABASE_SYNC_STEP_01_TASK, 61) \<in> set (broker (snd w'))
     \<and> claim_execution 61 DATABASE_SYNC_STEP_01_TASK 9 (store (snd w')) = (d, Some c)"
proof -
  obtain out w' where s: "serve sample_api sample_draws SyncDatabases (world_at empty_db) = Some (out, w')"
    by (auto simp: serve_def outcome_of_def sync_databases_route_def create_system_job_def Let_def)
  have "keys_ok (store (world_at empty_db))" "job_of (store (world_at empty_db)) (dw_job sample_draws) = None"
    by code_simp+
  note claimed = dispatched_steps_can_be_claimed[OF s this, of 9]
  have "broker w' = [(DATABASE_SYNC_STEP_01_TASK, 61)]"
    using s by (auto simp: serve_def outcome_of_def sync_databases_route_def create_system_job_def Let_def dispatch_to_def
        dispatch_registered_step_def world_at_def sample_api_def sample_celery_def sample_draws_def job_view_def)
  with claimed s show ?thesis by (fastforce simp: world_at_def)
qed



section \<open>Answers\<close>

definition uncached :: "'a answer \<Rightarrow> bool" where
  "uncached ans = (case ans of Inl Unhandled \<Rightarrow> False
     | Inl (HTTPException x) \<Rightarrow> (''Cache-Control'', ''no-store'') \<in> set (hx_headers x)
     | Inr r \<Rightarrow> (''Cache-Control'', ''no-store'') \<in> set (rp_headers r))"

lemma uncached_simps [simp]:
  "uncached (Inl (no_store_error code msg))" "uncached (Inr (no_store_reply code content))"
  "uncached (Inr \<lparr>rp_status = code, rp_headers = NO_STORE_HEADERS @ h, rp_body = content\<rparr>)"
  by (simp_all add: uncached_def no_store_error_def no_store_reply_def NO_STORE_HEADERS_def)





end
