(* ===== verification/Auth_Properties.thy ===== *)
theory Auth_Properties
  imports Auth Validation_Errors Api_Properties
begin

text \<open>
  Who is served: the declarative reading of the token checks, and that the application puts
  them in front of every route.
\<close>

section \<open>Tokens of administrators\<close>

text \<open>
  A token of an administrator: its header names RS256 and a key, the provider's key set has
  that key for signatures, the library accepts the token for the issuer under this key, and the
  roles are a list of texts with the administrator's role in any case.
\<close>

definition admin_token :: "oidc_library \<Rightarrow> string \<Rightarrow> string \<Rightarrow> string \<Rightarrow> bool" where
  "admin_token lib jwks issuer t =
     (t \<noteq> [] \<and> (\<exists>header key claims roles.
        op_unverified_header lib t = Some header \<and> field header ''alg'' = JStr ''RS256''
      \<and> json_truthy (field header ''kid'')
      \<and> op_signing_key lib jwks t = Inr key
      \<and> jk_algorithm_name key = ''RS256'' \<and> jk_public_key_use key \<in> {None, Some ''sig''}
      \<and> op_decode lib t key issuer = Some claims
      \<and> field claims ''roles'' = JArr (map JStr roles) \<and> (\<exists>r \<in> set roles. lower r = ''admin'')))"

lemmas oidc_names = OIDC_ALGORITHM_def OIDC_ROLES_CLAIM_def OIDC_REQUIRED_ROLE_def

lemma texts_only: "\<not> list_ex (\<lambda>x. \<not> is_str x) xs \<longleftrightarrow> (\<exists>ss. xs = map JStr ss)"
proof (induction xs)
  case (Cons x xs)
  show ?case
  proof
    assume "\<not> list_ex (\<lambda>x. \<not> is_str x) (x # xs)"
    with Cons obtain s ss where "x = JStr s" "xs = map JStr ss" by (auto simp: is_str_def split: json.splits)
    then show "\<exists>ss. x # xs = map JStr ss" by (intro exI[of _ "s # ss"]) simp
  qed (auto simp: is_str_def list_ex_iff Cons_eq_map_conv)
qed simp

lemma required_role: "lower OIDC_REQUIRED_ROLE = ''admin''"
  by code_simp

lemma authorize_roles_texts:
  "authorize_roles (JArr (map JStr ss)) =
     (if \<exists>r \<in> set ss. lower r = ''admin'' then Inr () else Inl (OidcRefused authorization_exception))"
  unfolding authorize_roles_def required_role by (simp add: list_ex_iff is_str_def str_of_def)

lemma authorize_roles_iff:
  "authorize_roles x = Inr () \<longleftrightarrow> (\<exists>roles. x = JArr (map JStr roles) \<and> (\<exists>r \<in> set roles. lower r = ''admin''))"
proof
  assume ok: "authorize_roles x = Inr ()"
  then obtain xs where "x = JArr xs" "\<not> list_ex (\<lambda>x. \<not> is_str x) xs"
    by (auto simp: authorize_roles_def split: json.splits if_splits)
  then obtain ss where "x = JArr (map JStr ss)" using texts_only by blast
  with ok show "\<exists>roles. x = JArr (map JStr roles) \<and> (\<exists>r \<in> set roles. lower r = ''admin'')"
    by (auto simp: authorize_roles_texts split: if_splits)
qed (auto simp: authorize_roles_texts)

lemma authorize_roles_cases: "authorize_roles x = Inr () \<or> authorize_roles x = Inl (OidcRefused authorization_exception)"
  by (simp add: authorize_roles_def split: json.splits)

lemma oidc_authorize_iff:
  assumes "oa_jwk_client a = Some jwks"
  shows "oidc_authorize lib a token = Inr () \<longleftrightarrow>
    (\<exists>t. token = Some t \<and> admin_token lib jwks (oc_issuer_url (oa_config a)) t)"
proof (cases token)
  case (Some t)
  let ?issuer = "oc_issuer_url (oa_config a)"
  have "admin_token lib jwks ?issuer t" if "oidc_authorize lib a (Some t) = Inr ()"
    using that assms unfolding oidc_authorize_def admin_token_def signing_key_for_def usable_for_signing_def oidc_names
    by (auto simp: result_iffs authorize_roles_iff split: sum.splits if_splits)
  moreover have "oidc_authorize lib a (Some t) = Inr ()" if "admin_token lib jwks ?issuer t"
    using that assms unfolding admin_token_def
    by (auto simp: oidc_authorize_def signing_key_for_def usable_for_signing_def oidc_names authorize_roles_texts)
  ultimately show ?thesis using Some by auto
qed (simp add: oidc_authorize_def)

text \<open>How a token is refused; a failure that no clause names comes from the key client only.\<close>

lemma oidc_authorize_refused:
  assumes "oa_jwk_client a = Some jwks" and "oidc_authorize lib a token = Inl e"
  shows "e \<in> {OidcRefused authentication_exception, OidcRefused authorization_exception,
               OidcProviderUnavailableError PROVIDER_ERROR}
    \<or> (e = OidcOtherError \<and> (\<exists>t. token = Some t \<and> op_signing_key lib jwks t = Inl OtherJwkError))"
proof (cases token)
  case (Some t)
  have roles: "authorize_roles x = Inl e' \<Longrightarrow> e' = OidcRefused authorization_exception" for x e'
    using authorize_roles_cases[of x] by auto
  have keys: "signing_key_for lib a t = Inl e' \<Longrightarrow>
      e' \<in> {OidcRefused authentication_exception, OidcProviderUnavailableError PROVIDER_ERROR}
      \<or> (e' = OidcOtherError \<and> op_signing_key lib jwks t = Inl OtherJwkError)" for e'
    using assms(1) by (auto simp: signing_key_for_def signing_key_errors_def split: sum.splits jwk_failure.splits)
  show ?thesis
    using assms(2) unfolding Some oidc_authorize_def
    by (auto simp: result_iffs dest!: roles keys split: if_splits)
qed (use assms(2) in \<open>auto simp: oidc_authorize_def\<close>)

section \<open>The application\<close>

text \<open>
  An application that has started with OIDC took its keys from an address that the provider
  itself announced: over HTTPS, in a document for exactly the configured issuer.
\<close>

definition announces :: "oidc_library \<Rightarrow> string \<Rightarrow> string \<Rightarrow> bool" where
  "announces lib issuer jwks =
     (\<exists>metadata url keys.
        oidc_get_json lib (rstrip_slashes issuer @ ''/.well-known/openid-configuration'') = Inr metadata
      \<and> field metadata ''issuer'' = JStr issuer \<and> field metadata ''jwks_uri'' = JStr jwks
      \<and> op_url lib jwks = Some url \<and> u_scheme url = ''https'' \<and> u_host url \<noteq> []
      \<and> op_jwk_set lib jwks = Inr keys \<and> (\<exists>key \<in> set keys. usable_for_signing key))"

lemma str_of_iff: "str_of x = Some s \<longleftrightarrow> x = JStr s"
  by (auto simp: str_of_def split: json.splits)

lemma oidc_initialize_Inr:
  assumes "oidc_initialize lib a = Inr a'"
  shows "\<exists>jwks. a' = a\<lparr>oa_jwk_client := Some jwks\<rparr> \<and> announces lib (oc_issuer_url (oa_config a)) jwks"
  using assms unfolding oidc_initialize_def announces_def
  by (auto simp: result_iffs require_https_url_def str_of_iff list_ex_iff split: if_splits sum.splits)

lemma config_issuer:
  assumes "oidc_config_from_settings lib st = Inr c" and "\<not> s_allow_unauthenticated_api st \<or> \<not> blank (s_oidc_issuer_url st)"
  shows "\<exists>config. c = Some config \<and> s_oidc_issuer_url st \<noteq> None
    \<and> oc_issuer_url config = strip (the (s_oidc_issuer_url st))"
  using assms unfolding oidc_config_from_settings_def oidc_optional_value_def blank_def
  by (auto simp: result_iffs require_https_url_def split: option.splits if_splits)

lemma started_app:
  assumes "create_app lib st = Inr fa0" and "lifespan lib fa0 = Inr fa"
    and "\<not> s_allow_unauthenticated_api st \<or> \<not> blank (s_oidc_issuer_url st)"
  obtains a jwks where "fa_authenticator fa = Some a" "oa_jwk_client a = Some jwks" "fa_settings fa = st"
    "oc_issuer_url (oa_config a) = strip (the (s_oidc_issuer_url st))"
    "announces lib (strip (the (s_oidc_issuer_url st))) jwks"
proof -
  obtain config where c: "oidc_config_from_settings lib st = Inr (Some config)"
      "oc_issuer_url config = strip (the (s_oidc_issuer_url st))"
    using assms(1,3) config_issuer[of lib st] by (auto simp: create_app_def split: sum.splits)
  have fa0: "fa_authenticator fa0 = Some \<lparr>oa_config = config, oa_jwk_client = None\<rparr>" "fa_settings fa0 = st"
    using assms(1) c(1) by (auto simp: create_app_def split: sum.splits)
  with assms(2) obtain a where a: "oidc_initialize lib \<lparr>oa_config = config, oa_jwk_client = None\<rparr> = Inr a"
      "fa = fa0\<lparr>fa_authenticator := Some a\<rparr>"
    by (auto simp: lifespan_def result_iffs)
  from oidc_initialize_Inr[OF a(1)] show ?thesis
    using that[of a] a(2) fa0 c(2) by auto
qed

text \<open>
  C7. Nobody but administrators is served. An application that starts without the explicit
  permission to run unauthenticated, or with an issuer, takes its signing keys from the address
  that the issuer announced over HTTPS, and from then on, whatever the libraries answer later, a
  request is passed to its route exactly when it carries an administrator's token for this
  issuer. Every other request changes nothing and is answered with 401, 403 or 503, or, when the
  key client fails in an undocumented way, with an internal error.
\<close>

theorem only_administrators_are_served:
  assumes "create_app lib0 st = Inr fa0" and "lifespan lib0 fa0 = Inr fa"
    and "\<not> s_allow_unauthenticated_api st \<or> \<not> blank (s_oidc_issuer_url st)"
  shows "\<exists>jwks issuer. s_oidc_issuer_url st \<noteq> None \<and> issuer = strip (the (s_oidc_issuer_url st)) \<and> announces lib0 issuer jwks
    \<and> (\<forall>lib token. if \<exists>t. token = Some t \<and> admin_token lib jwks issuer t
        then handle lib fa cel ae token dw r w = serve (api_of fa cel ae) dw r w \<and> handle_read lib fa token ans = ans
        else \<exists>f. handle lib fa cel ae token dw r w = Some (Inl f, w) \<and> handle_read lib fa token ans = Inl f
          \<and> (case f of HTTPException x \<Rightarrow> hx_status x \<in> {401, 403, 503}
             | Unhandled \<Rightarrow> \<exists>t. token = Some t \<and> op_signing_key lib jwks t = Inl OtherJwkError))"
proof -
  obtain a jwks where a: "fa_authenticator fa = Some a" "oa_jwk_client a = Some jwks"
      "oc_issuer_url (oa_config a) = strip (the (s_oidc_issuer_url st))"
    and ann: "announces lib0 (strip (the (s_oidc_issuer_url st))) jwks"
    by (rule started_app[OF assms])
  have issuer: "s_oidc_issuer_url st \<noteq> None"
    using assms(1,3) config_issuer[of lib0 st] by (auto simp: create_app_def split: sum.splits)
  have served: "if \<exists>t. token = Some t \<and> admin_token lib jwks (strip (the (s_oidc_issuer_url st))) t
      then handle lib fa cel ae token dw r w = serve (api_of fa cel ae) dw r w \<and> handle_read lib fa token ans = ans
      else \<exists>f. handle lib fa cel ae token dw r w = Some (Inl f, w) \<and> handle_read lib fa token ans = Inl f
        \<and> (case f of HTTPException x \<Rightarrow> hx_status x \<in> {401, 403, 503}
           | Unhandled \<Rightarrow> \<exists>t. token = Some t \<and> op_signing_key lib jwks t = Inl OtherJwkError)" for lib token
  proof (cases "oidc_authorize lib a token")
    case (Inr u)
    then have "oidc_authorize lib a token = Inr ()" by simp
    with oidc_authorize_iff[OF a(2), of lib token] a(1,3) show ?thesis
      by (auto simp: handle_def handle_read_def admit_def authorize_oidc_request_def attempt_def)
  next
    case (Inl e)
    with oidc_authorize_iff[OF a(2), of lib token] a(3)
    have no: "\<not> (\<exists>t. token = Some t \<and> admin_token lib jwks (strip (the (s_oidc_issuer_url st))) t)" by simp
    from oidc_authorize_refused[OF a(2) Inl] Inl a(1) show ?thesis unfolding if_not_P[OF no]
      by (auto simp: handle_def handle_read_def admit_def authorize_oidc_request_def attempt_def http_error_def
          authentication_exception_def authorization_exception_def http_status_defs)
  qed
  with ann issuer show ?thesis by blast
qed

text \<open>A provider with one key that accepts one token, and settings that require it.\<close>

definition sample_key :: signing_key where
  "sample_key = \<lparr>jk_key_id = Some ''k1'', jk_algorithm_name = ''RS256'', jk_public_key_use = None, jk_material = [1]\<rparr>"

definition sample_oidc :: oidc_library where
  "sample_oidc =
     \<lparr>op_url = (\<lambda>u. if starts_with ''https://'' u
                    then Some \<lparr>u_scheme = ''https'', u_host = drop 8 u, u_query = [], u_fragment = []\<rparr> else None),
      op_get = (\<lambda>u. Some \<lparr>rs_status = 200, rs_build_version = None,
                    rs_json = Some (JObj [(''issuer'', JStr ''https://idp/''), (''jwks_uri'', JStr ''https://idp/keys'')])\<rparr>),
      op_jwk_set = (\<lambda>_. Inr [sample_key]),
      op_signing_key = (\<lambda>_ t. if t = ''good'' then Inr sample_key else Inl PyJWKClientError),
      op_unverified_header = (\<lambda>_. Some [(''alg'', JStr ''RS256''), (''kid'', JStr ''k1'')]),
      op_decode = (\<lambda>_ _ _. Some [(''roles'', JArr [JStr ''Admin''])])\<rparr>"

definition sample_oidc_settings :: settings where
  "sample_oidc_settings = sample_settings\<lparr>s_allow_unauthenticated_api := False, s_oidc_issuer_url := Some '' https://idp/ '',
     s_oidc_client_id := Some ''manager'', s_oidc_authorization_url := Some ''https://idp/auth'',
     s_oidc_token_url := Some ''https://idp/token'', s_oidc_scopes := ''openid,profile,openid''\<rparr>"

definition sample_app :: application_state where
  "sample_app = (case create_app sample_oidc sample_oidc_settings of Inr fa \<Rightarrow> fa)"

definition sample_started :: application_state where
  "sample_started = (case lifespan sample_oidc sample_app of Inr fa \<Rightarrow> fa)"

theorem only_administrators_are_served_witness:
  "(\<exists>f. handle sample_oidc sample_started sample_celery plain_aead None sample_draws SyncDatabases (world_at empty_db)
        = Some (Inl f, world_at empty_db))
   \<and> admit sample_oidc sample_started (Some ''good'') = Inr ()"
proof -
  have app: "create_app sample_oidc sample_oidc_settings = Inr sample_app" by code_simp
  have started: "lifespan sample_oidc sample_app = Inr sample_started" by code_simp
  have closed: "\<not> s_allow_unauthenticated_api sample_oidc_settings \<or> \<not> blank (s_oidc_issuer_url sample_oidc_settings)"
    by (simp add: sample_oidc_settings_def)
  from only_administrators_are_served[OF app started closed]
  have "\<exists>f. handle sample_oidc sample_started sample_celery plain_aead None sample_draws SyncDatabases (world_at empty_db)
      = Some (Inl f, world_at empty_db)"
    by (metis option.distinct(1))
  moreover have "admit sample_oidc sample_started (Some ''good'') = Inr ()" by code_simp
  ultimately show ?thesis by blast
qed

section \<open>Requests that do not validate\<close>



text \<open>The markers do not cover the name under which a kubeconfig is uploaded.\<close>

lemma kubeconfig_not_marked: "\<not> is_secret_field_name ''kubeconfig''"
  by code_simp

end
