(* ===== verification/Schemas.thy ===== *)
theory Schemas
  imports Texts Assignments
begin

text \<open>
  The request schemas (\<^verbatim>\<open>schemas/\<close>): constraints and validators of every field, as functions
  from the payload as it was sent to the payload that the repositories see, or to no payload,
  which the API answers with status 422. The schema library turns the JSON text into typed
  fields; the only thing it does to a text is to strip white space, and that function is a
  parameter: \<open>trim\<close>. The other parameter, \<open>bracket_ok\<close>, is the check of an IPv6 address between
  brackets that the URL parser performs.
\<close>

section \<open>Constrained texts\<close>

definition constrained :: "(string \<Rightarrow> string) \<Rightarrow> nat \<Rightarrow> nat \<Rightarrow> string \<Rightarrow> string option" where
  "constrained trim min_length max_length s =
     (let t = trim s in if min_length \<le> length t \<and> length t \<le> max_length then Some t else None)"

text \<open>What is relied on: no blank is left at either end.\<close>

definition trims_blanks :: "(string \<Rightarrow> string) \<Rightarrow> bool" where
  "trims_blanks trim = (\<forall>s. sql_trim (trim s) = trim s)"

definition application_identifier :: "(string \<Rightarrow> string) \<Rightarrow> string \<Rightarrow> string option" where
  "application_identifier trim s = map_option upper (constrained trim 1 255 s)"

fun option_all :: "'a option list \<Rightarrow> 'a list option" where
  "option_all [] = Some []"
| "option_all (x # xs) =
     (case x of None \<Rightarrow> None | Some v \<Rightarrow> map_option ((#) v) (option_all xs))"

definition validate_modules_are_unique :: "string list \<Rightarrow> string list option" where
  "validate_modules_are_unique v = (if length v \<noteq> card (set v) then None else Some v)"

definition module_list :: "(string \<Rightarrow> string) \<Rightarrow> string list \<Rightarrow> string list option" where
  "module_list trim names =
     Option.bind (option_all (map (constrained trim 1 255) names)) validate_modules_are_unique"

section \<open>Databases\<close>

definition PASSWORD_MAX_LENGTH :: nat where "PASSWORD_MAX_LENGTH = 4096"

definition validate_password :: "string \<Rightarrow> string option" where
  "validate_password v = (if 1 \<le> length v \<and> length v \<le> PASSWORD_MAX_LENGTH then Some v else None)"

definition reject_line_breaks :: "string \<Rightarrow> string option" where
  "reject_line_breaks v = (if has_line_break v then None else Some v)"

definition database_field :: "(string \<Rightarrow> string) \<Rightarrow> string \<Rightarrow> string option" where
  "database_field trim s = Option.bind (constrained trim 1 255 s) reject_line_breaks"

definition validate_database_fields :: "(string \<Rightarrow> string) \<Rightarrow> database_payload \<Rightarrow> database_payload option" where
  "validate_database_fields trim raw =
     (if dp_instance_max raw < 1 \<or> dp_port raw < 1 \<or> 65535 < dp_port raw then None
      else case (database_field trim (dp_name raw), database_field trim (dp_host raw),
                 database_field trim (dp_database_name raw), database_field trim (dp_username raw)) of
             (Some n, Some h, Some b, Some u) \<Rightarrow>
               Some (raw\<lparr>dp_name := n, dp_host := h, dp_database_name := b, dp_username := u\<rparr>)
           | _ \<Rightarrow> None)"

definition validate_database_create :: "(string \<Rightarrow> string) \<Rightarrow> database_payload \<Rightarrow> string \<Rightarrow> (database_payload \<times> string) option" where
  "validate_database_create trim raw password =
     (case (validate_database_fields trim raw, validate_password password) of
        (Some p, Some secret) \<Rightarrow> Some (p, secret) | _ \<Rightarrow> None)"

definition validate_database_update :: "(string \<Rightarrow> string) \<Rightarrow> database_payload \<Rightarrow> database_payload option" where
  "validate_database_update trim raw =
     (case validate_database_fields trim raw of
        None \<Rightarrow> None
      | Some p \<Rightarrow> (case dp_password raw of None \<Rightarrow> Some p
                  | Some secret \<Rightarrow> map_option (\<lambda>s. p\<lparr>dp_password := Some s\<rparr>) (validate_password secret)))"

section \<open>Members\<close>

definition normalize_username :: "string \<Rightarrow> string option" where
  "normalize_username username =
     (let normalized = lower (strip username) in
      if normalized = [] \<or> length normalized > 255 then None
      else if CHR '','' \<in> set normalized then None
      else if has_line_break normalized then None
      else Some normalized)"

definition validate_member_create :: "member_create \<Rightarrow> member_create option" where
  "validate_member_create raw =
     map_option (\<lambda>u. raw\<lparr>mc_username := u\<rparr>) (normalize_username (mc_username raw))"

section \<open>Templates\<close>

text \<open>
  What \<^verbatim>\<open>urlsplit\<close> reads of an address: control characters and blanks before it and line breaks and
  tabs inside it are dropped, the scheme ends at the first colon, the authority at the next
  slash, question mark or hash.
\<close>

record split_url =
  sp_scheme :: string
  sp_netloc :: string
  sp_path :: string

definition ascii_letter :: "char \<Rightarrow> bool" where
  "ascii_letter c = (let n = (of_char c :: nat) in 65 \<le> n \<and> n \<le> 90 \<or> 97 \<le> n \<and> n \<le> 122)"

definition ascii_digit :: "char \<Rightarrow> bool" where
  "ascii_digit c = (let n = (of_char c :: nat) in 48 \<le> n \<and> n \<le> 57)"

definition urlsplit :: "(string \<Rightarrow> bool) \<Rightarrow> string \<Rightarrow> split_url option" where
  "urlsplit bracket_ok url =
     (let clean = filter (\<lambda>c. of_char c \<notin> {9, 10, 13 :: nat}) (dropWhile (\<lambda>c. (of_char c :: nat) \<le> 32) url);
          name = takeWhile (\<lambda>c. c \<noteq> CHR '':'') clean;
          has_scheme = (name \<noteq> clean \<and> name \<noteq> [] \<and> ascii_letter (hd name)
            \<and> list_all (\<lambda>c. ascii_letter c \<or> ascii_digit c \<or> c \<in> set ''+-.'') name);
          rest = (if has_scheme then drop (length name + 1) clean else clean);
          netloc = (if starts_with ''//'' rest then takeWhile (\<lambda>c. c \<notin> set ''/?#'') (drop 2 rest) else []);
          tail = (if starts_with ''//'' rest then drop (2 + length netloc) rest else rest);
          brackets = (CHR ''['' \<in> set netloc, CHR '']'' \<in> set netloc)
      in if fst brackets \<noteq> snd brackets then None
         else if fst brackets \<and> \<not> bracket_ok netloc then None
         else Some \<lparr>sp_scheme = (if has_scheme then lower name else []), sp_netloc = netloc,
                    sp_path = takeWhile (\<lambda>c. c \<notin> set ''?#'') tail\<rparr>)"

definition sp_userinfo :: "split_url \<Rightarrow> string option" where
  "sp_userinfo u =
     (if CHR ''@'' \<in> set (sp_netloc u)
      then Some (rev (drop 1 (dropWhile (\<lambda>c. c \<noteq> CHR ''@'') (rev (sp_netloc u))))) else None)"

definition sp_username :: "split_url \<Rightarrow> string option" where
  "sp_username u = map_option (takeWhile (\<lambda>c. c \<noteq> CHR '':'')) (sp_userinfo u)"

definition sp_password :: "split_url \<Rightarrow> string option" where
  "sp_password u =
     (case sp_userinfo u of None \<Rightarrow> None
      | Some info \<Rightarrow> if CHR '':'' \<in> set info then Some (drop 1 (dropWhile (\<lambda>c. c \<noteq> CHR '':'') info)) else None)"

definition sp_hostname :: "split_url \<Rightarrow> string option" where
  "sp_hostname u =
     (let hostinfo = rev (takeWhile (\<lambda>c. c \<noteq> CHR ''@'') (rev (sp_netloc u)));
          host = (if CHR ''['' \<in> set hostinfo
                  then takeWhile (\<lambda>c. c \<noteq> CHR '']'') (drop 1 (dropWhile (\<lambda>c. c \<noteq> CHR ''['') hostinfo))
                  else takeWhile (\<lambda>c. c \<noteq> CHR '':'') hostinfo);
          name = takeWhile (\<lambda>c. c \<noteq> CHR ''%'') host
      in if host = [] then None else Some (lower name @ drop (length name) host))"

text \<open>\<^verbatim>\<open>user@host:path\<close>: neither the user has an at sign nor the host a colon, so the match is unique.\<close>

definition scp_git_url :: "string \<Rightarrow> bool" where
  "scp_git_url v =
     (let user = takeWhile (\<lambda>c. c \<noteq> CHR ''@'') v;
          after = drop (length user + 1) v;
          host = takeWhile (\<lambda>c. c \<noteq> CHR '':'') after;
          path = drop (length host + 1) after
      in user \<noteq> [] \<and> list_all (\<lambda>c. ascii_letter c \<or> ascii_digit c \<or> c \<in> set ''._-'') user
       \<and> host \<noteq> [] \<and> list_all (\<lambda>c. ascii_letter c \<or> ascii_digit c \<or> c \<in> set ''.-'') host
       \<and> path \<noteq> [] \<and> list_all (\<lambda>c. \<not> is_space c) path)"

definition validate_git_url :: "(string \<Rightarrow> bool) \<Rightarrow> string \<Rightarrow> string option" where
  "validate_git_url bracket_ok v =
     (case urlsplit bracket_ok v of
        None \<Rightarrow> None
      | Some u \<Rightarrow>
          let is_https = (sp_scheme u = ''https'' \<and> sp_hostname u \<noteq> None \<and> sp_username u = None \<and> sp_password u = None);
              is_ssh = (sp_scheme u = ''ssh'' \<and> sp_hostname u \<noteq> None \<and> sp_username u \<noteq> None \<and> sp_password u = None
                        \<and> strip_with (\<lambda>c. c = CHR ''/'') (sp_path u) \<noteq> [])
          in if is_https \<or> is_ssh \<or> scp_git_url v then Some v else None)"

text \<open>The parts of a relative \<^verbatim>\<open>PurePosixPath\<close>, and its text.\<close>

definition path_parts :: "string \<Rightarrow> string list" where
  "path_parts v = filter (\<lambda>x. x \<noteq> [] \<and> x \<noteq> ''.'') (split_on (CHR ''/'') v)"

definition path_text :: "string list \<Rightarrow> string" where
  "path_text parts = (if parts = [] then ''.'' else join ''/'' parts)"

definition validate_source_path :: "string \<Rightarrow> string option" where
  "validate_source_path v =
     (if CHR 0x5C \<in> set v then None
      else if starts_with ''/'' v \<or> ''..'' \<in> set (path_parts v) then None
      else let normalized = path_text (path_parts v) in
        if normalized \<in> {[], ''/''} then Some ''.'' else Some normalized)"

definition INVALID_GIT_REF_CHARACTERS :: "char set" where
  "INVALID_GIT_REF_CHARACTERS = set '' ~^:?*['' \<union> {CHR 0x5C}"

definition validate_branch :: "string \<Rightarrow> string option" where
  "validate_branch v =
     (let components = split_on (CHR ''/'') v;
          invalid = (starts_with ''-'' v \<or> starts_with ''/'' v
            \<or> ends_with ''/'' v \<or> ends_with ''.'' v \<or> ends_with ''.lock'' v
            \<or> contains ''//'' v \<or> contains ''..'' v \<or> contains [CHR 0x40, CHR 0x7B] v
            \<or> list_ex (\<lambda>c. c \<in> INVALID_GIT_REF_CHARACTERS) v
            \<or> list_ex (\<lambda>x. x = [] \<or> starts_with ''.'' x \<or> ends_with ''.lock'' x) components
            \<or> list_ex (\<lambda>c. (of_char c :: nat) < 32 \<or> (of_char c :: nat) = 127) v)
      in if invalid then None else Some v)"

definition validate_template_fields ::
  "(string \<Rightarrow> string) \<Rightarrow> (string \<Rightarrow> bool) \<Rightarrow> 'a template_update_scheme \<Rightarrow> 'a template_update_scheme option" where
  "validate_template_fields trim bracket_ok raw =
     (case (constrained trim 1 255 (tu_display_name raw),
            Option.bind (constrained trim 1 2048 (tu_git_url raw)) (validate_git_url bracket_ok),
            Option.bind (constrained trim 1 1024 (tu_source_path raw)) validate_source_path,
            Option.bind (constrained trim 1 255 (tu_branch raw)) validate_branch,
            module_list trim (tu_modules raw)) of
        (Some n, Some g, Some p, Some b, Some ms) \<Rightarrow>
          Some (raw\<lparr>tu_display_name := n, tu_git_url := g, tu_source_path := p, tu_branch := b, tu_modules := ms\<rparr>)
      | _ \<Rightarrow> None)"

definition normalize_template_name :: "string \<Rightarrow> string option" where
  "normalize_template_name v =
     (let normalized = lower v in if label_shape normalized \<and> length normalized \<le> 64 then Some normalized else None)"

definition validate_template_create ::
  "(string \<Rightarrow> string) \<Rightarrow> (string \<Rightarrow> bool) \<Rightarrow> template_create \<Rightarrow> template_create option" where
  "validate_template_create trim bracket_ok raw =
     (case (validate_template_fields trim bracket_ok raw,
            Option.bind (constrained trim 1 64 (tc_name raw)) normalize_template_name) of
        (Some p, Some n) \<Rightarrow> Some (p\<lparr>tc_name := n\<rparr>) | _ \<Rightarrow> None)"

definition validate_template_image_create ::
  "(string \<Rightarrow> string) \<Rightarrow> template_image_create \<Rightarrow> template_image_create option" where
  "validate_template_image_create trim raw =
     (case (constrained trim 1 255 (ic_registry raw), constrained trim 1 255 (ic_name raw),
            constrained trim 1 255 (ic_version raw)) of
        (Some r, Some n, Some v) \<Rightarrow> Some (raw\<lparr>ic_registry := lower r, ic_name := lower n, ic_version := v\<rparr>)
      | _ \<Rightarrow> None)"

section \<open>Template parameters\<close>

definition parameter_name_shape :: "string \<Rightarrow> bool" where
  "parameter_name_shape v =
     (let low = (\<lambda>c. let n = (of_char c :: nat) in 97 \<le> n \<and> n \<le> 122) in
      v \<noteq> [] \<and> low (hd v) \<and> list_all (\<lambda>c. low c \<or> ascii_digit c \<or> c = CHR ''_'') v)"

definition validate_description :: "string \<Rightarrow> string option" where
  "validate_description v = (if length v \<le> 4096 then Some v else None)"

definition validate_parameter_named_fields ::
  "(string \<Rightarrow> string) \<Rightarrow> parameter_named_fields \<Rightarrow> parameter_named_fields option" where
  "validate_parameter_named_fields trim raw =
     (case (constrained trim 1 64 (pn_name raw), constrained trim 1 255 (pn_display_name raw),
            validate_description (pn_description raw)) of
        (Some n, Some s, Some t) \<Rightarrow>
          if parameter_name_shape n then Some \<lparr>pn_name = n, pn_display_name = s, pn_description = t\<rparr> else None
      | _ \<Rightarrow> None)"

definition validate_parameter_create ::
  "(string \<Rightarrow> string) \<Rightarrow> template_parameter_create \<Rightarrow> template_parameter_create option" where
  "validate_parameter_create trim raw =
     (case raw of
        UserTemplateParameterCreate f required mutable default_value \<Rightarrow>
          map_option (\<lambda>f'. UserTemplateParameterCreate f' required mutable default_value)
            (validate_parameter_named_fields trim f)
      | SystemTemplateParameterCreate f v \<Rightarrow>
          map_option (\<lambda>f'. SystemTemplateParameterCreate f' v) (validate_parameter_named_fields trim f))"

definition validate_parameter_update_fields ::
  "(string \<Rightarrow> string) \<Rightarrow> parameter_update_fields \<Rightarrow> parameter_update_fields option" where
  "validate_parameter_update_fields trim raw =
     (case (constrained trim 1 255 (pu_display_name raw), validate_description (pu_description raw)) of
        (Some s, Some t) \<Rightarrow> Some \<lparr>pu_display_name = s, pu_description = t\<rparr> | _ \<Rightarrow> None)"

definition validate_parameter_update ::
  "(string \<Rightarrow> string) \<Rightarrow> template_parameter_update \<Rightarrow> template_parameter_update option" where
  "validate_parameter_update trim raw =
     (case raw of
        UserTemplateParameterUpdate f required mutable default_value \<Rightarrow>
          map_option (\<lambda>f'. UserTemplateParameterUpdate f' required mutable default_value)
            (validate_parameter_update_fields trim f)
      | SystemTemplateParameterUpdate f v \<Rightarrow>
          map_option (\<lambda>f'. SystemTemplateParameterUpdate f' v) (validate_parameter_update_fields trim f))"

section \<open>Workspaces\<close>

definition workspace_name_shape :: "string \<Rightarrow> bool" where
  "workspace_name_shape v =
     (v \<noteq> [] \<and> (ascii_letter (hd v) \<or> ascii_digit (hd v)) \<and> length v \<le> 32
      \<and> list_all (\<lambda>c. ascii_letter c \<or> ascii_digit c \<or> c = CHR ''-'') v)"

definition workspace_name :: "(string \<Rightarrow> string) \<Rightarrow> string \<Rightarrow> string option" where
  "workspace_name trim s =
     Option.bind (constrained trim 1 32 s) (\<lambda>t. if workspace_name_shape t then Some t else None)"

definition validate_workspace_fields ::
  "(string \<Rightarrow> string) \<Rightarrow> 'a workspace_update_scheme \<Rightarrow> 'a workspace_update_scheme option" where
  "validate_workspace_fields trim raw =
     (case (workspace_name trim (wu_name raw), module_list trim (wu_modules raw)) of
        (Some n, Some ms) \<Rightarrow> Some (raw\<lparr>wu_name := n, wu_modules := ms\<rparr>) | _ \<Rightarrow> None)"

section \<open>Listings\<close>

definition validate_filter :: "(string \<Rightarrow> string) \<Rightarrow> string option \<Rightarrow> string option option" where
  "validate_filter trim v =
     (case v of None \<Rightarrow> Some None | Some s \<Rightarrow> map_option Some (constrained trim 1 255 s))"

definition validate_page :: "int \<Rightarrow> int \<Rightarrow> bool" where
  "validate_page page page_size = (1 \<le> page \<and> 1 \<le> page_size \<and> page_size \<le> 100)"

definition validate_named_list_query ::
  "(string \<Rightarrow> string) \<Rightarrow> int \<Rightarrow> int \<Rightarrow> string option \<Rightarrow> (int \<times> int \<times> string option) option" where
  "validate_named_list_query trim page page_size name =
     (if validate_page page page_size then map_option (\<lambda>n. (page, page_size, n)) (validate_filter trim name) else None)"

definition validate_workspace_list_query :: "(string \<Rightarrow> string) \<Rightarrow> workspace_list_query \<Rightarrow> workspace_list_query option" where
  "validate_workspace_list_query trim q =
     (if validate_page (wq_page q) (wq_page_size q)
      then map_option (\<lambda>n. q\<lparr>wq_name := n\<rparr>) (validate_filter trim (wq_name q)) else None)"

end
