(* ===== verification/Schema_Properties.thy ===== *)
theory Schema_Properties
  imports Schemas Refusals Samples
begin

text \<open>
  What validation guarantees: the rows that validated payloads become satisfy the constraints
  of their tables, so that a refused commit means a duplicate; and the texts that leave the
  program, branches and paths, have no shape that a tool could misread.
\<close>

section \<open>Trimmed texts\<close>





lemma sql_trim_strip: "sql_trim (strip s) = strip s"
proof -
  have "is_space (CHR '' '')" by code_simp
  then show ?thesis
    unfolding sql_trim_def strip_def by (intro strip_with_id) (use strip_with_ends[of is_space s] in auto)
qed

lemma not_blank_trimmed: "sql_trim s = s \<Longrightarrow> 1 \<le> length s \<Longrightarrow> not_blank s"
  by (auto simp: not_blank_def)


lemma constrained_Some:
  assumes "trims_blanks trim" and "constrained trim m n s = Some t" and "0 < m"
  shows "sql_trim t = t" and "not_blank t" and "length t \<le> n"
  using assms not_blank_trimmed by (auto simp: constrained_def trims_blanks_def Let_def split: if_splits)


section \<open>Rows of validated payloads\<close>








section \<open>Refused commits\<close>

















section \<open>Branches, paths and names\<close>

text \<open>
  The rules of Git for the name of a branch, as its manual states them: no component starts
  with a dot or ends with \<^verbatim>\<open>.lock\<close>, no two consecutive dots, no control character and none of the
  special characters, no empty component, no dot at the end, no at sign before an opening brace; and no leading hyphen, which
  a command line would read as an option.
\<close>

definition git_branch :: "string \<Rightarrow> bool" where
  "git_branch v =
     ((\<forall>c \<in> set (split_on (CHR ''/'') v). c \<noteq> [] \<and> hd c \<noteq> CHR ''.'' \<and> (\<nexists>r. c = r @ ''.lock''))
      \<and> (\<nexists>a b. v = a @ ''..'' @ b) \<and> (\<nexists>a b. v = a @ [CHR 0x40, CHR 0x7B] @ b)
      \<and> (\<forall>c \<in> set v. 32 < (of_char c :: nat) \<and> (of_char c :: nat) \<noteq> 127 \<and> c \<notin> set ''~^:?*['' \<and> c \<noteq> CHR 0x5C)
      \<and> hd v \<noteq> CHR ''-'' \<and> last v \<noteq> CHR ''.'')"

text \<open>A path below a directory, without a step that stays or goes up.\<close>

definition inner_path :: "string \<Rightarrow> bool" where
  "inner_path v = (v = ''.'' \<or> (\<exists>parts. parts \<noteq> [] \<and> v = join ''/'' parts
     \<and> (\<forall>p \<in> set parts. p \<noteq> [] \<and> p \<noteq> ''.'' \<and> p \<noteq> ''..'' \<and> CHR ''/'' \<notin> set p \<and> CHR 0x5C \<notin> set p)))"

lemma split_join:
  "parts \<noteq> [] \<Longrightarrow> \<forall>p \<in> set parts. sep \<notin> set p \<Longrightarrow> split_on sep (join [sep] parts) = parts"
proof (induction parts rule: induct_list012)
  case (3 x y r)
  then show ?case using split_on_append[of sep x "join [sep] (y # r)"] by simp
qed (simp_all add: split_on_absent)

lemma set_join: "set (join sep parts) \<subseteq> set sep \<union> (\<Union>p \<in> set parts. set p)"
  by (induction sep parts rule: join.induct) auto

lemma path_parts_shape:
  "p \<in> set (path_parts v) \<Longrightarrow> p \<noteq> [] \<and> p \<noteq> ''.'' \<and> CHR ''/'' \<notin> set p"
  by (auto simp: path_parts_def dest: split_on_parts)

lemma set_split_parts: "p \<in> set (split_on sep v) \<Longrightarrow> set p \<subseteq> set v"
  by (induction v arbitrary: p) (fastforce split: list.splits if_splits)+

lemma source_path_inner:
  assumes "validate_source_path v = Some p"
  shows "inner_path p"
proof -
  have raw: "CHR 0x5C \<notin> set v" "''..'' \<notin> set (path_parts v)"
    and p: "p = ''.'' \<or> p = path_text (path_parts v)"
    using assms by (auto simp: validate_source_path_def Let_def split: if_splits)
  have "q \<noteq> [] \<and> q \<noteq> ''.'' \<and> q \<noteq> ''..'' \<and> CHR ''/'' \<notin> set q \<and> CHR 0x5C \<notin> set q" if "q \<in> set (path_parts v)" for q
    using path_parts_shape[OF that] raw that set_split_parts[of q "CHR ''/''" v] by (auto simp: path_parts_def)
  with p show ?thesis unfolding inner_path_def path_text_def by (cases "path_parts v = []") auto
qed

lemma inner_path_stable:
  assumes "inner_path p"
  shows "validate_source_path p = Some p"
proof (cases "p = ''.''")
  case False
  with assms obtain parts where parts: "parts \<noteq> []" "p = join ''/'' parts"
    and each: "\<forall>q \<in> set parts. q \<noteq> [] \<and> q \<noteq> ''.'' \<and> q \<noteq> ''..'' \<and> CHR ''/'' \<notin> set q \<and> CHR 0x5C \<notin> set q"
    by (auto simp: inner_path_def)
  have split: "split_on (CHR ''/'') p = parts" using split_join[of parts "CHR ''/''"] parts each by simp
  then have same: "path_parts p = parts" using each by (simp add: path_parts_def filter_id_conv)
  have "CHR 0x5C \<notin> set p" using set_join[of "''/''" parts] parts(2) each by auto
  moreover have "\<not> starts_with ''/'' p"
  proof
    assume "starts_with ''/'' p"
    then obtain r where "p = CHR ''/'' # r" by (auto simp: starts_with_iff)
    with split have "[] \<in> set parts" by (cases parts) auto
    with each show False by blast
  qed
  moreover have "''..'' \<notin> set parts" using each by blast
  moreover have "p \<notin> {[], ''/''}"
  proof
    assume "p \<in> {[], ''/''}"
    then have "[] \<in> set (split_on (CHR ''/'') p)" by auto
    with each show False unfolding split by blast
  qed
  ultimately show ?thesis using same parts by (simp add: validate_source_path_def path_text_def)
next
  case True
  have "validate_source_path ''.'' = Some ''.''" by code_simp
  with True show ?thesis by simp
qed

text \<open>A separator at an end, or two in a row, leave an empty component.\<close>

lemma empty_component:
  "starts_with [sep] v \<or> ends_with [sep] v \<or> contains [sep, sep] v \<Longrightarrow> [] \<in> set (split_on sep v)"
  by (auto simp: starts_with_iff ends_with_iff contains_iff split_on_sep)

lemma last_component:
  assumes "ends_with t v" and "sep \<notin> set t"
  shows "\<exists>c \<in> set (split_on sep v). ends_with t c"
proof -
  from assms(1) obtain r where "v = r @ t" by (auto simp: ends_with_iff)
  then have "last (split_on sep r) @ t \<in> set (split_on sep v)" by (simp add: split_on_extend[OF assms(2)])
  then show ?thesis by (metis ends_with_iff)
qed

lemma plain_char:
  "c \<notin> INVALID_GIT_REF_CHARACTERS \<and> \<not> ((of_char c :: nat) < 32 \<or> (of_char c :: nat) = 127) \<longleftrightarrow>
   32 < (of_char c :: nat) \<and> (of_char c :: nat) \<noteq> 127 \<and> c \<notin> set ''~^:?*['' \<and> c \<noteq> CHR 0x5C"
proof -
  have set: "INVALID_GIT_REF_CHARACTERS = {CHR '' ''} \<union> set ''~^:?*['' \<union> {CHR 0x5C}"
    unfolding INVALID_GIT_REF_CHARACTERS_def by (simp add: insert_commute)
  have "c = CHR '' '' \<longleftrightarrow> (of_char c :: nat) = of_char (CHR '' '')" by (simp only: of_char_eq_iff)
  then have "c = CHR '' '' \<longleftrightarrow> (of_char c :: nat) = 32" by (simp only: of_char_Char) simp
  moreover have "(s \<longleftrightarrow> n = 32) \<Longrightarrow>
      (\<not> ((s \<or> a) \<or> b) \<and> \<not> (n < 32 \<or> n = 127)) = (32 < n \<and> n \<noteq> 127 \<and> \<not> a \<and> \<not> b)" for s a b and n :: nat
    by auto
  ultimately show ?thesis unfolding set Un_iff singleton_iff by blast
qed

lemma branch_rules:
  assumes "v \<noteq> []"
  shows "validate_branch v = Some b \<longleftrightarrow> b = v \<and> git_branch v"
proof -
  let ?parts = "split_on (CHR ''/'') v"
  have chars: "\<not> list_ex (\<lambda>c. c \<in> INVALID_GIT_REF_CHARACTERS) v \<and> \<not> list_ex (\<lambda>c. (of_char c :: nat) < 32 \<or> (of_char c :: nat) = 127) v
      \<longleftrightarrow> (\<forall>c \<in> set v. 32 < (of_char c :: nat) \<and> (of_char c :: nat) \<noteq> 127 \<and> c \<notin> set ''~^:?*['' \<and> c \<noteq> CHR 0x5C)"
    unfolding list_ex_iff using plain_char by blast
  have parts: "\<not> list_ex (\<lambda>x. x = [] \<or> starts_with ''.'' x \<or> ends_with ''.lock'' x) ?parts
      \<longleftrightarrow> (\<forall>c \<in> set ?parts. c \<noteq> [] \<and> hd c \<noteq> CHR ''.'' \<and> (\<nexists>r. c = r @ ''.lock''))"
    unfolding list_ex_iff one_char ends_with_iff by blast
  have ends: "starts_with ''-'' v \<longleftrightarrow> hd v = CHR ''-''" "ends_with ''.'' v \<longleftrightarrow> last v = CHR ''.''"
    using assms by (simp_all add: one_char)
  have slashes: "\<not> (starts_with ''/'' v \<or> ends_with ''/'' v \<or> contains ''//'' v)"
      "\<not> ends_with ''.lock'' v" if "\<not> list_ex (\<lambda>x. x = [] \<or> starts_with ''.'' x \<or> ends_with ''.lock'' x) ?parts"
    using that empty_component[of "CHR ''/''" v] last_component[of "''.lock''" v "CHR ''/''"] by (auto simp: list_ex_iff)
  have "validate_branch v = Some b \<longleftrightarrow> b = v
    \<and> \<not> list_ex (\<lambda>x. x = [] \<or> starts_with ''.'' x \<or> ends_with ''.lock'' x) ?parts
    \<and> \<not> contains ''..'' v \<and> \<not> contains [CHR 0x40, CHR 0x7B] v
    \<and> \<not> list_ex (\<lambda>c. c \<in> INVALID_GIT_REF_CHARACTERS) v \<and> \<not> list_ex (\<lambda>c. (of_char c :: nat) < 32 \<or> (of_char c :: nat) = 127) v
    \<and> \<not> starts_with ''-'' v \<and> \<not> ends_with ''.'' v"
    unfolding validate_branch_def Let_def using slashes by auto
  also have "\<dots> \<longleftrightarrow> b = v \<and> git_branch v"
    unfolding git_branch_def parts[symmetric] chars[symmetric] contains_iff[symmetric] ends
    by (rule iffI; elim conjE; intro conjI; assumption)
  finally show ?thesis .
qed

lemma option_all_Some: "option_all xs = Some ys \<Longrightarrow> y \<in> set ys \<Longrightarrow> Some y \<in> set xs"
  by (induction xs arbitrary: ys) (auto split: option.splits)

lemma module_list_ok:
  assumes "trims_blanks trim" and "module_list trim names = Some ms"
  shows "distinct ms" and "\<forall>m \<in> set ms. not_blank m \<and> length m \<le> 255"
proof -
  have all: "option_all (map (constrained trim 1 255) names) = Some ms" and len: "length ms = card (set ms)"
    using assms(2) by (auto simp: module_list_def validate_modules_are_unique_def bind_eq_Some_conv split: if_splits)
  show "distinct ms" using len by (simp add: card_distinct)
  show "\<forall>m \<in> set ms. not_blank m \<and> length m \<le> 255"
  proof
    fix m assume "m \<in> set ms"
    from option_all_Some[OF all this] obtain s where "constrained trim 1 255 s = Some m" by auto
    from constrained_Some[OF assms(1) this] show "not_blank m \<and> length m \<le> 255" by simp
  qed
qed

text \<open>
  C40. What a template refers to has a safe shape. A validated branch follows Git's rules for
  branch names and cannot be read as an option, a validated source path stays below the root of
  the repository and is its own normal form, so reading it back changes nothing, the name is a
  Coder slug, and the modules are distinct and not blank. For branches the validator is exact:
  it accepts a non-empty text if and only if these rules do.
\<close>

theorem template_references_are_safe:
  assumes "trims_blanks trim" and "validate_template_create trim brackets raw = Some p"
  shows "git_branch (tu_branch p) \<and> inner_path (tu_source_path p)
    \<and> validate_source_path (tu_source_path p) = Some (tu_source_path p)
    \<and> label_shape (tc_name p) \<and> length (tc_name p) \<le> 64
    \<and> distinct (tu_modules p) \<and> list_all not_blank (tu_modules p)
    \<and> (validate_branch (c # v) = Some b \<longleftrightarrow> b = c # v \<and> git_branch (c # v))"
proof -
  from assms(2) obtain q where q: "validate_template_fields trim brackets raw = Some q" "tu_branch p = tu_branch q"
      "tu_source_path p = tu_source_path q" "tu_modules p = tu_modules q"
    and name: "label_shape (tc_name p)" "length (tc_name p) \<le> 64"
    by (auto simp: validate_template_create_def normalize_template_name_def bind_eq_Some_conv Let_def split: option.splits if_splits)
  from q(1) obtain b where b: "constrained trim 1 255 (tu_branch raw) = Some b" "validate_branch b = Some (tu_branch q)"
    and path: "Option.bind (constrained trim 1 1024 (tu_source_path raw)) validate_source_path = Some (tu_source_path q)"
    and ms: "module_list trim (tu_modules raw) = Some (tu_modules q)"
    by (auto simp: validate_template_fields_def bind_eq_Some_conv split: option.splits)
  have "b \<noteq> []" using b(1) by (auto simp: constrained_def Let_def split: if_splits)
  with b(2) branch_rules have "git_branch (tu_branch p)" using q(2) by metis
  moreover have inner: "inner_path (tu_source_path p)"
    using path source_path_inner q(3) by (auto simp: bind_eq_Some_conv)
  moreover note inner_path_stable[OF inner]
  moreover have "distinct (tu_modules p)" "list_all not_blank (tu_modules p)"
    using module_list_ok[OF assms(1) ms] q(4) by (auto simp: list_all_iff)
  ultimately show ?thesis using name branch_rules[of "c # v"] by blast
qed

definition sample_template_payload :: template_create where
  "sample_template_payload = \<lparr>tu_display_name = ''Java'', tu_git_url = ''git@git.example:team/java.git'',
     tu_source_path = ''./templates//java/.'', tu_branch = ''release/1.x'', tu_modules = [''ide'', ''ssh''], tc_name = '' Java-17 ''\<rparr>"

theorem template_references_are_safe_witness:
  "\<exists>p. validate_template_create strip (\<lambda>_. False) sample_template_payload = Some p
     \<and> git_branch (tu_branch p) \<and> inner_path (tu_source_path p) \<and> tu_source_path p = ''templates/java'' \<and> tc_name p = ''java-17''"
proof -
  let ?p = "sample_template_payload\<lparr>tu_source_path := ''templates/java'', tc_name := ''java-17''\<rparr>"
  have trim: "trims_blanks strip" by (simp add: trims_blanks_def sql_trim_strip)
  have valid: "validate_template_create strip (\<lambda>_. False) sample_template_payload = Some ?p" by code_simp
  from template_references_are_safe[OF trim valid] valid show ?thesis
    by (intro exI[of _ ?p]) (simp add: sample_template_payload_def)
qed

text \<open>
  Two addresses that pass although they should not: one with a line break inside, which the URL
  parser drops before it looks, and one that a command line reads as an option.
\<close>

lemma git_url_gaps:
  "validate_git_url (\<lambda>_. False) (''https://git'' @ [CHR 0x0A] @ ''.example/x'') = Some (''https://git'' @ [CHR 0x0A] @ ''.example/x'')"
  "validate_git_url (\<lambda>_. False) ''-u@git:x'' = Some ''-u@git:x''"
  by code_simp+

text \<open>A source path that passes with a blank normal form, which the table refuses.\<close>

lemma blank_source_path: "validate_source_path ''./ /.'' = Some '' ''" "\<not> not_blank '' ''"
  by code_simp+

end
