(* ===== verification/Template_Source.thy ===== *)
theory Template_Source
  imports Texts Coder_Models
begin

text \<open>
  The source of a template (\<^verbatim>\<open>domains/template_source/service.py\<close>): a branch is fetched with Git and
  one directory of it is packed. The checkout is a tree of files, directories and symbolic
  links; a link knows what it leads to, since the standard library follows it when asked for the
  kind of an entry. Git, the resolution of links by the operating system, and the bytes that
  the archive library writes for an entry (they hold times and owners) are parameters.
\<close>

section \<open>Trees\<close>

datatype link_target = ToDirectory | ToFile | Dangling

datatype node = File bytes | Link string link_target | Directory "(string \<times> node) list"

fun is_dir :: "node \<Rightarrow> bool" where
  "is_dir (Directory _) = True"
| "is_dir (Link _ k) = (k = ToDirectory)"
| "is_dir (File _) = False"

fun is_file :: "node \<Rightarrow> bool" where
  "is_file (File _) = True"
| "is_file (Link _ k) = (k = ToFile)"
| "is_file (Directory _) = False"

fun is_symlink :: "node \<Rightarrow> bool" where
  "is_symlink (Link _ _) = True"
| "is_symlink _ = False"

fun at_path :: "node \<Rightarrow> string list \<Rightarrow> node option" where
  "at_path n [] = Some n"
| "at_path (Directory es) (p # ps) = (case map_of es p of None \<Rightarrow> None | Some n \<Rightarrow> at_path n ps)"
| "at_path _ (p # ps) = None"

text \<open>No directory lists a name twice.\<close>

fun tree_ok :: "node \<Rightarrow> bool" where
  "tree_ok (Directory es) = (distinct (map fst es) \<and> list_all (\<lambda>e. tree_ok (snd e)) es)"
| "tree_ok _ = True"

section \<open>The archive\<close>

datatype tar_kind = TarDirectory | TarFile bytes | TarLink string

fun tar_kind_of :: "node \<Rightarrow> tar_kind" where
  "tar_kind_of (Directory _) = TarDirectory"
| "tar_kind_of (File content) = TarFile content"
| "tar_kind_of (Link target _) = TarLink target"

type_synonym tar_entry = "string list \<times> tar_kind"

definition TEMPLATE_ARCHIVE_LIMIT :: int where "TEMPLATE_ARCHIVE_LIMIT = 1048576"

definition hidden :: "string list \<Rightarrow> bool" where
  "hidden parts = list_ex (starts_with ''.'') parts"

definition skip_archive_file :: "string list \<Rightarrow> bool" where
  "skip_archive_file parts =
     (let name = last parts in
      if hidden parts \<and> name \<noteq> ''.terraform.lock.hcl'' then True
      else if contains ''.tfstate'' (join ''/'' parts) then True
      else name \<in> {''terraform.tfvars'', ''terraform.tfvars.json''}
        \<or> ends_with ''.auto.tfvars'' name \<or> ends_with ''.auto.tfvars.json'' name)"

text \<open>
  One directory of the walk: its visible directories, then its files, both sorted, then the walk
  of the directories that are not links.
\<close>

definition visible_directories :: "string list \<Rightarrow> (string \<times> node) list \<Rightarrow> (string \<times> node) list" where
  "visible_directories here es =
     filter (\<lambda>e. \<not> hidden (here @ [fst e])) (sort_key fst (filter (\<lambda>e. is_dir (snd e)) es))"

definition archived_files :: "string list \<Rightarrow> (string \<times> node) list \<Rightarrow> (string \<times> node) list" where
  "archived_files here es =
     filter (\<lambda>e. \<not> skip_archive_file (here @ [fst e])) (sort_key fst (filter (\<lambda>e. \<not> is_dir (snd e)) es))"

definition entry_at :: "string list \<Rightarrow> string \<times> node \<Rightarrow> tar_entry" where
  "entry_at here e = (here @ [fst e], tar_kind_of (snd e))"

lemma visible_directories_subset: "set (visible_directories here es) \<subseteq> set es"
  by (auto simp: visible_directories_def)

lemma node_smaller: "(p, n) \<in> set es \<Longrightarrow> size n < Suc (size_list (size_prod (\<lambda>_. 0) size) es)"
  by (induction es) auto

function (sequential) write_archive_entries :: "string list \<Rightarrow> node \<Rightarrow> tar_entry list" where
  "write_archive_entries here (Directory es) =
     map (entry_at here) (visible_directories here es) @ map (entry_at here) (archived_files here es)
     @ concat (map (\<lambda>e. write_archive_entries (here @ [fst e]) (snd e))
                 (filter (\<lambda>e. \<not> is_symlink (snd e)) (visible_directories here es)))"
| "write_archive_entries here _ = []"
  by pat_completeness auto
termination
proof (relation "measure (\<lambda>(here, n). size n)")
  fix here es e
  assume "e \<in> set (filter (\<lambda>e. \<not> is_symlink (snd e)) (visible_directories here es))"
  then have "(fst e, snd e) \<in> set es" using visible_directories_subset by auto
  from node_smaller[OF this] show "((here @ [fst e], snd e), here, Directory es) \<in> measure (\<lambda>(here, n). size n)" by simp
qed simp

text \<open>
  USTAR: a header of one block for every entry and the content in whole blocks; two empty
  blocks and padding to a record at the end. A name longer than a hundred characters is split
  at a slash; where that is impossible, or a link is longer, the library raises.
\<close>

definition ustar_name_ok :: "string \<Rightarrow> bool" where
  "ustar_name_ok name =
     (length name \<le> 100 \<or>
      (let components = split_on (CHR ''/'') name in
       list_ex (\<lambda>i. length (join ''/'' (take i components)) \<le> 155 \<and> length (join ''/'' (drop i components)) \<le> 100)
         [1..<length components]))"

definition tar_name :: "tar_entry \<Rightarrow> string" where
  "tar_name e = join ''/'' (fst e) @ (if snd e = TarDirectory then ''/'' else [])"

definition ustar_entry_ok :: "tar_entry \<Rightarrow> bool" where
  "ustar_entry_ok e = (ustar_name_ok (tar_name e) \<and> (case snd e of TarLink target \<Rightarrow> length target \<le> 100 | _ \<Rightarrow> True))"

definition entry_blocks :: "tar_entry \<Rightarrow> nat" where
  "entry_blocks e = 1 + (case snd e of TarFile content \<Rightarrow> (length content + 511) div 512 | _ \<Rightarrow> 0)"

definition ustar_length :: "tar_entry list \<Rightarrow> nat" where
  "ustar_length es = (sum_list (map entry_blocks es) + 2 + 19) div 20 * 10240"

datatype source_error = TemplateSourceError string

text \<open>
  \<open>readable\<close> says whether an entry can be read from the disk, \<open>ustar\<close> gives the bytes of an archive.
\<close>

definition archive_template_directory ::
  "(string list \<Rightarrow> bool) \<Rightarrow> (tar_entry list \<Rightarrow> bytes) \<Rightarrow> node option \<Rightarrow> (source_error, bytes) result" where
  "archive_template_directory readable ustar directory =
     (case directory of
        Some (Directory es) \<Rightarrow>
          if \<not> list_ex (\<lambda>e. is_file (snd e) \<and> (ends_with ''.tf'' (fst e) \<or> ends_with ''.tf.json'' (fst e))) es
          then Inl (TemplateSourceError ''Template source_path has no root Terraform files'')
          else let entries = write_archive_entries [] (Directory es) in
            if \<not> list_all (\<lambda>e. readable (fst e) \<and> ustar_entry_ok e) entries
            then Inl (TemplateSourceError ''Template archive could not be created'')
            else let content = ustar entries in
              if TEMPLATE_ARCHIVE_LIMIT < int (length content)
              then Inl (TemplateSourceError ''Template archive exceeds the 1 MiB limit'')
              else Inr content
      | _ \<Rightarrow> Inl (TemplateSourceError ''Template source_path is not a directory''))"

section \<open>Git\<close>

text \<open>
  The workstation: its environment variables, whether Git is installed, how it runs in the working directory, the tree of
  the checkout, and where a path below it leads once every link is followed: to a place below
  the root, or outside.
\<close>

record 'g workstation =
  ws_environ :: "(string, string) dict"
  ws_git_installed :: bool
  ws_run :: "(string, string) dict \<Rightarrow> string list \<Rightarrow> 'g \<Rightarrow> 'g \<times> string option"
  ws_tree :: "'g \<Rightarrow> node"
  ws_resolve :: "'g \<Rightarrow> string \<Rightarrow> string list option"

definition GIT_SSH_COMMAND :: string where
  "GIT_SSH_COMMAND = ''ssh -oBatchMode=yes -oStrictHostKeyChecking=no -oUserKnownHostsFile=/dev/null '' @
     ''-oIdentitiesOnly=yes -oForwardAgent=no''"

definition git_environment :: "(string, string) dict \<Rightarrow> (string, string) dict" where
  "git_environment environ =
     fold (\<lambda>(name, v). dict_set name v)
       [(''GIT_CONFIG_GLOBAL'', ''/dev/null''), (''GIT_CONFIG_NOSYSTEM'', ''1''),
        (''GIT_SSH_COMMAND'', GIT_SSH_COMMAND), (''GIT_TERMINAL_PROMPT'', ''0'')] environ"

definition run_git :: "'g workstation \<Rightarrow> string list \<Rightarrow> 'g \<Rightarrow> 'g \<times> (source_error, string) result" where
  "run_git ws arguments g =
     (if \<not> ws_git_installed ws then (g, Inl (TemplateSourceError ''Git executable is unavailable''))
      else case ws_run ws (git_environment (ws_environ ws)) arguments g of
             (g', None) \<Rightarrow> (g', Inl (TemplateSourceError ''Template Git operation failed''))
           | (g', Some out) \<Rightarrow> (g', Inr (strip out)))"

fun run_git_all :: "'g workstation \<Rightarrow> string list list \<Rightarrow> 'g \<Rightarrow> 'g \<times> (source_error, string) result" where
  "run_git_all ws [] g = (g, Inr [])"
| "run_git_all ws [arguments] g = run_git ws arguments g"
| "run_git_all ws (arguments # rest) g =
     (case run_git ws arguments g of (g', Inl e) \<Rightarrow> (g', Inl e) | (g', Inr _) \<Rightarrow> run_git_all ws rest g')"

definition git_commands :: "string \<Rightarrow> string \<Rightarrow> string list list" where
  "git_commands git_url branch =
     [[''init'', ''--quiet''],
      [''remote'', ''add'', ''origin'', git_url],
      [''fetch'', ''--quiet'', ''--depth=1'', ''--no-tags'', ''origin'', ''refs/heads/'' @ branch],
      [''checkout'', ''--quiet'', ''--detach'', ''FETCH_HEAD''],
      [''rev-parse'', ''--verify'', ''HEAD^{commit}'']]"

definition commit_shape :: "string \<Rightarrow> bool" where
  "commit_shape s = (length s = 40 \<and>
     list_all (\<lambda>c. let n = (of_char c :: nat) in 48 \<le> n \<and> n \<le> 57 \<or> 97 \<le> n \<and> n \<le> 102) s)"

definition fetch_branch_archive ::
  "'g workstation \<Rightarrow> (string list \<Rightarrow> bool) \<Rightarrow> (tar_entry list \<Rightarrow> bytes) \<Rightarrow> string \<Rightarrow> string \<Rightarrow> string \<Rightarrow> 'g
    \<Rightarrow> 'g \<times> (source_error, template_archive) result" where
  "fetch_branch_archive ws readable ustar git_url branch source_path g =
     (case run_git_all ws (git_commands git_url branch) g of
        (g', Inl e) \<Rightarrow> (g', Inl e)
      | (g', Inr commit) \<Rightarrow>
          (g', if \<not> commit_shape commit
               then Inl (TemplateSourceError ''Template Git branch did not resolve to a commit'')
               else case ws_resolve ws g' source_path of
                      None \<Rightarrow> Inl (TemplateSourceError ''Template source_path escapes the repository'')
                    | Some path \<Rightarrow>
                        rbind (archive_template_directory readable ustar (at_path (ws_tree ws g') path)) (\<lambda>content.
                        Inr \<lparr>ar_commit = commit, ar_content = content\<rparr>)))"

section \<open>What is packed\<close>

text \<open>
  The entries of an archive without the walk: the places below a directory, by what is there.
  \<open>at_path\<close> does not pass through links.
\<close>

definition packed :: "string list \<Rightarrow> node \<Rightarrow> string list \<Rightarrow> node \<Rightarrow> bool" where
  "packed here tree rel n =
     (rel \<noteq> [] \<and> at_path tree rel = Some n \<and> \<not> hidden (here @ butlast rel)
      \<and> (if is_dir n then \<not> hidden (here @ rel) else \<not> skip_archive_file (here @ rel)))"

lemma hidden_append [simp]: "hidden (a @ b) \<longleftrightarrow> hidden a \<or> hidden b"
  by (simp add: hidden_def)

lemma hidden_Nil [simp]: "\<not> hidden []"
  by (simp add: hidden_def)

lemma hidden_Cons [simp]: "hidden (p # ps) \<longleftrightarrow> starts_with ''.'' p \<or> hidden ps"
  by (simp add: hidden_def)

lemma at_path_entry:
  assumes "distinct (map fst es)"
  shows "at_path (Directory es) (p # ps) = Some m \<longleftrightarrow> (\<exists>n. (p, n) \<in> set es \<and> at_path n ps = Some m)"
  by (simp add: map_of_eq_Some_iff[OF assms, symmetric] split: option.splits)

lemma at_path_below: "at_path n (p # ps) = Some m \<Longrightarrow> \<exists>es. n = Directory es"
  by (cases n) auto

lemma packed_nonempty: "packed here n rel m \<Longrightarrow> rel \<noteq> []"
  by (simp add: packed_def)

lemma packed_Cons:
  assumes "distinct (map fst es)" and "\<not> hidden here"
  shows "packed here (Directory es) (p # ps) m \<longleftrightarrow>
    (if ps = [] then (p, m) \<in> set es \<and> (if is_dir m then \<not> starts_with ''.'' p else \<not> skip_archive_file (here @ [p]))
     else \<exists>n. (p, n) \<in> set es \<and> is_dir n \<and> \<not> is_symlink n \<and> \<not> starts_with ''.'' p \<and> packed (here @ [p]) n ps m)"
proof (cases ps)
  case (Cons q qs)
  have "is_dir n \<and> \<not> is_symlink n" if "at_path n ps = Some m" for n
    using that at_path_below[of n q qs m] Cons by auto
  then show ?thesis using assms Cons unfolding packed_def at_path_entry[OF assms(1)] by auto
next
  case Nil
  then show ?thesis using assms(2) unfolding packed_def at_path_entry[OF assms(1)] by auto
qed

lemma set_walked:
  assumes "\<not> hidden here"
  shows "set (visible_directories here es) = {e \<in> set es. is_dir (snd e) \<and> \<not> starts_with ''.'' (fst e)}"
    and "set (archived_files here es) = {e \<in> set es. \<not> is_dir (snd e) \<and> \<not> skip_archive_file (here @ [fst e])}"
  using assms by (auto simp: visible_directories_def archived_files_def)

lemma in_write_archive_entries:
  assumes "\<not> hidden here"
  shows "(path, k) \<in> set (write_archive_entries here (Directory es)) \<longleftrightarrow>
      (\<exists>p m. path = here @ [p] \<and> k = tar_kind_of m \<and> (p, m) \<in> set es
         \<and> (if is_dir m then \<not> starts_with ''.'' p else \<not> skip_archive_file (here @ [p])))
    \<or> (\<exists>p n. (p, n) \<in> set es \<and> is_dir n \<and> \<not> is_symlink n \<and> \<not> starts_with ''.'' p
         \<and> (path, k) \<in> set (write_archive_entries (here @ [p]) n))"
  unfolding write_archive_entries.simps(1) set_append set_map set_concat set_filter set_walked[OF assms]
  by (auto simp: entry_at_def image_iff split: if_splits)

lemma write_archive_entries_iff:
  assumes "tree_ok n" and "\<not> hidden here"
  shows "(path, k) \<in> set (write_archive_entries here n) \<longleftrightarrow>
    (\<exists>rel m. path = here @ rel \<and> packed here n rel m \<and> k = tar_kind_of m)"
  using assms
proof (induction here n arbitrary: path k rule: write_archive_entries.induct)
  case (1 here es)
  have d: "distinct (map fst es)" and below: "\<And>p n. (p, n) \<in> set es \<Longrightarrow> tree_ok n"
    using 1(2) by (auto simp: list_all_iff)
  let ?deep = "\<lambda>p n. (p, n) \<in> set es \<and> is_dir n \<and> \<not> is_symlink n \<and> \<not> starts_with ''.'' p"
  have step: "(path, k) \<in> set (write_archive_entries (here @ [p]) n) \<longleftrightarrow>
      (\<exists>ps m. path = here @ p # ps \<and> packed (here @ [p]) n ps m \<and> k = tar_kind_of m)" if "?deep p n" for p n
    using 1(1)[of "(p, n)" path k] that below 1(3) by (auto simp: visible_directories_def)
  have "(path, k) \<in> set (write_archive_entries here (Directory es)) \<longleftrightarrow>
      (\<exists>p m. path = here @ [p] \<and> k = tar_kind_of m \<and> (p, m) \<in> set es
         \<and> (if is_dir m then \<not> starts_with ''.'' p else \<not> skip_archive_file (here @ [p])))
    \<or> (\<exists>p n. ?deep p n \<and> (path, k) \<in> set (write_archive_entries (here @ [p]) n))"
    unfolding in_write_archive_entries[OF 1(3)] by (simp only: conj_assoc)
  also have "\<dots> \<longleftrightarrow> (\<exists>p ps m. path = here @ p # ps \<and> packed here (Directory es) (p # ps) m \<and> k = tar_kind_of m)"
    (is "?flat \<or> ?nested \<longleftrightarrow> ?spec")
  proof
    assume "?flat \<or> ?nested"
    then show ?spec
    proof
      assume ?flat
      then obtain p m where "path = here @ [p]" "k = tar_kind_of m" "packed here (Directory es) [p] m"
        using packed_Cons[OF d 1(3)] by auto
      then show ?spec by blast
    next
      assume ?nested
      then obtain p n ps m where "?deep p n" "path = here @ p # ps" "packed (here @ [p]) n ps m" "k = tar_kind_of m"
        using step by blast
      moreover from this have "packed here (Directory es) (p # ps) m"
        using packed_Cons[OF d 1(3), of p ps m] by (auto simp: packed_def)
      ultimately show ?spec by blast
    qed
  next
    assume ?spec
    then obtain p ps m where spec: "path = here @ p # ps" "packed here (Directory es) (p # ps) m" "k = tar_kind_of m"
      by blast
    show "?flat \<or> ?nested"
    proof (cases "ps = []")
      case True
      with spec packed_Cons[OF d 1(3), of p ps m] have ?flat by auto
      then show ?thesis ..
    next
      case False
      with spec(2) packed_Cons[OF d 1(3), of p ps m] obtain n where "?deep p n" "packed (here @ [p]) n ps m" by auto
      with step spec have ?nested by blast
      then show ?thesis ..
    qed
  qed
  also have "\<dots> \<longleftrightarrow> (\<exists>rel m. path = here @ rel \<and> packed here (Directory es) rel m \<and> k = tar_kind_of m)"
    by (metis packed_nonempty list.exhaust)
  finally show ?case .
qed (auto simp: packed_def neq_Nil_conv)

end
