(* ===== verification/Source_Properties.thy ===== *)
theory Source_Properties
  imports Template_Source Samples
begin

text \<open>What reaches Coder of a repository: the archive of a template source, against the tree it was made from.\<close>

lemma fetch_branch_archive_Inr:
  assumes "fetch_branch_archive ws readable ustar git_url branch source_path g = (g', Inr a)"
  obtains path es where "ws_resolve ws g' source_path = Some path" "at_path (ws_tree ws g') path = Some (Directory es)"
    "commit_shape (ar_commit a)" "ar_content a = ustar (write_archive_entries [] (Directory es))"
    "int (length (ar_content a)) \<le> TEMPLATE_ARCHIVE_LIMIT"
    "list_all (\<lambda>e. readable (fst e) \<and> ustar_entry_ok e) (write_archive_entries [] (Directory es))"
  using assms unfolding fetch_branch_archive_def archive_template_directory_def
  by (auto simp: result_iffs Let_def split: prod.splits sum.splits if_splits option.splits node.splits)

lemma tree_ok_at_path: "tree_ok n \<Longrightarrow> at_path n path = Some m \<Longrightarrow> tree_ok m"
proof (induction n path rule: at_path.induct)
  case (2 es p ps)
  then obtain n where "map_of es p = Some n" "at_path n ps = Some m" by (auto split: option.splits)
  moreover from this have "tree_ok n" using 2(2) by (auto simp: list_all_iff dest: map_of_SomeD)
  ultimately show ?case using 2(1) by blast
qed auto

text \<open>
  C10. An archive is exactly the visible part of one directory of the repository. When a branch
  is fetched, the commit has forty hexadecimal digits, the directory lies below the root once
  every link is followed, the archive has at most a mebibyte, and its entries are precisely the
  places of that directory that are reached without following a link and are not left out:
  directories, and links to directories, when no part of the path is hidden, everything else
  when no directory on the way is hidden and the filter for hidden files, state and variables
  lets it pass. So no file that may hold credentials is uploaded and nothing else is missing.
\<close>

theorem archives_are_exact:
  assumes fetch: "fetch_branch_archive ws readable ustar git_url branch source_path g = (g', Inr a)"
    and tree: "tree_ok (ws_tree ws g')"
  shows "\<exists>path es entries. ws_resolve ws g' source_path = Some path \<and> at_path (ws_tree ws g') path = Some (Directory es)
    \<and> commit_shape (ar_commit a) \<and> ar_content a = ustar entries \<and> int (length (ar_content a)) \<le> 1048576
    \<and> (\<forall>p k. (p, k) \<in> set entries \<longleftrightarrow> (\<exists>n. packed [] (Directory es) p n \<and> k = tar_kind_of n))
    \<and> (\<forall>p content. (p, TarFile content) \<in> set entries \<longrightarrow> at_path (Directory es) p = Some (File content)
        \<and> \<not> contains ''.tfstate'' (join ''/'' p) \<and> \<not> ends_with ''.auto.tfvars'' (last p) \<and> last p \<noteq> ''terraform.tfvars''
        \<and> (\<not> hidden p \<or> last p = ''.terraform.lock.hcl''))"
proof -
  obtain path es where at: "ws_resolve ws g' source_path = Some path" "at_path (ws_tree ws g') path = Some (Directory es)"
    and a: "commit_shape (ar_commit a)" "ar_content a = ustar (write_archive_entries [] (Directory es))"
      "int (length (ar_content a)) \<le> TEMPLATE_ARCHIVE_LIMIT"
    using fetch_branch_archive_Inr[OF fetch] by metis
  let ?entries = "write_archive_entries [] (Directory es)"
  have exact: "(p, k) \<in> set ?entries \<longleftrightarrow> (\<exists>n. packed [] (Directory es) p n \<and> k = tar_kind_of n)" for p k
    using write_archive_entries_iff[OF tree_ok_at_path[OF tree at(2)], of "[]" p k] by simp
  have "at_path (Directory es) p = Some (File content) \<and> \<not> skip_archive_file p" if "(p, TarFile content) \<in> set ?entries" for p content
  proof -
    from that exact obtain n where "packed [] (Directory es) p n" "TarFile content = tar_kind_of n" by blast
    then show ?thesis by (cases n) (auto simp: packed_def)
  qed
  then have "\<forall>p content. (p, TarFile content) \<in> set ?entries \<longrightarrow> at_path (Directory es) p = Some (File content)
        \<and> \<not> contains ''.tfstate'' (join ''/'' p) \<and> \<not> ends_with ''.auto.tfvars'' (last p) \<and> last p \<noteq> ''terraform.tfvars''
        \<and> (\<not> hidden p \<or> last p = ''.terraform.lock.hcl'')"
    unfolding skip_archive_file_def Let_def by (metis insertI1)
  with at a exact show ?thesis
    unfolding TEMPLATE_ARCHIVE_LIMIT_def by (intro exI[of _ path] exI[of _ es] exI[of _ ?entries]) blast
qed

definition sample_tree :: node where
  "sample_tree = Directory [(''main.tf'', File [1]), (''.git'', Directory [(''config'', File [2])]),
     (''terraform.tfvars'', File [3]), (''out'', Link ''/etc'' ToDirectory),
     (''modules'', Directory [(''a.tfstate'', File [4]), (''b.tf'', File [5])])]"

definition sample_workstation :: "unit workstation" where
  "sample_workstation = \<lparr>ws_environ = [], ws_git_installed = True, ws_run = (\<lambda>_ _ g. (g, Some (replicate 40 (CHR ''a'') @ [CHR 0x0A]))),
     ws_tree = (\<lambda>_. sample_tree), ws_resolve = (\<lambda>_ p. if p = ''.'' then Some [] else None)\<rparr>"

definition sample_ustar :: "tar_entry list \<Rightarrow> bytes" where
  "sample_ustar es = map (\<lambda>e. of_nat (length (fst e))) es"

theorem archives_are_exact_witness:
  "\<exists>a entries. fetch_branch_archive sample_workstation (\<lambda>_. True) sample_ustar ''git@h:x'' ''main'' ''.'' () = ((), Inr a)
     \<and> ar_content a = sample_ustar entries \<and> ([''modules'', ''b.tf''], TarFile [5]) \<in> set entries
     \<and> ([''terraform.tfvars''], TarFile [3]) \<notin> set entries"
proof -
  let ?a = "\<lparr>ar_commit = replicate 40 (CHR ''a''), ar_content = sample_ustar (write_archive_entries [] sample_tree)\<rparr>"
  have fetch: "fetch_branch_archive sample_workstation (\<lambda>_. True) sample_ustar ''git@h:x'' ''main'' ''.'' () = ((), Inr ?a)"
    by code_simp
  have tree: "tree_ok (ws_tree sample_workstation ())" by code_simp
  have in_tree: "at_path sample_tree [''modules'', ''b.tf''] = Some (File [5])" by code_simp
  have pass: "\<not> hidden [''modules''] \<and> \<not> skip_archive_file [''modules'', ''b.tf'']" by code_simp
  from archives_are_exact[OF fetch tree] obtain path es entries where
      facts: "ws_resolve sample_workstation () ''.'' = Some path" "at_path sample_tree path = Some (Directory es)"
        "ar_content ?a = sample_ustar entries"
        "\<And>p k. (p, k) \<in> set entries \<longleftrightarrow> (\<exists>n. packed [] (Directory es) p n \<and> k = tar_kind_of n)"
        "\<And>p content. (p, TarFile content) \<in> set entries \<Longrightarrow> last p \<noteq> ''terraform.tfvars''"
    by (auto simp: sample_workstation_def)
  have es: "Directory es = sample_tree" using facts(1,2) by (simp add: sample_workstation_def)
  have "packed [] sample_tree [''modules'', ''b.tf''] (File [5])" using in_tree pass by (simp add: packed_def)
  then have "([''modules'', ''b.tf''], TarFile [5]) \<in> set entries" unfolding facts(4) es by force
  moreover have "([''terraform.tfvars''], TarFile [3]) \<notin> set entries" using facts(5)[of "[''terraform.tfvars'']"] by auto
  ultimately show ?thesis using fetch facts(3) by blast
qed

text \<open>A directory whose only Terraform file is hidden passes the check and gives an archive without it.\<close>

lemma hidden_terraform_file_passes:
  "archive_template_directory (\<lambda>_. True) sample_ustar (Some (Directory [(''.x.tf'', File [1])])) = Inr (sample_ustar [])"
  by code_simp

end
