(* ===== verification/Metrics.thy ===== *)
theory Metrics
  imports Schemas Registry
begin

text \<open>
  Metrics (\<^verbatim>\<open>metrics.py\<close>). An instrument of the Prometheus client is a dictionary from label
  values to its value, a histogram one from label values to its observations; asking for a label
  creates its series. Clock readings are arguments, integers of some unit. Listening on a socket,
  collecting process statistics and the text format of an exposition are left to the client
  library.
\<close>

section \<open>Instruments\<close>

type_synonym 'l instrument = "('l, int) dict"
type_synonym 'l histogram = "('l, int list) dict"

definition value_of :: "'l instrument \<Rightarrow> 'l \<Rightarrow> int" where
  "value_of d l = (case map_of d l of None \<Rightarrow> 0 | Some v \<Rightarrow> v)"

definition labels :: "'v \<Rightarrow> 'l \<Rightarrow> ('l, 'v) dict \<Rightarrow> ('l, 'v) dict" where
  "labels initial l d = (if dict_has d l then d else dict_set l initial d)"

definition add :: "'l \<Rightarrow> int \<Rightarrow> 'l instrument \<Rightarrow> 'l instrument" where
  "add l n d = dict_set l (value_of d l + n) d"

definition observations :: "'l histogram \<Rightarrow> 'l \<Rightarrow> int list" where
  "observations d l = (case map_of d l of None \<Rightarrow> [] | Some vs \<Rightarrow> vs)"

definition observe :: "'l \<Rightarrow> int \<Rightarrow> 'l histogram \<Rightarrow> 'l histogram" where
  "observe l v d = dict_set l (observations d l @ [v]) d"

section \<open>The metrics listener\<close>

record metrics_server =
  sv_host :: string
  sv_port :: int
  sv_serving :: bool
  sv_stopped :: bool

definition start_metrics_server :: "string \<Rightarrow> int \<Rightarrow> metrics_server" where
  "start_metrics_server host port = \<lparr>sv_host = host, sv_port = port, sv_serving = True, sv_stopped = False\<rparr>"

definition server_stop :: "metrics_server \<Rightarrow> metrics_server" where
  "server_stop s = (if sv_stopped s then s else s\<lparr>sv_stopped := True, sv_serving := False\<rparr>)"

record metrics_response =
  mx_status :: nat
  mx_content_type :: string
  mx_body :: string

definition HEALTH_RESPONSE :: string where
  "HEALTH_RESPONSE = ''{'' @ [CHR 0x22] @ ''status'' @ [CHR 0x22] @ '':'' @ [CHR 0x22] @ ''ok'' @ [CHR 0x22] @ ''}''"

text \<open>
  A scrape: \<open>generate\<close> is the exposition of the registry with its content type and \<open>error_page\<close> the
  page the HTTP server renders for a status. A path that the URL parser rejects ends the request
  without an answer.
\<close>

definition do_GET ::
  "(string \<Rightarrow> bool) \<Rightarrow> (nat \<Rightarrow> string \<times> string) \<Rightarrow> string \<times> string \<Rightarrow> string \<Rightarrow> metrics_response option" where
  "do_GET bracket_ok error_page generate target =
     (case urlsplit bracket_ok target of
        None \<Rightarrow> None
      | Some u \<Rightarrow>
          if sp_path u = ''/health''
          then Some \<lparr>mx_status = 200, mx_content_type = ''application/json'', mx_body = HEALTH_RESPONSE\<rparr>
          else if sp_path u \<noteq> ''/metrics''
          then Some \<lparr>mx_status = 404, mx_content_type = fst (error_page 404), mx_body = snd (error_page 404)\<rparr>
          else Some \<lparr>mx_status = 200, mx_content_type = fst generate, mx_body = snd generate\<rparr>)"

section \<open>Requests of the API\<close>

record api_metrics =
  am_up :: int
  am_requests :: "(string \<times> string \<times> string) instrument"
  am_duration :: "(string \<times> string) histogram"
  am_in_progress :: "string instrument"

definition new_api_metrics :: api_metrics where
  "new_api_metrics = \<lparr>am_up = 1, am_requests = [], am_duration = [], am_in_progress = []\<rparr>"

text \<open>
  The middleware around one request: what it does before the application runs, what it learns
  from the messages that pass, and what it does afterwards, whether the application returned or
  raised. Other requests may begin and end in between.
\<close>

datatype asgi_message = ResponseStart nat | OtherMessage

definition request_begins :: "string \<Rightarrow> api_metrics \<Rightarrow> api_metrics" where
  "request_begins meth m = m\<lparr>am_in_progress := add meth 1 (am_in_progress m)\<rparr>"

definition observed_status :: "asgi_message list \<Rightarrow> nat" where
  "observed_status messages =
     fold (\<lambda>msg code. case msg of ResponseStart n \<Rightarrow> n | OtherMessage \<Rightarrow> code) messages 500"

definition request_ends ::
  "string \<Rightarrow> string option \<Rightarrow> asgi_message list \<Rightarrow> int \<Rightarrow> int \<Rightarrow> api_metrics \<Rightarrow> api_metrics" where
  "request_ends meth route messages started_at now m =
     (let template = (case route of None \<Rightarrow> ''unmatched'' | Some path \<Rightarrow> path);
          code = nat_text (observed_status messages)
      in m\<lparr>am_in_progress := add meth (- 1) (am_in_progress m),
           am_requests := add (meth, template, code) 1 (am_requests m),
           am_duration := observe (meth, template) (now - started_at) (am_duration m)\<rparr>)"

text \<open>
  The whole call. \<open>run_app\<close> is the wrapped application: it may let other requests update the
  instruments meanwhile, and yields the messages it sent, the route it left in the scope, the
  clock after it and its outcome, a return or an exception, which the middleware passes on.
\<close>

record 'r app_run =
  ar_metrics :: api_metrics
  ar_messages :: "asgi_message list"
  ar_route :: "string option"
  ar_now :: int
  ar_outcome :: 'r

record asgi_scope =
  as_type :: string
  as_method :: string

definition middleware_call ::
  "(asgi_scope \<Rightarrow> api_metrics \<Rightarrow> 'r app_run) \<Rightarrow> asgi_scope \<Rightarrow> int \<Rightarrow> api_metrics \<Rightarrow> api_metrics \<times> 'r" where
  "middleware_call run_app scope started_at m =
     (if as_type scope \<noteq> ''http'' then let r = run_app scope m in (ar_metrics r, ar_outcome r)
      else let r = run_app scope (request_begins (as_method scope) m) in
        (request_ends (as_method scope) (ar_route r) (ar_messages r) started_at (ar_now r) (ar_metrics r),
         ar_outcome r))"

section \<open>Celery\<close>

datatype celery_component = WorkerComponent | BeatComponent

definition component_text :: "celery_component \<Rightarrow> string" where
  "component_text c = (case c of WorkerComponent \<Rightarrow> ''worker'' | BeatComponent \<Rightarrow> ''beat'')"

definition CELERY_TASK_STATES :: "string list" where
  "CELERY_TASK_STATES = [''failure'', ''retry'', ''success'']"

record celery_metrics =
  cm_multiprocess_directory :: "string option"
  cm_server :: "metrics_server option"
  cm_component :: "celery_component option"
  cm_started_tasks :: "(string, int) dict"
  cm_up :: "string instrument option"
  cm_worker_tasks :: "(string \<times> string) instrument option"
  cm_worker_duration :: "string histogram option"
  cm_worker_in_progress :: "string instrument option"
  cm_beat_published :: "string instrument option"

datatype metrics_error = RuntimeError string

definition new_celery_metrics :: "string option \<Rightarrow> celery_metrics" where
  "new_celery_metrics multiprocess_directory =
     \<lparr>cm_multiprocess_directory = multiprocess_directory, cm_server = None, cm_component = None,
      cm_started_tasks = [], cm_up = None, cm_worker_tasks = None, cm_worker_duration = None,
      cm_worker_in_progress = None, cm_beat_published = None\<rparr>"

definition create_component_metrics :: "celery_component \<Rightarrow> celery_metrics \<Rightarrow> celery_metrics" where
  "create_component_metrics component m =
     (let m1 = m\<lparr>cm_up := Some []\<rparr> in
      case component of
        WorkerComponent \<Rightarrow> m1\<lparr>cm_worker_tasks := Some [], cm_worker_duration := Some [], cm_worker_in_progress := Some []\<rparr>
      | BeatComponent \<Rightarrow> m1\<lparr>cm_beat_published := Some []\<rparr>)"

definition TASK_PREFIX :: string where "TASK_PREFIX = ''coder_manager.''"

text \<open>The series of one task: a counter for every state, a histogram, and the gauge set to nothing running.\<close>

definition initialize_series ::
  "string \<Rightarrow> (string \<times> string) instrument \<times> string histogram \<times> string instrument
    \<Rightarrow> (string \<times> string) instrument \<times> string histogram \<times> string instrument" where
  "initialize_series task_name series =
     (let (tasks, duration, in_progress) = series in
      (fold (\<lambda>state. labels 0 (task_name, state)) CELERY_TASK_STATES tasks,
       labels [] task_name duration, dict_set task_name 0 in_progress))"

definition initialize_component ::
  "celery_component \<Rightarrow> string list \<Rightarrow> celery_metrics \<Rightarrow> (metrics_error, celery_metrics) result" where
  "initialize_component component task_names m =
     (if cm_component m \<noteq> None \<and> cm_component m \<noteq> Some component
      then Inl (RuntimeError (''Celery metrics already initialized for '' @ component_text (the (cm_component m))))
      else let m1 = (if cm_component m = None then create_component_metrics component m else m);
               m2 = m1\<lparr>cm_component := Some component\<rparr> in
        case cm_up m2 of
          None \<Rightarrow> Inl (RuntimeError ''Celery availability metric is unavailable'')
        | Some up \<Rightarrow>
            let m3 = m2\<lparr>cm_up := Some (dict_set (component_text component) 1 up)\<rparr> in
            if component \<noteq> WorkerComponent then Inr m3
            else case (cm_worker_tasks m3, cm_worker_duration m3, cm_worker_in_progress m3) of
                (Some tasks, Some duration, Some in_progress) \<Rightarrow>
                  let names = sort_key id (filter (starts_with TASK_PREFIX) task_names);
                      (tasks', duration', in_progress') = fold initialize_series names (tasks, duration, in_progress)
                  in Inr (m3\<lparr>cm_worker_tasks := Some tasks', cm_worker_duration := Some duration',
                             cm_worker_in_progress := Some in_progress'\<rparr>)
              | _ \<Rightarrow> Inl (RuntimeError ''Celery worker metrics are unavailable''))"

datatype registry_choice = MultiProcess string | OwnRegistry

text \<open>An empty directory setting counts as none.\<close>

definition exposition_registry :: "celery_metrics \<Rightarrow> registry_choice" where
  "exposition_registry m =
     (case cm_multiprocess_directory m of
        Some directory \<Rightarrow> if directory = [] then OwnRegistry else MultiProcess directory
      | None \<Rightarrow> OwnRegistry)"

definition start_server :: "string \<Rightarrow> int \<Rightarrow> celery_metrics \<Rightarrow> celery_metrics" where
  "start_server host port m =
     (if cm_server m \<noteq> None then m else m\<lparr>cm_server := Some (start_metrics_server host port)\<rparr>)"

text \<open>The listener that was stopped is returned too: the object outlives the reference to it.\<close>

definition stop_server :: "celery_metrics \<Rightarrow> celery_metrics \<times> metrics_server option" where
  "stop_server m =
     (let m1 = (case (cm_component m, cm_up m) of
                  (Some c, Some up) \<Rightarrow> m\<lparr>cm_up := Some (dict_set (component_text c) 0 up)\<rparr>
                | _ \<Rightarrow> m)
      in (m1\<lparr>cm_server := None\<rparr>, map_option server_stop (cm_server m)))"

definition task_started :: "string \<Rightarrow> string \<Rightarrow> int \<Rightarrow> celery_metrics \<Rightarrow> (metrics_error, celery_metrics) result" where
  "task_started task_id task_name now m =
     (if cm_component m \<noteq> Some WorkerComponent then Inr m
      else case cm_worker_in_progress m of
             None \<Rightarrow> Inl (RuntimeError ''Celery worker in-progress metric is unavailable'')
           | Some in_progress \<Rightarrow>
               Inr (m\<lparr>cm_started_tasks := dict_set task_id now (cm_started_tasks m),
                      cm_worker_in_progress := Some (add task_name 1 in_progress)\<rparr>))"

definition normalized_state :: "string option \<Rightarrow> string" where
  "normalized_state state = (case state of None \<Rightarrow> ''unknown'' | Some s \<Rightarrow> if s = [] then ''unknown'' else lower s)"

definition task_finished ::
  "string \<Rightarrow> string \<Rightarrow> string option \<Rightarrow> int \<Rightarrow> celery_metrics \<Rightarrow> (metrics_error, celery_metrics) result" where
  "task_finished task_id task_name state now m =
     (if cm_component m \<noteq> Some WorkerComponent then Inr m
      else case map_of (cm_started_tasks m) task_id of
             None \<Rightarrow> Inr m
           | Some started_at \<Rightarrow>
               (case (cm_worker_tasks m, cm_worker_duration m, cm_worker_in_progress m) of
                  (Some tasks, Some duration, Some in_progress) \<Rightarrow>
                    Inr (m\<lparr>cm_started_tasks := filter (\<lambda>e. fst e \<noteq> task_id) (cm_started_tasks m),
                           cm_worker_in_progress := Some (add task_name (- 1) in_progress),
                           cm_worker_tasks := Some (add (task_name, normalized_state state) 1 tasks),
                           cm_worker_duration := Some (observe task_name (now - started_at) duration)\<rparr>)
                | _ \<Rightarrow> Inl (RuntimeError ''Celery worker metrics are unavailable'')))"

definition task_published :: "string \<Rightarrow> celery_metrics \<Rightarrow> celery_metrics" where
  "task_published task_name m =
     (case (cm_component m, cm_beat_published m) of
        (Some BeatComponent, Some published) \<Rightarrow>
          if starts_with TASK_PREFIX task_name then m\<lparr>cm_beat_published := Some (add task_name 1 published)\<rparr> else m
      | _ \<Rightarrow> m)"

text \<open>
  The live-gauge files of a worker child that exited: removing them is the client library's, the
  argument \<open>mark_process_dead\<close>.
\<close>

definition mark_worker_process_dead ::
  "(int \<Rightarrow> string \<Rightarrow> 'f \<Rightarrow> 'f) \<Rightarrow> string option \<Rightarrow> int \<Rightarrow> 'f \<Rightarrow> 'f" where
  "mark_worker_process_dead mark_process_dead directory pid files =
     (case directory of
        Some path \<Rightarrow> if path = [] then files else mark_process_dead pid path files
      | None \<Rightarrow> files)"

text \<open>The files of the multiprocess directory once stale databases are removed.\<close>

definition prepare_multiprocess_directory :: "string list \<Rightarrow> string list" where
  "prepare_multiprocess_directory files = filter (\<lambda>f. \<not> ends_with ''.db'' f) files"

end
