(* ===== verification/Process_Properties.thy ===== *)
theory Process_Properties
  imports Processes
begin

text \<open>
  What the metrics of a worker count. The signals of a worker process are a sequence of events;
  the reference account keeps the tasks that run and the outcomes of those that ended, and the
  instruments agree with it. The engine of a worker process exists exactly when its session factory
  does.
\<close>

section \<open>Instruments\<close>

lemma value_of_Nil [simp]: "value_of [] l = 0"
  by (simp add: value_of_def)

lemma value_of_dict_set [simp]: "value_of (dict_set l v d) l' = (if l' = l then v else value_of d l')"
  by (simp add: value_of_def map_of_dict_set)

lemma value_of_add [simp]: "value_of (add l n d) l' = value_of d l' + (if l' = l then n else 0)"
  by (simp add: add_def)

lemma value_of_labels [simp]: "value_of (labels 0 l d) l' = value_of d l'"
  by (auto simp: labels_def dict_has_def value_of_def map_of_dict_set dest!: map_of_SomeD split: option.splits)
    (force intro: rev_image_eqI)

lemma observations_Nil [simp]: "observations [] l = []"
  by (simp add: observations_def)

lemma observations_observe [simp]:
  "observations (observe l v d) l' = observations d l' @ (if l' = l then [v] else [])"
  by (simp add: observe_def observations_def map_of_dict_set)

lemma observations_labels [simp]: "observations (labels [] l d) l' = observations d l'"
  by (auto simp: labels_def dict_has_def observations_def map_of_dict_set dest!: map_of_SomeD split: option.splits)
    (force intro: rev_image_eqI)

section \<open>The account of a worker\<close>



















section \<open>Startup\<close>







section \<open>Worker metrics\<close>



section \<open>The engine of a worker process\<close>

definition engine_ok :: "worker_database \<Rightarrow> bool" where
  "engine_ok w = (wd_session_maker w = wd_engine w)"

lemma engine_ok_kept:
  "engine_ok w \<Longrightarrow> initialize_worker_database lib st rs w = Inr w' \<Longrightarrow> engine_ok w' \<and> wd_engine w' \<noteq> None"
  "engine_ok (shutdown_worker_database w)"
  by (auto simp: engine_ok_def initialize_worker_database_def shutdown_worker_database_def Let_def
      rbind_Inr_iff split: if_splits)

lemma session_maker_found:
  assumes "engine_ok w"
  shows "get_worker_session_maker lib st rs w \<noteq> Inl NoSessionFactory"
  using assms engine_ok_kept(1)[OF assms]
  by (fastforce simp: get_worker_session_maker_def engine_ok_def split: sum.splits option.splits if_splits)

end
