(* ===== verification/Migration.thy ===== *)
theory Migration
  imports Models
begin

text \<open>
  The initial migration (\<^verbatim>\<open>migrations/versions/e669afab6842_initial_schema.py\<close>): the tables, constraints,
  indexes and enumerated types that \<^verbatim>\<open>upgrade\<close> creates and \<^verbatim>\<open>downgrade\<close> drops, as the operations the
  script hands to Alembic. The second part is what PostgreSQL does with them: it executes data
  definitions one by one, refusing those whose names are taken or whose targets are missing, and it
  enforces the resulting constraints on the rows of every commit. Check expressions have SQL's three
  truth values. Names of over 63 characters are abbreviated by SQLAlchemy; only check and foreign
  key names are that long, and no operation refers to those.
\<close>

section \<open>Vocabulary\<close>

datatype column_type =
    Uuid
  | Varchar nat
  | Integer
  | LargeBinary
  | TimestampTz
  | Json
  | Text
  | Boolean
  | Enum "string list" string

datatype sql_column = Column (c_name: string) (c_type: column_type) (c_server_default: "string option") (c_nullable: bool)

datatype sql_expr =
    Col string
  | IntLit int
  | TextLit string
  | Trim sql_expr
  | Lower sql_expr
  | Upper sql_expr
  | Length sql_expr

datatype sql_cond =
    Eq sql_expr sql_expr
  | Greater sql_expr sql_expr
  | GreaterEq sql_expr sql_expr
  | LessEq sql_expr sql_expr
  | In sql_expr "string list"
  | IsNull sql_expr
  | IsNotNull sql_expr
  | And sql_cond sql_cond
  | Or sql_cond sql_cond

datatype on_delete = SET_NULL | CASCADE | RESTRICT

datatype table_constraint =
    CheckConstraint sql_cond string
  | PrimaryKeyConstraint "string list" string
  | UniqueConstraint "string list" string
  | ForeignKeyConstraint "string list" string "string list" string on_delete

record sql_table =
  tb_name :: string
  tb_columns :: "sql_column list"
  tb_constraints :: "table_constraint list"

datatype migration_op =
    CreateTable sql_table
  | CreateIndex string string "sql_expr list" bool
  | DropIndex string string
  | DropTable string
  | DropEnum string

section \<open>The script\<close>

definition databases_table :: sql_table where
  "databases_table =
     \<lparr>tb_name = ''databases'',
      tb_columns =
       [Column ''id'' Uuid None False,
        Column ''name'' (Varchar 255) None False,
        Column ''instance_max'' Integer None False,
        Column ''host'' (Varchar 255) None False,
        Column ''port'' Integer (Some ''5432'') False,
        Column ''database_name'' (Varchar 255) None False,
        Column ''username'' (Varchar 255) None False,
        Column ''password_enc'' LargeBinary None False,
        Column ''created_at'' TimestampTz (Some ''now()'') False,
        Column ''updated_at'' TimestampTz (Some ''now()'') False],
      tb_constraints =
       [CheckConstraint (Greater (Col ''instance_max'') (IntLit 0)) ''ck_databases_instance_max_positive'',
        CheckConstraint (Greater (Length (Trim (Col ''database_name''))) (IntLit 0)) ''ck_databases_database_name_not_empty'',
        CheckConstraint (Greater (Length (Trim (Col ''host''))) (IntLit 0)) ''ck_databases_host_not_empty'',
        CheckConstraint (Greater (Length (Trim (Col ''name''))) (IntLit 0)) ''ck_databases_name_not_empty'',
        CheckConstraint (Greater (Length (Trim (Col ''username''))) (IntLit 0)) ''ck_databases_username_not_empty'',
        CheckConstraint (And (GreaterEq (Col ''port'') (IntLit 1)) (LessEq (Col ''port'') (IntLit 65535))) ''ck_databases_port_valid'',
        PrimaryKeyConstraint [''id''] ''pk_databases'']\<rparr>"

definition job_executions_table :: sql_table where
  "job_executions_table =
     \<lparr>tb_name = ''job_executions'',
      tb_columns =
       [Column ''id'' Uuid None False,
        Column ''name'' (Varchar 255) None False,
        Column ''task_name'' (Varchar 255) None False,
        Column ''resource_type'' (Varchar 64) None True,
        Column ''resource_id'' Uuid None True,
        Column ''step'' (Varchar 255) None False,
        Column ''status'' (Enum [''pending'', ''running'', ''success'', ''error''] ''job_status'') (Some ''pending'') False,
        Column ''attempt'' Integer (Some ''0'') False,
        Column ''claimed_at'' TimestampTz None True,
        Column ''created_at'' TimestampTz (Some ''now()'') False,
        Column ''updated_at'' TimestampTz (Some ''now()'') False],
      tb_constraints =
       [CheckConstraint (GreaterEq (Col ''attempt'') (IntLit 0)) ''ck_job_executions_attempt_non_negative'',
        CheckConstraint (Greater (Length (Trim (Col ''name''))) (IntLit 0)) ''ck_job_executions_name_not_empty'',
        CheckConstraint (Greater (Length (Trim (Col ''step''))) (IntLit 0)) ''ck_job_executions_step_not_empty'',
        CheckConstraint (Greater (Length (Trim (Col ''task_name''))) (IntLit 0)) ''ck_job_executions_task_name_not_empty'',
        PrimaryKeyConstraint [''id''] ''pk_job_executions'']\<rparr>"

definition instances_table :: sql_table where
  "instances_table =
     \<lparr>tb_name = ''instances'',
      tb_columns =
       [Column ''id'' Uuid None False,
        Column ''application'' (Varchar 255) None False,
        Column ''slug'' (Varchar 12) None False,
        Column ''action'' (Varchar 255) (Some ''creating'') False,
        Column ''status'' (Enum [''pending'', ''running'', ''success'', ''error''] ''instance_status'') (Some ''pending'') False,
        Column ''state'' (Enum [''started'', ''stopped''] ''instance_state'') None False,
        Column ''password_enc'' LargeBinary None True,
        Column ''password_candidate_enc'' LargeBinary None True,
        Column ''argocd_application_name'' (Varchar 63) None True,
        Column ''job_id'' Uuid None True,
        Column ''step'' (Varchar 255) None True,
        Column ''created_at'' TimestampTz (Some ''now()'') False,
        Column ''updated_at'' TimestampTz (Some ''now()'') False],
      tb_constraints =
       [CheckConstraint (Eq (Col ''application'') (Upper (Trim (Col ''application'')))) ''ck_instances_application_normalized'',
        CheckConstraint (Greater (Length (Trim (Col ''action''))) (IntLit 0)) ''ck_instances_action_not_empty'',
        CheckConstraint (Greater (Length (Trim (Col ''application''))) (IntLit 0)) ''ck_instances_application_not_empty'',
        ForeignKeyConstraint [''job_id''] ''job_executions'' [''id''] ''fk_instances_job_id_job_executions'' SET_NULL,
        PrimaryKeyConstraint [''id''] ''pk_instances'',
        UniqueConstraint [''application''] ''uq_instances_application'',
        UniqueConstraint [''argocd_application_name''] ''uq_instances_argocd_application_name'',
        UniqueConstraint [''slug''] ''uq_instances_slug'']\<rparr>"

definition templates_table :: sql_table where
  "templates_table =
     \<lparr>tb_name = ''templates'',
      tb_columns =
       [Column ''id'' Uuid None False,
        Column ''display_name'' (Varchar 255) None False,
        Column ''name'' (Varchar 64) None False,
        Column ''git_url'' (Varchar 2048) None False,
        Column ''source_path'' (Varchar 1024) None False,
        Column ''branch'' (Varchar 255) None False,
        Column ''modules'' Json None False,
        Column ''system_parameter_revision'' Integer (Some ''0'') False,
        Column ''action'' (Varchar 255) (Some ''created'') False,
        Column ''sync_status'' (Enum [''pending'', ''running'', ''success'', ''error''] ''template_sync_status'') (Some ''success'') False,
        Column ''job_id'' Uuid None True,
        Column ''step'' (Varchar 255) None True,
        Column ''created_at'' TimestampTz (Some ''now()'') False,
        Column ''updated_at'' TimestampTz (Some ''now()'') False],
      tb_constraints =
       [CheckConstraint (Greater (Length (Trim (Col ''action''))) (IntLit 0)) ''ck_templates_action_not_empty'',
        CheckConstraint (Greater (Length (Trim (Col ''branch''))) (IntLit 0)) ''ck_templates_branch_not_empty'',
        CheckConstraint (Greater (Length (Trim (Col ''display_name''))) (IntLit 0)) ''ck_templates_display_name_not_empty'',
        CheckConstraint (Greater (Length (Trim (Col ''git_url''))) (IntLit 0)) ''ck_templates_git_url_not_empty'',
        CheckConstraint (Greater (Length (Trim (Col ''name''))) (IntLit 0)) ''ck_templates_name_not_empty'',
        CheckConstraint (Greater (Length (Trim (Col ''source_path''))) (IntLit 0)) ''ck_templates_source_path_not_empty'',
        CheckConstraint (Eq (Col ''name'') (Lower (Trim (Col ''name'')))) ''ck_templates_name_normalized'',
        CheckConstraint (GreaterEq (Col ''system_parameter_revision'') (IntLit 0)) ''ck_templates_system_parameter_revision_non_negative'',
        ForeignKeyConstraint [''job_id''] ''job_executions'' [''id''] ''fk_templates_job_id_job_executions'' SET_NULL,
        PrimaryKeyConstraint [''id''] ''pk_templates'']\<rparr>"

definition database_allocations_table :: sql_table where
  "database_allocations_table =
     \<lparr>tb_name = ''database_allocations'',
      tb_columns =
       [Column ''id'' Uuid None False,
        Column ''database_id'' Uuid None False,
        Column ''instance_id'' Uuid None False,
        Column ''schema_name'' (Varchar 63) None False,
        Column ''created_at'' TimestampTz (Some ''now()'') False],
      tb_constraints =
       [CheckConstraint (Greater (Length (Trim (Col ''schema_name''))) (IntLit 0)) ''ck_database_allocations_schema_name_not_empty'',
        ForeignKeyConstraint [''database_id''] ''databases'' [''id''] ''fk_database_allocations_database_id_databases'' RESTRICT,
        ForeignKeyConstraint [''instance_id''] ''instances'' [''id''] ''fk_database_allocations_instance_id_instances'' RESTRICT,
        PrimaryKeyConstraint [''id''] ''pk_database_allocations'',
        UniqueConstraint [''database_id'', ''schema_name''] ''uq_database_allocations_database_schema'',
        UniqueConstraint [''instance_id''] ''uq_database_allocations_instance_id'']\<rparr>"

definition instance_kubernetes_table :: sql_table where
  "instance_kubernetes_table =
     \<lparr>tb_name = ''instance_kubernetes'',
      tb_columns =
       [Column ''instance_id'' Uuid None False,
        Column ''kubeconfig_enc'' LargeBinary None False,
        Column ''created_at'' TimestampTz (Some ''now()'') False,
        Column ''updated_at'' TimestampTz (Some ''now()'') False],
      tb_constraints =
       [ForeignKeyConstraint [''instance_id''] ''instances'' [''id''] ''fk_instance_kubernetes_instance_id_instances'' CASCADE,
        PrimaryKeyConstraint [''instance_id''] ''pk_instance_kubernetes'']\<rparr>"

definition members_table :: sql_table where
  "members_table =
     \<lparr>tb_name = ''members'',
      tb_columns =
       [Column ''id'' Uuid None False,
        Column ''instance_id'' Uuid None False,
        Column ''username'' (Varchar 255) None False,
        Column ''role'' (Enum [''user'', ''admin''] ''member_role'') None False,
        Column ''action'' (Varchar 255) (Some ''creating'') False,
        Column ''status'' (Enum [''pending'', ''running'', ''success'', ''error''] ''member_status'') (Some ''pending'') False,
        Column ''created_at'' TimestampTz (Some ''now()'') False,
        Column ''updated_at'' TimestampTz (Some ''now()'') False],
      tb_constraints =
       [CheckConstraint (Greater (Length (Trim (Col ''action''))) (IntLit 0)) ''ck_members_action_not_empty'',
        CheckConstraint (Greater (Length (Trim (Col ''username''))) (IntLit 0)) ''ck_members_username_not_empty'',
        CheckConstraint (Eq (Col ''username'') (Lower (Trim (Col ''username'')))) ''ck_members_username_normalized'',
        ForeignKeyConstraint [''instance_id''] ''instances'' [''id''] ''fk_members_instance_id_instances'' CASCADE,
        PrimaryKeyConstraint [''id''] ''pk_members'',
        UniqueConstraint [''instance_id'', ''username''] ''uq_members_instance_username'']\<rparr>"

definition template_assignments_table :: sql_table where
  "template_assignments_table =
     \<lparr>tb_name = ''template_assignments'',
      tb_columns =
       [Column ''id'' Uuid None False,
        Column ''template_id'' Uuid None False,
        Column ''instance_id'' Uuid None False,
        Column ''action'' (Varchar 255) (Some ''creating'') False,
        Column ''status'' (Enum [''pending'', ''running'', ''success'', ''error''] ''template_assignment_status'') (Some ''pending'') False,
        Column ''job_id'' Uuid None True,
        Column ''step'' (Varchar 255) None True,
        Column ''created_at'' TimestampTz (Some ''now()'') False,
        Column ''updated_at'' TimestampTz (Some ''now()'') False],
      tb_constraints =
       [CheckConstraint (In (Col ''action'') [''creating'', ''created'', ''deleting'']) ''ck_template_assignments_action_valid'',
        ForeignKeyConstraint [''instance_id''] ''instances'' [''id''] ''fk_template_assignments_instance_id_instances'' CASCADE,
        ForeignKeyConstraint [''job_id''] ''job_executions'' [''id''] ''fk_template_assignments_job_id_job_executions'' SET_NULL,
        ForeignKeyConstraint [''template_id''] ''templates'' [''id''] ''fk_template_assignments_template_id_templates'' RESTRICT,
        PrimaryKeyConstraint [''id''] ''pk_template_assignments'',
        UniqueConstraint [''template_id'', ''instance_id''] ''uq_template_assignments_template_instance'']\<rparr>"

definition template_images_table :: sql_table where
  "template_images_table =
     \<lparr>tb_name = ''template_images'',
      tb_columns =
       [Column ''id'' Uuid None False,
        Column ''template_id'' Uuid None False,
        Column ''registry'' (Varchar 255) None False,
        Column ''name'' (Varchar 255) None False,
        Column ''version'' (Varchar 255) None False,
        Column ''created_at'' TimestampTz (Some ''now()'') False],
      tb_constraints =
       [CheckConstraint (Greater (Length (Trim (Col ''name''))) (IntLit 0)) ''ck_template_images_name_not_empty'',
        CheckConstraint (Greater (Length (Trim (Col ''registry''))) (IntLit 0)) ''ck_template_images_registry_not_empty'',
        CheckConstraint (Greater (Length (Trim (Col ''version''))) (IntLit 0)) ''ck_template_images_version_not_empty'',
        CheckConstraint (Eq (Col ''name'') (Lower (Trim (Col ''name'')))) ''ck_template_images_name_normalized'',
        CheckConstraint (Eq (Col ''registry'') (Lower (Trim (Col ''registry'')))) ''ck_template_images_registry_normalized'',
        ForeignKeyConstraint [''template_id''] ''templates'' [''id''] ''fk_template_images_template_id_templates'' CASCADE,
        PrimaryKeyConstraint [''id''] ''pk_template_images'',
        UniqueConstraint [''template_id'', ''registry'', ''name'', ''version''] ''uq_template_images_reference'']\<rparr>"

definition template_parameters_table :: sql_table where
  "template_parameters_table =
     \<lparr>tb_name = ''template_parameters'',
      tb_columns =
       [Column ''id'' Uuid None False,
        Column ''template_id'' Uuid None False,
        Column ''type'' (Enum [''user'', ''system''] ''template_parameter_type'') None False,
        Column ''name'' (Varchar 64) None False,
        Column ''display_name'' (Varchar 255) None False,
        Column ''description'' Text (Some '''') False,
        Column ''required'' Boolean None True,
        Column ''mutable'' Boolean None True,
        Column ''default_value'' Text None True,
        Column ''created_at'' TimestampTz (Some ''now()'') False,
        Column ''updated_at'' TimestampTz (Some ''now()'') False],
      tb_constraints =
       [CheckConstraint (Or (And (And (Eq (Col ''type'') (TextLit ''user'')) (IsNotNull (Col ''required''))) (IsNotNull (Col ''mutable''))) (And (And (And (Eq (Col ''type'') (TextLit ''system'')) (IsNull (Col ''required''))) (IsNull (Col ''mutable''))) (IsNull (Col ''default_value'')))) ''ck_template_parameters_type_fields_consistent'',
        CheckConstraint (Greater (Length (Trim (Col ''display_name''))) (IntLit 0)) ''ck_template_parameters_display_name_not_empty'',
        CheckConstraint (Greater (Length (Trim (Col ''name''))) (IntLit 0)) ''ck_template_parameters_name_not_empty'',
        CheckConstraint (Eq (Col ''name'') (Lower (Trim (Col ''name'')))) ''ck_template_parameters_name_normalized'',
        ForeignKeyConstraint [''template_id''] ''templates'' [''id''] ''fk_template_parameters_template_id_templates'' CASCADE,
        PrimaryKeyConstraint [''id''] ''pk_template_parameters'',
        UniqueConstraint [''template_id'', ''name''] ''uq_template_parameters_template_name'']\<rparr>"

definition template_deployments_table :: sql_table where
  "template_deployments_table =
     \<lparr>tb_name = ''template_deployments'',
      tb_columns =
       [Column ''id'' Uuid None False,
        Column ''assignment_id'' Uuid None False,
        Column ''coder_organization_id'' Uuid None True,
        Column ''coder_template_id'' Uuid None True,
        Column ''coder_template_version_id'' Uuid None True,
        Column ''target_commit'' (Varchar 40) None True,
        Column ''applied_commit'' (Varchar 40) None True,
        Column ''target_system_parameter_revision'' Integer None True,
        Column ''applied_system_parameter_revision'' Integer None True,
        Column ''status'' (Enum [''pending'', ''running'', ''success'', ''error''] ''template_deployment_status'') (Some ''pending'') False,
        Column ''created_at'' TimestampTz (Some ''now()'') False,
        Column ''updated_at'' TimestampTz (Some ''now()'') False],
      tb_constraints =
       [CheckConstraint (Or (IsNull (Col ''applied_commit'')) (Eq (Length (Col ''applied_commit'')) (IntLit 40))) ''ck_template_deployments_applied_commit_sha'',
        CheckConstraint (Or (IsNull (Col ''applied_system_parameter_revision'')) (GreaterEq (Col ''applied_system_parameter_revision'') (IntLit 0))) ''ck_template_deployments_applied_system_parameter_revision_non_negative'',
        CheckConstraint (Or (IsNull (Col ''target_commit'')) (Eq (Length (Col ''target_commit'')) (IntLit 40))) ''ck_template_deployments_target_commit_sha'',
        CheckConstraint (Or (IsNull (Col ''target_system_parameter_revision'')) (GreaterEq (Col ''target_system_parameter_revision'') (IntLit 0))) ''ck_template_deployments_target_system_parameter_revision_non_negative'',
        ForeignKeyConstraint [''assignment_id''] ''template_assignments'' [''id''] ''fk_template_deployments_assignment_id_template_assignments'' CASCADE,
        PrimaryKeyConstraint [''id''] ''pk_template_deployments'']\<rparr>"

definition template_parameter_system_values_table :: sql_table where
  "template_parameter_system_values_table =
     \<lparr>tb_name = ''template_parameter_system_values'',
      tb_columns =
       [Column ''parameter_id'' Uuid None False,
        Column ''value_enc'' LargeBinary None False],
      tb_constraints =
       [ForeignKeyConstraint [''parameter_id''] ''template_parameters'' [''id''] ''fk_template_parameter_system_values_parameter_id_template_parameters'' CASCADE,
        PrimaryKeyConstraint [''parameter_id''] ''pk_template_parameter_system_values'']\<rparr>"

definition workspaces_table :: sql_table where
  "workspaces_table =
     \<lparr>tb_name = ''workspaces'',
      tb_columns =
       [Column ''id'' Uuid None False,
        Column ''name'' (Varchar 32) None False,
        Column ''instance_id'' Uuid None False,
        Column ''template_id'' Uuid None False,
        Column ''member_id'' Uuid None False,
        Column ''image_id'' Uuid None False,
        Column ''modules'' Json None False,
        Column ''parameters'' Json (Some ''{}'') False,
        Column ''parameters_revision'' Integer (Some ''0'') False,
        Column ''applied_parameters_revision'' Integer None True,
        Column ''coder_workspace_id'' Uuid None True,
        Column ''coder_workspace_build_id'' Uuid None True,
        Column ''action'' (Varchar 255) (Some ''creating'') False,
        Column ''status'' (Enum [''pending'', ''running'', ''success'', ''error''] ''workspace_status'') (Some ''pending'') False,
        Column ''job_id'' Uuid None True,
        Column ''step'' (Varchar 255) None True,
        Column ''created_at'' TimestampTz (Some ''now()'') False,
        Column ''updated_at'' TimestampTz (Some ''now()'') False],
      tb_constraints =
       [CheckConstraint (Or (IsNull (Col ''applied_parameters_revision'')) (GreaterEq (Col ''applied_parameters_revision'') (IntLit 0))) ''ck_workspaces_applied_parameters_revision_non_negative'',
        CheckConstraint (LessEq (Length (Col ''name'')) (IntLit 32)) ''ck_workspaces_name_length'',
        CheckConstraint (Greater (Length (Trim (Col ''action''))) (IntLit 0)) ''ck_workspaces_action_not_empty'',
        CheckConstraint (Greater (Length (Trim (Col ''name''))) (IntLit 0)) ''ck_workspaces_name_not_empty'',
        CheckConstraint (GreaterEq (Col ''parameters_revision'') (IntLit 0)) ''ck_workspaces_parameters_revision_non_negative'',
        ForeignKeyConstraint [''image_id''] ''template_images'' [''id''] ''fk_workspaces_image_id_template_images'' RESTRICT,
        ForeignKeyConstraint [''instance_id''] ''instances'' [''id''] ''fk_workspaces_instance_id_instances'' CASCADE,
        ForeignKeyConstraint [''job_id''] ''job_executions'' [''id''] ''fk_workspaces_job_id_job_executions'' SET_NULL,
        ForeignKeyConstraint [''member_id''] ''members'' [''id''] ''fk_workspaces_member_id_members'' CASCADE,
        ForeignKeyConstraint [''template_id''] ''templates'' [''id''] ''fk_workspaces_template_id_templates'' RESTRICT,
        PrimaryKeyConstraint [''id''] ''pk_workspaces'']\<rparr>"

definition upgrade :: "migration_op list" where
  "upgrade =
     [CreateTable databases_table,
      CreateIndex ''uq_databases_name_ci'' ''databases'' [Lower (Col ''name'')] True,
      CreateTable job_executions_table,
      CreateIndex ''ix_job_executions_retry'' ''job_executions'' [Col ''status'', Col ''claimed_at''] False,
      CreateTable instances_table,
      CreateIndex ''ix_instances_application'' ''instances'' [Col ''application''] False,
      CreateIndex ''ix_instances_job_id'' ''instances'' [Col ''job_id''] False,
      CreateTable templates_table,
      CreateIndex ''ix_templates_job_id'' ''templates'' [Col ''job_id''] False,
      CreateIndex ''uq_templates_name_ci'' ''templates'' [Lower (Col ''name'')] True,
      CreateTable database_allocations_table,
      CreateIndex ''ix_database_allocations_database_id'' ''database_allocations'' [Col ''database_id''] False,
      CreateTable instance_kubernetes_table,
      CreateTable members_table,
      CreateIndex ''ix_members_instance_id'' ''members'' [Col ''instance_id''] False,
      CreateTable template_assignments_table,
      CreateIndex ''ix_template_assignments_instance_id'' ''template_assignments'' [Col ''instance_id''] False,
      CreateIndex ''ix_template_assignments_job_id'' ''template_assignments'' [Col ''job_id''] False,
      CreateIndex ''ix_template_assignments_template_id'' ''template_assignments'' [Col ''template_id''] False,
      CreateTable template_images_table,
      CreateIndex ''ix_template_images_template_id'' ''template_images'' [Col ''template_id''] False,
      CreateTable template_parameters_table,
      CreateIndex ''ix_template_parameters_template_id'' ''template_parameters'' [Col ''template_id''] False,
      CreateTable template_deployments_table,
      CreateIndex ''ix_template_deployments_assignment_id'' ''template_deployments'' [Col ''assignment_id''] True,
      CreateTable template_parameter_system_values_table,
      CreateTable workspaces_table,
      CreateIndex ''ix_workspaces_image_id'' ''workspaces'' [Col ''image_id''] False,
      CreateIndex ''ix_workspaces_instance_id'' ''workspaces'' [Col ''instance_id''] False,
      CreateIndex ''ix_workspaces_job_id'' ''workspaces'' [Col ''job_id''] False,
      CreateIndex ''ix_workspaces_member_id'' ''workspaces'' [Col ''member_id''] False,
      CreateIndex ''ix_workspaces_template_id'' ''workspaces'' [Col ''template_id''] False,
      CreateIndex ''uq_workspaces_instance_name_ci'' ''workspaces'' [Col ''instance_id'', Lower (Col ''name'')] True]"

definition ENUM_NAMES :: "string list" where
  "ENUM_NAMES =
     [''instance_state'', ''instance_status'', ''job_status'', ''member_role'', ''member_status'', ''template_assignment_status'', ''template_deployment_status'', ''template_parameter_type'', ''template_sync_status'', ''workspace_status'']"

definition downgrade :: "migration_op list" where
  "downgrade =
     [DropIndex ''uq_workspaces_instance_name_ci'' ''workspaces'',
      DropIndex ''ix_workspaces_template_id'' ''workspaces'',
      DropIndex ''ix_workspaces_member_id'' ''workspaces'',
      DropIndex ''ix_workspaces_job_id'' ''workspaces'',
      DropIndex ''ix_workspaces_instance_id'' ''workspaces'',
      DropIndex ''ix_workspaces_image_id'' ''workspaces'',
      DropTable ''workspaces'',
      DropTable ''template_parameter_system_values'',
      DropIndex ''ix_template_deployments_assignment_id'' ''template_deployments'',
      DropTable ''template_deployments'',
      DropIndex ''ix_template_parameters_template_id'' ''template_parameters'',
      DropTable ''template_parameters'',
      DropIndex ''ix_template_images_template_id'' ''template_images'',
      DropTable ''template_images'',
      DropIndex ''ix_template_assignments_template_id'' ''template_assignments'',
      DropIndex ''ix_template_assignments_job_id'' ''template_assignments'',
      DropIndex ''ix_template_assignments_instance_id'' ''template_assignments'',
      DropTable ''template_assignments'',
      DropIndex ''ix_members_instance_id'' ''members'',
      DropTable ''members'',
      DropTable ''instance_kubernetes'',
      DropIndex ''ix_database_allocations_database_id'' ''database_allocations'',
      DropTable ''database_allocations'',
      DropIndex ''uq_templates_name_ci'' ''templates'',
      DropIndex ''ix_templates_job_id'' ''templates'',
      DropTable ''templates'',
      DropIndex ''ix_instances_job_id'' ''instances'',
      DropIndex ''ix_instances_application'' ''instances'',
      DropTable ''instances'',
      DropIndex ''ix_job_executions_retry'' ''job_executions'',
      DropTable ''job_executions'',
      DropIndex ''uq_databases_name_ci'' ''databases'',
      DropTable ''databases'']
     @ map DropEnum ENUM_NAMES"

section \<open>Executing data definitions\<close>

record sql_index =
  ix_name :: string
  ix_table :: string
  ix_keys :: "sql_expr list"
  ix_unique :: bool

record sql_schema =
  ss_tables :: "sql_table list"
  ss_indexes :: "sql_index list"
  ss_types :: "(string \<times> string list) list"

definition empty_schema :: sql_schema where
  "empty_schema = \<lparr>ss_tables = [], ss_indexes = [], ss_types = []\<rparr>"

datatype ddl_error =
    DuplicateRelation string
  | DuplicateType string
  | UndefinedColumn string
  | InvalidForeignKey string
  | UndefinedTable string
  | UndefinedIndex string
  | DependentObjects string

text \<open>Tables, indexes and the indexes behind primary keys and unique constraints share one name space.\<close>

definition key_constraint_names :: "sql_table \<Rightarrow> string list" where
  "key_constraint_names t = List.map_filter
     (\<lambda>c. case c of PrimaryKeyConstraint _ n \<Rightarrow> Some n | UniqueConstraint _ n \<Rightarrow> Some n | _ \<Rightarrow> None) (tb_constraints t)"

definition relation_names :: "sql_schema \<Rightarrow> string list" where
  "relation_names s =
     map tb_name (ss_tables s) @ concat (map key_constraint_names (ss_tables s)) @ map ix_name (ss_indexes s)"

text \<open>Every table has a row type, in the name space of the enumerated types.\<close>

definition type_names :: "sql_schema \<Rightarrow> string list" where
  "type_names s = map fst (ss_types s) @ map tb_name (ss_tables s)"

definition enums_of :: "sql_table \<Rightarrow> (string \<times> string list) list" where
  "enums_of t = List.map_filter (\<lambda>c. case c_type c of Enum vs n \<Rightarrow> Some (n, vs) | _ \<Rightarrow> None) (tb_columns t)"

fun expr_columns :: "sql_expr \<Rightarrow> string list" where
  "expr_columns (Col c) = [c]"
| "expr_columns (IntLit _) = []"
| "expr_columns (TextLit _) = []"
| "expr_columns (Trim e) = expr_columns e"
| "expr_columns (Lower e) = expr_columns e"
| "expr_columns (Upper e) = expr_columns e"
| "expr_columns (Length e) = expr_columns e"

fun cond_columns :: "sql_cond \<Rightarrow> string list" where
  "cond_columns (Eq a b) = expr_columns a @ expr_columns b"
| "cond_columns (Greater a b) = expr_columns a @ expr_columns b"
| "cond_columns (GreaterEq a b) = expr_columns a @ expr_columns b"
| "cond_columns (LessEq a b) = expr_columns a @ expr_columns b"
| "cond_columns (In a _) = expr_columns a"
| "cond_columns (IsNull a) = expr_columns a"
| "cond_columns (IsNotNull a) = expr_columns a"
| "cond_columns (And a b) = cond_columns a @ cond_columns b"
| "cond_columns (Or a b) = cond_columns a @ cond_columns b"

fun constraint_columns :: "table_constraint \<Rightarrow> string list" where
  "constraint_columns (CheckConstraint c _) = cond_columns c"
| "constraint_columns (PrimaryKeyConstraint cs _) = cs"
| "constraint_columns (UniqueConstraint cs _) = cs"
| "constraint_columns (ForeignKeyConstraint cs _ _ _ _) = cs"

definition all_in :: "'a list \<Rightarrow> 'a list \<Rightarrow> bool" where
  "all_in xs ys = list_all (\<lambda>x. x \<in> set ys) xs"

definition none_in :: "'a list \<Rightarrow> 'a list \<Rightarrow> bool" where
  "none_in xs ys = list_all (\<lambda>x. x \<notin> set ys) xs"

definition column_names :: "sql_table \<Rightarrow> string list" where
  "column_names t = map c_name (tb_columns t)"

text \<open>A foreign key needs a primary key or a unique constraint on exactly the columns it refers to.\<close>

definition has_key :: "string list \<Rightarrow> sql_table \<Rightarrow> bool" where
  "has_key cs t = list_ex (\<lambda>c. case c of PrimaryKeyConstraint ks _ \<Rightarrow> ks = cs | UniqueConstraint ks _ \<Rightarrow> ks = cs | _ \<Rightarrow> False)
     (tb_constraints t)"

definition foreign_key_valid :: "sql_table list \<Rightarrow> table_constraint \<Rightarrow> bool" where
  "foreign_key_valid ts c =
     (case c of
        ForeignKeyConstraint cs target ks _ _ \<Rightarrow>
          length cs = length ks \<and> list_ex (\<lambda>t. tb_name t = target \<and> has_key ks t) ts
      | _ \<Rightarrow> True)"

definition foreign_targets :: "sql_table \<Rightarrow> string list" where
  "foreign_targets t = List.map_filter
     (\<lambda>c. case c of ForeignKeyConstraint _ target _ _ _ \<Rightarrow> Some target | _ \<Rightarrow> None) (tb_constraints t)"

definition apply_create_table :: "sql_table \<Rightarrow> sql_schema \<Rightarrow> (ddl_error, sql_schema) result" where
  "apply_create_table t s =
     (let relations = tb_name t # key_constraint_names t; enums = map fst (enums_of t) in
      if \<not> (distinct relations \<and> none_in relations (relation_names s)) then Inl (DuplicateRelation (tb_name t))
      else if \<not> (distinct (tb_name t # enums) \<and> none_in (tb_name t # enums) (type_names s)) then Inl (DuplicateType (tb_name t))
      else if \<not> (distinct (column_names t) \<and> list_all (\<lambda>c. all_in (constraint_columns c) (column_names t)) (tb_constraints t))
      then Inl (UndefinedColumn (tb_name t))
      else if \<not> list_all (foreign_key_valid (ss_tables s)) (tb_constraints t) then Inl (InvalidForeignKey (tb_name t))
      else Inr (s\<lparr>ss_tables := t # ss_tables s, ss_types := enums_of t @ ss_types s\<rparr>))"

definition apply_create_index :: "string \<Rightarrow> string \<Rightarrow> sql_expr list \<Rightarrow> bool \<Rightarrow> sql_schema \<Rightarrow> (ddl_error, sql_schema) result" where
  "apply_create_index n table keys unique s =
     (if n \<in> set (relation_names s) then Inl (DuplicateRelation n)
      else if \<not> list_ex (\<lambda>t. tb_name t = table \<and> all_in (concat (map expr_columns keys)) (column_names t)) (ss_tables s)
      then Inl (UndefinedTable table)
      else Inr (s\<lparr>ss_indexes := \<lparr>ix_name = n, ix_table = table, ix_keys = keys, ix_unique = unique\<rparr> # ss_indexes s\<rparr>))"

definition apply_drop_index :: "string \<Rightarrow> string \<Rightarrow> sql_schema \<Rightarrow> (ddl_error, sql_schema) result" where
  "apply_drop_index n table s =
     (if \<not> list_ex (\<lambda>i. ix_name i = n \<and> ix_table i = table) (ss_indexes s) then Inl (UndefinedIndex n)
      else Inr (s\<lparr>ss_indexes := filter (\<lambda>i. ix_name i \<noteq> n) (ss_indexes s)\<rparr>))"

definition apply_drop_table :: "string \<Rightarrow> sql_schema \<Rightarrow> (ddl_error, sql_schema) result" where
  "apply_drop_table n s =
     (if n \<notin> set (map tb_name (ss_tables s)) then Inl (UndefinedTable n)
      else if list_ex (\<lambda>t. tb_name t \<noteq> n \<and> n \<in> set (foreign_targets t)) (ss_tables s) then Inl (DependentObjects n)
      else Inr (s\<lparr>ss_tables := filter (\<lambda>t. tb_name t \<noteq> n) (ss_tables s),
                  ss_indexes := filter (\<lambda>i. ix_table i \<noteq> n) (ss_indexes s)\<rparr>))"

text \<open>Dropping a type that is not there is skipped, as the script asks.\<close>

definition apply_drop_enum :: "string \<Rightarrow> sql_schema \<Rightarrow> (ddl_error, sql_schema) result" where
  "apply_drop_enum n s =
     (if n \<notin> set (map fst (ss_types s)) then Inr s
      else if list_ex (\<lambda>t. n \<in> set (map fst (enums_of t))) (ss_tables s) then Inl (DependentObjects n)
      else Inr (s\<lparr>ss_types := filter (\<lambda>e. fst e \<noteq> n) (ss_types s)\<rparr>))"

fun apply_op :: "migration_op \<Rightarrow> sql_schema \<Rightarrow> (ddl_error, sql_schema) result" where
  "apply_op (CreateTable t) s = apply_create_table t s"
| "apply_op (CreateIndex n table keys unique) s = apply_create_index n table keys unique s"
| "apply_op (DropIndex n table) s = apply_drop_index n table s"
| "apply_op (DropTable n) s = apply_drop_table n s"
| "apply_op (DropEnum n) s = apply_drop_enum n s"

fun apply_ops :: "migration_op list \<Rightarrow> sql_schema \<Rightarrow> (ddl_error, sql_schema) result" where
  "apply_ops [] s = Inr s"
| "apply_ops (x # xs) s = rbind (apply_op x s) (apply_ops xs)"

section \<open>Enforcing constraints\<close>

datatype sql_value =
    VNull
  | VUuid uuid
  | VText string
  | VInt int
  | VBytes bytes
  | VTime instant
  | VBool bool
  | VList "string list"
  | VDict "(string, string) dict"

type_synonym sql_row = "(string \<times> sql_value) list"
type_synonym sql_tables = "(string \<times> sql_row list) list"

definition column_value :: "sql_row \<Rightarrow> string \<Rightarrow> sql_value" where
  "column_value r c = (case map_of r c of None \<Rightarrow> VNull | Some v \<Rightarrow> v)"

definition rows_in :: "sql_tables \<Rightarrow> string \<Rightarrow> sql_row list" where
  "rows_in tabs t = (case map_of tabs t of None \<Rightarrow> [] | Some rows \<Rightarrow> rows)"

text \<open>Functions of NULL are NULL; so, here, are functions of a value of another type.\<close>

fun eval_expr :: "sql_row \<Rightarrow> sql_expr \<Rightarrow> sql_value" where
  "eval_expr r (Col c) = column_value r c"
| "eval_expr r (IntLit i) = VInt i"
| "eval_expr r (TextLit s) = VText s"
| "eval_expr r (Trim e) = (case eval_expr r e of VText s \<Rightarrow> VText (sql_trim s) | _ \<Rightarrow> VNull)"
| "eval_expr r (Lower e) = (case eval_expr r e of VText s \<Rightarrow> VText (lower s) | _ \<Rightarrow> VNull)"
| "eval_expr r (Upper e) = (case eval_expr r e of VText s \<Rightarrow> VText (upper s) | _ \<Rightarrow> VNull)"
| "eval_expr r (Length e) = (case eval_expr r e of VText s \<Rightarrow> VInt (int (length s)) | _ \<Rightarrow> VNull)"

definition compare_ints :: "(int \<Rightarrow> int \<Rightarrow> bool) \<Rightarrow> sql_value \<Rightarrow> sql_value \<Rightarrow> bool option" where
  "compare_ints rel v w = (case v of VInt i \<Rightarrow> (case w of VInt j \<Rightarrow> Some (rel i j) | _ \<Rightarrow> None) | _ \<Rightarrow> None)"

definition sql_and :: "bool option \<Rightarrow> bool option \<Rightarrow> bool option" where
  "sql_and a b = (if a = Some False \<or> b = Some False then Some False
                  else if a = None \<or> b = None then None else Some True)"

definition sql_or :: "bool option \<Rightarrow> bool option \<Rightarrow> bool option" where
  "sql_or a b = (if a = Some True \<or> b = Some True then Some True
                 else if a = None \<or> b = None then None else Some False)"

fun eval_cond :: "sql_row \<Rightarrow> sql_cond \<Rightarrow> bool option" where
  "eval_cond r (Eq a b) =
     (if eval_expr r a = VNull \<or> eval_expr r b = VNull then None else Some (eval_expr r a = eval_expr r b))"
| "eval_cond r (Greater a b) = compare_ints (\<lambda>i j. j < i) (eval_expr r a) (eval_expr r b)"
| "eval_cond r (GreaterEq a b) = compare_ints (\<lambda>i j. j \<le> i) (eval_expr r a) (eval_expr r b)"
| "eval_cond r (LessEq a b) = compare_ints (\<le>) (eval_expr r a) (eval_expr r b)"
| "eval_cond r (In a vs) = (if eval_expr r a = VNull then None else Some (eval_expr r a \<in> set (map VText vs)))"
| "eval_cond r (IsNull a) = Some (eval_expr r a = VNull)"
| "eval_cond r (IsNotNull a) = Some (eval_expr r a \<noteq> VNull)"
| "eval_cond r (And a b) = sql_and (eval_cond r a) (eval_cond r b)"
| "eval_cond r (Or a b) = sql_or (eval_cond r a) (eval_cond r b)"

definition int4 :: "int \<Rightarrow> bool" where
  "int4 i = (- 2147483648 \<le> i \<and> i \<le> 2147483647)"

definition value_fits :: "column_type \<Rightarrow> sql_value \<Rightarrow> bool" where
  "value_fits ty v =
     (case v of
        VNull \<Rightarrow> True
      | VUuid _ \<Rightarrow> ty = Uuid
      | VText s \<Rightarrow> (case ty of Varchar n \<Rightarrow> length s \<le> n | Text \<Rightarrow> True | Enum vs _ \<Rightarrow> s \<in> set vs | _ \<Rightarrow> False)
      | VInt i \<Rightarrow> ty = Integer \<and> int4 i
      | VBytes _ \<Rightarrow> ty = LargeBinary
      | VTime _ \<Rightarrow> ty = TimestampTz
      | VBool _ \<Rightarrow> ty = Boolean
      | VList _ \<Rightarrow> ty = Json
      | VDict _ \<Rightarrow> ty = Json)"

definition column_ok :: "sql_row \<Rightarrow> sql_column \<Rightarrow> bool" where
  "column_ok r c = (value_fits (c_type c) (column_value r (c_name c))
     \<and> (c_nullable c \<or> column_value r (c_name c) \<noteq> VNull))"

text \<open>Keys with a NULL component differ from every other key.\<close>

definition keys_distinct :: "('r \<Rightarrow> sql_value list) \<Rightarrow> 'r list \<Rightarrow> bool" where
  "keys_distinct key rows = distinct (filter (\<lambda>k. VNull \<notin> set k) (map key rows))"

definition row_key :: "string list \<Rightarrow> sql_row \<Rightarrow> sql_value list" where
  "row_key cs r = map (column_value r) cs"

fun constraint_ok :: "sql_tables \<Rightarrow> sql_row list \<Rightarrow> table_constraint \<Rightarrow> bool" where
  "constraint_ok tabs rows (CheckConstraint c _) = list_all (\<lambda>r. eval_cond r c \<noteq> Some False) rows"
| "constraint_ok tabs rows (PrimaryKeyConstraint cs _) =
     (list_all (\<lambda>r. VNull \<notin> set (row_key cs r)) rows \<and> keys_distinct (row_key cs) rows)"
| "constraint_ok tabs rows (UniqueConstraint cs _) = keys_distinct (row_key cs) rows"
| "constraint_ok tabs rows (ForeignKeyConstraint cs target ks _ _) =
     list_all (\<lambda>r. VNull \<in> set (row_key cs r) \<or> row_key cs r \<in> set (map (row_key ks) (rows_in tabs target))) rows"

definition table_ok :: "sql_tables \<Rightarrow> sql_table \<Rightarrow> bool" where
  "table_ok tabs t =
     (list_all (\<lambda>r. list_all (column_ok r) (tb_columns t)) (rows_in tabs (tb_name t))
      \<and> list_all (constraint_ok tabs (rows_in tabs (tb_name t))) (tb_constraints t))"

definition index_ok :: "sql_tables \<Rightarrow> sql_index \<Rightarrow> bool" where
  "index_ok tabs i = (\<not> ix_unique i \<or> keys_distinct (\<lambda>r. map (eval_expr r) (ix_keys i)) (rows_in tabs (ix_table i)))"

definition enforced :: "sql_schema \<Rightarrow> sql_tables \<Rightarrow> bool" where
  "enforced s tabs = (list_all (table_ok tabs) (ss_tables s) \<and> list_all (index_ok tabs) (ss_indexes s))"

end
