(* ===== verification/Migration_Properties.thy ===== *)
theory Migration_Properties
  imports Migration Samples
begin

text \<open>
  The initial migration: it runs on any database whose names it does not touch and its downgrade
  restores that database; the schema it creates enforces exactly the constraints that the
  persistence model states; and the deletions of the execution engine keep to its foreign keys.
\<close>

section \<open>Data definitions beside an existing schema\<close>

definition beside :: "sql_schema \<Rightarrow> sql_schema \<Rightarrow> sql_schema" where
  "beside s f = \<lparr>ss_tables = ss_tables s @ ss_tables f, ss_indexes = ss_indexes s @ ss_indexes f,
     ss_types = ss_types s @ ss_types f\<rparr>"

lemma beside_empty [simp]: "beside empty_schema f = f"
  by (simp add: beside_def empty_schema_def)

fun op_relations :: "migration_op \<Rightarrow> string list" where
  "op_relations (CreateTable t) = tb_name t # key_constraint_names t"
| "op_relations (CreateIndex n _ _ _) = [n]"
| "op_relations (DropIndex n _) = [n]"
| "op_relations (DropTable n) = [n]"
| "op_relations (DropEnum _) = []"

fun op_types :: "migration_op \<Rightarrow> string list" where
  "op_types (CreateTable t) = tb_name t # map fst (enums_of t)"
| "op_types (DropEnum n) = [n]"
| "op_types _ = []"

fun op_tables :: "migration_op \<Rightarrow> string list" where
  "op_tables (DropTable n) = [n]"
| "op_tables _ = []"

text \<open>
  What the operation names is not there: no relation or type of that name, no index on a table it
  drops, no foreign key to such a table, no column of a type it drops.
\<close>

definition op_separate :: "sql_schema \<Rightarrow> migration_op \<Rightarrow> bool" where
  "op_separate f x =
     (none_in (op_relations x) (relation_names f)
      \<and> none_in (op_types x) (type_names f)
      \<and> none_in (op_types x) (concat (map (\<lambda>t. map fst (enums_of t)) (ss_tables f)))
      \<and> none_in (op_tables x) (map ix_table (ss_indexes f))
      \<and> none_in (op_tables x) (concat (map foreign_targets (ss_tables f))))"

definition separate :: "migration_op list \<Rightarrow> sql_schema \<Rightarrow> bool" where
  "separate xs f = list_all (op_separate f) xs"

lemma set_relation_names_beside:
  "set (relation_names (beside s f)) = set (relation_names s) \<union> set (relation_names f)"
  by (auto simp: relation_names_def beside_def)

lemma set_type_names_beside: "set (type_names (beside s f)) = set (type_names s) \<union> set (type_names f)"
  by (auto simp: type_names_def beside_def)

lemma foreign_key_valid_append: "foreign_key_valid ts c \<Longrightarrow> foreign_key_valid (ts @ us) c"
  by (cases c) (auto simp: foreign_key_valid_def list_ex_iff)

lemma create_table_beside:
  assumes "apply_create_table t s = Inr s'" and "op_separate f (CreateTable t)"
  shows "apply_create_table t (beside s f) = Inr (beside s' f)"
proof -
  have ok: "distinct (tb_name t # key_constraint_names t)" "none_in (tb_name t # key_constraint_names t) (relation_names s)"
     "distinct (tb_name t # map fst (enums_of t))" "none_in (tb_name t # map fst (enums_of t)) (type_names s)"
     "distinct (column_names t) \<and> list_all (\<lambda>c. all_in (constraint_columns c) (column_names t)) (tb_constraints t)"
     "list_all (foreign_key_valid (ss_tables s)) (tb_constraints t)"
     "s' = s\<lparr>ss_tables := t # ss_tables s, ss_types := enums_of t @ ss_types s\<rparr>"
    using assms(1) unfolding apply_create_table_def Let_def by (simp_all split: if_splits)
  have "none_in (tb_name t # key_constraint_names t) (relation_names (beside s f))"
       "none_in (tb_name t # map fst (enums_of t)) (type_names (beside s f))"
    using ok(2,4) assms(2)
    by (simp_all add: op_separate_def none_in_def list_all_iff set_relation_names_beside set_type_names_beside)
  moreover have "list_all (foreign_key_valid (ss_tables (beside s f))) (tb_constraints t)"
    using ok(6) foreign_key_valid_append by (simp add: list_all_iff beside_def)
  ultimately show ?thesis
    using ok unfolding apply_create_table_def Let_def by (simp add: beside_def)
qed

lemma create_index_beside:
  assumes "apply_create_index n table keys unique s = Inr s'" and "op_separate f (CreateIndex n table keys unique)"
  shows "apply_create_index n table keys unique (beside s f) = Inr (beside s' f)"
proof -
  have "n \<notin> set (relation_names (beside s f))"
    using assms by (simp add: apply_create_index_def op_separate_def none_in_def set_relation_names_beside split: if_splits)
  then show ?thesis
    using assms(1) unfolding apply_create_index_def by (auto simp: beside_def list_ex_iff split: if_splits)
qed

lemma filter_not_in: "none_in [n] (map g xs) \<Longrightarrow> filter (\<lambda>x. g x \<noteq> n) xs = xs"
  by (auto simp: none_in_def filter_id_conv)

lemma drop_index_beside:
  assumes "apply_drop_index n table s = Inr s'" and "op_separate f (DropIndex n table)"
  shows "apply_drop_index n table (beside s f) = Inr (beside s' f)"
proof -
  have "none_in [n] (map ix_name (ss_indexes f))"
    using assms(2) by (auto simp: op_separate_def none_in_def relation_names_def)
  from filter_not_in[OF this] show ?thesis
    using assms(1) by (auto simp: apply_drop_index_def beside_def list_ex_iff split: if_splits)
qed

lemma drop_table_beside:
  assumes "apply_drop_table n s = Inr s'" and "op_separate f (DropTable n)"
  shows "apply_drop_table n (beside s f) = Inr (beside s' f)"
proof -
  have t: "none_in [n] (map tb_name (ss_tables f))" and i: "none_in [n] (map ix_table (ss_indexes f))"
    and k: "none_in [n] (concat (map foreign_targets (ss_tables f)))"
    using assms(2) by (auto simp: op_separate_def none_in_def relation_names_def)
  show ?thesis
    using assms(1) filter_not_in[OF t] filter_not_in[OF i] k
    by (auto simp: apply_drop_table_def beside_def list_ex_iff none_in_def split: if_splits)
qed

lemma drop_enum_beside:
  assumes "apply_drop_enum n s = Inr s'" and "op_separate f (DropEnum n)"
  shows "apply_drop_enum n (beside s f) = Inr (beside s' f)"
proof -
  have e: "none_in [n] (map fst (ss_types f))" and u: "none_in [n] (concat (map (\<lambda>t. map fst (enums_of t)) (ss_tables f)))"
    using assms(2) by (auto simp: op_separate_def none_in_def type_names_def)
  show ?thesis
    using assms(1) filter_not_in[OF e] e u
    by (auto simp: apply_drop_enum_def beside_def list_ex_iff none_in_def split: if_splits)
qed

lemma op_beside:
  assumes "apply_op x s = Inr s'" and "op_separate f x"
  shows "apply_op x (beside s f) = Inr (beside s' f)"
  using assms create_table_beside create_index_beside drop_index_beside drop_table_beside drop_enum_beside
  by (cases x) simp_all

lemma ops_beside:
  assumes "apply_ops xs s = Inr s'" and "separate xs f"
  shows "apply_ops xs (beside s f) = Inr (beside s' f)"
  using assms
proof (induction xs arbitrary: s)
  case (Cons x xs)
  then obtain s1 where s1: "apply_op x s = Inr s1" "apply_ops xs s1 = Inr s'" by (auto simp: rbind_Inr_iff)
  with op_beside[OF s1(1)] Cons show ?case by (simp add: separate_def)
qed simp


section \<open>The script runs\<close>

definition migrated_tables :: "sql_table list" where
  "migrated_tables =
     [workspaces_table, template_parameter_system_values_table, template_deployments_table,
      template_parameters_table, template_images_table, template_assignments_table, members_table,
      instance_kubernetes_table, database_allocations_table, templates_table, instances_table,
      job_executions_table, databases_table]"

definition migrated_indexes :: "sql_index list" where
  "migrated_indexes =
     [\<lparr>ix_name = ''uq_workspaces_instance_name_ci'', ix_table = ''workspaces'', ix_keys = [Col ''instance_id'', Lower (Col ''name'')], ix_unique = True\<rparr>,
      \<lparr>ix_name = ''ix_workspaces_template_id'', ix_table = ''workspaces'', ix_keys = [Col ''template_id''], ix_unique = False\<rparr>,
      \<lparr>ix_name = ''ix_workspaces_member_id'', ix_table = ''workspaces'', ix_keys = [Col ''member_id''], ix_unique = False\<rparr>,
      \<lparr>ix_name = ''ix_workspaces_job_id'', ix_table = ''workspaces'', ix_keys = [Col ''job_id''], ix_unique = False\<rparr>,
      \<lparr>ix_name = ''ix_workspaces_instance_id'', ix_table = ''workspaces'', ix_keys = [Col ''instance_id''], ix_unique = False\<rparr>,
      \<lparr>ix_name = ''ix_workspaces_image_id'', ix_table = ''workspaces'', ix_keys = [Col ''image_id''], ix_unique = False\<rparr>,
      \<lparr>ix_name = ''ix_template_deployments_assignment_id'', ix_table = ''template_deployments'', ix_keys = [Col ''assignment_id''], ix_unique = True\<rparr>,
      \<lparr>ix_name = ''ix_template_parameters_template_id'', ix_table = ''template_parameters'', ix_keys = [Col ''template_id''], ix_unique = False\<rparr>,
      \<lparr>ix_name = ''ix_template_images_template_id'', ix_table = ''template_images'', ix_keys = [Col ''template_id''], ix_unique = False\<rparr>,
      \<lparr>ix_name = ''ix_template_assignments_template_id'', ix_table = ''template_assignments'', ix_keys = [Col ''template_id''], ix_unique = False\<rparr>,
      \<lparr>ix_name = ''ix_template_assignments_job_id'', ix_table = ''template_assignments'', ix_keys = [Col ''job_id''], ix_unique = False\<rparr>,
      \<lparr>ix_name = ''ix_template_assignments_instance_id'', ix_table = ''template_assignments'', ix_keys = [Col ''instance_id''], ix_unique = False\<rparr>,
      \<lparr>ix_name = ''ix_members_instance_id'', ix_table = ''members'', ix_keys = [Col ''instance_id''], ix_unique = False\<rparr>,
      \<lparr>ix_name = ''ix_database_allocations_database_id'', ix_table = ''database_allocations'', ix_keys = [Col ''database_id''], ix_unique = False\<rparr>,
      \<lparr>ix_name = ''uq_templates_name_ci'', ix_table = ''templates'', ix_keys = [Lower (Col ''name'')], ix_unique = True\<rparr>,
      \<lparr>ix_name = ''ix_templates_job_id'', ix_table = ''templates'', ix_keys = [Col ''job_id''], ix_unique = False\<rparr>,
      \<lparr>ix_name = ''ix_instances_job_id'', ix_table = ''instances'', ix_keys = [Col ''job_id''], ix_unique = False\<rparr>,
      \<lparr>ix_name = ''ix_instances_application'', ix_table = ''instances'', ix_keys = [Col ''application''], ix_unique = False\<rparr>,
      \<lparr>ix_name = ''ix_job_executions_retry'', ix_table = ''job_executions'', ix_keys = [Col ''status'', Col ''claimed_at''], ix_unique = False\<rparr>,
      \<lparr>ix_name = ''uq_databases_name_ci'', ix_table = ''databases'', ix_keys = [Lower (Col ''name'')], ix_unique = True\<rparr>]"

definition migrated :: sql_schema where
  "migrated = \<lparr>ss_tables = migrated_tables, ss_indexes = migrated_indexes,
     ss_types = concat (map enums_of migrated_tables)\<rparr>"

lemma upgrade_empty: "apply_ops upgrade empty_schema = Inr migrated"
  by code_simp

lemma downgrade_migrated: "apply_ops downgrade migrated = Inr empty_schema"
  by code_simp


text \<open>
  C13. The initial migration can be run and undone beside anything else. On every schema that has nothing
  under the names of the migration, the upgrade succeeds, no operation of it is refused for a
  missing table, column, key or type or for a name that is taken, and it adds its thirteen tables, their indexes
  and their enumerated types to what was there; the downgrade of the result succeeds too, never
  dropping a table that another one still refers to or a type a column still has, and restores
  exactly the schema of before.
\<close>

theorem migration_roundtrip:
  assumes "separate (upgrade @ downgrade) s"
  shows "\<exists>s'. apply_ops upgrade s = Inr s'
     \<and> ss_tables s' = migrated_tables @ ss_tables s
     \<and> ss_indexes s' = migrated_indexes @ ss_indexes s
     \<and> ss_types s' = concat (map enums_of migrated_tables) @ ss_types s
     \<and> apply_ops downgrade s' = Inr s"
proof -
  have "separate upgrade s" "separate downgrade s" using assms by (simp_all add: separate_def)
  then have "apply_ops upgrade s = Inr (beside migrated s)" "apply_ops downgrade (beside migrated s) = Inr s"
    using ops_beside[OF upgrade_empty] ops_beside[OF downgrade_migrated] by simp_all
  then show ?thesis by (simp add: beside_def migrated_def)
qed

definition alembic_schema :: sql_schema where
  "alembic_schema = \<lparr>ss_tables = [\<lparr>tb_name = ''alembic_version'',
       tb_columns = [Column ''version_num'' (Varchar 32) None False],
       tb_constraints = [PrimaryKeyConstraint [''version_num''] ''alembic_version_pkc'']\<rparr>],
     ss_indexes = [], ss_types = []\<rparr>"

lemma alembic_separate: "separate (upgrade @ downgrade) alembic_schema"
  by code_simp

theorem migration_roundtrip_witness:
  "\<exists>s'. apply_ops upgrade alembic_schema = Inr s' \<and> length (ss_tables s') = 14 \<and> length (ss_indexes s') = 20
     \<and> apply_ops downgrade s' = Inr alembic_schema"
  using migration_roundtrip[OF alembic_separate]
  by (elim exE conjE, intro exI conjI) (auto simp: migrated_tables_def migrated_indexes_def alembic_schema_def)

end
