(* ===== verification/Enforcement.thy ===== *)
theory Enforcement
  imports Migration_Properties Catalogue
begin

text \<open>
  The rows of the persistence model in the tables of the migration. Every record of \<^theory_text>\<open>Models\<close> is a row;
  the audit columns, which the model keeps for jobs only, hold one instant.
\<close>

section \<open>Rows\<close>

definition opt_value :: "('a \<Rightarrow> sql_value) \<Rightarrow> 'a option \<Rightarrow> sql_value" where
  "opt_value f x = (case x of None \<Rightarrow> VNull | Some y \<Rightarrow> f y)"

definition audit :: "instant \<Rightarrow> sql_row" where
  "audit now = [(''created_at'', VTime now), (''updated_at'', VTime now)]"

definition state_value :: "instance_state \<Rightarrow> string" where
  "state_value s = (case s of STARTED \<Rightarrow> ''started'' | STOPPED \<Rightarrow> ''stopped'')"

definition parameter_type_value :: "template_parameter_type \<Rightarrow> string" where
  "parameter_type_value t = (case t of USER_PARAMETER \<Rightarrow> ''user'' | SYSTEM_PARAMETER \<Rightarrow> ''system'')"

definition job_row :: "job_execution \<Rightarrow> sql_row" where
  "job_row j = [(''id'', VUuid (j_id j)), (''name'', VText (j_name j)), (''task_name'', VText (j_task_name j)),
     (''resource_type'', opt_value VText (j_resource_type j)), (''resource_id'', opt_value VUuid (j_resource_id j)),
     (''step'', VText (j_step j)), (''status'', VText (status_value (j_status j))), (''attempt'', VInt (j_attempt j)),
     (''claimed_at'', opt_value VTime (j_claimed_at j)), (''created_at'', VTime (j_created_at j)),
     (''updated_at'', VTime (j_updated_at j))]"

definition instance_row :: "instant \<Rightarrow> inst \<Rightarrow> sql_row" where
  "instance_row now i = [(''id'', VUuid (i_id i)), (''application'', VText (i_application i)), (''slug'', VText (i_slug i)),
     (''action'', VText (i_action i)), (''status'', VText (status_value (i_status i))),
     (''state'', VText (state_value (i_state i))), (''password_enc'', opt_value VBytes (i_password_enc i)),
     (''password_candidate_enc'', opt_value VBytes (i_password_candidate_enc i)),
     (''argocd_application_name'', opt_value VText (i_argocd_application_name i)),
     (''job_id'', opt_value VUuid (i_job_id i)), (''step'', opt_value VText (i_step i))] @ audit now"

definition database_row :: "instant \<Rightarrow> database \<Rightarrow> sql_row" where
  "database_row now d = [(''id'', VUuid (d_id d)), (''name'', VText (d_name d)), (''instance_max'', VInt (d_instance_max d)),
     (''host'', VText (d_host d)), (''port'', VInt (d_port d)), (''database_name'', VText (d_database_name d)),
     (''username'', VText (d_username d)), (''password_enc'', VBytes (d_password_enc d))] @ audit now"

definition allocation_row :: "instant \<Rightarrow> database_allocation \<Rightarrow> sql_row" where
  "allocation_row now a = [(''id'', VUuid (al_id a)), (''database_id'', VUuid (al_database_id a)),
     (''instance_id'', VUuid (al_instance_id a)), (''schema_name'', VText (al_schema_name a)), (''created_at'', VTime now)]"

definition kubernetes_row :: "instant \<Rightarrow> instance_kubernetes \<Rightarrow> sql_row" where
  "kubernetes_row now k = [(''instance_id'', VUuid (k_instance_id k)), (''kubeconfig_enc'', VBytes (k_kubeconfig_enc k))]
     @ audit now"

definition member_row :: "instant \<Rightarrow> member \<Rightarrow> sql_row" where
  "member_row now m = [(''id'', VUuid (m_id m)), (''instance_id'', VUuid (m_instance_id m)),
     (''username'', VText (m_username m)), (''role'', VText (role_value (m_role m))), (''action'', VText (m_action m)),
     (''status'', VText (status_value (m_status m)))] @ audit now"

definition template_row :: "instant \<Rightarrow> template \<Rightarrow> sql_row" where
  "template_row now t = [(''id'', VUuid (t_id t)), (''display_name'', VText (t_display_name t)), (''name'', VText (t_name t)),
     (''git_url'', VText (t_git_url t)), (''source_path'', VText (t_source_path t)), (''branch'', VText (t_branch t)),
     (''modules'', VList (t_modules t)), (''system_parameter_revision'', VInt (t_system_parameter_revision t)),
     (''action'', VText (t_action t)), (''sync_status'', VText (status_value (t_sync_status t))),
     (''job_id'', opt_value VUuid (t_job_id t)), (''step'', opt_value VText (t_step t))] @ audit now"

definition image_row :: "instant \<Rightarrow> template_image \<Rightarrow> sql_row" where
  "image_row now i = [(''id'', VUuid (im_id i)), (''template_id'', VUuid (im_template_id i)),
     (''registry'', VText (im_registry_name i)), (''name'', VText (im_name i)), (''version'', VText (im_version i)),
     (''created_at'', VTime now)]"

definition parameter_row :: "instant \<Rightarrow> template_parameter \<Rightarrow> sql_row" where
  "parameter_row now p = [(''id'', VUuid (p_id p)), (''template_id'', VUuid (p_template_id p)),
     (''type'', VText (parameter_type_value (p_type p))), (''name'', VText (p_name p)),
     (''display_name'', VText (p_display_name p)), (''description'', VText (p_description p)),
     (''required'', opt_value VBool (p_required p)), (''mutable'', opt_value VBool (p_mutable p)),
     (''default_value'', opt_value VText (p_default_value p))] @ audit now"

definition system_value_row :: "template_parameter_system_value \<Rightarrow> sql_row" where
  "system_value_row v = [(''parameter_id'', VUuid (sv_parameter_id v)), (''value_enc'', VBytes (sv_value_enc v))]"

definition assignment_row :: "instant \<Rightarrow> template_assignment \<Rightarrow> sql_row" where
  "assignment_row now a = [(''id'', VUuid (ta_id a)), (''template_id'', VUuid (ta_template_id a)),
     (''instance_id'', VUuid (ta_instance_id a)), (''action'', VText (ta_action a)),
     (''status'', VText (status_value (ta_status a))), (''job_id'', opt_value VUuid (ta_job_id a)),
     (''step'', opt_value VText (ta_step a))] @ audit now"

definition deployed_row :: "instant \<Rightarrow> template_deployment \<Rightarrow> sql_row" where
  "deployed_row now t = [(''id'', VUuid (td_id t)), (''assignment_id'', VUuid (td_assignment_id t)),
     (''coder_organization_id'', opt_value VUuid (td_coder_organization_id t)),
     (''coder_template_id'', opt_value VUuid (td_coder_template_id t)),
     (''coder_template_version_id'', opt_value VUuid (td_coder_template_version_id t)),
     (''target_commit'', opt_value VText (td_target_commit t)), (''applied_commit'', opt_value VText (td_applied_commit t)),
     (''target_system_parameter_revision'', opt_value VInt (td_target_system_parameter_revision t)),
     (''applied_system_parameter_revision'', opt_value VInt (td_applied_system_parameter_revision t)),
     (''status'', VText (status_value (td_status t)))] @ audit now"

definition workspace_row :: "instant \<Rightarrow> workspace \<Rightarrow> sql_row" where
  "workspace_row now w = [(''id'', VUuid (w_id w)), (''name'', VText (w_name w)), (''instance_id'', VUuid (w_instance_id w)),
     (''template_id'', VUuid (w_template_id w)), (''member_id'', VUuid (w_member_id w)), (''image_id'', VUuid (w_image_id w)),
     (''modules'', VList (w_modules w)), (''parameters'', VDict (w_parameters w)),
     (''parameters_revision'', VInt (w_parameters_revision w)),
     (''applied_parameters_revision'', opt_value VInt (w_applied_parameters_revision w)),
     (''coder_workspace_id'', opt_value VUuid (w_coder_workspace_id w)),
     (''coder_workspace_build_id'', opt_value VUuid (w_coder_workspace_build_id w)), (''action'', VText (w_action w)),
     (''status'', VText (status_value (w_status w))), (''job_id'', opt_value VUuid (w_job_id w)),
     (''step'', opt_value VText (w_step w))] @ audit now"

definition tables_of :: "instant \<Rightarrow> db \<Rightarrow> sql_tables" where
  "tables_of now d =
     [(''databases'', map (database_row now) (databases d)),
      (''job_executions'', map job_row (job_executions d)),
      (''instances'', map (instance_row now) (instances d)),
      (''templates'', map (template_row now) (templates d)),
      (''database_allocations'', map (allocation_row now) (database_allocations d)),
      (''instance_kubernetes'', map (kubernetes_row now) (instance_kubernetes_rows d)),
      (''members'', map (member_row now) (members d)),
      (''template_assignments'', map (assignment_row now) (template_assignments d)),
      (''template_images'', map (image_row now) (template_images d)),
      (''template_parameters'', map (parameter_row now) (template_parameters d)),
      (''template_deployments'', map (deployed_row now) (template_deployments d)),
      (''template_parameter_system_values'', map system_value_row (template_parameter_system_values d)),
      (''workspaces'', map (workspace_row now) (workspaces d))]"

lemma rows_in_tables_of [simp]:
  "rows_in (tables_of now d) ''databases'' = map (database_row now) (databases d)"
  "rows_in (tables_of now d) ''job_executions'' = map job_row (job_executions d)"
  "rows_in (tables_of now d) ''instances'' = map (instance_row now) (instances d)"
  "rows_in (tables_of now d) ''templates'' = map (template_row now) (templates d)"
  "rows_in (tables_of now d) ''database_allocations'' = map (allocation_row now) (database_allocations d)"
  "rows_in (tables_of now d) ''instance_kubernetes'' = map (kubernetes_row now) (instance_kubernetes_rows d)"
  "rows_in (tables_of now d) ''members'' = map (member_row now) (members d)"
  "rows_in (tables_of now d) ''template_assignments'' = map (assignment_row now) (template_assignments d)"
  "rows_in (tables_of now d) ''template_images'' = map (image_row now) (template_images d)"
  "rows_in (tables_of now d) ''template_parameters'' = map (parameter_row now) (template_parameters d)"
  "rows_in (tables_of now d) ''template_deployments'' = map (deployed_row now) (template_deployments d)"
  "rows_in (tables_of now d) ''template_parameter_system_values'' = map system_value_row (template_parameter_system_values d)"
  "rows_in (tables_of now d) ''workspaces'' = map (workspace_row now) (workspaces d)"
  by (simp_all add: rows_in_def tables_of_def)

section \<open>Column types\<close>

text \<open>The lengths of the texts and the width of the integers, which are all that a record can violate of its column types.\<close>

definition opt_all :: "('a \<Rightarrow> bool) \<Rightarrow> 'a option \<Rightarrow> bool" where
  "opt_all p x = (case x of None \<Rightarrow> True | Some y \<Rightarrow> p y)"

definition short :: "nat \<Rightarrow> string \<Rightarrow> bool" where
  "short n s = (length s \<le> n)"

definition job_fits :: "job_execution \<Rightarrow> bool" where
  "job_fits j = (short 255 (j_name j) \<and> short 255 (j_task_name j) \<and> opt_all (short 64) (j_resource_type j)
     \<and> short 255 (j_step j) \<and> int4 (j_attempt j))"

definition instance_fits :: "inst \<Rightarrow> bool" where
  "instance_fits i = (short 255 (i_application i) \<and> short 12 (i_slug i) \<and> short 255 (i_action i)
     \<and> opt_all (short 63) (i_argocd_application_name i) \<and> opt_all (short 255) (i_step i))"

definition database_fits :: "database \<Rightarrow> bool" where
  "database_fits d = (short 255 (d_name d) \<and> int4 (d_instance_max d) \<and> short 255 (d_host d) \<and> int4 (d_port d)
     \<and> short 255 (d_database_name d) \<and> short 255 (d_username d))"

definition member_fits :: "member \<Rightarrow> bool" where
  "member_fits m = (short 255 (m_username m) \<and> short 255 (m_action m))"

definition template_fits :: "template \<Rightarrow> bool" where
  "template_fits t = (short 255 (t_display_name t) \<and> short 64 (t_name t) \<and> short 2048 (t_git_url t)
     \<and> short 1024 (t_source_path t) \<and> short 255 (t_branch t) \<and> int4 (t_system_parameter_revision t)
     \<and> short 255 (t_action t) \<and> opt_all (short 255) (t_step t))"

definition image_fits :: "template_image \<Rightarrow> bool" where
  "image_fits i = (short 255 (im_registry_name i) \<and> short 255 (im_name i) \<and> short 255 (im_version i))"

definition parameter_fits :: "template_parameter \<Rightarrow> bool" where
  "parameter_fits p = (short 64 (p_name p) \<and> short 255 (p_display_name p))"

definition assignment_fits :: "template_assignment \<Rightarrow> bool" where
  "assignment_fits a = (short 255 (ta_action a) \<and> opt_all (short 255) (ta_step a))"

definition deployment_fits :: "template_deployment \<Rightarrow> bool" where
  "deployment_fits t = (opt_all (short 40) (td_target_commit t) \<and> opt_all (short 40) (td_applied_commit t)
     \<and> opt_all int4 (td_target_system_parameter_revision t) \<and> opt_all int4 (td_applied_system_parameter_revision t))"

definition workspace_fits :: "workspace \<Rightarrow> bool" where
  "workspace_fits w = (short 32 (w_name w) \<and> int4 (w_parameters_revision w) \<and> opt_all int4 (w_applied_parameters_revision w)
     \<and> short 255 (w_action w) \<and> opt_all (short 255) (w_step w))"

definition values_fit :: "db \<Rightarrow> bool" where
  "values_fit d = (list_all job_fits (job_executions d) \<and> list_all instance_fits (instances d)
     \<and> list_all database_fits (databases d) \<and> list_all (\<lambda>a. short 63 (al_schema_name a)) (database_allocations d)
     \<and> list_all member_fits (members d) \<and> list_all template_fits (templates d) \<and> list_all image_fits (template_images d)
     \<and> list_all parameter_fits (template_parameters d) \<and> list_all assignment_fits (template_assignments d)
     \<and> list_all deployment_fits (template_deployments d) \<and> list_all workspace_fits (workspaces d))"

section \<open>References\<close>

definition refers :: "('k \<Rightarrow> 'r) \<Rightarrow> 'k list \<Rightarrow> 'r \<Rightarrow> bool" where
  "refers key rows r = (r \<in> set (map key rows))"

definition references_ok :: "db \<Rightarrow> bool" where
  "references_ok d =
     (list_all (\<lambda>i. opt_all (refers j_id (job_executions d)) (i_job_id i)) (instances d)
      \<and> list_all (\<lambda>t. opt_all (refers j_id (job_executions d)) (t_job_id t)) (templates d)
      \<and> list_all (\<lambda>a. refers d_id (databases d) (al_database_id a) \<and> refers i_id (instances d) (al_instance_id a))
          (database_allocations d)
      \<and> list_all (\<lambda>k. refers i_id (instances d) (k_instance_id k)) (instance_kubernetes_rows d)
      \<and> list_all (\<lambda>m. refers i_id (instances d) (m_instance_id m)) (members d)
      \<and> list_all (\<lambda>a. refers t_id (templates d) (ta_template_id a) \<and> refers i_id (instances d) (ta_instance_id a)
          \<and> opt_all (refers j_id (job_executions d)) (ta_job_id a)) (template_assignments d)
      \<and> list_all (\<lambda>i. refers t_id (templates d) (im_template_id i)) (template_images d)
      \<and> list_all (\<lambda>p. refers t_id (templates d) (p_template_id p)) (template_parameters d)
      \<and> list_all (\<lambda>t. refers ta_id (template_assignments d) (td_assignment_id t)) (template_deployments d)
      \<and> list_all (\<lambda>v. refers p_id (template_parameters d) (sv_parameter_id v)) (template_parameter_system_values d)
      \<and> list_all (\<lambda>w. refers im_id (template_images d) (w_image_id w) \<and> refers i_id (instances d) (w_instance_id w)
          \<and> refers m_id (members d) (w_member_id w) \<and> refers t_id (templates d) (w_template_id w)
          \<and> opt_all (refers j_id (job_executions d)) (w_job_id w)) (workspaces d))"

section \<open>Evaluation\<close>

lemma column_value_simps [simp]:
  "column_value [] c = VNull"
  "column_value ((c', v) # r) c = (if c = c' then v else column_value r c)"
  by (simp_all add: column_value_def)

lemma opt_value_eq_VNull [simp]:
  "opt_value VUuid x = VNull \<longleftrightarrow> x = None" "opt_value VText y = VNull \<longleftrightarrow> y = None"
  "opt_value VInt z = VNull \<longleftrightarrow> z = None" "opt_value VBool b = VNull \<longleftrightarrow> b = None"
  by (simp_all add: opt_value_def split: option.splits)

lemma VNull_eq_opt_value [simp]: "VNull = opt_value f x \<longleftrightarrow> opt_value f x = VNull"
  by (rule eq_commute)

lemma value_fits_simps [simp]:
  "value_fits Uuid (VUuid u)" "value_fits Uuid (opt_value VUuid x)"
  "value_fits (Varchar n) (VText s) = short n s" "value_fits (Varchar n) (opt_value VText y) = opt_all (short n) y"
  "value_fits Text (VText s)" "value_fits Text (opt_value VText y)"
  "value_fits Integer (VInt i) = int4 i" "value_fits Integer (opt_value VInt z) = opt_all int4 z"
  "value_fits LargeBinary (VBytes b)" "value_fits LargeBinary (opt_value VBytes ob)"
  "value_fits TimestampTz (VTime t)" "value_fits TimestampTz (opt_value VTime ot)"
  "value_fits Boolean (opt_value VBool q)" "value_fits Json (VList l)" "value_fits Json (VDict m)"
  by (simp_all add: value_fits_def opt_value_def opt_all_def short_def split: option.splits)

lemma enum_fits [simp]:
  "value_fits (Enum [''pending'', ''running'', ''success'', ''error''] e) (VText (status_value s))"
  "value_fits (Enum [''user'', ''admin''] e) (VText (role_value r))"
  "value_fits (Enum [''started'', ''stopped''] e) (VText (state_value st))"
  "value_fits (Enum [''user'', ''system''] e) (VText (parameter_type_value p))"
  by (cases s; cases r; cases st; cases p;
      simp add: value_fits_def status_value_def role_value_def state_value_def parameter_type_value_def)+

lemma compare_ints_simps [simp]:
  "compare_ints rel (VInt i) (VInt j) = Some (rel i j)"
  "compare_ints rel (opt_value VInt z) (VInt j) = map_option (\<lambda>i. rel i j) z"
  by (auto simp: compare_ints_def opt_value_def split: option.splits)

lemma not_blank_iff: "not_blank s \<longleftrightarrow> sql_trim s \<noteq> []"
  by (auto simp: not_blank_def)

lemma null_or_check [simp]: "sql_or (Some (z = None)) (map_option p z) = Some (opt_all p z)"
  by (auto simp: sql_or_def opt_all_def split: option.splits)

definition sha_value :: "sql_value \<Rightarrow> bool option" where
  "sha_value v = (case v of VNull \<Rightarrow> Some True | VText s \<Rightarrow> Some (length s = 40) | _ \<Rightarrow> None)"

lemma sha_value_opt: "sha_value (opt_value VText y) = Some (sha_ok y)"
  by (simp add: sha_value_def opt_value_def sha_ok_def split: option.splits)

lemma sha_cond: "eval_cond r (Or (IsNull (Col c)) (Eq (Length (Col c)) (IntLit 40))) = sha_value (column_value r c)"
  by (auto simp: sha_value_def sql_or_def split: sql_value.splits)

lemma revision_ok_opt_all: "revision_ok = opt_all ((\<le>) 0)"
  by (auto simp: revision_ok_def opt_all_def fun_eq_iff split: option.splits)

lemma keys_distinct_map [simp]: "keys_distinct key (map f xs) = keys_distinct (\<lambda>x. key (f x)) xs"
  by (simp add: keys_distinct_def comp_def)

lemma keys_distinct_unique:
  assumes "\<And>x y. key x = key y \<longleftrightarrow> f x = f y" and "\<And>x. VNull \<notin> set (key x)"
  shows "keys_distinct key xs = unique_by f xs"
  using assms by (induction xs) (auto simp: keys_distinct_def unique_by_def image_iff)

lemma keys_distinct_simps [simp]:
  "keys_distinct (\<lambda>x. [VUuid (f x)]) xs = unique_by f xs"
  "keys_distinct (\<lambda>x. [VText (g x)]) xs = unique_by g xs"
  "keys_distinct (\<lambda>x. [VUuid (f x), VText (g x)]) xs = unique_by (\<lambda>x. (f x, g x)) xs"
  "keys_distinct (\<lambda>x. [VUuid (f x), VUuid (h x)]) xs = unique_by (\<lambda>x. (f x, h x)) xs"
  "keys_distinct (\<lambda>x. [VUuid (f x), VText (g x), VText (k x), VText (l x)]) xs = unique_by (\<lambda>x. (f x, g x, k x, l x)) xs"
  by (rule keys_distinct_unique; simp)+

lemma keys_distinct_opt [simp]:
  "keys_distinct (\<lambda>x. [opt_value VText (f x)]) xs = distinct (List.map_filter f xs)"
proof (induction xs)
  case (Cons x xs)
  have "VText y \<in> set (map (\<lambda>x. opt_value VText (f x)) xs) \<longleftrightarrow> y \<in> set (List.map_filter f xs)" for y
    by (force simp: map_filter_def opt_value_def image_iff split: option.splits)
  with Cons show ?case
    by (cases "f x") (auto simp: keys_distinct_def map_filter_simps opt_value_def image_iff)
qed (simp add: keys_distinct_def map_filter_simps)

lemma refers_simps [simp]:
  "[VUuid u] \<in> (\<lambda>x. [VUuid (f x)]) ` set xs \<longleftrightarrow> refers f xs u"
  "v = None \<or> [opt_value VUuid v] \<in> (\<lambda>x. [VUuid (f x)]) ` set xs \<longleftrightarrow> opt_all (refers f xs) v"
  by (auto simp: refers_def opt_all_def opt_value_def split: option.splits)

lemmas row_defs = job_row_def instance_row_def database_row_def allocation_row_def kubernetes_row_def member_row_def
  template_row_def image_row_def parameter_row_def system_value_row_def assignment_row_def deployed_row_def
  workspace_row_def audit_def

lemmas evaluation = table_ok_def column_ok_def row_key_def image_image list_all_iff ball_conj_distrib not_blank_iff conj_ac disj_ac

lemma list_all_Nil: "list_all P [] = True"
  by simp

section \<open>Table by table\<close>

lemma databases_enforced:
  "table_ok (tables_of now d) databases_table
     \<longleftrightarrow> list_all database_fits (databases d) \<and> list_all database_check (databases d) \<and> unique_by d_id (databases d)"
  by (simp add: databases_table_def evaluation row_defs sql_and_def database_fits_def database_check_def)

lemma jobs_enforced:
  "table_ok (tables_of now d) job_executions_table
     \<longleftrightarrow> list_all job_fits (job_executions d) \<and> list_all job_check (job_executions d) \<and> unique_by j_id (job_executions d)"
  by (simp add: job_executions_table_def evaluation row_defs job_fits_def job_check_def)

lemma instances_enforced:
  "table_ok (tables_of now d) instances_table
     \<longleftrightarrow> list_all instance_fits (instances d) \<and> list_all instance_check (instances d) \<and> unique_by i_id (instances d)
       \<and> unique_by i_application (instances d) \<and> unique_by i_slug (instances d)
       \<and> distinct (List.map_filter i_argocd_application_name (instances d))
       \<and> list_all (\<lambda>i. opt_all (refers j_id (job_executions d)) (i_job_id i)) (instances d)"
  by (simp add: instances_table_def evaluation row_defs instance_fits_def instance_check_def)

lemma templates_enforced:
  "table_ok (tables_of now d) templates_table
     \<longleftrightarrow> list_all template_fits (templates d) \<and> list_all template_check (templates d) \<and> unique_by t_id (templates d)
       \<and> list_all (\<lambda>t. opt_all (refers j_id (job_executions d)) (t_job_id t)) (templates d)"
  by (simp add: templates_table_def evaluation row_defs template_fits_def template_check_def)

lemma allocations_enforced:
  "table_ok (tables_of now d) database_allocations_table
     \<longleftrightarrow> list_all (\<lambda>a. short 63 (al_schema_name a)) (database_allocations d) \<and> allocations_ok (database_allocations d)
       \<and> list_all (\<lambda>a. refers d_id (databases d) (al_database_id a) \<and> refers i_id (instances d) (al_instance_id a))
           (database_allocations d)"
  by (simp add: database_allocations_table_def evaluation row_defs allocation_check_def allocations_ok_def)

lemma kubernetes_enforced:
  "table_ok (tables_of now d) instance_kubernetes_table
     \<longleftrightarrow> unique_by k_instance_id (instance_kubernetes_rows d)
       \<and> list_all (\<lambda>k. refers i_id (instances d) (k_instance_id k)) (instance_kubernetes_rows d)"
  by (simp add: instance_kubernetes_table_def evaluation row_defs)

lemma members_enforced:
  "table_ok (tables_of now d) members_table
     \<longleftrightarrow> list_all member_fits (members d) \<and> members_ok (members d)
       \<and> list_all (\<lambda>m. refers i_id (instances d) (m_instance_id m)) (members d)"
  by (simp add: members_table_def evaluation row_defs member_fits_def member_check_def members_ok_def)

lemma assignments_enforced:
  "table_ok (tables_of now d) template_assignments_table
     \<longleftrightarrow> list_all assignment_fits (template_assignments d) \<and> assignments_ok (template_assignments d)
       \<and> list_all (\<lambda>a. refers t_id (templates d) (ta_template_id a) \<and> refers i_id (instances d) (ta_instance_id a)
           \<and> opt_all (refers j_id (job_executions d)) (ta_job_id a)) (template_assignments d)"
  by (simp add: template_assignments_table_def evaluation row_defs assignment_fits_def assignment_check_def assignments_ok_def)

lemma images_enforced:
  "table_ok (tables_of now d) template_images_table
     \<longleftrightarrow> list_all image_fits (template_images d) \<and> images_ok (template_images d)
       \<and> list_all (\<lambda>i. refers t_id (templates d) (im_template_id i)) (template_images d)"
  by (simp add: template_images_table_def evaluation row_defs image_fits_def image_check_def images_ok_def)

lemma parameter_type_check:
  "sql_or (sql_and (sql_and (Some (parameter_type_value (p_type p) = ''user'')) (Some (p_required p \<noteq> None))) (Some (p_mutable p \<noteq> None)))
     (sql_and (sql_and (sql_and (Some (parameter_type_value (p_type p) = ''system'')) (Some (p_required p = None)))
        (Some (p_mutable p = None))) (Some (p_default_value p = None))) \<noteq> Some False
   \<longleftrightarrow> (case p_type p of
          USER_PARAMETER \<Rightarrow> p_required p \<noteq> None \<and> p_mutable p \<noteq> None
        | SYSTEM_PARAMETER \<Rightarrow> p_required p = None \<and> p_mutable p = None \<and> p_default_value p = None)"
  by (auto simp: sql_or_def sql_and_def parameter_type_value_def split: template_parameter_type.splits)

lemma parameters_enforced:
  "table_ok (tables_of now d) template_parameters_table
     \<longleftrightarrow> list_all parameter_fits (template_parameters d) \<and> parameters_ok (template_parameters d)
       \<and> list_all (\<lambda>p. refers t_id (templates d) (p_template_id p)) (template_parameters d)"
  by (simp add: template_parameters_table_def evaluation row_defs parameter_fits_def parameter_check_def parameters_ok_def
      parameter_type_check del: not_None_eq)

lemma deployments_enforced:
  "table_ok (tables_of now d) template_deployments_table
     \<longleftrightarrow> list_all deployment_fits (template_deployments d) \<and> list_all deployment_check (template_deployments d)
       \<and> unique_by td_id (template_deployments d)
       \<and> list_all (\<lambda>t. refers ta_id (template_assignments d) (td_assignment_id t)) (template_deployments d)"
  by (simp add: template_deployments_table_def evaluation row_defs deployment_fits_def deployment_check_def sha_cond sha_value_opt
      revision_ok_opt_all eval_cond.simps(9)[of _ a "GreaterEq b c" for a b c] del: eval_cond.simps(9))

lemma system_values_enforced:
  "table_ok (tables_of now d) template_parameter_system_values_table
     \<longleftrightarrow> unique_by sv_parameter_id (template_parameter_system_values d)
       \<and> list_all (\<lambda>v. refers p_id (template_parameters d) (sv_parameter_id v)) (template_parameter_system_values d)"
  by (simp add: template_parameter_system_values_table_def evaluation row_defs)

lemma workspaces_enforced:
  "table_ok (tables_of now d) workspaces_table
     \<longleftrightarrow> list_all workspace_fits (workspaces d) \<and> list_all workspace_check (workspaces d) \<and> unique_by w_id (workspaces d)
       \<and> list_all (\<lambda>w. refers im_id (template_images d) (w_image_id w) \<and> refers i_id (instances d) (w_instance_id w)
          \<and> refers m_id (members d) (w_member_id w) \<and> refers t_id (templates d) (w_template_id w)
          \<and> opt_all (refers j_id (job_executions d)) (w_job_id w)) (workspaces d)"
  by (simp add: workspaces_table_def evaluation row_defs workspace_fits_def workspace_check_def revision_ok_opt_all
      flip: revision_ok_def)

lemma indexes_enforced:
  "list_all (index_ok (tables_of now d)) migrated_indexes
     \<longleftrightarrow> unique_by (\<lambda>x. lower (d_name x)) (databases d) \<and> unique_by (\<lambda>t. lower (t_name t)) (templates d)
       \<and> unique_by td_assignment_id (template_deployments d)
       \<and> unique_by (\<lambda>w. (w_instance_id w, lower (w_name w))) (workspaces d)"
  by (simp add: migrated_indexes_def index_ok_def row_defs conj_ac)


definition rows_ok :: "db \<Rightarrow> bool" where
  "rows_ok d =
     (list_all job_check (job_executions d) \<and> unique_by j_id (job_executions d)
      \<and> instances_ok (instances d) \<and> databases_ok (databases d) \<and> allocations_ok (database_allocations d)
      \<and> unique_by k_instance_id (instance_kubernetes_rows d) \<and> members_ok (members d) \<and> templates_ok (templates d)
      \<and> images_ok (template_images d) \<and> parameters_ok (template_parameters d)
      \<and> unique_by sv_parameter_id (template_parameter_system_values d) \<and> assignments_ok (template_assignments d)
      \<and> deployments_ok (template_deployments d) \<and> workspaces_ok (workspaces d))"

lemma schema_enforced:
  "enforced migrated (tables_of now d) \<longleftrightarrow> values_fit d \<and> references_ok d \<and> rows_ok d"
  unfolding enforced_def migrated_def sql_schema.select_convs indexes_enforced migrated_tables_def list.pred_inject
    databases_enforced jobs_enforced instances_enforced templates_enforced allocations_enforced kubernetes_enforced
    members_enforced assignments_enforced images_enforced parameters_enforced deployments_enforced
    system_values_enforced workspaces_enforced values_fit_def references_ok_def rows_ok_def instances_ok_def databases_ok_def
    templates_ok_def deployments_ok_def workspaces_ok_def
  by (simp only: conj_ac list_all_Nil simp_thms)

section \<open>Deletions\<close>

lemma list_all_delete_where [simp]: "list_all P xs \<Longrightarrow> list_all P (delete_where p xs)"
  by (auto simp: list_all_iff delete_where_def)

lemma distinct_map_filter_delete: "distinct (List.map_filter f xs) \<Longrightarrow> distinct (List.map_filter f (delete_where p xs))"
proof -
  have "filter (\<lambda>x. f x \<noteq> None) (filter (\<lambda>r. \<not> p r) xs) = filter (\<lambda>r. \<not> p r) (filter (\<lambda>x. f x \<noteq> None) xs)"
    by (simp add: conj_commute)
  then show "distinct (List.map_filter f xs) \<Longrightarrow> ?thesis"
    by (simp only: map_filter_def delete_where_def distinct_map_filter)
qed

lemma unique_delete [simp]: "unique_by f xs \<Longrightarrow> unique_by f (delete_where p xs)"
  by (simp add: unique_by_def delete_where_def distinct_map_filter)

lemma tables_delete_where [simp]:
  "instances_ok is \<Longrightarrow> instances_ok (delete_where p1 is)"
  "templates_ok ts \<Longrightarrow> templates_ok (delete_where p2 ts)"
  "members_ok ms \<Longrightarrow> members_ok (delete_where p3 ms)"
  "images_ok ims \<Longrightarrow> images_ok (delete_where p4 ims)"
  "parameters_ok ps \<Longrightarrow> parameters_ok (delete_where p5 ps)"
  "assignments_ok as \<Longrightarrow> assignments_ok (delete_where p6 as)"
  "deployments_ok ds \<Longrightarrow> deployments_ok (delete_where p7 ds)"
  "workspaces_ok ws \<Longrightarrow> workspaces_ok (delete_where p8 ws)"
  by (simp_all add: instances_ok_def templates_ok_def members_ok_def images_ok_def parameters_ok_def assignments_ok_def
      deployments_ok_def workspaces_ok_def distinct_map_filter_delete)


lemma refers_delete:
  assumes "refers key rows k" and "\<And>r. r \<in> set rows \<Longrightarrow> key r = k \<Longrightarrow> \<not> p r"
  shows "refers key (delete_where p rows) k"
  using assms by (auto simp: refers_def delete_where_def)














section \<open>The schema and the model\<close>

text \<open>
  C11. The schema of the migration enforces exactly what the persistence model states. On a fresh database
  the upgrade yields a schema that accepts the rows of a state, with their column types, NOT NULL,
  check, primary key, unique and foreign key constraints and its unique indexes, if and only if
  the texts and integers fit their columns, every reference has its target, and the table
  predicates of the model, which the repositories check at their commits, hold.
\<close>

theorem schema_enforces_the_model:
  "\<exists>s. apply_ops upgrade empty_schema = Inr s
     \<and> (\<forall>now d. enforced s (tables_of now d) \<longleftrightarrow>
          values_fit d \<and> references_ok d
          \<and> list_all job_check (job_executions d) \<and> unique_by j_id (job_executions d)
          \<and> instances_ok (instances d) \<and> databases_ok (databases d) \<and> allocations_ok (database_allocations d)
          \<and> unique_by k_instance_id (instance_kubernetes_rows d) \<and> members_ok (members d) \<and> templates_ok (templates d)
          \<and> images_ok (template_images d) \<and> parameters_ok (template_parameters d)
          \<and> unique_by sv_parameter_id (template_parameter_system_values d) \<and> assignments_ok (template_assignments d)
          \<and> deployments_ok (template_deployments d) \<and> workspaces_ok (workspaces d))"
  using upgrade_empty schema_enforced unfolding rows_ok_def by blast





end
