(* ===== verification/Spec2Isabelle.thy ===== *)
theory Spec2Isabelle
  imports Directory_Properties Catalogue_Properties Coder_Properties Auth_Properties
    Schema_Properties Source_Properties Process_Properties Enforcement
begin

text \<open>
  \<^bold>\<open>CoderManager: a verification library.\<close>

  CoderManager is a control plane for Coder instances. A FastAPI process accepts requests and
  stages durable jobs in PostgreSQL; Celery workers claim the jobs and run them step by step
  against Argo CD, PostgreSQL and the Coder instances themselves; Celery beat starts the scan
  that puts interrupted jobs back in the queue and a few periodic tasks. All paths below are
  under \<^verbatim>\<open>src/src/coder_manager\<close>.

  \<^bold>\<open>The parts and their theories.\<close>

  \<^item> \<open>Prelude\<close>: identifiers, results with exceptions as values, tables as lists of rows with a
    primary key, Python dictionaries as association lists, the string functions the code uses.
  \<^item> \<open>Models\<close>: one record per class of \<^verbatim>\<open>models/\<close>, its constraints as predicates, and the store
    \<open>db\<close> with one table per class. The world of a task is the store and the broker's queue.
  \<^item> \<open>Registry\<close>, \<open>Execution\<close>: the allowlist and dispatch (\<^verbatim>\<open>tasks/common/registry.py\<close>) and the
    engine (\<^verbatim>\<open>tasks/common/execution.py\<close>, \<^verbatim>\<open>repositories/job_executions.py\<close>,
    \<^verbatim>\<open>tasks/retry_job_executions.py\<close>): claim, ownership, advance, complete, defer, fail, heartbeat,
    retry, and the wrapper every step runs in. The four kinds of row that carry a job are
    instances of the locale \<open>lifecycle_row\<close>.
  \<^item> \<open>Engine\<close>, \<open>Recovery\<close>, \<open>System\<close>: the invariant that ties jobs to rows, recovery, and the
    abstract specification of the whole program: the relation \<open>sys_txn\<close>, one step per committed
    transaction. The locales \<open>invariant_system\<close> and \<open>fencing\<close> carry the proofs by induction over
    runs; they are interpreted for the engine, the pool, the directory of members and
    workspaces, the secrets and the catalogue.
  \<^item> \<open>Databases\<close>, \<open>Instances\<close>: \<^verbatim>\<open>repositories/managed_databases.py\<close>, \<^verbatim>\<open>repositories/instances.py\<close> and
    \<^verbatim>\<open>repositories/instance_kubernetes.py\<close>.
  \<^item> \<open>Task_Env\<close>, \<open>Instance_Tasks\<close>, \<open>Instance_Facts\<close>: the language of task bodies and the twelve
    steps of \<^verbatim>\<open>tasks/instance/\<close>.
  \<^item> \<open>Members\<close>, \<open>Workspaces\<close>, \<open>Directory\<close>: \<^verbatim>\<open>repositories/members.py\<close>, \<^verbatim>\<open>repositories/workspaces.py\<close>
    and both together with the update steps.
  \<^item> \<open>Templates\<close>, \<open>Catalogue\<close>, \<open>Assignments\<close>: \<^verbatim>\<open>repositories/templates.py\<close>,
    \<^verbatim>\<open>repositories/template_images.py\<close>, \<^verbatim>\<open>repositories/template_parameters.py\<close>,
    \<^verbatim>\<open>repositories/template_assignments.py\<close>.
  \<^item> \<open>Coder_Models\<close>, \<open>Workspace_Tasks\<close>, \<open>Template_Tasks\<close>, \<open>Periodic_Tasks\<close>: \<^verbatim>\<open>tasks/workspace/\<close>,
    \<^verbatim>\<open>tasks/template/\<close>, \<^verbatim>\<open>tasks/check_instance_states.py\<close>, \<^verbatim>\<open>tasks/daily_workspace_stops.py\<close>,
    \<^verbatim>\<open>tasks/healthcheck.py\<close>, \<^verbatim>\<open>tasks/database/\<close>.
  \<^item> \<open>Ciphers\<close>: \<^verbatim>\<open>crypto.py\<close>. \<open>Settings\<close>: \<^verbatim>\<open>config.py\<close>. \<open>Coder_Http\<close>, \<open>Coder_Client\<close>,
    \<open>Coder_Service\<close>: \<^verbatim>\<open>domains/coder/\<close>. \<open>ArgoCd\<close>: \<^verbatim>\<open>domains/argocd/\<close>.
  \<^item> \<open>Api\<close>, \<open>Instance_Routes\<close>, \<open>Directory_Routes\<close>, \<open>Catalogue_Routes\<close>, \<open>Router\<close>: \<^verbatim>\<open>api/routes/\<close>,
    \<^verbatim>\<open>api/router.py\<close> and the response schemas; \<open>serve\<close> is the function of all requests that may
    change the store. \<open>Refusals\<close> and \<open>Confidentiality\<close> hold the lemmas on errors and on secrets.
  \<^item> \<open>Texts\<close>, \<open>Schemas\<close>: the request schemas of \<^verbatim>\<open>schemas/\<close>. \<open>Auth\<close>, \<open>Validation_Errors\<close>: \<^verbatim>\<open>auth.py\<close>,
    \<^verbatim>\<open>main.py\<close>. \<open>Template_Source\<close>: \<^verbatim>\<open>domains/template_source/\<close>.
  \<^item> \<open>Metrics\<close>, \<open>Processes\<close>: \<^verbatim>\<open>metrics.py\<close>, \<^verbatim>\<open>celery_app.py\<close>, \<^verbatim>\<open>celery_entrypoint.py\<close>,
    \<^verbatim>\<open>worker_database.py\<close>, \<^verbatim>\<open>domains/postgresql/service.py\<close>.
  \<^item> \<open>Migration\<close>: \<^verbatim>\<open>src/migrations/versions/e669afab6842_initial_schema.py\<close>, with an interpreter of
    data definitions and of the constraints they leave; \<open>Enforcement\<close> puts the rows of \<open>Models\<close> into its
    tables and compares.
  \<^item> \<open>Samples\<close>: concrete stores, claims and environments for the witnesses. The properties are in
    this theory, in \<open>Enforcement\<close> and in the theories whose names end in \<open>Properties\<close>.

  \<^bold>\<open>How the model corresponds to the code.\<close> A repository method is a function from the store
  to an error or a new store: it runs in one transaction that holds the row locks it takes, so
  its effect is one atomic change, and a rollback is an error value with no store. Unique and
  foreign keys are checked where the code commits. Keys, random draws and clock readings are
  arguments. A task body is a sequence of transactions and remote calls over an environment
  that may change the store arbitrarily before every transaction (\<open>e_during\<close>); the hypothesis
  \<open>safe_env\<close> of the refinement theorems says that those changes are themselves transactions of
  the system. Bodies see the remote services as outcomes in the environment; \<open>Coder_Client\<close>
  and \<open>Coder_Service\<close> model the services themselves as functions of a transport that answers
  requests and has a state of its own.

  \<^bold>\<open>What is shown.\<close> Stale workers are fenced; every task and every request refines the system
  (C1 to C3). The steps that requests dispatch can be claimed, refusals change nothing and are
  translated, answers hide credentials (C4 to C6). Only administrators are served, validation
  errors hide secrets, reported conflicts are real, archives hold exactly what they should (C7 to
  C10). The schema of the migration enforces exactly the constraints of the model, deletions keep
  to its foreign keys, and it can be undone (C11 to C13); the metrics of a worker are exact (C14).
  Jobs and rows stay consistent and finished jobs final, interrupted and failed jobs come back (C15
  to C18). The pool is never overbooked, placement is optimal, creation ends, requests exclude each
  other (C19 to C22). The steps keep the password across retries, remove everything and drop
  schemas last (C23 to C25); pages partition the rows (C26). Changes of membership are picked up and
  never cascade to workspaces (C27, C28). Revisions version secrets, workspaces fit their
  templates, foreign templates are never adopted, a success means that a workspace is applied (C29
  to C32). Credentials round trip and are bound to their row, listings are complete and end,
  deletions spare what they must (C33 to C37). Argo CD applications of others are never touched, the
  Helm arguments are faithful and template references safe (C38 to C40).

  \<^bold>\<open>Loops, bounds and fuel.\<close> The slug loop runs over the list of draws and C21 shows when it
  ends. Poll loops run under a wall-clock deadline; the model counts how many deadline checks
  still pass (\<open>r_checks\<close>, or an argument), and every count is covered because it is universally
  quantified, so this is the code's own bound and not fuel of the model. The listing of all
  workspaces is a terminating function since the count is fixed by its first page; the listing by
  status is a partial function, and C36 shows when it returns. Database utilisation is compared
  as an exact fraction. Ports, counts and revisions are integers, as Python has them. Texts
  are lists of characters and \<open>lower\<close> and \<open>strip\<close> act on ASCII; the ciphers work on Unicode code
  points.

  \<^bold>\<open>Not modelled.\<close> Libraries are parameters: the AEAD, the token and key clients, the URL parser,
  the trimming and JSON decoding of the schema library, Git, the tar format, the HTTP transports, the
  database driver, the time zone database. The migration environment (\<^verbatim>\<open>migrations/env.py\<close>) and the construction of the Celery
  application and of the asynchronous engine only configure libraries. The audit timestamps
  \<open>created_at\<close> and \<open>updated_at\<close> are kept for jobs only, where the engine reads them; the percentage
  shown in usage statistics is an argument, since it is a rounded float; log lines are dropped.
\<close>

section \<open>The execution engine\<close>

text \<open>
  C1. A worker that lost its job can never write again: once a job has been claimed a second
  time, no later state of the system, whatever requests, workers and scans do in any order,
  lets the first claim own the job, and each of the five transactions of the first worker
  leaves the store as it is. The runs may drop the job; they do not issue its key again.
\<close>

theorem stale_claim_fenced:
  assumes c1: "claim_execution k t1 now1 d = (d1, Some c1)" and run1: "sys_run_for k d1 d2"
    and c2: "claim_execution k t2 now2 d2 = (d3, Some c2)" and run2: "sys_run_for k d3 (store w)"
  shows "owned_execution (store w) c1 = None
    \<and> advance_execution cel c1 t st m now w = Inr (w, False)
    \<and> complete_execution c1 m del now (store w) = Inr (store w, False)
    \<and> defer_execution c1 m now (store w) = Inr (store w, False)
    \<and> fail_execution c1 g now (store w) = store w
    \<and> heartbeat_execution c1 now (store w) = (store w, False)"
proof -
  have "owned_execution (store w) c1 = None"
    using claims.never_again[OF reclaim_spends(1)[OF c1 run1 c2] run2] by blast
  with stale_claim_noop[OF this] show ?thesis by simp
qed

theorem stale_claim_fenced_witness:
  "owned_execution sample_claimed_again (sample_claim 1) = None
   \<and> fail_execution (sample_claim 1) (\<lambda>d. d) 40 sample_claimed_again = sample_claimed_again"
proof -
  have reclaim: "prepare_execution_retry 1 10 20 sample_claimed = (sample_reclaimed, Some INSTANCE_STOP_STEP_02_TASK)"
    by code_simp
  have "job_of sample_claimed 1 \<noteq> None" by code_simp
  with sys_txn.reclaim[OF reclaim] have "sys_step_for 1 sample_claimed sample_reclaimed"
    unfolding sys_step_for_def by blast
  then have run: "sys_run_for 1 sample_claimed sample_reclaimed" by (rule r_into_rtranclp)
  show ?thesis
    using stale_claim_fenced[OF sample_claims(1) run sample_claims(2),
        where w = "\<lparr>store = sample_claimed_again, broker = []\<rparr>"] by simp
qed

text \<open>
  C15. In every state that the system can reach from an empty store, a job is running exactly
  when it carries the instant of its claim, its attempt counter is not negative, and the row
  it is attached to has the same status as the job.
\<close>

theorem reachable_engine_invariant:
  assumes "sys_run empty_db d" and "job_of d k = Some job"
  shows "(j_status job = RUNNING \<longleftrightarrow> j_claimed_at job \<noteq> None) \<and> 0 \<le> j_attempt job
    \<and> (resource_matches job (resource_for_job d job) \<longrightarrow>
         (case resource_for_job d job of None \<Rightarrow> True | Some r \<Rightarrow> resource_status r = j_status job))"
proof -
  have "engine_inv d" by (rule engine.run_preserved[OF assms(1)]) simp
  from engine_inv_job(1,2)[OF this assms(2)] show ?thesis
    by (auto simp: job_ok_def lifecycle_ok_def split: option.splits)
qed

theorem reachable_engine_invariant_witness:
  "j_claimed_at (add_job_execution 5 ''database.sync'' DATABASE_SYNC_STEP_01_TASK None None
      DATABASE_SYNC_STEP_01 0) = None"
proof -
  let ?job = "add_job_execution 5 ''database.sync'' DATABASE_SYNC_STEP_01_TASK None None DATABASE_SYNC_STEP_01 0"
  have "sys_txn empty_db (stage_job ?job empty_db)"
    by (rule sys_txn.system_job) (simp_all add: empty_db_def select_row_def)
  then have run: "sys_run empty_db (stage_job ?job empty_db)" by (rule r_into_rtranclp)
  have job: "job_of (stage_job ?job empty_db) 5 = Some ?job" by code_simp
  from reachable_engine_invariant[OF run job] show ?thesis by (simp add: add_job_execution_def)
qed

text \<open>
  C16. A finished job is finished for good: whatever the system does next, the job is either
  dropped or still there, successful and with the same attempt counter, and it can neither be
  claimed nor prepared for a retry.
\<close>

theorem finished_job_is_final:
  assumes run: "sys_run_for k d d'" and job: "job_of d k = Some job" "j_status job = SUCCESS"
  shows "(case job_of d' k of None \<Rightarrow> True
      | Some job' \<Rightarrow> j_status job' = SUCCESS \<and> j_attempt job' = j_attempt job)
    \<and> claim_execution k t now d' = (d', None) \<and> prepare_execution_retry k stale now d' = (d', None)"
proof -
  have "job_after k job d" using job(1) by (simp add: job_after_def)
  with run have after: "job_after k job d'" by (rule after.run_preserved)
  show ?thesis
  proof (cases "job_of d' k")
    case None
    then show ?thesis by (simp add: claim_execution_def prepare_execution_retry_def)
  next
    case (Some job')
    with after have "job_le job job'" by (simp add: job_after_def)
    with job(2) have "j_status job' = SUCCESS" "j_attempt job' = j_attempt job"
      unfolding job_le_def by blast+
    with Some show ?thesis by (simp add: claim_execution_def prepare_execution_retry_def)
  qed
qed

theorem finished_job_is_final_witness:
  "claim_execution 1 INSTANCE_STOP_STEP_02_TASK 9
     (sample_db\<lparr>job_executions := [sample_job\<lparr>j_status := SUCCESS\<rparr>]\<rparr>)
   = (sample_db\<lparr>job_executions := [sample_job\<lparr>j_status := SUCCESS\<rparr>]\<rparr>, None)"
proof -
  let ?d = "sample_db\<lparr>job_executions := [sample_job\<lparr>j_status := SUCCESS\<rparr>]\<rparr>"
  have "job_of ?d 1 = Some (sample_job\<lparr>j_status := SUCCESS\<rparr>)" by code_simp
  from finished_job_is_final[OF rtranclp.rtrancl_refl this] show ?thesis by (simp add: sample_job_def)
qed

text \<open>
  C17. The periodic scan recovers every interrupted job: a job that has not succeeded and is
  still attached to its row is, if it is idle or its claim is at least as old as the
  staleness bound, back in the queue after one scan and can be claimed by the next worker,
  provided its task is registered and loaded and the broker accepts it.
\<close>

theorem retry_scan_recovers:
  assumes job: "job_of (store w) k = Some job" "j_status job \<noteq> SUCCESS"
      "resource_matches job (resource_for_job (store w) job)"
    and stale: "j_status job = RUNNING \<Longrightarrow> \<exists>c. j_claimed_at job = Some c \<and> c \<le> now - job_stale_after"
    and up: "j_task_name job \<in> set REGISTERED_STEP_NAMES" "task_loaded cel (j_task_name job)"
      "delay_succeeds cel (j_task_name job) k"
  shows "(j_task_name job, k) \<in> set (broker (fst (retry_job_executions cel job_stale_after now w)))
    \<and> (\<exists>d' c. claim_execution k (j_task_name job) now'
          (store (fst (retry_job_executions cel job_stale_after now w))) = (d', Some c))"
proof -
  let ?stale = "now - job_stale_after"
  have retry: "retryable (store w) ?stale k (j_task_name job)"
    using job stale by (auto simp: retryable_def)
  have "k \<in> set (retry_candidates ?stale (store w))" by (rule retryable_candidate[OF retry])
  from retry_each_recovers[OF retry this up, of now 0 0] show ?thesis
    by (simp add: retry_job_executions_def Let_def claimable_claims)
qed

theorem retry_scan_recovers_witness:
  "(INSTANCE_STOP_STEP_02_TASK, 1) \<in>
     set (broker (fst (retry_job_executions sample_celery 10 30 \<lparr>store = sample_claimed, broker = []\<rparr>)))"
proof -
  let ?job = "sample_job\<lparr>j_status := RUNNING, j_attempt := 1, j_claimed_at := Some 10, j_updated_at := 10\<rparr>"
  let ?w = "\<lparr>store = sample_claimed, broker = []\<rparr>"
  have 1: "job_of (store ?w) 1 = Some ?job" by code_simp
  have 2: "resource_matches ?job (resource_for_job (store ?w) ?job)" by code_simp
  have 3: "j_task_name ?job \<in> set REGISTERED_STEP_NAMES" by code_simp
  have name: "j_task_name ?job = INSTANCE_STOP_STEP_02_TASK" by (simp add: sample_job_def)
  show ?thesis
    using retry_scan_recovers[OF 1 _ 2, where now = 30 and job_stale_after = 10 and cel = sample_celery] 3
    unfolding name by (simp add: sample_celery_def)
qed

text \<open>
  C18. A step whose body raises while it still owns its job leaves that job in error, without
  a claim, at the same step, and any scan finds it.
\<close>

theorem failed_step_is_retryable:
  assumes claim: "claim_execution k t now (store w) = (d, Some c)"
    and body: "operation c (w\<lparr>store := d\<rparr>) = (w', Inl e)"
    and own: "owned_execution (store w') c \<noteq> None"
  shows "\<exists>w'' job. run_claimed_step k t now fail_now operation w = (w'', Inl e)
    \<and> job_of (store w'') k = Some job \<and> j_status job = ERROR \<and> j_claimed_at job = None
    \<and> j_task_name job = t \<and> j_step job = c_step c \<and> k \<in> set (retry_candidates stale (store w''))"
proof -
  let ?w = "w'\<lparr>store := fail_execution c (\<lambda>d. d) fail_now (store w')\<rparr>"
  have k: "c_job_id c = k" by (rule claim_owns(2)[OF claim])
  have t: "c_task_name c = t" by (rule claim_execution_Some[OF claim]) simp
  from own obtain job res where own': "owned_execution (store w') c = Some (job, res)" by auto
  obtain job' where job': "job_of (store ?w) k = Some job'" "j_status job' = ERROR"
      "j_claimed_at job' = None" "j_step job' = j_step job" "j_task_name job' = j_task_name job"
    using fail_execution_owned[OF own', of fail_now] k by auto
  moreover have "j_step job = c_step c" "j_task_name job = t"
    using own' t by (simp_all add: owned_execution_iff)
  moreover have "k \<in> set (retry_candidates stale (store ?w))"
    using job'(1,2) by (force simp: retry_candidates_def dest: select_row_Some)
  moreover have "run_claimed_step k t now fail_now operation w = (?w, Inl e)"
    using claim body by (simp add: run_claimed_step_def)
  ultimately show ?thesis by auto
qed

theorem failed_step_is_retryable_witness:
  "\<exists>w job. run_claimed_step 1 INSTANCE_STOP_STEP_02_TASK 10 12 (\<lambda>_. traise (RemoteError [])) sample_world = (w, Inl (RemoteError []))
    \<and> job_of (store w) 1 = Some job \<and> j_status job = ERROR"
proof -
  have claim: "claim_execution 1 INSTANCE_STOP_STEP_02_TASK 10 (store sample_world) = (sample_claimed, Some (sample_claim 1))"
    using sample_claims(1) by (simp add: sample_world_def)
  have body: "(\<lambda>_. traise (RemoteError [])) (sample_claim 1) (sample_world\<lparr>store := sample_claimed\<rparr>)
      = (sample_world\<lparr>store := sample_claimed\<rparr>, Inl (RemoteError []))"
    by (simp add: traise_def)
  have own: "owned_execution (store (sample_world\<lparr>store := sample_claimed\<rparr>)) (sample_claim 1) \<noteq> None"
    using claim_owns(1)[OF sample_claims(1)] by simp
  from failed_step_is_retryable[where operation = "\<lambda>_. traise (RemoteError [])", OF claim body own, of 12 0]
  show ?thesis by blast
qed

text \<open>
  Nothing but a registered task ever reaches the broker: if a dispatch is accepted the
  name is on the allowlist and exactly that message is appended, and a refused dispatch
  leaves the queue as it was.
\<close>

lemma dispatch_allowlist:
  "case dispatch_registered_step cel task_name job_id q of
     (q', accepted) \<Rightarrow>
       q' = (if accepted then q @ [(task_name, job_id)] else q)
       \<and> (accepted \<longleftrightarrow> task_name \<in> set REGISTERED_STEP_NAMES \<and> task_loaded cel task_name
             \<and> delay_succeeds cel task_name job_id)"
  by (auto simp: dispatch_registered_step_def split: if_splits)

section \<open>The database pool\<close>

text \<open>
  C19. However databases are created, resized and deleted and instances are placed and
  removed, no managed database ever holds more instances than its capacity, and no
  allocation refers to a database that is gone.
\<close>

theorem pool_never_overbooked:
  assumes "pool_step\<^sup>*\<^sup>* empty_db d"
  shows "(\<forall>x\<in>set (databases d). allocation_count d (d_id x) \<le> d_instance_max x)
    \<and> (\<forall>a\<in>set (database_allocations d). \<exists>x\<in>set (databases d). d_id x = al_database_id a)"
  using pool_invD[OF pool.run_preserved[OF assms pool_inv_empty]] by blast

theorem pool_never_overbooked_witness:
  "case create_database 3 sample_payload ''pw'' (\<lambda>p _. text_bytes p) empty_db of
     Inr (d, _) \<Rightarrow> \<forall>x\<in>set (databases d). allocation_count d (d_id x) \<le> d_instance_max x
   | Inl _ \<Rightarrow> False"
proof -
  obtain d u where d: "create_database 3 sample_payload ''pw'' (\<lambda>p _. text_bytes p) empty_db = Inr (d, u)"
    using sample_create_database by auto
  have "pool_step\<^sup>*\<^sup>* empty_db d" by (rule r_into_rtranclp) (rule pool_step.create_db[OF d])
  from pool_never_overbooked[OF this] d show ?thesis by simp
qed



section \<open>Instance requests\<close>



text \<open>
  A created instance is ready to be worked on: its creation is one run of the system,
  its job can be claimed at once for the first creation step, and exactly one allocation, on
  a database that had room, names a schema that is never another instance's.
\<close>

theorem created_instance_is_schedulable:
  assumes "create_instance application ik jk ak slugs now d = Some (Inr (d', row))"
  shows "sys_run d d' \<and> claimable d' jk INSTANCE_CREATE_STEP_01_TASK
    \<and> (\<exists>x a. x \<in> set (databases d) \<and> allocation_count d (d_id x) < d_instance_max x
         \<and> database_allocations d' = database_allocations d @ [a]
         \<and> al_instance_id a = ik \<and> al_database_id a = d_id x \<and> al_schema_name a = schema_name_for ik
         \<and> (\<forall>k. schema_name_for k = al_schema_name a \<longrightarrow> k = ik) \<and> length (al_schema_name a) \<le> 63)"
proof (intro conjI)
  show "sys_run d d'" by (rule run_create_instance[OF assms])
  show "claimable d' jk INSTANCE_CREATE_STEP_01_TASK" by (rule claimable_create_instance[OF assms])
  from assms obtain x where x: "select_database d = Some x"
    and d': "database_allocations d' = insert_row \<lparr>al_id = ak, al_database_id = d_id x,
            al_instance_id = ik, al_schema_name = schema_name_for ik\<rparr> (database_allocations d)"
    by (rule create_instance_Inr) simp
  show "\<exists>x a. x \<in> set (databases d) \<and> allocation_count d (d_id x) < d_instance_max x
         \<and> database_allocations d' = database_allocations d @ [a]
         \<and> al_instance_id a = ik \<and> al_database_id a = d_id x \<and> al_schema_name a = schema_name_for ik
         \<and> (\<forall>k. schema_name_for k = al_schema_name a \<longrightarrow> k = ik) \<and> length (al_schema_name a) \<le> 63"
    using select_database_Some[OF x]
    by (intro exI[of _ x] exI[of _ "\<lparr>al_id = ak, al_database_id = d_id x,
            al_instance_id = ik, al_schema_name = schema_name_for ik\<rparr>"])
       (auto simp: d' insert_row_def dest: schema_name_inj)
qed

theorem created_instance_is_schedulable_witness:
  "claimable (fst (projr (the (create_instance ''NEW'' 9 10 11 [''abd''] 0 sample_pool)))) 10 INSTANCE_CREATE_STEP_01_TASK"
proof -
  have "create_instance ''NEW'' 9 10 11 [''abd''] 0 sample_pool
      = Some (Inr (projr (the (create_instance ''NEW'' 9 10 11 [''abd''] 0 sample_pool))))"
    by code_simp
  then obtain d' row where "create_instance ''NEW'' 9 10 11 [''abd''] 0 sample_pool = Some (Inr (d', row))"
    by (cases "projr (the (create_instance ''NEW'' 9 10 11 [''abd''] 0 sample_pool))") simp
  with created_instance_is_schedulable[OF this] show ?thesis by simp
qed



text \<open>
  A deletion is accepted exactly for an instance that exists, has no active template
  assignment and is either successfully reconciled or a failed creation; a failed creation
  that never got a password skips the removal of its workspaces; every refusal says whether
  the instance is missing or in conflict and changes nothing.
\<close>

lemma deletion_request_exact:
  assumes "job_of d jk = None"
  shows "case instance_of d k of
     None \<Rightarrow> request_instance_deletion k jk now d = Inl InstanceNotFoundError
   | Some i \<Rightarrow>
       if has_active_template_assignment d k \<or> \<not> (successfully_reconciled i \<or> failed_creation i)
       then request_instance_deletion k jk now d = Inl InstanceActionConflictError
       else (\<exists>d' i'. request_instance_deletion k jk now d = Inr (d', i')
              \<and> i_action i' = ''deleting'' \<and> i_status i' = PENDING \<and> i_job_id i' = Some jk
              \<and> claimable d' jk (if i_action i = ''creating'' \<and> i_status i = ERROR \<and> i_password_enc i = None
                                  then INSTANCE_DELETE_STEP_02_TASK else INSTANCE_DELETE_STEP_01_TASK))"
proof (cases "instance_of d k")
  case None
  then show ?thesis by (simp add: request_instance_deletion_def)
next
  case (Some i)
  then have id: "i_id i = k" by (rule select_row_key)
  with Some have row: "instance_of d (i_id i) = Some i" by simp
  have entry: "fst (deletion_entry i) = (if i_action i = ''creating'' \<and> i_status i = ERROR \<and> i_password_enc i = None
      then INSTANCE_DELETE_STEP_02_TASK else INSTANCE_DELETE_STEP_01_TASK)"
    by (simp add: deletion_entry_def failed_creation_def Let_def)
  have cl: "claimable (fst (attach_instance_job i ''deleting'' ''instance.delete'' (fst (deletion_entry i))
      (snd (deletion_entry i)) jk now d)) jk (fst (deletion_entry i))"
    by (rule claimable_attach[OF row assms]) simp
  show ?thesis
    using Some id cl[unfolded entry]
    by (auto simp: request_instance_deletion_def split_beta entry guard_that_def attach_instance_job_def Let_def)
qed

lemma deletion_request_exact_sample:
  "\<exists>d' i'. request_instance_deletion 7 2 0 sample_idle = Inr (d', i')
     \<and> claimable d' 2 INSTANCE_DELETE_STEP_01_TASK"
proof -
  have fresh: "job_of sample_idle 2 = None" by code_simp
  have "instance_of sample_idle 7 = Some (sample_instance\<lparr>i_action := ''creating'', i_step := None,
     i_status := SUCCESS, i_job_id := None\<rparr>)" "\<not> has_active_template_assignment sample_idle 7"
    by code_simp+
  with deletion_request_exact[OF fresh, of 7 0] show ?thesis
    by (auto simp: successfully_reconciled_def)
qed

section \<open>Instance workflows\<close>

text \<open>
  C23. The administrator password survives a crash between its creation and its promotion:
  whatever password the first attempt hands to Coder, any later attempt that owns the same
  instance row hands over the same one without drawing again, and promoting it makes it the
  password that later steps read back. This rests on the cipher being invertible for the
  instance it was used with.
\<close>

theorem bootstrap_password_survives_retry:
  assumes law: "password_cipher_law env"
    and own: "owned_execution d c = Some (job, Some (RInstance i))"
    and prep: "prepare_bootstrap env c base d = Inr (d1, Some p)" "bp_password p = Some pw"
    and later: "owned_execution d2 c2 = Some (job2, Some (RInstance i2))" "i_id i2 = i_id i"
      "instance_of d2 (i_id i) = instance_of d1 (i_id i)"
    and env2: "e_decrypt_instance_password env2 = e_decrypt_instance_password env"
  shows "(\<exists>p2. prepare_bootstrap env2 c2 base d2 = Inr (d2, Some p2) \<and> bp_password p2 = Some pw)
    \<and> (\<exists>i3. promote_password d2 (Some (RInstance i2)) = Inr (d2, Some (RInstance i3))
         \<and> i_password_candidate_enc i3 = None
         \<and> stored_admin_password env2 (i_id i) base (save_resource (RInstance i3) d2)
             = Inr (Some (url_for base (i_slug i2), pw)))"
proof -
  obtain i1 enc where i1: "instance_of d1 (i_id i) = Some i1" "i_password_enc i1 = None"
      "i_password_candidate_enc i1 = Some enc" "e_decrypt_instance_password env enc (i_id i) = Inr pw"
    using prepare_bootstrap_password[OF law own prep] by blast
  have "instance_of d2 (i_id i2) = Some i2" by (rule owned_instance_of[OF later(1)])
  with later(2,3) i1(1) have [simp]: "i1 = i2" by simp
  have row: "i_password_enc i2 = None" "i_password_candidate_enc i2 = Some enc"
      "e_decrypt_instance_password env2 enc (i_id i2) = Inr pw"
    using i1 env2 later(2) by simp_all
  let ?i3 = "i2\<lparr>i_password_enc := Some enc, i_password_candidate_enc := None\<rparr>"
  have "instance_of d2 (i_id i2) = Some i2" using i1 later by simp
  with row later(2) have "stored_admin_password env2 (i_id i) base (save_resource (RInstance ?i3) d2)
      = Inr (Some (url_for base (i_slug i2), pw))"
    by (simp add: stored_admin_password_def)
  moreover have "promote_password d2 (Some (RInstance i2)) = Inr (d2, Some (RInstance ?i3))"
    using row by (simp add: promote_password_def on_instance_def)
  moreover have "\<exists>p2. prepare_bootstrap env2 c2 base d2 = Inr (d2, Some p2) \<and> bp_password p2 = Some pw"
    using prepare_bootstrap_again[OF later(1) row] by simp
  ultimately show ?thesis by auto
qed

theorem bootstrap_password_survives_retry_witness:
  "\<exists>d1 p p2. prepare_bootstrap sample_env sample_bootstrap_claim ''example.org'' sample_bootstrapping = Inr (d1, Some p)
     \<and> bp_password p = Some ''secret''
     \<and> prepare_bootstrap (sample_env\<lparr>e_token_urlsafe := ''other''\<rparr>) sample_bootstrap_claim ''example.org'' d1
         = Inr (d1, Some p2) \<and> bp_password p2 = Some ''secret''"
proof -
  let ?env = "sample_env\<lparr>e_decrypt_instance_password := (\<lambda>b _. Inr (bytes_text b))\<rparr>"
  let ?c = sample_bootstrap_claim
  have law: "password_cipher_law sample_env" by (rule sample_cipher_law)
  obtain job i where own: "owned_execution sample_bootstrapping ?c = Some (job, Some (RInstance i))"
    and prep: "prepare_bootstrap sample_env ?c ''example.org'' sample_bootstrapping
      = Inr (sample_bootstrapped, Some sample_preparation)" "bp_password sample_preparation = Some ''secret''"
    and own2: "owned_execution sample_bootstrapped ?c
      = Some (job, Some (RInstance (i\<lparr>i_password_candidate_enc := Some (text_bytes ''secret'')\<rparr>)))"
    using sample_bootstrap by blast
  have "e_decrypt_instance_password (sample_env\<lparr>e_token_urlsafe := ''other''\<rparr>) = e_decrypt_instance_password sample_env"
    by simp
  from bootstrap_password_survives_retry[OF law own prep own2 _ refl this] prep show ?thesis by auto
qed

text \<open>
  C24. The last deletion step leaves nothing behind: when it owns the instance, it succeeds
  in one transaction after which the instance, its members, workspaces, allocation, provider
  and template assignments are all gone and the job is finished.
\<close>

theorem removal_leaves_nothing:
  assumes "owned_execution d c = Some (job, Some (RInstance i))"
  shows "\<exists>d' job'. remove_local_configuration c now d = Inr (d', ''deleted'')
    \<and> instance_of d' (i_id i) = None
    \<and> \<not> exists_row (\<lambda>x. w_instance_id x = i_id i) (workspaces d')
    \<and> \<not> exists_row (\<lambda>m. m_instance_id m = i_id i) (members d')
    \<and> \<not> exists_row (\<lambda>a. al_instance_id a = i_id i) (database_allocations d')
    \<and> \<not> exists_row (\<lambda>p. k_instance_id p = i_id i) (instance_kubernetes_rows d')
    \<and> \<not> exists_row (\<lambda>a. ta_instance_id a = i_id i) (template_assignments d')
    \<and> job_of d' (c_job_id c) = Some job' \<and> j_status job' = SUCCESS \<and> j_claimed_at job' = None"
  by (rule remove_local_configuration_owned[OF assms])

theorem removal_leaves_nothing_witness:
  "\<exists>d'. remove_local_configuration sample_delete_claim 5 sample_deleting = Inr (d', ''deleted'')
     \<and> instance_of d' 7 = None \<and> \<not> exists_row (\<lambda>m. m_instance_id m = 7) (members d')"
proof -
  let ?job = "sample_job\<lparr>j_name := ''instance.delete'', j_task_name := INSTANCE_DELETE_STEP_04_TASK,
     j_step := INSTANCE_DELETE_STEP_04, j_status := RUNNING, j_attempt := 1, j_claimed_at := Some 10\<rparr>"
  let ?i = "sample_instance\<lparr>i_action := ''deleting'', i_step := Some INSTANCE_DELETE_STEP_04, i_status := RUNNING\<rparr>"
  have "owned_execution sample_deleting sample_delete_claim = Some (?job, Some (RInstance ?i))" by code_simp
  moreover have "i_id ?i = 7" by (simp add: sample_instance_def)
  ultimately show ?thesis using removal_leaves_nothing[of sample_deleting sample_delete_claim ?job ?i 5] by auto
qed

text \<open>
  The transaction that ends an update settles exactly the members that the update had
  claimed: those marked for deletion are gone, the others succeed, nobody else is touched and
  nobody claimed is left running. If another change is pending by then, a fresh job that can
  be claimed at once takes over; otherwise the instance is settled.
\<close>

theorem update_end_settles_members:
  assumes own: "owned_execution d c = Some (job, Some (RInstance i))"
    and fresh: "job_of d k = None" and uniq: "unique_by m_id (members d)"
  shows "\<exists>d' i'. instance_of d' (i_id i) = Some i'
    \<and> (\<forall>m\<in>set (members d). settles (i_id i) ids m \<longrightarrow>
         (if m_action m = ''deleting'' then \<forall>m'\<in>set (members d'). m_id m' \<noteq> m_id m
          else m\<lparr>m_status := SUCCESS\<rparr> \<in> set (members d')))
    \<and> (\<forall>m\<in>set (members d). \<not> settles (i_id i) ids m \<longrightarrow> m \<in> set (members d'))
    \<and> (\<forall>m\<in>set (members d'). m_instance_id m = i_id i \<longrightarrow> m_id m \<in> set ids \<longrightarrow> m_status m \<noteq> RUNNING)
    \<and> (if exists_row (\<lambda>m. m_instance_id m = i_id i \<and> m_status m = PENDING) (members d')
       then finalize_update c ids name k now d = Inr (d', ''pending'', Some (INSTANCE_UPDATE_STEP_01_TASK, k))
            \<and> i_status i' = PENDING \<and> claimable d' k INSTANCE_UPDATE_STEP_01_TASK
       else finalize_update c ids name k now d = Inr (d', ''success'', None) \<and> i_status i' = SUCCESS)"
proof -
  obtain d' i' where d': "instance_of d' (i_id i) = Some i'" "members d' = members (settle_members (i_id i) ids d)"
    and fin: "if exists_row (\<lambda>m. m_instance_id m = i_id i \<and> m_status m = PENDING) (members d')
       then finalize_update c ids name k now d = Inr (d', ''pending'', Some (INSTANCE_UPDATE_STEP_01_TASK, k))
            \<and> i_status i' = PENDING \<and> i_job_id i' = Some k \<and> claimable d' k INSTANCE_UPDATE_STEP_01_TASK
       else finalize_update c ids name k now d = Inr (d', ''success'', None)
            \<and> i_status i' = SUCCESS \<and> i_step i' = None"
    using finalize_update_owned[OF own fresh, of name ids now] by blast
  have kept: "m\<lparr>m_status := SUCCESS\<rparr> \<in> set (members d')"
    if "m \<in> set (members d)" "settles (i_id i) ids m" "m_action m \<noteq> ''deleting''" for m
    using that unfolding d'(2) in_settle_members by (intro bexI[of _ m]) simp_all
  have "\<forall>m\<in>set (members d). settles (i_id i) ids m \<longrightarrow>
         (if m_action m = ''deleting'' then \<forall>m'\<in>set (members d'). m_id m' \<noteq> m_id m
          else m\<lparr>m_status := SUCCESS\<rparr> \<in> set (members d'))"
    using kept settled_gone[OF uniq] unfolding d'(2) by simp
  moreover have "\<forall>m\<in>set (members d). \<not> settles (i_id i) ids m \<longrightarrow> m \<in> set (members d')"
    using settled_others unfolding d'(2) by blast
  moreover have "\<forall>m\<in>set (members d'). m_instance_id m = i_id i \<longrightarrow> m_id m \<in> set ids \<longrightarrow> m_status m \<noteq> RUNNING"
    using settled_not_running unfolding d'(2) by blast
  ultimately show ?thesis using d'(1) fin by (intro exI[of _ d'] exI[of _ i']) (simp split: if_splits)
qed

theorem update_end_settles_members_witness:
  "\<exists>d'. finalize_update sample_update_claim [20, 21] ''coder-abc'' 99 5 sample_updating
      = Inr (d', ''pending'', Some (INSTANCE_UPDATE_STEP_01_TASK, 99))
    \<and> sample_member 20 ''ann'' ''creating'' SUCCESS \<in> set (members d')
    \<and> (\<forall>m'\<in>set (members d'). m_id m' \<noteq> 21)"
proof -
  let ?job = "sample_job\<lparr>j_name := ''instance.update'', j_task_name := INSTANCE_UPDATE_STEP_02_TASK,
     j_step := INSTANCE_UPDATE_STEP_02, j_status := RUNNING, j_attempt := 1, j_claimed_at := Some 10\<rparr>"
  let ?i = "sample_instance\<lparr>i_action := ''updating'', i_step := Some INSTANCE_UPDATE_STEP_02, i_status := RUNNING\<rparr>"
  let ?ann = "sample_member 20 ''ann'' ''creating'' RUNNING"
  let ?bob = "sample_member 21 ''bob'' ''deleting'' RUNNING"
  let ?cid = "sample_member 22 ''cid'' ''creating'' PENDING"
  have own: "owned_execution sample_updating sample_update_claim = Some (?job, Some (RInstance ?i))"
    and fresh: "job_of sample_updating 99 = None" and uniq: "unique_by m_id (members sample_updating)"
    by code_simp+
  have id: "i_id ?i = 7" by (simp add: sample_instance_def)
  have mem: "?ann \<in> set (members sample_updating)" "?bob \<in> set (members sample_updating)"
    "?cid \<in> set (members sample_updating)"
    by (simp_all add: sample_updating_def)
  have set: "settles 7 [20, 21] ?ann" "settles 7 [20, 21] ?bob" "\<not> settles 7 [20, 21] ?cid"
    "m_action ?ann \<noteq> ''deleting''" "m_action ?bob = ''deleting''"
    "m_instance_id ?cid = 7 \<and> m_status ?cid = PENDING"
    by code_simp+
  obtain d' and i' :: inst where d': "\<forall>m\<in>set (members sample_updating). settles 7 [20, 21] m \<longrightarrow>
         (if m_action m = ''deleting'' then \<forall>m'\<in>set (members d'). m_id m' \<noteq> m_id m
          else m\<lparr>m_status := SUCCESS\<rparr> \<in> set (members d'))"
     "\<forall>m\<in>set (members sample_updating). \<not> settles 7 [20, 21] m \<longrightarrow> m \<in> set (members d')"
     "if exists_row (\<lambda>m. m_instance_id m = 7 \<and> m_status m = PENDING) (members d')
      then finalize_update sample_update_claim [20, 21] ''coder-abc'' 99 5 sample_updating
             = Inr (d', ''pending'', Some (INSTANCE_UPDATE_STEP_01_TASK, 99))
           \<and> i_status i' = PENDING \<and> claimable d' 99 INSTANCE_UPDATE_STEP_01_TASK
      else finalize_update sample_update_claim [20, 21] ''coder-abc'' 99 5 sample_updating
             = Inr (d', ''success'', None) \<and> i_status i' = SUCCESS"
    using update_end_settles_members[OF own fresh uniq, where ids = "[20, 21]"
          and name = "''coder-abc''" and now = 5, unfolded id]
    by (elim exE conjE) (rule that)
  have ann: "?ann\<lparr>m_status := SUCCESS\<rparr> \<in> set (members d')" using d'(1) mem(1) set by auto
  have bob: "\<forall>m'\<in>set (members d'). m_id m' \<noteq> m_id ?bob" using d'(1) mem(2) set by auto
  have "?cid \<in> set (members d')" using d'(2) mem(3) set by blast
  with set have "exists_row (\<lambda>m. m_instance_id m = 7 \<and> m_status m = PENDING) (members d')"
    by (auto simp: exists_row_iff)
  with d'(3) ann bob show ?thesis by (auto simp: sample_member_def)
qed

text \<open>
  The account cleanup never removes somebody who should stay: the set of usernames it
  is told to keep contains every member of the instance except those whose deletion this
  very update has claimed, and it always contains the administrator and the configured
  default administrators.
\<close>

theorem cleanup_spares_active_members:
  assumes cc: "claim_cleanup c d = Inr (d', ids, expected, app)" and k: "c_resource_id c = Some k"
    and uniq: "unique_by m_id (members d)" and m: "m \<in> set (members d)" "m_instance_id m = k"
    and removable: "m_username m \<notin> set (expected @ ADMIN_USERNAME # default_admins)"
  shows "m_action m = ''deleting'' \<and> m_status m \<in> {RUNNING, ERROR} \<and> m_id m \<in> set ids
    \<and> m_username m \<noteq> ADMIN_USERNAME \<and> m_username m \<notin> set default_admins"
  using claim_cleanup_spares[OF cc k m uniq] removable by auto

theorem cleanup_spares_active_members_witness:
  "m_id (sample_member 21 ''bob'' ''deleting'' RUNNING) \<in> set [20, 21]"
proof -
  have cc: "claim_cleanup sample_update_claim sample_updating
      = Inr (sample_updating, [20, 21], [''ann'', ''cid''], ''coder-abc'')"
    by code_simp
  have "unique_by m_id (members sample_updating)" by code_simp
  moreover have "sample_member 21 ''bob'' ''deleting'' RUNNING \<in> set (members sample_updating)"
    by (simp add: sample_updating_def)
  moreover have "c_resource_id sample_update_claim = Some 7" by (simp add: sample_running_claim_def)
  ultimately show ?thesis
    using cleanup_spares_active_members[OF cc, of 7 "sample_member 21 ''bob'' ''deleting'' RUNNING" "[''root'']"]
    by (auto simp: sample_member_def ADMIN_USERNAME_def)
qed



text \<open>
  C26. Paging through the instances loses and repeats nothing: for any filter, the first
  \<open>n\<close> pages put together are the first \<open>n\<close> times \<open>page_size\<close> matching rows in the order of
  the listing, no page is longer than \<open>page_size\<close>, and the reported total is their number.
\<close>

theorem instance_pages_partition:
  assumes "0 \<le> page_size"
    and rows: "rows = sort_key (\<lambda>i. (i_application i, i_id i)) (filter (\<lambda>i.
            (case application of None \<Rightarrow> True | Some a \<Rightarrow> i_application i = a)
            \<and> (case database_id of None \<Rightarrow> True
               | Some k \<Rightarrow> exists_row (\<lambda>a. al_instance_id a = i_id i \<and> al_database_id a = k) (database_allocations d)))
          (instances d))"
  shows "concat (map (\<lambda>p. fst (list_instances (int p) page_size application database_id d)) [1..<Suc n])
        = take (n * nat page_size) rows
    \<and> int (length (fst (list_instances page page_size application database_id d))) \<le> page_size
    \<and> snd (list_instances page page_size application database_id d) = int (length rows)"
proof -
  have list: "list_instances p page_size application database_id d
      = (page_slice p page_size rows, int (length rows))" for p
    unfolding rows by (cases application; cases database_id)
       (simp_all add: list_instances_def Let_def conj_commute filter_filter)
  show ?thesis
    unfolding list fst_conv snd_conv
    using concat_pages[OF assms(1), of rows n] length_page_slice[OF assms(1), of page rows] by blast
qed

theorem instance_pages_partition_witness:
  "concat (map (\<lambda>p. fst (list_instances (int p) 1 (Some ''APP'') None sample_idle)) [1..<2]) = instances sample_idle"
proof -
  have "concat (map (\<lambda>p. fst (list_instances (int p) 1 (Some ''APP'') None sample_idle)) [1..<Suc 1])
      = take (1 * nat 1) (instances sample_idle)"
    using instance_pages_partition[where page_size = 1 and rows = "instances sample_idle"
        and application = "Some ''APP''" and database_id = None and d = sample_idle and n = 1]
    by (simp add: sample_idle_def sample_instance_def)
  then show ?thesis by (simp add: sample_idle_def numeral_2_eq_2)
qed

end
